(* ===== verification/Prelude.thy ===== *)
theory Prelude
  imports Main "HOL-Library.AList" "HOL-Library.Char_ord" "HOL-Library.List_Lexorder"
    "HOL-Library.Sublist"
begin

text \<open>
  The vocabulary every component of the development shares.

  \<^item> A Python \<open>str\<close> is a \<open>string\<close>: a list of characters, each one code point in the range
    0 to 255. The string methods the code calls (\<open>lower\<close>, \<open>strip\<close>, \<open>partition\<close>, \<open>split\<close>,
    \<open>startswith\<close>, slices) are exact on that range.
  \<^item> A Python \<open>dict\<close> is an association list, updated in place or extended at the end
    (\<open>AList.update\<close>), which keeps CPython's insertion order.
  \<^item> A dynamically typed value (a JSON column, a provider's raw update, a classifier's answer)
    is a \<open>json\<close>. Numbers are integers.
  \<^item> A \<open>datetime\<close> is its UTC instant in microseconds, an \<open>int\<close>. The helpers of the code that only
    attach UTC to a naive value are the identity here.
  \<^item> A database table is the list of its rows in primary-key order.
  \<^item> An exception is the left value of a sum.
\<close>

named_theorems str_simps \<open>evaluation and algebra of the Python string methods\<close>
named_theorems table_simps \<open>lookup after update and insertion in a table\<close>

type_synonym time = int
type_synonym 'a dict = "(string \<times> 'a) list"

section \<open>Exceptions\<close>

text \<open>The exception classes the modelled code raises or catches.\<close>

datatype exn =
    ValueError string
  | TypeError
  | KeyError
  | ValidationRejected
  | IngestNotAllowed string
  | IngestInfrastructureError
  | NotFound string
  | TenantMismatch string
  | IdentityConflict
  | ProviderMismatch
  | UnknownProvider
  | UnknownChannelType
  | ChannelNotReady string
  | IntegrityError
  | OperationalError
  | NotLockable string
  | LockHeld
  | AnalysisError
  | EnterpriseFeatureRequired string
  | HTTPException nat
  | OtherError

type_synonym 'a res = "exn + 'a"

text \<open>Sequencing of computations that may raise.\<close>

definition bindr :: "'a res \<Rightarrow> ('a \<Rightarrow> 'b res) \<Rightarrow> 'b res" where
  "bindr r f = (case r of Inl e \<Rightarrow> Inl e | Inr x \<Rightarrow> f x)"

lemma bindr_Inr [simp]: "bindr r f = Inr y \<longleftrightarrow> (\<exists>x. r = Inr x \<and> f x = Inr y)"
  by (auto simp: bindr_def split: sum.splits)

lemma bindr_simps [simp]: "bindr (Inl e) f = Inl e" "bindr (Inr x) f = f x"
  by (simp_all add: bindr_def)

section \<open>Characters and strings\<close>

definition is_ws :: "char \<Rightarrow> bool" where
  "is_ws c = (let n = of_char c :: nat in
     (9 \<le> n \<and> n \<le> 13) \<or> (28 \<le> n \<and> n \<le> 32) \<or> n = 133 \<or> n = 160)"

definition is_digit :: "char \<Rightarrow> bool" where
  "is_digit c = (let n = of_char c :: nat in 48 \<le> n \<and> n \<le> 57)"

definition is_upper :: "char \<Rightarrow> bool" where
  "is_upper c = (let n = of_char c :: nat in 65 \<le> n \<and> n \<le> 90)"

definition is_lower :: "char \<Rightarrow> bool" where
  "is_lower c = (let n = of_char c :: nat in 97 \<le> n \<and> n \<le> 122)"

definition is_alpha :: "char \<Rightarrow> bool" where
  "is_alpha c = (is_upper c \<or> is_lower c)"

definition is_alnum :: "char \<Rightarrow> bool" where
  "is_alnum c = (is_alpha c \<or> is_digit c)"

text \<open>\<open>str.lower\<close> on one code point: the ASCII and the Latin-1 capitals.\<close>

definition char_lower :: "char \<Rightarrow> char" where
  "char_lower c = (let n = of_char c :: nat in
     if (65 \<le> n \<and> n \<le> 90) \<or> (192 \<le> n \<and> n \<le> 222 \<and> n \<noteq> 215) then char_of (n + 32) else c)"

definition str_lower :: "string \<Rightarrow> string" where
  "str_lower s = map char_lower s"

definition str_lstrip :: "string \<Rightarrow> string" where
  "str_lstrip s = dropWhile is_ws s"

definition str_rstrip :: "string \<Rightarrow> string" where
  "str_rstrip s = rev (dropWhile is_ws (rev s))"

definition str_strip :: "string \<Rightarrow> string" where
  "str_strip s = str_rstrip (str_lstrip s)"

definition startswith :: "string \<Rightarrow> string \<Rightarrow> bool" where
  "startswith s p = (take (length p) s = p)"

definition endswith :: "string \<Rightarrow> string \<Rightarrow> bool" where
  "endswith s p = (length p \<le> length s \<and> drop (length s - length p) s = p)"

text \<open>\<open>p in s\<close> for strings.\<close>

fun str_contains :: "string \<Rightarrow> string \<Rightarrow> bool" where
  "str_contains p [] = (p = [])"
| "str_contains p (c # s) = (startswith (c # s) p \<or> str_contains p s)"

text \<open>\<open>s.partition(c)\<close> without the separator: the text before the first \<open>c\<close> and after it.\<close>

definition partition_before :: "char \<Rightarrow> string \<Rightarrow> string" where
  "partition_before c s = takeWhile (\<lambda>x. x \<noteq> c) s"

definition partition_after :: "char \<Rightarrow> string \<Rightarrow> string" where
  "partition_after c s = tl (dropWhile (\<lambda>x. x \<noteq> c) s)"

fun str_split :: "char \<Rightarrow> string \<Rightarrow> string list" where
  "str_split c [] = [[]]"
| "str_split c (x # s) =
     (if x = c then [] # str_split c s
      else (case str_split c s of [] \<Rightarrow> [[x]] | w # ws \<Rightarrow> (x # w) # ws))"

definition join :: "string \<Rightarrow> string list \<Rightarrow> string" where
  "join sep ws = concat (case ws of [] \<Rightarrow> [] | w # ws' \<Rightarrow> w # map ((@) sep) ws')"

fun nat_str :: "nat \<Rightarrow> string" where
  "nat_str n = (if n < 10 then [char_of (48 + n)] else nat_str (n div 10) @ [char_of (48 + n mod 10)])"

declare nat_str.simps [simp del]

definition int_str :: "int \<Rightarrow> string" where
  "int_str i = (if i < 0 then CHR ''-'' # nat_str (nat (- i)) else nat_str (nat i))"


definition digit_val :: "char \<Rightarrow> nat" where
  "digit_val c = of_char c - 48"

text \<open>
  The digits of \<open>int(s)\<close>: at least one, single underscores allowed between two of them. The
  flag says whether the last character read was a digit.
\<close>

fun parse_digits :: "bool \<Rightarrow> nat \<Rightarrow> string \<Rightarrow> nat option" where
  "parse_digits after_digit acc [] = (if after_digit then Some acc else None)"
| "parse_digits after_digit acc (c # s) =
     (if is_digit c then parse_digits True (10 * acc + digit_val c) s
      else if c = CHR ''_'' \<and> after_digit then parse_digits False acc s
      else None)"

definition parse_int :: "string \<Rightarrow> int option" where
  "parse_int s = (case str_strip s of
       [] \<Rightarrow> None
     | c # cs \<Rightarrow>
         if c = CHR ''-'' then map_option (\<lambda>n. - int n) (parse_digits False 0 cs)
         else if c = CHR ''+'' then map_option int (parse_digits False 0 cs)
         else map_option int (parse_digits False 0 (c # cs)))"

text \<open>\<open>str.isdigit\<close> also accepts the Latin-1 superscripts, which \<open>int\<close> refuses.\<close>

definition is_superscript :: "char \<Rightarrow> bool" where
  "is_superscript c = (of_char c \<in> {178, 179, 185 :: nat})"

definition str_isdigit :: "string \<Rightarrow> bool" where
  "str_isdigit s = (s \<noteq> [] \<and> list_all (\<lambda>c. is_digit c \<or> is_superscript c) s)"

section \<open>Dynamically typed values\<close>

datatype json =
    JNull
  | JBool bool
  | JInt int
  | JStr string
  | JList "json list"
  | JObj "(string \<times> json) list"

fun truthy :: "json \<Rightarrow> bool" where
  "truthy JNull = False"
| "truthy (JBool b) = b"
| "truthy (JInt i) = (i \<noteq> 0)"
| "truthy (JStr s) = (s \<noteq> [])"
| "truthy (JList xs) = (xs \<noteq> [])"
| "truthy (JObj d) = (d \<noteq> [])"

text \<open>\<open>a or b\<close>, \<open>d.get(k)\<close> and the dictionary behind a value (empty when it is none).\<close>

definition jor :: "json \<Rightarrow> json \<Rightarrow> json" where
  "jor a b = (if truthy a then a else b)"

definition jget :: "json dict \<Rightarrow> string \<Rightarrow> json" where
  "jget d k = (case map_of d k of None \<Rightarrow> JNull | Some v \<Rightarrow> v)"

fun jdict :: "json \<Rightarrow> json dict" where
  "jdict (JObj d) = d"
| "jdict _ = []"

fun is_obj :: "json \<Rightarrow> bool" where
  "is_obj (JObj d) = True"
| "is_obj _ = False"

fun is_str :: "json \<Rightarrow> bool" where
  "is_str (JStr s) = True"
| "is_str _ = False"

fun jlist :: "json \<Rightarrow> json list" where
  "jlist (JList xs) = xs"
| "jlist _ = []"

subsection \<open>\<open>str(v)\<close>, \<open>repr(v)\<close> and \<open>int(v)\<close>\<close>

definition hex_digit :: "nat \<Rightarrow> char" where
  "hex_digit n = char_of (if n < 10 then 48 + n else 87 + n)"

definition repr_char :: "char \<Rightarrow> char \<Rightarrow> string" where
  "repr_char q c = (let n = of_char c :: nat in
     if n = 92 \<or> c = q then [CHR 0x5C, c]
     else if n = 10 then [CHR 0x5C, CHR ''n'']
     else if n = 13 then [CHR 0x5C, CHR ''r'']
     else if n = 9 then [CHR 0x5C, CHR ''t'']
     else if n < 32 \<or> (127 \<le> n \<and> n \<le> 160) \<or> n = 173
       then [CHR 0x5C, CHR ''x'', hex_digit (n div 16), hex_digit (n mod 16)]
     else [c])"

definition repr_str :: "string \<Rightarrow> string" where
  "repr_str s =
     (let q = (if CHR 0x27 \<in> set s \<and> CHR 0x22 \<notin> set s then CHR 0x22 else CHR 0x27)
      in q # concat (map (repr_char q) s) @ [q])"

fun py_repr :: "json \<Rightarrow> string" where
  "py_repr JNull = ''None''"
| "py_repr (JBool b) = (if b then ''True'' else ''False'')"
| "py_repr (JInt i) = int_str i"
| "py_repr (JStr s) = repr_str s"
| "py_repr (JList xs) = ''['' @ join '', '' (map py_repr xs) @ '']''"
| "py_repr (JObj d) =
     ''{'' @ join '', '' (map (\<lambda>kv. repr_str (fst kv) @ '': '' @ py_repr (snd kv)) d) @ ''}''"

fun py_str :: "json \<Rightarrow> string" where
  "py_str (JStr s) = s"
| "py_str v = py_repr v"

fun py_int :: "json \<Rightarrow> int res" where
  "py_int (JInt i) = Inr i"
| "py_int (JBool b) = Inr (if b then 1 else 0)"
| "py_int (JStr s) = (case parse_int s of None \<Rightarrow> Inl (ValueError s) | Some i \<Rightarrow> Inr i)"
| "py_int _ = Inl TypeError"


section \<open>Facts about strings\<close>

lemma char_lower_idem [simp]: "char_lower (char_lower c) = char_lower c"
  by (auto simp: char_lower_def Let_def)

lemma is_ws_char_lower [simp]: "is_ws (char_lower c) = is_ws c"
  by (auto simp: is_ws_def char_lower_def Let_def)

lemma str_lower_idem [simp]: "str_lower (str_lower s) = str_lower s"
  by (simp add: str_lower_def comp_def)

lemma length_str_lower [simp]: "length (str_lower s) = length s"
  by (simp add: str_lower_def)

lemma str_lower_Nil_iff [simp]: "str_lower s = [] \<longleftrightarrow> s = []"
  by (simp add: str_lower_def)

lemma dropWhile_idem: "dropWhile P (dropWhile P xs) = dropWhile P xs"
  by (induction xs) auto

lemma dropWhile_rev_dropWhile:
  "dropWhile P (rev (dropWhile P (rev (dropWhile P xs)))) = rev (dropWhile P (rev (dropWhile P xs)))"
proof (cases "dropWhile P xs")
  case Nil
  show ?thesis unfolding Nil by simp
next
  case (Cons y ys)
  then have y: "\<not> P y" by (metis hd_dropWhile list.discI list.sel(1))
  show ?thesis
  proof (cases "rev (dropWhile P (rev (y # ys)))")
    case Nil
    then show ?thesis using Cons by (metis dropWhile.simps(1) rev.simps(1))
  next
    case (Cons z zs)
    have "prefix (rev (dropWhile P (rev (y # ys)))) (y # ys)"
      by (metis rev_rev_ident suffix_dropWhile suffix_to_prefix)
    with Cons have "z = y" by simp
    with y Cons show ?thesis using \<open>dropWhile P xs = y # ys\<close> by simp
  qed
qed

lemma str_strip_idem [simp]: "str_strip (str_strip s) = str_strip s"
  unfolding str_strip_def str_lstrip_def str_rstrip_def
  by (simp only: dropWhile_rev_dropWhile rev_rev_ident dropWhile_idem)

lemma dropWhile_map_lower: "dropWhile is_ws (map char_lower s) = map char_lower (dropWhile is_ws s)"
  by (induction s) auto

lemma str_strip_lower: "str_strip (str_lower s) = str_lower (str_strip s)"
  by (simp add: str_strip_def str_lstrip_def str_rstrip_def str_lower_def dropWhile_map_lower
      rev_map)

text \<open>\<open>str(v or "").strip().lower()\<close>, the normal form of names and identifiers all over the code.\<close>

definition norm :: "string \<Rightarrow> string" where
  "norm s = str_lower (str_strip s)"

lemma norm_idem [simp]: "norm (norm s) = norm s"
  by (simp add: norm_def str_strip_lower)

lemma norm_empty [simp]: "norm [] = []"
  by (simp add: norm_def str_strip_def str_lstrip_def str_rstrip_def)

subsection \<open>Splitting and joining\<close>

lemma str_split_ne [simp]: "str_split c s \<noteq> []"
  by (induction s) (auto split: list.splits)

lemma join_Cons_Cons: "join sep (w # v # ws) = w @ sep @ join sep (v # ws)"
  by (simp add: join_def)

lemma join_single [simp]: "join sep [w] = w"
  by (simp add: join_def)

lemma str_split_no_sep: "c \<notin> set w \<Longrightarrow> str_split c w = [w]"
  by (induction w) auto

lemma str_split_append: "c \<notin> set w \<Longrightarrow> str_split c (w @ c # s) = w # str_split c s"
  by (induction w) auto

lemma str_split_join:
  "ws \<noteq> [] \<Longrightarrow> \<forall>w \<in> set ws. c \<notin> set w \<Longrightarrow> str_split c (join [c] ws) = ws"
proof (induction ws)
  case Nil
  then show ?case by simp
next
  case (Cons w ws)
  then show ?case
    by (cases ws) (auto simp: str_split_no_sep str_split_append join_Cons_Cons)
qed

text \<open>Joining with a separator no part contains loses nothing.\<close>

lemma join_inj:
  assumes "ws \<noteq> []" "vs \<noteq> []" "\<forall>w \<in> set ws. c \<notin> set w" "\<forall>v \<in> set vs. c \<notin> set v"
    and "join [c] ws = join [c] vs"
  shows "ws = vs"
  using assms by (metis str_split_join)

subsection \<open>Decimal numerals\<close>

lemma digit_val_of_char: "n < (10::nat) \<Longrightarrow> digit_val (char_of (48 + n)) = n"
  by (simp add: digit_val_def)

lemma is_digit_of_char: "n < (10::nat) \<Longrightarrow> is_digit (char_of (48 + n))"
  by (simp add: is_digit_def)

lemma nat_str_digits: "c \<in> set (nat_str n) \<Longrightarrow> is_digit c"
proof (induction n rule: nat_str.induct)
  case (1 n)
  then show ?case
    by (subst (asm) nat_str.simps) (auto split: if_splits simp: is_digit_of_char)
qed

lemma nat_str_ne [simp]: "nat_str n \<noteq> []"
  by (subst nat_str.simps) simp

definition digits_val :: "string \<Rightarrow> nat" where
  "digits_val s = foldl (\<lambda>a c. 10 * a + digit_val c) 0 s"

lemma digits_val_nat_str [simp]: "digits_val (nat_str n) = n"
proof (induction n rule: nat_str.induct)
  case (1 n)
  show ?case
  proof (cases "n < 10")
    case True
    then show ?thesis by (subst nat_str.simps) (simp add: digits_val_def digit_val_of_char)
  next
    case False
    with 1 have "digits_val (nat_str (n div 10)) = n div 10" by simp
    with False show ?thesis
      by (subst nat_str.simps) (simp add: digits_val_def digit_val_of_char)
  qed
qed

lemma nat_str_inj: "nat_str m = nat_str n \<Longrightarrow> m = n"
  by (metis digits_val_nat_str)

lemma digit_not_minus: "is_digit c \<Longrightarrow> c \<noteq> CHR ''-''"
  by (auto simp: is_digit_def)

lemma int_str_inj: "int_str i = int_str j \<Longrightarrow> i = j"
proof -
  assume eq: "int_str i = int_str j"
  have minus: "nat_str n \<noteq> CHR ''-'' # s" for n s
    by (metis digit_not_minus list.set_intros(1) nat_str_digits)
  show ?thesis
    using eq minus minus [symmetric]
    by (auto simp: int_str_def split: if_splits dest!: nat_str_inj)
qed

lemma int_str_chars: "c \<in> set (int_str i) \<Longrightarrow> is_digit c \<or> c = CHR ''-''"
  by (auto simp: int_str_def nat_str_digits split: if_splits)

lemma int_str_no_bar [simp]: "CHR ''|'' \<notin> set (int_str i)"
  using int_str_chars [of "CHR ''|''" i] by (auto simp: is_digit_def)


section \<open>Dictionaries\<close>

lemma jget_update [simp]: "jget (AList.update k v d) k' = (if k' = k then v else jget d k')"
  by (simp add: jget_def update_conv')

lemma jget_Nil [simp]: "jget [] k = JNull"
  by (simp add: jget_def)

lemma jget_Cons [simp]: "jget ((k, v) # d) k' = (if k' = k then v else jget d k')"
  by (simp add: jget_def)

definition dict_keys :: "'a dict \<Rightarrow> string list" where
  "dict_keys d = map fst d"

lemma dict_keys_simps [simp]: "dict_keys [] = []" "dict_keys ((k, v) # d) = k # dict_keys d"
  by (simp_all add: dict_keys_def)

lemma dict_keys_append [simp]: "dict_keys (d @ d') = dict_keys d @ dict_keys d'"
  by (simp add: dict_keys_def)

lemma in_set_update: "kv \<in> set (AList.update k v d) \<Longrightarrow> kv = (k, v) \<or> kv \<in> set d"
  by (induction d) (auto split: if_splits)

lemma set_keys_update [simp]: "set (dict_keys (AList.update k v d)) = insert k (set (dict_keys d))"
  using dom_update [of k v d] by (simp add: dict_keys_def)

lemma distinct_keys_update [simp]: "distinct (dict_keys d) \<Longrightarrow> distinct (dict_keys (AList.update k v d))"
  by (simp add: dict_keys_def distinct_update)

lemma set_keys_delete [simp]: "set (dict_keys (AList.delete k d)) = set (dict_keys d) - {k}"
  unfolding dict_keys_def delete_keys by simp

lemma distinct_keys_delete [simp]: "distinct (dict_keys d) \<Longrightarrow> distinct (dict_keys (AList.delete k d))"
  by (simp add: dict_keys_def distinct_delete)

lemma map_of_None_keys: "map_of d k = None \<longleftrightarrow> k \<notin> set (dict_keys d)"
  by (simp add: dict_keys_def map_of_eq_None_iff)

text \<open>\<open>{**a, **b}\<close>: the entries of \<open>b\<close> over those of \<open>a\<close>.\<close>

definition dict_merge :: "'a dict \<Rightarrow> 'a dict \<Rightarrow> 'a dict" where
  "dict_merge a b = foldl (\<lambda>d kv. AList.update (fst kv) (snd kv) d) a b"

lemma map_of_foldl_update:
  "map_of (foldl (\<lambda>d kv. AList.update (fst kv) (snd kv) d) a b) = map_of a ++ map_of (rev b)"
proof (induction b rule: rev_induct)
  case Nil
  then show ?case by simp
next
  case (snoc kv b)
  then show ?case by (auto simp: update_conv' map_add_def fun_eq_iff split: option.splits)
qed

lemma map_of_rev_distinct: "distinct (map fst b) \<Longrightarrow> map_of (rev b) = map_of b"
  by (metis distinct_rev map_of_inject_set rev_map set_rev)

lemma map_of_dict_merge:
  "distinct (map fst b) \<Longrightarrow> map_of (dict_merge a b) = map_of a ++ map_of b"
  by (simp add: dict_merge_def map_of_foldl_update map_of_rev_distinct)

text \<open>\<open>list(dict.fromkeys(xs))\<close>: the first occurrence of each element, in order.\<close>

fun fromkeys :: "'a list \<Rightarrow> 'a list" where
  "fromkeys [] = []"
| "fromkeys (x # xs) = x # removeAll x (fromkeys xs)"

lemma set_fromkeys [simp]: "set (fromkeys xs) = set xs"
  by (induction xs) auto

lemma distinct_fromkeys [simp]: "distinct (fromkeys xs)"
  by (induction xs) (auto simp: distinct_removeAll)

lemma length_fromkeys: "length (fromkeys xs) \<le> length xs"
proof (induction xs)
  case (Cons x xs)
  have "length (removeAll x (fromkeys xs)) \<le> length (fromkeys xs)"
    by (rule length_removeAll_less_eq)
  with Cons have "length (removeAll x (fromkeys xs)) \<le> length xs"
    by (rule order_trans [rotated])
  then show ?case by simp
qed simp

text \<open>The last \<open>n\<close> elements, \<open>xs[-n:]\<close> for \<open>n > 0\<close>.\<close>

definition last_n :: "nat \<Rightarrow> 'a list \<Rightarrow> 'a list" where
  "last_n n xs = drop (length xs - n) xs"

lemma length_last_n: "length (last_n n xs) = min n (length xs)"
  by (simp add: last_n_def)

lemma set_last_n: "set (last_n n xs) \<subseteq> set xs"
  by (simp add: last_n_def set_drop_subset)

lemma distinct_last_n [simp]: "distinct xs \<Longrightarrow> distinct (last_n n xs)"
  by (simp add: last_n_def)

section \<open>Tables\<close>

text \<open>
  The contract of a database table, as the components use it: look a row up by its primary key,
  modify one row in place, append a row under a fresh key.
\<close>

locale row_store =
  fixes rid :: "'r \<Rightarrow> int"
    and rows :: "'t \<Rightarrow> 'r list"
    and lookup :: "int \<Rightarrow> 't \<Rightarrow> 'r option"
    and modify :: "int \<Rightarrow> ('r \<Rightarrow> 'r) \<Rightarrow> 't \<Rightarrow> 't"
    and append_row :: "'r \<Rightarrow> 't \<Rightarrow> 't"
    and fresh :: "'t \<Rightarrow> int"
    and inv :: "'t \<Rightarrow> bool"
  assumes lookup_rows: "inv t \<Longrightarrow> (lookup i t = Some r) = (r \<in> set (rows t) \<and> rid r = i)"
    and rows_modify: "rows (modify i f t) = map (\<lambda>r. if rid r = i then f r else r) (rows t)"
    and rows_append: "rows (append_row r t) = rows t @ [r]"
    and fresh_new: "r \<in> set (rows t) \<Longrightarrow> rid r \<noteq> fresh t"
    and inv_modify: "inv t \<Longrightarrow> (\<And>r. rid (f r) = rid r) \<Longrightarrow> inv (modify i f t)"
    and inv_append: "inv t \<Longrightarrow> rid r = fresh t \<Longrightarrow> inv (append_row r t)"
begin

lemma lookup_None: "inv t \<Longrightarrow> (lookup i t = None) = (\<forall>r \<in> set (rows t). rid r \<noteq> i)"
  by (metis lookup_rows not_None_eq)

lemma lookup_fresh: "inv t \<Longrightarrow> lookup (fresh t) t = None"
  by (auto simp: lookup_None fresh_new)

lemma lookup_modify:
  assumes "inv t" "\<And>r. rid (f r) = rid r"
  shows "lookup j (modify i f t) = (if j = i then map_option f (lookup j t) else lookup j t)"
proof (cases "lookup j t")
  case None
  with assms have "lookup j (modify i f t) = None"
    by (auto simp: lookup_None inv_modify rows_modify)
  with None show ?thesis by auto
next
  case (Some r)
  with assms(1) have r: "r \<in> set (rows t)" "rid r = j" by (auto simp: lookup_rows)
  have "lookup j (modify i f t) = Some (if rid r = i then f r else r)"
    using assms r by (auto simp: lookup_rows inv_modify rows_modify)
  with Some r show ?thesis by auto
qed

lemma lookup_append:
  assumes "inv t" "rid r = fresh t"
  shows "lookup j (append_row r t) = (if j = rid r then Some r else lookup j t)"
proof (cases "j = rid r")
  case True
  with assms show ?thesis by (auto simp: lookup_rows inv_append rows_append)
next
  case False
  show ?thesis
  proof (cases "lookup j t")
    case None
    with assms False have "lookup j (append_row r t) = None"
      by (auto simp: lookup_None inv_append rows_append)
    with None False show ?thesis by simp
  next
    case (Some r')
    with assms have "r' \<in> set (rows t)" "rid r' = j" by (auto simp: lookup_rows)
    with assms False have "lookup j (append_row r t) = Some r'"
      by (simp add: lookup_rows inv_append rows_append)
    with Some False show ?thesis by simp
  qed
qed

lemma rows_modify_all:
  assumes "\<forall>r \<in> set (rows t). P r" "\<And>r. P r \<Longrightarrow> P (f r)"
  shows "\<forall>r \<in> set (rows (modify i f t)). P r"
  using assms by (auto simp: rows_modify)

end

text \<open>The model's tables: lists of rows with distinct keys.\<close>

definition find_row :: "('r \<Rightarrow> int) \<Rightarrow> int \<Rightarrow> 'r list \<Rightarrow> 'r option" where
  "find_row rid i rs = find (\<lambda>r. rid r = i) rs"

definition upd_row :: "('r \<Rightarrow> int) \<Rightarrow> int \<Rightarrow> ('r \<Rightarrow> 'r) \<Rightarrow> 'r list \<Rightarrow> 'r list" where
  "upd_row rid i f rs = map (\<lambda>r. if rid r = i then f r else r) rs"

definition next_id :: "('r \<Rightarrow> int) \<Rightarrow> 'r list \<Rightarrow> int" where
  "next_id rid rs = 1 + foldr (\<lambda>r m. max (rid r) m) rs 0"

definition keyed :: "('r \<Rightarrow> int) \<Rightarrow> 'r list \<Rightarrow> bool" where
  "keyed rid rs = distinct (map rid rs)"

lemma next_id_gt: "r \<in> set rs \<Longrightarrow> rid r < next_id rid rs"
  unfolding next_id_def by (induction rs) auto

lemma find_row_Some:
  "keyed rid rs \<Longrightarrow> (find_row rid i rs = Some r) = (r \<in> set rs \<and> rid r = i)"
  by (induction rs) (auto simp: find_row_def keyed_def)

lemma find_row_SomeD: "find_row rid i rs = Some r \<Longrightarrow> r \<in> set rs \<and> rid r = i"
  by (auto simp: find_row_def find_Some_iff)

lemma keyed_upd_row: "(\<And>r. rid (f r) = rid r) \<Longrightarrow> keyed rid (upd_row rid i f rs) = keyed rid rs"
  by (simp add: keyed_def upd_row_def comp_def if_distrib cong: if_cong)

lemma keyed_append: "keyed rid rs \<Longrightarrow> rid r = next_id rid rs \<Longrightarrow> keyed rid (rs @ [r])"
  using next_id_gt [of _ rs rid] by (fastforce simp: keyed_def)

interpretation rowlist: row_store rid "\<lambda>rs. rs" "find_row rid" "upd_row rid" "\<lambda>r rs. rs @ [r]"
    "next_id rid" "keyed rid" for rid :: "'r \<Rightarrow> int"
  by unfold_locales
    (auto simp: find_row_Some upd_row_def keyed_upd_row [unfolded upd_row_def] keyed_append
      dest: next_id_gt [THEN less_imp_neq])

lemma find_row_upd [table_simps]:
  "(\<And>r. rid (f r) = rid r) \<Longrightarrow>
   find_row rid j (upd_row rid i f rs) = (if j = i then map_option f (find_row rid j rs) else find_row rid j rs)"
  by (induction rs) (auto simp: find_row_def upd_row_def)

lemma set_upd_row: "set (upd_row rid i f rs) = (\<lambda>r. if rid r = i then f r else r) ` set rs"
  by (simp add: upd_row_def)

lemma filter_upd_row:
  assumes "\<And>r. r \<in> set rs \<Longrightarrow> rid r = i \<Longrightarrow> \<not> P r \<and> \<not> P (g r)"
  shows "filter P (upd_row rid i g rs) = filter P rs"
  using assms unfolding upd_row_def by (induction rs) auto

lemma length_upd_row [simp]: "length (upd_row rid i f rs) = length rs"
  by (simp add: upd_row_def)

lemma find_SomeD: "find P xs = Some x \<Longrightarrow> x \<in> set xs \<and> P x"
  by (induction xs) (auto split: if_splits)

lemma keyed_upd_row_const: "keyed rid rs \<Longrightarrow> rid r = i \<Longrightarrow> keyed rid (upd_row rid i (\<lambda>_. r) rs)"
  by (simp add: keyed_def upd_row_def comp_def if_distrib cong: if_cong)

lemma upd_row_last:
  assumes "\<forall>r \<in> set rs. rid r \<noteq> i" "rid x = i"
  shows "upd_row rid i f (rs @ [x]) = rs @ [f x]"
  using assms by (simp add: upd_row_def map_idI)

lemma map_key_upd_row: "(\<And>r. rid (f r) = rid r) \<Longrightarrow> map rid (upd_row rid i f rs) = map rid rs"
  by (simp add: upd_row_def)

lemma set_ids_upd_row: "(\<And>r. rid (f r) = rid r) \<Longrightarrow> rid ` set (upd_row rid i f rs) = rid ` set rs"
  by (metis list.set_map map_key_upd_row)

lemma find_owned:
  assumes "keyed rid rs" "find_row rid i rs = Some r" "x \<in> set rs" "rid x = i"
  shows "x = r"
  using assms find_row_SomeD[OF assms(2)] by (auto simp: keyed_def distinct_map inj_on_def)

lemma map_filter_out: "map v (filter (\<lambda>x. \<not> Q (v x)) xs) = filter (\<lambda>x. \<not> Q x) (map v xs)"
  by (simp add: filter_map comp_def)

lemma find_row_last: "\<forall>x \<in> set rs. rid x \<noteq> rid r \<Longrightarrow> find_row rid (rid r) (rs @ [r]) = Some r"
  by (induction rs) (auto simp: find_row_def)

lemma length_filter_map: "length (filter (\<lambda>x. P (f x)) xs) = length (filter P (map f xs))"
  by (simp add: filter_map comp_def)

subsection \<open>Partial unique indexes\<close>

text \<open>A unique index on \<open>key\<close> over the rows that satisfy \<open>p\<close>.\<close>

definition unique_on :: "('r \<Rightarrow> bool) \<Rightarrow> ('r \<Rightarrow> 'k) \<Rightarrow> 'r list \<Rightarrow> bool" where
  "unique_on p key rs = distinct (map key (filter p rs))"

definition violates :: "('r \<Rightarrow> bool) \<Rightarrow> ('r \<Rightarrow> 'k) \<Rightarrow> 'r \<Rightarrow> 'r list \<Rightarrow> bool" where
  "violates p key r rs = (p r \<and> key r \<in> key ` set (filter p rs))"

lemma unique_on_append:
  "unique_on p key rs \<Longrightarrow> \<not> violates p key r rs \<Longrightarrow> unique_on p key (rs @ [r])"
  by (auto simp: unique_on_def violates_def)

lemma unique_onD:
  "unique_on p key rs \<Longrightarrow> r \<in> set rs \<Longrightarrow> r' \<in> set rs \<Longrightarrow> p r \<Longrightarrow> p r' \<Longrightarrow> key r = key r' \<Longrightarrow> r = r'"
  by (auto simp: unique_on_def distinct_map inj_on_def)

section \<open>Preserved properties of a step relation\<close>

locale preserved =
  fixes step :: "'s \<Rightarrow> 's \<Rightarrow> bool"
    and good :: "'s \<Rightarrow> bool"
  assumes step_good: "good s \<Longrightarrow> step s t \<Longrightarrow> good t"
begin

lemma reachable_good: "rtranclp step s t \<Longrightarrow> good s \<Longrightarrow> good t"
  by (induction rule: rtranclp_induct) (auto intro: step_good)

end

text \<open>A machine whose terminal states have no way out: what they hold is final.\<close>

locale absorbing = preserved +
  fixes terminal :: "'s \<Rightarrow> bool"
  assumes terminal_stuck: "good s \<Longrightarrow> terminal s \<Longrightarrow> \<not> step s t"
begin

lemma terminal_final: "rtranclp step s t \<Longrightarrow> good s \<Longrightarrow> terminal s \<Longrightarrow> t = s"
  by (erule converse_rtranclpE) (auto simp: terminal_stuck)

end

end
