(* ===== verification/States.thy ===== *)
theory States
  imports Prelude
begin

text \<open>
  The state vocabularies of \<open>app/collection/states.py\<close> and the \<open>CHECK\<close> constraints of
  \<open>app/models.py\<close>, one datatype per column. The database refuses any other value, so the
  datatypes are exactly the values a row can hold.
\<close>

datatype connection_status = Conn_pending | Conn_active | Conn_revoked

datatype source_status = Src_pending | Src_active | Src_paused | Src_revoked

datatype event_state =
    Received | Normalized | Control | Rejected | DeadLetter | Analyzing | Analyzed | Failed

datatype test_status = T_pending | T_awaiting | T_verified | T_failed | T_expired

datatype outbox_status = Out_pending | Out_sending | Out_delivered | Out_failed | Out_dead_letter

fun event_state_str :: "event_state \<Rightarrow> string" where
  "event_state_str Received = ''received''"
| "event_state_str Normalized = ''normalized''"
| "event_state_str Control = ''control''"
| "event_state_str Rejected = ''rejected''"
| "event_state_str DeadLetter = ''dead_letter''"
| "event_state_str Analyzing = ''analyzing''"
| "event_state_str Analyzed = ''analyzed''"
| "event_state_str Failed = ''failed''"

definition EVENT_STATE :: "string list" where
  "EVENT_STATE = [''received'', ''normalized'', ''control'', ''rejected'', ''dead_letter'',
     ''analyzing'', ''analyzed'', ''failed'']"

fun outbox_status_str :: "outbox_status \<Rightarrow> string" where
  "outbox_status_str Out_pending = ''pending''"
| "outbox_status_str Out_sending = ''sending''"
| "outbox_status_str Out_delivered = ''delivered''"
| "outbox_status_str Out_failed = ''failed''"
| "outbox_status_str Out_dead_letter = ''dead_letter''"

definition OUTBOX_STATUS :: "string list" where
  "OUTBOX_STATUS = [''pending'', ''sending'', ''delivered'', ''failed'', ''dead_letter'']"

definition sql_in :: "string \<Rightarrow> string list \<Rightarrow> string" where
  "sql_in column values =
     column @ '' IN ('' @ join '','' (map (\<lambda>v. [CHR 0x27] @ v @ [CHR 0x27]) values) @ '')''"

text \<open>The datatype and the tuple of the source name the same states.\<close>

lemma range_event_state_str: "range event_state_str = set EVENT_STATE"
proof -
  have u: "UNIV = {Received, Normalized, Control, Rejected, DeadLetter, Analyzing, Analyzed, Failed}"
    using event_state.exhaust by auto
  show ?thesis unfolding u EVENT_STATE_def by auto
qed

lemma range_outbox_status_str: "range outbox_status_str = set OUTBOX_STATUS"
proof -
  have u: "UNIV = {Out_pending, Out_sending, Out_delivered, Out_failed, Out_dead_letter}"
    using outbox_status.exhaust by auto
  show ?thesis unfolding u OUTBOX_STATUS_def by auto
qed

lemma event_state_str_inj: "event_state_str a = event_state_str b \<Longrightarrow> a = b"
  by (cases a; cases b) auto

end
