(* ===== verification/Store.thy ===== *)
theory Store
  imports States
begin

text \<open>
  The database: one record per table of \<open>app/models.py\<close>, the database as the record of its
  tables, and a SQLAlchemy session as the pair of the committed database and the working copy a
  transaction flushes into. Sessions are created with \<open>autoflush=False\<close>
  (\<open>app/database.py\<close>), so a query sees flushed rows only.

  Column defaults are those of \<open>blank_*\<close>, the row SQLAlchemy would insert when the code sets no
  column.
\<close>

section \<open>Rows\<close>

record tenant =
  tn_id :: int
  tn_name :: string
  tn_slug :: string
  tn_status :: string
  tn_created_at :: time

record connection =
  cn_id :: int
  cn_tenant_id :: int
  cn_provider :: string
  cn_name :: string
  cn_enabled :: bool
  cn_status :: connection_status
  cn_provider_account_ref :: "string option"
  cn_cursor :: "string option"
  cn_config_json :: "json dict"
  cn_secret_refs :: "string dict"
  cn_secrets_metadata :: "json dict"
  cn_created_at :: time
  cn_updated_at :: time
  cn_created_by :: "string option"
  cn_revoked_at :: "time option"
  cn_revoked_by :: "string option"
  cn_deleted_at :: "time option"
  cn_deleted_by :: "string option"

record source =
  sr_id :: int
  sr_tenant_id :: int
  sr_connection_id :: int
  sr_provider :: string
  sr_source_ref :: string
  sr_kind :: string
  sr_name :: "string option"
  sr_enabled :: bool
  sr_status :: source_status
  sr_config_json :: "json dict"
  sr_created_at :: time
  sr_updated_at :: time
  sr_created_by :: "string option"
  sr_deleted_at :: "time option"
  sr_deleted_by :: "string option"

record event =
  ev_id :: int
  ev_tenant_id :: int
  ev_source_id :: int
  ev_provider :: string
  ev_external_id_hash :: string
  ev_processing_state :: event_state
  ev_normalized_fingerprint :: "string option"
  ev_raw_fingerprint :: "string option"
  ev_content_version :: int
  ev_redaction_profile :: string
  ev_redacted_text :: "string option"
  ev_context_json :: "json dict"
  ev_occurred_at :: "time option"
  ev_is_control :: bool
  ev_control_nonce_hash :: "string option"
  ev_rejection_reason :: "string option"
  ev_finding_id :: "int option"
  ev_case_id :: "int option"
  ev_attempts :: int
  ev_next_attempt_at :: "time option"
  ev_locked_by :: "string option"
  ev_locked_at :: "time option"
  ev_processed_at :: "time option"
  ev_error_code :: "string option"
  ev_analysis_version :: "string option"
  ev_analysis_json :: "json dict"
  ev_legal_hold :: bool
  ev_retention_policy :: "string option"
  ev_purged_at :: "time option"
  ev_created_at :: time

record test_request =
  tr_id :: int
  tr_tenant_id :: int
  tr_connection_id :: int
  tr_source_id :: "int option"
  tr_provider :: string
  tr_nonce_hash :: string
  tr_status :: test_status
  tr_requested_by :: "string option"
  tr_requested_at :: time
  tr_verified_at :: "time option"
  tr_expires_at :: "time option"
  tr_telemetry_json :: "json dict"
  tr_created_at :: time

record channel =
  ch_id :: int
  ch_tenant_id :: int
  ch_name :: string
  ch_channel_type :: string
  ch_enabled :: bool
  ch_config_json :: "json dict"
  ch_secret_refs :: "string dict"
  ch_secrets_metadata :: "json dict"
  ch_created_at :: time
  ch_updated_at :: time
  ch_created_by :: "string option"
  ch_deleted_at :: "time option"
  ch_deleted_by :: "string option"

record outbox_row =
  ob_id :: int
  ob_tenant_id :: int
  ob_alert_channel_id :: int
  ob_finding_id :: "int option"
  ob_external_channel_ref :: "string option"
  ob_template :: string
  ob_template_version :: string
  ob_dedup_key :: string
  ob_status :: outbox_status
  ob_attempts :: int
  ob_next_attempt_at :: "time option"
  ob_delivered_at :: "time option"
  ob_error_code :: "string option"
  ob_payload_json :: "json dict"
  ob_created_at :: time
  ob_updated_at :: time

record finding =
  fd_id :: int
  fd_tenant_id :: int
  fd_exposure_type :: string
  fd_asset_id :: "int option"
  fd_title :: string
  fd_source :: string
  fd_source_reliability :: string
  fd_info_credibility :: string
  fd_severity :: string
  fd_status :: string
  fd_observed_at :: "time option"
  fd_first_seen :: time
  fd_last_seen :: time
  fd_dedup_key :: string
  fd_detail :: "json dict"
  fd_redacted :: bool
  fd_risk_score :: int
  fd_ingest_id :: "int option"
  fd_record_number :: "int option"
  fd_parser_version :: "string option"
  fd_created_by_user_id :: "int option"
  fd_created_at :: time

record inv_case =
  cs_id :: int
  cs_tenant_id :: int
  cs_brand_id :: "int option"
  cs_finding_id :: "int option"
  cs_observable_id :: "int option"
  cs_finding_snapshot :: "json dict option"
  cs_title :: string
  cs_description :: "string option"
  cs_severity :: string
  cs_status :: string
  cs_assignee_user_id :: "int option"
  cs_created_by_user_id :: "int option"
  cs_created_at :: time
  cs_updated_at :: time
  cs_closed_at :: "time option"

record brand =
  br_id :: int
  br_tenant_id :: int
  br_name :: string
  br_official_domains :: string
  br_keywords :: "string option"
  br_variations :: json
  br_aliases :: json
  br_products :: json
  br_subdomains :: json
  br_social_profiles :: json
  br_sensitive_terms :: json
  br_status :: string

record asset =
  as_id :: int
  as_tenant_id :: int
  as_asset_type :: string
  as_label :: string
  as_value :: string
  as_value_hash :: string
  as_criticality :: string
  as_consent_ref :: "string option"
  as_active :: bool

record audit_entry =
  au_tenant_id :: "int option"
  au_ts :: time
  au_actor :: string
  au_actor_role :: "string option"
  au_operator_user_id :: "int option"
  au_action :: string
  au_target_type :: "string option"
  au_target_id :: "string option"
  au_ip :: "string option"
  au_user_agent :: "string option"
  au_detail :: "json dict option"


section \<open>Column defaults\<close>

definition blank_connection :: "time \<Rightarrow> connection" where
  "blank_connection now = \<lparr>cn_id = 0, cn_tenant_id = 0, cn_provider = [], cn_name = [],
     cn_enabled = False, cn_status = Conn_pending, cn_provider_account_ref = None,
     cn_cursor = None, cn_config_json = [], cn_secret_refs = [], cn_secrets_metadata = [],
     cn_created_at = now, cn_updated_at = now, cn_created_by = None, cn_revoked_at = None,
     cn_revoked_by = None, cn_deleted_at = None, cn_deleted_by = None\<rparr>"

definition blank_source :: "time \<Rightarrow> source" where
  "blank_source now = \<lparr>sr_id = 0, sr_tenant_id = 0, sr_connection_id = 0, sr_provider = [],
     sr_source_ref = [], sr_kind = ''channel'', sr_name = None, sr_enabled = False,
     sr_status = Src_pending, sr_config_json = [], sr_created_at = now, sr_updated_at = now,
     sr_created_by = None, sr_deleted_at = None, sr_deleted_by = None\<rparr>"

definition blank_event :: "time \<Rightarrow> event" where
  "blank_event now = \<lparr>ev_id = 0, ev_tenant_id = 0, ev_source_id = 0, ev_provider = [],
     ev_external_id_hash = [], ev_processing_state = Received, ev_normalized_fingerprint = None,
     ev_raw_fingerprint = None, ev_content_version = 1, ev_redaction_profile = ''default'',
     ev_redacted_text = None, ev_context_json = [], ev_occurred_at = None, ev_is_control = False,
     ev_control_nonce_hash = None, ev_rejection_reason = None, ev_finding_id = None,
     ev_case_id = None, ev_attempts = 0, ev_next_attempt_at = None, ev_locked_by = None,
     ev_locked_at = None, ev_processed_at = None, ev_error_code = None,
     ev_analysis_version = None, ev_analysis_json = [], ev_legal_hold = False,
     ev_retention_policy = None, ev_purged_at = None, ev_created_at = now\<rparr>"

definition blank_test_request :: "time \<Rightarrow> test_request" where
  "blank_test_request now = \<lparr>tr_id = 0, tr_tenant_id = 0, tr_connection_id = 0,
     tr_source_id = None, tr_provider = [], tr_nonce_hash = [], tr_status = T_pending,
     tr_requested_by = None, tr_requested_at = now, tr_verified_at = None, tr_expires_at = None,
     tr_telemetry_json = [], tr_created_at = now\<rparr>"

definition blank_channel :: "time \<Rightarrow> channel" where
  "blank_channel now = \<lparr>ch_id = 0, ch_tenant_id = 0, ch_name = [], ch_channel_type = [],
     ch_enabled = False, ch_config_json = [], ch_secret_refs = [], ch_secrets_metadata = [],
     ch_created_at = now, ch_updated_at = now, ch_created_by = None, ch_deleted_at = None,
     ch_deleted_by = None\<rparr>"

definition blank_outbox :: "time \<Rightarrow> outbox_row" where
  "blank_outbox now = \<lparr>ob_id = 0, ob_tenant_id = 0, ob_alert_channel_id = 0,
     ob_finding_id = None, ob_external_channel_ref = None, ob_template = [],
     ob_template_version = ''1'', ob_dedup_key = [], ob_status = Out_pending, ob_attempts = 0,
     ob_next_attempt_at = None, ob_delivered_at = None, ob_error_code = None,
     ob_payload_json = [], ob_created_at = now, ob_updated_at = now\<rparr>"

definition blank_finding :: "time \<Rightarrow> finding" where
  "blank_finding now = \<lparr>fd_id = 0, fd_tenant_id = 0, fd_exposure_type = [], fd_asset_id = None,
     fd_title = [], fd_source = [], fd_source_reliability = ''F'', fd_info_credibility = ''6'',
     fd_severity = ''medium'', fd_status = ''new'', fd_observed_at = None, fd_first_seen = now,
     fd_last_seen = now, fd_dedup_key = [], fd_detail = [], fd_redacted = False,
     fd_risk_score = 0, fd_ingest_id = None, fd_record_number = None, fd_parser_version = None,
     fd_created_by_user_id = None, fd_created_at = now\<rparr>"

definition blank_case :: "time \<Rightarrow> inv_case" where
  "blank_case now = \<lparr>cs_id = 0, cs_tenant_id = 0, cs_brand_id = None, cs_finding_id = None,
     cs_observable_id = None, cs_finding_snapshot = None, cs_title = [], cs_description = None,
     cs_severity = ''medio'', cs_status = ''open'', cs_assignee_user_id = None,
     cs_created_by_user_id = None, cs_created_at = now, cs_updated_at = now,
     cs_closed_at = None\<rparr>"

section \<open>Database and session\<close>

record db =
  db_tenants :: "tenant list"
  db_connections :: "connection list"
  db_sources :: "source list"
  db_events :: "event list"
  db_tests :: "test_request list"
  db_channels :: "channel list"
  db_outbox :: "outbox_row list"
  db_findings :: "finding list"
  db_cases :: "inv_case list"
  db_brands :: "brand list"
  db_assets :: "asset list"
  db_audit :: "audit_entry list"

definition empty_db :: db where
  "empty_db = \<lparr>db_tenants = [], db_connections = [], db_sources = [], db_events = [],
     db_tests = [], db_channels = [], db_outbox = [], db_findings = [], db_cases = [],
     db_brands = [], db_assets = [], db_audit = []\<rparr>"

record session =
  committed :: db
  working :: db

definition commit :: "session \<Rightarrow> session" where
  "commit s = s\<lparr>committed := working s\<rparr>"

definition rollback :: "session \<Rightarrow> session" where
  "rollback s = s\<lparr>working := committed s\<rparr>"

definition with_working :: "(db \<Rightarrow> db) \<Rightarrow> session \<Rightarrow> session" where
  "with_working f s = s\<lparr>working := f (working s)\<rparr>"

lemma commit_simps [simp]:
  "committed (commit s) = working s" "working (commit s) = working s"
  by (simp_all add: commit_def)

lemma rollback_simps [simp]:
  "committed (rollback s) = committed s" "working (rollback s) = committed s"
  by (simp_all add: rollback_def)

lemma with_working_simps [simp]:
  "committed (with_working f s) = committed s" "working (with_working f s) = f (working s)"
  by (simp_all add: with_working_def)

section \<open>Row access\<close>

definition upd_connection :: "int \<Rightarrow> (connection \<Rightarrow> connection) \<Rightarrow> db \<Rightarrow> db" where
  "upd_connection i f d = d\<lparr>db_connections := upd_row cn_id i f (db_connections d)\<rparr>"

definition upd_source :: "int \<Rightarrow> (source \<Rightarrow> source) \<Rightarrow> db \<Rightarrow> db" where
  "upd_source i f d = d\<lparr>db_sources := upd_row sr_id i f (db_sources d)\<rparr>"

definition upd_event :: "int \<Rightarrow> (event \<Rightarrow> event) \<Rightarrow> db \<Rightarrow> db" where
  "upd_event i f d = d\<lparr>db_events := upd_row ev_id i f (db_events d)\<rparr>"

definition upd_test :: "int \<Rightarrow> (test_request \<Rightarrow> test_request) \<Rightarrow> db \<Rightarrow> db" where
  "upd_test i f d = d\<lparr>db_tests := upd_row tr_id i f (db_tests d)\<rparr>"

definition upd_channel :: "int \<Rightarrow> (channel \<Rightarrow> channel) \<Rightarrow> db \<Rightarrow> db" where
  "upd_channel i f d = d\<lparr>db_channels := upd_row ch_id i f (db_channels d)\<rparr>"

definition upd_outbox :: "int \<Rightarrow> (outbox_row \<Rightarrow> outbox_row) \<Rightarrow> db \<Rightarrow> db" where
  "upd_outbox i f d = d\<lparr>db_outbox := upd_row ob_id i f (db_outbox d)\<rparr>"

definition upd_finding :: "int \<Rightarrow> (finding \<Rightarrow> finding) \<Rightarrow> db \<Rightarrow> db" where
  "upd_finding i f d = d\<lparr>db_findings := upd_row fd_id i f (db_findings d)\<rparr>"

definition upd_case :: "int \<Rightarrow> (inv_case \<Rightarrow> inv_case) \<Rightarrow> db \<Rightarrow> db" where
  "upd_case i f d = d\<lparr>db_cases := upd_row cs_id i f (db_cases d)\<rparr>"

lemmas upd_defs = upd_connection_def upd_source_def upd_event_def upd_test_def upd_channel_def
  upd_outbox_def upd_finding_def upd_case_def

text \<open>The unique indexes of the collection tables.\<close>

definition coll_event_indexed :: "event \<Rightarrow> bool" where
  "coll_event_indexed e = (ev_external_id_hash e \<noteq> [] \<and> ev_processing_state e \<noteq> Rejected)"

definition coll_event_key :: "event \<Rightarrow> int \<times> int \<times> string" where
  "coll_event_key e = (ev_tenant_id e, ev_source_id e, ev_external_id_hash e)"

definition conn_identity_indexed :: "connection \<Rightarrow> bool" where
  "conn_identity_indexed c =
     (cn_enabled c \<and> cn_deleted_at c = None \<and> cn_provider_account_ref c \<noteq> None)"

definition conn_identity_key :: "connection \<Rightarrow> string \<times> string option" where
  "conn_identity_key c = (cn_provider c, cn_provider_account_ref c)"

definition conn_name_indexed :: "connection \<Rightarrow> bool" where
  "conn_name_indexed c = (cn_deleted_at c = None)"

definition conn_name_key :: "connection \<Rightarrow> int \<times> string" where
  "conn_name_key c = (cn_tenant_id c, cn_name c)"

definition source_indexed :: "source \<Rightarrow> bool" where
  "source_indexed s = (sr_deleted_at s = None)"

definition source_key :: "source \<Rightarrow> int \<times> int \<times> string" where
  "source_key s = (sr_tenant_id s, sr_connection_id s, sr_source_ref s)"

definition channel_indexed :: "channel \<Rightarrow> bool" where
  "channel_indexed c = (ch_deleted_at c = None)"

definition channel_key :: "channel \<Rightarrow> int \<times> string" where
  "channel_key c = (ch_tenant_id c, ch_name c)"

definition test_nonce_key :: "test_request \<Rightarrow> int \<times> string" where
  "test_nonce_key r = (tr_tenant_id r, tr_nonce_hash r)"

text \<open>
  What the database guarantees of the collection tables: primary keys and the unique indexes. A
  flush that would break a unique index raises \<open>IntegrityError\<close>; the caller rolls back.
\<close>

definition indexes_ok :: "db \<Rightarrow> bool" where
  "indexes_ok d = (unique_on conn_identity_indexed conn_identity_key (db_connections d)
     \<and> unique_on conn_name_indexed conn_name_key (db_connections d)
     \<and> unique_on source_indexed source_key (db_sources d)
     \<and> unique_on channel_indexed channel_key (db_channels d)
     \<and> unique_on coll_event_indexed coll_event_key (db_events d)
     \<and> unique_on (\<lambda>_. True) test_nonce_key (db_tests d)
     \<and> unique_on (\<lambda>_. True) ob_dedup_key (db_outbox d))"

definition flush :: "db \<Rightarrow> db res" where
  "flush d = (if indexes_ok d then Inr d else Inl IntegrityError)"

definition keys_ok :: "db \<Rightarrow> bool" where
  "keys_ok d = (keyed cn_id (db_connections d) \<and> keyed sr_id (db_sources d)
     \<and> keyed ev_id (db_events d) \<and> keyed tr_id (db_tests d) \<and> keyed ch_id (db_channels d)
     \<and> keyed ob_id (db_outbox d) \<and> keyed fd_id (db_findings d) \<and> keyed cs_id (db_cases d))"

definition db_ok :: "db \<Rightarrow> bool" where
  "db_ok d = (keys_ok d \<and> indexes_ok d)"

lemma flush_Inr [simp]: "flush d = Inr d' \<longleftrightarrow> d' = d \<and> indexes_ok d"
  by (auto simp: flush_def)

lemma flush_Inl [simp]: "flush d = Inl e \<longleftrightarrow> e = IntegrityError \<and> \<not> indexes_ok d"
  by (auto simp: flush_def)

lemma db_ok_empty: "db_ok empty_db"
  by (simp add: db_ok_def keys_ok_def indexes_ok_def empty_db_def keyed_def unique_on_def)

end
