(* ===== verification/Outbox.thy ===== *)
theory Outbox
  imports States
begin

text \<open>
  The alert outbox helpers of \<open>app/collection/outbox.py\<close>: the idempotency key of a
  notification, the closed payload contract, the retry backoff and the terminal states.
\<close>

definition FORBIDDEN_PAYLOAD_KEYS :: "string list" where
  "FORBIDDEN_PAYLOAD_KEYS = [''status'', ''attempts'', ''next_attempt_at'', ''delivered_at'',
     ''error_code'', ''delivery_state'']"

definition ALLOWED_PAYLOAD_KEYS :: "string list" where
  "ALLOWED_PAYLOAD_KEYS = [''finding_ref'', ''severity'', ''redacted_title'',
     ''redacted_summary'', ''asset_ref'', ''category'', ''confidence'', ''ioc_summary'',
     ''occurred_at'', ''source_ref'']"

definition dedup_parts :: "int \<Rightarrow> json \<Rightarrow> int \<Rightarrow> string \<Rightarrow> json \<Rightarrow> string list" where
  "dedup_parts tenant_id finding_id alert_channel_id template template_version =
     [''v1'', int_str tenant_id, py_str finding_id, int_str alert_channel_id, template,
      (if template_version = JNull then [] else py_str template_version)]"

definition compute_dedup_key ::
  "(string \<Rightarrow> string) \<Rightarrow> int \<Rightarrow> json \<Rightarrow> int \<Rightarrow> string \<Rightarrow> json \<Rightarrow> string" where
  "compute_dedup_key H tenant_id finding_id alert_channel_id template template_version =
     H (join ''|'' (dedup_parts tenant_id finding_id alert_channel_id template template_version))"

text \<open>The sorted list of a set of keys, as \<open>sorted(...)\<close> prints it.\<close>

definition sorted_keys :: "string list \<Rightarrow> string" where
  "sorted_keys ks = py_repr (JList (map JStr (sort (remdups ks))))"

definition is_container :: "json \<Rightarrow> bool" where
  "is_container v = (case v of JObj _ \<Rightarrow> True | JList _ \<Rightarrow> True | _ \<Rightarrow> False)"

fun check_payload_values :: "json dict \<Rightarrow> unit res" where
  "check_payload_values [] = Inr ()"
| "check_payload_values ((key, value) # rest) =
     (case value of
        JObj _ \<Rightarrow> Inl (ValueError (''payload_json field '' @ repr_str key @ '' must be pre-rendered/redacted''))
      | JList items \<Rightarrow>
          if list_ex is_container items
          then Inl (ValueError (''payload_json field '' @ repr_str key @ '' contains nested data''))
          else check_payload_values rest
      | _ \<Rightarrow> check_payload_values rest)"

definition assert_payload_clean :: "json \<Rightarrow> unit res" where
  "assert_payload_clean payload = (case payload of
       JObj d \<Rightarrow>
         (let keys = map str_lower (dict_keys d);
              bad = filter (\<lambda>k. k \<in> set FORBIDDEN_PAYLOAD_KEYS) keys;
              unknown = filter (\<lambda>k. k \<notin> set ALLOWED_PAYLOAD_KEYS) keys
          in if bad \<noteq> [] then
               Inl (ValueError (''payload_json must not carry delivery-state keys: '' @ sorted_keys bad))
             else if unknown \<noteq> [] then
               Inl (ValueError (''payload_json contains unapproved keys: '' @ sorted_keys unknown))
             else check_payload_values d)
     | _ \<Rightarrow> Inl (ValueError ''payload_json must be an object''))"

definition backoff_seconds :: "int \<Rightarrow> int \<Rightarrow> int \<Rightarrow> int" where
  "backoff_seconds attempts base_seconds cap_seconds =
     min cap_seconds (base_seconds * 2 ^ nat (max 0 (attempts - 1)))"

definition next_backoff :: "int \<Rightarrow> int \<Rightarrow> int \<Rightarrow> time \<Rightarrow> time" where
  "next_backoff attempts base_seconds cap_seconds now =
     now + 1000000 * backoff_seconds attempts base_seconds cap_seconds"

definition is_terminal :: "outbox_status \<Rightarrow> bool" where
  "is_terminal st = (outbox_status_str st \<in> {''delivered'', ''dead_letter''})"

section \<open>The idempotency key\<close>

lemma dedup_key_parts:
  assumes "compute_dedup_key H t f c tpl v = compute_dedup_key H t' f' c' tpl' v'"
    and "inj_on H {join ''|'' (dedup_parts t f c tpl v), join ''|'' (dedup_parts t' f' c' tpl' v')}"
    and "CHR ''|'' \<notin> set tpl" "CHR ''|'' \<notin> set (py_str v)" "CHR ''|'' \<notin> set (py_str f)"
    and "CHR ''|'' \<notin> set tpl'" "CHR ''|'' \<notin> set (py_str v')" "CHR ''|'' \<notin> set (py_str f')"
  shows "dedup_parts t f c tpl v = dedup_parts t' f' c' tpl' v'"
proof (rule join_inj)
  show "join ''|'' (dedup_parts t f c tpl v) = join ''|'' (dedup_parts t' f' c' tpl' v')"
    by (rule inj_onD [OF assms(2) assms(1) [unfolded compute_dedup_key_def]]) auto
qed (use assms(3-) in \<open>simp_all add: dedup_parts_def\<close>)

section \<open>The payload contract\<close>

lemma check_payload_values_ok:
  "check_payload_values d = Inr () \<longleftrightarrow>
     (\<forall>(k, v) \<in> set d. \<not> is_obj v \<and> (\<forall>x \<in> set (jlist v). \<not> is_container x))"
  by (induction d rule: check_payload_values.induct)
    (auto split: json.splits simp: list_ex_iff)

lemma assert_payload_clean_ok:
  "assert_payload_clean p = Inr () \<longleftrightarrow>
     (\<exists>d. p = JObj d
        \<and> (\<forall>(k, v) \<in> set d. str_lower k \<in> set ALLOWED_PAYLOAD_KEYS \<and> str_lower k \<notin> set FORBIDDEN_PAYLOAD_KEYS
             \<and> \<not> is_obj v \<and> (\<forall>x \<in> set (jlist v). \<not> is_container x)))"
  by (cases p)
    (auto simp: assert_payload_clean_def Let_def check_payload_values_ok filter_empty_conv dict_keys_def
      split: if_splits)

section \<open>The backoff\<close>

lemma backoff_bounds:
  assumes "0 \<le> base" "base \<le> cap"
  shows "base \<le> backoff_seconds n base cap" "backoff_seconds n base cap \<le> cap"
  using assms by (auto simp: backoff_seconds_def mult_le_cancel_left1)

lemma backoff_mono:
  assumes "0 \<le> base" "m \<le> n"
  shows "backoff_seconds m base cap \<le> backoff_seconds n base cap"
proof -
  have "(2::int) ^ nat (max 0 (m - 1)) \<le> 2 ^ nat (max 0 (n - 1))"
    using assms(2) by (intro power_increasing) auto
  with assms(1) have "base * 2 ^ nat (max 0 (m - 1)) \<le> base * 2 ^ nat (max 0 (n - 1))"
    by (rule mult_left_mono [rotated])
  then show ?thesis by (simp only: backoff_seconds_def min.mono order_refl)
qed

section \<open>Properties\<close>

text \<open>Two notifications get the same idempotency key only when they are the same notification: tenant,
  finding, channel, template and version all agree. It needs a hash without a collision on the two
  texts, and templates and versions without the separator.\<close>

theorem dedup_key_determines:
  assumes "compute_dedup_key H t (JInt f) c tpl (JStr v) = compute_dedup_key H t' (JInt f') c' tpl' (JStr v')"
    and "inj_on H {join ''|'' (dedup_parts t (JInt f) c tpl (JStr v)),
                   join ''|'' (dedup_parts t' (JInt f') c' tpl' (JStr v'))}"
    and "CHR ''|'' \<notin> set (tpl @ v @ tpl' @ v')"
  shows "t = t' \<and> f = f' \<and> c = c' \<and> tpl = tpl' \<and> v = v'"
proof -
  have "dedup_parts t (JInt f) c tpl (JStr v) = dedup_parts t' (JInt f') c' tpl' (JStr v')"
    by (rule dedup_key_parts [OF assms(1,2)]) (use assms(3) in simp_all)
  then show ?thesis by (auto simp: dedup_parts_def dest: int_str_inj)
qed

theorem dedup_key_determines_witness:
  "compute_dedup_key id 1 (JInt 2) 3 ''finding'' (JStr ''1'') = compute_dedup_key id 1 (JInt 2) 3 ''finding'' (JStr ''1'')
   \<and> (1::int) = 1 \<and> (2::int) = 2"
  using dedup_key_determines [of id 1 2 3 "''finding''" "''1''" 1 2 3 "''finding''" "''1''"] by simp

text \<open>Without that condition the keys collide: moving the separator between template and version
  leaves the key as it is, for every hash function.\<close>

theorem dedup_key_ambiguous:
  "compute_dedup_key H t f c (a @ ''|'' @ b) (JStr v) = compute_dedup_key H t f c a (JStr (b @ ''|'' @ v))"
  by (simp add: compute_dedup_key_def dedup_parts_def join_def)

text \<open>A payload is accepted exactly when it is an object whose keys are all on the approved list, none
  of them a delivery-state key in any letter case, and whose values are scalars or flat lists.\<close>

theorem payload_contract:
  "assert_payload_clean p = Inr () \<longleftrightarrow>
     is_obj p \<and> list_all (\<lambda>(k, v). str_lower k \<in> set ALLOWED_PAYLOAD_KEYS
        \<and> str_lower k \<notin> set FORBIDDEN_PAYLOAD_KEYS \<and> \<not> is_obj v
        \<and> list_all (\<lambda>x. \<not> is_container x) (jlist v)) (jdict p)"
  by (cases p) (auto simp: assert_payload_clean_ok list_all_iff)

text \<open>The retry delay never leaves the interval between the base and the cap, and it never shrinks from
  one attempt to the next.\<close>

theorem backoff_schedule:
  assumes "0 \<le> base" "base \<le> cap" "m \<le> n"
  shows "now + 1000000 * base \<le> next_backoff m base cap now
    \<and> next_backoff m base cap now \<le> next_backoff n base cap now
    \<and> next_backoff n base cap now \<le> now + 1000000 * cap"
  using backoff_bounds [OF assms(1,2)] backoff_mono [OF assms(1,3)] by (simp add: next_backoff_def)

theorem backoff_schedule_witness: "next_backoff 4 30 3600 0 = 240000000 \<and> next_backoff 4 30 3600 0 \<le> 3600000000"
  using backoff_schedule [of 30 3600 4 4 0] by (simp add: next_backoff_def backoff_seconds_def)

end
