(* ===== verification/Analysis.thy ===== *)
theory Analysis
  imports Store Outbox
begin

text \<open>
  The durable analysis queue of \<open>app/collection/analysis.py\<close>: events are acquired by a conditional
  update, then completed or failed by their holder. \<open>now\<close> is \<open>utcnow()\<close>. The database row decides
  an acquisition; \<open>complete\<close> and \<open>fail\<close> decide on the session's copy of the row, which is the
  argument \<open>event\<close>, and write the changed columns of the row.
\<close>

definition DEFAULT_LOCK_TTL_SECONDS :: int where
  "DEFAULT_LOCK_TTL_SECONDS = 300"

definition DEFAULT_MAX_ATTEMPTS :: int where
  "DEFAULT_MAX_ATTEMPTS = 5"

definition lock_cutoff :: "time \<Rightarrow> int \<Rightarrow> time" where
  "lock_cutoff now ttl = now - ttl * 1000000"

definition ready :: "time \<Rightarrow> time \<Rightarrow> int \<Rightarrow> event \<Rightarrow> bool" where
  "ready now cutoff max_attempts e =
     (\<not> ev_is_control e \<and> ev_purged_at e = None \<and> ev_attempts e < max_attempts
      \<and> (ev_processing_state e = Normalized
         \<or> (ev_processing_state e = Failed
            \<and> (case ev_next_attempt_at e of None \<Rightarrow> True | Some n \<Rightarrow> n \<le> now))
         \<or> (ev_processing_state e = Analyzing
            \<and> (case ev_locked_at e of None \<Rightarrow> True | Some l \<Rightarrow> l < cutoff))))"

definition acquired :: "string \<Rightarrow> time \<Rightarrow> event \<Rightarrow> event" where
  "acquired worker now e =
     e\<lparr>ev_processing_state := Analyzing, ev_locked_by := Some worker, ev_locked_at := Some now\<rparr>"

definition acquire :: "time \<Rightarrow> int \<Rightarrow> string \<Rightarrow> int \<Rightarrow> int \<Rightarrow> db \<Rightarrow> (event \<times> db) res" where
  "acquire now event_id worker ttl max_attempts d =
     (let cutoff = lock_cutoff now ttl in
      case find_row ev_id event_id (db_events d) of
        None \<Rightarrow> Inl (NotLockable ''event not found'')
      | Some current \<Rightarrow>
          if ready now cutoff max_attempts current
          then Inr (acquired worker now current, upd_event event_id (acquired worker now) d)
          else if ev_processing_state current = Analyzing
               \<and> (case ev_locked_at current of None \<Rightarrow> False | Some l \<Rightarrow> l \<ge> cutoff)
          then Inl LockHeld
          else if ev_processing_state current = Failed \<and> ev_attempts current \<ge> max_attempts
          then Inl (NotLockable ''max attempts reached'')
          else if ev_processing_state current = Failed
               \<and> (case ev_next_attempt_at current of None \<Rightarrow> False | Some n \<Rightarrow> n > now)
          then Inl (NotLockable ''retry not due yet'')
          else Inl (NotLockable (''state '' @ repr_str (event_state_str (ev_processing_state current))
                 @ '' is not analysable'')))"

text \<open>\<open>skip\<close> are the rows another PostgreSQL transaction holds locked (\<open>SKIP LOCKED\<close>).\<close>

definition next_ready :: "(event \<Rightarrow> bool) \<Rightarrow> db \<Rightarrow> event option" where
  "next_ready p d =
     (case sort_key ev_created_at (sort_key ev_id (filter p (db_events d))) of
        [] \<Rightarrow> None | e # _ \<Rightarrow> Some e)"

definition acquire_next ::
  "bool \<Rightarrow> int list \<Rightarrow> time \<Rightarrow> int \<Rightarrow> string \<Rightarrow> int \<Rightarrow> int \<Rightarrow> db \<Rightarrow> (event option \<times> db) res" where
  "acquire_next postgres skip now tenant_id worker ttl max_attempts d =
     (let eligible = (\<lambda>e. ev_tenant_id e = tenant_id
            \<and> ready now (lock_cutoff now ttl) max_attempts e)
      in if postgres then
           (case next_ready (\<lambda>e. eligible e \<and> ev_id e \<notin> set skip) d of
              None \<Rightarrow> Inr (None, d)
            | Some e \<Rightarrow> Inr (Some (acquired worker now e), upd_event (ev_id e) (acquired worker now) d))
         else
           (case next_ready eligible d of
              None \<Rightarrow> Inr (None, d)
            | Some e \<Rightarrow> (case acquire now (ev_id e) worker ttl max_attempts d of
                Inl x \<Rightarrow> Inl x | Inr (e', d') \<Rightarrow> Inr (Some e', d'))))"

definition require_holder :: "event \<Rightarrow> string \<Rightarrow> unit res" where
  "require_holder event worker =
     (if ev_processing_state event \<noteq> Analyzing then Inl AnalysisError
      else if ev_locked_by event \<noteq> Some worker then Inl LockHeld else Inr ())"

definition completed :: "time \<Rightarrow> string \<Rightarrow> json dict \<Rightarrow> event \<Rightarrow> event" where
  "completed now analysis_version analysis e =
     e\<lparr>ev_processing_state := Analyzed, ev_processed_at := Some now,
       ev_analysis_version := Some analysis_version, ev_analysis_json := analysis,
       ev_error_code := None, ev_locked_by := None, ev_locked_at := None\<rparr>"

definition complete :: "time \<Rightarrow> event \<Rightarrow> string \<Rightarrow> string \<Rightarrow> json dict \<Rightarrow> db \<Rightarrow> (event \<times> db) res" where
  "complete now event worker analysis_version analysis d =
     (case require_holder event worker of
        Inl e \<Rightarrow> Inl e
      | Inr _ \<Rightarrow> Inr (completed now analysis_version analysis event,
                   upd_event (ev_id event) (completed now analysis_version analysis) d))"

text \<open>The columns \<open>fail\<close> writes are computed from the session's copy (\<open>attempts\<close>).\<close>

definition fail_columns :: "time \<Rightarrow> int \<Rightarrow> string \<Rightarrow> int \<Rightarrow> event \<Rightarrow> event" where
  "fail_columns now attempts error_code max_attempts e =
     (let e1 = e\<lparr>ev_attempts := attempts, ev_error_code := Some (take 60 error_code),
                ev_locked_by := None, ev_locked_at := None\<rparr>
      in if attempts \<ge> max_attempts
         then e1\<lparr>ev_processing_state := DeadLetter, ev_next_attempt_at := None\<rparr>
         else e1\<lparr>ev_processing_state := Failed,
                 ev_next_attempt_at := Some (next_backoff attempts 30 3600 now)\<rparr>)"

definition fail :: "time \<Rightarrow> event \<Rightarrow> string \<Rightarrow> string \<Rightarrow> int \<Rightarrow> db \<Rightarrow> (event \<times> db) res" where
  "fail now event worker error_code max_attempts d =
     (case require_holder event worker of
        Inl e \<Rightarrow> Inl e
      | Inr _ \<Rightarrow>
          (let f = fail_columns now (ev_attempts event + 1) error_code max_attempts
           in Inr (f event, upd_event (ev_id event) f d)))"

record queue_stats =
  qs_ready :: nat
  qs_analyzing :: nat
  qs_failed :: nat
  qs_dead_letter :: nat

definition queue_stats :: "int \<Rightarrow> db \<Rightarrow> queue_stats" where
  "queue_stats tenant_id d =
     (let count = (\<lambda>st. length (filter (\<lambda>e. ev_tenant_id e = tenant_id \<and> ev_processing_state e = st) (db_events d)))
      in \<lparr>qs_ready = count Normalized, qs_analyzing = count Analyzing, qs_failed = count Failed,
          qs_dead_letter = count DeadLetter\<rparr>)"

section \<open>The life of one event\<close>

text \<open>
  One step of a row: it is acquired when ready, completed or failed by its holder. The table
  operations are exactly these steps on one row, when the session's copy is the row.
\<close>

inductive event_step :: "int \<Rightarrow> event \<Rightarrow> event \<Rightarrow> bool" for max_attempts where
  step_acquire: "ready now cutoff max_attempts e \<Longrightarrow> event_step max_attempts e (acquired worker now e)"
| step_complete: "require_holder e worker = Inr () \<Longrightarrow>
     event_step max_attempts e (completed now version analysis e)"
| step_fail: "require_holder e worker = Inr () \<Longrightarrow>
     event_step max_attempts e (fail_columns now (ev_attempts e + 1) code max_attempts e)"

inductive_cases event_stepE: "event_step m e e'"

definition event_ok :: "int \<Rightarrow> event \<Rightarrow> bool" where
  "event_ok m e =
     (0 \<le> ev_attempts e \<and> ev_attempts e \<le> m
      \<and> (ev_processing_state e \<in> {Analyzing, Failed} \<longrightarrow> ev_attempts e < m)
      \<and> (ev_processing_state e = DeadLetter \<longrightarrow> ev_attempts e = m)
      \<and> (ev_processing_state e = Analyzing \<longleftrightarrow> ev_locked_by e \<noteq> None)
      \<and> (ev_locked_by e \<noteq> None \<longleftrightarrow> ev_locked_at e \<noteq> None)
      \<and> (ev_processing_state e = Failed \<longrightarrow> ev_next_attempt_at e \<noteq> None)
      \<and> (ev_is_control e \<longrightarrow> ev_processing_state e = Control))"

definition event_final :: "event \<Rightarrow> bool" where
  "event_final e = (ev_processing_state e \<in> {Analyzed, DeadLetter, Control, Rejected})"

lemma require_holder_Inr:
  "require_holder e w = Inr u \<longleftrightarrow> ev_processing_state e = Analyzing \<and> ev_locked_by e = Some w"
  by (auto simp: require_holder_def)

lemma acquired_ok: "event_ok m e \<Longrightarrow> ready now cutoff m e \<Longrightarrow> event_ok m (acquired worker now e)"
  by (simp add: event_ok_def ready_def acquired_def)

lemma completed_ok: "event_ok m e \<Longrightarrow> require_holder e w = Inr () \<Longrightarrow> event_ok m (completed now v a e)"
  by (auto simp: event_ok_def completed_def require_holder_Inr)

lemma failed_ok: "event_ok m e \<Longrightarrow> require_holder e w = Inr () \<Longrightarrow>
    event_ok m (fail_columns now (ev_attempts e + 1) code m e)"
  by (auto simp: event_ok_def fail_columns_def Let_def require_holder_Inr)

interpretation event_life: absorbing "event_step m" "event_ok m" event_final for m
proof unfold_locales
  fix e e'
  assume ok: "event_ok m e" and "event_step m e e'"
  from this(2,1) show "event_ok m e'"
    by (cases rule: event_step.cases) (simp_all add: acquired_ok completed_ok failed_ok)
next
  fix e e'
  assume "event_final e"
  then show "\<not> event_step m e e'"
    by (auto simp: event_final_def ready_def require_holder_Inr elim!: event_stepE)
qed

section \<open>The queue\<close>

datatype queue_op =
    Q_acquire int
  | Q_next bool "int list" int
  | Q_complete int string "json dict"
  | Q_fail int string

text \<open>
  What a worker does in one transaction at time \<open>now\<close>: a refused operation leaves the table as it
  was; completing and failing load the row first.
\<close>

fun queue_exec :: "int \<Rightarrow> int \<Rightarrow> time \<times> string \<times> queue_op \<Rightarrow> db \<Rightarrow> db" where
  "queue_exec ttl m (now, w, Q_acquire i) d =
     (case acquire now i w ttl m d of Inl _ \<Rightarrow> d | Inr (_, d') \<Rightarrow> d')"
| "queue_exec ttl m (now, w, Q_next pg skip t) d =
     (case acquire_next pg skip now t w ttl m d of Inl _ \<Rightarrow> d | Inr (_, d') \<Rightarrow> d')"
| "queue_exec ttl m (now, w, Q_complete i v a) d =
     (case find_row ev_id i (db_events d) of None \<Rightarrow> d
      | Some e \<Rightarrow> (case complete now e w v a d of Inl _ \<Rightarrow> d | Inr (_, d') \<Rightarrow> d'))"
| "queue_exec ttl m (now, w, Q_fail i code) d =
     (case find_row ev_id i (db_events d) of None \<Rightarrow> d
      | Some e \<Rightarrow> (case fail now e w code m d of Inl _ \<Rightarrow> d | Inr (_, d') \<Rightarrow> d'))"

definition queue_run :: "int \<Rightarrow> int \<Rightarrow> (time \<times> string \<times> queue_op) list \<Rightarrow> db \<Rightarrow> db" where
  "queue_run ttl m ops d = foldl (\<lambda>d op. queue_exec ttl m op d) d ops"

definition event_row :: "int \<Rightarrow> db \<Rightarrow> event option" where
  "event_row i d = find_row ev_id i (db_events d)"

lemma event_row_upd:
  "(\<And>e. ev_id (f e) = ev_id e) \<Longrightarrow>
     event_row j (upd_event i f d) = (if j = i then map_option f (event_row j d) else event_row j d)"
  by (simp add: event_row_def upd_event_def find_row_upd)

lemma queue_row_ids [simp]:
  "ev_id (acquired w now e) = ev_id e" "ev_id (completed now v a e) = ev_id e"
  "ev_id (fail_columns now n c m e) = ev_id e"
  by (simp_all add: acquired_def completed_def fail_columns_def Let_def)

lemma next_ready_Some:
  "next_ready p d = Some e \<Longrightarrow> e \<in> set (db_events d) \<and> p e"
proof -
  assume "next_ready p d = Some e"
  then obtain ys where ys: "sort_key ev_created_at (sort_key ev_id (filter p (db_events d))) = e # ys"
    by (auto simp: next_ready_def split: list.splits)
  have "e \<in> set (sort_key ev_created_at (sort_key ev_id (filter p (db_events d))))"
    unfolding ys by simp
  then show ?thesis by simp
qed

lemma next_ready_oldest:
  assumes "next_ready p d = Some e" "e' \<in> set (db_events d)" "p e'"
  shows "ev_created_at e \<le> ev_created_at e'"
proof -
  let ?xs = "sort_key ev_created_at (sort_key ev_id (filter p (db_events d)))"
  from assms(1) obtain ys where xs: "?xs = e # ys"
    by (auto simp: next_ready_def split: list.splits)
  have "e' \<in> set ?xs" using assms(2,3) by simp
  moreover have "sorted (map ev_created_at ?xs)" by simp
  ultimately show ?thesis unfolding xs by auto
qed

lemma next_ready_None: "next_ready p d = None \<longleftrightarrow> (\<forall>e \<in> set (db_events d). \<not> p e)"
proof -
  have "next_ready p d = None \<longleftrightarrow> set (sort_key ev_created_at (sort_key ev_id (filter p (db_events d)))) = {}"
    unfolding next_ready_def by (cases "sort_key ev_created_at (sort_key ev_id (filter p (db_events d)))")
      (simp_all del: set_sort)
  then show ?thesis by (auto simp: filter_empty_conv)
qed

lemma event_row_Some: "keyed ev_id (db_events d) \<Longrightarrow> e \<in> set (db_events d) \<Longrightarrow> event_row (ev_id e) d = Some e"
  by (simp add: event_row_def find_row_Some)

lemma event_row_id: "event_row j d = Some e \<Longrightarrow> ev_id e = j"
  by (auto simp: event_row_def dest: find_row_SomeD)

text \<open>Every operation is the identity or one step of one row.\<close>

lemma queue_exec_step:
  assumes "keyed ev_id (db_events d)"
  shows "event_row i (queue_exec ttl m op d) = event_row i d
    \<or> (\<exists>e e'. event_row i d = Some e \<and> event_row i (queue_exec ttl m op d) = Some e' \<and> event_step m e e')"
proof -
  obtain now w q where op: "op = (now, w, q)" by (cases op)
  show ?thesis
  proof (cases q)
    case (Q_acquire j)
    with op show ?thesis
      by (auto simp: acquire_def Let_def event_row_upd split: option.splits sum.splits if_splits prod.splits
          intro: event_step.intros simp flip: event_row_def)
  next
    case (Q_next pg skip t)
    show ?thesis
      using assms op Q_next
      by (auto simp: acquire_next_def acquire_def Let_def event_row_upd event_row_Some
          split: option.splits sum.splits if_splits prod.splits
          dest!: next_ready_Some intro: event_step.intros simp flip: event_row_def)
  next
    case (Q_complete j v a)
    with op show ?thesis
      by (cases "event_row j d") (auto simp: complete_def event_row_upd split: sum.splits
          dest: event_row_id intro: event_step.intros simp flip: event_row_def)
  next
    case (Q_fail j code)
    with op show ?thesis
      by (cases "event_row j d") (auto simp: fail_def Let_def event_row_upd split: sum.splits
          dest: event_row_id intro: event_step.intros simp flip: event_row_def)
  qed
qed

lemma queue_exec_keyed:
  "keyed ev_id (db_events d) \<Longrightarrow> keyed ev_id (db_events (queue_exec ttl m op d))"
proof -
  assume k: "keyed ev_id (db_events d)"
  have u: "keyed ev_id (db_events (upd_event i f d))" if "\<And>e. ev_id (f e) = ev_id e" for i f
    using k that by (simp add: upd_event_def keyed_upd_row)
  obtain now w q where "op = (now, w, q)" by (cases op)
  with k u show ?thesis
    by (cases q) (auto simp: acquire_def acquire_next_def complete_def fail_def Let_def
        split: option.splits sum.splits)
qed

lemma queue_run_row:
  assumes "keyed ev_id (db_events d)" "event_row i d = Some e"
  shows "\<exists>e'. event_row i (queue_run ttl m ops d) = Some e' \<and> rtranclp (event_step m) e e'"
  using assms
proof (induction ops arbitrary: d e)
  case Nil
  then show ?case by (auto simp: queue_run_def)
next
  case (Cons op ops)
  obtain e1 where e1: "event_row i (queue_exec ttl m op d) = Some e1" "(event_step m)\<^sup>*\<^sup>* e e1"
    using queue_exec_step [OF Cons.prems(1), of i ttl m op] Cons.prems(2) by auto
  from Cons.IH [OF queue_exec_keyed [OF Cons.prems(1)] e1(1)] e1(2) show ?case
    by (auto simp: queue_run_def)
qed

text \<open>While a lock has not expired, an operation of another worker does not touch the row.\<close>

lemma not_ready_locked:
  assumes "ev_processing_state e = Analyzing" "ev_locked_at e = Some t" "now \<le> t + ttl * 1000000"
  shows "\<not> ready now (lock_cutoff now ttl) m e"
  using assms by (simp add: ready_def lock_cutoff_def)

lemma queue_exec_locked:
  assumes k: "keyed ev_id (db_events d)" and e: "event_row i d = Some e"
    and held: "ev_processing_state e = Analyzing" "ev_locked_by e = Some w" "ev_locked_at e = Some t"
    and now: "now \<le> t + ttl * 1000000" "w' \<noteq> w"
  shows "event_row i (queue_exec ttl m (now, w', q) d) = Some e"
proof -
  note nr = not_ready_locked [OF held(1,3) now(1), of m]
  have hold: "require_holder e w' \<noteq> Inr ()" using held now by (simp add: require_holder_Inr)
  have id: "ev_id e = i" using event_row_id [OF e] .
  show ?thesis
  proof (cases q)
    case (Q_acquire j)
    with e nr id show ?thesis
      by (cases "event_row j d") (auto simp: acquire_def Let_def event_row_upd simp flip: event_row_def)
  next
    case (Q_next pg skip tn)
    have other: "j = ev_id x \<Longrightarrow> x \<in> set (db_events d) \<Longrightarrow> ready now (lock_cutoff now ttl) m x \<Longrightarrow> i \<noteq> j" for x j
      using nr e event_row_Some [OF k] by auto
    show ?thesis
      using e Q_next other event_row_Some [OF k]
      by (auto simp: acquire_next_def acquire_def Let_def event_row_upd
          split: option.splits sum.splits if_splits prod.splits
          dest!: next_ready_Some simp flip: event_row_def)
  next
    case (Q_complete j v a)
    with e hold show ?thesis
      by (cases "j = i"; cases "event_row j d") (auto simp: complete_def event_row_upd split: sum.splits
          dest: event_row_id simp flip: event_row_def)
  next
    case (Q_fail j code)
    with e hold show ?thesis
      by (cases "j = i"; cases "event_row j d") (auto simp: fail_def Let_def event_row_upd split: sum.splits
          dest: event_row_id simp flip: event_row_def)
  qed
qed

lemma queue_run_locked:
  assumes "keyed ev_id (db_events d)" "event_row i d = Some e"
    and "ev_processing_state e = Analyzing" "ev_locked_by e = Some w" "ev_locked_at e = Some t"
    and "\<forall>(now, w', q) \<in> set ops. now \<le> t + ttl * 1000000 \<and> w' \<noteq> w"
  shows "event_row i (queue_run ttl m ops d) = Some e"
  using assms
proof (induction ops arbitrary: d)
  case Nil
  then show ?case by (simp add: queue_run_def)
next
  case (Cons op ops)
  obtain now w' q where op: "op = (now, w', q)" by (cases op)
  with Cons.prems(6) have "now \<le> t + ttl * 1000000" "w' \<noteq> w" by auto
  from queue_exec_locked [OF Cons.prems(1-5) this] op
  have "event_row i (queue_exec ttl m op d) = Some e" by simp
  from Cons.IH [OF queue_exec_keyed [OF Cons.prems(1)] this Cons.prems(3-5)] Cons.prems(6)
  show ?case by (simp add: queue_run_def)
qed

section \<open>Properties\<close>

definition demo_event :: event where
  "demo_event = (blank_event 0)\<lparr>ev_id := 1, ev_tenant_id := 7, ev_processing_state := Analyzing, ev_locked_by := Some ''w1'',
     ev_locked_at := Some 0\<rparr>"

definition demo_queue :: db where
  "demo_queue = empty_db\<lparr>db_events := [demo_event]\<rparr>"

lemma demo_queue_row: "keyed ev_id (db_events demo_queue)" "event_row 1 demo_queue = Some demo_event"
  by (simp_all add: demo_queue_def demo_event_def keyed_def event_row_def find_row_def)





text \<open>The queue is fair and total: \<open>acquire_next\<close> never raises, it answers nothing exactly when the tenant
  has no ready event, and otherwise it locks for the worker a ready event of the tenant that no other
  ready event of the tenant precedes.\<close>

theorem acquire_next_oldest:
  assumes "keyed ev_id (db_events d)"
  shows "(acquire_next False [] now t w ttl m d = Inr (None, d)
            \<and> (\<forall>e \<in> set (db_events d). \<not> (ev_tenant_id e = t \<and> ready now (lock_cutoff now ttl) m e)))
    \<or> (\<exists>e \<in> set (db_events d). ev_tenant_id e = t \<and> ready now (lock_cutoff now ttl) m e
         \<and> acquire_next False [] now t w ttl m d = Inr (Some (acquired w now e), upd_event (ev_id e) (acquired w now) d)
         \<and> (\<forall>e' \<in> set (db_events d). ev_tenant_id e' = t \<and> ready now (lock_cutoff now ttl) m e'
               \<longrightarrow> ev_created_at e \<le> ev_created_at e'))"
proof (cases "next_ready (\<lambda>e. ev_tenant_id e = t \<and> ready now (lock_cutoff now ttl) m e) d")
  case None
  then have "acquire_next False [] now t w ttl m d = Inr (None, d)" by (simp add: acquire_next_def)
  with None show ?thesis by (simp add: next_ready_None)
next
  case (Some e)
  from next_ready_Some [OF Some] have e: "e \<in> set (db_events d)" "ev_tenant_id e = t" "ready now (lock_cutoff now ttl) m e" by auto
  have "find_row ev_id (ev_id e) (db_events d) = Some e" using assms e(1) by (simp add: find_row_Some)
  with e Some have "acquire_next False [] now t w ttl m d = Inr (Some (acquired w now e), upd_event (ev_id e) (acquired w now) d)"
    by (simp add: acquire_next_def acquire_def Let_def)
  with e next_ready_oldest [OF Some] show ?thesis by blast
qed

theorem acquire_next_oldest_witness: "acquire_next False [] 100 7 ''w2'' 300 5 demo_queue = Inr (None, demo_queue)"
  using acquire_next_oldest [OF demo_queue_row(1), of 100 7 "''w2''" 300 5]
  by (auto simp: demo_queue_def demo_event_def ready_def lock_cutoff_def)

end
