(* ===== verification/Retention.thy ===== *)
theory Retention
  imports Analysis
begin

text \<open>
  The audit trail (\<open>app/audit.py\<close>) and the retention purge of collected content
  (\<open>app/collection/retention.py\<close>).
\<close>

section \<open>Audit\<close>

definition REDACT :: "string list" where
  "REDACT = [''password'', ''current_password'', ''new_password'', ''temporary_password'',
     ''token'', ''api_key'', ''secret'', ''hashed_password'', ''private_key'',
     ''password_sha256'', ''password_hash'', ''auth_key'', ''client_secret'']"

record http_request =
  hr_forwarded_for :: "string option"
  hr_client_host :: "string option"
  hr_user_agent :: "string option"

definition client_ip :: "http_request option \<Rightarrow> string option" where
  "client_ip request = (case request of
       None \<Rightarrow> None
     | Some r \<Rightarrow> (case hr_forwarded_for r of
           None \<Rightarrow> hr_client_host r
         | Some fwd \<Rightarrow> if fwd \<noteq> [] then Some (take 64 (str_strip (hd (str_split (CHR '','') fwd))))
                       else hr_client_host r))"

definition user_agent :: "http_request option \<Rightarrow> string option" where
  "user_agent request = (case request of
       None \<Rightarrow> None
     | Some r \<Rightarrow> (case hr_user_agent r of None \<Rightarrow> None
         | Some ua \<Rightarrow> if ua \<noteq> [] then Some (take 400 ua) else None))"

definition sanitize_detail :: "json dict \<Rightarrow> json dict option" where
  "sanitize_detail detail =
     (if detail = [] then None
      else Some (map (\<lambda>(k, v). (k, if str_lower k \<in> set REDACT then JStr ''***'' else v)) detail))"

definition audit_row ::
  "time \<Rightarrow> string \<Rightarrow> string option \<Rightarrow> string \<Rightarrow> string option \<Rightarrow> string option \<Rightarrow> int option \<Rightarrow> int option
    \<Rightarrow> http_request option \<Rightarrow> json dict \<Rightarrow> audit_entry" where
  "audit_row now actor actor_role action target_type target_id tenant_id operator_user_id request detail =
     \<lparr>au_tenant_id = tenant_id, au_ts = now, au_actor = take 255 actor, au_actor_role = actor_role,
      au_operator_user_id = operator_user_id, au_action = take 60 action, au_target_type = target_type,
      au_target_id = map_option (take 80) target_id, au_ip = client_ip request,
      au_user_agent = user_agent request, au_detail = sanitize_detail detail\<rparr>"

text \<open>
  \<open>audit.record\<close>: with \<open>commit=True\<close> it commits whatever else the session holds. \<open>ok\<close> is
  whether the commit succeeds; when it does not, the session is rolled back and nothing is raised.
\<close>

definition audit_record :: "bool \<Rightarrow> audit_entry \<Rightarrow> bool \<Rightarrow> session \<Rightarrow> session" where
  "audit_record ok entry commit_now s =
     (let s1 = with_working (\<lambda>d. d\<lparr>db_audit := db_audit d @ [entry]\<rparr>) s
      in if commit_now then (if ok then commit s1 else rollback s1) else s1)"

lemma audit_no_secret:
  assumes "sanitize_detail detail = Some d" "(k, v) \<in> set d" "str_lower k \<in> set REDACT"
  shows "v = JStr ''***''"
  using assms by (auto simp: sanitize_detail_def split: if_splits)

section \<open>Purge\<close>

record purge_report =
  pr_purged :: nat
  pr_skipped_legal_hold :: nat
  pr_policy :: string

definition purge_due :: "int \<Rightarrow> time \<Rightarrow> event \<Rightarrow> bool" where
  "purge_due tenant_id older_than ev =
     (ev_tenant_id ev = tenant_id \<and> ev_created_at ev < older_than \<and> ev_purged_at ev = None)"

definition purged :: "time \<Rightarrow> string \<Rightarrow> event \<Rightarrow> event" where
  "purged now policy ev =
     ev\<lparr>ev_redacted_text := None, ev_context_json := [], ev_control_nonce_hash := None,
        ev_analysis_json := [], ev_purged_at := Some now, ev_retention_policy := Some policy\<rparr>"

definition purge_audit_row :: "time \<Rightarrow> int \<Rightarrow> string \<Rightarrow> string \<Rightarrow> nat \<Rightarrow> nat \<Rightarrow> audit_entry" where
  "purge_audit_row now tenant_id policy actor n_purged n_skipped =
     audit_row now actor (Some ''system'') ''collection.retention_purged'' (Some ''collection_event'')
       None (Some tenant_id) None None
       [(''policy'', JStr policy), (''purged'', JInt (int n_purged)),
        (''skipped_legal_hold'', JInt (int n_skipped))]"

definition purge_expired_events ::
  "time \<Rightarrow> int \<Rightarrow> string \<Rightarrow> time \<Rightarrow> string \<Rightarrow> bool \<Rightarrow> session \<Rightarrow> purge_report \<times> session" where
  "purge_expired_events now tenant_id policy older_than actor commit_now s =
     (let d = working s;
          rows = filter (purge_due tenant_id older_than) (db_events d);
          n_purged = length (filter (\<lambda>ev. \<not> ev_legal_hold ev) rows);
          n_skipped = length (filter ev_legal_hold rows);
          s1 = with_working (\<lambda>d. d\<lparr>db_events := map (\<lambda>ev.
                 if purge_due tenant_id older_than ev \<and> \<not> ev_legal_hold ev then purged now policy ev else ev)
                 (db_events d)\<rparr>) s;
          s2 = audit_record True (purge_audit_row now tenant_id policy actor n_purged n_skipped) False s1
      in (\<lparr>pr_purged = n_purged, pr_skipped_legal_hold = n_skipped, pr_policy = policy\<rparr>,
          if commit_now then commit s2 else s2))"

section \<open>What the purge touches\<close>

lemma purged_preserves:
  "ev_normalized_fingerprint (purged now p e) = ev_normalized_fingerprint e
   \<and> ev_raw_fingerprint (purged now p e) = ev_raw_fingerprint e
   \<and> ev_external_id_hash (purged now p e) = ev_external_id_hash e
   \<and> ev_provider (purged now p e) = ev_provider e
   \<and> ev_processing_state (purged now p e) = ev_processing_state e
   \<and> ev_content_version (purged now p e) = ev_content_version e
   \<and> ev_redaction_profile (purged now p e) = ev_redaction_profile e
   \<and> ev_occurred_at (purged now p e) = ev_occurred_at e
   \<and> ev_created_at (purged now p e) = ev_created_at e
   \<and> ev_finding_id (purged now p e) = ev_finding_id e
   \<and> ev_case_id (purged now p e) = ev_case_id e
   \<and> ev_legal_hold (purged now p e) = ev_legal_hold e"
  by (simp add: purged_def)

definition content_cleared :: "event \<Rightarrow> bool" where
  "content_cleared e = (ev_redacted_text e = None \<and> ev_context_json e = []
     \<and> ev_control_nonce_hash e = None \<and> ev_analysis_json e = [])"

lemma purge_events:
  "db_events (working (snd (purge_expired_events now t policy older actor c s))) =
     map (\<lambda>ev. if purge_due t older ev \<and> \<not> ev_legal_hold ev then purged now policy ev else ev)
       (db_events (working s))"
  by (simp add: purge_expired_events_def Let_def audit_record_def)

lemma purge_due_purged [simp]: "\<not> purge_due t older (purged now p e)"
  by (simp add: purge_due_def purged_def)

text \<open>A purged event leaves the queue: it is never ready again.\<close>

lemma purged_not_ready: "\<not> ready now' cutoff m (purged now p e)"
  by (simp add: ready_def purged_def)

section \<open>Properties\<close>

text \<open>The purge reaches exactly the tenant's events older than the limit that are not on legal hold: their
  text, context, nonce hash and analysis are gone, their fingerprints, state and links stay, and every
  other event is untouched.\<close>

theorem purge_exact:
  "list_all2 (\<lambda>e e'. e' = (if purge_due t older e \<and> \<not> ev_legal_hold e then purged now policy e else e)
        \<and> ev_normalized_fingerprint e' = ev_normalized_fingerprint e \<and> ev_external_id_hash e' = ev_external_id_hash e
        \<and> ev_processing_state e' = ev_processing_state e \<and> ev_finding_id e' = ev_finding_id e
        \<and> (content_cleared e' \<or> e' = e))
     (db_events (working s)) (db_events (working (snd (purge_expired_events now t policy older actor c s))))"
  unfolding purge_events list.rel_map list_all2_same
  by (simp add: purged_def content_cleared_def)

text \<open>A purged event never comes back to the queue, and purging again changes nothing more: a second run
  with any policy reports no purged event and leaves the events as they are.\<close>

theorem purge_idempotent:
  "pr_purged (fst (purge_expired_events now' t policy' older actor' c'
       (snd (purge_expired_events now t policy older actor c s)))) = 0
   \<and> db_events (working (snd (purge_expired_events now' t policy' older actor' c'
       (snd (purge_expired_events now t policy older actor c s)))))
     = db_events (working (snd (purge_expired_events now t policy older actor c s)))"
proof -
  let ?es = "db_events (working (snd (purge_expired_events now t policy older actor c s)))"
  have none: "\<forall>e \<in> set ?es. \<not> (purge_due t older e \<and> \<not> ev_legal_hold e)"
    unfolding purge_events by auto
  have "map (\<lambda>ev. if purge_due t older ev \<and> \<not> ev_legal_hold ev then purged now' policy' ev else ev) ?es = ?es"
    using none by (intro map_idI) auto
  moreover have "filter (\<lambda>ev. \<not> ev_legal_hold ev) (filter (purge_due t older) ?es) = []"
    using none by (auto simp: filter_empty_conv)
  moreover have "pr_purged (fst (purge_expired_events now' t policy' older actor' c' s'))
      = length (filter (\<lambda>ev. \<not> ev_legal_hold ev) (filter (purge_due t older) (db_events (working s'))))" for s'
    by (simp add: purge_expired_events_def Let_def)
  ultimately show ?thesis
    using purge_events [of now' t policy' older actor' c' "snd (purge_expired_events now t policy older actor c s)"]
    by simp
qed

text \<open>No credential reaches the audit log: whatever detail a caller records, every top-level field with a
  sensitive name in any letter case is stored masked.\<close>

theorem audit_masks_secrets:
  "list_all (\<lambda>(k, v). str_lower k \<in> set REDACT \<longrightarrow> v = JStr ''***'')
     (case sanitize_detail detail of None \<Rightarrow> [] | Some d \<Rightarrow> d)"
  by (cases "sanitize_detail detail") (auto simp: list_all_iff dest: audit_no_secret)

theorem audit_masks_secrets_witness:
  "sanitize_detail [(''Password'', JStr ''hunter2''), (''id'', JInt 3)] = Some [(''Password'', JStr ''***''), (''id'', JInt 3)]"
proof -
  have "str_lower ''Password'' \<in> set REDACT" "str_lower ''id'' \<notin> set REDACT" by code_simp+
  with audit_masks_secrets [of "[(''Password'', JStr ''hunter2''), (''id'', JInt 3)]"] show ?thesis
    by (simp add: sanitize_detail_def)
qed

end
