(* ===== verification/Auth.thy ===== *)
theory Auth
  imports Retention
begin

text \<open>
  Principals, roles and the effective tenant of a request (\<open>app/auth.py\<close>), and the acceptance of a
  session token (\<open>app/security.decode_token\<close>). Parameters: the HMAC of the platform secret
  (\<open>mac\<close>), base64 and JSON decoding, the slow-hash check of an API key (\<open>verify_key\<close>) and the
  platform key of the configuration.
\<close>

record operator_access =
  oa_operator_user_id :: int
  oa_tenant_id :: int
  oa_is_active :: bool

record api_key =
  ak_id :: int
  ak_tenant_id :: int
  ak_prefix :: string
  ak_key_hash :: string
  ak_role :: string
  ak_active :: bool
  ak_last_used_at :: "time option"

record user =
  us_id :: int
  us_email :: string
  us_role :: string
  us_is_operator :: bool
  us_operator_role :: "string option"
  us_tenant_id :: "int option"
  us_is_active :: bool
  us_pwd_version :: int

record auth_db =
  ad_users :: "user list"
  ad_keys :: "api_key list"
  ad_access :: "operator_access list"

record principal =
  pr_subject :: string
  pr_role :: string
  pr_kind :: string
  pr_is_operator :: bool
  pr_operator_role :: "string option"
  pr_tenant_id :: "int option"
  pr_user_id :: "int option"

definition role_rank :: "string \<Rightarrow> int" where
  "role_rank r = (case map_of [(''viewer'', 1), (''analyst'', 2), (''admin'', 3)] r of None \<Rightarrow> 0 | Some n \<Rightarrow> n)"

definition OPERATOR_EFFECTIVE_ROLE :: "string dict" where
  "OPERATOR_EFFECTIVE_ROLE = [(''platform_admin'', ''admin''), (''support_operator'', ''analyst''),
     (''support_viewer'', ''viewer'')]"

definition effective_role :: "principal \<Rightarrow> string" where
  "effective_role p =
     (if pr_is_operator p
      then (case map_of OPERATOR_EFFECTIVE_ROLE (case pr_operator_role p of None \<Rightarrow> [] | Some r \<Rightarrow> r) of
              None \<Rightarrow> ''viewer'' | Some r \<Rightarrow> r)
      else pr_role p)"

section \<open>Session tokens\<close>

definition decode_token ::
  "(string \<Rightarrow> string) \<Rightarrow> (string \<Rightarrow> string option) \<Rightarrow> (string \<Rightarrow> json option) \<Rightarrow> int \<Rightarrow> string \<Rightarrow> json dict option res" where
  "decode_token mac b64_decode json_loads now token =
     (case str_split (CHR ''.'') token of
        [header_b64, payload_b64, sig_b64] \<Rightarrow>
          (case b64_decode sig_b64 of
             None \<Rightarrow> Inr None
           | Some provided \<Rightarrow>
               if mac (header_b64 @ ''.'' @ payload_b64) \<noteq> provided then Inr None
               else (case b64_decode payload_b64 of
                  None \<Rightarrow> Inr None
                | Some body \<Rightarrow> (case json_loads body of
                    Some (JObj payload) \<Rightarrow>
                      (case py_int (if ''exp'' \<in> set (dict_keys payload) then jget payload ''exp'' else JInt 0) of
                         Inl e \<Rightarrow> Inl e
                       | Inr exp \<Rightarrow> if exp < now then Inr None else Inr (Some payload))
                  | _ \<Rightarrow> Inr None)))
      | _ \<Rightarrow> Inr None)"

section \<open>Principals\<close>

definition from_platform_key :: "string option \<Rightarrow> string option \<Rightarrow> principal option" where
  "from_platform_key platform_key header = (case (header, platform_key) of
       (Some k, Some pk) \<Rightarrow>
         if k \<noteq> [] \<and> pk \<noteq> [] \<and> k = pk
         then Some \<lparr>pr_subject = ''platform-service'', pr_role = ''admin'', pr_kind = ''service'',
                pr_is_operator = True, pr_operator_role = Some ''platform_admin'', pr_tenant_id = None,
                pr_user_id = None\<rparr>
         else None
     | _ \<Rightarrow> None)"

definition matching_key :: "(string \<Rightarrow> string \<Rightarrow> bool) \<Rightarrow> string \<Rightarrow> auth_db \<Rightarrow> api_key option" where
  "matching_key verify_key k d =
     find (\<lambda>r. verify_key k (ak_key_hash r))
       (filter (\<lambda>r. ak_prefix r = take 12 k \<and> ak_active r) (ad_keys d))"

definition from_tenant_api_key ::
  "(string \<Rightarrow> string \<Rightarrow> bool) \<Rightarrow> time \<Rightarrow> string option \<Rightarrow> auth_db \<Rightarrow> principal option \<times> auth_db" where
  "from_tenant_api_key verify_key now header d = (case header of
       None \<Rightarrow> (None, d)
     | Some k \<Rightarrow>
         if k = [] then (None, d)
         else (case matching_key verify_key k d of
            None \<Rightarrow> (None, d)
          | Some row \<Rightarrow>
              (Some \<lparr>pr_subject = ''apikey:'' @ ak_prefix row, pr_role = ak_role row, pr_kind = ''service'',
                 pr_is_operator = False, pr_operator_role = None, pr_tenant_id = Some (ak_tenant_id row),
                 pr_user_id = None\<rparr>,
               d\<lparr>ad_keys := upd_row ak_id (ak_id row) (\<lambda>r. r\<lparr>ak_last_used_at := Some now\<rparr>) (ad_keys d)\<rparr>)))"

text \<open>\<open>int(payload.get(k, 0))\<close>; an exception here is not caught by the code.\<close>

definition payload_int :: "json dict \<Rightarrow> string \<Rightarrow> int res" where
  "payload_int payload k = py_int (if k \<in> set (dict_keys payload) then jget payload k else JInt 0)"

definition from_cookie :: "(string \<Rightarrow> json dict option res) \<Rightarrow> string option \<Rightarrow> auth_db \<Rightarrow> principal option res" where
  "from_cookie decode token d = (case token of
       None \<Rightarrow> Inr None
     | Some t \<Rightarrow>
         if t = [] then Inr None
         else (case decode t of
            Inl e \<Rightarrow> Inl e
          | Inr None \<Rightarrow> Inr None
          | Inr (Some payload) \<Rightarrow>
              if payload = [] then Inr None
              else (case payload_int payload ''sub'' of
                 Inl e \<Rightarrow> Inl e
               | Inr uid \<Rightarrow> (case find_row us_id uid (ad_users d) of
                   None \<Rightarrow> Inr None
                 | Some u \<Rightarrow>
                     if \<not> us_is_active u then Inr None
                     else (case payload_int payload ''pv'' of
                        Inl e \<Rightarrow> Inl e
                      | Inr pv \<Rightarrow>
                          if pv \<noteq> us_pwd_version u then Inr None
                          else Inr (Some \<lparr>pr_subject = us_email u, pr_role = us_role u, pr_kind = ''user'',
                             pr_is_operator = us_is_operator u, pr_operator_role = us_operator_role u,
                             pr_tenant_id = us_tenant_id u, pr_user_id = Some (us_id u)\<rparr>))))))"

definition get_principal ::
  "string option \<Rightarrow> (string \<Rightarrow> string \<Rightarrow> bool) \<Rightarrow> (string \<Rightarrow> json dict option res) \<Rightarrow> time \<Rightarrow> string option
    \<Rightarrow> string option \<Rightarrow> auth_db \<Rightarrow> principal res \<times> auth_db" where
  "get_principal platform_key verify_key decode now header token d =
     (case from_platform_key platform_key header of
        Some p \<Rightarrow> (Inr p, d)
      | None \<Rightarrow>
          (case from_tenant_api_key verify_key now header d of
             (Some p, d') \<Rightarrow> (Inr p, d')
           | (None, d') \<Rightarrow>
               (case from_cookie decode token d' of
                  Inl e \<Rightarrow> (Inl e, d')
                | Inr None \<Rightarrow> (Inl (HTTPException 401), d')
                | Inr (Some p) \<Rightarrow> (Inr p, d'))))"

section \<open>Authorisation\<close>

definition require_role :: "string \<Rightarrow> principal \<Rightarrow> principal res" where
  "require_role minimum p =
     (if role_rank (effective_role p) < role_rank minimum then Inl (HTTPException 403) else Inr p)"

definition require_operator :: "principal \<Rightarrow> principal res" where
  "require_operator p = (if \<not> pr_is_operator p then Inl (HTTPException 403) else Inr p)"

definition require_platform_admin :: "principal \<Rightarrow> principal res" where
  "require_platform_admin p =
     (if \<not> (pr_is_operator p \<and> pr_operator_role p = Some ''platform_admin'')
      then Inl (HTTPException 403) else Inr p)"

definition operator_can_access_tenant :: "auth_db \<Rightarrow> principal \<Rightarrow> int \<Rightarrow> bool" where
  "operator_can_access_tenant d p tenant_id =
     (pr_operator_role p = Some ''platform_admin''
      \<or> list_ex (\<lambda>r. Some (oa_operator_user_id r) = pr_user_id p \<and> oa_tenant_id r = tenant_id \<and> oa_is_active r)
          (ad_access d))"

definition current_tenant_id :: "principal \<Rightarrow> string option \<Rightarrow> auth_db \<Rightarrow> int res" where
  "current_tenant_id p x_tenant_id d =
     (if \<not> pr_is_operator p
      then (case pr_tenant_id p of None \<Rightarrow> Inl (HTTPException 403) | Some t \<Rightarrow> Inr t)
      else (case x_tenant_id of
         None \<Rightarrow> Inl (HTTPException 400)
       | Some x \<Rightarrow>
           if x = [] \<or> \<not> str_isdigit x then Inl (HTTPException 400)
           else (case py_int (JStr x) of
              Inl e \<Rightarrow> Inl e
            | Inr tid \<Rightarrow>
                if \<not> operator_can_access_tenant d p tid then Inl (HTTPException 403) else Inr tid)))"

section \<open>What the gates guarantee\<close>

lemma current_tenant_scope:
  assumes "current_tenant_id p x d = Inr tid"
  shows "(\<not> pr_is_operator p \<longrightarrow> pr_tenant_id p = Some tid)
    \<and> (pr_is_operator p \<longrightarrow> operator_can_access_tenant d p tid)"
  using assms by (auto simp: current_tenant_id_def split: if_splits option.splits sum.splits)

lemma role_rank_values: "role_rank r \<in> {0, 1, 2, 3}"
  by (auto simp: role_rank_def split: option.splits if_splits)

lemma matching_key_Some:
  "matching_key v k d = Some r \<Longrightarrow> r \<in> set (ad_keys d) \<and> ak_active r \<and> v k (ak_key_hash r)"
proof -
  assume "matching_key v k d = Some r"
  then have "r \<in> set (filter (\<lambda>r. ak_prefix r = take 12 k \<and> ak_active r) (ad_keys d)) \<and> v k (ak_key_hash r)"
    unfolding matching_key_def by (metis (mono_tags, lifting) find_Some_iff nth_mem)
  then show ?thesis by auto
qed

section \<open>Properties\<close>



text \<open>C36 A principal is authenticated by exactly one of three means: the platform key; an active API key whose
  hash verifies, which never makes an operator and is bound to its tenant; or a session of an active user
  whose token carries the user's current password version.\<close>

theorem principal_provenance:
  assumes "get_principal platform_key verify_key decode now header token d = (Inr p, d')"
  shows "(header = platform_key \<and> header \<noteq> None \<and> header \<noteq> Some [] \<and> pr_operator_role p = Some ''platform_admin'')
    \<or> (\<exists>k r. header = Some k \<and> r \<in> set (ad_keys d) \<and> ak_active r \<and> verify_key k (ak_key_hash r)
         \<and> \<not> pr_is_operator p \<and> pr_tenant_id p = Some (ak_tenant_id r) \<and> pr_role p = ak_role r)
    \<or> (\<exists>t u payload. token = Some t \<and> decode t = Inr (Some payload) \<and> u \<in> set (ad_users d) \<and> us_is_active u
         \<and> pr_user_id p = Some (us_id u) \<and> pr_tenant_id p = us_tenant_id u
         \<and> payload_int payload ''sub'' = Inr (us_id u) \<and> payload_int payload ''pv'' = Inr (us_pwd_version u))"
proof (cases "from_platform_key platform_key header")
  case (Some q)
  with assms show ?thesis
    by (auto simp: get_principal_def from_platform_key_def split: option.splits if_splits)
next
  case plat: None
  obtain q d1 where k: "from_tenant_api_key verify_key now header d = (q, d1)" by fastforce
  show ?thesis
  proof (cases q)
    case (Some q')
    with k assms plat have "\<exists>k r. header = Some k \<and> r \<in> set (ad_keys d) \<and> ak_active r \<and> verify_key k (ak_key_hash r)
         \<and> \<not> pr_is_operator p \<and> pr_tenant_id p = Some (ak_tenant_id r) \<and> pr_role p = ak_role r"
      by (auto simp: get_principal_def from_tenant_api_key_def split: option.splits if_splits dest!: matching_key_Some)
    then show ?thesis by blast
  next
    case None
    with k have "d1 = d" by (auto simp: from_tenant_api_key_def split: option.splits if_splits)
    with None k assms plat have "from_cookie decode token d = Inr (Some p)"
      by (auto simp: get_principal_def split: sum.splits option.splits)
    then have "\<exists>t u payload. token = Some t \<and> decode t = Inr (Some payload) \<and> u \<in> set (ad_users d) \<and> us_is_active u
         \<and> pr_user_id p = Some (us_id u) \<and> pr_tenant_id p = us_tenant_id u
         \<and> payload_int payload ''sub'' = Inr (us_id u) \<and> payload_int payload ''pv'' = Inr (us_pwd_version u)"
      by (auto simp: from_cookie_def split: option.splits sum.splits if_splits dest!: find_row_SomeD)
    then show ?thesis by blast
  qed
qed

theorem principal_provenance_witness:
  "\<exists>p d'. get_principal None (\<lambda>k h. k = h) (\<lambda>_. Inr None) 0 (Some ''tf_secret'') None
       \<lparr>ad_users = [], ad_keys = [\<lparr>ak_id = 1, ak_tenant_id = 7, ak_prefix = ''tf_secret'', ak_key_hash = ''tf_secret'',
          ak_role = ''analyst'', ak_active = True, ak_last_used_at = None\<rparr>], ad_access = []\<rparr> = (Inr p, d')
     \<and> pr_tenant_id p = Some 7 \<and> \<not> pr_is_operator p"
proof -
  let ?d = "\<lparr>ad_users = [], ad_keys = [\<lparr>ak_id = 1, ak_tenant_id = 7, ak_prefix = ''tf_secret'', ak_key_hash = ''tf_secret'',
          ak_role = ''analyst'', ak_active = True, ak_last_used_at = None\<rparr>], ad_access = []\<rparr>"
  obtain p d' where r: "get_principal None (\<lambda>k h. k = h) (\<lambda>_. Inr None) 0 (Some ''tf_secret'') None ?d = (Inr p, d')"
    by (simp add: get_principal_def from_platform_key_def from_tenant_api_key_def matching_key_def)
  from principal_provenance [OF r] have "pr_tenant_id p = Some 7 \<and> \<not> pr_is_operator p" by auto
  with r show ?thesis by blast
qed

text \<open>A session token is accepted only unaltered and in time: its signature is the platform's over header
  and payload, and its expiry is not past.\<close>

theorem token_integrity:
  assumes "decode_token mac b64 loads now token = Inr (Some payload)"
  shows "\<exists>h b sig body exp. str_split (CHR ''.'') token = [h, b, sig] \<and> b64 sig = Some (mac (h @ ''.'' @ b))
    \<and> b64 b = Some body \<and> loads body = Some (JObj payload)
    \<and> payload_int payload ''exp'' = Inr exp \<and> now \<le> exp"
  using assms
  by (auto simp: decode_token_def payload_int_def split: list.splits option.splits json.splits sum.splits if_splits)

theorem token_integrity_witness:
  "\<exists>exp. payload_int [(''exp'', JInt 99)] ''exp'' = Inr exp \<and> 5 \<le> exp"
proof -
  have "str_split (CHR ''.'') ''h.b.s'' = [''h'', ''b'', ''s'']" by code_simp
  then have "decode_token (\<lambda>_. ''s'') Some (\<lambda>_. Some (JObj [(''exp'', JInt 99)])) 5 ''h.b.s'' = Inr (Some [(''exp'', JInt 99)])"
    by (simp add: decode_token_def dict_keys_def)
  from token_integrity [OF this] show ?thesis by blast
qed

text \<open>Roles are ordered: who passes a gate passes every gate of a lower rank, and an operator's rank comes
  from its operator role alone.\<close>

theorem role_monotone:
  assumes "require_role m p = Inr p" "role_rank m' \<le> role_rank m"
  shows "require_role m' p = Inr p \<and> (pr_is_operator p \<longrightarrow> require_role m (p\<lparr>pr_role := r\<rparr>) = Inr (p\<lparr>pr_role := r\<rparr>))"
  using assms by (auto simp: require_role_def effective_role_def split: if_splits)

theorem role_monotone_witness:
  "require_role ''viewer'' \<lparr>pr_subject = [], pr_role = ''analyst'', pr_kind = ''user'', pr_is_operator = False,
     pr_operator_role = None, pr_tenant_id = Some 1, pr_user_id = Some 1\<rparr> = Inr \<lparr>pr_subject = [], pr_role = ''analyst'',
     pr_kind = ''user'', pr_is_operator = False, pr_operator_role = None, pr_tenant_id = Some 1, pr_user_id = Some 1\<rparr>"
proof -
  let ?p = "\<lparr>pr_subject = [], pr_role = ''analyst'', pr_kind = ''user'', pr_is_operator = False,
     pr_operator_role = None, pr_tenant_id = Some 1, pr_user_id = Some 1\<rparr>"
  have "require_role ''analyst'' ?p = Inr ?p" "role_rank ''viewer'' \<le> role_rank ''analyst''"
    by (simp_all add: require_role_def effective_role_def role_rank_def)
  from role_monotone [OF this] show ?thesis by simp
qed

text \<open>The tenant header of an operator is checked with \<open>isdigit\<close>, which accepts superscript digits, and
  converted with \<open>int\<close>, which does not: such a header raises instead of being answered with 400.\<close>

theorem superscript_header_raises:
  "current_tenant_id (p\<lparr>pr_is_operator := True\<rparr>) (Some [CHR 0xB2]) d = Inl (ValueError [CHR 0xB2])
   \<and> current_tenant_id (p\<lparr>pr_is_operator := True\<rparr>) (Some ''x'') d = Inl (HTTPException 400)"
proof -
  have "str_isdigit [CHR 0xB2]" "\<not> str_isdigit ''x''" by code_simp+
  moreover have "py_int (JStr [CHR 0xB2]) = Inl (ValueError [CHR 0xB2])" by code_simp
  ultimately show ?thesis by (simp add: current_tenant_id_def)
qed

end
