(* ===== verification/Schemas.thy ===== *)
theory Schemas
  imports Prelude
begin

text \<open>
  The patterns of \<open>app/schemas.py\<close> that request bodies share: e-mail addresses, and the observables with their
  \<open>refang\<close>, normalisation and validation. A pattern's \<open>$\<close> and a trailing newline play no role, because every
  value is stripped first.
\<close>

section \<open>Addresses\<close>

definition is_local_char :: "char \<Rightarrow> bool" where
  "is_local_char c = (is_lower c \<or> is_digit c \<or> c \<in> {CHR ''.'', CHR ''_'', CHR ''%'', CHR ''+'', CHR ''-''})"

definition is_host_char :: "char \<Rightarrow> bool" where
  "is_host_char c = (is_lower c \<or> is_digit c \<or> c \<in> {CHR ''.'', CHR ''-''})"

text \<open>The pattern of an address: the last label of the host is two to 63 letters.\<close>

definition email_ok :: "string \<Rightarrow> bool" where
  "email_ok v = (case str_split (CHR ''@'') v of
     [local_part, host] \<Rightarrow> (let labels = str_split (CHR ''.'') host; tld = last labels in
       local_part \<noteq> [] \<and> list_all is_local_char local_part \<and> list_all is_host_char host
       \<and> length host > length tld + 1 \<and> length labels \<ge> 2 \<and> list_all is_lower tld \<and> 2 \<le> length tld \<and> length tld \<le> 63)
   | _ \<Rightarrow> False)"

definition valid_email :: "string \<Rightarrow> string res" where
  "valid_email v = (let e = str_lower (str_strip v) in if email_ok e then Inr e else Inl (HTTPException 422))"

section \<open>Observables\<close>

definition OBSERVABLE_TYPES :: "string list" where
  "OBSERVABLE_TYPES = [''ip'', ''domain'', ''url'', ''hash'', ''email'', ''cve'']"

definition octet_ok :: "string \<Rightarrow> bool" where
  "octet_ok s = (list_all is_digit s \<and> (length s = 1 \<or> length s = 2 \<and> hd s \<noteq> CHR ''0''
     \<or> length s = 3 \<and> hd s \<noteq> CHR ''0'' \<and> digits_val s \<le> 255))"

definition ip_ok :: "string \<Rightarrow> bool" where
  "ip_ok v = (let parts = str_split (CHR ''.'') v in length parts = 4 \<and> list_all octet_ok parts)"

definition is_label_char :: "char \<Rightarrow> bool" where
  "is_label_char c = (is_lower c \<or> is_digit c)"

definition domain_label_ok :: "string \<Rightarrow> bool" where
  "domain_label_ok s = (s \<noteq> [] \<and> length s \<le> 63 \<and> is_label_char (hd s) \<and> is_label_char (last s)
     \<and> list_all (\<lambda>c. is_label_char c \<or> c = CHR ''-'') s)"

definition domain_ok :: "string \<Rightarrow> bool" where
  "domain_ok v = (let labels = str_split (CHR ''.'') v; tld = last labels in
     length v \<le> 253 \<and> length labels \<ge> 2 \<and> list_all domain_label_ok (butlast labels)
     \<and> list_all is_lower tld \<and> 2 \<le> length tld \<and> length tld \<le> 63)"

definition url_ok :: "string \<Rightarrow> bool" where
  "url_ok v = (let s = str_lower v; n = (if startswith s ''https://'' then 8 else 7) in
     (startswith s ''http://'' \<or> startswith s ''https://'') \<and> length v > n \<and> list_all (\<lambda>c. \<not> is_ws c) v)"

definition is_hex :: "char \<Rightarrow> bool" where
  "is_hex c = (is_digit c \<or> is_lower c \<and> c \<le> CHR ''f'')"

definition hash_ok :: "string \<Rightarrow> bool" where
  "hash_ok v = (length v \<in> {32, 40, 64} \<and> list_all is_hex v)"

definition cve_ok :: "string \<Rightarrow> bool" where
  "cve_ok v = (case str_split (CHR ''-'') v of
     [c, y, n] \<Rightarrow> c = ''CVE'' \<and> length y = 4 \<and> list_all is_digit y \<and> 4 \<le> length n \<and> length n \<le> 7 \<and> list_all is_digit n
   | _ \<Rightarrow> False)"

definition pattern_ok :: "string \<Rightarrow> string \<Rightarrow> bool" where
  "pattern_ok kind v = (if kind = ''ip'' then ip_ok v else if kind = ''domain'' then domain_ok v
     else if kind = ''url'' then url_ok v else if kind = ''hash'' then hash_ok v
     else if kind = ''email'' then email_ok v else if kind = ''cve'' then cve_ok v else False)"

text \<open>\<open>s.replace(old, new)\<close>: the occurrences from the left, none of them overlapping; \<open>skip\<close> counts the
  characters of the last one that are still to be dropped.\<close>

fun str_replace :: "string \<Rightarrow> string \<Rightarrow> nat \<Rightarrow> string \<Rightarrow> string" where
  "str_replace old new skip [] = []"
| "str_replace old new (Suc skip) (c # s) = str_replace old new skip s"
| "str_replace old new 0 (c # s) = (if startswith (c # s) old then new @ str_replace old new (length old - 1) s
     else c # str_replace old new 0 s)"

definition replace_prefix :: "string \<Rightarrow> string \<Rightarrow> string \<Rightarrow> string" where
  "replace_prefix old new s = (if startswith (str_lower s) old then new @ drop (length old) s else s)"

definition refang :: "string \<Rightarrow> string" where
  "refang v =
     str_replace ''[@]'' ''@'' 0 (str_replace ''[:]'' '':'' 0 (str_replace ''[://]'' ''://'' 0
       (replace_prefix ''hxxp://'' ''http://'' (replace_prefix ''hxxps://'' ''https://''
         (str_replace ''{.}'' ''.'' 0 (str_replace ''(.)'' ''.'' 0 (str_replace ''[.]'' ''.'' 0 (str_strip v))))))))"

text \<open>\<open>str.upper\<close> on ASCII; no CVE number has any other letter.\<close>

definition char_upper :: "char \<Rightarrow> char" where
  "char_upper c = (if is_lower c then char_of ((of_char c :: nat) - 32) else c)"

definition normalize_observable :: "string \<Rightarrow> string \<Rightarrow> string" where
  "normalize_observable kind v = (let r = refang v in
     if kind \<in> {''domain'', ''hash'', ''email'', ''ip''} then str_lower r
     else if kind = ''cve'' then map char_upper r else r)"

definition validate_observable :: "string \<Rightarrow> string \<Rightarrow> string res" where
  "validate_observable kind v = (let w = normalize_observable kind v in
     if pattern_ok kind w then Inr w else Inl (ValueError ''valor''))"

section \<open>Validated values are canonical\<close>

text \<open>The characters of every validated value but a URL: no bracket, no colon, no space, no capital but in a CVE.\<close>

definition plain :: "char \<Rightarrow> bool" where
  "plain c = (is_lower c \<or> is_digit c \<or> c \<in> set ''.-_%+@'')"

definition cve_char :: "char \<Rightarrow> bool" where
  "cve_char c = (is_digit c \<or> c \<in> set ''-CVE'')"

lemma plain_code: "plain c \<Longrightarrow> (97 \<le> (of_char c :: nat) \<and> (of_char c :: nat) \<le> 122)
    \<or> (48 \<le> (of_char c :: nat) \<and> (of_char c :: nat) \<le> 57) \<or> (of_char c :: nat) \<in> {46, 45, 95, 37, 43, 64}"
  by (auto simp: plain_def is_lower_def is_digit_def Let_def)

lemma cve_code: "cve_char c \<Longrightarrow> (48 \<le> (of_char c :: nat) \<and> (of_char c :: nat) \<le> 57) \<or> (of_char c :: nat) \<in> {45, 67, 86, 69}"
  by (auto simp: cve_char_def is_digit_def Let_def)

lemma plain_facts: "plain c \<or> cve_char c \<Longrightarrow> \<not> is_ws c" "plain c \<or> cve_char c \<Longrightarrow> c \<notin> set ''[({:''"
  "plain c \<Longrightarrow> char_lower c = c" "cve_char c \<Longrightarrow> char_upper c = c"
proof -
  show "\<not> is_ws c" if "plain c \<or> cve_char c"
    using that plain_code[of c] cve_code[of c] unfolding is_ws_def Let_def by (elim disjE) auto
  show "c \<notin> set ''[({:''" if "plain c \<or> cve_char c"
    using that plain_code[of c] cve_code[of c] by auto
  show "plain c \<Longrightarrow> char_lower c = c"
    using plain_code[of c] unfolding char_lower_def Let_def by auto
  show "cve_char c \<Longrightarrow> char_upper c = c"
    using cve_code[of c] unfolding char_upper_def is_lower_def Let_def by auto
qed

lemma lower_not_colon: "c \<noteq> CHR '':'' \<Longrightarrow> char_lower c \<noteq> CHR '':''"
proof
  assume c: "c \<noteq> CHR '':''" "char_lower c = CHR '':''"
  let ?n = "of_char c :: nat"
  have up: "65 \<le> ?n \<and> ?n \<le> 90 \<or> 192 \<le> ?n \<and> ?n \<le> 222 \<and> ?n \<noteq> 215" "char_of (?n + 32) = CHR '':''"
    using c unfolding char_lower_def Let_def by (auto split: if_splits)
  from arg_cong[OF up(2), of "of_char :: char \<Rightarrow> nat"] have "(?n + 32) mod 256 = 58" by simp
  moreover have "?n + 32 < 256" using up(1) by linarith
  ultimately have "?n + 32 = 58" by (simp only: mod_less)
  with up(1) show False by linarith
qed

lemma startswith_Cons: "startswith (c # s) (d # q) = (c = d \<and> startswith s q)"
  unfolding startswith_def length_Cons take_Suc_Cons list.inject by (rule refl)

lemma str_replace_absent: "b \<notin> set s \<Longrightarrow> str_replace (b # old) new 0 s = s"
proof (induction s)
  case (Cons a s)
  then have "\<not> startswith (a # s) (b # old)" by (auto simp only: startswith_Cons list.set_intros)
  with Cons show ?case by simp
qed simp

lemma strip_no_ws: "list_all (\<lambda>c. \<not> is_ws c) s \<Longrightarrow> str_strip s = s"
proof -
  assume s: "list_all (\<lambda>c. \<not> is_ws c) s"
  have "dropWhile is_ws t = t" if "list_all (\<lambda>c. \<not> is_ws c) t" for t using that by (cases t) auto
  from this[OF s] this[of "rev s"] s show ?thesis
    by (simp add: str_strip_def str_lstrip_def str_rstrip_def list_all_rev)
qed

lemma startswith_mem: "startswith s p \<Longrightarrow> c \<in> set p \<Longrightarrow> c \<in> set s"
  unfolding startswith_def by (metis in_set_takeD)

lemma refang_plain:
  assumes "list_all (\<lambda>c. plain c \<or> cve_char c) v"
  shows "refang v = v"
proof -
  have ws: "list_all (\<lambda>c. \<not> is_ws c) v" using assms plain_facts(1) unfolding list_all_iff by blast
  have br: "c \<notin> set v" if "c \<in> set ''[({:''" for c
    using assms plain_facts(2)[of c] that unfolding list_all_iff by blast
  have cs: "CHR ''['' \<notin> set v" "CHR ''('' \<notin> set v" "CHR ''{'' \<notin> set v" "CHR '':'' \<notin> set v"
    by (rule br, simp)+
  then have "char_lower c \<noteq> CHR '':''" if "c \<in> set v" for c using that cs(4) lower_not_colon[of c] by metis
  note low = this
  have "CHR '':'' \<notin> set (str_lower v)"
  proof
    assume "CHR '':'' \<in> set (str_lower v)"
    then obtain c where "c \<in> set v" "CHR '':'' = char_lower c" unfolding str_lower_def set_map by (rule imageE)
    with low show False by metis
  qed
  then have no: "\<not> startswith (str_lower v) q" if "CHR '':'' \<in> set q" for q using startswith_mem[OF _ that] by metis
  have "\<not> startswith (str_lower v) ''hxxps://''" "\<not> startswith (str_lower v) ''hxxp://''" by (rule no, simp)+
  then have "replace_prefix ''hxxps://'' ''https://'' v = v" "replace_prefix ''hxxp://'' ''http://'' v = v"
    unfolding replace_prefix_def by (simp_all only: if_False)
  with cs(1-3) show ?thesis unfolding refang_def strip_no_ws[OF ws] by (simp only: str_replace_absent not_False_eq_True)
qed

lemma set_str_split: "c \<in> set v \<Longrightarrow> c = sep \<or> (\<exists>w \<in> set (str_split sep v). c \<in> set w)"
  by (induction v) (auto split: list.splits if_splits)


lemma split_chars: "list_all (list_all P) (str_split sep v) \<Longrightarrow> P sep \<Longrightarrow> list_all P v"
  using set_str_split[of _ v sep] unfolding list_all_iff by blast

lemma list_all_imp: "list_all P xs \<Longrightarrow> (\<And>x. P x \<Longrightarrow> Q x) \<Longrightarrow> list_all Q xs"
  by (simp add: list_all_iff)

lemma domain_ok_plain: "domain_ok v \<Longrightarrow> list_all plain v"
proof -
  assume v: "domain_ok v"
  let ?ls = "str_split (CHR ''.'') v"
  have "list_all plain w" if "domain_label_ok w" for w
    by (rule list_all_imp[of "\<lambda>c. is_label_char c \<or> c = CHR ''-''"])
      (use that in \<open>auto simp: domain_label_ok_def is_label_char_def plain_def\<close>)
  moreover have "list_all domain_label_ok (butlast ?ls)" "list_all is_lower (last ?ls)"
    using v by (simp_all add: domain_ok_def Let_def)
  moreover have "list_all plain (last ?ls)"
    by (rule list_all_imp[OF calculation(3)]) (simp add: plain_def)
  ultimately have "list_all (list_all plain) (butlast ?ls @ [last ?ls])"
    unfolding list_all_append using list_all_imp[of domain_label_ok "butlast ?ls" "list_all plain"] by simp
  then have "list_all (list_all plain) ?ls" by simp
  then show ?thesis by (rule split_chars) (simp add: plain_def)
qed

lemma ip_ok_plain: "ip_ok v \<Longrightarrow> list_all plain v"
proof -
  assume v: "ip_ok v"
  have "list_all plain w" if "octet_ok w" for w
    by (rule list_all_imp[of is_digit]) (use that in \<open>simp_all add: octet_ok_def plain_def\<close>)
  with v have "list_all (list_all plain) (str_split (CHR ''.'') v)" by (auto simp: ip_ok_def Let_def list_all_iff)
  then show ?thesis by (rule split_chars) (simp add: plain_def)
qed

lemma email_ok_plain: "email_ok v \<Longrightarrow> list_all plain v"
proof -
  assume "email_ok v"
  then obtain l h where lh: "str_split (CHR ''@'') v = [l, h]" "list_all is_local_char l" "list_all is_host_char h"
    by (auto simp: email_ok_def Let_def split: list.splits)
  have "list_all plain l" "list_all plain h"
    by (rule list_all_imp[OF lh(2)], force simp: is_local_char_def plain_def)
      (rule list_all_imp[OF lh(3)], force simp: is_host_char_def plain_def)
  then have "list_all (list_all plain) (str_split (CHR ''@'') v)" by (simp add: lh(1))
  then show ?thesis by (rule split_chars) (simp add: plain_def)
qed

lemma hash_ok_plain: "hash_ok v \<Longrightarrow> list_all plain v"
  by (rule list_all_imp[of is_hex]) (auto simp: hash_ok_def is_hex_def plain_def)

lemma cve_ok_chars: "cve_ok v \<Longrightarrow> list_all cve_char v"
proof -
  assume "cve_ok v"
  then obtain y n where p: "str_split (CHR ''-'') v = [''CVE'', y, n]" "list_all is_digit y" "list_all is_digit n"
    by (auto simp: cve_ok_def split: list.splits)
  have "list_all cve_char y" "list_all cve_char n"
    by (rule list_all_imp[OF p(2)], simp add: cve_char_def) (rule list_all_imp[OF p(3)], simp add: cve_char_def)
  then have "list_all (list_all cve_char) (str_split (CHR ''-'') v)" by (simp add: p(1) cve_char_def)
  then show ?thesis by (rule split_chars) (simp add: cve_char_def)
qed

lemma pattern_plain: "pattern_ok kind v \<Longrightarrow> kind \<noteq> ''url'' \<Longrightarrow> if kind = ''cve'' then list_all cve_char v else list_all plain v"
  using ip_ok_plain domain_ok_plain hash_ok_plain email_ok_plain cve_ok_chars
  unfolding pattern_ok_def by (simp split: if_splits)

lemma validate_patternD: "validate_observable kind v = Inr w \<Longrightarrow> w = normalize_observable kind v \<and> pattern_ok kind w"
  by (auto simp: validate_observable_def Let_def split: if_splits)

text \<open>C28 A validated value of any kind but a URL is a fixed point: the same indicator is stored under one text, in whichever
  defanged spelling it is sent again.\<close>

theorem validated_canonical:
  assumes "validate_observable kind v = Inr w" "kind \<noteq> ''url''"
  shows "validate_observable kind w = Inr w"
proof -
  have ok: "pattern_ok kind w" by (rule validate_patternD[OF assms(1), THEN conjunct2])
  note chars = pattern_plain[OF ok assms(2)]
  then have "list_all (\<lambda>c. plain c \<or> cve_char c) w"
    by (cases "kind = ''cve''") (simp_all add: list_all_iff)
  then have r: "refang w = w" by (rule refang_plain)
  have "normalize_observable kind w = w"
  proof (cases "kind = ''cve''")
    case True
    then have "list_all cve_char w" using chars by simp
    then have "map char_upper w = w" using plain_facts(4) by (simp add: list_all_iff map_idI)
    then show ?thesis using True r by (simp add: normalize_observable_def Let_def)
  next
    case False
    then have "list_all plain w" using chars by simp
    then have "str_lower w = w" using plain_facts(3) by (simp add: list_all_iff map_idI str_lower_def)
    then show ?thesis using False r by (simp add: normalize_observable_def Let_def)
  qed
  then show ?thesis using ok by (simp only: validate_observable_def Let_def if_True)
qed

theorem validated_canonical_witness:
  "validate_observable ''domain'' '' Evil[.]Example(.)com '' = Inr ''evil.example.com''
    \<and> validate_observable ''domain'' ''evil.example.com'' = Inr ''evil.example.com''"
proof -
  have v: "validate_observable ''domain'' '' Evil[.]Example(.)com '' = Inr ''evil.example.com''" by code_simp
  from validated_canonical[OF v] v show ?thesis by simp
qed

text \<open>A URL is not: one round of \<open>refang\<close> can leave a defanged dot, and sending the stored value again stores another.\<close>

lemma url_not_canonical: "validate_observable ''url'' ''hxxp://a[[.]]io'' = Inr ''http://a[.]io''"
  "validate_observable ''url'' ''http://a[.]io'' = Inr ''http://a.io''"
  by code_simp+

end
