(* ===== verification/Accounts.thy ===== *)
theory Accounts
  imports Auth Schemas
begin

text \<open>
  Users, sessions, invitations, tenants, API keys and operators (\<open>app/routers/auth_routes.py\<close>,
  \<open>app/invites.py\<close>, \<open>app/routers/invites_routes.py\<close>, \<open>app/routers/tenants_routes.py\<close>, the operator
  bootstrap of \<open>app/routers/org_routes.py\<close> and \<open>app/bootstrap.py\<close>, and the password policy of
  \<open>app/security.py\<close>). A request is a function of the committed database to its answer and the database
  it leaves. The slow hash, SHA-256, the generated secrets and the SMTP server are parameters; a session
  token is the payload that is signed.
\<close>

section \<open>Tables\<close>

record account = user +
  us_hashed_password :: string
  us_created_at :: time
  us_last_login_at :: "time option"

record invite =
  iv_id :: int
  iv_tenant_id :: int
  iv_user_id :: "int option"
  iv_email :: string
  iv_role :: string
  iv_token_hash :: string
  iv_status :: string
  iv_expires_at :: time
  iv_created_at :: time
  iv_accepted_at :: "time option"
  iv_invited_by :: "string option"

record operator_grant = operator_access +
  og_id :: int
  og_access_role :: string
  og_created_by :: "string option"
  og_revoked_at :: "time option"
  og_revoked_by :: "string option"

record tenant_key = api_key +
  tk_label :: string
  tk_created_at :: time

text \<open>
  The tables, the login attempts the process holds in memory, and the next value of the users' key
  sequence: the key of a removed user is not given out again.
\<close>

record account_db =
  am_users :: "account list"
  am_tenants :: "tenant list"
  am_invites :: "invite list"
  am_keys :: "tenant_key list"
  am_grants :: "operator_grant list"
  am_audit :: "audit_entry list"
  am_attempts :: "(string \<times> time list) list"
  am_seq :: int

record account_env =
  en_hash :: "string \<Rightarrow> string"
  en_verify :: "string \<Rightarrow> string \<Rightarrow> bool"
  en_rehash :: "string \<Rightarrow> bool"
  en_sha :: "string \<Rightarrow> string"
  en_send :: "string \<Rightarrow> string \<Rightarrow> bool"
  en_base_url :: string
  en_invite_hours :: int
  en_session_seconds :: int

type_synonym 'a answer = "'a res \<times> account_db"

text \<open>What the authentication of a request reads.\<close>

definition auth_view :: "account_db \<Rightarrow> auth_db" where
  "auth_view d = \<lparr>ad_users = map user.truncate (am_users d), ad_keys = map api_key.truncate (am_keys d),
     ad_access = map operator_access.truncate (am_grants d)\<rparr>"

definition ROLES :: "string list" where
  "ROLES = [''admin'', ''analyst'', ''viewer'']"

definition OPERATOR_ROLES :: "string list" where
  "OPERATOR_ROLES = [''platform_admin'', ''support_operator'', ''support_viewer'']"

section \<open>Passwords\<close>

definition check_password_strength :: "string \<Rightarrow> unit res" where
  "check_password_strength password =
     (if password = [] \<or> length password < 10 then Inl (ValueError ''password deve ter ao menos 10 caracteres'')
      else if length password > 256 then Inl (ValueError ''password muito longa'')
      else if \<not> list_ex is_alpha password \<or> \<not> list_ex is_digit password
        then Inl (ValueError ''password must accountin at least one letter and one number'')
      else Inr ())"

definition hash_password :: "account_env \<Rightarrow> string \<Rightarrow> string res" where
  "hash_password E password = bindr (check_password_strength password) (\<lambda>_. Inr (en_hash E password))"

text \<open>A validator's \<open>ValueError\<close> is answered with 422.\<close>

definition field_ok :: "unit res \<Rightarrow> unit res" where
  "field_ok r = (case r of Inl e \<Rightarrow> Inl (HTTPException 422) | Inr u \<Rightarrow> Inr u)"

definition optional_password_ok :: "string option \<Rightarrow> unit res" where
  "optional_password_ok v = (case v of None \<Rightarrow> Inr () | Some p \<Rightarrow> field_ok (check_password_strength p))"

section \<open>Rows\<close>

definition find_email :: "string \<Rightarrow> account_db \<Rightarrow> account option" where
  "find_email email d = find (\<lambda>u. us_email u = email) (am_users d)"

definition new_account ::
  "time \<Rightarrow> string \<Rightarrow> string \<Rightarrow> string \<Rightarrow> bool \<Rightarrow> string option \<Rightarrow> int option \<Rightarrow> bool \<Rightarrow> account_db \<Rightarrow> account" where
  "new_account now email hashed role is_operator operator_role tenant_id active d =
     \<lparr>us_id = am_seq d, us_email = email, us_role = role, us_is_operator = is_operator,
      us_operator_role = operator_role, us_tenant_id = tenant_id, us_is_active = active, us_pwd_version = 1,
      us_hashed_password = hashed, us_created_at = now, us_last_login_at = None\<rparr>"

definition insert_account :: "account \<Rightarrow> account_db \<Rightarrow> account_db" where
  "insert_account u d = d\<lparr>am_users := am_users d @ [u], am_seq := am_seq d + 1\<rparr>"

definition set_account :: "account \<Rightarrow> account_db \<Rightarrow> account_db" where
  "set_account u d = d\<lparr>am_users := upd_row us_id (us_id u) (\<lambda>_. u) (am_users d)\<rparr>"

definition with_password :: "string \<Rightarrow> account \<Rightarrow> account" where
  "with_password hashed u = u\<lparr>us_hashed_password := hashed, us_pwd_version := us_pwd_version u + 1\<rparr>"

definition am_record ::
  "time \<Rightarrow> string \<Rightarrow> string option \<Rightarrow> int option \<Rightarrow> int option \<Rightarrow> string \<Rightarrow> (string \<times> int) option \<Rightarrow> http_request option
    \<Rightarrow> json dict \<Rightarrow> account_db \<Rightarrow> account_db" where
  "am_record now actor actor_role tenant_id operator_user_id action target request detail d =
     d\<lparr>am_audit := am_audit d @ [audit_row now actor actor_role action (map_option fst target)
        (map_option (\<lambda>t. int_str (snd t)) target) tenant_id operator_user_id request detail]\<rparr>"

section \<open>Sessions\<close>

definition session_payload :: "account_env \<Rightarrow> time \<Rightarrow> string \<Rightarrow> account \<Rightarrow> json dict" where
  "session_payload E now jti u = (let sec = now div 1000000 in
     [(''sub'', JStr (int_str (us_id u))), (''role'', JStr (us_role u)), (''pv'', JInt (us_pwd_version u)),
      (''iat'', JInt sec), (''exp'', JInt (sec + en_session_seconds E)), (''jti'', JStr jti)])"

definition MAX_ATTEMPTS :: nat where
  "MAX_ATTEMPTS = 5"

definition WINDOW :: int where
  "WINDOW = 300000000"

definition attempts_of :: "string \<Rightarrow> account_db \<Rightarrow> time list" where
  "attempts_of key d = (case map_of (am_attempts d) key of None \<Rightarrow> [] | Some ts \<Rightarrow> ts)"

definition prune_attempts :: "time \<Rightarrow> string \<Rightarrow> account_db \<Rightarrow> account_db" where
  "prune_attempts now key d =
     d\<lparr>am_attempts := AList.update key (filter (\<lambda>t. now - t < WINDOW) (attempts_of key d)) (am_attempts d)\<rparr>"

definition rate_limited :: "string \<Rightarrow> account_db \<Rightarrow> bool" where
  "rate_limited key d = (length (attempts_of key d) \<ge> MAX_ATTEMPTS)"

definition record_attempt :: "time \<Rightarrow> string \<Rightarrow> account_db \<Rightarrow> account_db" where
  "record_attempt now key d = d\<lparr>am_attempts := AList.update key (attempts_of key d @ [now]) (am_attempts d)\<rparr>"

definition login_user :: "account_env \<Rightarrow> string \<Rightarrow> string \<Rightarrow> account_db \<Rightarrow> account option" where
  "login_user E email password d = (case find_email email d of
     None \<Rightarrow> None
   | Some u \<Rightarrow> if us_is_active u \<and> en_verify E password (us_hashed_password u) then Some u else None)"

text \<open>A legacy hash is replaced at login, without changing the password version.\<close>

definition logged_in :: "account_env \<Rightarrow> time \<Rightarrow> string \<Rightarrow> account \<Rightarrow> account" where
  "logged_in E now password u = (let u1 = u\<lparr>us_last_login_at := Some now\<rparr> in
     if en_rehash E (us_hashed_password u)
     then (case hash_password E password of Inl e \<Rightarrow> u1 | Inr h \<Rightarrow> u1\<lparr>us_hashed_password := h\<rparr>) else u1)"

definition login ::
  "account_env \<Rightarrow> time \<Rightarrow> http_request option \<Rightarrow> string \<Rightarrow> string \<Rightarrow> string \<Rightarrow> account_db \<Rightarrow> (account \<times> json dict) answer" where
  "login E now request jti address password d = (
     let email = str_lower (str_strip address); d1 = prune_attempts now email d in
     if rate_limited email d1 then (Inl (HTTPException 429), d1)
     else case login_user E email password d1 of
         None \<Rightarrow> (Inl (HTTPException 401),
           am_record now email None None None ''auth.login_failed'' None request [] (record_attempt now email d1))
       | Some u \<Rightarrow>
           let u' = logged_in E now password u;
               d2 = set_account u' (d1\<lparr>am_attempts := AList.delete email (am_attempts d1)\<rparr>)
           in (Inr (u', session_payload E now jti u'),
               am_record now (us_email u') (Some (us_role u')) (us_tenant_id u') None ''auth.login'' None request [] d2))"

definition change_password ::
  "account_env \<Rightarrow> time \<Rightarrow> http_request option \<Rightarrow> string \<Rightarrow> principal \<Rightarrow> string \<Rightarrow> string \<Rightarrow> account_db \<Rightarrow> json dict answer" where
  "change_password E now request jti p current_password new_password d = (
     case bindr (field_ok (check_password_strength new_password)) (\<lambda>_.
          if pr_kind p \<noteq> ''user'' then Inl (HTTPException 400)
          else case pr_user_id p of None \<Rightarrow> Inl (HTTPException 400)
          | Some i \<Rightarrow> (case find_row us_id i (am_users d) of
              None \<Rightarrow> Inl (HTTPException 404)
            | Some u \<Rightarrow>
                if \<not> en_verify E current_password (us_hashed_password u) then Inl (HTTPException 401)
                else if en_verify E new_password (us_hashed_password u) then Inl (HTTPException 400)
                else bindr (hash_password E new_password) (\<lambda>h. Inr (with_password h u)))) of
       Inl e \<Rightarrow> (Inl e, d)
     | Inr u \<Rightarrow> (Inr (session_payload E now jti u),
         am_record now (us_email u) (Some (us_role u)) None None ''auth.change_password'' (Some (''user'', us_id u)) request []
           (set_account u d)))"

section \<open>The users of a tenant\<close>

record user_create =
  uc_email :: string
  uc_password :: string
  uc_role :: string

definition create_user ::
  "account_env \<Rightarrow> time \<Rightarrow> http_request option \<Rightarrow> principal \<Rightarrow> int \<Rightarrow> user_create \<Rightarrow> account_db \<Rightarrow> account answer" where
  "create_user E now request p tid q d = (
     case bindr (valid_email (uc_email q)) (\<lambda>email.
          bindr (field_ok (check_password_strength (uc_password q))) (\<lambda>_.
            if uc_role q \<notin> set ROLES then Inl (HTTPException 422)
            else if find_email email d \<noteq> None then Inl (HTTPException 409)
            else bindr (hash_password E (uc_password q)) (\<lambda>h.
              Inr (new_account now email h (uc_role q) False None (Some tid) True d)))) of
       Inl e \<Rightarrow> (Inl e, d)
     | Inr u \<Rightarrow> (Inr u, am_record now (pr_subject p) (Some (pr_role p)) (Some tid) None ''user.create'' (Some (''user'', us_id u)) request
         [(''email'', JStr (us_email u)), (''role'', JStr (us_role u))] (insert_account u d)))"

definition list_users :: "int \<Rightarrow> account_db \<Rightarrow> account list" where
  "list_users tid d = sort_key us_id (filter (\<lambda>u. us_tenant_id u = Some tid) (am_users d))"

definition owned_user :: "account_db \<Rightarrow> int \<Rightarrow> int \<Rightarrow> account res" where
  "owned_user d user_id tid = (case find_row us_id user_id (am_users d) of
     None \<Rightarrow> Inl (HTTPException 404)
   | Some u \<Rightarrow> if us_tenant_id u \<noteq> Some tid then Inl (HTTPException 404) else Inr u)"

record user_update =
  uu_role :: "string option"
  uu_is_active :: "bool option"
  uu_password :: "string option"

definition valid_user_update :: "user_update \<Rightarrow> unit res" where
  "valid_user_update q =
     (if (case uu_role q of None \<Rightarrow> False | Some r \<Rightarrow> r \<notin> set ROLES) then Inl (HTTPException 422)
      else optional_password_ok (uu_password q))"

text \<open>The protection of the own account.\<close>

definition self_protected :: "principal \<Rightarrow> int \<Rightarrow> user_update \<Rightarrow> bool" where
  "self_protected p user_id q = (pr_user_id p = Some user_id
     \<and> ((case uu_role q of None \<Rightarrow> False | Some r \<Rightarrow> r \<noteq> ''admin'') \<or> uu_is_active q = Some False))"

definition edited_user :: "account_env \<Rightarrow> user_update \<Rightarrow> account \<Rightarrow> account res" where
  "edited_user E q u = (
     let u1 = u\<lparr>us_role := (case uu_role q of None \<Rightarrow> us_role u | Some r \<Rightarrow> r),
                us_is_active := (case uu_is_active q of None \<Rightarrow> us_is_active u | Some b \<Rightarrow> b)\<rparr> in
     case uu_password q of None \<Rightarrow> Inr u1
     | Some pw \<Rightarrow> bindr (hash_password E pw) (\<lambda>h. Inr (with_password h u1)))"

definition update_user ::
  "account_env \<Rightarrow> time \<Rightarrow> http_request option \<Rightarrow> principal \<Rightarrow> int \<Rightarrow> int \<Rightarrow> user_update \<Rightarrow> account_db \<Rightarrow> account answer" where
  "update_user E now request p tid user_id q d = (
     case bindr (valid_user_update q) (\<lambda>_. bindr (owned_user d user_id tid) (\<lambda>u.
            if self_protected p user_id q then Inl (HTTPException 400) else edited_user E q u)) of
       Inl e \<Rightarrow> (Inl e, d)
     | Inr u \<Rightarrow> (Inr u, am_record now (pr_subject p) (Some (pr_role p)) (Some tid) None ''user.update'' (Some (''user'', us_id u)) request
         [(''role'', case uu_role q of None \<Rightarrow> JNull | Some r \<Rightarrow> JStr r),
          (''is_active'', case uu_is_active q of None \<Rightarrow> JNull | Some b \<Rightarrow> JBool b),
          (''password_changed'', JBool (uu_password q \<noteq> None))] (set_account u d)))"

text \<open>\<open>generated\<close> is what \<open>generate_password\<close> would answer.\<close>

definition admin_reset_password ::
  "account_env \<Rightarrow> time \<Rightarrow> http_request option \<Rightarrow> string \<Rightarrow> principal \<Rightarrow> int \<Rightarrow> int \<Rightarrow> string option \<Rightarrow> account_db
    \<Rightarrow> (account \<times> string option) answer" where
  "admin_reset_password E now request generated p tid user_id new_password d = (
     case bindr (optional_password_ok new_password) (\<lambda>_. bindr (owned_user d user_id tid) (\<lambda>u.
            bindr (hash_password E (case new_password of None \<Rightarrow> generated | Some pw \<Rightarrow> pw)) (\<lambda>h. Inr (with_password h u)))) of
       Inl e \<Rightarrow> (Inl e, d)
     | Inr u \<Rightarrow> (Inr (u, if new_password = None then Some generated else None),
         am_record now (pr_subject p) (Some (pr_role p)) (Some tid) None ''user.reset_password'' (Some (''user'', us_id u)) request
           [(''email'', JStr (us_email u))] (set_account u d)))"

definition active_admins :: "int \<Rightarrow> account_db \<Rightarrow> nat" where
  "active_admins tid d = length (filter (\<lambda>u. us_tenant_id u = Some tid \<and> us_role u = ''admin'' \<and> us_is_active u) (am_users d))"

text \<open>Removing a user removes the invitations and the grants that refer to it.\<close>

definition drop_user :: "int \<Rightarrow> account_db \<Rightarrow> account_db" where
  "drop_user i d = d\<lparr>am_users := filter (\<lambda>u. us_id u \<noteq> i) (am_users d),
     am_invites := filter (\<lambda>v. iv_user_id v \<noteq> Some i) (am_invites d),
     am_grants := filter (\<lambda>g. oa_operator_user_id g \<noteq> i) (am_grants d)\<rparr>"

definition delete_user ::
  "time \<Rightarrow> http_request option \<Rightarrow> principal \<Rightarrow> int \<Rightarrow> int \<Rightarrow> account_db \<Rightarrow> unit answer" where
  "delete_user now request p tid user_id d = (
     case bindr (owned_user d user_id tid) (\<lambda>u.
            if pr_user_id p = Some user_id then Inl (HTTPException 400)
            else if us_role u = ''admin'' \<and> active_admins tid d \<le> 1 then Inl (HTTPException 400)
            else Inr u) of
       Inl e \<Rightarrow> (Inl e, d)
     | Inr u \<Rightarrow> (Inr (), am_record now (pr_subject p) (Some (pr_role p)) (Some tid) None ''user.delete'' (Some (''user'', user_id)) request
         [(''email'', JStr (us_email u))] (drop_user user_id d)))"

section \<open>Invitations\<close>

definition expired :: "time \<Rightarrow> time \<Rightarrow> bool" where
  "expired now expires_at = (expires_at < now)"

definition build_accept_url :: "account_env \<Rightarrow> string \<Rightarrow> string" where
  "build_accept_url E token = en_base_url E @ ''/invite/accept?token='' @ token"

definition set_invite :: "invite \<Rightarrow> account_db \<Rightarrow> account_db" where
  "set_invite v d = d\<lparr>am_invites := upd_row iv_id (iv_id v) (\<lambda>_. v) (am_invites d)\<rparr>"

definition revoke_pending :: "int \<Rightarrow> string \<Rightarrow> account_db \<Rightarrow> account_db" where
  "revoke_pending tenant_id email d = d\<lparr>am_invites := map (\<lambda>v.
     if iv_tenant_id v = tenant_id \<and> iv_email v = email \<and> iv_status v = ''pending'' then v\<lparr>iv_status := ''revoked''\<rparr> else v) (am_invites d)\<rparr>"

definition new_invite ::
  "account_env \<Rightarrow> time \<Rightarrow> int \<Rightarrow> string \<Rightarrow> string \<Rightarrow> int option \<Rightarrow> string \<Rightarrow> string \<Rightarrow> account_db \<Rightarrow> invite" where
  "new_invite E now tenant_id email role user_id invited_by token d =
     \<lparr>iv_id = next_id iv_id (am_invites d), iv_tenant_id = tenant_id, iv_user_id = user_id, iv_email = email,
      iv_role = role, iv_token_hash = en_sha E token, iv_status = ''pending'',
      iv_expires_at = now + en_invite_hours E * 3600000000, iv_created_at = now, iv_accepted_at = None,
      iv_invited_by = Some invited_by\<rparr>"

text \<open>\<open>token\<close> is the secret that was generated; the answer holds the link with it.\<close>

definition create_invite ::
  "account_env \<Rightarrow> time \<Rightarrow> http_request option \<Rightarrow> string \<Rightarrow> int \<Rightarrow> string \<Rightarrow> string \<Rightarrow> int option \<Rightarrow> string \<Rightarrow> account_db
    \<Rightarrow> (invite \<times> string \<times> bool) \<times> account_db" where
  "create_invite E now request token tenant_id email role user_id invited_by d = (
     let v = new_invite E now tenant_id email role user_id invited_by token d;
         d1 = (revoke_pending tenant_id email d)\<lparr>am_invites := am_invites (revoke_pending tenant_id email d) @ [v]\<rparr>;
         link = build_accept_url E token; sent = en_send E email link;
         d2 = am_record now invited_by (Some ''operator'') (Some tenant_id) None ''invite.create'' (Some (''invite'', iv_id v)) request
                [(''email'', JStr email), (''email_sent'', JBool sent)] d1
     in ((v, link, sent), am_record now invited_by (Some ''operator'') (Some tenant_id) None ''invite.send''
                (Some (''invite'', iv_id v)) request [(''email_sent'', JBool sent)] d2))"

definition resolve_invite :: "account_env \<Rightarrow> string \<Rightarrow> account_db \<Rightarrow> invite option" where
  "resolve_invite E token d = find (\<lambda>v. iv_token_hash v = en_sha E token) (am_invites d)"

datatype invite_state = InviteValid string "string option" | InviteInvalid string

definition validate_token :: "account_env \<Rightarrow> time \<Rightarrow> string \<Rightarrow> account_db \<Rightarrow> invite_state \<times> account_db" where
  "validate_token E now token d = (case resolve_invite E token d of
       None \<Rightarrow> (InviteInvalid ''Invalid invite.'', d)
     | Some v \<Rightarrow>
         if iv_status v = ''accepted'' then (InviteInvalid ''Invite already used.'', d)
         else if iv_status v = ''revoked'' then (InviteInvalid ''Invite revoked.'', d)
         else if iv_status v = ''expired'' \<or> expired now (iv_expires_at v)
           then (InviteInvalid ''Invite expired.'', if iv_status v = ''pending'' then set_invite (v\<lparr>iv_status := ''expired''\<rparr>) d else d)
         else (InviteValid (iv_email v) (map_option tn_name (find_row tn_id (iv_tenant_id v) (am_tenants d))), d))"

definition validate_invite :: "account_env \<Rightarrow> time \<Rightarrow> string \<Rightarrow> account_db \<Rightarrow> invite_state \<times> account_db" where
  "validate_invite E now token d = (if token = [] then (InviteInvalid ''Token ausente.'', d) else validate_token E now token d)"

definition invited_user :: "invite \<Rightarrow> account_db \<Rightarrow> account option" where
  "invited_user v d = (case (case iv_user_id v of None \<Rightarrow> None
       | Some i \<Rightarrow> if i = 0 then None else find_row us_id i (am_users d)) of
     Some u \<Rightarrow> Some u | None \<Rightarrow> find_email (iv_email v) d)"

definition joined :: "invite \<Rightarrow> string \<Rightarrow> account \<Rightarrow> account" where
  "joined v hashed u = with_password hashed (u\<lparr>us_role := iv_role v, us_tenant_id := Some (iv_tenant_id v),
     us_is_operator := False, us_is_active := True\<rparr>)"

text \<open>
  The column default of \<open>pwd_version\<close> applies when a row is flushed: a user that is created here has no
  version yet when it is incremented.
\<close>

definition accept ::
  "account_env \<Rightarrow> time \<Rightarrow> http_request option \<Rightarrow> string \<Rightarrow> string \<Rightarrow> account_db \<Rightarrow> account answer" where
  "accept E now request token password d = (case resolve_invite E token d of
       None \<Rightarrow> (Inl (ValueError ''Invalid invite.''), d)
     | Some v \<Rightarrow>
         if iv_status v \<noteq> ''pending'' then (Inl (ValueError ''Invite already used or revoked.''), d)
         else if expired now (iv_expires_at v)
           then (Inl (ValueError ''Invite expired.''), set_invite (v\<lparr>iv_status := ''expired''\<rparr>) d)
         else (case hash_password E password of
             Inl e \<Rightarrow> (Inl e, d)
           | Inr h \<Rightarrow> (case invited_user v d of
               None \<Rightarrow> (Inl TypeError, d)
             | Some u \<Rightarrow>
                 let u' = joined v h u;
                     v' = v\<lparr>iv_status := ''accepted'', iv_accepted_at := Some now,
                            iv_user_id := (if us_id u \<noteq> 0 then Some (us_id u) else iv_user_id v)\<rparr>
                 in (Inr u', am_record now (us_email u') (Some (us_role u')) (Some (iv_tenant_id v)) None ''invite.accept''
                      (Some (''invite'', iv_id v)) request [] (set_invite v' (set_account u' d))))))"

definition accept_invite ::
  "account_env \<Rightarrow> time \<Rightarrow> http_request option \<Rightarrow> string \<Rightarrow> string \<Rightarrow> string \<Rightarrow> account_db \<Rightarrow> (account \<times> json dict) answer" where
  "accept_invite E now request jti token password d = (case field_ok (check_password_strength password) of
       Inl e \<Rightarrow> (Inl e, d)
     | Inr _ \<Rightarrow> (case accept E now request token password d of
         (Inl (ValueError m), d') \<Rightarrow> (Inl (HTTPException 400), d')
       | (Inl e, d') \<Rightarrow> (Inl e, d')
       | (Inr u, d') \<Rightarrow> (Inr (u, session_payload E now jti u), d')))"

section \<open>Tenants\<close>

fun dash_runs :: "bool \<Rightarrow> string \<Rightarrow> string" where
  "dash_runs in_run [] = []"
| "dash_runs in_run (c # s) =
     (if is_lower c \<or> is_digit c then c # dash_runs False s
      else if in_run then dash_runs True s else CHR ''-'' # dash_runs True s)"

definition strip_dash :: "string \<Rightarrow> string" where
  "strip_dash s = rev (dropWhile ((=) (CHR ''-'')) (rev (dropWhile ((=) (CHR ''-'')) s)))"

definition slugify :: "string \<Rightarrow> string" where
  "slugify name = (let s = strip_dash (dash_runs False (str_lower name)) in if s = [] then ''tenant'' else s)"

definition numbered :: "string \<Rightarrow> int \<Rightarrow> string" where
  "numbered base i = base @ ''-'' @ int_str i"

lemma numbered_inj: "numbered base i = numbered base j \<Longrightarrow> i = j"
  using int_str_inj by (simp add: numbered_def)

lemma finite_taken: "finite {j. i \<le> j \<and> numbered base j \<in> set slugs}"
proof (rule finite_subset)
  show "{j. i \<le> j \<and> numbered base j \<in> set slugs} \<subseteq> numbered base -` set slugs" by auto
  show "finite (numbered base -` set slugs)"
    using numbered_inj by (intro finite_vimageI) (auto simp: inj_def)
qed

text \<open>The loop that looks for a free slug; every round uses one of the finitely many taken ones up.\<close>

function free_slug :: "string list \<Rightarrow> string \<Rightarrow> int \<Rightarrow> string \<Rightarrow> string" where
  "free_slug slugs base i slug = (if slug \<in> set slugs then free_slug slugs base (i + 1) (numbered base i) else slug)"
  by pat_completeness auto
termination
proof (relation "measure (\<lambda>(slugs, base, i, slug). card {j. i \<le> j \<and> numbered base j \<in> set slugs} + (if slug \<in> set slugs then 1 else 0))")
  fix slugs :: "string list" and base slug :: string and i :: int
  assume "slug \<in> set slugs"
  let ?A = "{j. i \<le> j \<and> numbered base j \<in> set slugs}" and ?B = "{j. i + 1 \<le> j \<and> numbered base j \<in> set slugs}"
  have "i \<le> j \<longleftrightarrow> j = i \<or> i + 1 \<le> j" for j by linarith
  then have "?A = (if numbered base i \<in> set slugs then insert i ?B else ?B)" by auto
  moreover have "i \<notin> ?B" by simp
  ultimately have "card ?A = card ?B + (if numbered base i \<in> set slugs then 1 else 0)"
    using finite_taken[of "i + 1" base slugs] by simp
  then show "((slugs, base, i + 1, numbered base i), slugs, base, i, slug)
      \<in> measure (\<lambda>(slugs, base, i, slug). card {j. i \<le> j \<and> numbered base j \<in> set slugs} + (if slug \<in> set slugs then 1 else 0))"
    using \<open>slug \<in> set slugs\<close> by simp
qed simp

declare free_slug.simps [simp del]

record tenant_create =
  tc_name :: string
  tc_admin_email :: string
  tc_admin_password :: "string option"

definition valid_tenant_create :: "tenant_create \<Rightarrow> (string \<times> string) res" where
  "valid_tenant_create q = (let n = str_strip (tc_name q) in
     if n = [] \<or> length n > 255 then Inl (HTTPException 422)
     else bindr (valid_email (tc_admin_email q)) (\<lambda>email.
       bindr (optional_password_ok (tc_admin_password q)) (\<lambda>_. Inr (n, email))))"

definition tenant_slugs :: "account_db \<Rightarrow> string list" where
  "tenant_slugs d = map tn_slug (am_tenants d)"

definition insert_tenant :: "time \<Rightarrow> http_request option \<Rightarrow> principal \<Rightarrow> tenant \<Rightarrow> string \<Rightarrow> account_db \<Rightarrow> account_db" where
  "insert_tenant now request p t email d =
     am_record now (pr_subject p) (Some ''platform_admin'') (Some (tn_id t)) (pr_user_id p) ''tenant.create''
       (Some (''tenant'', tn_id t)) request [(''name'', JStr (tn_name t)), (''admin'', JStr email)]
       (d\<lparr>am_tenants := am_tenants d @ [t]\<rparr>)"

text \<open>The tenant, and of an invited administrator the link and whether it was sent.\<close>

definition create_tenant ::
  "account_env \<Rightarrow> time \<Rightarrow> http_request option \<Rightarrow> string \<Rightarrow> string \<Rightarrow> principal \<Rightarrow> tenant_create \<Rightarrow> account_db
    \<Rightarrow> (tenant \<times> (string \<times> bool) option) answer" where
  "create_tenant E now request token generated p q d = (
     case bindr (valid_tenant_create q) (\<lambda>(n, email).
            if find_email email d \<noteq> None then Inl (HTTPException 409)
            else bindr (hash_password E (case tc_admin_password q of None \<Rightarrow> generated | Some pw \<Rightarrow> pw)) (\<lambda>h. Inr (n, email, h))) of
       Inl e \<Rightarrow> (Inl e, d)
     | Inr (n, email, h) \<Rightarrow>
         let base = slugify n;
             t = \<lparr>tn_id = next_id tn_id (am_tenants d), tn_name = n, tn_slug = free_slug (tenant_slugs d) base 2 base,
                  tn_status = ''active'', tn_created_at = now\<rparr>;
             d1 = insert_tenant now request p t email d;
             u = new_account now email h ''admin'' False None (Some (tn_id t)) (tc_admin_password q \<noteq> None) d;
             d2 = insert_account u d1
         in if tc_admin_password q \<noteq> None then (Inr (t, None), d2)
            else (case create_invite E now request token (tn_id t) email ''admin'' (Some (us_id u)) (pr_subject p) d2 of
                ((v, link, sent), d3) \<Rightarrow> (Inr (t, Some (link, sent)), d3)))"

definition set_tenant_status ::
  "time \<Rightarrow> http_request option \<Rightarrow> principal \<Rightarrow> int \<Rightarrow> string \<Rightarrow> account_db \<Rightarrow> tenant answer" where
  "set_tenant_status now request p tenant_id status d =
     (if status \<notin> {''active'', ''suspended''} then (Inl (HTTPException 422), d)
      else case find_row tn_id tenant_id (am_tenants d) of None \<Rightarrow> (Inl (HTTPException 404), d)
      | Some t \<Rightarrow> let t' = t\<lparr>tn_status := status\<rparr> in
          (Inr t', am_record now (pr_subject p) (Some ''platform_admin'') (Some tenant_id) (pr_user_id p) ''tenant.set_status''
             (Some (''tenant'', tenant_id)) request [(''status'', JStr status)]
             (d\<lparr>am_tenants := upd_row tn_id tenant_id (\<lambda>_. t') (am_tenants d)\<rparr>)))"

definition list_tenants :: "principal \<Rightarrow> account_db \<Rightarrow> tenant list" where
  "list_tenants p d = filter (\<lambda>t. pr_operator_role p = Some ''platform_admin''
     \<or> list_ex (\<lambda>g. Some (oa_operator_user_id g) = pr_user_id p \<and> oa_is_active g \<and> oa_tenant_id g = tn_id t) (am_grants d))
     (sort_key tn_id (am_tenants d))"

definition assert_tenant_access :: "account_db \<Rightarrow> principal \<Rightarrow> int \<Rightarrow> tenant res" where
  "assert_tenant_access d p tenant_id = (case find_row tn_id tenant_id (am_tenants d) of
     None \<Rightarrow> Inl (HTTPException 404)
   | Some t \<Rightarrow> if \<not> operator_can_access_tenant (auth_view d) p tenant_id then Inl (HTTPException 403) else Inr t)"

definition create_or_resend_invite ::
  "account_env \<Rightarrow> time \<Rightarrow> http_request option \<Rightarrow> string \<Rightarrow> principal \<Rightarrow> int \<Rightarrow> string \<Rightarrow> string \<Rightarrow> account_db
    \<Rightarrow> (invite \<times> string \<times> bool) answer" where
  "create_or_resend_invite E now request token p tenant_id address role d = (
     case bindr (valid_email address) (\<lambda>email. if role \<notin> set ROLES then Inl (HTTPException 422)
          else bindr (require_operator p) (\<lambda>_. bindr (assert_tenant_access d p tenant_id) (\<lambda>t.
            case find_email email d of
              None \<Rightarrow> Inr (email, None)
            | Some u \<Rightarrow> if us_tenant_id u \<noteq> None \<and> us_tenant_id u \<noteq> Some tenant_id then Inl (HTTPException 409)
                        else Inr (email, Some (us_id u))))) of
       Inl e \<Rightarrow> (Inl e, d)
     | Inr (email, other) \<Rightarrow>
         (case create_invite E now request token tenant_id email role other (pr_subject p) d of (out, d') \<Rightarrow> (Inr out, d')))"

definition revoke_invite ::
  "time \<Rightarrow> http_request option \<Rightarrow> principal \<Rightarrow> int \<Rightarrow> int \<Rightarrow> account_db \<Rightarrow> unit answer" where
  "revoke_invite now request p tenant_id invite_id d = (case find_row iv_id invite_id (am_invites d) of
       None \<Rightarrow> (Inl (HTTPException 404), d)
     | Some v \<Rightarrow>
         if iv_tenant_id v \<noteq> tenant_id then (Inl (HTTPException 404), d)
         else (Inr (), am_record now (pr_subject p) (Some ''platform_admin'') (Some tenant_id) (pr_user_id p) ''invite.revoke''
                (Some (''invite'', invite_id)) request []
                (if iv_status v = ''pending'' then set_invite (v\<lparr>iv_status := ''revoked''\<rparr>) d else d)))"

section \<open>API keys\<close>

text \<open>\<open>secret\<close> is what was generated; the full key is shown once, its prefix and slow hash are stored.\<close>

definition create_api_key ::
  "account_env \<Rightarrow> time \<Rightarrow> http_request option \<Rightarrow> string \<Rightarrow> principal \<Rightarrow> int \<Rightarrow> string \<Rightarrow> string \<Rightarrow> account_db
    \<Rightarrow> (tenant_key \<times> string) answer" where
  "create_api_key E now request secret p tenant_id label role d =
     (if role \<notin> set ROLES then (Inl (HTTPException 422), d)
      else case find_row tn_id tenant_id (am_tenants d) of None \<Rightarrow> (Inl (HTTPException 404), d)
      | Some t \<Rightarrow>
          let full = ''tfk_'' @ secret;
              k = \<lparr>ak_id = next_id ak_id (am_keys d), ak_tenant_id = tenant_id, ak_prefix = take 12 full,
                   ak_key_hash = en_hash E full, ak_role = role, ak_active = True, ak_last_used_at = None,
                   tk_label = label, tk_created_at = now\<rparr>
          in (Inr (k, full), am_record now (pr_subject p) (Some ''platform_admin'') (Some tenant_id) (pr_user_id p) ''apikey.create''
               (Some (''api_key'', ak_id k)) request [(''label'', JStr label), (''role'', JStr role)]
               (d\<lparr>am_keys := am_keys d @ [k]\<rparr>)))"

definition revoke_api_key ::
  "time \<Rightarrow> http_request option \<Rightarrow> principal \<Rightarrow> int \<Rightarrow> int \<Rightarrow> account_db \<Rightarrow> unit answer" where
  "revoke_api_key now request p tenant_id key_id d = (case find_row ak_id key_id (am_keys d) of
       None \<Rightarrow> (Inl (HTTPException 404), d)
     | Some k \<Rightarrow>
         if ak_tenant_id k \<noteq> tenant_id then (Inl (HTTPException 404), d)
         else (Inr (), am_record now (pr_subject p) (Some ''platform_admin'') (Some tenant_id) (pr_user_id p) ''apikey.revoke''
                (Some (''api_key'', key_id)) request []
                (d\<lparr>am_keys := upd_row ak_id key_id (\<lambda>r. r\<lparr>ak_active := False\<rparr>) (am_keys d)\<rparr>)))"

section \<open>Operators\<close>

text \<open>The first user of the platform.\<close>

definition bootstrap_operator ::
  "account_env \<Rightarrow> time \<Rightarrow> http_request option \<Rightarrow> string \<Rightarrow> string \<Rightarrow> string \<Rightarrow> account_db \<Rightarrow> (account \<times> json dict) answer" where
  "bootstrap_operator E now request jti address password d = (
     case bindr (valid_email address) (\<lambda>email. bindr (field_ok (check_password_strength password)) (\<lambda>_.
            if am_users d \<noteq> [] then Inl (HTTPException 409)
            else bindr (hash_password E password) (\<lambda>h.
              Inr (new_account now email h ''admin'' True (Some ''platform_admin'') None True d)))) of
       Inl e \<Rightarrow> (Inl e, d)
     | Inr u \<Rightarrow> (Inr (u, session_payload E now jti u),
         am_record now (us_email u) (Some ''platform_admin'') None None ''bootstrap_operator_created'' (Some (''user'', us_id u)) request []
           (insert_account u d)))"

text \<open>The same at start-up, from the environment; a failure is logged and changes nothing.\<close>

definition ensure_operator :: "account_env \<Rightarrow> time \<Rightarrow> string \<Rightarrow> string \<Rightarrow> account_db \<Rightarrow> account_db" where
  "ensure_operator E now address password d =
     (if am_users d \<noteq> [] \<or> address = [] \<or> password = [] then d
      else case hash_password E password of Inl e \<Rightarrow> d
      | Inr h \<Rightarrow> insert_account (new_account now (str_lower (str_strip address)) h ''admin'' True (Some ''platform_admin'') None True d) d)"

definition create_operator ::
  "account_env \<Rightarrow> time \<Rightarrow> http_request option \<Rightarrow> string \<Rightarrow> principal \<Rightarrow> string \<Rightarrow> string option \<Rightarrow> string \<Rightarrow> account_db
    \<Rightarrow> account answer" where
  "create_operator E now request generated p address password operator_role d = (
     case bindr (valid_email address) (\<lambda>email. bindr (optional_password_ok password) (\<lambda>_.
            if operator_role \<notin> set OPERATOR_ROLES then Inl (HTTPException 422)
            else if find_email email d \<noteq> None then Inl (HTTPException 409)
            else bindr (hash_password E (case password of None \<Rightarrow> generated | Some pw \<Rightarrow> pw)) (\<lambda>h.
              Inr (new_account now email h ''admin'' True (Some operator_role) None True d)))) of
       Inl e \<Rightarrow> (Inl e, d)
     | Inr u \<Rightarrow> (Inr u, am_record now (pr_subject p) (Some ''platform_admin'') None (pr_user_id p) ''operator.create''
         (Some (''user'', us_id u)) request [(''email'', JStr (us_email u)), (''operator_role'', JStr operator_role)]
         (insert_account u d)))"

definition edited_operator :: "string option \<Rightarrow> bool option \<Rightarrow> account \<Rightarrow> account" where
  "edited_operator role active u = (
     let u1 = u\<lparr>us_operator_role := (case role of None \<Rightarrow> us_operator_role u | Some r \<Rightarrow> Some r)\<rparr> in
     case active of None \<Rightarrow> u1
     | Some b \<Rightarrow> u1\<lparr>us_is_active := b, us_pwd_version := (if b then us_pwd_version u else us_pwd_version u + 1)\<rparr>)"

definition update_operator ::
  "time \<Rightarrow> http_request option \<Rightarrow> principal \<Rightarrow> int \<Rightarrow> string option \<Rightarrow> bool option \<Rightarrow> account_db \<Rightarrow> account answer" where
  "update_operator now request p operator_id role active d = (
     case (if (case role of None \<Rightarrow> False | Some r \<Rightarrow> r \<notin> set OPERATOR_ROLES) then Inl (HTTPException 422)
           else case find_row us_id operator_id (am_users d) of None \<Rightarrow> Inl (HTTPException 404)
           | Some u \<Rightarrow>
               if \<not> us_is_operator u then Inl (HTTPException 404)
               else if pr_user_id p = Some operator_id
                 \<and> ((case role of None \<Rightarrow> False | Some r \<Rightarrow> r \<noteq> ''platform_admin'') \<or> active = Some False)
                 then Inl (HTTPException 400)
               else Inr (edited_operator role active u)) of
       Inl e \<Rightarrow> (Inl e, d)
     | Inr u \<Rightarrow> (Inr u, am_record now (pr_subject p) (Some ''platform_admin'') None (pr_user_id p) ''operator.update''
         (Some (''user'', us_id u)) request
         [(''operator_role'', case role of None \<Rightarrow> JNull | Some r \<Rightarrow> JStr r),
          (''is_active'', case active of None \<Rightarrow> JNull | Some b \<Rightarrow> JBool b)] (set_account u d)))"

definition find_grant :: "int \<Rightarrow> int \<Rightarrow> account_db \<Rightarrow> operator_grant option" where
  "find_grant operator_id tenant_id d =
     find (\<lambda>g. oa_operator_user_id g = operator_id \<and> oa_tenant_id g = tenant_id) (am_grants d)"

definition granted_row :: "principal \<Rightarrow> int \<Rightarrow> int \<Rightarrow> string \<Rightarrow> account_db \<Rightarrow> operator_grant" where
  "granted_row p operator_id tenant_id access_role d =
     \<lparr>oa_operator_user_id = operator_id, oa_tenant_id = tenant_id, oa_is_active = True,
      og_id = next_id og_id (am_grants d), og_access_role = access_role, og_created_by = Some (pr_subject p),
      og_revoked_at = None, og_revoked_by = None\<rparr>"

definition grant_tenant_access ::
  "time \<Rightarrow> http_request option \<Rightarrow> principal \<Rightarrow> int \<Rightarrow> int \<Rightarrow> string \<Rightarrow> account_db \<Rightarrow> operator_grant answer" where
  "grant_tenant_access now request p operator_id tenant_id access_role d =
     (if access_role \<notin> {''support_operator'', ''support_viewer''} then (Inl (HTTPException 422), d)
      else if (case find_row us_id operator_id (am_users d) of None \<Rightarrow> True | Some u \<Rightarrow> \<not> us_is_operator u)
        then (Inl (HTTPException 404), d)
      else if find_row tn_id tenant_id (am_tenants d) = None then (Inl (HTTPException 404), d)
      else let (g, rows) = (case find_grant operator_id tenant_id d of
              Some g0 \<Rightarrow> let g1 = g0\<lparr>oa_is_active := True, og_access_role := access_role, og_revoked_at := None, og_revoked_by := None\<rparr>
                in (g1, upd_row og_id (og_id g0) (\<lambda>_. g1) (am_grants d))
            | None \<Rightarrow> (granted_row p operator_id tenant_id access_role d,
                am_grants d @ [granted_row p operator_id tenant_id access_role d]))
           in (Inr g, am_record now (pr_subject p) (Some ''platform_admin'') (Some tenant_id) (pr_user_id p) ''operator.grant_access''
                (Some (''user'', operator_id)) request [(''tenant_id'', JInt tenant_id), (''role'', JStr access_role)]
                (d\<lparr>am_grants := rows\<rparr>)))"

definition revoke_tenant_access ::
  "time \<Rightarrow> http_request option \<Rightarrow> principal \<Rightarrow> int \<Rightarrow> int \<Rightarrow> account_db \<Rightarrow> unit answer" where
  "revoke_tenant_access now request p operator_id tenant_id d = (case find_grant operator_id tenant_id d of
       None \<Rightarrow> (Inl (HTTPException 404), d)
     | Some g \<Rightarrow> (Inr (), am_record now (pr_subject p) (Some ''platform_admin'') (Some tenant_id) (pr_user_id p) ''operator.revoke_access''
         (Some (''user'', operator_id)) request [(''tenant_id'', JInt tenant_id)]
         (d\<lparr>am_grants := upd_row og_id (og_id g) (\<lambda>r. r\<lparr>oa_is_active := False, og_revoked_at := Some now,
              og_revoked_by := Some (pr_subject p)\<rparr>) (am_grants d)\<rparr>)))"

end
