(* ===== verification/AccountSteps.thy ===== *)
theory AccountSteps
  imports Accounts
begin

text \<open>
  What every account request does to the tables: a few changes of single rows, and the invariant that
  each of them keeps.
\<close>

section \<open>The invariant\<close>

definition has_tenant :: "tenant list \<Rightarrow> int \<Rightarrow> bool" where
  "has_tenant ts i = list_ex (\<lambda>t. tn_id t = i) ts"

definition has_user :: "account list \<Rightarrow> int \<Rightarrow> bool" where
  "has_user us i = list_ex (\<lambda>u. us_id u = i) us"

text \<open>A user is an operator without a tenant, or a member of one tenant that exists.\<close>

definition user_ok :: "tenant list \<Rightarrow> account \<Rightarrow> bool" where
  "user_ok ts u = (us_role u \<in> set ROLES
     \<and> (case us_tenant_id u of
          None \<Rightarrow> us_is_operator u \<and> (case us_operator_role u of None \<Rightarrow> False | Some r \<Rightarrow> r \<in> set OPERATOR_ROLES)
        | Some t \<Rightarrow> \<not> us_is_operator u \<and> has_tenant ts t))"

definition INVITE_STATES :: "string list" where
  "INVITE_STATES = [''pending'', ''accepted'', ''expired'', ''revoked'']"

definition invite_ok :: "tenant list \<Rightarrow> account list \<Rightarrow> invite \<Rightarrow> bool" where
  "invite_ok ts us v = (has_tenant ts (iv_tenant_id v) \<and> iv_role v \<in> set ROLES \<and> iv_status v \<in> set INVITE_STATES
     \<and> (iv_accepted_at v \<noteq> None \<longleftrightarrow> iv_status v = ''accepted'')
     \<and> (case iv_user_id v of None \<Rightarrow> True | Some i \<Rightarrow> has_user us i))"

definition grant_key :: "operator_grant \<Rightarrow> int \<times> int" where
  "grant_key g = (oa_operator_user_id g, oa_tenant_id g)"

definition account_inv :: "account_db \<Rightarrow> bool" where
  "account_inv d = (keyed us_id (am_users d) \<and> list_all (\<lambda>u. 0 < us_id u \<and> us_id u < am_seq d) (am_users d)
     \<and> distinct (map us_email (am_users d)) \<and> list_all (user_ok (am_tenants d)) (am_users d) \<and> 0 < am_seq d
     \<and> keyed tn_id (am_tenants d) \<and> distinct (tenant_slugs d)
     \<and> keyed iv_id (am_invites d) \<and> distinct (map iv_token_hash (am_invites d))
     \<and> list_all (invite_ok (am_tenants d) (am_users d)) (am_invites d)
     \<and> keyed ak_id (am_keys d) \<and> list_all (\<lambda>k. has_tenant (am_tenants d) (ak_tenant_id k) \<and> ak_role k \<in> set ROLES) (am_keys d)
     \<and> keyed og_id (am_grants d) \<and> distinct (map grant_key (am_grants d))
     \<and> list_all (\<lambda>g. has_user (am_users d) (oa_operator_user_id g) \<and> has_tenant (am_tenants d) (oa_tenant_id g)) (am_grants d))"

section \<open>Changes of single rows\<close>

definition same_accounts :: "account_db \<Rightarrow> account_db \<Rightarrow> bool" where
  "same_accounts d d' = (am_users d' = am_users d \<and> am_tenants d' = am_tenants d \<and> am_invites d' = am_invites d
     \<and> am_keys d' = am_keys d \<and> am_grants d' = am_grants d \<and> am_seq d' = am_seq d)"

text \<open>
  A change of an invitation: it keeps its key, tenant, role and secret, and only a pending one changes
  its state. \<open>T\<close> are the secrets (as hashes) that are not generated again.
\<close>

definition invite_moves :: "account_db \<Rightarrow> invite \<Rightarrow> invite \<Rightarrow> bool" where
  "invite_moves d v v' = (iv_id v' = iv_id v \<and> iv_tenant_id v' = iv_tenant_id v \<and> iv_role v' = iv_role v
     \<and> iv_token_hash v' = iv_token_hash v \<and> iv_status v = ''pending'' \<and> invite_ok (am_tenants d) (am_users d) v')"

inductive am_change :: "string list \<Rightarrow> account_db \<Rightarrow> account_db \<Rightarrow> bool" for T where
  ch_frame: "same_accounts d d' \<Longrightarrow> am_change T d d'"
| ch_user: "u \<in> set (am_users d) \<Longrightarrow> us_id u' = us_id u \<Longrightarrow> us_email u' = us_email u \<Longrightarrow> us_pwd_version u \<le> us_pwd_version u'
    \<Longrightarrow> user_ok (am_tenants d) u' \<Longrightarrow> am_change T d (set_account u' d)"
| ch_new_user: "us_id u = am_seq d \<Longrightarrow> us_email u \<notin> us_email ` set (am_users d) \<Longrightarrow> user_ok (am_tenants d) u
    \<Longrightarrow> am_change T d (insert_account u d)"
| ch_drop: "am_change T d (drop_user i d)"
| ch_invite: "v \<in> set (am_invites d) \<Longrightarrow> invite_moves d v v' \<Longrightarrow> am_change T d (set_invite v' d)"
| ch_revoke: "am_change T d (revoke_pending t e d)"
| ch_new_invite: "iv_id v = next_id iv_id (am_invites d) \<Longrightarrow> iv_token_hash v \<notin> iv_token_hash ` set (am_invites d)
    \<Longrightarrow> iv_token_hash v \<notin> set T \<Longrightarrow> invite_ok (am_tenants d) (am_users d) v
    \<Longrightarrow> am_change T d (d\<lparr>am_invites := am_invites d @ [v]\<rparr>)"
| ch_tenant: "t \<in> set (am_tenants d) \<Longrightarrow> tn_id t' = tn_id t \<Longrightarrow> tn_slug t' = tn_slug t
    \<Longrightarrow> am_change T d (d\<lparr>am_tenants := upd_row tn_id (tn_id t) (\<lambda>_. t') (am_tenants d)\<rparr>)"
| ch_new_tenant: "tn_id t = next_id tn_id (am_tenants d) \<Longrightarrow> tn_slug t \<notin> set (tenant_slugs d)
    \<Longrightarrow> am_change T d (d\<lparr>am_tenants := am_tenants d @ [t]\<rparr>)"
| ch_key: "am_change T d (d\<lparr>am_keys := upd_row ak_id i (\<lambda>r. r\<lparr>ak_active := False\<rparr>) (am_keys d)\<rparr>)"
| ch_new_key: "ak_id k = next_id ak_id (am_keys d) \<Longrightarrow> has_tenant (am_tenants d) (ak_tenant_id k) \<Longrightarrow> ak_role k \<in> set ROLES
    \<Longrightarrow> am_change T d (d\<lparr>am_keys := am_keys d @ [k]\<rparr>)"
| ch_grant: "g \<in> set (am_grants d) \<Longrightarrow> og_id (f g) = og_id g \<Longrightarrow> grant_key (f g) = grant_key g
    \<Longrightarrow> am_change T d (d\<lparr>am_grants := upd_row og_id (og_id g) f (am_grants d)\<rparr>)"
| ch_new_grant: "og_id g = next_id og_id (am_grants d) \<Longrightarrow> grant_key g \<notin> grant_key ` set (am_grants d)
    \<Longrightarrow> has_user (am_users d) (oa_operator_user_id g) \<Longrightarrow> has_tenant (am_tenants d) (oa_tenant_id g)
    \<Longrightarrow> am_change T d (d\<lparr>am_grants := am_grants d @ [g]\<rparr>)"

abbreviation am_changes :: "string list \<Rightarrow> account_db \<Rightarrow> account_db \<Rightarrow> bool" where
  "am_changes T \<equiv> (am_change T)\<^sup>*\<^sup>*"

lemma ch_record [intro]: "am_changes T d e \<Longrightarrow> am_changes T d (am_record now actor role ten oper act x q j e)"
  by (rule rtranclp.rtrancl_into_rtrancl, assumption, rule ch_frame) (simp add: same_accounts_def am_record_def)

subsection \<open>Each keeps the invariant\<close>

lemma has_user_mono: "has_user us i \<Longrightarrow> us_id ` set us \<subseteq> us_id ` set us' \<Longrightarrow> has_user us' i"
  unfolding has_user_def list_ex_iff by (metis image_iff subsetD)

lemma has_tenant_mono: "has_tenant ts i \<Longrightarrow> tn_id ` set ts \<subseteq> tn_id ` set ts' \<Longrightarrow> has_tenant ts' i"
  unfolding has_tenant_def list_ex_iff by (metis image_iff subsetD)

lemma invite_ok_mono:
  "invite_ok ts us v \<Longrightarrow> tn_id ` set ts \<subseteq> tn_id ` set ts' \<Longrightarrow> us_id ` set us \<subseteq> us_id ` set us' \<Longrightarrow> invite_ok ts' us' v"
  unfolding invite_ok_def by (auto split: option.splits intro: has_user_mono has_tenant_mono)

lemma user_ok_mono: "user_ok ts u \<Longrightarrow> tn_id ` set ts \<subseteq> tn_id ` set ts' \<Longrightarrow> user_ok ts' u"
  unfolding user_ok_def by (auto split: option.splits intro: has_tenant_mono)

lemma upd_const_keys:
  assumes "keyed rid rs" "r \<in> set rs" "rid r' = rid r" "k r' = k r"
  shows "map k (upd_row rid (rid r) (\<lambda>_. r') rs) = map k rs"
proof -
  have "x = r" if "x \<in> set rs" "rid x = rid r" for x
    using assms(1,2) that by (auto simp: keyed_def distinct_map inj_on_def)
  then show ?thesis using assms(4) by (auto simp: upd_row_def)
qed

lemma set_upd_const: "set (upd_row rid i (\<lambda>_. r') rs) \<subseteq> insert r' (set rs)"
  by (auto simp: upd_row_def)

lemma upd_const_all: "list_all P rs \<Longrightarrow> P r' \<Longrightarrow> list_all P (upd_row rid i (\<lambda>_. r') rs)"
  using set_upd_const[of rid i r' rs] by (auto simp: list_all_iff)

lemma distinct_filter_keys: "distinct (map k rs) \<Longrightarrow> distinct (map k (filter P rs))"
  by (simp add: distinct_map_filter)

lemma change_inv:
  assumes "am_change T d d'" "account_inv d"
  shows "account_inv d'"
  using assms(1)
proof cases
  case ch_frame
  with assms(2) show ?thesis by (simp add: same_accounts_def account_inv_def tenant_slugs_def)
next
  case (ch_user u u')
  note inv = assms(2)[unfolded account_inv_def]
  have m: "map us_id (am_users (set_account u' d)) = map us_id (am_users d)"
    "map us_email (am_users (set_account u' d)) = map us_email (am_users d)"
    using ch_user inv upd_const_keys[of us_id "am_users d" u u' us_id] upd_const_keys[of us_id "am_users d" u u' us_email] by (simp_all add: set_account_def)
  then have ids: "us_id ` set (am_users (set_account u' d)) = us_id ` set (am_users d)" by (metis list.set_map)
  have "list_all (\<lambda>u. 0 < us_id u \<and> us_id u < am_seq d) (am_users (set_account u' d))"
    using ch_user inv by (auto simp: set_account_def list_all_iff upd_row_def)
  moreover have "list_all (user_ok (am_tenants d)) (am_users (set_account u' d))"
    using ch_user inv upd_const_all by (auto simp: set_account_def)
  moreover have "list_all (invite_ok (am_tenants d) (am_users (set_account u' d))) (am_invites d)"
    using inv ids invite_ok_mono by (fastforce simp: list_all_iff)
  moreover have "list_all (\<lambda>g. has_user (am_users (set_account u' d)) (oa_operator_user_id g) \<and> has_tenant (am_tenants d) (oa_tenant_id g)) (am_grants d)"
    using inv ids has_user_mono by (fastforce simp: list_all_iff)
  ultimately show ?thesis using inv m \<open>d' = set_account u' d\<close>
    by (simp add: account_inv_def keyed_def set_account_def tenant_slugs_def)
next
  case (ch_new_user u)
  note inv = assms(2)[unfolded account_inv_def]
  have ids: "us_id ` set (am_users d) \<subseteq> us_id ` set (am_users (insert_account u d))" by (auto simp: insert_account_def)
  have "list_all (invite_ok (am_tenants d) (am_users (insert_account u d))) (am_invites d)"
    using inv ids invite_ok_mono by (fastforce simp: list_all_iff)
  moreover have "list_all (\<lambda>g. has_user (am_users (insert_account u d)) (oa_operator_user_id g) \<and> has_tenant (am_tenants d) (oa_tenant_id g)) (am_grants d)"
    using inv ids has_user_mono by (fastforce simp: list_all_iff)
  moreover have "keyed us_id (am_users d @ [u])"
    using inv ch_new_user by (auto simp: keyed_def list_all_iff)
  moreover have "list_all (\<lambda>u. 0 < us_id u \<and> us_id u < am_seq d + 1) (am_users d @ [u])"
    using inv ch_new_user by (auto simp: list_all_iff)
  ultimately show ?thesis using inv ch_new_user by (simp add: account_inv_def insert_account_def tenant_slugs_def)
next
  case (ch_drop i)
  note inv = assms(2)[unfolded account_inv_def]
  have h: "has_user (filter (\<lambda>u. us_id u \<noteq> i) us) j \<longleftrightarrow> has_user us j \<and> j \<noteq> i" for us j
    by (auto simp: has_user_def list_ex_iff)
  have "list_all (invite_ok (am_tenants d) (filter (\<lambda>u. us_id u \<noteq> i) (am_users d))) (filter (\<lambda>v. iv_user_id v \<noteq> Some i) (am_invites d))"
    using inv by (auto simp: list_all_iff invite_ok_def h split: option.splits)
  then show ?thesis using inv ch_drop
    by (auto simp: account_inv_def drop_user_def keyed_def tenant_slugs_def h list_all_iff intro: distinct_filter_keys)
next
  case (ch_invite v v')
  note inv = assms(2)[unfolded account_inv_def]
  have m: "map iv_id (am_invites (set_invite v' d)) = map iv_id (am_invites d)"
    "map iv_token_hash (am_invites (set_invite v' d)) = map iv_token_hash (am_invites d)"
    using ch_invite inv upd_const_keys[of iv_id "am_invites d" v v' iv_id] upd_const_keys[of iv_id "am_invites d" v v' iv_token_hash]
    by (simp_all add: set_invite_def invite_moves_def)
  have "list_all (invite_ok (am_tenants d) (am_users d)) (am_invites (set_invite v' d))"
    using ch_invite inv upd_const_all by (auto simp: set_invite_def invite_moves_def)
  then show ?thesis using inv m \<open>d' = set_invite v' d\<close> by (simp add: account_inv_def keyed_def set_invite_def tenant_slugs_def)
next
  case (ch_revoke t e)
  note inv = assms(2)[unfolded account_inv_def]
  have m: "map iv_id (am_invites (revoke_pending t e d)) = map iv_id (am_invites d)"
    "map iv_token_hash (am_invites (revoke_pending t e d)) = map iv_token_hash (am_invites d)"
    by (auto simp: revoke_pending_def)
  have "invite_ok ts us (v\<lparr>iv_status := ''revoked''\<rparr>)" if "invite_ok ts us v" "iv_status v = ''pending''" for ts us v
    using that by (auto simp: invite_ok_def INVITE_STATES_def)
  then have "list_all (invite_ok (am_tenants d) (am_users d)) (am_invites (revoke_pending t e d))"
    using inv by (auto simp: list_all_iff revoke_pending_def)
  moreover obtain vs where "am_invites (revoke_pending t e d) = vs" "revoke_pending t e d = d\<lparr>am_invites := vs\<rparr>"
    by (simp add: revoke_pending_def)
  ultimately show ?thesis using inv m ch_revoke by (simp add: account_inv_def keyed_def tenant_slugs_def)
next
  case (ch_new_invite v)
  with assms(2) show ?thesis by (auto simp: account_inv_def keyed_append tenant_slugs_def)
next
  case (ch_tenant t t')
  note inv = assms(2)[unfolded account_inv_def]
  let ?ts = "upd_row tn_id (tn_id t) (\<lambda>_. t') (am_tenants d)"
  have m: "map tn_id ?ts = map tn_id (am_tenants d)" "map tn_slug ?ts = map tn_slug (am_tenants d)"
    using ch_tenant inv upd_const_keys[of tn_id "am_tenants d" t t' tn_id] upd_const_keys[of tn_id "am_tenants d" t t' tn_slug] by simp_all
  then have ids: "tn_id ` set (am_tenants d) \<subseteq> tn_id ` set ?ts" by (metis list.set_map order_refl)
  have "list_all (user_ok ?ts) (am_users d)" "list_all (invite_ok ?ts (am_users d)) (am_invites d)"
    "list_all (\<lambda>k. has_tenant ?ts (ak_tenant_id k) \<and> ak_role k \<in> set ROLES) (am_keys d)"
    "list_all (\<lambda>g. has_user (am_users d) (oa_operator_user_id g) \<and> has_tenant ?ts (oa_tenant_id g)) (am_grants d)"
    using inv ids user_ok_mono invite_ok_mono has_tenant_mono by (fastforce simp: list_all_iff)+
  then show ?thesis using inv m ch_tenant by (simp add: account_inv_def keyed_def tenant_slugs_def)
next
  case (ch_new_tenant t)
  note inv = assms(2)[unfolded account_inv_def]
  let ?ts = "am_tenants d @ [t]"
  have ids: "tn_id ` set (am_tenants d) \<subseteq> tn_id ` set ?ts" by auto
  have "list_all (user_ok ?ts) (am_users d)" "list_all (invite_ok ?ts (am_users d)) (am_invites d)"
    "list_all (\<lambda>k. has_tenant ?ts (ak_tenant_id k) \<and> ak_role k \<in> set ROLES) (am_keys d)"
    "list_all (\<lambda>g. has_user (am_users d) (oa_operator_user_id g) \<and> has_tenant ?ts (oa_tenant_id g)) (am_grants d)"
    using inv ids user_ok_mono invite_ok_mono has_tenant_mono by (fastforce simp: list_all_iff)+
  then show ?thesis using inv ch_new_tenant by (simp add: account_inv_def keyed_append tenant_slugs_def)
next
  case (ch_key i)
  with assms(2) show ?thesis by (auto simp: account_inv_def keyed_upd_row tenant_slugs_def list_all_iff upd_row_def keyed_def comp_def if_distrib cong: if_cong)
next
  case (ch_new_key k)
  with assms(2) show ?thesis by (simp add: account_inv_def keyed_append tenant_slugs_def)
next
  case (ch_grant g f)
  note inv = assms(2)[unfolded account_inv_def]
  let ?gs = "upd_row og_id (og_id g) (\<lambda>_. f g) (am_grants d)"
  have "x = g" if "x \<in> set (am_grants d)" "og_id x = og_id g" for x
    using inv that ch_grant by (auto simp: keyed_def distinct_map inj_on_def)
  then have gs: "upd_row og_id (og_id g) f (am_grants d) = ?gs"
    unfolding upd_row_def by (intro map_cong refl if_cong) blast+
  have m: "map og_id ?gs = map og_id (am_grants d)" "map grant_key ?gs = map grant_key (am_grants d)"
    using inv ch_grant upd_const_keys[of og_id "am_grants d" g "f g" og_id] upd_const_keys[of og_id "am_grants d" g "f g" grant_key] by simp_all
  have "list_all (\<lambda>g. has_user (am_users d) (oa_operator_user_id g) \<and> has_tenant (am_tenants d) (oa_tenant_id g)) ?gs"
    by (rule upd_const_all) (use inv ch_grant in \<open>auto simp: list_all_iff grant_key_def\<close>)
  then show ?thesis using inv m gs ch_grant by (simp add: account_inv_def keyed_def tenant_slugs_def)
next
  case (ch_new_grant g)
  with assms(2) show ?thesis by (simp add: account_inv_def keyed_append tenant_slugs_def)
qed

section \<open>Every request is a sequence of changes\<close>

lemma changes_inv: "am_changes T d d' \<Longrightarrow> account_inv d \<Longrightarrow> account_inv d'"
  by (induction rule: rtranclp_induct) (auto intro: change_inv)

lemma changes_record: "am_change T d e \<Longrightarrow> am_changes T d (am_record now actor role ten oper act x q j e)"
  by (rule ch_record) (rule r_into_rtranclp)

lemma inv_user: "account_inv d \<Longrightarrow> u \<in> set (am_users d) \<Longrightarrow> user_ok (am_tenants d) u"
  by (simp add: account_inv_def list_all_iff)

lemma find_userD: "find_row us_id i (am_users d) = Some u \<Longrightarrow> u \<in> set (am_users d)"
  by (blast dest: find_row_SomeD)

lemma find_emailD: "find_email e d = Some u \<Longrightarrow> u \<in> set (am_users d) \<and> us_email u = e"
  by (auto simp: find_email_def dest: find_SomeD)

lemma find_email_None: "find_email e d = None \<Longrightarrow> e \<notin> us_email ` set (am_users d)"
  by (auto simp: find_email_def find_None_iff)

lemma owned_userD: "owned_user d i tid = Inr u \<Longrightarrow> u \<in> set (am_users d) \<and> us_id u = i \<and> us_tenant_id u = Some tid"
  by (auto simp: owned_user_def split: option.splits if_splits dest: find_row_SomeD)

lemma user_ok_upd [simp]:
  "user_ok ts (with_password h u) = user_ok ts u" "user_ok ts (u\<lparr>us_last_login_at := x\<rparr>) = user_ok ts u"
  "user_ok ts (u\<lparr>us_hashed_password := h\<rparr>) = user_ok ts u" "user_ok ts (u\<lparr>us_is_active := b\<rparr>) = user_ok ts u"
  by (simp_all add: user_ok_def with_password_def cong: option.case_cong)

lemma with_password_sel [simp]:
  "us_id (with_password h u) = us_id u" "us_email (with_password h u) = us_email u" "us_role (with_password h u) = us_role u"
  "us_pwd_version (with_password h u) = us_pwd_version u + 1" "us_tenant_id (with_password h u) = us_tenant_id u"
  "us_is_active (with_password h u) = us_is_active u" "us_is_operator (with_password h u) = us_is_operator u"
  by (simp_all add: with_password_def)

lemma logged_in_sel [simp]:
  "us_id (logged_in E now pw u) = us_id u" "us_email (logged_in E now pw u) = us_email u"
  "us_pwd_version (logged_in E now pw u) = us_pwd_version u" "user_ok ts (logged_in E now pw u) = user_ok ts u"
  "us_tenant_id (logged_in E now pw u) = us_tenant_id u"
  by (simp_all add: logged_in_def Let_def split: sum.split)

lemma frame_attempts: "same_accounts d (d\<lparr>am_attempts := a\<rparr>)"
  by (simp add: same_accounts_def)

lemma login_changes:
  assumes "login E now request jti address password d = (r, d')" "account_inv d"
  shows "am_changes T d d'"
proof -
  let ?e = "str_lower (str_strip address)"
  let ?d1 = "prune_attempts now ?e d"
  have p: "am_change T d ?d1" by (rule ch_frame) (simp add: prune_attempts_def frame_attempts)
  have inv1: "account_inv ?d1" using change_inv[OF p assms(2)] .
  show ?thesis
  proof (cases "rate_limited ?e ?d1")
    case True
    then show ?thesis using assms(1) p by (auto simp: login_def Let_def)
  next
    case False
    show ?thesis
    proof (cases "login_user E ?e password ?d1")
      case None
      have "am_change T ?d1 (record_attempt now ?e ?d1)" by (rule ch_frame) (simp add: record_attempt_def frame_attempts)
      with p have "am_changes T d (record_attempt now ?e ?d1)" by auto
      then show ?thesis using assms(1) False None by (auto simp: login_def Let_def)
    next
      case (Some u)
      let ?d2 = "?d1\<lparr>am_attempts := AList.delete ?e (am_attempts ?d1)\<rparr>"
      have u: "u \<in> set (am_users ?d1)" using Some by (auto simp: login_user_def split: option.splits if_splits dest: find_emailD)
      have "am_change T ?d1 ?d2" by (rule ch_frame) (rule frame_attempts)
      moreover have "am_change T ?d2 (set_account (logged_in E now password u) ?d2)"
        by (rule ch_user[of u]) (use u inv_user[OF inv1 u] in simp_all)
      ultimately have "am_changes T d (set_account (logged_in E now password u) ?d2)" using p by auto
      then show ?thesis using assms(1) False Some by (auto simp: login_def Let_def)
    qed
  qed
qed

lemma set_account_changes:
  assumes "u \<in> set (am_users d)" "us_id u' = us_id u" "us_email u' = us_email u" "us_pwd_version u \<le> us_pwd_version u'" "user_ok (am_tenants d) u'"
  shows "am_changes T d (am_record now actor role ten oper act x q j (set_account u' d))"
  by (rule changes_record) (rule ch_user[OF assms])

lemma change_password_changes:
  assumes "change_password E now request jti p cur new d = (r, d')" "account_inv d"
  shows "am_changes T d d'"
proof (cases r)
  case (Inl e)
  then show ?thesis using assms(1) by (auto simp: change_password_def split: sum.splits)
next
  case (Inr x)
  from assms(1)[unfolded change_password_def Inr] obtain i u h where u: "find_row us_id i (am_users d) = Some u"
    "d' = am_record now (us_email (with_password h u)) (Some (us_role (with_password h u))) None None ''auth.change_password''
        (Some (''user'', us_id (with_password h u))) request [] (set_account (with_password h u) d)"
    by (auto split: sum.splits if_splits option.splits)
  note m = find_userD[OF u(1)]
  show ?thesis unfolding u(2) by (rule set_account_changes[OF m]) (use inv_user[OF assms(2) m] in simp_all)
qed

lemma new_user_changes:
  assumes "us_id u = am_seq d" "us_email u \<notin> us_email ` set (am_users d)" "user_ok (am_tenants d) u"
  shows "am_changes T d (am_record now actor role ten oper act x q j (insert_account u d))"
  by (rule changes_record) (rule ch_new_user[OF assms])

lemma has_tenant_intro: "find_row tn_id i ts = Some t \<Longrightarrow> has_tenant ts i"
  by (auto simp: has_tenant_def list_ex_iff dest: find_row_SomeD)

lemma create_user_changes:
  assumes "create_user E now request p tid q d = (r, d')" "has_tenant (am_tenants d) tid"
  shows "am_changes T d d'"
proof (cases r)
  case (Inl e)
  then show ?thesis using assms(1) by (auto simp: create_user_def split: sum.splits)
next
  case (Inr x)
  from assms(1)[unfolded create_user_def Inr] obtain email h u where u: "u = new_account now email h (uc_role q) False None (Some tid) True d"
    "uc_role q \<in> set ROLES" "find_email email d = None"
    "d' = am_record now (pr_subject p) (Some (pr_role p)) (Some tid) None ''user.create'' (Some (''user'', us_id u)) request
         [(''email'', JStr (us_email u)), (''role'', JStr (us_role u))] (insert_account u d)"
    by (auto split: sum.splits if_splits)
  show ?thesis unfolding u(4)
    by (rule new_user_changes) (use u(1-3) assms(2) find_email_None[OF u(3)] in \<open>simp_all add: new_account_def user_ok_def\<close>)
qed

lemma edited_userD:
  assumes "edited_user E q u = Inr u'" "valid_user_update q = Inr ()"
  shows "us_id u' = us_id u \<and> us_email u' = us_email u \<and> us_pwd_version u \<le> us_pwd_version u'
    \<and> us_tenant_id u' = us_tenant_id u \<and> us_is_operator u' = us_is_operator u \<and> (user_ok ts u \<longrightarrow> user_ok ts u')"
proof -
  let ?u = "u\<lparr>us_role := (case uu_role q of None \<Rightarrow> us_role u | Some r \<Rightarrow> r),
                us_is_active := (case uu_is_active q of None \<Rightarrow> us_is_active u | Some b \<Rightarrow> b)\<rparr>"
  have "user_ok ts u \<Longrightarrow> user_ok ts ?u"
    using assms(2) by (auto simp: user_ok_def valid_user_update_def split: option.splits if_splits)
  moreover have "u' = ?u \<or> (\<exists>h. u' = with_password h ?u)" using assms(1) by (auto simp: edited_user_def Let_def split: option.splits)
  ultimately show ?thesis by auto
qed

lemma update_user_changes:
  assumes "update_user E now request p tid i q d = (r, d')" "account_inv d"
  shows "am_changes T d d'"
proof (cases r)
  case (Inl e)
  then show ?thesis using assms(1) by (auto simp: update_user_def split: sum.splits)
next
  case (Inr x)
  from assms(1)[unfolded update_user_def Inr] obtain u u' j where u: "valid_user_update q = Inr ()" "owned_user d i tid = Inr u"
    "edited_user E q u = Inr u'"
    "d' = am_record now (pr_subject p) (Some (pr_role p)) (Some tid) None ''user.update'' (Some (''user'', us_id u')) request j (set_account u' d)"
    by (auto split: sum.splits if_splits)
  note m = conjunct1[OF owned_userD[OF u(2)]]
  show ?thesis unfolding u(4) by (rule set_account_changes[OF m]) (use edited_userD[OF u(3,1)] inv_user[OF assms(2) m] in auto)
qed

lemma reset_changes:
  assumes "admin_reset_password E now request gen p tid i pw d = (r, d')" "account_inv d"
  shows "am_changes T d d'"
proof (cases r)
  case (Inl e)
  then show ?thesis using assms(1) by (auto simp: admin_reset_password_def split: sum.splits)
next
  case (Inr x)
  from assms(1)[unfolded admin_reset_password_def Inr] obtain u h j where u: "owned_user d i tid = Inr u"
    "d' = am_record now (pr_subject p) (Some (pr_role p)) (Some tid) None ''user.reset_password'' (Some (''user'', us_id (with_password h u))) request j
       (set_account (with_password h u) d)"
    by (auto split: sum.splits)
  note m = conjunct1[OF owned_userD[OF u(1)]]
  show ?thesis unfolding u(2) by (rule set_account_changes[OF m]) (use inv_user[OF assms(2) m] in simp_all)
qed

lemma delete_user_changes:
  assumes "delete_user now request p tid i d = (r, d')"
  shows "am_changes T d d'"
  using assms changes_record[OF ch_drop, of T d] by (auto simp: delete_user_def split: sum.splits)

definition token_unused :: "account_env \<Rightarrow> string list \<Rightarrow> string \<Rightarrow> account_db \<Rightarrow> bool" where
  "token_unused E T token d = (en_sha E token \<notin> set T \<and> en_sha E token \<notin> iv_token_hash ` set (am_invites d))"

lemma next_id_map: "(\<And>r. rid (f r) = rid r) \<Longrightarrow> next_id rid (map f rs) = next_id rid rs"
  unfolding next_id_def by (induction rs) auto

lemma revoke_pending_hashes: "map iv_token_hash (am_invites (revoke_pending t e d)) = map iv_token_hash (am_invites d)"
  by (auto simp: revoke_pending_def)

lemma revoke_pending_sel [simp]:
  "am_tenants (revoke_pending t e d) = am_tenants d" "am_users (revoke_pending t e d) = am_users d"
  "next_id iv_id (am_invites (revoke_pending t e d)) = next_id iv_id (am_invites d)"
  by (simp_all add: revoke_pending_def next_id_map)

lemma revoke_pending_hash_set [simp]: "iv_token_hash ` set (am_invites (revoke_pending t e d)) = iv_token_hash ` set (am_invites d)"
  by (metis list.set_map revoke_pending_hashes)

lemma create_invite_changes:
  assumes "create_invite E now request token t email role uid by_whom d = (out, d')" "token_unused E T token d"
    "has_tenant (am_tenants d) t" "role \<in> set ROLES" "case uid of None \<Rightarrow> True | Some i \<Rightarrow> has_user (am_users d) i"
  shows "am_changes T d d'"
proof -
  let ?v = "new_invite E now t email role uid by_whom token d"
  let ?r = "revoke_pending t email d"
  have "am_change T ?r (?r\<lparr>am_invites := am_invites ?r @ [?v]\<rparr>)"
    by (rule ch_new_invite) (use assms(2-5) in \<open>simp_all add: new_invite_def token_unused_def invite_ok_def INVITE_STATES_def\<close>)
  then have "am_changes T d (?r\<lparr>am_invites := am_invites ?r @ [?v]\<rparr>)" using ch_revoke[of T d t email] by auto
  then show ?thesis using assms(1) by (auto simp: create_invite_def Let_def)
qed

lemma inv_invite: "account_inv d \<Longrightarrow> v \<in> set (am_invites d) \<Longrightarrow> invite_ok (am_tenants d) (am_users d) v"
  by (simp add: account_inv_def list_all_iff)

lemma resolve_inviteD: "resolve_invite E token d = Some v \<Longrightarrow> v \<in> set (am_invites d) \<and> iv_token_hash v = en_sha E token"
  by (auto simp: resolve_invite_def dest: find_SomeD)

lemma moves_status:
  assumes "invite_ok (am_tenants d) (am_users d) v" "iv_status v = ''pending''" "st \<in> {''expired'', ''revoked''}"
  shows "invite_moves d v (v\<lparr>iv_status := st\<rparr>)"
  using assms by (auto simp: invite_moves_def invite_ok_def INVITE_STATES_def)

lemma expire_change:
  assumes "v \<in> set (am_invites d)" "account_inv d" "iv_status v = ''pending''" "st \<in> {''expired'', ''revoked''}"
  shows "am_change T d (set_invite (v\<lparr>iv_status := st\<rparr>) d)"
  by (rule ch_invite[OF assms(1) moves_status[OF inv_invite[OF assms(2,1)] assms(3,4)]])

lemma validate_token_changes:
  assumes "validate_invite E now token d = (r, d')" "account_inv d"
  shows "am_changes T d d'"
proof (cases "resolve_invite E token d")
  case None
  then show ?thesis using assms(1) by (auto simp: validate_invite_def validate_token_def split: if_splits)
next
  case (Some v)
  note v = conjunct1[OF resolve_inviteD[OF Some]]
  show ?thesis
  proof (cases "iv_status v = ''pending''")
    case True
    then show ?thesis using assms(1) Some expire_change[OF v assms(2), of "''expired''" T]
      by (auto simp: validate_invite_def validate_token_def split: if_splits)
  next
    case False
    then show ?thesis using assms(1) Some by (auto simp: validate_invite_def validate_token_def split: if_splits)
  qed
qed

lemma invited_userD: "invited_user v d = Some u \<Longrightarrow> u \<in> set (am_users d)"
  by (auto simp: invited_user_def split: option.splits if_splits dest: find_userD find_emailD)

lemma joined_sel [simp]:
  "us_id (joined v h u) = us_id u" "us_email (joined v h u) = us_email u" "us_pwd_version (joined v h u) = us_pwd_version u + 1"
  "us_role (joined v h u) = iv_role v" "us_tenant_id (joined v h u) = Some (iv_tenant_id v)"
  "us_is_operator (joined v h u) = False" "us_is_active (joined v h u) = True"
  by (simp_all add: joined_def with_password_def)

lemma joined_ok: "invite_ok ts us v \<Longrightarrow> user_ok ts (joined v h u)"
  by (simp add: user_ok_def invite_ok_def)

text \<open>What a successful acceptance is.\<close>

lemma acceptE:
  assumes "accept E now request token password d = (Inr u', d')"
  obtains v u h v' where "resolve_invite E token d = Some v" "iv_status v = ''pending''" "\<not> expired now (iv_expires_at v)"
    "hash_password E password = Inr h" "invited_user v d = Some u" "u' = joined v h u"
    "v' = v\<lparr>iv_status := ''accepted'', iv_accepted_at := Some now, iv_user_id := (if us_id u \<noteq> 0 then Some (us_id u) else iv_user_id v)\<rparr>"
    "d' = am_record now (us_email u') (Some (us_role u')) (Some (iv_tenant_id v)) None ''invite.accept''
        (Some (''invite'', iv_id v)) request [] (set_invite v' (set_account u' d))"
  using assms unfolding accept_def by (auto simp: Let_def split: option.splits if_splits sum.splits)

lemma accept_changes:
  assumes "accept E now request token password d = (r, d')" "account_inv d"
  shows "am_changes T d d'"
proof (cases r)
  case (Inl e)
  show ?thesis
  proof (cases "resolve_invite E token d")
    case None
    then show ?thesis using assms(1) by (auto simp: accept_def)
  next
    case (Some v)
    show ?thesis
    proof (cases "iv_status v = ''pending'' \<and> expired now (iv_expires_at v)")
      case True
      then show ?thesis using assms(1) Some expire_change[OF conjunct1[OF resolve_inviteD[OF Some]] assms(2), of "''expired''" T]
        by (auto simp: accept_def)
    next
      case False
      then show ?thesis using assms(1) Some Inl by (auto simp: accept_def Let_def split: sum.splits option.splits if_splits)
    qed
  qed
next
  case (Inr u')
  from acceptE[OF assms(1)[unfolded Inr]] obtain v u h v' where a: "resolve_invite E token d = Some v" "iv_status v = ''pending''"
    "invited_user v d = Some u" "u' = joined v h u"
    "v' = v\<lparr>iv_status := ''accepted'', iv_accepted_at := Some now, iv_user_id := (if us_id u \<noteq> 0 then Some (us_id u) else iv_user_id v)\<rparr>"
    "d' = am_record now (us_email u') (Some (us_role u')) (Some (iv_tenant_id v)) None ''invite.accept''
        (Some (''invite'', iv_id v)) request [] (set_invite v' (set_account u' d))" by metis
  note v = conjunct1[OF resolve_inviteD[OF a(1)]]
  note u = invited_userD[OF a(3)]
  note ok = inv_invite[OF assms(2) v]
  have 1: "am_change T d (set_account u' d)" by (rule ch_user[OF u]) (use joined_ok[OF ok] in \<open>simp_all add: a(4)\<close>)
  have "u' \<in> set (am_users (set_account u' d))" using u by (auto simp: set_account_def upd_row_def a(4) intro!: image_eqI[of _ _ u])
  then have "has_user (am_users (set_account u' d)) (us_id u)" by (auto simp: has_user_def list_ex_iff a(4) intro!: bexI[of _ u'])
  moreover have "0 < us_id u" using u assms(2) by (simp add: account_inv_def list_all_iff)
  moreover have "am_tenants (set_account u' d) = am_tenants d" by (simp add: set_account_def)
  ultimately have "invite_moves (set_account u' d) v v'" using ok a(2) by (auto simp: invite_moves_def invite_ok_def INVITE_STATES_def a(5))
  then have "am_change T (set_account u' d) (set_invite v' (set_account u' d))"
    by (intro ch_invite) (use v in \<open>simp_all add: set_account_def\<close>)
  with 1 show ?thesis unfolding a(6) by (intro ch_record) auto
qed

lemma free_slug_free: "free_slug slugs base i s \<notin> set slugs"
proof (induction slugs base i s rule: free_slug.induct)
  case (1 slugs base i slug)
  then show ?case by (subst free_slug.simps) simp
qed

lemma create_tenant_changes:
  assumes "create_tenant E now request token gen p q d = (r, d')" "account_inv d" "token_unused E T token d"
  shows "am_changes T d d'"
proof (cases r)
  case (Inl e)
  then show ?thesis using assms(1) by (auto simp: create_tenant_def Let_def split: sum.splits prod.splits if_splits)
next
  case (Inr x)
  from assms(1)[unfolded create_tenant_def Inr] obtain n email h where s: "bindr (valid_tenant_create q) (\<lambda>(n, email).
            if find_email email d \<noteq> None then Inl (HTTPException 409)
            else bindr (hash_password E (case tc_admin_password q of None \<Rightarrow> gen | Some pw \<Rightarrow> pw)) (\<lambda>h. Inr (n, email, h))) = Inr (n, email, h)"
    by (auto split: sum.splits)
  define t where "t = \<lparr>tn_id = next_id tn_id (am_tenants d), tn_name = n, tn_slug = free_slug (tenant_slugs d) (slugify n) 2 (slugify n),
                  tn_status = ''active'', tn_created_at = now\<rparr>"
  define d1 where "d1 = insert_tenant now request p t email d"
  define u where "u = new_account now email h ''admin'' False None (Some (tn_id t)) (tc_admin_password q \<noteq> None) d"
  have none: "find_email email d = None" using s by (auto split: if_splits)
  have "am_change T d (d\<lparr>am_tenants := am_tenants d @ [t]\<rparr>)"
    by (rule ch_new_tenant) (simp_all add: t_def free_slug_free)
  then have 1: "am_changes T d d1" unfolding d1_def insert_tenant_def by (rule changes_record)
  have d1: "am_users d1 = am_users d" "am_seq d1 = am_seq d" "am_tenants d1 = am_tenants d @ [t]" "am_invites d1 = am_invites d"
    by (simp_all add: d1_def insert_tenant_def am_record_def)
  have "am_change T d1 (insert_account u d1)"
    by (rule ch_new_user) (use find_email_None[OF none] in \<open>simp_all add: u_def new_account_def d1 user_ok_def has_tenant_def ROLES_def\<close>)
  with 1 have 2: "am_changes T d (insert_account u d1)" by auto
  have out: "(if tc_admin_password q \<noteq> None then (Inr (t, None), insert_account u d1)
       else (case create_invite E now request token (tn_id t) email ''admin'' (Some (us_id u)) (pr_subject p) (insert_account u d1) of
                ((v, link, sent), d3) \<Rightarrow> (Inr (t, Some (link, sent)), d3))) = (Inr x :: (tenant \<times> (string \<times> bool) option) res, d')"
    using assms(1)[unfolded create_tenant_def Inr, unfolded s] by (simp only: t_def d1_def u_def Let_def sum.case prod.case)
  show ?thesis
  proof (cases "tc_admin_password q \<noteq> None")
    case True
    with out 2 show ?thesis by simp
  next
    case False
    obtain o3 d3 where ci: "create_invite E now request token (tn_id t) email ''admin'' (Some (us_id u)) (pr_subject p) (insert_account u d1) = (o3, d3)"
      by fastforce
    have "am_changes T (insert_account u d1) d3"
      by (rule create_invite_changes[OF ci])
        (use assms(3) in \<open>simp_all add: insert_account_def d1 has_tenant_def has_user_def ROLES_def token_unused_def\<close>)
    moreover have "d' = d3" using out False ci by (auto split: prod.splits)
    ultimately show ?thesis using 2 by auto
  qed
qed

lemma set_tenant_status_changes:
  assumes "set_tenant_status now request p i status d = (r, d')"
  shows "am_changes T d d'"
proof (cases "find_row tn_id i (am_tenants d)")
  case (Some t)
  then have "t \<in> set (am_tenants d)" "tn_id t = i" by (blast dest: find_row_SomeD)+
  then have "am_change T d (d\<lparr>am_tenants := upd_row tn_id i (\<lambda>_. t\<lparr>tn_status := status\<rparr>) (am_tenants d)\<rparr>)"
    using ch_tenant[of t d "t\<lparr>tn_status := status\<rparr>" T] by simp
  then show ?thesis using assms Some by (auto simp: set_tenant_status_def Let_def split: if_splits)
qed (use assms in \<open>auto simp: set_tenant_status_def split: if_splits\<close>)

lemma resend_changes:
  assumes "create_or_resend_invite E now request token p t address role d = (r, d')" "token_unused E T token d"
  shows "am_changes T d d'"
proof (cases r)
  case (Inl e)
  then show ?thesis using assms(1) by (auto simp: create_or_resend_invite_def split: sum.splits prod.splits)
next
  case (Inr x)
  from assms(1)[unfolded create_or_resend_invite_def Inr] obtain email other where o: "bindr (valid_email address) (\<lambda>email.
      if role \<notin> set ROLES then Inl (HTTPException 422) else bindr (require_operator p) (\<lambda>_. bindr (assert_tenant_access d p t) (\<lambda>tn.
            case find_email email d of None \<Rightarrow> Inr (email, None)
            | Some u \<Rightarrow> if us_tenant_id u \<noteq> None \<and> us_tenant_id u \<noteq> Some t then Inl (HTTPException 409)
                        else Inr (email, Some (us_id u))))) = Inr (email, other)"
    "create_invite E now request token t email role other (pr_subject p) d = (x, d')"
    by (auto split: sum.splits prod.splits)
  then have r: "role \<in> set ROLES" "\<exists>tn. assert_tenant_access d p t = Inr tn"
    "other = None \<or> (\<exists>u. find_email email d = Some u \<and> other = Some (us_id u))"
    by (auto split: if_splits option.splits)
  then have u: "case other of None \<Rightarrow> True | Some i \<Rightarrow> has_user (am_users d) i"
    using find_emailD[of email d] by (auto simp: has_user_def list_ex_iff)
  have "has_tenant (am_tenants d) t" using r(2) by (auto simp: assert_tenant_access_def split: option.splits intro: has_tenant_intro)
  from create_invite_changes[OF o(2) assms(2) this r(1) u] show ?thesis .
qed

lemma revoke_invite_changes:
  assumes "revoke_invite now request p t i d = (r, d')" "account_inv d"
  shows "am_changes T d d'"
proof (cases "find_row iv_id i (am_invites d)")
  case (Some v)
  then have v: "v \<in> set (am_invites d)" by (blast dest: find_row_SomeD)
  show ?thesis
  proof (cases "iv_status v = ''pending''")
    case True
    from expire_change[OF v assms(2) True, of "''revoked''" T] show ?thesis using assms(1) Some True
      by (auto simp: revoke_invite_def split: if_splits)
  next
    case False
    then show ?thesis using assms(1) Some by (auto simp: revoke_invite_def split: if_splits)
  qed
qed (use assms in \<open>auto simp: revoke_invite_def\<close>)

lemma create_api_key_changes: "create_api_key E now request secret p t label role d = (r, d') \<Longrightarrow> am_changes T d d'"
  unfolding create_api_key_def Let_def
  by (auto split: if_splits option.splits intro!: changes_record ch_new_key intro: has_tenant_intro)

lemma revoke_api_key_changes: "revoke_api_key now request p t i d = (r, d') \<Longrightarrow> am_changes T d d'"
  unfolding revoke_api_key_def by (auto split: if_splits option.splits intro!: changes_record ch_key)

lemma operator_ok: "r \<in> set OPERATOR_ROLES \<Longrightarrow> user_ok ts (new_account now e h ''admin'' True (Some r) None True d)"
  by (simp add: user_ok_def new_account_def ROLES_def)

lemma bootstrap_changes:
  assumes "bootstrap_operator E now request jti address password d = (r, d')"
  shows "am_changes T d d'"
proof (cases r)
  case (Inl e)
  then show ?thesis using assms by (auto simp: bootstrap_operator_def split: sum.splits)
next
  case (Inr x)
  from assms[unfolded bootstrap_operator_def Inr] obtain e h u where u: "u = new_account now e h ''admin'' True (Some ''platform_admin'') None True d"
    "am_users d = []" "d' = am_record now (us_email u) (Some ''platform_admin'') None None ''bootstrap_operator_created''
        (Some (''user'', us_id u)) request [] (insert_account u d)"
    by (auto split: sum.splits if_splits)
  have "user_ok (am_tenants d) u" unfolding u(1) by (rule operator_ok) (simp add: OPERATOR_ROLES_def)
  then show ?thesis unfolding u(3) using u(2) by (intro new_user_changes) (simp_all add: u(1) new_account_def)
qed

lemma ensure_operator_changes: "am_changes T d (ensure_operator E now address password d)"
proof (cases "am_users d \<noteq> [] \<or> address = [] \<or> password = [] \<or> isl (hash_password E password)")
  case True
  then show ?thesis by (auto simp: ensure_operator_def split: sum.split)
next
  case False
  then obtain h where h: "hash_password E password = Inr h" by (auto simp: isl_def) (metis sum.exhaust)
  let ?u = "new_account now (str_lower (str_strip address)) h ''admin'' True (Some ''platform_admin'') None True d"
  have "user_ok (am_tenants d) ?u" by (rule operator_ok) (simp add: OPERATOR_ROLES_def)
  then have "am_change T d (insert_account ?u d)" using False by (intro ch_new_user) (simp_all add: new_account_def)
  then show ?thesis using False h by (auto simp: ensure_operator_def)
qed

lemma create_operator_changes:
  assumes "create_operator E now request gen p address password role d = (r, d')"
  shows "am_changes T d d'"
proof (cases r)
  case (Inl e)
  then show ?thesis using assms by (auto simp: create_operator_def split: sum.splits)
next
  case (Inr x)
  from assms[unfolded create_operator_def Inr] obtain e h u j where u: "u = new_account now e h ''admin'' True (Some role) None True d"
    "role \<in> set OPERATOR_ROLES" "find_email e d = None"
    "d' = am_record now (pr_subject p) (Some ''platform_admin'') None (pr_user_id p) ''operator.create''
         (Some (''user'', us_id u)) request j (insert_account u d)"
    by (auto split: sum.splits if_splits)
  have "user_ok (am_tenants d) u" unfolding u(1) by (rule operator_ok[OF u(2)])
  then show ?thesis unfolding u(4) using find_email_None[OF u(3)] by (intro new_user_changes) (simp_all add: u(1) new_account_def)
qed

lemma edited_operatorD:
  assumes "case role of None \<Rightarrow> True | Some r \<Rightarrow> r \<in> set OPERATOR_ROLES"
  shows "us_id (edited_operator role active u) = us_id u \<and> us_email (edited_operator role active u) = us_email u
    \<and> us_pwd_version u \<le> us_pwd_version (edited_operator role active u)
    \<and> (user_ok ts u \<longrightarrow> user_ok ts (edited_operator role active u))"
  using assms by (auto simp: edited_operator_def Let_def user_ok_def split: option.splits)

lemma update_operator_changes:
  assumes "update_operator now request p i role active d = (r, d')" "account_inv d"
  shows "am_changes T d d'"
proof (cases r)
  case (Inl e)
  then show ?thesis using assms(1) by (auto simp: update_operator_def split: sum.splits)
next
  case (Inr x)
  from assms(1)[unfolded update_operator_def Inr] obtain u u' j where u: "find_row us_id i (am_users d) = Some u"
    "u' = edited_operator role active u" "case role of None \<Rightarrow> True | Some r \<Rightarrow> r \<in> set OPERATOR_ROLES"
    "d' = am_record now (pr_subject p) (Some ''platform_admin'') None (pr_user_id p) ''operator.update''
         (Some (''user'', us_id u')) request j (set_account u' d)"
    by (auto split: sum.splits if_splits option.splits)
  note m = find_userD[OF u(1)]
  show ?thesis unfolding u(4)
    by (rule set_account_changes[OF m]) (use edited_operatorD[OF u(3), of active u] inv_user[OF assms(2) m] in \<open>auto simp: u(2)\<close>)
qed

lemma find_grantD: "find_grant i t d = Some g \<Longrightarrow> g \<in> set (am_grants d) \<and> grant_key g = (i, t)"
  by (auto simp: find_grant_def grant_key_def dest: find_SomeD)

lemma find_grant_None: "find_grant i t d = None \<Longrightarrow> (i, t) \<notin> grant_key ` set (am_grants d)"
  by (auto simp: find_grant_def grant_key_def find_None_iff)

lemma grant_changes:
  assumes "grant_tenant_access now request p i t role d = (r, d')"
  shows "am_changes T d d'"
proof (cases r)
  case (Inl e)
  then show ?thesis using assms by (auto simp: grant_tenant_access_def Let_def split: if_splits prod.splits option.splits)
next
  case (Inr g)
  from assms[unfolded grant_tenant_access_def Inr] obtain j where
    ok: "has_user (am_users d) i" "has_tenant (am_tenants d) t" and
    e: "d' = am_record now (pr_subject p) (Some ''platform_admin'') (Some t) (pr_user_id p) ''operator.grant_access''
                (Some (''user'', i)) request j (d\<lparr>am_grants := (case find_grant i t d of
              Some g0 \<Rightarrow> upd_row og_id (og_id g0) (\<lambda>_. g0\<lparr>oa_is_active := True, og_access_role := role, og_revoked_at := None, og_revoked_by := None\<rparr>) (am_grants d)
            | None \<Rightarrow> am_grants d @ [granted_row p i t role d])\<rparr>)"
    by (auto simp: Let_def has_user_def list_ex_iff split: if_splits prod.splits option.splits dest: find_row_SomeD has_tenant_intro)
  show ?thesis
  proof (cases "find_grant i t d")
    case None
    have "am_change T d (d\<lparr>am_grants := am_grants d @ [granted_row p i t role d]\<rparr>)"
      by (rule ch_new_grant) (use find_grant_None[OF None] ok in \<open>simp_all add: granted_row_def grant_key_def\<close>)
    then show ?thesis unfolding e None option.case by (rule changes_record)
  next
    case (Some g0)
    show ?thesis unfolding e Some option.case
      by (rule changes_record, rule ch_grant) (use find_grantD[OF Some] in \<open>simp_all add: grant_key_def\<close>)
  qed
qed

lemma revoke_access_changes:
  assumes "revoke_tenant_access now request p i t d = (r, d')"
  shows "am_changes T d d'"
proof (cases "find_grant i t d")
  case (Some g)
  have "am_change T d (d\<lparr>am_grants := upd_row og_id (og_id g) (\<lambda>r. r\<lparr>oa_is_active := False, og_revoked_at := Some now,
              og_revoked_by := Some (pr_subject p)\<rparr>) (am_grants d)\<rparr>)"
    by (rule ch_grant) (use find_grantD[OF Some] in \<open>simp_all add: grant_key_def\<close>)
  then show ?thesis using assms Some by (auto simp: revoke_tenant_access_def)
qed (use assms in \<open>auto simp: revoke_tenant_access_def\<close>)

section \<open>All requests\<close>

text \<open>
  The requests of a tenant's administration, of a user or visitor for himself, and of operators. The
  tenant of the first exists; secrets that are generated are new, and none of \<open>T\<close>.
\<close>

inductive member_step :: "account_env \<Rightarrow> int \<Rightarrow> principal \<Rightarrow> account_db \<Rightarrow> account_db \<Rightarrow> bool" for E tid p where
  step_create_user: "has_tenant (am_tenants d) tid \<Longrightarrow> create_user E now request p tid q d = (r, d') \<Longrightarrow> member_step E tid p d d'"
| step_update_user: "update_user E now request p tid i uq d = (r, d') \<Longrightarrow> member_step E tid p d d'"
| step_reset: "admin_reset_password E now request gen p tid i pw d = (rr, d') \<Longrightarrow> member_step E tid p d d'"
| step_delete_user: "delete_user now request p tid i d = (ru, d') \<Longrightarrow> member_step E tid p d d'"

inductive own_step :: "account_env \<Rightarrow> account_db \<Rightarrow> account_db \<Rightarrow> bool" for E where
  step_login: "login E now request jti address password d = (r, d') \<Longrightarrow> own_step E d d'"
| step_change_password: "change_password E now request jti p cur new d = (rj, d') \<Longrightarrow> own_step E d d'"
| step_validate: "validate_invite E now token d = (ri, d') \<Longrightarrow> own_step E d d'"
| step_accept: "accept E now request token password d = (ra, d') \<Longrightarrow> own_step E d d'"
| step_bootstrap: "bootstrap_operator E now request jti address password d = (rb, d') \<Longrightarrow> own_step E d d'"
| step_ensure: "own_step E d (ensure_operator E now address password d)"

inductive operator_step :: "account_env \<Rightarrow> string list \<Rightarrow> account_db \<Rightarrow> account_db \<Rightarrow> bool" for E T where
  step_create_tenant: "token_unused E T token d \<Longrightarrow> create_tenant E now request token gen p q d = (rt, d') \<Longrightarrow> operator_step E T d d'"
| step_tenant_status: "set_tenant_status now request p i status d = (rs, d') \<Longrightarrow> operator_step E T d d'"
| step_invite: "token_unused E T token d \<Longrightarrow> create_or_resend_invite E now request token p t address role d = (ri, d') \<Longrightarrow> operator_step E T d d'"
| step_revoke_invite: "revoke_invite now request p t i d = (ru, d') \<Longrightarrow> operator_step E T d d'"
| step_key: "create_api_key E now request secret p t label role d = (rk, d') \<Longrightarrow> operator_step E T d d'"
| step_revoke_key: "revoke_api_key now request p t i d = (ru, d') \<Longrightarrow> operator_step E T d d'"
| step_create_operator: "create_operator E now request gen p address password orole d = (ro, d') \<Longrightarrow> operator_step E T d d'"
| step_update_operator: "update_operator now request p i oprole active d = (ro, d') \<Longrightarrow> operator_step E T d d'"
| step_grant: "grant_tenant_access now request p i t role d = (rg, d') \<Longrightarrow> operator_step E T d d'"
| step_revoke_access: "revoke_tenant_access now request p i t d = (ru, d') \<Longrightarrow> operator_step E T d d'"

inductive_cases member_stepE: "member_step E tid p d d'"

definition account_step :: "account_env \<Rightarrow> string list \<Rightarrow> account_db \<Rightarrow> account_db \<Rightarrow> bool" where
  "account_step E T d d' = ((\<exists>tid p. member_step E tid p d d') \<or> own_step E d d' \<or> operator_step E T d d')"

lemma member_step_changes: "member_step E tid p d d' \<Longrightarrow> account_inv d \<Longrightarrow> am_changes T d d'"
  by (erule member_step.cases) (blast intro: create_user_changes update_user_changes reset_changes delete_user_changes)+

lemma own_step_changes: "own_step E d d' \<Longrightarrow> account_inv d \<Longrightarrow> am_changes T d d'"
  by (erule own_step.cases)
    (blast intro: login_changes change_password_changes validate_token_changes accept_changes bootstrap_changes ensure_operator_changes)+

lemma operator_step_changes: "operator_step E T d d' \<Longrightarrow> account_inv d \<Longrightarrow> am_changes T d d'"
  by (erule operator_step.cases)
    (blast intro: create_tenant_changes set_tenant_status_changes resend_changes revoke_invite_changes create_api_key_changes
       revoke_api_key_changes create_operator_changes update_operator_changes grant_changes revoke_access_changes)+

lemma account_step_changes: "account_step E T d d' \<Longrightarrow> account_inv d \<Longrightarrow> am_changes T d d'"
  unfolding account_step_def by (blast intro: member_step_changes own_step_changes operator_step_changes)

lemma account_step_inv: "account_inv d \<Longrightarrow> account_step E T d d' \<Longrightarrow> account_inv d'"
  using account_step_changes changes_inv by blast

interpretation account_machine: preserved "account_step E T" account_inv for E T
  by unfold_locales (rule account_step_inv)

end
