(* ===== verification/AccountProps.thy ===== *)
theory AccountProps
  imports AccountSteps
begin

text \<open>
  What every sequence of account requests keeps and what it cannot do: passwords and sessions,
  invitations, the administrator of a tenant, failed logins, and where the code falls short.
\<close>

section \<open>Rows stem from rows\<close>

text \<open>A row with a key that was given out before stems from a row of before, with an older password version.\<close>

definition stems :: "account_db \<Rightarrow> account_db \<Rightarrow> bool" where
  "stems d d' = (am_seq d \<le> am_seq d' \<and> (\<forall>u' \<in> set (am_users d'). us_id u' < am_seq d \<longrightarrow>
     (\<exists>u \<in> set (am_users d). us_id u = us_id u' \<and> us_pwd_version u \<le> us_pwd_version u')))"

lemma stems_refl: "am_users d' = am_users d \<Longrightarrow> am_seq d' = am_seq d \<Longrightarrow> stems d d'"
  by (auto simp: stems_def)

lemma stems_trans: "stems d e \<Longrightarrow> stems e f \<Longrightarrow> stems d f"
  unfolding stems_def by (smt (verit, best))

lemma set_account_stems: "u \<in> set (am_users d) \<Longrightarrow> us_id u' = us_id u \<Longrightarrow> us_pwd_version u \<le> us_pwd_version u' \<Longrightarrow> stems d (set_account u' d)"
  by (auto simp: stems_def set_account_def upd_row_def)

lemma change_stems: "am_change T d d' \<Longrightarrow> stems d d'"
  by (erule am_change.cases)
    (auto intro: set_account_stems stems_refl simp: same_accounts_def drop_user_def set_invite_def revoke_pending_def,
     auto simp: stems_def insert_account_def)

lemma changes_stem: "am_changes T d d' \<Longrightarrow> stems d d'"
  by (induction rule: rtranclp_induct) (auto intro: stems_refl stems_trans change_stems)

lemma reach_stems: "(account_step E T)\<^sup>*\<^sup>* d d' \<Longrightarrow> account_inv d \<Longrightarrow> account_inv d' \<and> stems d d'"
proof (induction rule: rtranclp_induct)
  case base
  then show ?case by (simp add: stems_refl)
next
  case (step e f)
  then show ?case using account_step_changes[of E T e f] changes_stem changes_inv stems_trans by blast
qed

section \<open>Sessions\<close>

text \<open>A request that gives user \<open>i\<close> a new password.\<close>

inductive password_set :: "account_env \<Rightarrow> int \<Rightarrow> account_db \<Rightarrow> account_db \<Rightarrow> bool" for E i where
  set_own: "change_password E now request jti p cur new d = (Inr r, d') \<Longrightarrow> pr_user_id p = Some i \<Longrightarrow> password_set E i d d'"
| set_reset: "admin_reset_password E now request gen p tid i pw d = (Inr rr, d') \<Longrightarrow> password_set E i d d'"
| set_edit: "update_user E now request p tid i q d = (Inr u, d') \<Longrightarrow> uu_password q \<noteq> None \<Longrightarrow> password_set E i d d'"
| set_invited: "accept E now request token pw d = (Inr u, d') \<Longrightarrow> us_id u = i \<Longrightarrow> password_set E i d d'"

lemma am_record_sel [simp]:
  "am_users (am_record now actor role ten oper act x q j d) = am_users d" "am_seq (am_record now actor role ten oper act x q j d) = am_seq d"
  "am_tenants (am_record now actor role ten oper act x q j d) = am_tenants d" "am_invites (am_record now actor role ten oper act x q j d) = am_invites d"
  "am_keys (am_record now actor role ten oper act x q j d) = am_keys d" "am_grants (am_record now actor role ten oper act x q j d) = am_grants d"
  "am_attempts (am_record now actor role ten oper act x q j d) = am_attempts d"
  by (simp_all add: am_record_def)

lemma set_account_sel [simp]:
  "am_seq (set_account u d) = am_seq d" "am_tenants (set_account u d) = am_tenants d" "am_invites (set_account u d) = am_invites d"
  "am_keys (set_account u d) = am_keys d" "am_grants (set_account u d) = am_grants d" "am_attempts (set_account u d) = am_attempts d"
  by (simp_all add: set_account_def)

lemma set_invite_sel [simp]:
  "am_users (set_invite v d) = am_users d" "am_seq (set_invite v d) = am_seq d"
  by (simp_all add: set_invite_def)

lemma set_account_row:
  assumes "keyed us_id (am_users d)" "u \<in> set (am_users d)" "us_id u' = us_id u" "x \<in> set (am_users (set_account u' d))" "us_id x = us_id u"
  shows "x = u'"
  using assms by (auto simp: set_account_def upd_row_def)

text \<open>Every one of them raises the password version of the row.\<close>

lemma password_set_version:
  assumes "password_set E i d d'" "account_inv d"
  obtains u where "u \<in> set (am_users d)" "us_id u = i" "am_seq d' = am_seq d"
    "\<And>x. x \<in> set (am_users d') \<Longrightarrow> us_id x = i \<Longrightarrow> us_pwd_version x = us_pwd_version u + 1"
proof -
  have key: "keyed us_id (am_users d)" using assms(2) by (simp add: account_inv_def)
  have "\<exists>u u'. u \<in> set (am_users d) \<and> us_id u = i \<and> us_id u' = us_id u \<and> us_pwd_version u' = us_pwd_version u + 1
      \<and> am_seq d' = am_seq d \<and> am_users d' = am_users (set_account u' d)"
    using assms(1)
  proof cases
    case (set_own now request jti p cur new r)
    from set_own(1)[unfolded change_password_def] set_own(2) obtain u h where "find_row us_id i (am_users d) = Some u"
      "am_users d' = am_users (set_account (with_password h u) d)" "am_seq d' = am_seq d"
      by (auto split: sum.splits if_splits option.splits)
    then show ?thesis using find_row_SomeD[of us_id i "am_users d" u] by (intro exI[of _ u] exI[of _ "with_password h u"]) simp
  next
    case (set_reset now request gen p tid pw rr)
    from set_reset[unfolded admin_reset_password_def] obtain u h where "owned_user d i tid = Inr u"
      "am_users d' = am_users (set_account (with_password h u) d)" "am_seq d' = am_seq d"
      by (auto split: sum.splits)
    then show ?thesis using owned_userD[of d i tid u] by (intro exI[of _ u] exI[of _ "with_password h u"]) simp
  next
    case (set_edit now request p tid q u')
    from set_edit(1)[unfolded update_user_def] obtain u where u: "owned_user d i tid = Inr u" "edited_user E q u = Inr u'"
      "am_users d' = am_users (set_account u' d)" "am_seq d' = am_seq d" "valid_user_update q = Inr ()"
      by (auto split: sum.splits if_splits)
    from u(2) set_edit(2) have "us_pwd_version u' = us_pwd_version u + 1" by (auto simp: edited_user_def Let_def split: option.splits)
    then show ?thesis using u(3,4) owned_userD[OF u(1)] edited_userD[OF u(2,5)] by (intro exI[of _ u] exI[of _ u']) simp
  next
    case (set_invited now request token pw u')
    from acceptE[OF set_invited(1)] obtain v u h where u: "invited_user v d = Some u" "u' = joined v h u"
      "am_users d' = am_users (set_account u' d)" "am_seq d' = am_seq d"
      by (metis am_record_sel(1,2) set_invite_sel set_account_sel(1))
    then show ?thesis using invited_userD[OF u(1)] set_invited(2) by (intro exI[of _ u] exI[of _ u']) simp
  qed
  then show thesis using that set_account_row[OF key] by metis
qed

lemma find_row_truncate: "find_row us_id i (map user.truncate us) = map_option user.truncate (find_row us_id i us)"
  unfolding find_row_def by (induction us) (auto simp: user.truncate_def)

lemma truncate_sel [simp]:
  "us_id (user.truncate u) = us_id u" "us_is_active (user.truncate u) = us_is_active u"
  "us_pwd_version (user.truncate u) = us_pwd_version u"
  by (simp_all add: user.truncate_def)

lemma from_cookieD:
  assumes "from_cookie decode (Some t) (auth_view d) = Inr (Some p)" "pr_user_id p = Some i"
  obtains payload u where "t \<noteq> []" "decode t = Inr (Some payload)" "payload \<noteq> []" "payload_int payload ''sub'' = Inr i"
    "u \<in> set (am_users d)" "us_id u = i" "payload_int payload ''pv'' = Inr (us_pwd_version u)"
proof -
  from assms obtain payload j u0 where q: "t \<noteq> []" "decode t = Inr (Some payload)" "payload \<noteq> []" "payload_int payload ''sub'' = Inr j"
    "find_row us_id j (ad_users (auth_view d)) = Some u0" "payload_int payload ''pv'' = Inr (us_pwd_version u0)" "i = us_id u0"
    by (auto simp: from_cookie_def split: if_splits option.splits sum.splits)
  have "j = i" using find_row_SomeD[OF q(5)] q(7) by simp
  note r = q[unfolded this]
  from r(5) obtain u where u: "find_row us_id i (am_users d) = Some u" "u0 = user.truncate u" by (auto simp: auth_view_def find_row_truncate)
  have "u \<in> set (am_users d)" "us_id u = i" "payload_int payload ''pv'' = Inr (us_pwd_version u)"
    using find_row_SomeD[OF u(1)] r(6) by (simp_all add: u(2))
  then show thesis by (rule that[OF r(1-4)])
qed

lemma password_set_step: "password_set E i d d' \<Longrightarrow> account_step E T d d'"
  unfolding account_step_def
  by (erule password_set.cases) (blast intro: step_change_password step_reset step_update_user step_accept)+


section \<open>Invitations\<close>

definition spent :: "string \<Rightarrow> account_db \<Rightarrow> bool" where
  "spent h d = list_all (\<lambda>v. iv_token_hash v = h \<longrightarrow> iv_status v \<noteq> ''pending'') (am_invites d)"

lemma change_spent: "am_change T d d' \<Longrightarrow> h \<in> set T \<Longrightarrow> spent h d \<Longrightarrow> spent h d'"
proof (induction rule: am_change.induct)
  case (ch_invite v d v')
  then show ?case by (auto simp: spent_def list_all_iff set_invite_def upd_row_def invite_moves_def)
qed (auto simp: spent_def list_all_iff same_accounts_def set_account_def insert_account_def drop_user_def revoke_pending_def)

lemma changes_spent: "am_changes T d d' \<Longrightarrow> h \<in> set T \<Longrightarrow> spent h d \<Longrightarrow> spent h d'"
  by (induction rule: rtranclp_induct) (auto intro: change_spent)

lemma reach_spent: "(account_step E T)\<^sup>*\<^sup>* d d' \<Longrightarrow> account_inv d \<Longrightarrow> h \<in> set T \<Longrightarrow> spent h d \<Longrightarrow> spent h d' \<and> account_inv d'"
proof (induction rule: rtranclp_induct)
  case (step e f)
  then have "account_inv e" "spent h e" by blast+
  with step show ?case using account_step_changes[of E T e f] changes_spent changes_inv by blast
qed simp

lemma accept_spent:
  assumes "accept E now request token pw d = (Inr u, d')" "account_inv d"
  shows "spent (en_sha E token) d'"
proof -
  obtain v u0 h v' where a: "resolve_invite E token d = Some v" "iv_status v = ''pending''" "\<not> expired now (iv_expires_at v)"
    "hash_password E pw = Inr h" "invited_user v d = Some u0" "u = joined v h u0"
    "v' = v\<lparr>iv_status := ''accepted'', iv_accepted_at := Some now, iv_user_id := (if us_id u0 \<noteq> 0 then Some (us_id u0) else iv_user_id v)\<rparr>"
    "d' = am_record now (us_email u) (Some (us_role u)) (Some (iv_tenant_id v)) None ''invite.accept''
        (Some (''invite'', iv_id v)) request [] (set_invite v' (set_account u d))"
    by (rule acceptE[OF assms(1)])
  have v: "iv_id v' = iv_id v" "iv_status v' = ''accepted''" by (simp_all add: a(7))
  then have d': "am_invites d' = upd_row iv_id (iv_id v) (\<lambda>_. v') (am_invites d)" by (simp add: a(8) set_invite_def)
  have "x = v" if "x \<in> set (am_invites d)" "iv_token_hash x = en_sha E token" for x
    using that resolve_inviteD[OF a(1)] assms(2) by (auto simp: account_inv_def distinct_map inj_on_def)
  then show ?thesis using v by (auto simp: spent_def list_all_iff upd_row_def d' split: if_splits)
qed

lemma accept_refused:
  assumes "spent (en_sha E token) d"
  shows "case accept E now request token pw d of (Inl (ValueError m), d') \<Rightarrow> d' = d | r \<Rightarrow> False"
proof (cases "resolve_invite E token d")
  case (Some v)
  then have "iv_status v \<noteq> ''pending''" using assms resolve_inviteD[OF Some] by (auto simp: spent_def list_all_iff)
  with Some show ?thesis by (simp add: accept_def)
qed (simp add: accept_def)

text \<open>C5 An invitation binds the account to the tenant and role it was made for, whatever the client sends, and is used once:
  after any later requests that do not generate the same secret again, its token is refused and changes nothing.\<close>

theorem invite_single_use:
  assumes "accept E now request token pw d = (Inr u, d1)" "account_inv d" "(account_step E [en_sha E token])\<^sup>*\<^sup>* d1 d2"
  shows "(case resolve_invite E token d of None \<Rightarrow> False
      | Some v \<Rightarrow> us_tenant_id u = Some (iv_tenant_id v) \<and> us_role u = iv_role v \<and> \<not> us_is_operator u)
    \<and> (case accept E now' request' token pw' d2 of (Inl (ValueError m), d') \<Rightarrow> d' = d2 | r \<Rightarrow> False)"
proof
  from acceptE[OF assms(1)] obtain v u0 h where "resolve_invite E token d = Some v" "u = joined v h u0" by metis
  then show "case resolve_invite E token d of None \<Rightarrow> False
      | Some v \<Rightarrow> us_tenant_id u = Some (iv_tenant_id v) \<and> us_role u = iv_role v \<and> \<not> us_is_operator u" by simp
  have "account_inv d1" using account_step_inv[OF assms(2), of E "[]"] assms(1) unfolding account_step_def by (blast intro: step_accept)
  then have "spent (en_sha E token) d2" using reach_spent[OF assms(3) _ _ accept_spent[OF assms(1,2)]] by simp
  then show "case accept E now' request' token pw' d2 of (Inl (ValueError m), d') \<Rightarrow> d' = d2 | r \<Rightarrow> False" by (rule accept_refused)
qed

section \<open>The users of other tenants, and the own account\<close>

definition foreign_accounts :: "int \<Rightarrow> account_db \<Rightarrow> account list \<times> tenant list \<times> tenant_key list" where
  "foreign_accounts tid d = (filter (\<lambda>u. us_tenant_id u \<noteq> Some tid) (am_users d), am_tenants d, am_keys d)"

lemma foreign_set_account:
  assumes "keyed us_id (am_users d)" "u \<in> set (am_users d)" "us_id u' = us_id u" "us_tenant_id u = Some tid" "us_tenant_id u' = Some tid"
  shows "foreign_accounts tid (set_account u' d) = foreign_accounts tid d"
proof -
  have "filter (\<lambda>u. us_tenant_id u \<noteq> Some tid) (upd_row us_id (us_id u) (\<lambda>_. u') (am_users d)) = filter (\<lambda>u. us_tenant_id u \<noteq> Some tid) (am_users d)"
    by (rule filter_upd_row) (use assms in \<open>auto simp: keyed_def distinct_map inj_on_def\<close>)
  then show ?thesis by (simp add: foreign_accounts_def set_account_def assms(3))
qed

lemma foreign_record [simp]: "foreign_accounts tid (am_record now actor role ten oper act x q j d) = foreign_accounts tid d"
  by (simp add: foreign_accounts_def)

text \<open>C6 The user administration of a tenant never touches a user of another tenant, an operator, a tenant or an API key.\<close>

theorem member_tenant_isolation:
  assumes "member_step E tid p d d'" "account_inv d"
  shows "foreign_accounts tid d' = foreign_accounts tid d"
  using assms(1)
proof cases
  case (step_create_user now request q r)
  then show ?thesis by (auto simp: create_user_def foreign_accounts_def insert_account_def new_account_def split: sum.splits if_splits)
next
  case (step_update_user now request i uq r)
  then show ?thesis
  proof (cases r)
    case (Inr x)
    from step_update_user[unfolded update_user_def Inr] obtain u u' where u: "owned_user d i tid = Inr u" "edited_user E uq u = Inr u'"
      "valid_user_update uq = Inr ()" "foreign_accounts tid d' = foreign_accounts tid (set_account u' d)"
      by (auto split: sum.splits if_splits)
    with assms(2) show ?thesis using owned_userD[OF u(1)] edited_userD[OF u(2,3)] foreign_set_account[of d u u' tid] by (simp add: account_inv_def)
  qed (auto simp: update_user_def split: sum.splits)
next
  case (step_reset now request gen i pw rr)
  then show ?thesis
  proof (cases rr)
    case (Inr x)
    from step_reset[unfolded admin_reset_password_def Inr] obtain u h where u: "owned_user d i tid = Inr u"
      "foreign_accounts tid d' = foreign_accounts tid (set_account (with_password h u) d)"
      by (auto split: sum.splits)
    with assms(2) show ?thesis using owned_userD[OF u(1)] foreign_set_account[of d u "with_password h u" tid] by (simp add: account_inv_def)
  qed (auto simp: admin_reset_password_def split: sum.splits)
next
  case (step_delete_user now request i ru)
  then show ?thesis
  proof (cases ru)
    case (Inr x)
    from step_delete_user[unfolded delete_user_def Inr] obtain u where u: "owned_user d i tid = Inr u"
      "foreign_accounts tid d' = foreign_accounts tid (drop_user i d)"
      by (auto split: sum.splits if_splits)
    have "us_tenant_id x = Some tid" if "x \<in> set (am_users d)" "us_id x = i" for x
      using that owned_userD[OF u(1)] assms(2) by (auto simp: account_inv_def keyed_def distinct_map inj_on_def)
    then have "filter (\<lambda>u. us_tenant_id u \<noteq> Some tid) (filter (\<lambda>u. us_id u \<noteq> i) (am_users d)) = filter (\<lambda>u. us_tenant_id u \<noteq> Some tid) (am_users d)"
      by (auto simp: filter_filter intro!: filter_cong)
    then show ?thesis using u(2) by (simp add: foreign_accounts_def drop_user_def)
  qed (auto simp: delete_user_def split: sum.splits)
qed

definition active_admin :: "int \<Rightarrow> account \<Rightarrow> bool" where
  "active_admin tid u = (us_tenant_id u = Some tid \<and> us_role u = ''admin'' \<and> us_is_active u)"

lemma own_row_kept:
  assumes "account_inv d" "x \<in> set (am_users d)" "u \<in> set (am_users d)" "us_id u' = us_id x" "us_id x \<noteq> us_id u \<or> active_admin tid u'"
    "active_admin tid u"
  shows "list_ex (\<lambda>y. us_id y = us_id u \<and> active_admin tid y) (am_users (set_account u' d))"
proof (cases "us_id x = us_id u")
  case True
  with assms show ?thesis by (auto simp: list_ex_iff set_account_def upd_row_def intro!: image_eqI[of _ _ x] bexI[of _ u'])
next
  case False
  with assms show ?thesis by (auto simp: list_ex_iff set_account_def upd_row_def image_iff intro!: bexI[of _ u])
qed

text \<open>An administrator of a tenant cannot lock himself out: whatever he does to the users of his tenant, his account is
  there afterwards, active and with the administrator's role.\<close>

theorem admin_keeps_access:
  assumes "member_step E tid p d d'" "account_inv d" "u \<in> set (am_users d)" "active_admin tid u" "pr_user_id p = Some (us_id u)"
  shows "list_ex (\<lambda>y. us_id y = us_id u \<and> active_admin tid y) (am_users d')"
proof -
  have same: "am_users d' = am_users d \<Longrightarrow> ?thesis" using assms(3,4) by (auto simp: list_ex_iff)
  show ?thesis
    using assms(1)
  proof cases
    case (step_create_user now request q r)
    then show ?thesis using assms(3,4) by (auto simp: create_user_def insert_account_def list_ex_iff split: sum.splits)
  next
    case (step_update_user now request i uq r)
    show ?thesis
    proof (cases r)
      case (Inr z)
      from step_update_user[unfolded update_user_def Inr] obtain x u' where x: "owned_user d i tid = Inr x" "edited_user E uq x = Inr u'"
        "valid_user_update uq = Inr ()" "\<not> self_protected p i uq" "am_users d' = am_users (set_account u' d)"
        by (auto split: sum.splits if_splits)
      note o = owned_userD[OF x(1)]
      have "active_admin tid u'" if "us_id x = us_id u"
      proof -
        have "x = u" using that o assms(2,3) by (auto simp: account_inv_def keyed_def distinct_map inj_on_def)
        then show ?thesis using x(2,4) o assms(4,5)
          by (auto simp: self_protected_def edited_user_def active_admin_def Let_def split: option.splits)
      qed
      then show ?thesis using own_row_kept[OF assms(2) conjunct1[OF o] assms(3), of u' tid] edited_userD[OF x(2,3)] assms(4) x(5) by auto
    qed (use step_update_user same in \<open>auto simp: update_user_def split: sum.splits\<close>)
  next
    case (step_reset now request gen i pw rr)
    show ?thesis
    proof (cases rr)
      case (Inr z)
      from step_reset[unfolded admin_reset_password_def Inr] obtain x h where x: "owned_user d i tid = Inr x"
        "am_users d' = am_users (set_account (with_password h x) d)"
        by (auto split: sum.splits)
      note o = owned_userD[OF x(1)]
      have "active_admin tid (with_password h x)" if "us_id x = us_id u"
        using that o assms(2-4) by (auto simp: account_inv_def keyed_def distinct_map inj_on_def active_admin_def)
      then show ?thesis using own_row_kept[OF assms(2) conjunct1[OF o] assms(3), of "with_password h x" tid] assms(4) x(2) by auto
    qed (use step_reset same in \<open>auto simp: admin_reset_password_def split: sum.splits\<close>)
  next
    case (step_delete_user now request i ru)
    then show ?thesis using assms(3-5) same by (auto simp: delete_user_def drop_user_def list_ex_iff split: sum.splits if_splits)
  qed
qed

section \<open>Failed logins\<close>

text \<open>A run of logins: time, address and password of each, and what each is answered.\<close>

fun logins :: "account_env \<Rightarrow> (time \<times> string \<times> string) list \<Rightarrow> account_db \<Rightarrow> (time \<times> string \<times> (account \<times> json dict) res) list \<times> account_db" where
  "logins E [] d = ([], d)"
| "logins E ((now, address, password) # ls) d =
     (case login E now None [] address password d of (r, d1) \<Rightarrow>
       (case logins E ls d1 of (rs, d2) \<Rightarrow> ((now, str_lower (str_strip address), r) # rs, d2)))"

definition refused_logins :: "string \<Rightarrow> time \<Rightarrow> (time \<times> string \<times> (account \<times> json dict) res) list \<Rightarrow> nat" where
  "refused_logins key t0 rs = length (filter (\<lambda>(t, k, r). k = key \<and> r = Inl (HTTPException 401) \<and> t0 \<le> t \<and> t < t0 + WINDOW) rs)"

lemma attempts_simps [simp]:
  "attempts_of k (d\<lparr>am_attempts := AList.update key ts xs\<rparr>) = (if k = key then ts else attempts_of k (d\<lparr>am_attempts := xs\<rparr>))"
  "attempts_of k (d\<lparr>am_attempts := AList.delete key xs\<rparr>) = (if k = key then [] else attempts_of k (d\<lparr>am_attempts := xs\<rparr>))"
  "attempts_of k (d\<lparr>am_attempts := am_attempts d\<rparr>) = attempts_of k d"
  "attempts_of k (am_record now actor role ten oper act x q j d) = attempts_of k d"
  "attempts_of k (set_account u d) = attempts_of k d"
  by (simp_all add: attempts_of_def update_conv delete_conv)

lemma login_attempts:
  assumes "login E now request jti address password d = (r, d')" "key = str_lower (str_strip address)"
    "recent = filter (\<lambda>t. now - t < WINDOW) (attempts_of key d)"
  shows "(k \<noteq> key \<longrightarrow> attempts_of k d' = attempts_of k d)
    \<and> (r = Inl (HTTPException 429) \<and> attempts_of key d' = recent
       \<or> r = Inl (HTTPException 401) \<and> length recent < MAX_ATTEMPTS \<and> attempts_of key d' = recent @ [now]
       \<or> \<not> isl r)"
  using assms by (auto simp: login_def Let_def prune_attempts_def rate_limited_def record_attempt_def split: if_splits option.splits)

lemma refused_Cons: "refused_logins key t0 ((t, k, r) # rs)
    = (if k = key \<and> r = Inl (HTTPException 401) \<and> t0 \<le> t \<and> t < t0 + WINDOW then 1 else 0) + refused_logins key t0 rs"
  by (simp add: refused_logins_def)

lemma logins_times: "map fst (fst (logins E ls d)) = map fst ls"
  by (induction E ls d rule: logins.induct) (auto split: prod.splits)

lemma refused_late: "\<forall>t \<in> set (map fst rs). t0 + WINDOW \<le> t \<Longrightarrow> refused_logins key t0 rs = 0"
  by (auto simp: refused_logins_def filter_empty_conv)

lemma recent_window: "now < t0 + WINDOW \<Longrightarrow> filter (\<lambda>t. t0 \<le> t) (filter (\<lambda>t. now - t < WINDOW) ts) = filter (\<lambda>t. t0 \<le> t) ts"
  by (auto simp: filter_filter intro!: filter_cong)

lemma logins_bounded:
  assumes "sorted (map fst ls)" "list_all (\<lambda>(t, k, r). k = key \<longrightarrow> isl r) (fst (logins E ls d))"
    "c \<le> MAX_ATTEMPTS" "c \<le> length (filter (\<lambda>t. t0 \<le> t) (attempts_of key d))"
  shows "c + refused_logins key t0 (fst (logins E ls d)) \<le> MAX_ATTEMPTS"
  using assms
proof (induction E ls d arbitrary: c rule: logins.induct)
  case (1 E d)
  then show ?case by (simp add: refused_logins_def)
next
  case (2 E now address password ls d)
  obtain r d1 where l: "login E now None [] address password d = (r, d1)" by fastforce
  let ?k = "str_lower (str_strip address)" and ?rs = "fst (logins E ls d1)"
  have run: "fst (logins E ((now, address, password) # ls) d) = (now, ?k, r) # ?rs" using l by (simp split: prod.splits)
  show ?case
  proof (cases "t0 + WINDOW \<le> now")
    case True
    have "\<forall>t \<in> set (map fst (fst (logins E ((now, address, password) # ls) d))). t0 + WINDOW \<le> t"
      unfolding logins_times using "2.prems"(1) True by auto
    then show ?thesis using refused_late "2.prems"(3) by simp
  next
    case early: False
    have good: "?k = key \<longrightarrow> isl r" "list_all (\<lambda>(t, k, r). k = key \<longrightarrow> isl r) ?rs" "sorted (map fst ls)"
      using "2.prems"(1,2) run by auto
    note IH = "2.IH"[OF l[symmetric] good(3,2)]
    show ?thesis
    proof (cases "?k = key")
      case False
      then have "attempts_of key d1 = attempts_of key d" using login_attempts[OF l refl refl, of key] by simp
      then show ?thesis using IH[of c] "2.prems"(3,4) False by (simp only: run refused_Cons) simp
    next
      case True
      let ?recent = "filter (\<lambda>t. now - t < WINDOW) (attempts_of key d)"
      have w: "filter (\<lambda>t. t0 \<le> t) ?recent = filter (\<lambda>t. t0 \<le> t) (attempts_of key d)" using early by (intro recent_window) simp
      have le: "length (filter (\<lambda>t. t0 \<le> t) ?recent) \<le> length ?recent" by (rule length_filter_le)
      from login_attempts[OF l True[symmetric] refl, of key] good(1) True
      consider "r = Inl (HTTPException 429)" "attempts_of key d1 = ?recent"
        | "r = Inl (HTTPException 401)" "length ?recent < MAX_ATTEMPTS" "attempts_of key d1 = ?recent @ [now]" by blast
      then show ?thesis
      proof cases
        case 1
        then have "c + refused_logins key t0 ?rs \<le> MAX_ATTEMPTS" using IH[of c] "2.prems"(3,4) w by simp
        then show ?thesis using 1(1) by (simp only: run refused_Cons) simp
      next
        case 2
        show ?thesis
        proof (cases "t0 \<le> now")
          case True
          have "c + 1 + refused_logins key t0 ?rs \<le> MAX_ATTEMPTS"
            by (rule IH) (use "2.prems"(4) w le 2(2,3) True in \<open>simp_all\<close>)
          then show ?thesis by (simp only: run refused_Cons) simp
        next
          case False
          have "c + refused_logins key t0 ?rs \<le> MAX_ATTEMPTS"
            by (rule IH) (use "2.prems"(3,4) w 2(2,3) False in \<open>simp_all\<close>)
          then show ?thesis using False by (simp only: run refused_Cons) simp
        qed
      qed
    qed
  qed
qed

text \<open>C7 Passwords of an address can be guessed at most five times in five minutes: as long as no login of the address succeeds,
  every window of 300 seconds holds at most five answers that a password was wrong, whatever is tried in between.\<close>

theorem failed_logins_bounded:
  assumes "sorted (map fst ls)" "list_all (\<lambda>(t, k, r). k = key \<longrightarrow> isl r) (fst (logins E ls d))"
  shows "refused_logins key t0 (fst (logins E ls d)) \<le> 5"
  using logins_bounded[OF assms, of 0 t0] by (simp add: MAX_ATTEMPTS_def)

section \<open>A small platform\<close>

definition account_demo :: account_env where
  "account_demo = \<lparr>en_hash = (\<lambda>p. ''h:'' @ p), en_verify = (\<lambda>p h. h = ''h:'' @ p), en_rehash = (\<lambda>_. False), en_sha = (\<lambda>s. s),
     en_send = (\<lambda>_ _. False), en_base_url = [], en_invite_hours = 168, en_session_seconds = 28800\<rparr>"

definition no_accounts :: account_db where
  "no_accounts = \<lparr>am_users = [], am_tenants = [], am_invites = [], am_keys = [], am_grants = [], am_audit = [], am_attempts = [], am_seq = 1\<rparr>"

lemma no_accounts_inv: "account_inv no_accounts"
  by (simp add: account_inv_def no_accounts_def keyed_def tenant_slugs_def)

definition root_person :: principal where
  "root_person = \<lparr>pr_subject = ''root'', pr_role = ''admin'', pr_kind = ''user'', pr_is_operator = True,
     pr_operator_role = Some ''platform_admin'', pr_tenant_id = None, pr_user_id = Some 1\<rparr>"

definition boss_person :: principal where
  "boss_person = \<lparr>pr_subject = ''boss'', pr_role = ''admin'', pr_kind = ''user'', pr_is_operator = False,
     pr_operator_role = None, pr_tenant_id = Some 1, pr_user_id = Some 2\<rparr>"

definition viewer_person :: principal where
  "viewer_person = \<lparr>pr_subject = ''eve'', pr_role = ''admin'', pr_kind = ''user'', pr_is_operator = True,
     pr_operator_role = Some ''support_viewer'', pr_tenant_id = None, pr_user_id = Some 3\<rparr>"

definition demo_boot :: account_db where
  "demo_boot = snd (bootstrap_operator account_demo 0 None [] ''root@acme.com'' ''password12'' no_accounts)"

definition demo_tenant :: account_db where
  "demo_tenant = snd (create_tenant account_demo 0 None ''t0'' ''generated12'' root_person
     \<lparr>tc_name = ''Acme'', tc_admin_email = ''boss@acme.com'', tc_admin_password = Some ''password34''\<rparr> demo_boot)"

definition demo_operator :: account_db where
  "demo_operator = snd (create_operator account_demo 0 None ''generated12'' root_person ''eve@acme.com'' (Some ''password56'') ''support_viewer'' demo_tenant)"

definition demo_granted :: account_db where
  "demo_granted = snd (grant_tenant_access 0 None root_person 3 1 ''support_viewer'' demo_operator)"

definition demo_invited :: account_db where
  "demo_invited = snd (create_or_resend_invite account_demo 0 None ''t1'' viewer_person 1 ''eve@acme.com'' ''admin'' demo_granted)"

lemma demo_steps:
  "account_step account_demo [] no_accounts demo_boot" "account_step account_demo [] demo_boot demo_tenant"
  "account_step account_demo [] demo_tenant demo_operator" "account_step account_demo [] demo_operator demo_granted"
  "account_step account_demo [] demo_granted demo_invited"
proof -
  note run = prod.collapse[symmetric]
  have "token_unused account_demo [] ''t0'' demo_boot" "token_unused account_demo [] ''t1'' demo_granted" by code_simp+
  note new = this
  show "account_step account_demo [] no_accounts demo_boot"
    unfolding account_step_def demo_boot_def by (intro disjI2 disjI1, rule step_bootstrap[OF run])
  show "account_step account_demo [] demo_boot demo_tenant"
    unfolding account_step_def demo_tenant_def by (intro disjI2, rule step_create_tenant[OF new(1) run])
  show "account_step account_demo [] demo_tenant demo_operator"
    unfolding account_step_def demo_operator_def by (intro disjI2, rule step_create_operator[OF run])
  show "account_step account_demo [] demo_operator demo_granted"
    unfolding account_step_def demo_granted_def by (intro disjI2, rule step_grant[OF run])
  show "account_step account_demo [] demo_granted demo_invited"
    unfolding account_step_def demo_invited_def by (intro disjI2, rule step_invite[OF new(2) run])
qed

section \<open>Witnesses\<close>

text \<open>C4 After any sequence of account requests on an empty platform: every user is an operator without a tenant or a
  member of exactly one existing tenant, with a known role; addresses, slugs, secrets of invitations and grants are
  unique; invitations, keys and grants name existing rows, and exactly the accepted invitations carry an acceptance time.\<close>

theorem account_tables_invariant:
  assumes "(account_step E T)\<^sup>*\<^sup>* no_accounts d"
  shows "account_inv d"
  using assms no_accounts_inv by (rule account_machine.reachable_good)

lemma demo_reach: "(account_step account_demo [])\<^sup>*\<^sup>* no_accounts demo_tenant" "(account_step account_demo [])\<^sup>*\<^sup>* no_accounts demo_invited"
  using demo_steps by auto

lemma accounts_demo_inv: "account_inv demo_tenant" "account_inv demo_invited"
  using demo_reach no_accounts_inv account_machine.reachable_good by blast+

theorem account_tables_invariant_witness: "account_inv demo_invited \<and> length (am_users demo_invited) = 3"
proof -
  have "length (am_users demo_invited) = 3" by code_simp
  with account_tables_invariant[OF demo_reach(2)] show ?thesis by blast
qed

definition demo_cookie :: "json dict" where
  "demo_cookie = (case find_row us_id 2 (am_users demo_tenant) of None \<Rightarrow> [] | Some u \<Rightarrow> session_payload account_demo 0 [] u)"


theorem invite_single_use_witness:
  "case accept account_demo 5 None ''t1'' ''password78'' demo_invited of
     (Inl _, _) \<Rightarrow> False
   | (Inr u, d1) \<Rightarrow> us_tenant_id u = Some 1 \<and> (case accept account_demo 6 None ''t1'' ''password79'' d1 of
       (Inl (ValueError m), d') \<Rightarrow> d' = d1 | r \<Rightarrow> False)"
proof -
  let ?a = "accept account_demo 5 None ''t1'' ''password78'' demo_invited"
  have "\<not> isl (fst ?a)" by code_simp
  then obtain u d1 where a: "?a = (Inr u, d1)" by (cases ?a; cases "fst ?a") auto
  have v: "case resolve_invite account_demo ''t1'' demo_invited of None \<Rightarrow> False | Some v \<Rightarrow> iv_tenant_id v = 1" by code_simp
  from invite_single_use[OF a accounts_demo_inv(2) rtranclp.rtrancl_refl, of 6 None "''password79''"] v show ?thesis
    by (simp add: a split: option.splits)
qed

definition demo_user_create :: user_create where
  "demo_user_create = \<lparr>uc_email = ''new@acme.com'', uc_password = ''password00'', uc_role = ''viewer''\<rparr>"

theorem member_tenant_isolation_witness:
  "foreign_accounts 1 (snd (create_user account_demo 0 None boss_person 1 demo_user_create demo_operator)) = foreign_accounts 1 demo_operator
    \<and> length (am_users (snd (create_user account_demo 0 None boss_person 1 demo_user_create demo_operator))) = 4"
proof -
  have "account_inv demo_operator" using accounts_demo_inv(1) demo_steps(3) account_step_inv by blast
  moreover have "has_tenant (am_tenants demo_operator) 1" by code_simp
  note step_create_user[OF this surjective_pairing[of "create_user account_demo 0 None boss_person 1 demo_user_create demo_operator"]]
  moreover have "length (am_users (snd (create_user account_demo 0 None boss_person 1 demo_user_create demo_operator))) = 4" by code_simp
  ultimately show ?thesis using member_tenant_isolation by blast
qed

theorem admin_keeps_access_witness:
  "list_ex (\<lambda>y. us_id y = 2 \<and> active_admin 1 y) (am_users (snd (update_user account_demo 0 None boss_person 1 2
     \<lparr>uu_role = Some ''viewer'', uu_is_active = None, uu_password = None\<rparr> demo_tenant)))"
proof -
  have "list_ex (\<lambda>y. us_id y = 2 \<and> active_admin 1 y) (am_users demo_tenant)" by code_simp
  then obtain u where u: "u \<in> set (am_users demo_tenant)" "us_id u = 2" "active_admin 1 u" by (auto simp: list_ex_iff)
  have "pr_user_id boss_person = Some (us_id u)" by (simp add: boss_person_def u(2))
  from admin_keeps_access[OF step_update_user[OF prod.collapse[symmetric]] accounts_demo_inv(1) u(1,3) this] show ?thesis by (simp add: u(2))
qed

definition demo_guesses :: "(time \<times> string \<times> string) list" where
  "demo_guesses = map (\<lambda>t. (t, ''Boss@acme.com'', ''guess'')) [0, 1, 2, 3, 4, 5, 300000000]"

theorem failed_logins_bounded_witness:
  "refused_logins ''boss@acme.com'' 0 (fst (logins account_demo demo_guesses demo_tenant)) = 5
    \<and> refused_logins ''boss@acme.com'' 1 (fst (logins account_demo demo_guesses demo_tenant)) \<le> 5"
proof -
  have "sorted (map fst demo_guesses)" by code_simp
  moreover have "list_all (\<lambda>(t, k, r). k = ''boss@acme.com'' \<longrightarrow> isl r) (fst (logins account_demo demo_guesses demo_tenant))" by code_simp
  moreover have "refused_logins ''boss@acme.com'' 0 (fst (logins account_demo demo_guesses demo_tenant)) = 5" by code_simp
  ultimately show ?thesis using failed_logins_bounded by blast
qed

section \<open>Where the code falls short\<close>

lemma find_append_new: "find P xs = None \<Longrightarrow> P x \<Longrightarrow> find P (xs @ [x]) = Some x"
  by (induction xs) (auto split: if_splits)

text \<open>An invitation to an address without an account can never be accepted: the row that is created for it has no
  password version yet, incrementing it raises TypeError, and nothing is stored.\<close>

theorem invite_new_address_fails:
  assumes "create_or_resend_invite E now request token p t address role d = (Inr (v, link, sent), d1)"
    "valid_email address = Inr e" "find_email e d = None" "token_unused E [] token d"
    "check_password_strength pw = Inr ()" "now' \<le> iv_expires_at v"
  shows "accept E now' request' token pw d1 = (Inl TypeError, d1)"
proof -
  from assms(1-3) have c: "create_invite E now request token t e role None (pr_subject p) d = ((v, link, sent), d1)"
    by (auto simp: create_or_resend_invite_def split: sum.splits if_splits prod.splits)
  let ?old = "am_invites (revoke_pending t e d)"
  have v: "v = new_invite E now t e role None (pr_subject p) token d" "am_invites d1 = ?old @ [v]" "am_users d1 = am_users d"
    using c by (auto simp: create_invite_def Let_def)
  have "iv_token_hash x \<noteq> en_sha E token" if "x \<in> set ?old" for x
    using that assms(4) revoke_pending_hash_set[of t e d] unfolding token_unused_def by (metis image_eqI)
  then have "find (\<lambda>x. iv_token_hash x = en_sha E token) ?old = None" by (simp add: find_None_iff)
  then have "find (\<lambda>x. iv_token_hash x = en_sha E token) (?old @ [v]) = Some v"
    by (rule find_append_new) (simp add: v(1) new_invite_def)
  then have r: "resolve_invite E token d1 = Some v" by (simp add: resolve_invite_def v(2))
  have "invited_user v d1 = None" using assms(3) by (simp add: invited_user_def v(1,3) new_invite_def find_email_def)
  then show ?thesis using r assms(5,6) by (simp add: accept_def expired_def hash_password_def v(1) new_invite_def)
qed

theorem invite_new_address_fails_witness:
  "case create_or_resend_invite account_demo 0 None ''t2'' root_person 1 ''new@acme.com'' ''analyst'' demo_tenant of
     (Inl _, _) \<Rightarrow> False
   | (Inr _, d1) \<Rightarrow> accept account_demo 9 None ''t2'' ''password78'' d1 = (Inl TypeError, d1)"
proof -
  let ?c = "create_or_resend_invite account_demo 0 None ''t2'' root_person 1 ''new@acme.com'' ''analyst'' demo_tenant"
  have "case fst ?c of Inl _ \<Rightarrow> False | Inr (v, _) \<Rightarrow> 9 \<le> iv_expires_at v" by code_simp
  then obtain v l b d1 where c: "?c = (Inr (v, l, b), d1)" "9 \<le> iv_expires_at v"
    by (cases ?c; cases "fst ?c") auto
  have "valid_email ''new@acme.com'' = Inr ''new@acme.com''" "find_email ''new@acme.com'' demo_tenant = None"
    "token_unused account_demo [] ''t2'' demo_tenant" "check_password_strength ''password78'' = Inr ()" by code_simp+
  from invite_new_address_fails[OF c(1) this c(2)] show ?thesis by (simp add: c)
qed

text \<open>
  An operator who may only look at a tenant invites himself to it as administrator; the link he is
  answered with makes his account one.
\<close>

lemma support_viewer_becomes_admin:
  "effective_role viewer_person = ''viewer''
   \<and> (case accept account_demo 5 None ''t1'' ''password78'' demo_invited of
       (Inl _, _) \<Rightarrow> False
     | (Inr u, d1) \<Rightarrow> us_id u = 3 \<and> us_role u = ''admin'' \<and> us_tenant_id u = Some 1 \<and> us_is_active u)"
  by code_simp

text \<open>He can take the account of the platform's administrator the same way, who is then an operator no more.\<close>

lemma support_viewer_takes_platform_admin:
  "case create_or_resend_invite account_demo 0 None ''t3'' viewer_person 1 ''root@acme.com'' ''viewer'' demo_granted of
     (Inl _, _) \<Rightarrow> False
   | (Inr _, d1) \<Rightarrow> (case accept account_demo 5 None ''t3'' ''password78'' d1 of
       (Inl _, _) \<Rightarrow> False
     | (Inr u, d2) \<Rightarrow> us_id u = 1 \<and> us_hashed_password u = ''h:password78'' \<and> \<not> us_is_operator u \<and> us_role u = ''viewer''
         \<and> \<not> list_ex (\<lambda>x. us_is_operator x \<and> us_operator_role x = Some ''platform_admin'') (am_users d2))"
  by code_simp

text \<open>Suspending a tenant changes nothing of what authentication and login read.\<close>

lemma suspension_has_no_effect:
  assumes "set_tenant_status now request p i ''suspended'' d = (Inr t, d')"
  shows "auth_view d' = auth_view d \<and> fst (login E now' request' jti address password d') = fst (login E now' request' jti address password d)"
proof -
  have "am_users d' = am_users d" "am_keys d' = am_keys d" "am_grants d' = am_grants d" "am_attempts d' = am_attempts d"
    using assms by (auto simp: set_tenant_status_def Let_def split: option.splits)
  then show ?thesis
    by (auto simp: auth_view_def login_def Let_def prune_attempts_def rate_limited_def attempts_of_def login_user_def find_email_def
        split: option.splits)
qed

text \<open>An administrator who is inactive cannot be removed while only one active one is left, although that one stays.\<close>

lemma inactive_admin_kept:
  assumes "owned_user d i tid = Inr u" "us_role u = ''admin''" "\<not> us_is_active u" "active_admins tid d = 1" "pr_user_id p \<noteq> Some i"
  shows "delete_user now request p tid i d = (Inl (HTTPException 400), d)"
  using assms by (simp add: delete_user_def)

end
