(* ===== verification/Intelligence.thy ===== *)
theory Intelligence
  imports Retention
begin

text \<open>
  The pure part of \<open>app/collection/intelligence_analysis.py\<close>: the policy read from the environment,
  the catalogue of targets, the bounded conversation context, the envelope handed to the classifier,
  and the sanitising of what comes back. Dictionaries are \<open>json dict\<close>s with the keys of the source.
\<close>

section \<open>Dates\<close>

text \<open>\<open>date.isoformat\<close> and \<open>datetime.isoformat\<close> of a UTC instant (proleptic Gregorian calendar).\<close>

definition civil_of_days :: "int \<Rightarrow> int \<times> int \<times> int" where
  "civil_of_days days =
     (let z = days + 719468; era = z div 146097; doe = z mod 146097;
          yoe = (doe - doe div 1460 + doe div 36524 - doe div 146096) div 365;
          doy = doe - (365 * yoe + yoe div 4 - yoe div 100);
          mp = (5 * doy + 2) div 153;
          dd = doy - (153 * mp + 2) div 5 + 1;
          mm = (if mp < 10 then mp + 3 else mp - 9);
          yy = yoe + era * 400 + (if mm \<le> 2 then 1 else 0)
      in (yy, mm, dd))"

definition pad :: "nat \<Rightarrow> int \<Rightarrow> string" where
  "pad w n = replicate (w - length (int_str n)) CHR ''0'' @ int_str n"

definition day_micros :: int where
  "day_micros = 86400000000"

definition date_isoformat :: "time \<Rightarrow> string" where
  "date_isoformat t = (let (y, m, dd) = civil_of_days (t div day_micros)
     in pad 4 y @ ''-'' @ pad 2 m @ ''-'' @ pad 2 dd)"

definition isoformat :: "time \<Rightarrow> string" where
  "isoformat t =
     (let us = t mod day_micros; secs = us div 1000000; frac = us mod 1000000
      in date_isoformat t @ ''T'' @ pad 2 (secs div 3600) @ '':'' @ pad 2 (secs div 60 mod 60)
         @ '':'' @ pad 2 (secs mod 60) @ (if frac = 0 then [] else ''.'' @ pad 6 frac) @ ''+00:00'')"

section \<open>Policy\<close>

record analysis_policy =
  ap_auto_finding :: bool
  ap_auto_case :: bool
  ap_finding_threshold :: int
  ap_case_threshold :: int
  ap_batch_size :: int
  ap_context_window_seconds :: int
  ap_context_max_events :: int

record analysis_outcome =
  ao_event_id :: int
  ao_status :: string
  ao_score :: int
  ao_decision :: string
  ao_finding_id :: "int option"
  ao_case_id :: "int option"
  ao_error_code :: string

type_synonym environ = "string \<Rightarrow> string option"

definition env_bool :: "environ \<Rightarrow> string \<Rightarrow> bool \<Rightarrow> bool" where
  "env_bool env name dflt = (case env name of
       None \<Rightarrow> dflt
     | Some v \<Rightarrow> norm v \<in> {''1'', ''true'', ''yes'', ''on''})"

definition env_int :: "environ \<Rightarrow> string \<Rightarrow> int \<Rightarrow> int \<Rightarrow> int \<Rightarrow> int" where
  "env_int env name dflt minimum maximum =
     (let value = (case env name of None \<Rightarrow> dflt
                   | Some v \<Rightarrow> (case parse_int v of None \<Rightarrow> dflt | Some i \<Rightarrow> i))
      in max minimum (min value maximum))"

definition policy_from_env :: "environ \<Rightarrow> analysis_policy" where
  "policy_from_env env =
     (let finding_threshold = env_int env ''THREATFORGE_INTELLIGENCE_FINDING_THRESHOLD'' 60 1 100;
          case_threshold = env_int env ''THREATFORGE_INTELLIGENCE_CASE_THRESHOLD'' 80 finding_threshold 100
      in \<lparr>ap_auto_finding = env_bool env ''THREATFORGE_INTELLIGENCE_AUTO_FINDING'' False,
          ap_auto_case = env_bool env ''THREATFORGE_INTELLIGENCE_AUTO_CASE'' False,
          ap_finding_threshold = finding_threshold, ap_case_threshold = case_threshold,
          ap_batch_size = env_int env ''THREATFORGE_INTELLIGENCE_ANALYSIS_BATCH_SIZE'' 25 1 100,
          ap_context_window_seconds = env_int env ''THREATFORGE_INTELLIGENCE_CONTEXT_WINDOW_SECONDS'' 900 60 3600,
          ap_context_max_events = env_int env ''THREATFORGE_INTELLIGENCE_CONTEXT_MAX_EVENTS'' 10 1 50\<rparr>)"

definition policy_ok :: "analysis_policy \<Rightarrow> bool" where
  "policy_ok p =
     (1 \<le> ap_finding_threshold p \<and> ap_finding_threshold p \<le> ap_case_threshold p \<and> ap_case_threshold p \<le> 100
      \<and> 1 \<le> ap_batch_size p \<and> ap_batch_size p \<le> 100
      \<and> 60 \<le> ap_context_window_seconds p \<and> ap_context_window_seconds p \<le> 3600
      \<and> 1 \<le> ap_context_max_events p \<and> ap_context_max_events p \<le> 50)"

lemma env_int_bounds: "lo \<le> hi \<Longrightarrow> lo \<le> env_int env name dflt lo hi \<and> env_int env name dflt lo hi \<le> hi"
  by (simp add: env_int_def Let_def)

section \<open>Terms and targets\<close>

definition split_csv :: "string option \<Rightarrow> string list" where
  "split_csv value = filter (\<lambda>s. s \<noteq> []) (map str_strip (str_split (CHR '','') (case value of None \<Rightarrow> [] | Some v \<Rightarrow> v)))"

definition iter_strings :: "json \<Rightarrow> string list" where
  "iter_strings value = (case value of
       JStr s \<Rightarrow> [s]
     | JList xs \<Rightarrow> concat (map (\<lambda>x. case x of JStr s \<Rightarrow> [s] | _ \<Rightarrow> []) xs)
     | _ \<Rightarrow> [])"

definition casefold :: "string \<Rightarrow> string" where
  "casefold s = concat (map (\<lambda>c. if of_char c = (223::nat) then ''ss'' else [char_lower c]) s)"

text \<open>\<^verbatim>\<open>re.sub(r"\s+", " ", s)\<close>; the flag says whether the last character was a blank.\<close>

fun collapse_ws :: "bool \<Rightarrow> string \<Rightarrow> string" where
  "collapse_ws ws [] = []"
| "collapse_ws ws (c # s) =
     (if is_ws c then (if ws then collapse_ws True s else CHR '' '' # collapse_ws True s)
      else c # collapse_ws False s)"

definition add_term :: "string list \<Rightarrow> string \<Rightarrow> string list" where
  "add_term collected raw =
     (let term = collapse_ws False (str_strip raw) in
      if length term < 3 then collected
      else if casefold term \<in> set (map casefold collected) then collected
      else collected @ [take 255 term])"

definition label_char :: "char \<Rightarrow> bool" where
  "label_char c = (is_alnum c \<or> c = CHR ''_'' \<or> c = CHR ''-''
     \<or> (let n = of_char c :: nat in (192 \<le> n \<and> n \<le> 214) \<or> (216 \<le> n \<and> n \<le> 246) \<or> (248 \<le> n \<and> n \<le> 255)))"

definition upper_case :: "char \<Rightarrow> bool" where
  "upper_case c = (let n = of_char c :: nat in
     is_upper c \<or> (192 \<le> n \<and> n \<le> 214) \<or> (216 \<le> n \<and> n \<le> 222))"

definition lower_case :: "char \<Rightarrow> bool" where
  "lower_case c = (let n = of_char c :: nat in
     is_lower c \<or> (223 \<le> n \<and> n \<le> 246) \<or> (248 \<le> n \<and> n \<le> 255) \<or> n \<in> {170, 181, 186})"

definition str_isupper :: "string \<Rightarrow> bool" where
  "str_isupper s = (list_ex upper_case s \<and> \<not> list_ex lower_case s)"

text \<open>\<open>re.findall\<close> of maximal runs of a character class.\<close>

function findall_runs :: "(char \<Rightarrow> bool) \<Rightarrow> string \<Rightarrow> string list" where
  "findall_runs p s =
     (let r = dropWhile (\<lambda>c. \<not> p c) s in
      if r = [] then [] else takeWhile p r # findall_runs p (dropWhile p r))"
  by pat_completeness auto
termination
proof (relation "measure (\<lambda>(p, s). length s)")
  fix p s r
  assume r: "r = dropWhile (\<lambda>c. \<not> p c) s" "r \<noteq> []"
  have "p (hd r)" using hd_dropWhile [of "\<lambda>c. \<not> p c" s] r(2) unfolding r(1) by simp
  moreover obtain y ys where ys: "r = y # ys" using r(2) by (cases r) auto
  ultimately have "length (dropWhile p r) < length r"
    using length_dropWhile_le [of p ys] by simp
  with r(1) length_dropWhile_le [of "\<lambda>c. \<not> p c" s]
  show "((p, dropWhile p r), p, s) \<in> measure (\<lambda>(p, s). length s)" by simp
qed simp

declare findall_runs.simps [simp del]

definition meaningful_terms :: "string \<Rightarrow> string list \<Rightarrow> string list" where
  "meaningful_terms label vals =
     foldl add_term
       (foldl add_term (add_term [] label) vals)
       (filter (\<lambda>t. 3 \<le> length t \<and> (str_isupper t \<or> list_ex is_digit t)) (findall_runs label_char label))"

definition target_dict ::
  "string \<Rightarrow> string \<Rightarrow> string \<Rightarrow> json \<Rightarrow> json \<Rightarrow> string \<Rightarrow> string \<Rightarrow> string list \<Rightarrow> json dict" where
  "target_dict ref kind label brand_id asset_id asset_type criticality terms =
     [(''ref'', JStr ref), (''kind'', JStr kind), (''label'', JStr label), (''brand_id'', brand_id),
      (''asset_id'', asset_id), (''asset_type'', JStr asset_type),
      (''criticality'', JStr criticality), (''terms'', JList (map JStr terms))]"

definition brand_target :: "brand \<Rightarrow> json dict" where
  "brand_target brand =
     (let vals = split_csv (Some (br_official_domains brand)) @ split_csv (br_keywords brand)
            @ concat (map iter_strings [br_aliases brand, br_variations brand, br_products brand, br_subdomains brand])
      in target_dict (''brand:'' @ int_str (br_id brand)) ''brand'' (br_name brand) (JInt (br_id brand))
           JNull ''brand'' ''high'' (meaningful_terms (br_name brand) vals))"

definition asset_target :: "asset \<Rightarrow> json dict" where
  "asset_target asset =
     target_dict (''asset:'' @ int_str (as_id asset)) ''asset'' (as_label asset) JNull (JInt (as_id asset))
       (as_asset_type asset) (as_criticality asset) (meaningful_terms (as_label asset) [as_value asset])"

definition tenant_target :: "tenant \<Rightarrow> json dict" where
  "tenant_target tn =
     target_dict (''tenant:'' @ int_str (tn_id tn)) ''tenant'' (tn_name tn) JNull JNull
       ''organization'' ''high'' (meaningful_terms (tn_name tn) [tn_slug tn])"

section \<open>The conversation context\<close>

definition event_time :: "event \<Rightarrow> time" where
  "event_time event = (case ev_occurred_at event of None \<Rightarrow> ev_created_at event | Some t \<Rightarrow> t)"

definition in_context :: "event \<Rightarrow> analysis_policy \<Rightarrow> event \<Rightarrow> bool" where
  "in_context event policy row =
     (ev_tenant_id row = ev_tenant_id event \<and> ev_source_id row = ev_source_id event
      \<and> ev_provider row = ev_provider event \<and> ev_id row < ev_id event \<and> ev_purged_at row = None
      \<and> \<not> ev_is_control row \<and> ev_processing_state row \<notin> {Control, Rejected, DeadLetter}
      \<and> event_time event - ap_context_window_seconds policy * 1000000 \<le> event_time row
      \<and> event_time row \<le> event_time event)"

text \<open>The newest rows first, at most \<open>context_max_events\<close> of them, then reversed.\<close>

definition recent_context_events :: "event \<Rightarrow> analysis_policy \<Rightarrow> db \<Rightarrow> event list" where
  "recent_context_events event policy d =
     last_n (nat (ap_context_max_events policy))
       (sort_key event_time (sort_key ev_id (filter (in_context event policy) (db_events d))))"

definition str_or :: "json \<Rightarrow> string \<Rightarrow> string" where
  "str_or v dflt = py_str (jor v (JStr dflt))"

definition safe_context_analysis :: "json dict \<Rightarrow> json dict" where
  "safe_context_analysis value =
     [(''decision'', JStr (take 60 (str_or (jget value ''decision'') []))),
      (''threat_category'', JStr (take 60 (str_or (jget value ''threat_category'') []))),
      (''correlation_family'', JStr (take 60 (str_or (jget value ''correlation_family'') []))),
      (''matched_target_ref'', JStr (case jget value ''matched_target'' of
           JObj target \<Rightarrow> take 100 (str_or (jget target ''ref'') []) | _ \<Rightarrow> []))]"

definition pick_keys :: "string list \<Rightarrow> json dict \<Rightarrow> json dict" where
  "pick_keys ks d = map (\<lambda>k. (k, jget d k)) (filter (\<lambda>k. k \<in> set (dict_keys d)) ks)"

definition context_payload :: "event list \<Rightarrow> json list" where
  "context_payload events = map (\<lambda>row. JObj
     [(''redacted_text'', JStr (take 4000 (case ev_redacted_text row of None \<Rightarrow> [] | Some t \<Rightarrow> t))),
      (''occurred_at'', JStr (isoformat (event_time row))),
      (''context'', JObj (pick_keys [''chat_type'', ''thread_ref'', ''reply_to_ref'', ''actor_ref'',
          ''actor_kind'', ''email_detected'', ''email_domains''] (ev_context_json row))),
      (''analysis'', JObj (safe_context_analysis (ev_analysis_json row))),
      (''linked'', JBool (ev_finding_id row \<notin> {None, Some 0} \<or> ev_case_id row \<notin> {None, Some 0}))]) events"

section \<open>The envelope\<close>

definition active_brands :: "int \<Rightarrow> db \<Rightarrow> brand list" where
  "active_brands tenant_id d =
     sort_key br_id (filter (\<lambda>b. br_tenant_id b = tenant_id \<and> br_status b = ''active'') (db_brands d))"

definition target_assets :: "int \<Rightarrow> db \<Rightarrow> asset list" where
  "target_assets tenant_id d =
     sort_key as_id (filter (\<lambda>a. as_tenant_id a = tenant_id \<and> as_active a
       \<and> as_asset_type a \<in> {''domain'', ''keyword'', ''repo'', ''ip_range''}) (db_assets d))"

definition envelope_targets :: "int \<Rightarrow> db \<Rightarrow> json dict list" where
  "envelope_targets tenant_id d =
     (case find_row tn_id tenant_id (db_tenants d) of None \<Rightarrow> [] | Some tn \<Rightarrow> [tenant_target tn])
     @ map brand_target (active_brands tenant_id d) @ map asset_target (target_assets tenant_id d)"

definition policy_dict :: "analysis_policy \<Rightarrow> json dict" where
  "policy_dict policy =
     [(''auto_finding'', JBool (ap_auto_finding policy)), (''auto_case'', JBool (ap_auto_case policy)),
      (''finding_threshold'', JInt (ap_finding_threshold policy)),
      (''case_threshold'', JInt (ap_case_threshold policy)),
      (''context_window_seconds'', JInt (ap_context_window_seconds policy)),
      (''context_max_events'', JInt (ap_context_max_events policy))]"

definition build_envelope ::
  "event \<Rightarrow> source \<Rightarrow> analysis_policy \<Rightarrow> event list \<Rightarrow> db \<Rightarrow> json dict" where
  "build_envelope event source policy context_events d =
     [(''schema'', JStr ''threatforge.intelligence.envelope.v1''),
      (''provider'', JStr (ev_provider event)),
      (''redacted_text'', JStr (case ev_redacted_text event of None \<Rightarrow> [] | Some t \<Rightarrow> t)),
      (''context'', JObj (pick_keys [''chat_type'', ''update_kind'', ''forwarded'', ''has_text'',
          ''entity_count'', ''has_attachment'', ''thread_ref'', ''reply_to_ref'', ''actor_ref'',
          ''actor_kind'', ''actor_username_present'', ''email_detected'', ''email_domains'']
          (ev_context_json event))),
      (''source'', JObj [(''provider'', JStr (sr_provider source)), (''kind'', JStr (sr_kind source)),
          (''authorized'', JBool (sr_enabled source \<and> sr_status source = Src_active))]),
      (''targets'', JList (map JObj (envelope_targets (ev_tenant_id event) d))),
      (''tenant_terms'', (case find_row tn_id (ev_tenant_id event) (db_tenants d) of
           None \<Rightarrow> JList [] | Some tn \<Rightarrow> jget (tenant_target tn) ''terms'')),
      (''threat_terms'', JList (map JStr (concat (map (\<lambda>b. iter_strings (br_sensitive_terms b))
          (active_brands (ev_tenant_id event) d))))),
      (''conversation'', JList (context_payload context_events)),
      (''policy'', JObj (policy_dict policy))]"

section \<open>Properties\<close>

text \<open>Whatever the environment holds, missing, malformed or out of range, the policy read from it is
  sound: every number lies in its interval.\<close>

theorem policy_sound: "policy_ok (policy_from_env env)"
proof -
  have "1 \<le> env_int env n v 1 100 \<and> env_int env n v 1 100 \<le> 100" for n v by (rule env_int_bounds) simp
  then show ?thesis by (simp add: policy_ok_def policy_from_env_def Let_def env_int_bounds)
qed

text \<open>The conversation context an analysis sees is isolated and bounded: only earlier events of the same
  tenant, source and provider, neither purged nor control nor rejected, within the time window, in
  chronological order, at most as many as the policy allows.\<close>

theorem context_isolated:
  "list_all (\<lambda>row. ev_tenant_id row = ev_tenant_id event \<and> ev_source_id row = ev_source_id event \<and> ev_id row < ev_id event
      \<and> ev_purged_at row = None \<and> \<not> ev_is_control row \<and> event_time row \<le> event_time event
      \<and> event_time event - ap_context_window_seconds policy * 1000000 \<le> event_time row)
     (recent_context_events event policy d)
   \<and> length (recent_context_events event policy d) \<le> nat (ap_context_max_events policy)
   \<and> sorted (map event_time (recent_context_events event policy d))"
proof -
  let ?xs = "sort_key event_time (sort_key ev_id (filter (in_context event policy) (db_events d)))"
  let ?n = "nat (ap_context_max_events policy)"
  have sub: "set (last_n ?n ?xs) \<subseteq> set ?xs" by (simp add: last_n_def set_drop_subset del: set_sort)
  have "list_all (in_context event policy) (recent_context_events event policy d)"
    using sub by (auto simp: list_all_iff recent_context_events_def)
  moreover have "sorted (map event_time (last_n ?n ?xs))"
  proof -
    have "map event_time (last_n ?n ?xs) = drop (length ?xs - ?n) (map event_time ?xs)" by (simp only: last_n_def drop_map)
    then show ?thesis by (simp only: sorted_wrt_drop sorted_sort_key)
  qed
  moreover have "length (last_n ?n ?xs) \<le> ?n" by (simp add: last_n_def)
  ultimately show ?thesis
    unfolding recent_context_events_def
    by (intro conjI) (erule list.pred_mono_strong, simp add: in_context_def)
qed

end
