(* ===== verification/Registry.thy ===== *)
theory Registry
  imports Prelude
begin

text \<open>
  The registries of \<open>app/collection/registry.py\<close>: a name, folded to its stripped lower-case form,
  leads to an implementation. The Enterprise package fills three of them; the alert-channel
  registry is filled with the built-in transports.
\<close>

record 'a registry =
  rg_kind :: string
  rg_items :: "'a dict"

definition register :: "string \<Rightarrow> 'a \<Rightarrow> bool \<Rightarrow> 'a registry \<Rightarrow> exn + 'a registry" where
  "register name impl replace r =
     (let key = norm name in
      if key = [] then Inl (ValueError (rg_kind r @ '' name must be non-empty''))
      else if map_of (rg_items r) key \<noteq> None \<and> \<not> replace
      then Inl (ValueError (rg_kind r @ '' '' @ repr_str key @ '' already registered''))
      else Inr (r\<lparr>rg_items := AList.update key impl (rg_items r)\<rparr>))"

definition unregister :: "string \<Rightarrow> 'a registry \<Rightarrow> 'a registry" where
  "unregister name r = r\<lparr>rg_items := AList.delete (norm name) (rg_items r)\<rparr>"

definition get :: "string \<Rightarrow> 'a registry \<Rightarrow> 'a option" where
  "get name r = map_of (rg_items r) (norm name)"

definition require :: "string \<Rightarrow> 'a registry \<Rightarrow> exn + 'a" where
  "require name r = (case get name r of None \<Rightarrow> Inl KeyError | Some impl \<Rightarrow> Inr impl)"

definition names :: "'a registry \<Rightarrow> string list" where
  "names r = sort (dict_keys (rg_items r))"

definition contains :: "string \<Rightarrow> 'a registry \<Rightarrow> bool" where
  "contains name r = (norm name \<in> set (dict_keys (rg_items r)))"

definition size_of :: "'a registry \<Rightarrow> nat" where
  "size_of r = length (rg_items r)"

definition new_registry :: "string \<Rightarrow> 'a registry" where
  "new_registry kind = \<lparr>rg_kind = kind, rg_items = []\<rparr>"

definition register_builtin_alert_channels :: "string registry \<Rightarrow> string registry" where
  "register_builtin_alert_channels r =
     foldl (\<lambda>r n. case register n n True r of Inl _ \<Rightarrow> r | Inr r' \<Rightarrow> r') r
       [''telegram'', ''webhook'', ''email'', ''smtp'']"

text \<open>The four singletons, and the reset of them all.\<close>

record ('p, 'c, 'k) registries =
  providers :: "'p registry"
  classifiers :: "'c registry"
  correlators :: "'k registry"
  alert_channels :: "string registry"

definition initial_registries :: "('p, 'c, 'k) registries" where
  "initial_registries = \<lparr>providers = new_registry ''collection provider'',
     classifiers = new_registry ''intent classifier'', correlators = new_registry ''correlator'',
     alert_channels = register_builtin_alert_channels (new_registry ''alert channel'')\<rparr>"

definition reset_all :: "('p, 'c, 'k) registries \<Rightarrow> ('p, 'c, 'k) registries" where
  "reset_all rs =
     rs\<lparr>providers := (providers rs)\<lparr>rg_items := []\<rparr>,
        classifiers := (classifiers rs)\<lparr>rg_items := []\<rparr>,
        correlators := (correlators rs)\<lparr>rg_items := []\<rparr>,
        alert_channels :=
          register_builtin_alert_channels ((alert_channels rs)\<lparr>rg_items := []\<rparr>)\<rparr>"

section \<open>The contract of a registry\<close>

definition registry_ok :: "'a registry \<Rightarrow> bool" where
  "registry_ok r = (distinct (dict_keys (rg_items r))
     \<and> (\<forall>k \<in> set (dict_keys (rg_items r)). k \<noteq> [] \<and> norm k = k))"

locale registry_spec =
  fixes reg :: "string \<Rightarrow> 'v \<Rightarrow> bool \<Rightarrow> 'r \<Rightarrow> exn + 'r"
    and unreg :: "string \<Rightarrow> 'r \<Rightarrow> 'r"
    and look :: "string \<Rightarrow> 'r \<Rightarrow> 'v option"
    and ok :: "'r \<Rightarrow> bool"
  assumes reg_look: "ok r \<Longrightarrow> reg n v b r = Inr r' \<Longrightarrow>
      look m r' = (if norm m = norm n then Some v else look m r)"
    and reg_ok: "ok r \<Longrightarrow> reg n v b r = Inr r' \<Longrightarrow> ok r'"
    and reg_refused: "ok r \<Longrightarrow>
      (\<exists>e. reg n v b r = Inl e) = (norm n = [] \<or> look n r \<noteq> None \<and> \<not> b)"
    and unreg_look: "ok r \<Longrightarrow> look m (unreg n r) = (if norm m = norm n then None else look m r)"
    and unreg_ok: "ok r \<Longrightarrow> ok (unreg n r)"
begin

text \<open>A name is taken under every spelling of it until it is unregistered.\<close>

lemma no_silent_replacement:
  assumes "ok r" "reg n v b r = Inr r'" "norm m = norm n"
  shows "\<exists>e. reg m w False r' = Inl e"
  using assms reg_look [OF assms(1,2)] reg_refused [OF reg_ok [OF assms(1,2)]] by simp

lemma register_after_unregister:
  assumes "ok r" "norm n \<noteq> []"
  shows "\<exists>r'. reg n v False (unreg n r) = Inr r' \<and> look n r' = Some v"
proof -
  have "\<nexists>e. reg n v False (unreg n r) = Inl e"
    using assms by (simp add: reg_refused unreg_ok unreg_look)
  then obtain r' where "reg n v False (unreg n r) = Inr r'"
    by (metis old.sum.exhaust)
  then show ?thesis
    using reg_look [OF unreg_ok [OF assms(1)], of n v False n r' n] by auto
qed

end

lemma registry_ok_register:
  "registry_ok r \<Longrightarrow> register n v b r = Inr r' \<Longrightarrow> registry_ok r'"
  by (auto simp: registry_ok_def register_def Let_def split: if_splits)

lemma registry_ok_unregister: "registry_ok r \<Longrightarrow> registry_ok (unregister n r)"
  by (auto simp: registry_ok_def unregister_def)

interpretation reg: registry_spec register unregister get registry_ok
proof
  show "(\<exists>e. register n v b r = Inl e) = (norm n = [] \<or> get n r \<noteq> None \<and> \<not> b)"
    for n v b and r :: "'a registry"
    by (simp add: register_def get_def Let_def)
qed (auto simp: get_def register_def unregister_def Let_def update_conv' delete_conv'
    registry_ok_unregister split: if_splits intro: registry_ok_register
    dest: registry_ok_unregister [unfolded unregister_def])

lemma registry_ok_empty: "registry_ok (new_registry k)"
  by (simp add: registry_ok_def new_registry_def)

lemma contains_get: "contains n r = (get n r \<noteq> None)"
  by (simp add: contains_def get_def map_of_None_keys)

lemma names_spec: "set (names r) = set (dict_keys (rg_items r)) \<and> sorted (names r)"
  by (simp add: names_def)

lemma registry_ok_step:
  "registry_ok r \<Longrightarrow> registry_ok (case register n v b r of Inl _ \<Rightarrow> r | Inr r' \<Rightarrow> r')"
  by (auto split: sum.splits dest: registry_ok_register)

lemma registry_ok_builtin:
  "registry_ok r \<Longrightarrow> registry_ok (register_builtin_alert_channels r)"
  by (simp add: register_builtin_alert_channels_def registry_ok_step)

section \<open>Properties\<close>

text \<open>A registry never replaces an entry silently: after a registration, registering any spelling of the
  name without the replace flag is refused, and a look-up of any spelling yields the registered
  object, the other names being untouched.\<close>

theorem registry_no_silent_replacement:
  assumes "registry_ok r" "register n v b r = Inr r'"
  shows "(norm m = norm n \<longrightarrow> (\<exists>e. register m w False r' = Inl e))
    \<and> get m r' = (if norm m = norm n then Some v else get m r) \<and> registry_ok r'"
  using reg.no_silent_replacement [OF assms] reg.reg_look [OF assms] reg.reg_ok [OF assms] by simp

theorem registry_no_silent_replacement_witness:
  "\<exists>r'. register ''Telegram'' (1::nat) False (new_registry ''provider'') = Inr r' \<and> get '' telegram '' r' = Some 1
     \<and> (\<exists>e. register ''TELEGRAM'' 2 False r' = Inl e)"
proof -
  have "norm ''Telegram'' = ''telegram''" by code_simp
  then have "\<exists>r'. register ''Telegram'' (1::nat) False (new_registry ''provider'') = Inr r'"
    by (simp add: register_def new_registry_def Let_def)
  then obtain r' where r: "register ''Telegram'' (1::nat) False (new_registry ''provider'') = Inr r'" ..
  have n: "norm ''TELEGRAM'' = norm ''Telegram''" "norm '' telegram '' = norm ''Telegram''" by code_simp+
  from registry_no_silent_replacement [OF registry_ok_empty r, of "''TELEGRAM''" 2]
    registry_no_silent_replacement [OF registry_ok_empty r, of "'' telegram ''" 2] r n
  show ?thesis by auto
qed

end
