(* ===== verification/Secrets.thy ===== *)
theory Secrets
  imports Prelude
begin

text \<open>
  The Secret Resolver boundary of \<open>app/collection/secrets.py\<close>: which fields of a payload are
  secret (\<open>classify_payload\<close>), the opaque references that stand for them in the database, the two
  resolvers of the module and the authorised way back from a reference to its value.

  Outside the model, as parameters: SHA-256 (\<open>H\<close>), the process environment (\<open>env\<close>), what the
  file-backed lookup below the secret directory yields for a file name (\<open>secret_file\<close>, after its
  own symlink, parent, size and decoding checks) and whether a bracketed host is an IPv6 address
  (\<open>ipv6_ok\<close>). The contract of a resolver is the locale \<open>secret_store\<close>.
\<close>

definition SECRET_FIELD_NAMES :: "string list" where
  "SECRET_FIELD_NAMES = [''token'', ''bot_token'', ''telegram_bot_token'', ''api_key'',
     ''api_token'', ''secret'', ''webhook_secret'', ''password'', ''smtp_password'',
     ''client_secret'', ''auth_key'', ''private_key'', ''signing_key'', ''key'', ''passphrase'']"

definition PROVIDER_ALLOWED_CONFIG :: "string list dict" where
  "PROVIDER_ALLOWED_CONFIG =
     [(''telegram'', [''bot_username'', ''api_base_url'', ''poll_timeout_seconds'', ''allowed_updates''])]"

definition CHANNEL_ALLOWED_CONFIG :: "string list dict" where
  "CHANNEL_ALLOWED_CONFIG =
     [(''telegram'', [''chat_id'', ''thread_id'', ''parse_mode'', ''bot_username'']),
      (''webhook'', [''method'', ''content_type'', ''timeout_seconds'']),
      (''email'', [''smtp_host'', ''smtp_port'', ''smtp_from'', ''smtp_to'', ''starttls'', ''subject_prefix'']),
      (''smtp'', [''smtp_host'', ''smtp_port'', ''smtp_from'', ''smtp_to'', ''starttls'', ''subject_prefix''])]"

definition TOKENISH_QUERY_KEYS :: "string list" where
  "TOKENISH_QUERY_KEYS = [''token'', ''key'', ''secret'', ''access_token'', ''hub.verify_token'',
     ''auth'', ''signature'', ''sig'', ''apikey'', ''api_key'']"

definition ENV_SECRET_REF_PREFIX :: string where
  "ENV_SECRET_REF_PREFIX = ''secretref://env/''"

definition FILE_SECRET_REF_PREFIX :: string where
  "FILE_SECRET_REF_PREFIX = ''secretref://file/''"

definition token_char :: "char \<Rightarrow> bool" where
  "token_char c = (is_alnum c \<or> c = CHR ''_'' \<or> c = CHR ''-'')"

section \<open>Opaque references\<close>

definition env_name_ok :: "string \<Rightarrow> bool" where
  "env_name_ok s = (case s of [] \<Rightarrow> False
     | c # cs \<Rightarrow> is_upper c \<and> 2 \<le> length cs \<and> length cs \<le> 127
         \<and> list_all (\<lambda>x. is_upper x \<or> is_digit x \<or> x = CHR ''_'') cs)"

definition file_name_ok :: "string \<Rightarrow> bool" where
  "file_name_ok s = (case s of [] \<Rightarrow> False
     | c # cs \<Rightarrow> is_alnum c \<and> 1 \<le> length cs \<and> length cs \<le> 126
         \<and> list_all (\<lambda>x. token_char x \<or> x = CHR ''.'') cs)"

definition validate_opaque_ref :: "string \<Rightarrow> string res" where
  "validate_opaque_ref ref =
     (let value = str_strip ref in
      if startswith value ENV_SECRET_REF_PREFIX then
        (let env_name = drop (length ENV_SECRET_REF_PREFIX) value in
         if \<not> env_name_ok env_name \<or> \<not> startswith env_name ''THREATFORGE_''
         then Inl (ValueError ''invalid_environment_secret_reference'') else Inr value)
      else if startswith value FILE_SECRET_REF_PREFIX then
        (let name = drop (length FILE_SECRET_REF_PREFIX) value in
         if \<not> file_name_ok name then Inl (ValueError ''invalid_file_secret_reference'') else Inr value)
      else Inl (ValueError ''unsupported_secret_reference''))"

section \<open>URLs that carry a token\<close>

fun drop_prefix_ci :: "string \<Rightarrow> string \<Rightarrow> string option" where
  "drop_prefix_ci [] s = Some s"
| "drop_prefix_ci (p # ps) [] = None"
| "drop_prefix_ci (p # ps) (c # s) = (if char_lower c = p then drop_prefix_ci ps s else None)"

definition looks_like_url :: "json \<Rightarrow> bool" where
  "looks_like_url value = (case value of
       JStr s \<Rightarrow> (let u = str_lstrip s in
         drop_prefix_ci ''http://'' u \<noteq> None \<or> drop_prefix_ci ''https://'' u \<noteq> None)
     | _ \<Rightarrow> False)"

record split_url =
  su_netloc :: string
  su_path :: string
  su_query :: string

text \<open>
  \<open>urllib.parse.urlsplit\<close>: leading control characters and blanks dropped, tabs and newlines
  removed, the scheme cut off, the authority up to the first of \<^verbatim>\<open>/?#\<close>. \<open>None\<close> is its
  \<open>ValueError\<close> on unbalanced or invalid brackets.
\<close>

definition scheme_char :: "char \<Rightarrow> bool" where
  "scheme_char c = (is_alnum c \<or> c \<in> {CHR ''+'', CHR ''-'', CHR ''.''})"

definition cut_scheme :: "string \<Rightarrow> string" where
  "cut_scheme u =
     (let s = partition_before (CHR '':'') u in
      if CHR '':'' \<in> set u \<and> s \<noteq> [] \<and> is_alpha (hd s) \<and> list_all scheme_char s
      then partition_after (CHR '':'') u else u)"

definition urlsplit :: "(string \<Rightarrow> bool) \<Rightarrow> string \<Rightarrow> split_url option" where
  "urlsplit ipv6_ok url =
     (let u0 = dropWhile (\<lambda>c. of_char c \<le> (32::nat)) url;
          u1 = filter (\<lambda>c. of_char c \<notin> {9, 10, 13 :: nat}) u0;
          u2 = cut_scheme u1;
          has = startswith u2 ''//'';
          r = drop 2 u2;
          inside = (\<lambda>c. c \<notin> {CHR ''/'', CHR ''?'', CHR ''#''});
          netloc = (if has then takeWhile inside r else []);
          u3 = (if has then dropWhile inside r else u2);
          open_b = CHR ''['' \<in> set netloc;
          close_b = CHR '']'' \<in> set netloc;
          u4 = partition_before (CHR ''#'') u3
      in if open_b \<noteq> close_b \<or> (open_b \<and> \<not> ipv6_ok netloc) then None
         else Some \<lparr>su_netloc = netloc, su_path = partition_before (CHR ''?'') u4,
                    su_query = partition_after (CHR ''?'') u4\<rparr>)"

definition has_userinfo :: "string \<Rightarrow> bool" where
  "has_userinfo netloc =
     (CHR ''@'' \<in> set netloc \<and>
      (let info = rev (partition_after (CHR ''@'') (rev netloc)) in
       partition_before (CHR '':'') info \<noteq> [] \<or> partition_after (CHR '':'') info \<noteq> []))"

definition bot_path_at :: "string \<Rightarrow> bool" where
  "bot_path_at s = (case drop_prefix_ci ''/bot'' s of None \<Rightarrow> False
     | Some r \<Rightarrow> (case dropWhile is_digit r of
           c # x # _ \<Rightarrow> r \<noteq> [] \<and> is_digit (hd r) \<and> c = CHR '':'' \<and> token_char x
         | _ \<Rightarrow> False))"

definition telegram_bot_path :: "string \<Rightarrow> bool" where
  "telegram_bot_path path = list_ex (\<lambda>n. bot_path_at (drop n path)) [0..<length path]"

definition long_token_seg :: "string \<Rightarrow> bool" where
  "long_token_seg seg = (16 \<le> length seg \<and> list_all token_char seg)"

definition webhook_url_is_secret :: "(string \<Rightarrow> bool) \<Rightarrow> string \<Rightarrow> bool" where
  "webhook_url_is_secret ipv6_ok url =
     (if url = [] then False
      else case urlsplit ipv6_ok (str_strip url) of
        None \<Rightarrow> True
      | Some parts \<Rightarrow>
          if has_userinfo (su_netloc parts) then True
          else let q = str_lower (su_query parts) in
          if list_ex (\<lambda>k. str_contains (k @ ''='') q) TOKENISH_QUERY_KEYS then True
          else if telegram_bot_path (su_path parts) then True
          else list_ex long_token_seg (str_split (CHR ''/'') (su_path parts)))"

section \<open>Classification\<close>

record secret_ref =
  sf_name :: string
  sf_kind :: string
  sf_present :: bool
  sf_hint :: string
  sf_digest :: string

record secret_split =
  sp_config :: "json dict"
  sp_refs :: "secret_ref list"
  sp_values :: "string dict"

definition secrets_metadata :: "secret_split \<Rightarrow> json dict" where
  "secrets_metadata sp = foldl (\<lambda>d r. AList.update (sf_name r)
       (JObj [(''present'', JBool (sf_present r)), (''kind'', JStr (sf_kind r)),
              (''masked'', JStr (sf_hint r))]) d) [] (sp_refs sp)"

definition secret_text :: "json \<Rightarrow> string" where
  "secret_text value = (if value = JNull then [] else py_str value)"

definition add_secret :: "(string \<Rightarrow> string) \<Rightarrow> secret_split \<Rightarrow> string \<Rightarrow> string \<Rightarrow> json \<Rightarrow> secret_split" where
  "add_secret H sp name kind value =
     (let sval = secret_text value in
      sp\<lparr>sp_values := AList.update name sval (sp_values sp),
         sp_refs := sp_refs sp @ [\<lparr>sf_name = name, sf_kind = kind, sf_present = (sval \<noteq> []),
           sf_hint = ''***'', sf_digest = (if sval \<noteq> [] then H sval else [])\<rparr>]\<rparr>)"

definition allowed_config :: "string option \<Rightarrow> string option \<Rightarrow> string list option" where
  "allowed_config channel_type provider = (case channel_type of
       Some ct \<Rightarrow> Some (case map_of CHANNEL_ALLOWED_CONFIG (norm ct) of None \<Rightarrow> [] | Some a \<Rightarrow> a)
     | None \<Rightarrow> (case provider of
         Some p \<Rightarrow> Some (case map_of PROVIDER_ALLOWED_CONFIG (norm p) of None \<Rightarrow> [] | Some a \<Rightarrow> a)
       | None \<Rightarrow> None))"

text \<open>The kind of secret a field is, \<open>None\<close> when it may stay in \<open>config_json\<close>.\<close>

definition field_kind :: "(string \<Rightarrow> bool) \<Rightarrow> string list option \<Rightarrow> string \<Rightarrow> json \<Rightarrow> string option" where
  "field_kind ipv6_ok allowed key value =
     (if key \<in> set SECRET_FIELD_NAMES then Some ''credential''
      else if looks_like_url value \<and> webhook_url_is_secret ipv6_ok (py_str value)
      then Some ''webhook_url_with_token''
      else case allowed of
        Some a \<Rightarrow> if key \<notin> set a then Some ''unclassified_fail_closed'' else None
      | None \<Rightarrow> None)"

definition classify_field ::
  "(string \<Rightarrow> string) \<Rightarrow> (string \<Rightarrow> bool) \<Rightarrow> string list option \<Rightarrow> secret_split \<Rightarrow> string \<times> json \<Rightarrow> secret_split" where
  "classify_field H ipv6_ok allowed sp kv =
     (case field_kind ipv6_ok allowed (norm (fst kv)) (snd kv) of
        Some kind \<Rightarrow> add_secret H sp (norm (fst kv)) kind (snd kv)
      | None \<Rightarrow> sp\<lparr>sp_config := AList.update (fst kv) (snd kv) (sp_config sp)\<rparr>)"

definition classify_payload ::
  "(string \<Rightarrow> string) \<Rightarrow> (string \<Rightarrow> bool) \<Rightarrow> json dict \<Rightarrow> string option \<Rightarrow> string option \<Rightarrow> secret_split" where
  "classify_payload H ipv6_ok payload channel_type provider =
     foldl (classify_field H ipv6_ok (allowed_config channel_type provider))
       \<lparr>sp_config = [], sp_refs = [], sp_values = []\<rparr> payload"

section \<open>Resolvers\<close>

datatype resolver = NullSecretResolver | InMemorySecretResolver "string dict" nat

definition mem_ref :: "int \<Rightarrow> string \<Rightarrow> string \<Rightarrow> nat \<Rightarrow> string" where
  "mem_ref tenant_id scope name n =
     ''secretref://mem/'' @ int_str tenant_id @ ''/'' @ scope @ ''/'' @ name @ ''/'' @ nat_str n"

fun resolver_put :: "(string \<Rightarrow> string) \<Rightarrow> resolver \<Rightarrow> int \<Rightarrow> string \<Rightarrow> string \<Rightarrow> string \<Rightarrow> string \<times> resolver" where
  "resolver_put H NullSecretResolver tenant_id scope name value =
     (''secretref://null/'' @ int_str tenant_id @ ''/'' @ scope @ ''/'' @ name @ ''/'' @ take 12 (H value),
      NullSecretResolver)"
| "resolver_put H (InMemorySecretResolver store n) tenant_id scope name value =
     (let ref = mem_ref tenant_id scope name (n + 1)
      in (ref, InMemorySecretResolver (AList.update ref value store) (n + 1)))"

fun resolver_get :: "resolver \<Rightarrow> string \<Rightarrow> string option" where
  "resolver_get NullSecretResolver ref = None"
| "resolver_get (InMemorySecretResolver store n) ref = map_of store ref"

fun resolver_delete :: "resolver \<Rightarrow> string \<Rightarrow> resolver" where
  "resolver_delete NullSecretResolver ref = NullSecretResolver"
| "resolver_delete (InMemorySecretResolver store n) ref =
     InMemorySecretResolver (AList.delete ref store) n"

text \<open>\<open>persist_secrets\<close>: hand every value to the resolver and drop the values from the split.\<close>

definition persist_values ::
  "('s \<Rightarrow> int \<Rightarrow> string \<Rightarrow> string \<Rightarrow> string \<Rightarrow> string \<times> 's) \<Rightarrow> int \<Rightarrow> string \<Rightarrow> string dict \<Rightarrow> 's \<Rightarrow> string dict \<times> 's" where
  "persist_values put tenant_id scope values s =
     foldl (\<lambda>(refs, s) (name, value). let (ref, s') = put s tenant_id scope name value
                                      in (AList.update name ref refs, s')) ([], s) values"

definition persist_secrets ::
  "(string \<Rightarrow> string) \<Rightarrow> resolver \<Rightarrow> int \<Rightarrow> string \<Rightarrow> secret_split \<Rightarrow> string dict \<times> secret_split \<times> resolver" where
  "persist_secrets H r tenant_id scope sp =
     (let (refs, r') = persist_values (resolver_put H) tenant_id scope (sp_values sp) r
      in (refs, sp\<lparr>sp_values := []\<rparr>, r'))"

definition nonempty :: "string option \<Rightarrow> string option" where
  "nonempty v = (if v = Some [] then None else v)"

definition resolve_opaque_ref ::
  "(string \<Rightarrow> string option) \<Rightarrow> (string \<Rightarrow> string option) \<Rightarrow> resolver \<Rightarrow> string \<Rightarrow> string option" where
  "resolve_opaque_ref env secret_file r ref =
     (let value = str_strip ref in
      if startswith value ENV_SECRET_REF_PREFIX then
        (case validate_opaque_ref value of Inl _ \<Rightarrow> None
         | Inr _ \<Rightarrow> nonempty (env (drop (length ENV_SECRET_REF_PREFIX) value)))
      else if startswith value FILE_SECRET_REF_PREFIX then
        (case validate_opaque_ref value of Inl _ \<Rightarrow> None
         | Inr _ \<Rightarrow> nonempty (secret_file (drop (length FILE_SECRET_REF_PREFIX) value)))
      else resolver_get r value)"

definition resolve_secret ::
  "(string \<Rightarrow> string option) \<Rightarrow> (string \<Rightarrow> string option) \<Rightarrow> resolver \<Rightarrow> string dict \<Rightarrow> string \<Rightarrow> string option" where
  "resolve_secret env secret_file r secret_refs name = (case map_of secret_refs name of
       None \<Rightarrow> None
     | Some ref \<Rightarrow> if ref = [] then None else resolve_opaque_ref env secret_file r ref)"

section \<open>Classification fails closed\<close>

definition split_ok :: "(string \<Rightarrow> bool) \<Rightarrow> string list option \<Rightarrow> json dict \<Rightarrow> secret_split \<Rightarrow> bool" where
  "split_ok ipv6_ok allowed payload sp =
     ((\<forall>(k, v) \<in> set (sp_config sp). (k, v) \<in> set payload \<and> field_kind ipv6_ok allowed (norm k) v = None)
      \<and> (\<forall>(k, v) \<in> set payload.
           if field_kind ipv6_ok allowed (norm k) v = None then k \<in> set (dict_keys (sp_config sp))
           else norm k \<in> set (dict_keys (sp_values sp)))
      \<and> set (dict_keys (sp_values sp)) = sf_name ` set (sp_refs sp)
      \<and> distinct (dict_keys (sp_values sp)) \<and> distinct (dict_keys (sp_config sp))
      \<and> (\<forall>(k, s) \<in> set (sp_values sp). \<exists>(k', v) \<in> set payload. norm k' = k \<and> s = secret_text v))"

lemma classify_field_ok:
  assumes "split_ok ipv6_ok allowed pre sp"
  shows "split_ok ipv6_ok allowed (pre @ [kv]) (classify_field H ipv6_ok allowed sp kv)"
proof (cases "field_kind ipv6_ok allowed (norm (fst kv)) (snd kv)")
  case None
  with assms show ?thesis
    by (cases kv) (fastforce simp: split_ok_def classify_field_def dest: in_set_update)
next
  case (Some kind)
  obtain k v where kv: "kv = (k, v)" by (cases kv)
  from Some kv show ?thesis
    using assms
    by (simp add: split_ok_def classify_field_def add_secret_def Let_def)
      (fastforce dest: in_set_update split: if_splits)
qed

lemma classify_payload_ok:
  "split_ok ipv6_ok (allowed_config ct pr) payload (classify_payload H ipv6_ok payload ct pr)"
proof -
  let ?f = "classify_field H ipv6_ok (allowed_config ct pr)"
  have "split_ok ipv6_ok (allowed_config ct pr) (pre @ rest) (foldl ?f sp rest)"
    if "split_ok ipv6_ok (allowed_config ct pr) pre sp" for pre rest sp
    using that
  proof (induction rest arbitrary: pre sp)
    case Nil
    then show ?case by simp
  next
    case (Cons kv rest)
    from Cons.IH [OF classify_field_ok [OF Cons.prems]] show ?case by simp
  qed
  note main = this
  have "split_ok ipv6_ok (allowed_config ct pr) [] \<lparr>sp_config = [], sp_refs = [], sp_values = []\<rparr>"
    by (simp add: split_ok_def)
  from main [OF this, of payload] show ?thesis by (simp add: classify_payload_def)
qed

section \<open>The contract of a resolver\<close>

text \<open>
  \<open>opaque_store\<close> is what the database relies on: a reference is never empty and is not taken for
  an environment or file reference. \<open>secret_store\<close> adds what a provider relies on: the value comes
  back, and nothing else changes.
\<close>

locale opaque_store =
  fixes put :: "'s \<Rightarrow> int \<Rightarrow> string \<Rightarrow> string \<Rightarrow> string \<Rightarrow> string \<times> 's"
    and own :: "string \<Rightarrow> bool"
    and ok :: "'s \<Rightarrow> bool"
  assumes put_ok: "ok s \<Longrightarrow> put s t sc n v = (ref, s') \<Longrightarrow> ok s'"
    and put_own: "ok s \<Longrightarrow> put s t sc n v = (ref, s') \<Longrightarrow> own ref"
begin

lemma persist_step:
  "persist_values put t sc (vals @ [(n, v)]) s =
     (let (refs, s1) = persist_values put t sc vals s; (ref, s2) = put s1 t sc n v
      in (AList.update n ref refs, s2))"
  by (simp add: persist_values_def split: prod.splits)

lemma persist_own:
  "ok s \<Longrightarrow> persist_values put t sc vals s = (refs, s') \<Longrightarrow>
     ok s' \<and> set (dict_keys refs) = set (dict_keys vals) \<and> (\<forall>r \<in> snd ` set refs. own r)"
proof (induction vals arbitrary: refs s' rule: rev_induct)
  case Nil
  then show ?case by (simp add: persist_values_def)
next
  case (snoc nv vals)
  obtain n v where nv: "nv = (n, v)" by (cases nv)
  obtain refs1 s1 where p1: "persist_values put t sc vals s = (refs1, s1)" by fastforce
  obtain ref s2 where p2: "put s1 t sc n v = (ref, s2)" by fastforce
  from snoc.IH [OF snoc.prems(1) p1] have ih: "ok s1" "set (dict_keys refs1) = set (dict_keys vals)"
    "\<forall>r \<in> snd ` set refs1. own r" by auto
  from snoc.prems(2) nv p1 p2 have "refs = AList.update n ref refs1" "s' = s2"
    by (simp_all add: persist_step)
  with ih put_ok [OF ih(1) p2] put_own [OF ih(1) p2] nv show ?case
    by (auto dest: in_set_update)
qed

end

locale secret_store = opaque_store +
  fixes get :: "'s \<Rightarrow> string \<Rightarrow> string option"
  assumes get_put: "ok s \<Longrightarrow> put s t sc n v = (ref, s') \<Longrightarrow> get s' r = (if r = ref then Some v else get s r)"
    and put_fresh: "ok s \<Longrightarrow> put s t sc n v = (ref, s') \<Longrightarrow> get s ref = None"
begin

lemma persist_get:
  assumes "ok s" "distinct (dict_keys vals)"
    and "persist_values put t sc vals s = (refs, s')"
  shows "(\<forall>n v. map_of vals n = Some v \<longrightarrow> (\<exists>r. map_of refs n = Some r \<and> get s' r = Some v))
    \<and> (\<forall>r v. get s r = Some v \<longrightarrow> get s' r = Some v)"
  using assms
proof (induction vals arbitrary: refs s' rule: rev_induct)
  case Nil
  then show ?case by (simp add: persist_values_def)
next
  case (snoc nv vals)
  obtain n v where nv: "nv = (n, v)" by (cases nv)
  obtain refs1 s1 where p1: "persist_values put t sc vals s = (refs1, s1)" by fastforce
  obtain ref s2 where p2: "put s1 t sc n v = (ref, s2)" by fastforce
  have d: "distinct (dict_keys vals)" "n \<notin> set (dict_keys vals)"
    using snoc.prems(2) nv by (auto simp: dict_keys_def)
  have ok1: "ok s1" using persist_own [OF snoc.prems(1) p1] by simp
  note ih = snoc.IH [OF snoc.prems(1) d(1) p1]
  from snoc.prems(3) nv p1 p2 have eq: "refs = AList.update n ref refs1" "s' = s2"
    by (simp_all add: persist_step)
  have old: "get s2 r = Some w" if "get s1 r = Some w" for r w
    using that get_put [OF ok1 p2] put_fresh [OF ok1 p2] by auto
  have nth: "map_of (vals @ [(n, v)]) m = (if m = n then Some v else map_of vals m)" for m
    using d(2) by (auto simp: map_of_None_keys [symmetric] map_add_def split: option.splits)
  have new: "get s2 ref = Some v" using get_put [OF ok1 p2, of ref] by simp
  show ?case
  proof (intro conjI allI impI)
    fix m w
    assume "map_of (vals @ [nv]) m = Some w"
    then have m: "m = n \<and> w = v \<or> m \<noteq> n \<and> map_of vals m = Some w"
      unfolding nv nth by (auto split: if_splits)
    show "\<exists>r. map_of refs m = Some r \<and> get s' r = Some w"
    proof (cases "m = n")
      case True
      with m new show ?thesis by (simp add: eq update_conv')
    next
      case False
      with m ih obtain r where "map_of refs1 m = Some r" "get s1 r = Some w" by blast
      with False old show ?thesis by (auto simp: eq update_conv')
    qed
  next
    fix r w
    assume "get s r = Some w"
    with ih old show "get s' r = Some w" by (auto simp: eq)
  qed
qed

end

definition mem_ok :: "resolver \<Rightarrow> bool" where
  "mem_ok r = (case r of NullSecretResolver \<Rightarrow> False
     | InMemorySecretResolver store n \<Rightarrow>
         \<forall>ref \<in> set (dict_keys store). \<exists>b k. ref = b @ ''/'' @ nat_str k \<and> k \<le> n)"

definition resolver_ref :: "string \<Rightarrow> bool" where
  "resolver_ref ref = (ref \<noteq> [] \<and> str_strip ref = ref
     \<and> \<not> startswith ref ENV_SECRET_REF_PREFIX \<and> \<not> startswith ref FILE_SECRET_REF_PREFIX)"

lemma no_slash_nat_str: "CHR ''/'' \<notin> set (nat_str n)"
  using nat_str_digits [of "CHR ''/''" n] by (auto simp: is_digit_def)

lemma slash_number_inj: "b @ ''/'' @ nat_str k = b' @ ''/'' @ nat_str k' \<Longrightarrow> k = k'"
proof -
  have tw: "takeWhile (\<lambda>c. c \<noteq> CHR ''/'') (rev (b @ ''/'' @ nat_str k)) = rev (nat_str k)" for b k
    using no_slash_nat_str [of k] by (simp, subst takeWhile_append2) auto
  assume "b @ ''/'' @ nat_str k = b' @ ''/'' @ nat_str k'"
  then have "rev (nat_str k) = rev (nat_str k')" using tw by metis
  then show "k = k'" by (simp add: nat_str_inj)
qed

lemma dropWhile_hd: "xs = [] \<or> \<not> P (hd xs) \<Longrightarrow> dropWhile P xs = xs"
  by (cases xs) auto

lemma str_strip_id: "\<not> is_ws (hd s) \<Longrightarrow> \<not> is_ws (last s) \<Longrightarrow> str_strip s = s"
  by (simp add: str_strip_def str_lstrip_def str_rstrip_def dropWhile_hd hd_rev)

lemma mem_ref_own: "resolver_ref (mem_ref t sc n k)"
proof -
  have "last (mem_ref t sc n k) \<in> set (nat_str k)" by (simp add: mem_ref_def)
  then have "\<not> is_ws (last (mem_ref t sc n k))"
    using nat_str_digits by (fastforce simp: is_ws_def is_digit_def Let_def)
  moreover have "mem_ref t sc n k \<noteq> []" "\<not> is_ws (hd (mem_ref t sc n k))"
    by (simp_all add: mem_ref_def is_ws_def)
  ultimately have "str_strip (mem_ref t sc n k) = mem_ref t sc n k" by (intro str_strip_id)
  then show ?thesis
    by (simp add: resolver_ref_def)
      (simp add: mem_ref_def startswith_def ENV_SECRET_REF_PREFIX_def FILE_SECRET_REF_PREFIX_def)
qed

lemma mem_ref_fresh: "mem_ok (InMemorySecretResolver store n) \<Longrightarrow> n < k \<Longrightarrow>
    mem_ref t sc nm k \<notin> set (dict_keys store)"
proof
  assume ok: "mem_ok (InMemorySecretResolver store n)" and "n < k"
    and "mem_ref t sc nm k \<in> set (dict_keys store)"
  then obtain b j where eq: "mem_ref t sc nm k = b @ ''/'' @ nat_str j" and "j \<le> n"
    by (auto simp: mem_ok_def)
  have "mem_ref t sc nm k = (''secretref://mem/'' @ int_str t @ ''/'' @ sc @ ''/'' @ nm) @ ''/'' @ nat_str k"
    by (simp add: mem_ref_def)
  with eq have "k = j" by (metis slash_number_inj)
  with \<open>j \<le> n\<close> \<open>n < k\<close> show False by simp
qed

lemma mem_ok_put:
  assumes "mem_ok (InMemorySecretResolver store n)"
  shows "mem_ok (InMemorySecretResolver (AList.update (mem_ref t sc nm (n + 1)) v store) (n + 1))"
proof -
  have "mem_ref t sc nm (n + 1) =
      (''secretref://mem/'' @ int_str t @ ''/'' @ sc @ ''/'' @ nm) @ ''/'' @ nat_str (n + 1)"
    by (simp add: mem_ref_def)
  moreover have "\<exists>b k. ref = b @ ''/'' @ nat_str k \<and> k \<le> n + 1" if "ref \<in> set (dict_keys store)" for ref
    using assms that by (fastforce simp: mem_ok_def)
  ultimately show ?thesis
    unfolding mem_ok_def by (simp only: resolver.case set_keys_update) (metis insertE order_refl)
qed

interpretation mem: secret_store "resolver_put H" resolver_ref mem_ok resolver_get for H
proof unfold_locales
  fix s s' :: resolver and t sc n v ref r
  assume ok: "mem_ok s" and put: "resolver_put H s t sc n v = (ref, s')"
  from ok obtain store k where s: "s = InMemorySecretResolver store k"
    by (cases s) (auto simp: mem_ok_def)
  from put s have ref: "ref = mem_ref t sc n (k + 1)"
    and s': "s' = InMemorySecretResolver (AList.update ref v store) (k + 1)" by (auto simp: Let_def)
  show "mem_ok s'" using mem_ok_put ok s s' ref by simp
  show "resolver_ref ref" by (simp add: ref mem_ref_own)
  show "resolver_get s' r = (if r = ref then Some v else resolver_get s r)"
    using s s' by (simp add: update_conv')
  show "resolver_get s ref = None"
    using mem_ref_fresh [of store k "k + 1"] ok s ref by (simp add: map_of_None_keys)
qed

interpretation null: opaque_store "resolver_put H" "\<lambda>r. r \<noteq> []" "\<lambda>r. r = NullSecretResolver" for H
  by unfold_locales auto

lemma resolve_own: "resolver_ref ref \<Longrightarrow> resolve_opaque_ref env files r ref = resolver_get r ref"
  by (simp add: resolver_ref_def resolve_opaque_ref_def)

lemma map_of_own: "\<forall>r \<in> snd ` set refs. P r \<Longrightarrow> map_of refs n = Some r \<Longrightarrow> P r"
  by (force dest: map_of_SomeD)

section \<open>Properties\<close>

text \<open>C31 Classification fails closed: of the fields of a payload for a provider, \<open>config_json\<close> keeps only
  those on the provider's allow-list that are neither a credential name nor a URL that carries a
  token, and every field of the payload is either kept there or moved to the secrets.\<close>

theorem classify_fails_closed:
  "list_all (\<lambda>(k, v). (k, v) \<in> set payload \<and> norm k \<in> set (the (allowed_config None (Some p)))
       \<and> norm k \<notin> set SECRET_FIELD_NAMES \<and> \<not> (looks_like_url v \<and> webhook_url_is_secret ip (py_str v)))
     (sp_config (classify_payload H ip payload None (Some p)))
   \<and> list_all (\<lambda>(k, v). k \<in> set (dict_keys (sp_config (classify_payload H ip payload None (Some p))))
       \<or> norm k \<in> set (dict_keys (sp_values (classify_payload H ip payload None (Some p))))) payload"
proof -
  let ?sp = "classify_payload H ip payload None (Some p)"
  have ok: "split_ok ip (allowed_config None (Some p)) payload ?sp" by (rule classify_payload_ok)
  then have "list_all (\<lambda>(k, v). (k, v) \<in> set payload \<and> field_kind ip (allowed_config None (Some p)) (norm k) v = None)
      (sp_config ?sp)"
    by (auto simp: split_ok_def list_all_iff)
  moreover have "norm k \<in> set (the (allowed_config None (Some p))) \<and> norm k \<notin> set SECRET_FIELD_NAMES
      \<and> \<not> (looks_like_url v \<and> webhook_url_is_secret ip (py_str v))"
    if "field_kind ip (allowed_config None (Some p)) (norm k) v = None" for k v
    using that by (auto simp: field_kind_def allowed_config_def split: if_splits)
  moreover from ok have "list_all (\<lambda>(k, v). k \<in> set (dict_keys (sp_config ?sp))
       \<or> norm k \<in> set (dict_keys (sp_values ?sp))) payload"
    by (auto simp: split_ok_def list_all_iff split: if_splits)
  ultimately show ?thesis by (auto simp: list_all_iff)
qed

text \<open>Every value the classification splits off is resolved again through the reference stored under its name.\<close>

lemma persist_resolves:
  assumes "mem_ok r" "persist_secrets H r t scope (classify_payload H ip payload ct p) = (refs, sp, r')"
    and "map_of (sp_values (classify_payload H ip payload ct p)) n = Some v"
  shows "resolve_secret env files r' refs n = Some v \<and> sp_values sp = []"
proof -
  let ?sp = "classify_payload H ip payload ct p"
  have pv: "persist_values (resolver_put H) t scope (sp_values ?sp) r = (refs, r')" and "sp_values sp = []"
    using assms(2) by (auto simp: persist_secrets_def split: prod.splits)
  have "distinct (dict_keys (sp_values ?sp))"
    using classify_payload_ok [of ip ct p payload H] by (simp add: split_ok_def)
  from mem.persist_get [OF assms(1) this pv] assms(3)
  obtain ref where ref: "map_of refs n = Some ref" "resolver_get r' ref = Some v" by blast
  have "resolver_ref ref"
    using mem.persist_own [OF assms(1) pv] ref(1) by (intro map_of_own [of refs resolver_ref n ref]) auto
  with ref have "resolve_secret env files r' refs n = Some v"
    by (simp add: resolve_secret_def resolve_own) (simp add: resolver_ref_def)
  with \<open>sp_values sp = []\<close> show ?thesis by simp
qed

text \<open>The URL heuristic reads the path and the query only, and only of a plain string: of three payloads
  with the same token in a URL, the one in the query is moved to the secrets, the one in the fragment
  and the one inside a list stay in \<open>config_json\<close> in clear.\<close>

theorem url_heuristic_gap:
  "sp_config (classify_payload H ip [(''api_base_url'', JStr ''https://h.io/?access_token=A'')] None (Some ''telegram'')) = []
   \<and> sp_config (classify_payload H ip [(''api_base_url'', JStr ''https://h.io/#access_token=A'')] None (Some ''telegram''))
        = [(''api_base_url'', JStr ''https://h.io/#access_token=A'')]
   \<and> sp_config (classify_payload H ip [(''allowed_updates'', JList [JStr ''https://h.io/?access_token=A''])] None (Some ''telegram''))
        = [(''allowed_updates'', JList [JStr ''https://h.io/?access_token=A''])]"
proof -
  have "field_kind ip (allowed_config None (Some ''telegram'')) ''api_base_url'' (JStr ''https://h.io/?access_token=A'')
      = Some ''webhook_url_with_token''" by code_simp
  moreover have "field_kind ip (allowed_config None (Some ''telegram'')) ''api_base_url'' (JStr ''https://h.io/#access_token=A'') = None"
    by code_simp
  moreover have "field_kind ip (allowed_config None (Some ''telegram'')) ''allowed_updates'' (JList [JStr ''https://h.io/?access_token=A'']) = None"
    by code_simp
  moreover have "norm ''api_base_url'' = ''api_base_url''" "norm ''allowed_updates'' = ''allowed_updates''" by code_simp+
  ultimately show ?thesis
    by (simp add: classify_payload_def classify_field_def add_secret_def Let_def)
qed

end
