(* ===== verification/Verify.thy ===== *)
theory Verify
  imports Prelude
begin

text \<open>
  The TF-VERIFY handshake of \<open>app/collection/verify.py\<close>. The pattern
  \<^verbatim>\<open>\bTF-VERIFY-([A-Za-z0-9_-]{8,128})\b\<close> is searched from the left; at each position the nonce is
  the longest run of nonce characters, at most 128 and at least 8 of them, that ends at a word
  boundary. SHA-256 is the parameter \<open>H\<close>, from a text to its hexadecimal digest.
\<close>

definition is_word :: "char \<Rightarrow> bool" where
  "is_word c = (is_alnum c \<or> c = CHR ''_''
     \<or> (let n = of_char c :: nat in n \<in> {170, 178, 179, 181, 185, 186, 188, 189, 190}
          \<or> (192 \<le> n \<and> n \<le> 214) \<or> (216 \<le> n \<and> n \<le> 246) \<or> (248 \<le> n \<and> n \<le> 255)))"

definition nonce_char :: "char \<Rightarrow> bool" where
  "nonce_char c = (is_alnum c \<or> c = CHR ''_'' \<or> c = CHR ''-'')"

definition VERIFY_PREFIX :: string where
  "VERIFY_PREFIX = ''TF-VERIFY-''"

text \<open>Is there a word boundary after the first \<open>n\<close> characters of \<open>s\<close> (\<open>0 < n\<close>)?\<close>

definition boundary_after :: "nat \<Rightarrow> string \<Rightarrow> bool" where
  "boundary_after n s = (is_word (s ! (n - 1)) \<noteq> (n < length s \<and> is_word (s ! n)))"

definition nonce_run :: "string \<Rightarrow> nat" where
  "nonce_run s = min 128 (length (takeWhile nonce_char s))"

definition match_nonce :: "string \<Rightarrow> string option" where
  "match_nonce s = map_option (\<lambda>n. take n s)
     (find (\<lambda>n. boundary_after n s) (rev [8..<Suc (nonce_run s)]))"

text \<open>A match at the start of \<open>s\<close>; the flag says whether the character before is a word character.\<close>

definition match_here :: "bool \<Rightarrow> string \<Rightarrow> string option" where
  "match_here prev s =
     (if \<not> prev \<and> startswith s VERIFY_PREFIX then match_nonce (drop (length VERIFY_PREFIX) s)
      else None)"

fun search_nonce :: "bool \<Rightarrow> string \<Rightarrow> string option" where
  "search_nonce prev [] = None"
| "search_nonce prev (c # s) =
     (case match_here prev (c # s) of
        Some n \<Rightarrow> Some n
      | None \<Rightarrow> search_nonce (is_word c) s)"

definition parse_verify_nonce :: "string option \<Rightarrow> string option" where
  "parse_verify_nonce text = (case text of
       None \<Rightarrow> None
     | Some t \<Rightarrow> if t = [] then None else search_nonce False t)"

definition is_control_message :: "string option \<Rightarrow> bool" where
  "is_control_message text = (parse_verify_nonce text \<noteq> None)"

definition nonce_hash :: "(string \<Rightarrow> string) \<Rightarrow> string \<Rightarrow> string" where
  "nonce_hash H nonce = H nonce"

text \<open>\<open>_VERIFY_RE.sub\<close>: every match, left to right, is replaced by a prefix of the nonce's hash.\<close>

function redact_nonces :: "(string \<Rightarrow> string) \<Rightarrow> bool \<Rightarrow> string \<Rightarrow> string" where
  "redact_nonces H prev [] = []"
| "redact_nonces H prev (c # s) =
     (case match_here prev (c # s) of
        Some n \<Rightarrow> ''TF-VERIFY-<nonce:'' @ take 12 (nonce_hash H n) @ ''>''
                 @ redact_nonces H (is_word (last n))
                     (drop (length VERIFY_PREFIX + length n) (c # s))
      | None \<Rightarrow> c # redact_nonces H (is_word c) s)"
  by pat_completeness auto
termination
  by (relation "measure (\<lambda>(H, prev, s). length s)") (auto simp: VERIFY_PREFIX_def)

definition redact_for_log :: "(string \<Rightarrow> string) \<Rightarrow> string option \<Rightarrow> string" where
  "redact_for_log H text = (case text of None \<Rightarrow> [] | Some t \<Rightarrow> redact_nonces H False t)"

section \<open>What a match is\<close>

lemma match_nonce_SomeD:
  assumes "match_nonce s = Some n"
  shows "8 \<le> length n \<and> length n \<le> 128 \<and> list_all nonce_char n \<and> n = take (length n) s
    \<and> boundary_after (length n) s"
proof -
  from assms obtain k where k: "find (\<lambda>n. boundary_after n s) (rev [8..<Suc (nonce_run s)]) = Some k"
    and n: "n = take k s" unfolding match_nonce_def by auto
  from find_SomeD [OF k] have kb: "8 \<le> k" "k \<le> 128" "k \<le> length (takeWhile nonce_char s)"
    and b: "boundary_after k s"
    by (auto simp: nonce_run_def split: if_splits)
  then have len: "length n = k"
    using n length_takeWhile_le [of nonce_char s] by simp
  have "take k s = take k (takeWhile nonce_char s)"
    using kb(3) by (metis takeWhile_eq_take take_take min.absorb1)
  then have "list_all nonce_char n"
    using n by (auto simp: list_all_iff dest: in_set_takeD set_takeWhileD)
  with kb len b n show ?thesis by simp
qed

lemma search_nonce_SomeD:
  "search_nonce p s = Some n \<Longrightarrow> 8 \<le> length n \<and> length n \<le> 128 \<and> list_all nonce_char n"
  by (induction p s rule: search_nonce.induct)
    (auto simp: match_here_def split: option.splits if_splits dest!: match_nonce_SomeD)

lemma nth_last: "8 \<le> length n \<Longrightarrow> n ! (length n - 1) = last n"
  by (cases "n = []") (simp_all add: last_conv_nth)

text \<open>A nonce that reaches its end and stops at a word character is found whole.\<close>

lemma match_nonce_whole:
  assumes "list_all nonce_char n" "8 \<le> length n" "length n \<le> 128" "is_word (last n)"
  shows "match_nonce n = Some n"
proof -
  have tw: "takeWhile nonce_char n = n" using assms(1) by (simp add: takeWhile_eq_all_conv list_all_iff)
  have "boundary_after (length n) n"
    using assms(4) nth_last [OF assms(2)] by (simp add: boundary_after_def)
  moreover have "rev [8..<Suc (nonce_run n)] = length n # rev [8..<length n]"
    unfolding nonce_run_def tw using assms(2,3) by (simp add: min_absorb2)
  ultimately show ?thesis by (simp add: match_nonce_def)
qed

lemma search_prefixed:
  assumes "match_nonce n = Some m"
  shows "search_nonce False (VERIFY_PREFIX @ n) = Some m"
proof -
  have split: "VERIFY_PREFIX @ n = CHR ''T'' # tl VERIFY_PREFIX @ n"
    by (simp add: VERIFY_PREFIX_def)
  have "match_here False (VERIFY_PREFIX @ n) = Some m"
    using assms by (simp add: match_here_def startswith_def)
  then show ?thesis
    unfolding split search_nonce.simps by simp
qed

lemma parse_issued:
  assumes "list_all nonce_char n" "8 \<le> length n" "length n \<le> 128" "last n \<noteq> CHR ''-''"
  shows "parse_verify_nonce (Some (VERIFY_PREFIX @ n)) = Some n"
proof -
  have "last n \<in> set n" using assms(2) by (cases n) auto
  with assms(1,4) have "is_word (last n)"
    by (auto simp: list_all_iff nonce_char_def is_word_def)
  with assms have "search_nonce False (VERIFY_PREFIX @ n) = Some n"
    by (intro search_prefixed match_nonce_whole)
  moreover have "VERIFY_PREFIX @ n \<noteq> []" by (simp add: VERIFY_PREFIX_def)
  ultimately show ?thesis by (simp add: parse_verify_nonce_def)
qed

text \<open>No match ends at the end of the text on a hyphen.\<close>

lemma match_nonce_not_hyphen_end:
  assumes "match_nonce s = Some n" "last s = CHR ''-''"
  shows "length n < length s"
proof (rule ccontr)
  assume "\<not> length n < length s"
  with match_nonce_SomeD [OF assms(1)] have b: "boundary_after (length s) s"
    and l: "8 \<le> length s" by (auto dest: arg_cong [where f = length])
  then have "is_word (last s)" using nth_last [OF l] by (simp add: boundary_after_def)
  with assms(2) show False
    by (simp add: is_word_def is_alnum_def is_alpha_def is_upper_def is_lower_def is_digit_def)
qed

lemma search_not_hyphen_end:
  assumes "search_nonce p s = Some n" "last s = CHR ''-''"
  shows "length n < length s - length VERIFY_PREFIX"
  using assms
proof (induction p s rule: search_nonce.induct)
  case (1 prev)
  then show ?case by simp
next
  case (2 prev c s)
  show ?case
  proof (cases "match_here prev (c # s)")
    case None
    with 2 have "s \<noteq> []" "search_nonce (is_word c) s = Some n" by auto
    with 2 None have "length n < length s - length VERIFY_PREFIX" by simp
    then show ?thesis by simp
  next
    case (Some m)
    with 2 have m: "m = n" "match_nonce (drop (length VERIFY_PREFIX) (c # s)) = Some n"
      by (auto simp: match_here_def split: if_splits)
    let ?r = "drop (length VERIFY_PREFIX) (c # s)"
    have "?r \<noteq> []" using match_nonce_SomeD [OF m(2)] by auto
    with 2(3) have "last ?r = CHR ''-''" by (simp add: last_drop)
    with match_nonce_not_hyphen_end [OF m(2)] show ?thesis by simp
  qed
qed

section \<open>Properties\<close>

text \<open>The handshake text an operator posts is read back: whatever surrounds nothing but the issued nonce
  itself, the parser returns it, provided the nonce is one the pattern admits and does not end in a
  hyphen.\<close>

theorem verify_roundtrip:
  assumes "list_all nonce_char n" "8 \<le> length n" "length n \<le> 128" "last n \<noteq> CHR ''-''"
  shows "parse_verify_nonce (Some (VERIFY_PREFIX @ n)) = Some n \<and> is_control_message (Some (VERIFY_PREFIX @ n))"
  using parse_issued [OF assms] by (simp add: is_control_message_def)

theorem verify_roundtrip_witness: "parse_verify_nonce (Some (VERIFY_PREFIX @ ''aB3_-xyzQ'')) = Some ''aB3_-xyzQ''"
  using verify_roundtrip [of "''aB3_-xyzQ''"] by (simp add: nonce_char_def is_alnum_def is_alpha_def is_upper_def is_lower_def is_digit_def)

text \<open>A nonce that ends in a hyphen is never read back: the pattern ends at a word boundary, so such an
  issued handshake cannot be confirmed as it was shown.\<close>

theorem verify_hyphen_lost:
  assumes "n \<noteq> []" "last n = CHR ''-''"
  shows "parse_verify_nonce (Some (VERIFY_PREFIX @ n)) \<noteq> Some n"
proof
  assume "parse_verify_nonce (Some (VERIFY_PREFIX @ n)) = Some n"
  then have "search_nonce False (VERIFY_PREFIX @ n) = Some n"
    by (simp add: parse_verify_nonce_def VERIFY_PREFIX_def)
  from search_not_hyphen_end [OF this] assms show False by simp
qed

theorem verify_hyphen_lost_witness:
  "parse_verify_nonce (Some (VERIFY_PREFIX @ ''abcdefghijklmno-'')) \<noteq> Some ''abcdefghijklmno-''"
  using verify_hyphen_lost [of "''abcdefghijklmno-''"] by simp

end
