(* ===== verification/Contracts.thy ===== *)
theory Contracts
  imports Prelude
begin

text \<open>
  The provider-neutral shapes of \<open>app/collection/contracts.py\<close>. The providers themselves (the
  Enterprise package) are outside the repository: \<open>provider_ops\<close> is the protocol the worker calls,
  as a record of functions the development is parametric in. A call may raise.
\<close>

record provider_identity =
  pi_provider :: string
  pi_account_ref :: string
  pi_display_name :: string
  pi_username :: string

record normalized_update =
  nu_provider :: string
  nu_external_id :: string
  nu_kind :: string
  nu_occurred_at :: string
  nu_normalized :: "json dict"
  nu_redacted_text :: string
  nu_raw_fingerprint :: string
  nu_redaction_profile :: string
  nu_content_version :: int
  nu_is_control :: bool
  nu_control_nonce_hash :: string

record rejection_record =
  rj_provider :: string
  rj_reason_code :: string
  rj_external_id_hash :: string
  rj_sanitized_detail :: string
  rj_context :: "json dict"

record provider_diagnostic =
  pd_code :: string
  pd_state :: string
  pd_retry_after_seconds :: "int option"
  pd_http_status :: "int option"

record provider_health =
  ph_state :: string
  ph_checked_at :: string
  ph_last_success_at :: string
  ph_last_event_at :: string
  ph_lag_seconds :: "int option"
  ph_error_code :: string
  ph_retry_after_seconds :: "int option"

record connection_test_result =
  ct_ok :: bool
  ct_identity :: "provider_identity option"
  ct_health :: provider_health
  ct_diagnostic :: "provider_diagnostic option"

record collection_batch =
  cb_updates :: "json dict list"
  cb_next_cursor :: "string option"
  cb_health :: provider_health

text \<open>What a provider raises: the attributes \<open>runtime.provider_diagnostic\<close> looks at.\<close>

record provider_error =
  pe_code :: "json option"
  pe_state :: "json option"
  pe_retry_after_seconds :: json
  pe_http_status :: json

record provider_ops =
  po_poll :: "string \<Rightarrow> string option \<Rightarrow> json dict \<Rightarrow> provider_error + collection_batch"
  po_source_ref :: "json dict \<Rightarrow> string res"
  po_normalize :: "json dict \<Rightarrow> normalized_update res"

end
