(* ===== verification/Service.thy ===== *)
theory Service
  imports Store Registry Secrets Outbox Verify Contracts
begin

text \<open>
  The collection and alerting services of \<open>app/collection/service.py\<close>. An operation takes the
  database its session sees (flushed rows) and yields an exception, after which the caller closes
  the session without committing, or its result and the database after its flush. \<open>now\<close> is what
  \<open>utcnow()\<close> returns, \<open>regs\<close> the registries; the secret resolver is threaded explicitly, because
  it is not part of the transaction.
\<close>

section \<open>Lookups\<close>

definition require_registered_provider :: "('p, 'c, 'k) registries \<Rightarrow> string \<Rightarrow> string res" where
  "require_registered_provider regs provider =
     (let key = norm provider in
      if contains key (providers regs) then Inr key else Inl UnknownProvider)"

definition require_registered_alert_channel :: "('p, 'c, 'k) registries \<Rightarrow> string \<Rightarrow> string res" where
  "require_registered_alert_channel regs channel_type =
     (let key = norm channel_type in
      if contains key (alert_channels regs) then Inr key else Inl UnknownChannelType)"

definition get_connection :: "int \<Rightarrow> int \<Rightarrow> db \<Rightarrow> connection res" where
  "get_connection tenant_id connection_id d =
     (case find (\<lambda>c. cn_id c = connection_id \<and> cn_tenant_id c = tenant_id \<and> cn_deleted_at c = None)
             (db_connections d) of
        None \<Rightarrow> Inl (NotFound ''connection not found'') | Some c \<Rightarrow> Inr c)"

definition get_source :: "int \<Rightarrow> int \<Rightarrow> db \<Rightarrow> source res" where
  "get_source tenant_id source_id d =
     (case find (\<lambda>s. sr_id s = source_id \<and> sr_tenant_id s = tenant_id \<and> sr_deleted_at s = None)
             (db_sources d) of
        None \<Rightarrow> Inl (NotFound ''source not found'') | Some s \<Rightarrow> Inr s)"

definition get_channel :: "int \<Rightarrow> int \<Rightarrow> db \<Rightarrow> channel res" where
  "get_channel tenant_id channel_id d =
     (case find (\<lambda>c. ch_id c = channel_id \<and> ch_tenant_id c = tenant_id \<and> ch_deleted_at c = None)
             (db_channels d) of
        None \<Rightarrow> Inl (NotFound ''alert channel not found'') | Some c \<Rightarrow> Inr c)"

definition get_outbox :: "int \<Rightarrow> int \<Rightarrow> db \<Rightarrow> outbox_row res" where
  "get_outbox tenant_id outbox_id d =
     (case find (\<lambda>r. ob_id r = outbox_id \<and> ob_tenant_id r = tenant_id) (db_outbox d) of
        None \<Rightarrow> Inl (NotFound ''outbox row not found'') | Some r \<Rightarrow> Inr r)"

text \<open>The update-and-flush every mutating service ends with.\<close>

definition flushed :: "'a \<Rightarrow> db \<Rightarrow> ('a \<times> db) res" where
  "flushed x d = bindr (flush d) (\<lambda>d'. Inr (x, d'))"

lemma flushed_Inr [simp]: "flushed x d = Inr (y, d') \<longleftrightarrow> y = x \<and> d' = d \<and> indexes_ok d"
  by (auto simp: flushed_def)

section \<open>Connections\<close>

fun add_opaque_refs :: "string dict \<Rightarrow> string dict \<Rightarrow> json dict \<Rightarrow> (string dict \<times> json dict) res" where
  "add_opaque_refs [] refs metadata = Inr (refs, metadata)"
| "add_opaque_refs ((raw_name, raw_ref) # rest) refs metadata =
     (let key = norm raw_name in
      bindr (validate_opaque_ref raw_ref) (\<lambda>ref.
        add_opaque_refs rest (AList.update key ref refs)
          (AList.update key (JObj [(''present'', JBool True), (''kind'', JStr ''opaque_ref''),
             (''masked'', JStr ''***'')]) metadata)))"

definition create_connection ::
  "(string \<Rightarrow> string) \<Rightarrow> (string \<Rightarrow> bool) \<Rightarrow> ('p, 'c, 'k) registries \<Rightarrow> time \<Rightarrow> int \<Rightarrow> string \<Rightarrow> string
    \<Rightarrow> json dict \<Rightarrow> string dict \<Rightarrow> string option \<Rightarrow> resolver \<Rightarrow> db \<Rightarrow> (connection \<times> db) res \<times> resolver" where
  "create_connection H ipv6_ok regs now tenant_id provider name payload secret_refs actor r d =
     (case require_registered_provider regs provider of
        Inl e \<Rightarrow> (Inl e, r)
      | Inr provider \<Rightarrow>
          (let split = classify_payload H ipv6_ok payload None (Some provider);
               (refs, split, r') = persist_secrets H r tenant_id (''connection:'' @ name) split
           in (bindr (add_opaque_refs secret_refs refs (secrets_metadata split)) (\<lambda>(refs, metadata).
                 let conn = (blank_connection now)\<lparr>cn_id := next_id cn_id (db_connections d),
                       cn_tenant_id := tenant_id, cn_provider := provider, cn_name := name,
                       cn_enabled := False, cn_status := Conn_pending,
                       cn_config_json := sp_config split, cn_secret_refs := refs,
                       cn_secrets_metadata := metadata, cn_created_by := actor\<rparr>
                 in flushed conn (d\<lparr>db_connections := db_connections d @ [conn]\<rparr>)),
               r')))"

definition resolve_connection_secret ::
  "(string \<Rightarrow> string option) \<Rightarrow> (string \<Rightarrow> string option) \<Rightarrow> resolver \<Rightarrow> connection \<Rightarrow> string \<Rightarrow> string option" where
  "resolve_connection_secret env secret_file r conn name =
     resolve_secret env secret_file r (cn_secret_refs conn) name"

definition identity_clash :: "int \<Rightarrow> provider_identity \<Rightarrow> db \<Rightarrow> bool" where
  "identity_clash connection_id identity d =
     list_ex (\<lambda>c. cn_provider c = pi_provider identity
         \<and> cn_provider_account_ref c = Some (pi_account_ref identity)
         \<and> cn_enabled c \<and> cn_deleted_at c = None \<and> cn_id c \<noteq> connection_id) (db_connections d)"

definition bound_connection :: "time \<Rightarrow> provider_identity \<Rightarrow> bool \<Rightarrow> connection \<Rightarrow> connection" where
  "bound_connection now identity enable conn =
     (let c1 = conn\<lparr>cn_provider_account_ref := Some (pi_account_ref identity)\<rparr>;
          c2 = (if pi_username identity \<noteq> []
                then c1\<lparr>cn_config_json := AList.update ''bot_username'' (JStr (pi_username identity)) (cn_config_json c1)\<rparr>
                else c1);
          c3 = (if enable then c2\<lparr>cn_enabled := True, cn_status := Conn_active\<rparr> else c2)
      in c3\<lparr>cn_updated_at := now\<rparr>)"

definition bind_bot_identity ::
  "time \<Rightarrow> int \<Rightarrow> int \<Rightarrow> provider_identity \<Rightarrow> bool \<Rightarrow> db \<Rightarrow> (connection \<times> db) res" where
  "bind_bot_identity now tenant_id connection_id identity enable d =
     bindr (get_connection tenant_id connection_id d) (\<lambda>conn.
       if norm (pi_provider identity) \<noteq> cn_provider conn then Inl ProviderMismatch
       else if enable \<and> identity_clash connection_id identity d then Inl IdentityConflict
       else flushed (bound_connection now identity enable conn)
              (upd_connection (cn_id conn) (bound_connection now identity enable) d))"

definition revoke_connection ::
  "time \<Rightarrow> int \<Rightarrow> int \<Rightarrow> string option \<Rightarrow> db \<Rightarrow> (connection \<times> db) res" where
  "revoke_connection now tenant_id connection_id actor d =
     bindr (get_connection tenant_id connection_id d) (\<lambda>conn.
       let f = (\<lambda>c. c\<lparr>cn_enabled := False, cn_status := Conn_revoked, cn_revoked_at := Some now,
                      cn_revoked_by := actor, cn_updated_at := now\<rparr>)
       in flushed (f conn) (upd_connection (cn_id conn) f d))"

definition soft_delete_connection ::
  "time \<Rightarrow> int \<Rightarrow> int \<Rightarrow> string option \<Rightarrow> db \<Rightarrow> (connection \<times> db) res" where
  "soft_delete_connection now tenant_id connection_id actor d =
     bindr (get_connection tenant_id connection_id d) (\<lambda>conn.
       let f = (\<lambda>c. c\<lparr>cn_enabled := False, cn_status := Conn_revoked,
                      cn_revoked_at := (if cn_revoked_at c = None then Some now else cn_revoked_at c),
                      cn_revoked_by := actor, cn_deleted_at := Some now, cn_deleted_by := actor,
                      cn_updated_at := now\<rparr>)
       in flushed (f conn) (upd_connection (cn_id conn) f d))"

definition list_connections :: "int \<Rightarrow> string option \<Rightarrow> db \<Rightarrow> connection list" where
  "list_connections tenant_id provider d =
     sort_key cn_id (filter (\<lambda>c. cn_tenant_id c = tenant_id \<and> cn_deleted_at c = None
       \<and> (case provider of None \<Rightarrow> True | Some p \<Rightarrow> p = [] \<or> cn_provider c = str_lower p)) (db_connections d))"

definition set_connection_enabled ::
  "time \<Rightarrow> int \<Rightarrow> int \<Rightarrow> bool \<Rightarrow> db \<Rightarrow> (connection \<times> db) res" where
  "set_connection_enabled now tenant_id connection_id enabled d =
     bindr (get_connection tenant_id connection_id d) (\<lambda>conn.
       if enabled \<and> (case cn_provider_account_ref conn of None \<Rightarrow> True | Some a \<Rightarrow> a = [])
       then Inl (ChannelNotReady ''connection identity must be verified before enabling'')
       else let f = (\<lambda>c. c\<lparr>cn_enabled := enabled,
                           cn_status := (if enabled then Conn_active else Conn_pending),
                           cn_updated_at := now\<rparr>)
            in flushed (f conn) (upd_connection (cn_id conn) f d))"

definition connection_health :: "connection \<Rightarrow> json dict" where
  "connection_health conn = (case jget (cn_config_json conn) ''_health'' of
       JObj h \<Rightarrow> h | _ \<Rightarrow> [(''state'', JStr ''pending'')])"

definition HEALTH_KEYS :: "string list" where
  "HEALTH_KEYS = [''state'', ''checked_at'', ''last_success_at'', ''last_event_at'', ''lag_seconds'',
     ''error_code'', ''retry_after_seconds'', ''processed_updates'', ''deduplicated_updates'',
     ''rejected_updates'', ''ignored_updates'', ''persisted_events'', ''last_cycle_processed'',
     ''last_cycle_deduplicated'', ''last_cycle_rejected'', ''last_cycle_ignored'']"

definition merge_health :: "json dict \<Rightarrow> json dict \<Rightarrow> json dict" where
  "merge_health current health =
     foldl (\<lambda>merged (key, value).
              if key \<in> {''last_success_at'', ''last_event_at''} \<and> (value = JNull \<or> value = JStr [])
              then merged else AList.update key value merged)
       current (filter (\<lambda>kv. fst kv \<in> set HEALTH_KEYS) health)"

definition set_connection_health ::
  "time \<Rightarrow> int \<Rightarrow> int \<Rightarrow> json dict \<Rightarrow> db \<Rightarrow> (connection \<times> db) res" where
  "set_connection_health now tenant_id connection_id health d =
     bindr (get_connection tenant_id connection_id d) (\<lambda>conn.
       let f = (\<lambda>c. c\<lparr>cn_config_json := AList.update ''_health''
                          (JObj (merge_health (connection_health conn) health)) (cn_config_json c),
                      cn_updated_at := now\<rparr>)
       in flushed (f conn) (upd_connection (cn_id conn) f d))"

section \<open>Sources\<close>

definition create_source ::
  "time \<Rightarrow> int \<Rightarrow> int \<Rightarrow> string \<Rightarrow> string \<Rightarrow> string option \<Rightarrow> string option \<Rightarrow> db \<Rightarrow> (source \<times> db) res" where
  "create_source now tenant_id connection_id source_ref kind name actor d =
     bindr (get_connection tenant_id connection_id d) (\<lambda>conn.
       let src = (blank_source now)\<lparr>sr_id := next_id sr_id (db_sources d), sr_tenant_id := tenant_id,
             sr_connection_id := cn_id conn, sr_provider := cn_provider conn,
             sr_source_ref := source_ref, sr_kind := kind, sr_name := name, sr_enabled := False,
             sr_status := Src_pending, sr_created_by := actor\<rparr>
       in flushed src (d\<lparr>db_sources := db_sources d @ [src]\<rparr>))"

definition set_source_enabled :: "time \<Rightarrow> int \<Rightarrow> int \<Rightarrow> bool \<Rightarrow> db \<Rightarrow> (source \<times> db) res" where
  "set_source_enabled now tenant_id source_id enabled d =
     bindr (get_source tenant_id source_id d) (\<lambda>src.
       let f = (\<lambda>s. s\<lparr>sr_enabled := enabled,
                      sr_status := (if enabled then Src_active else Src_paused), sr_updated_at := now\<rparr>)
       in flushed (f src) (upd_source (sr_id src) f d))"

definition enable_source :: "time \<Rightarrow> int \<Rightarrow> int \<Rightarrow> db \<Rightarrow> (source \<times> db) res" where
  "enable_source now tenant_id source_id d = set_source_enabled now tenant_id source_id True d"

definition list_sources :: "int \<Rightarrow> int option \<Rightarrow> db \<Rightarrow> source list" where
  "list_sources tenant_id connection_id d =
     sort_key sr_id (filter (\<lambda>s. sr_tenant_id s = tenant_id \<and> sr_deleted_at s = None
       \<and> (case connection_id of None \<Rightarrow> True | Some c \<Rightarrow> sr_connection_id s = c)) (db_sources d))"

definition soft_delete_source ::
  "time \<Rightarrow> int \<Rightarrow> int \<Rightarrow> string option \<Rightarrow> db \<Rightarrow> (source \<times> db) res" where
  "soft_delete_source now tenant_id source_id actor d =
     bindr (get_source tenant_id source_id d) (\<lambda>src.
       let f = (\<lambda>s. s\<lparr>sr_enabled := False, sr_status := Src_revoked, sr_deleted_at := Some now,
                      sr_deleted_by := actor, sr_updated_at := now\<rparr>)
       in flushed (f src) (upd_source (sr_id src) f d))"

section \<open>TF-VERIFY test requests\<close>

record test_request_issued =
  ti_request_id :: int
  ti_nonce :: string
  ti_expires_at :: time

text \<open>\<open>nonce\<close> is what \<open>secrets.token_urlsafe(24)\<close> returned.\<close>

definition request_source_test ::
  "(string \<Rightarrow> string) \<Rightarrow> string \<Rightarrow> time \<Rightarrow> int \<Rightarrow> int \<Rightarrow> int option \<Rightarrow> int \<Rightarrow> string option \<Rightarrow> db
    \<Rightarrow> (test_request_issued \<times> db) res" where
  "request_source_test H nonce now tenant_id connection_id source_id ttl_minutes actor d =
     bindr (get_connection tenant_id connection_id d) (\<lambda>conn.
     bindr (case source_id of None \<Rightarrow> Inr None
            | Some sid \<Rightarrow> bindr (get_source tenant_id sid d) (\<lambda>source.
                if sr_connection_id source \<noteq> cn_id conn
                then Inl (TenantMismatch ''source belongs to a different connection'')
                else if sr_provider source \<noteq> cn_provider conn then Inl ProviderMismatch
                else Inr (Some (sr_id source)))) (\<lambda>src.
       let expires = now + ttl_minutes * 60 * 1000000;
           row = (blank_test_request now)\<lparr>tr_id := next_id tr_id (db_tests d),
             tr_tenant_id := tenant_id, tr_connection_id := cn_id conn, tr_source_id := src,
             tr_provider := cn_provider conn, tr_nonce_hash := H nonce, tr_status := T_awaiting,
             tr_requested_by := actor, tr_expires_at := Some expires\<rparr>
       in flushed \<lparr>ti_request_id = tr_id row, ti_nonce = nonce, ti_expires_at = expires\<rparr>
            (d\<lparr>db_tests := db_tests d @ [row]\<rparr>)))"

definition open_request :: "int \<Rightarrow> int \<Rightarrow> string \<Rightarrow> test_request \<Rightarrow> bool" where
  "open_request tenant_id connection_id nhash r =
     (tr_tenant_id r = tenant_id \<and> tr_connection_id r = connection_id \<and> tr_nonce_hash r = nhash
      \<and> tr_status r \<in> {T_pending, T_awaiting})"

definition find_matching_test_request ::
  "time \<Rightarrow> int \<Rightarrow> int \<Rightarrow> int option \<Rightarrow> string \<Rightarrow> db \<Rightarrow> (test_request option \<times> db) res" where
  "find_matching_test_request now tenant_id connection_id source_id nhash d =
     (case filter (open_request tenant_id connection_id nhash) (db_tests d) of
        [] \<Rightarrow> Inr (None, d)
      | [row] \<Rightarrow>
          if tr_source_id row \<noteq> None \<and> source_id \<noteq> None \<and> tr_source_id row \<noteq> source_id
          then Inr (None, d)
          else (case tr_expires_at row of
                  Some exp \<Rightarrow>
                    if exp < now
                    then flushed None (upd_test (tr_id row) (\<lambda>r. r\<lparr>tr_status := T_expired\<rparr>) d)
                    else Inr (Some row, d)
                | None \<Rightarrow> Inr (Some row, d))
      | _ \<Rightarrow> Inl OtherError)"

definition confirm_test_request ::
  "time \<Rightarrow> test_request \<Rightarrow> json dict \<Rightarrow> db \<Rightarrow> (test_request \<times> db) res" where
  "confirm_test_request now request telemetry d =
     (let f = (\<lambda>r. r\<lparr>tr_status := T_verified, tr_verified_at := Some now,
                     tr_telemetry_json := dict_merge (tr_telemetry_json r) telemetry\<rparr>)
      in flushed (f request) (upd_test (tr_id request) f d))"

section \<open>Properties\<close>

text \<open>A connection's credential is stored outside the database and comes back: after \<open>create_connection\<close>
  with an in-memory resolver, every value the payload's classification calls secret is resolved by
  \<open>resolve_connection_secret\<close> under its field name, and the row is the tenant's, disabled and pending.\<close>

theorem connection_secret_roundtrip:
  assumes "mem_ok r" "create_connection H ip regs now t provider name payload [] actor r d = (Inr (conn, d'), r')"
    and "map_of (sp_values (classify_payload H ip payload None (Some (norm provider)))) n = Some v"
  shows "resolve_connection_secret env files r' conn n = Some v
    \<and> conn \<in> set (db_connections d') \<and> cn_tenant_id conn = t \<and> \<not> cn_enabled conn"
proof -
  let ?sp = "classify_payload H ip payload None (Some (norm provider))"
  obtain refs sp r1 where p: "persist_secrets H r t (''connection:'' @ name) ?sp = (refs, sp, r1)"
    by (metis prod_cases3)
  from assms(2) p have "r' = r1" "cn_secret_refs conn = refs" "conn \<in> set (db_connections d')"
    "cn_tenant_id conn = t" "\<not> cn_enabled conn"
    by (auto simp: create_connection_def require_registered_provider_def Let_def split: if_splits)
  with persist_resolves [OF assms(1) p assms(3), of env files] show ?thesis
    by (simp add: resolve_connection_secret_def)
qed

theorem connection_secret_roundtrip_witness:
  "case create_connection id (\<lambda>_. False) \<lparr>providers = \<lparr>rg_kind = [], rg_items = [(''telegram'', ())]\<rparr>,
       classifiers = (new_registry [] :: unit registry), correlators = (new_registry [] :: unit registry),
       alert_channels = new_registry []\<rparr> 0 7 ''telegram'' ''main'' [(''bot_token'', JStr ''1:a'')] [] None
       (InMemorySecretResolver [] 0) empty_db of
     (Inl e, r') \<Rightarrow> False
   | (Inr (conn, d'), r') \<Rightarrow> resolve_connection_secret (\<lambda>_. None) (\<lambda>_. None) r' conn ''bot_token'' = Some ''1:a''"
proof -
  let ?regs = "\<lparr>providers = \<lparr>rg_kind = [], rg_items = [(''telegram'', ())]\<rparr>,
       classifiers = (new_registry [] :: unit registry), correlators = (new_registry [] :: unit registry),
       alert_channels = new_registry []\<rparr>"
  let ?c = "create_connection id (\<lambda>_. False) ?regs 0 7 ''telegram'' ''main'' [(''bot_token'', JStr ''1:a'')] [] None
       (InMemorySecretResolver [] 0) empty_db"
  have n: "norm ''telegram'' = ''telegram''" by code_simp
  have ok: "\<exists>conn d' r'. ?c = (Inr (conn, d'), r')"
    by (auto simp: create_connection_def require_registered_provider_def n contains_def Let_def empty_db_def dict_keys_def
      flushed_def flush_def indexes_ok_def unique_on_def split: prod.splits)
  then obtain conn d' r' where c: "?c = (Inr (conn, d'), r')" by blast
  have v: "map_of (sp_values (classify_payload id (\<lambda>_. False) [(''bot_token'', JStr ''1:a'')] None (Some (norm ''telegram'')))) ''bot_token''
    = Some ''1:a''" by code_simp
  have m: "mem_ok (InMemorySecretResolver [] 0)" by (simp add: mem_ok_def dict_keys_def)
  from connection_secret_roundtrip [OF m c v] c show ?thesis by simp
qed

end
