(* ===== verification/Promotion.thy ===== *)
theory Promotion
  imports Intelligence Service
begin

text \<open>
  The second half of \<open>app/collection/intelligence_analysis.py\<close>: what a classifier answers is
  sanitised (\<open>safe_result\<close>), bound to a target the host itself offered (\<open>bind_approved_target\<close>) and
  promoted into findings and cases (\<open>promote\<close>). Classifiers and correlators are the Enterprise
  package's: functions from a dictionary to an answer or an exception, found in the registries.
\<close>

section \<open>Python helpers\<close>

fun mapr :: "('a \<Rightarrow> 'b res) \<Rightarrow> 'a list \<Rightarrow> 'b list res" where
  "mapr f [] = Inr []"
| "mapr f (x # xs) = bindr (f x) (\<lambda>y. bindr (mapr f xs) (\<lambda>ys. Inr (y # ys)))"

text \<open>\<open>list(v)\<close> and \<open>dict(v)\<close> of a dynamically typed value, \<open>int(v or 0)\<close>.\<close>

definition py_iter :: "json \<Rightarrow> json list res" where
  "py_iter v = (case v of JList xs \<Rightarrow> Inr xs | JStr s \<Rightarrow> Inr (map (\<lambda>c. JStr [c]) s)
     | JObj d \<Rightarrow> Inr (map JStr (dict_keys d)) | _ \<Rightarrow> Inl TypeError)"

definition py_dict :: "json \<Rightarrow> json dict res" where
  "py_dict v = (case v of JObj d \<Rightarrow> Inr d | _ \<Rightarrow> Inl TypeError)"

definition int_or0 :: "json \<Rightarrow> int res" where
  "int_or0 v = py_int (jor v (JInt 0))"

definition opt_id :: "int option \<Rightarrow> json" where
  "opt_id i = (case i of None \<Rightarrow> JNull | Some n \<Rightarrow> JInt n)"

definition json_id :: "json \<Rightarrow> int option" where
  "json_id v = (case v of JInt i \<Rightarrow> Some i | _ \<Rightarrow> None)"

section \<open>Sanitising the classifier's answer\<close>

definition safe_list :: "json \<Rightarrow> json list" where
  "safe_list value = (case value of JList xs \<Rightarrow> take 20 xs | _ \<Rightarrow> [])"

definition str_items :: "nat \<Rightarrow> json \<Rightarrow> json" where
  "str_items n value = JList (map (\<lambda>x. JStr (take n (py_str x))) (safe_list value))"

definition clip :: "nat \<Rightarrow> json \<Rightarrow> string \<Rightarrow> json" where
  "clip n v dflt = JStr (take n (str_or v dflt))"

definition safe_target :: "json \<Rightarrow> json" where
  "safe_target target = (if truthy target then
     let t = jdict target in JObj
       [(''ref'', clip 100 (jget t ''ref'') []), (''kind'', clip 30 (jget t ''kind'') []),
        (''label'', clip 200 (jget t ''label'') []), (''brand_id'', jget t ''brand_id''),
        (''asset_id'', jget t ''asset_id''), (''asset_type'', clip 30 (jget t ''asset_type'') []),
        (''criticality'', clip 20 (jget t ''criticality'') [])]
     else JNull)"

definition safe_factor :: "json dict \<Rightarrow> json res" where
  "safe_factor item = bindr (int_or0 (jget item ''weight'')) (\<lambda>w. Inr (JObj
     [(''code'', clip 60 (jget item ''code'') []), (''weight'', JInt w),
      (''matched'', JBool (truthy (jget item ''matched''))),
      (''detail'', clip 200 (jget item ''detail'') [])]))"

definition clamp :: "int \<Rightarrow> int \<Rightarrow> int" where
  "clamp hi x = max 0 (min x hi)"

definition safe_result :: "json \<Rightarrow> json dict res" where
  "safe_result value = (case value of
     JObj v \<Rightarrow>
       (let target = jget v ''matched_target''; promotion = jget v ''promotion'' in
        if target \<noteq> JNull \<and> \<not> is_obj target
        then Inl (ValueError ''matched_target must be an object'')
        else if promotion \<noteq> JNull \<and> \<not> is_obj promotion
        then Inl (ValueError ''promotion must be an object'')
        else
          bindr (int_or0 (jget v ''score'')) (\<lambda>score.
          bindr (int_or0 (jget v ''context_event_count'')) (\<lambda>context_count.
          bindr (mapr (\<lambda>f. safe_factor (jdict f)) (filter is_obj (safe_list (jget v ''factors'')))) (\<lambda>factors.
          bindr (int_or0 (jget (jdict promotion) ''finding_threshold'')) (\<lambda>ft.
          bindr (int_or0 (jget (jdict promotion) ''case_threshold'')) (\<lambda>ct.
            Inr
              [(''schema'', JStr ''threatforge.intelligence.analysis.v1''),
               (''decision'', clip 60 (jget v ''decision'') ''informational''),
               (''score'', JInt (clamp 100 score)),
               (''confidence'', clip 20 (jget v ''confidence'') ''low''),
               (''severity'', clip 20 (jget v ''severity'') ''low''),
               (''threat_category'', clip 60 (jget v ''threat_category'') ''none''),
               (''correlation_family'', clip 60 (jor (jget v ''correlation_family'') (jget v ''threat_category'')) ''none''),
               (''matched_email_domains'', str_items 253 (jget v ''matched_email_domains'')),
               (''contextual_match'', JBool (truthy (jget v ''contextual_match''))),
               (''conversation_followup'', JBool (truthy (jget v ''conversation_followup''))),
               (''context_event_count'', JInt (clamp 50 context_count)),
               (''matched_target'', safe_target target),
               (''matched_target_terms'', str_items 120 (jget v ''matched_target_terms'')),
               (''matched_threat_terms'', str_items 120 (jget v ''matched_threat_terms'')),
               (''matched_intent_terms'', str_items 120 (jget v ''matched_intent_terms'')),
               (''negation'', JBool (truthy (jget v ''negation''))),
               (''authorized_context'', JBool (truthy (jget v ''authorized_context''))),
               (''informational_context'', JBool (truthy (jget v ''informational_context''))),
               (''factors'', JList factors),
               (''promotion'', JObj
                  [(''create_finding'', JBool (truthy (jget (jdict promotion) ''create_finding''))),
                   (''create_case'', JBool (truthy (jget (jdict promotion) ''create_case''))),
                   (''finding_threshold'', JInt ft), (''case_threshold'', JInt ct)])]))))))
   | _ \<Rightarrow> Inl (ValueError ''classifier result must be an object''))"

text \<open>\<open>result["promotion"][k] = v\<close>.\<close>

definition set_promotion :: "string \<Rightarrow> json \<Rightarrow> json dict \<Rightarrow> json dict" where
  "set_promotion k v result = AList.update ''promotion''
     (JObj (AList.update k v (jdict (jget result ''promotion'')))) result"

definition approved_terms :: "json dict \<Rightarrow> string dict" where
  "approved_terms approved =
     foldl (\<lambda>d x. AList.update (casefold (py_str x)) (take 120 (py_str x)) d) []
       (filter is_str (jlist (jget approved ''terms'')))"

definition bind_approved_target :: "json dict \<Rightarrow> json dict \<Rightarrow> json dict" where
  "bind_approved_target result envelope =
     (case jget result ''matched_target'' of
        JObj target \<Rightarrow>
          (let ref = str_or (jget target ''ref'') [] in
           case find (\<lambda>x. is_obj x \<and> str_or (jget (jdict x) ''ref'') [] = ref)
                  (jlist (jget envelope ''targets'')) of
             None \<Rightarrow> set_promotion ''create_case'' (JBool False)
                (set_promotion ''create_finding'' (JBool False)
                  (AList.update ''matched_target_terms'' (JList [])
                    (AList.update ''matched_target'' JNull result)))
           | Some x \<Rightarrow>
               (let a = jdict x; terms = approved_terms a in
                AList.update ''matched_target_terms''
                  (JList (take 20 (concat (map (\<lambda>item. case map_of terms (casefold (py_str item)) of
                       None \<Rightarrow> [] | Some t \<Rightarrow> [JStr t]) (jlist (jget result ''matched_target_terms''))))))
                  (AList.update ''matched_target'' (JObj
                     [(''ref'', clip 100 (jget a ''ref'') []), (''kind'', clip 30 (jget a ''kind'') []),
                      (''label'', clip 200 (jget a ''label'') []), (''brand_id'', jget a ''brand_id''),
                      (''asset_id'', jget a ''asset_id''), (''asset_type'', clip 30 (jget a ''asset_type'') []),
                      (''criticality'', clip 20 (jget a ''criticality'') [])]) result)))
      | _ \<Rightarrow> result)"

section \<open>Findings\<close>

definition correlation_dedup_key :: "(string \<Rightarrow> string) \<Rightarrow> event \<Rightarrow> json dict \<Rightarrow> string" where
  "correlation_dedup_key H event result =
     H (join ''|''
       [''intelligence-v1'', int_str (ev_tenant_id event),
        str_or (jget (jdict (jget result ''matched_target'')) ''ref'') ''unmatched'',
        str_or (jor (jget result ''correlation_family'') (jget result ''threat_category'')) ''none'',
        date_isoformat (event_time event)])"

definition exposure_type_of :: "json dict \<Rightarrow> json dict \<Rightarrow> string" where
  "exposure_type_of target result =
     (let asset_type = str_or (jget target ''asset_type'') [] in
      if str_or (jget result ''correlation_family'') [] = ''credential_exposure'' then ''credential_exposure''
      else if target = [] then ''brand_exposure''
      else if jget target ''kind'' \<in> {JStr ''brand'', JStr ''tenant''} then ''brand_exposure''
      else if asset_type \<in> {''identity'', ''email''} then ''identity_exposure''
      else if asset_type \<in> {''domain'', ''ip_range''} then ''infrastructure_exposure''
      else if asset_type = ''repo'' then ''source_code_exposure''
      else if asset_type = ''secret_pattern'' then ''secret_exposure''
      else ''brand_exposure'')"

definition threat_title :: "nat \<Rightarrow> json dict \<Rightarrow> string \<Rightarrow> string" where
  "threat_title n result label =
     take n ((if str_or (jget result ''correlation_family'') [] = ''credential_exposure''
              then ''Potential credential exposure involving '' else ''Potential targeted threat against '') @ label)"

definition finding_title :: "json dict \<Rightarrow> string \<Rightarrow> string" where
  "finding_title result label = threat_title 300 result label"

definition case_title :: "json dict \<Rightarrow> string \<Rightarrow> string" where
  "case_title result label = threat_title 255 result label"

definition MAX_EVENT_IDS :: nat where
  "MAX_EVENT_IDS = 50"

definition strings_of :: "json \<Rightarrow> string list res" where
  "strings_of v = bindr (py_iter (jor v (JList []))) (\<lambda>xs. Inr (map py_str xs))"

definition finding_detail ::
  "event \<Rightarrow> json dict \<Rightarrow> json list \<Rightarrow> int option \<Rightarrow> json dict \<Rightarrow> json dict res" where
  "finding_detail event result event_ids case_id previous =
     (let target = jdict (jget result ''matched_target'');
          ids = last_n MAX_EVENT_IDS (fromkeys (event_ids @ [JInt (ev_id event)])) in
      bindr (strings_of (jget previous ''matched_email_domains'')) (\<lambda>pd.
      bindr (strings_of (jget result ''matched_email_domains'')) (\<lambda>rd.
      bindr (strings_of (jget previous ''decisions'')) (\<lambda>pdec.
      bindr (int_or0 (jget result ''context_event_count'')) (\<lambda>cec.
        let email_domains = take 20 (fromkeys (pd @ rd));
            decisions = last_n 20 (fromkeys (pdec @ [str_or (jget result ''decision'') []]))
        in Inr
          [(''origin'', JStr ''intelligence_analysis''), (''provider'', JStr (ev_provider event)),
           (''analysis_version'', JStr ''telegram-conversation-v2''),
           (''decision'', jget result ''decision''), (''confidence'', jget result ''confidence''),
           (''confidence_score'', jget result ''score''),
           (''threat_category'', jget result ''threat_category''),
           (''correlation_family'', jget result ''correlation_family''),
           (''matched_email_domains'', JList (map JStr email_domains)),
           (''decisions'', JList (map JStr (filter (\<lambda>x. x \<noteq> []) decisions))),
           (''contextual_match'', JBool (truthy (jget result ''contextual_match''))),
           (''conversation_followup'', JBool (truthy (jget result ''conversation_followup''))),
           (''context_event_count'', JInt cec),
           (''target_ref'', jget target ''ref''), (''target_kind'', jget target ''kind''),
           (''target_label'', jget target ''label''),
           (''matched_target_terms'', jor (jget result ''matched_target_terms'') (JList [])),
           (''matched_threat_terms'', jor (jget result ''matched_threat_terms'') (JList [])),
           (''matched_intent_terms'', jor (jget result ''matched_intent_terms'') (JList [])),
           (''factors'', jor (jget result ''factors'') (JList [])),
           (''event_ids'', JList ids), (''event_count'', JInt (int (length ids))),
           (''case_id'', opt_id case_id), (''human_review_required'', JBool True)])))))"

fun first_case_for :: "int \<Rightarrow> inv_case list \<Rightarrow> inv_case option res" where
  "first_case_for finding_id [] = Inr None"
| "first_case_for finding_id (c # cs) =
     bindr (int_or0 (jget (case cs_finding_snapshot c of None \<Rightarrow> [] | Some s \<Rightarrow> s) ''exposure_finding_id''))
       (\<lambda>i. if i = finding_id then Inr (Some c) else first_case_for finding_id cs)"

definition find_case_for_exposure :: "int \<Rightarrow> int \<Rightarrow> db \<Rightarrow> inv_case option res" where
  "find_case_for_exposure tenant_id finding_id d =
     first_case_for finding_id (sort_key cs_id (filter (\<lambda>c. cs_tenant_id c = tenant_id) (db_cases d)))"

section \<open>Linking the context\<close>

definition LINKABLE_CONTEXT_DECISIONS :: "string list" where
  "LINKABLE_CONTEXT_DECISIONS =
     [''monitored_target_mention'', ''claimed_access'', ''credential_market_activity'']"

definition linkable :: "string \<Rightarrow> int \<Rightarrow> int option \<Rightarrow> event \<Rightarrow> bool" where
  "linkable target_ref finding_id case_id row =
     (str_or (jget (ev_analysis_json row) ''decision'') [] \<in> set LINKABLE_CONTEXT_DECISIONS
      \<and> (case jget (ev_analysis_json row) ''matched_target'' of
           JObj t \<Rightarrow> str_or (jget t ''ref'') [] | _ \<Rightarrow> []) = target_ref
      \<and> ev_finding_id row \<in> {None, Some finding_id}
      \<and> (case_id \<noteq> None \<longrightarrow> ev_case_id row \<in> {None, case_id}))"

definition linked_row :: "int \<Rightarrow> int option \<Rightarrow> json dict \<Rightarrow> event \<Rightarrow> event" where
  "linked_row finding_id case_id promotion row =
     row\<lparr>ev_finding_id := Some finding_id, ev_case_id := case_id,
         ev_analysis_json := AList.update ''promotion'' (JObj (dict_merge promotion
           [(''finding_id'', JInt finding_id), (''case_id'', opt_id case_id),
            (''finding_created'', JBool False), (''case_created'', JBool False),
            (''linked_from_context'', JBool True)])) (ev_analysis_json row)\<rparr>"

fun link_rows :: "string \<Rightarrow> int \<Rightarrow> int option \<Rightarrow> event list \<Rightarrow> db \<Rightarrow> (int list \<times> db) res" where
  "link_rows target_ref finding_id case_id [] d = Inr ([], d)"
| "link_rows target_ref finding_id case_id (row # rows) d =
     (if linkable target_ref finding_id case_id row
      then bindr (py_dict (jor (jget (ev_analysis_json row) ''promotion'') (JObj []))) (\<lambda>promotion.
           bindr (link_rows target_ref finding_id case_id rows
                    (upd_event (ev_id row) (linked_row finding_id case_id promotion) d)) (\<lambda>(linked, d').
             Inr (ev_id row # linked, d')))
      else link_rows target_ref finding_id case_id rows d)"

definition link_context_events ::
  "event list \<Rightarrow> json dict \<Rightarrow> int \<Rightarrow> int option \<Rightarrow> db \<Rightarrow> (int list \<times> db) res" where
  "link_context_events context_events result finding_id case_id d =
     (let target_ref = str_or (jget (jdict (jget result ''matched_target'')) ''ref'') [] in
      if str_or (jget result ''correlation_family'') [] \<noteq> ''credential_exposure'' \<or> target_ref = []
      then Inr ([], d)
      else link_rows target_ref finding_id case_id context_events d)"

section \<open>Properties\<close>

lemma clamp_bounds: "0 \<le> hi \<Longrightarrow> 0 \<le> clamp hi x \<and> clamp hi x \<le> hi"
  by (simp add: clamp_def)

lemma safe_list_length: "length (safe_list v) \<le> 20"
  by (simp add: safe_list_def split: json.splits)

text \<open>The answer of the Enterprise correlator is not trusted: whatever it returns, a result that passes the
  sanitising has a score between 0 and 100, a context count between 0 and 50, flags that are booleans
  and term lists of at most twenty strings.\<close>

theorem safe_result_bounds:
  assumes "safe_result value = Inr result"
  shows "(\<exists>score. jget result ''score'' = JInt score \<and> 0 \<le> score \<and> score \<le> 100)
    \<and> (\<exists>n. jget result ''context_event_count'' = JInt n \<and> 0 \<le> n \<and> n \<le> 50)
    \<and> (\<exists>ts. jget result ''matched_threat_terms'' = JList ts \<and> length ts \<le> 20 \<and> list_all (\<lambda>t. is_str t \<and> length (py_str t) \<le> 120) ts)
    \<and> (\<exists>b c ft ct. jget result ''promotion'' = JObj [(''create_finding'', JBool b), (''create_case'', JBool c),
          (''finding_threshold'', JInt ft), (''case_threshold'', JInt ct)])"
  using assms
  by (auto simp: safe_result_def Let_def jget_def str_items_def clamp_bounds list_all_iff safe_list_length
      split: json.splits if_splits)

theorem safe_result_bounds_witness:
  "\<exists>result score. safe_result (JObj [(''score'', JInt 900)]) = Inr result \<and> jget result ''score'' = JInt score \<and> score \<le> 100"
proof -
  have "\<exists>result. safe_result (JObj [(''score'', JInt 900)]) = Inr result"
    by (simp add: safe_result_def jget_def int_or0_def jor_def safe_list_def Let_def)
  with safe_result_bounds [of "JObj [(''score'', JInt 900)]"] show ?thesis by blast
qed

lemma bound_target:
  assumes "jget (bind_approved_target result envelope) ''matched_target'' = JObj t"
  shows "\<exists>a. JObj a \<in> set (jlist (jget envelope ''targets'')) \<and> jget t ''asset_id'' = jget a ''asset_id''
    \<and> jget t ''brand_id'' = jget a ''brand_id''"
proof (cases "jget result ''matched_target''")
  case (JObj target)
  let ?P = "\<lambda>x. is_obj x \<and> str_or (jget (jdict x) ''ref'') [] = str_or (jget target ''ref'') []"
  show ?thesis
  proof (cases "find ?P (jlist (jget envelope ''targets''))")
    case None
    with assms JObj show ?thesis
      by (simp add: bind_approved_target_def set_promotion_def)
  next
    case (Some x)
    then have x: "x \<in> set (jlist (jget envelope ''targets''))" "is_obj x" by (auto simp: find_Some_iff)
    from x(2) obtain a where "x = JObj a" by (auto elim: is_obj.elims)
    with assms JObj Some x show ?thesis
      by (auto simp: bind_approved_target_def Let_def intro!: exI [of _ a])
  qed
qed (use assms in \<open>simp_all add: bind_approved_target_def\<close>)

lemma envelope_target_ids:
  assumes "a \<in> set (envelope_targets t d)"
  shows "(case jget a ''asset_id'' of JInt i \<Rightarrow> \<exists>x \<in> set (db_assets d). as_id x = i \<and> as_tenant_id x = t \<and> as_active x | _ \<Rightarrow> True)
    \<and> (case jget a ''brand_id'' of JInt i \<Rightarrow> \<exists>x \<in> set (db_brands d). br_id x = i \<and> br_tenant_id x = t \<and> br_status x = ''active'' | _ \<Rightarrow> True)"
proof -
  consider tn where "a = tenant_target tn"
    | b where "a = brand_target b" "b \<in> set (active_brands t d)"
    | x where "a = asset_target x" "x \<in> set (target_assets t d)"
    using assms by (auto simp: envelope_targets_def split: option.splits)
  then show ?thesis
  proof cases
    case 1
    then show ?thesis by (simp add: tenant_target_def target_dict_def)
  next
    case 2
    then have "b \<in> set (db_brands d)" "br_tenant_id b = t" "br_status b = ''active''" by (auto simp: active_brands_def)
    with 2(1) show ?thesis by (auto simp: brand_target_def target_dict_def Let_def)
  next
    case 3
    then have "x \<in> set (db_assets d)" "as_tenant_id x = t" "as_active x" by (auto simp: target_assets_def)
    with 3(1) show ?thesis by (auto simp: asset_target_def target_dict_def)
  qed
qed

text \<open>C30 A finding never points outside the tenant: whatever target the correlator claims to have matched, the
  asset and the brand of the result after binding are an active asset and an active brand of the event's
  own tenant, or none.\<close>

theorem bound_target_in_tenant:
  "(case json_id (jget (jdict (jget (bind_approved_target result (build_envelope event source policy ctx d)) ''matched_target'')) ''asset_id'') of
      None \<Rightarrow> True
    | Some i \<Rightarrow> \<exists>x \<in> set (db_assets d). as_id x = i \<and> as_tenant_id x = ev_tenant_id event \<and> as_active x)
   \<and> (case json_id (jget (jdict (jget (bind_approved_target result (build_envelope event source policy ctx d)) ''matched_target'')) ''brand_id'') of
      None \<Rightarrow> True
    | Some i \<Rightarrow> \<exists>x \<in> set (db_brands d). br_id x = i \<and> br_tenant_id x = ev_tenant_id event \<and> br_status x = ''active'')"
proof (cases "jget (bind_approved_target result (build_envelope event source policy ctx d)) ''matched_target''")
  case (JObj t)
  have "jget (build_envelope event source policy ctx d) ''targets'' = JList (map JObj (envelope_targets (ev_tenant_id event) d))"
    by (simp add: build_envelope_def jget_def)
  with bound_target [OF JObj] obtain a where a: "a \<in> set (envelope_targets (ev_tenant_id event) d)"
    "jget t ''asset_id'' = jget a ''asset_id''" "jget t ''brand_id'' = jget a ''brand_id''" by auto
  from envelope_target_ids [OF a(1)] show ?thesis
    unfolding JObj by (simp add: a(2,3) json_id_def split: json.splits)
qed (simp_all add: jget_def json_id_def)

end
