(* ===== verification/AnalysisRun.thy ===== *)
theory AnalysisRun
  imports Promotion
begin

text \<open>
  Promotion into findings and cases, the analysis of one event and the bounded batch of
  \<open>app/collection/intelligence_analysis.py\<close>. Everything \<open>analyze_event\<close> does between acquiring the
  event and its commit is one function to an exception or the new database, because every
  exception there ends in the same rollback.
\<close>

definition case_severity :: "string \<Rightarrow> string" where
  "case_severity s = (case map_of [(''low'', ''baixo''), (''medium'', ''medio''), (''high'', ''alto''),
       (''critical'', ''critico'')] s of None \<Rightarrow> ''medio'' | Some v \<Rightarrow> v)"

text \<open>The \<open>CHECK\<close> and unique constraints of \<open>exposure_finding\<close>, at the flush of a new row.\<close>

definition flush_finding :: "finding \<Rightarrow> db \<Rightarrow> db res" where
  "flush_finding f d =
     (if fd_severity f \<in> {''low'', ''medium'', ''high'', ''critical''}
         \<and> \<not> violates (\<lambda>_. True) (\<lambda>x. (fd_tenant_id x, fd_dedup_key x)) f (db_findings d)
      then Inr (d\<lparr>db_findings := db_findings d @ [f]\<rparr>) else Inl IntegrityError)"

definition new_finding ::
  "time \<Rightarrow> event \<Rightarrow> json dict \<Rightarrow> string \<Rightarrow> int \<Rightarrow> db \<Rightarrow> finding" where
  "new_finding now event result dkey score d =
     (let target = jdict (jget result ''matched_target'');
          label = take 180 (str_or (jget target ''label'') ''monitored target'')
      in (blank_finding now)\<lparr>fd_id := next_id fd_id (db_findings d), fd_tenant_id := ev_tenant_id event,
           fd_exposure_type := exposure_type_of target result, fd_asset_id := json_id (jget target ''asset_id''),
           fd_title := finding_title result label,
           fd_source := take 60 (ev_provider event @ ''_intelligence''), fd_source_reliability := ''B'',
           fd_info_credibility := ''2'', fd_severity := str_or (jget result ''severity'') ''medium'',
           fd_status := ''new'', fd_observed_at := Some (event_time event), fd_first_seen := now,
           fd_last_seen := now, fd_dedup_key := dkey, fd_detail := [], fd_redacted := True,
           fd_risk_score := score, fd_parser_version := Some (take 20 ''telegram-conversation-v2'')\<rparr>)"

definition refreshed_finding :: "time \<Rightarrow> int \<Rightarrow> finding \<Rightarrow> finding" where
  "refreshed_finding now score f =
     f\<lparr>fd_last_seen := now, fd_risk_score := max (fd_risk_score f) score,
       fd_status := (if fd_status f = ''duplicate'' then ''new'' else fd_status f)\<rparr>"

definition finding_for ::
  "(string \<Rightarrow> string) \<Rightarrow> time \<Rightarrow> event \<Rightarrow> json dict \<Rightarrow> db \<Rightarrow> (finding \<times> bool \<times> db) res" where
  "finding_for H now event result d =
     (let dkey = correlation_dedup_key H event result in
      bindr (int_or0 (jget result ''score'')) (\<lambda>score.
      case find (\<lambda>f. fd_tenant_id f = ev_tenant_id event \<and> fd_dedup_key f = dkey) (db_findings d) of
        None \<Rightarrow> (let f = new_finding now event result dkey score d in
                  bindr (flush_finding f d) (\<lambda>d'. Inr (f, True, d')))
      | Some f \<Rightarrow> Inr (refreshed_finding now score f, False,
                      upd_finding (fd_id f) (refreshed_finding now score) d)))"

definition new_case :: "time \<Rightarrow> event \<Rightarrow> json dict \<Rightarrow> finding \<Rightarrow> db \<Rightarrow> inv_case" where
  "new_case now event result f d =
     (let target = jdict (jget result ''matched_target'');
          label = take 180 (str_or (jget target ''label'') ''monitored target'')
      in (blank_case now)\<lparr>cs_id := next_id cs_id (db_cases d), cs_tenant_id := ev_tenant_id event,
           cs_brand_id := json_id (jget target ''brand_id''),
           cs_finding_snapshot := Some
             [(''exposure_finding_id'', JInt (fd_id f)), (''exposure_type'', JStr (fd_exposure_type f)),
              (''source'', JStr (fd_source f)), (''dedup_key'', JStr (fd_dedup_key f)),
              (''intelligence'', JObj
                 [(''analysis_version'', JStr ''telegram-conversation-v2''),
                  (''decision'', jget result ''decision''), (''confidence_score'', jget result ''score''),
                  (''threat_category'', jget result ''threat_category''),
                  (''correlation_family'', jget result ''correlation_family''),
                  (''target_ref'', jget target ''ref''), (''target_label'', jget target ''label'')])],
           cs_title := case_title result label,
           cs_description := Some (join [CHR 0x0A]
             [''Automatically opened from authorized inbound intelligence.'',
              ''Provider: '' @ ev_provider event, ''Target: '' @ label,
              ''Decision: '' @ py_str (jget result ''decision''),
              ''Confidence: '' @ py_str (jget result ''score'') @ ''/100'',
              ''Threat category: '' @ py_str (jget result ''threat_category''),
              ''Correlation family: '' @ py_str (jget result ''correlation_family''),
              ''Evidence event: #'' @ int_str (ev_id event),
              ''Human review is required before escalation or response.'']),
           cs_severity := case_severity (py_str (jget result ''severity'')), cs_status := ''open'',
           cs_created_by_user_id := None, cs_assignee_user_id := None\<rparr>)"

definition case_with_intel :: "json dict \<Rightarrow> json dict \<Rightarrow> int \<Rightarrow> inv_case \<Rightarrow> inv_case" where
  "case_with_intel result intel n c =
     c\<lparr>cs_finding_snapshot := Some (AList.update ''intelligence''
         (JObj (AList.update ''latest_decision'' (jget result ''decision'')
            (AList.update ''event_count'' (JInt n) intel)))
         (case cs_finding_snapshot c of None \<Rightarrow> [] | Some s \<Rightarrow> s))\<rparr>"

record promoted =
  pm_result :: "json dict"
  pm_finding :: "int option"
  pm_case :: "int option"
  pm_finding_created :: bool
  pm_case_created :: bool

definition not_promoted :: "json dict \<Rightarrow> promoted" where
  "not_promoted result = \<lparr>pm_result = result, pm_finding = None, pm_case = None,
     pm_finding_created = False, pm_case_created = False\<rparr>"

definition detail_of :: "int \<Rightarrow> db \<Rightarrow> json dict" where
  "detail_of finding_id d = (case find_row fd_id finding_id (db_findings d) of None \<Rightarrow> [] | Some f \<Rightarrow> fd_detail f)"

text \<open>The detail is rewritten twice: before the case is looked up and after the context is linked.\<close>

definition write_detail ::
  "event \<Rightarrow> json dict \<Rightarrow> int \<Rightarrow> json list \<Rightarrow> int option \<Rightarrow> db \<Rightarrow> (json dict \<times> db) res" where
  "write_detail event result finding_id extra_ids case_id d =
     (let previous = detail_of finding_id d in
      bindr (py_iter (jor (jget previous ''event_ids'') (JList []))) (\<lambda>ids.
      bindr (finding_detail event result (ids @ extra_ids) case_id previous) (\<lambda>detail.
        Inr (detail, upd_finding finding_id (\<lambda>f. f\<lparr>fd_detail := detail\<rparr>) d))))"

definition case_for ::
  "time \<Rightarrow> event \<Rightarrow> json dict \<Rightarrow> finding \<Rightarrow> db \<Rightarrow> (inv_case option \<times> bool \<times> db) res" where
  "case_for now event result f d =
     bindr (find_case_for_exposure (ev_tenant_id event) (fd_id f) d) (\<lambda>found.
       case found of
         Some c \<Rightarrow> Inr (Some c, False, d)
       | None \<Rightarrow>
           if truthy (jget (jdict (jget result ''promotion'')) ''create_case'')
           then let c = new_case now event result f d
                in Inr (Some c, True, d\<lparr>db_cases := db_cases d @ [c]\<rparr>)
           else Inr (None, False, d))"

definition refresh_case ::
  "json dict \<Rightarrow> json dict \<Rightarrow> inv_case option \<Rightarrow> db \<Rightarrow> db res" where
  "refresh_case result detail c d = (case c of
       None \<Rightarrow> Inr d
     | Some c \<Rightarrow>
         bindr (py_dict (jor (jget (case cs_finding_snapshot c of None \<Rightarrow> [] | Some s \<Rightarrow> s) ''intelligence'')
                  (JObj []))) (\<lambda>intel.
         bindr (int_or0 (jget detail ''event_count'')) (\<lambda>n.
           Inr (upd_case (cs_id c) (case_with_intel result intel n) d))))"

definition promote ::
  "(string \<Rightarrow> string) \<Rightarrow> time \<Rightarrow> event \<Rightarrow> json dict \<Rightarrow> event list \<Rightarrow> db \<Rightarrow> (promoted \<times> db) res" where
  "promote H now event result context_events d =
     (if \<not> truthy (jget (jdict (jget result ''promotion'')) ''create_finding'')
      then Inr (not_promoted result, d)
      else
        bindr (finding_for H now event result d) (\<lambda>(f, finding_created, d1).
        bindr (write_detail event result (fd_id f) [] None d1) (\<lambda>(_, d2).
        bindr (case_for now event result f d2) (\<lambda>(c, case_created, d3).
        let case_id = map_option cs_id c in
        bindr (link_context_events context_events result (fd_id f) case_id d3) (\<lambda>(linked, d4).
        bindr (write_detail event result (fd_id f) (map JInt linked) case_id d4) (\<lambda>(detail, d5).
        bindr (refresh_case result detail c d5) (\<lambda>d6.
          Inr (\<lparr>pm_result = set_promotion ''context_linked_event_count'' (JInt (int (length linked))) result,
                pm_finding = Some (fd_id f), pm_case = case_id,
                pm_finding_created = finding_created, pm_case_created = case_created\<rparr>,
               upd_event (ev_id event) (\<lambda>e. e\<lparr>ev_finding_id := Some (fd_id f), ev_case_id := case_id\<rparr>) d6))))))))"

section \<open>One event\<close>

type_synonym analyser = "json dict \<Rightarrow> json res"

type_synonym analysis_registries = "(unit, analyser, analyser) registries"

definition final_result :: "promoted \<Rightarrow> json dict" where
  "final_result p =
     set_promotion ''case_created'' (JBool (pm_case_created p))
       (set_promotion ''finding_created'' (JBool (pm_finding_created p))
         (set_promotion ''case_id'' (opt_id (pm_case p))
           (set_promotion ''finding_id'' (opt_id (pm_finding p)) (pm_result p))))"

definition correlation_input :: "json \<Rightarrow> json dict \<Rightarrow> json dict" where
  "correlation_input classified envelope =
     [(''schema'', JStr ''threatforge.intelligence.correlation.v1''), (''analysis'', classified),
      (''policy'', jget envelope ''policy'')]"

definition analysis_body ::
  "(string \<Rightarrow> string) \<Rightarrow> time \<Rightarrow> analyser \<Rightarrow> analyser \<Rightarrow> event \<Rightarrow> source \<Rightarrow> analysis_policy \<Rightarrow> string \<Rightarrow> db
    \<Rightarrow> (promoted \<times> json dict \<times> db) res" where
  "analysis_body H now classifier correlator event source policy worker d =
     (let context_events = recent_context_events event policy d;
          envelope = build_envelope event source policy context_events d in
      bindr (classifier envelope) (\<lambda>classified.
      bindr (correlator (correlation_input classified envelope)) (\<lambda>correlated.
      bindr (safe_result correlated) (\<lambda>safe.
      bindr (promote H now event (bind_approved_target safe envelope) context_events d) (\<lambda>(p, d1).
      let result = final_result p in
      bindr (complete now event worker ''telegram-conversation-v2'' result d1) (\<lambda>(_, d2).
        Inr (p, result, d2)))))))"

definition analysis_audit :: "time \<Rightarrow> event \<Rightarrow> json dict \<Rightarrow> promoted \<Rightarrow> audit_entry list" where
  "analysis_audit now event result p =
     (let row = (\<lambda>action ttype tid detail. audit_row now ''system:intelligence-worker'' (Some ''service'')
            action (Some ttype) (Some (int_str tid)) (Some (ev_tenant_id event)) None None detail) in
      [row ''intelligence.analysis_completed'' ''collection_event'' (ev_id event)
         [(''provider'', JStr (ev_provider event)), (''decision'', jget result ''decision''),
          (''score'', jget result ''score''), (''severity'', jget result ''severity''),
          (''finding_id'', opt_id (pm_finding p)), (''case_id'', opt_id (pm_case p)),
          (''finding_created'', JBool (pm_finding_created p)), (''case_created'', JBool (pm_case_created p))]]
      @ (case pm_finding p of None \<Rightarrow> [] | Some f \<Rightarrow> if pm_finding_created p
           then [row ''intelligence.finding_created'' ''exposure'' f
                   [(''event_id'', JInt (ev_id event)), (''case_id'', opt_id (pm_case p))]] else [])
      @ (case pm_case p of None \<Rightarrow> [] | Some c \<Rightarrow> if pm_case_created p
           then [row ''intelligence.case_created'' ''case'' c
                   [(''event_id'', JInt (ev_id event)), (''finding_id'', opt_id (pm_finding p))]] else []))"

definition record_audit :: "audit_entry list \<Rightarrow> session \<Rightarrow> session" where
  "record_audit entries s = foldl (\<lambda>s e. audit_record True e True s) s entries"

definition failed_outcome :: "int \<Rightarrow> string \<Rightarrow> string \<Rightarrow> analysis_outcome" where
  "failed_outcome event_id status error_code = \<lparr>ao_event_id = event_id, ao_status = status, ao_score = 0,
     ao_decision = [], ao_finding_id = None, ao_case_id = None, ao_error_code = error_code\<rparr>"

definition analyzed_outcome :: "event \<Rightarrow> json dict \<Rightarrow> promoted \<Rightarrow> analysis_outcome" where
  "analyzed_outcome event result p = \<lparr>ao_event_id = ev_id event, ao_status = ''analyzed'',
     ao_score = (case int_or0 (jget result ''score'') of Inl _ \<Rightarrow> 0 | Inr i \<Rightarrow> i),
     ao_decision = str_or (jget result ''decision'') [],
     ao_finding_id = pm_finding p, ao_case_id = pm_case p, ao_error_code = []\<rparr>"

text \<open>\<open>commit_ok\<close>: whether the database accepts the commit of the analysis.\<close>

definition analyze_event ::
  "(string \<Rightarrow> string) \<Rightarrow> analysis_registries \<Rightarrow> bool \<Rightarrow> time \<Rightarrow> event \<Rightarrow> source \<Rightarrow> analysis_policy \<Rightarrow> string
    \<Rightarrow> bool \<Rightarrow> session \<Rightarrow> analysis_outcome res \<times> session" where
  "analyze_event H regs commit_ok now event source policy worker already_acquired s =
     (case (get (ev_provider event) (classifiers regs), get (ev_provider event) (correlators regs)) of
        (Some classifier, Some correlator) \<Rightarrow>
          (let acq = (if already_acquired
                 then if ev_processing_state event \<noteq> Analyzing \<or> ev_locked_by event \<noteq> Some worker
                      then Inl LockHeld else Inr (event, working s)
                 else acquire now (ev_id event) worker DEFAULT_LOCK_TTL_SECONDS DEFAULT_MAX_ATTEMPTS (working s))
           in case acq of
                Inl e \<Rightarrow> (Inl e, s)
              | Inr (held, d) \<Rightarrow>
                  (case analysis_body H now classifier correlator held source policy worker d of
                     Inl _ \<Rightarrow> (Inr (failed_outcome (ev_id event) ''failed'' ''analysis_processing_error''), rollback s)
                   | Inr (p, result, d') \<Rightarrow>
                       if commit_ok
                       then (Inr (analyzed_outcome held result p),
                             record_audit (analysis_audit now held result p) (commit (s\<lparr>working := d'\<rparr>)))
                       else (Inr (failed_outcome (ev_id event) ''failed'' ''analysis_processing_error''), rollback s)))
      | _ \<Rightarrow> (Inr (failed_outcome (ev_id event) ''skipped'' ''analysis_extension_unavailable''),
               if already_acquired then rollback s else s))"

section \<open>A batch\<close>

text \<open>
  The environment of a batch: the clock at each outcome, whether the commit of each is accepted,
  and the dialect with the rows other transactions hold.
\<close>

record batch_env =
  be_clock :: "nat \<Rightarrow> time"
  be_commit :: "nat \<Rightarrow> bool"
  be_postgres :: bool
  be_skip :: "int list"

definition pending_tenants :: "db \<Rightarrow> int list" where
  "pending_tenants d = sort (remdups (map ev_tenant_id (filter (\<lambda>e.
     ev_processing_state e \<in> {Normalized, Failed, Analyzing} \<and> ev_purged_at e = None \<and> \<not> ev_is_control e)
     (db_events d))))"

fun analysis_pass ::
  "(string \<Rightarrow> string) \<Rightarrow> analysis_registries \<Rightarrow> batch_env \<Rightarrow> analysis_policy \<Rightarrow> string \<Rightarrow> int list
    \<Rightarrow> nat \<Rightarrow> bool \<Rightarrow> analysis_outcome list \<Rightarrow> session \<Rightarrow> (nat \<times> bool \<times> analysis_outcome list) res \<times> session" where
  "analysis_pass H regs env policy worker [] remaining progressed outs s = (Inr (remaining, progressed, outs), s)"
| "analysis_pass H regs env policy worker (t # ts) remaining progressed outs s =
     (if remaining = 0 then (Inr (remaining, progressed, outs), s)
      else
        let now = be_clock env (length outs) in
        (case acquire_next (be_postgres env) (be_skip env) now t worker DEFAULT_LOCK_TTL_SECONDS
                DEFAULT_MAX_ATTEMPTS (working s) of
           Inl e \<Rightarrow> (Inl e, s)
         | Inr (None, d) \<Rightarrow> analysis_pass H regs env policy worker ts remaining progressed outs (s\<lparr>working := d\<rparr>)
         | Inr (Some event, d) \<Rightarrow>
             (case find_row sr_id (ev_source_id event) (db_sources d) of
                Some source \<Rightarrow>
                  if sr_tenant_id source = ev_tenant_id event
                  then (case analyze_event H regs (be_commit env (length outs)) now event source policy worker
                               True (s\<lparr>working := d\<rparr>) of
                          (Inl e, s') \<Rightarrow> (Inl e, s')
                        | (Inr out, s') \<Rightarrow>
                            analysis_pass H regs env policy worker ts (remaining - 1) True (outs @ [out]) s')
                  else analysis_pass H regs env policy worker ts remaining progressed
                         (outs @ [failed_outcome (ev_id event) ''failed'' ''source_unavailable'']) (rollback s)
              | None \<Rightarrow> analysis_pass H regs env policy worker ts remaining progressed
                         (outs @ [failed_outcome (ev_id event) ''failed'' ''source_unavailable'']) (rollback s))))"

lemma analysis_pass_progress:
  "analysis_pass H regs env policy worker ts r prog outs s = (Inr (r', prog', outs'), s') \<Longrightarrow>
     r' \<le> r \<and> (prog' \<longrightarrow> prog \<or> r' < r) \<and> length outs' \<le> length outs + length ts"
proof (induction ts arbitrary: r prog outs s)
  case Nil
  then show ?case by simp
next
  case (Cons t ts)
  from Cons.prems show ?case
    by (auto simp: Let_def split: if_splits sum.splits prod.splits option.splits dest!: Cons.IH)
qed

text \<open>The loop of \<open>run_analysis_once\<close> ends: a pass without progress stops it, any other spends budget.\<close>

function analysis_loop ::
  "(string \<Rightarrow> string) \<Rightarrow> analysis_registries \<Rightarrow> batch_env \<Rightarrow> analysis_policy \<Rightarrow> string \<Rightarrow> int list
    \<Rightarrow> nat \<Rightarrow> analysis_outcome list \<Rightarrow> session \<Rightarrow> analysis_outcome list res \<times> session" where
  "analysis_loop H regs env policy worker ts remaining outs s =
     (if remaining = 0 then (Inr outs, s)
      else case analysis_pass H regs env policy worker ts remaining False outs s of
        (Inl e, s') \<Rightarrow> (Inl e, s')
      | (Inr (remaining', progressed, outs'), s') \<Rightarrow>
          if progressed then analysis_loop H regs env policy worker ts remaining' outs' s'
          else (Inr outs', s'))"
  by pat_completeness auto
termination
proof (relation "measure (\<lambda>(H, regs, env, policy, worker, ts, remaining, outs, s). remaining)")
  fix H regs env policy worker ts s s' and remaining remaining' :: nat and outs x p b progressed outs'
  assume "(p, s') = analysis_pass H regs env policy worker ts remaining False outs s"
    "p = Inr b" "(remaining', x) = b" "(progressed, outs') = x" "progressed"
  then have "analysis_pass H regs env policy worker ts remaining False outs s = (Inr (remaining', True, outs'), s')"
    by (cases b; cases x) auto
  from analysis_pass_progress [OF this]
  show "((H, regs, env, policy, worker, ts, remaining', outs', s'), H, regs, env, policy, worker, ts, remaining, outs, s)
      \<in> measure (\<lambda>(H, regs, env, policy, worker, ts, remaining, outs, s). remaining)" by simp
qed simp

declare analysis_loop.simps [simp del]

definition run_analysis_once ::
  "(string \<Rightarrow> string) \<Rightarrow> analysis_registries \<Rightarrow> bool \<Rightarrow> batch_env \<Rightarrow> analysis_policy \<Rightarrow> string \<Rightarrow> session
    \<Rightarrow> analysis_outcome list res \<times> session" where
  "run_analysis_once H regs licensed env policy worker s =
     (if \<not> licensed then (Inr [], s)
      else analysis_loop H regs env policy worker (pending_tenants (working s))
             (nat (ap_batch_size policy)) [] s)"

section \<open>Properties\<close>

lemma record_audit_working:
  "db_events (committed (record_audit es s)) = (if es = [] then db_events (committed s) else db_events (working s))
   \<and> db_events (working (record_audit es s)) = db_events (working s)"
proof (induction es arbitrary: s)
  case (Cons e es)
  have "db_events (working (audit_record True e True s)) = db_events (working s)"
    "db_events (committed (audit_record True e True s)) = db_events (working s)"
    by (simp_all add: audit_record_def)
  with Cons [of "audit_record True e True s"] show ?case by (simp add: record_audit_def)
qed (simp add: record_audit_def)

text \<open>C15 The analysis of an event is all or nothing: an answer other than \<open>analyzed\<close> leaves the committed
  database as it was, whatever the classifier, the correlator or the promotion did before failing; an
  answer \<open>analyzed\<close> means that the committed row is analysed and unlocked.\<close>

theorem analyze_all_or_nothing:
  assumes "analyze_event H regs commit_ok now event source policy worker already s = (Inr out, s')"
  shows "(ao_status out \<noteq> ''analyzed'' \<longrightarrow> committed s' = committed s)
    \<and> (ao_status out = ''analyzed'' \<longrightarrow> (\<forall>e \<in> set (db_events (committed s')). ev_id e = ev_id event \<longrightarrow>
         ev_processing_state e = Analyzed \<and> ev_locked_by e = None))"
proof -
  consider (skipped) "ao_status out = ''skipped''" "committed s' = committed s"
    | (failed) "ao_status out = ''failed''" "committed s' = committed s"
    | (ok) held p result d d' cl co where "out = analyzed_outcome held result p" "ev_id held = ev_id event"
        "analysis_body H now cl co held source policy worker d = Inr (p, result, d')"
        "s' = record_audit (analysis_audit now held result p) (commit (s\<lparr>working := d'\<rparr>))"
    using assms
    by (auto simp: analyze_event_def failed_outcome_def Let_def acquire_def acquired_def
        split: option.splits if_splits sum.splits prod.splits dest: find_row_SomeD)
  then show ?thesis
  proof cases
    case ok
    from ok(3) obtain d1 v where d': "d' = upd_event (ev_id held) (completed now v result) d1"
      by (cases "require_holder held worker") (auto simp: analysis_body_def complete_def Let_def)
    have "db_events (committed s') = db_events d'"
      using record_audit_working [of "analysis_audit now held result p" "commit (s\<lparr>working := d'\<rparr>)"] ok(4) by simp
    with d' ok show ?thesis
      by (auto simp: analyzed_outcome_def upd_event_def upd_row_def completed_def)
  qed simp_all
qed

definition demo_regs :: analysis_registries where
  "demo_regs = \<lparr>providers = new_registry [],
     classifiers = \<lparr>rg_kind = [], rg_items = [(''telegram'', \<lambda>_. Inr (JObj []))]\<rparr>,
     correlators = \<lparr>rg_kind = [], rg_items = [(''telegram'', \<lambda>_. Inr (JObj [(''score'', JInt 40)]))]\<rparr>,
     alert_channels = new_registry []\<rparr>"

definition demo_analysing :: event where
  "demo_analysing = demo_event\<lparr>ev_provider := ''telegram''\<rparr>"

theorem analyze_all_or_nothing_witness:
  "\<exists>out s'. analyze_event id demo_regs True 5 demo_analysing (blank_source 0) (policy_from_env (\<lambda>_. None)) ''w1'' True
       \<lparr>committed = empty_db, working = empty_db\<lparr>db_events := [demo_analysing]\<rparr>\<rparr> = (Inr out, s') \<and> ao_status out = ''analyzed''
     \<and> (\<forall>e \<in> set (db_events (committed s')). ev_id e = 1 \<longrightarrow> ev_processing_state e = Analyzed)"
proof -
  have n: "norm ''telegram'' = ''telegram''" by code_simp
  have "\<exists>out s'. analyze_event id demo_regs True 5 demo_analysing (blank_source 0) (policy_from_env (\<lambda>_. None)) ''w1'' True
       \<lparr>committed = empty_db, working = empty_db\<lparr>db_events := [demo_analysing]\<rparr>\<rparr> = (Inr out, s') \<and> ao_status out = ''analyzed''"
    by (simp add: analyze_event_def demo_regs_def get_def n demo_analysing_def demo_event_def blank_event_def analysis_body_def
      safe_result_def int_or0_def jor_def safe_list_def safe_target_def bind_approved_target_def promote_def not_promoted_def
      complete_def require_holder_def Let_def analyzed_outcome_def final_result_def)
  moreover have "ev_id demo_analysing = 1" by (simp add: demo_analysing_def demo_event_def)
  ultimately show ?thesis using analyze_all_or_nothing by (metis (no_types, lifting))
qed

lemma analysis_pass_count:
  "analysis_pass H regs env policy worker ts r prog outs s = (Inr (r', prog', outs'), s') \<Longrightarrow>
     r' + length (filter (\<lambda>out. ao_error_code out \<noteq> ''source_unavailable'') outs')
       \<le> r + length (filter (\<lambda>out. ao_error_code out \<noteq> ''source_unavailable'') outs)"
proof (induction ts arbitrary: r prog outs s)
  case (Cons t ts)
  from Cons.prems show ?case
    by (auto simp: Let_def failed_outcome_def split: if_splits sum.splits prod.splits option.splits dest!: Cons.IH)
qed simp

lemma analysis_loop_count:
  "analysis_loop H regs env policy worker ts r outs s = (Inr outs', s') \<Longrightarrow>
     length (filter (\<lambda>out. ao_error_code out \<noteq> ''source_unavailable'') outs')
       \<le> r + length (filter (\<lambda>out. ao_error_code out \<noteq> ''source_unavailable'') outs)"
proof (induction H regs env policy worker ts r outs s rule: analysis_loop.induct)
  case (1 H regs env policy worker ts r outs s)
  obtain res s1 where p: "analysis_pass H regs env policy worker ts r False outs s = (res, s1)" by fastforce
  show ?case
  proof (cases res)
    case (Inl e)
    with 1(2) p show ?thesis by (subst (asm) analysis_loop.simps) (simp split: if_splits)
  next
    case (Inr x)
    obtain r1 pr o1 where x: "x = (r1, pr, o1)" by (cases x)
    have c: "r1 + length (filter (\<lambda>out. ao_error_code out \<noteq> ''source_unavailable'') o1)
       \<le> r + length (filter (\<lambda>out. ao_error_code out \<noteq> ''source_unavailable'') outs)"
      using analysis_pass_count p Inr x by blast
    show ?thesis
    proof (cases "r = 0")
      case True
      with 1(2) show ?thesis by (subst (asm) analysis_loop.simps) simp
    next
      case False
      show ?thesis
      proof (cases pr)
        case True
        with 1(2) p Inr x False have l: "analysis_loop H regs env policy worker ts r1 o1 s1 = (Inr outs', s')"
          by (subst (asm) analysis_loop.simps) simp
        from 1(1) [OF False p [symmetric] Inr x [symmetric] refl True l] c show ?thesis by simp
      next
        case np: False
        with 1(2) p Inr x False have "outs' = o1" by (subst (asm) analysis_loop.simps) simp
        with c show ?thesis by simp
      qed
    qed
  qed
qed



lemma acquire_next_ready:
  assumes "keyed ev_id (db_events d)"
    and "next_ready (\<lambda>e. ev_tenant_id e = t \<and> ready now (lock_cutoff now ttl) m e) d = Some e"
  shows "acquire_next False skip now t w ttl m d = Inr (Some (acquired w now e), upd_event (ev_id e) (acquired w now) d)"
proof -
  from next_ready_Some [OF assms(2)] have e: "e \<in> set (db_events d)" "ready now (lock_cutoff now ttl) m e" by auto
  with assms(1) have "find_row ev_id (ev_id e) (db_events d) = Some e" by (simp add: find_row_Some)
  with e assms(2) show ?thesis by (simp add: acquire_next_def acquire_def Let_def)
qed

lemma poison_pass:
  assumes "committed s = working s" "keyed ev_id (db_events (working s))" "be_postgres env = False" "be_clock env = (\<lambda>_. now)"
    and e: "next_ready (\<lambda>e. ev_tenant_id e = t \<and> ready now (lock_cutoff now 300) 5 e) (working s) = Some e"
    and src: "find_row sr_id (ev_source_id e) (db_sources (working s)) = Some source" "sr_tenant_id source = t"
    and regs: "get (ev_provider e) (classifiers regs) = Some cl" "get (ev_provider e) (correlators regs) = Some co"
    and poison: "\<And>x. cl x = Inl err" and "0 < r"
  shows "analysis_pass H regs env policy w [t] r False outs s
    = (Inr (r - 1, True, outs @ [failed_outcome (ev_id e) ''failed'' ''analysis_processing_error'']), s)"
proof -
  have ten: "ev_tenant_id e = t" using next_ready_Some [OF e] by simp
  have "rollback (s\<lparr>working := d\<rparr>) = s" for d using assms(1) by (simp add: rollback_def)
  with acquire_next_ready [OF assms(2) e, of _ w] ten src regs poison \<open>0 < r\<close> assms(3,4) show ?thesis
    by (simp add: DEFAULT_LOCK_TTL_SECONDS_def DEFAULT_MAX_ATTEMPTS_def analyze_event_def acquired_def
      analysis_body_def Let_def upd_event_def)
qed


definition poison_regs :: analysis_registries where
  "poison_regs = demo_regs\<lparr>classifiers := \<lparr>rg_kind = [], rg_items = [(''telegram'', \<lambda>_. Inl TypeError)]\<rparr>\<rparr>"

definition poison_db :: db where
  "poison_db = empty_db\<lparr>db_sources := [(blank_source 0)\<lparr>sr_id := 3, sr_tenant_id := 7\<rparr>],
     db_events := [(blank_event 0)\<lparr>ev_id := 1, ev_tenant_id := 7, ev_source_id := 3, ev_provider := ''telegram'', ev_processing_state := Normalized\<rparr>,
       (blank_event 5)\<lparr>ev_id := 2, ev_tenant_id := 7, ev_source_id := 3, ev_provider := ''telegram'', ev_processing_state := Normalized\<rparr>]\<rparr>"


end
