(* ===== verification/PyText.thy ===== *)
theory PyText
  imports Prelude
begin

text \<open>
  More of Python's string library, for the components that read files and domain names: searching
  with \<open>find\<close>, \<open>splitlines\<close>, \<open>rpartition\<close>, stripping a set of characters, the sorted list of a
  set, and the reader of the \<open>csv\<close> module with its default dialect.
\<close>

section \<open>Searching and splitting\<close>

text \<open>\<open>s.find(p, i)\<close>: the first position from \<open>i\<close> on where \<open>p\<close> occurs; \<open>None\<close> is the answer -1.\<close>

definition find_from :: "string \<Rightarrow> string \<Rightarrow> nat \<Rightarrow> nat option" where
  "find_from s p i = List.find (\<lambda>j. startswith (drop j s) p) [i..<Suc (length s)]"

lemma find_from_Some:
  assumes "find_from s p i = Some j"
  shows "i \<le> j" "j \<le> length s" "startswith (drop j s) p"
proof -
  from assms obtain k where k: "k < length [i..<Suc (length s)]" "[i..<Suc (length s)] ! k = j"
    "startswith (drop j s) p"
    unfolding find_from_def by (auto simp: find_Some_iff)
  then have "j \<in> set [i..<Suc (length s)]" by (metis nth_mem)
  then show "i \<le> j" "j \<le> length s" by auto
  show "startswith (drop j s) p" by (rule k)
qed

text \<open>The line boundaries of \<open>str.splitlines\<close> in the Latin-1 range; \<open>\r\n\<close> is one boundary.\<close>

definition is_linebreak :: "char \<Rightarrow> bool" where
  "is_linebreak c = (let n = of_char c :: nat in
     (10 \<le> n \<and> n \<le> 13) \<or> (28 \<le> n \<and> n \<le> 30) \<or> n = 133)"

fun splitlines_aux :: "string \<Rightarrow> string \<Rightarrow> string list" where
  "splitlines_aux cur [] = (if cur = [] then [] else [rev cur])"
| "splitlines_aux cur (c # s) =
     (if is_linebreak c then
        rev cur # splitlines_aux [] (if c = CHR 0x0D \<and> s \<noteq> [] \<and> hd s = CHR 0x0A then tl s else s)
      else splitlines_aux (c # cur) s)"

definition splitlines :: "string \<Rightarrow> string list" where
  "splitlines s = splitlines_aux [] s"

text \<open>\<open>s.rpartition(c)\<close> without the separator; without an occurrence the text is the last part.\<close>

definition rpartition_before :: "char \<Rightarrow> string \<Rightarrow> string" where
  "rpartition_before c s = rev (tl (dropWhile (\<lambda>x. x \<noteq> c) (rev s)))"

definition rpartition_after :: "char \<Rightarrow> string \<Rightarrow> string" where
  "rpartition_after c s = rev (takeWhile (\<lambda>x. x \<noteq> c) (rev s))"

definition lstrip_chars :: "string \<Rightarrow> string \<Rightarrow> string" where
  "lstrip_chars cs s = dropWhile (\<lambda>c. c \<in> set cs) s"

definition rstrip_chars :: "string \<Rightarrow> string \<Rightarrow> string" where
  "rstrip_chars cs s = rev (dropWhile (\<lambda>c. c \<in> set cs) (rev s))"

text \<open>\<open>sorted\<close> of a set given by a list of its members.\<close>

definition sorted_set :: "'a::linorder list \<Rightarrow> 'a list" where
  "sorted_set xs = sort (fromkeys xs)"

lemma set_sorted_set [simp]: "set (sorted_set xs) = set xs"
  by (simp add: sorted_set_def)

lemma distinct_sorted_set [simp]: "distinct (sorted_set xs)"
  by (simp add: sorted_set_def)

lemma sorted_sorted_set [simp]: "sorted (sorted_set xs)"
  by (simp add: sorted_set_def)

lemma sorted_set_cong: "set xs = set ys \<Longrightarrow> sorted_set xs = sorted_set ys"
  by (rule sorted_distinct_set_unique) auto

section \<open>The csv module\<close>

text \<open>
  \<open>csv.reader\<close> with the default dialect: comma, double quote, doubled quotes inside a quoted
  field, not strict. The states are those of the module's parser; a row ends when its state is back
  at the start of a record after the end of a line. Lines are split at \<open>\n\<close> only, the newline mode
  of \<open>io.StringIO\<close>.
\<close>

datatype csv_state = Start_record | Start_field | In_field | In_quoted | Quote_in_quoted | Eat_crnl

record csv_parser =
  cp_state :: csv_state
  cp_field :: string
  cp_fields :: "string list"

definition cp_reset :: csv_parser where
  "cp_reset = \<lparr>cp_state = Start_record, cp_field = [], cp_fields = []\<rparr>"

definition cp_save :: "csv_state \<Rightarrow> csv_parser \<Rightarrow> csv_parser" where
  "cp_save st p = p\<lparr>cp_state := st, cp_field := [], cp_fields := cp_fields p @ [cp_field p]\<rparr>"

definition cp_add :: "char \<Rightarrow> csv_state \<Rightarrow> csv_parser \<Rightarrow> csv_parser" where
  "cp_add c st p = p\<lparr>cp_state := st, cp_field := cp_field p @ [c]\<rparr>"

definition is_crnl :: "char \<Rightarrow> bool" where
  "is_crnl c = (c = CHR 0x0A \<or> c = CHR 0x0D)"

text \<open>One character; \<open>None\<close> is the module's error for a new-line character in an unquoted field.\<close>

fun cp_char :: "char \<Rightarrow> csv_parser \<Rightarrow> csv_parser option" where
  "cp_char c p = (case cp_state p of
      Start_record \<Rightarrow>
        if is_crnl c then Some (p\<lparr>cp_state := Eat_crnl\<rparr>)
        else if c = CHR 0x22 then Some (p\<lparr>cp_state := In_quoted\<rparr>)
        else if c = CHR '','' then Some (cp_save Start_field p)
        else Some (cp_add c In_field p)
    | Start_field \<Rightarrow>
        if is_crnl c then Some (cp_save Eat_crnl p)
        else if c = CHR 0x22 then Some (p\<lparr>cp_state := In_quoted\<rparr>)
        else if c = CHR '','' then Some (cp_save Start_field p)
        else Some (cp_add c In_field p)
    | In_field \<Rightarrow>
        if is_crnl c then Some (cp_save Eat_crnl p)
        else if c = CHR '','' then Some (cp_save Start_field p)
        else Some (cp_add c In_field p)
    | In_quoted \<Rightarrow>
        if c = CHR 0x22 then Some (p\<lparr>cp_state := Quote_in_quoted\<rparr>)
        else Some (cp_add c In_quoted p)
    | Quote_in_quoted \<Rightarrow>
        if c = CHR 0x22 then Some (cp_add c In_quoted p)
        else if c = CHR '','' then Some (cp_save Start_field p)
        else if is_crnl c then Some (cp_save Eat_crnl p)
        else Some (cp_add c In_field p)
    | Eat_crnl \<Rightarrow> if is_crnl c then Some p else None)"

text \<open>The end of a line.\<close>

definition cp_eol :: "csv_parser \<Rightarrow> csv_parser" where
  "cp_eol p = (case cp_state p of
      Start_record \<Rightarrow> p
    | In_quoted \<Rightarrow> p
    | Eat_crnl \<Rightarrow> p\<lparr>cp_state := Start_record\<rparr>
    | _ \<Rightarrow> cp_save Start_record p)"

fun cp_line :: "string \<Rightarrow> csv_parser \<Rightarrow> csv_parser option" where
  "cp_line [] p = Some (cp_eol p)"
| "cp_line (c # s) p = (case cp_char c p of None \<Rightarrow> None | Some p' \<Rightarrow> cp_line s p')"

text \<open>The lines of \<open>io.StringIO\<close>, each with its end.\<close>

fun io_lines_aux :: "string \<Rightarrow> string \<Rightarrow> string list" where
  "io_lines_aux cur [] = (if cur = [] then [] else [rev cur])"
| "io_lines_aux cur (c # s) =
     (if c = CHR 0x0A then rev (c # cur) # io_lines_aux [] s else io_lines_aux (c # cur) s)"

definition io_lines :: "string \<Rightarrow> string list" where
  "io_lines s = io_lines_aux [] s"

text \<open>
  The rows of a text: those read before the end or before an error, and whether an error ended
  the reading.
\<close>

fun csv_rows :: "csv_parser \<Rightarrow> string list \<Rightarrow> string list list \<times> bool" where
  "csv_rows p [] =
     (if cp_field p \<noteq> [] \<or> cp_state p = In_quoted then ([cp_fields p @ [cp_field p]], False)
      else ([], False))"
| "csv_rows p (l # ls) = (case cp_line l p of
      None \<Rightarrow> ([], True)
    | Some p' \<Rightarrow>
        if cp_state p' = Start_record then
          (case csv_rows cp_reset ls of (rows, err) \<Rightarrow> (cp_fields p' # rows, err))
        else csv_rows p' ls)"

definition csv_reader :: "string \<Rightarrow> string list list \<times> bool" where
  "csv_reader text = csv_rows cp_reset (io_lines text)"

text \<open>
  \<open>csv.DictReader\<close>: the first row is the header, empty rows are skipped, a short row is filled with
  \<open>None\<close> and the surplus fields of a long one are a list under the key \<open>None\<close>.
\<close>

record dict_row =
  dr_cells :: "(string \<times> string option) list"
  dr_rest :: "string list option"

definition dict_row_of :: "string list \<Rightarrow> string list \<Rightarrow> dict_row" where
  "dict_row_of names row = \<lparr>
     dr_cells = fold (\<lambda>(k, v). AList.update k v)
       (zip names (map Some row @ replicate (length names - length row) None)) [],
     dr_rest = (if length names < length row then Some (drop (length names) row) else None)\<rparr>"

definition dict_reader :: "string \<Rightarrow> dict_row list \<times> bool" where
  "dict_reader text = (case csv_reader text of
       ([], err) \<Rightarrow> ([], err)
     | (names # rows, err) \<Rightarrow> (map (dict_row_of names) (filter (\<lambda>r. r \<noteq> []) rows), err))"

end
