(* ===== verification/Brand.thy ===== *)
theory Brand
  imports PyText
begin

text \<open>
  Brand monitoring: the generator of look-alike domains (\<open>app/brand/typosquat.py\<close>) and the
  explainable scoring of a domain (\<open>app/brand/scoring.py\<close>).

  A Python set of labels is the list of its members here: the code only tests membership and sorts
  it. The texts of the scoring reasons are constructors with their arguments.
\<close>

section \<open>Look-alike domains\<close>

definition TLDS :: "string list" where
  "TLDS = [''com'', ''com.br'', ''net'', ''net.br'', ''org'', ''app'', ''online'', ''site'',
    ''shop'', ''store'', ''info'', ''xyz'', ''top'', ''live'', ''vip'', ''digital'',
    ''com.co'', ''br.com'', ''sbs'', ''icu'', ''cfd'']"

definition LURES :: "string list" where
  "LURES = [''secure'', ''support'', ''service'', ''acesso'', ''login'', ''customer'',
    ''promocao'', ''premio'', ''sorteio'', ''app'', ''central'', ''oficial'',
    ''br'', ''online'', ''account'', ''cadastro'', ''verificar'', ''pagamento'',
    ''2via'', ''payment slip'', ''pix'', ''ajuda'']"

definition HOMOGLYPHS :: "(string \<times> string list) list" where
  "HOMOGLYPHS = [
    (''o'', [''0'']), (''0'', [''o'']), (''i'', [''1'', ''l'']), (''l'', [''1'', ''i'']),
    (''e'', [''3'']), (''a'', [''4'', ''@'']), (''s'', [''5'', ''$'']), (''b'', [''8'']),
    (''g'', [''9'']), (''t'', [''7'']), (''rn'', [''m'']), (''m'', [''rn'']), (''cl'', [''d'']),
    (''vv'', [''w'']), (''w'', [''vv''])]"

definition QWERTY :: "(char \<times> string) list" where
  "QWERTY = [
    (CHR ''q'', ''wa''), (CHR ''w'', ''qes''), (CHR ''e'', ''wrd''), (CHR ''r'', ''etf''),
    (CHR ''t'', ''ryg''), (CHR ''y'', ''tuh''), (CHR ''u'', ''yij''), (CHR ''i'', ''uok''),
    (CHR ''o'', ''ipl''), (CHR ''p'', ''ol''), (CHR ''a'', ''qsz''), (CHR ''s'', ''awdx''),
    (CHR ''d'', ''sefc''), (CHR ''f'', ''drgv''), (CHR ''g'', ''fthb''), (CHR ''h'', ''gyjn''),
    (CHR ''j'', ''hukm''), (CHR ''k'', ''jil''), (CHR ''l'', ''kop''), (CHR ''z'', ''asx''),
    (CHR ''x'', ''zsdc''), (CHR ''c'', ''xdfv''), (CHR ''v'', ''cfgb''), (CHR ''b'', ''vghn''),
    (CHR ''n'', ''bhjm''), (CHR ''m'', ''njk'')]"

definition split_domain :: "string \<Rightarrow> string \<times> string" where
  "split_domain domain = (let d = str_strip (str_lower domain) in
     case List.find (\<lambda>tld. endswith d (CHR ''.'' # tld)) (sort_key (\<lambda>t. - int (length t)) TLDS) of
       Some tld \<Rightarrow> (take (length d - Suc (length tld)) d, tld)
     | None \<Rightarrow>
         if CHR ''.'' \<in> set d then (partition_before CHR ''.'' d, partition_after CHR ''.'' d)
         else (d, ''com''))"

definition label_char :: "char \<Rightarrow> bool" where
  "label_char c = (is_lower c \<or> is_digit c)"

definition valid_label :: "string \<Rightarrow> bool" where
  "valid_label l = (2 \<le> length l \<and> length l \<le> 63 \<and> label_char (hd l) \<and> label_char (last l)
     \<and> list_all (\<lambda>c. label_char c \<or> c = CHR ''-'') l)"

text \<open>The \<open>while idx != -1\<close> loop over the occurrences of a sequence.\<close>

function homoglyph_loop :: "string \<Rightarrow> string \<Rightarrow> string list \<Rightarrow> nat option \<Rightarrow> string list" where
  "homoglyph_loop label src repls None = []"
| "homoglyph_loop label src repls (Some idx) =
     map (\<lambda>r. take idx label @ r @ drop (idx + length src) label) repls
     @ homoglyph_loop label src repls (find_from label src (Suc idx))"
  by pat_completeness auto

termination homoglyph_loop
proof (relation "measure (\<lambda>(label, src, repls, idx).
    case idx of None \<Rightarrow> 0 | Some i \<Rightarrow> Suc (Suc (length label) - i))", goal_cases)
  case (2 label src repls idx)
  then show ?case
    using find_from_Some[of label src "Suc idx"]
    by (cases "find_from label src (Suc idx)") (auto simp: Suc_diff_le)
qed simp

definition char_swaps :: "string \<Rightarrow> string list" where
  "char_swaps label =
     concat (map (\<lambda>(src, repls). homoglyph_loop label src repls (find_from label src 0)) HOMOGLYPHS)
     @ concat (map (\<lambda>i. map (\<lambda>adj. take i label @ [adj] @ drop (Suc i) label)
         (case map_of QWERTY (label ! i) of None \<Rightarrow> [] | Some s \<Rightarrow> s)) [0..<length label])
     @ map (\<lambda>i. take i label @ drop (Suc i) label) [0..<length label]
     @ map (\<lambda>i. take i label @ [label ! i] @ drop i label) [0..<length label]
     @ map (\<lambda>i. take i label @ [label ! Suc i] @ [label ! i] @ drop (i + 2) label)
         [0..<length label - 1]"

definition lure_labels :: "string \<Rightarrow> string list" where
  "lure_labels label = concat (map (\<lambda>lure.
     [label @ lure, lure @ label, label @ ''-'' @ lure, lure @ ''-'' @ label]) LURES)"

definition altered_labels :: "string \<Rightarrow> string list" where
  "altered_labels label = filter (\<lambda>l. valid_label l \<and> l \<noteq> label)
     (char_swaps label @ lure_labels label @ [label @ ''-br''])"

text \<open>
  The two nested loops. \<open>seen\<close> always holds the candidates, so the list carries both; the left
  value is the early return.
\<close>

fun add_tlds :: "int \<Rightarrow> string \<Rightarrow> string list \<Rightarrow> string list \<Rightarrow> string list + string list" where
  "add_tlds m lab [] cands = Inr cands"
| "add_tlds m lab (t # ts) cands =
     (let fqdn = lab @ ''.'' @ t;
          cands' = (if fqdn \<in> set cands then cands else cands @ [fqdn])
      in if int (length cands') \<ge> m then Inl cands' else add_tlds m lab ts cands')"

fun add_labels :: "int \<Rightarrow> string list \<Rightarrow> string list \<Rightarrow> string list \<Rightarrow> string list" where
  "add_labels m tlds [] cands = cands"
| "add_labels m tlds (lab # labs) cands = (case add_tlds m lab tlds cands of
       Inl r \<Rightarrow> r
     | Inr cands' \<Rightarrow> add_labels m tlds labs cands')"

definition priority_tlds :: "string \<Rightarrow> string list" where
  "priority_tlds tld = [tld, ''com'', ''com.br'', ''app'', ''online'', ''shop'']"

definition generate :: "string \<Rightarrow> int \<Rightarrow> string list" where
  "generate domain max_results = (case split_domain domain of (label, tld) \<Rightarrow>
     if label = [] then []
     else add_labels max_results (priority_tlds tld) (sorted_set (altered_labels label)) [])"

section \<open>Properties of the generator\<close>

lemma dot_not_label_char [simp]: "\<not> label_char CHR ''.''"
  by (simp add: label_char_def is_lower_def is_digit_def)

lemma valid_label_no_dot: "valid_label l \<Longrightarrow> CHR ''.'' \<notin> set l"
  by (auto simp: valid_label_def list_all_iff)

text \<open>
  The reference: all candidates in the order of the sorted labels and the priority list, the first
  occurrence of each, cut at the bound. The code checks the bound after an addition, so a bound
  below one counts as one.
\<close>

definition candidate_names :: "string list \<Rightarrow> string list \<Rightarrow> string list" where
  "candidate_names tlds labs = concat (map (\<lambda>lab. map (\<lambda>t. lab @ ''.'' @ t) tlds) labs)"

fun extend :: "'a list \<Rightarrow> 'a list \<Rightarrow> 'a list" where
  "extend acc [] = acc"
| "extend acc (x # xs) = extend (if x \<in> set acc then acc else acc @ [x]) xs"

lemma extend_prefix: "prefix acc (extend acc xs)"
proof (induction acc xs rule: extend.induct)
  case (2 acc x xs)
  then show ?case by (cases "x \<in> set acc") (auto elim: prefix_order.trans[rotated])
qed simp

lemma extend_append: "extend acc (xs @ ys) = extend (extend acc xs) ys"
  by (induction acc xs rule: extend.induct) auto

lemma extend_fromkeys: "extend acc xs = acc @ filter (\<lambda>x. x \<notin> set acc) (fromkeys xs)"
proof (induction acc xs rule: extend.induct)
  case (2 acc x xs)
  show ?case
  proof (cases "x \<in> set acc")
    case True
    then have "filter (\<lambda>y. y \<notin> set acc) (removeAll x (fromkeys xs)) = filter (\<lambda>y. y \<notin> set acc) (fromkeys xs)"
      by (induction "fromkeys xs") (auto simp: removeAll_filter_not_eq intro!: filter_cong)
    with 2 True show ?thesis by simp
  next
    case False
    have "filter (\<lambda>y. y \<notin> set acc) (removeAll x (fromkeys xs)) =
      filter (\<lambda>y. y \<notin> set (acc @ [x])) (fromkeys xs)"
      by (auto simp: removeAll_filter_not_eq intro!: filter_cong)
    with 2 False show ?thesis by simp
  qed
qed simp

lemma extend_cut:
  fixes m :: int
  assumes "cands = [] \<or> int (length cands) < m" "cands' = (if x \<in> set cands then cands else cands @ [x])"
    "int (length cands') \<ge> m"
  shows "take (nat (max 1 m)) (extend cands' xs) = cands'"
proof -
  from assms have "length cands' = nat (max 1 m)" by (auto split: if_splits)
  with extend_prefix[of cands' xs] show ?thesis by (auto elim!: prefixE)
qed

lemma add_tlds_cut:
  fixes m :: int
  assumes "cands = [] \<or> int (length cands) < m"
  shows "case add_tlds m lab ts cands of
      Inl r \<Rightarrow> (\<forall>xs. take (nat (max 1 m)) (extend cands (map (\<lambda>t. lab @ ''.'' @ t) ts @ xs)) = r)
    | Inr r \<Rightarrow> r = extend cands (map (\<lambda>t. lab @ ''.'' @ t) ts) \<and> (r = [] \<or> int (length r) < m)"
  using assms
proof (induction m lab ts cands rule: add_tlds.induct)
  case (2 m lab t ts cands)
  define cands' where "cands' = (if lab @ ''.'' @ t \<in> set cands then cands else cands @ [lab @ ''.'' @ t])"
  have ext: "extend cands (map (\<lambda>t. lab @ ''.'' @ t) (t # ts) @ xs) =
    extend cands' (map (\<lambda>t. lab @ ''.'' @ t) ts @ xs)" for xs
    by (simp add: cands'_def)
  have ext0: "extend cands (map (\<lambda>t. lab @ ''.'' @ t) (t # ts)) = extend cands' (map (\<lambda>t. lab @ ''.'' @ t) ts)"
    by (simp add: cands'_def)
  show ?case
  proof (cases "int (length cands') \<ge> m")
    case True
    with extend_cut[OF 2(2) cands'_def True] show ?thesis
      unfolding ext add_tlds.simps Let_def cands'_def[symmetric] by simp
  next
    case False
    then have "cands' = [] \<or> int (length cands') < m" by simp
    from 2(1)[OF refl refl, folded cands'_def, OF False this] show ?thesis
      using False unfolding ext ext0 add_tlds.simps Let_def cands'_def[symmetric] by simp
  qed
qed simp

lemma add_labels_cut:
  assumes "cands = [] \<or> int (length cands) < m"
  shows "add_labels m tlds labs cands = take (nat (max 1 m)) (extend cands (candidate_names tlds labs))"
  using assms
proof (induction labs arbitrary: cands)
  case Nil
  then show ?case by (auto simp: candidate_names_def)
next
  case (Cons lab labs)
  note step = add_tlds_cut[OF Cons(2), of lab tlds]
  show ?case
  proof (cases "add_tlds m lab tlds cands")
    case (Inl r)
    with step show ?thesis by (simp add: candidate_names_def)
  next
    case (Inr r)
    with step have "r = extend cands (map (\<lambda>t. lab @ ''.'' @ t) tlds)" "r = [] \<or> int (length r) < m" by auto
    with Cons(1)[of r] Inr show ?thesis by (simp add: candidate_names_def extend_append)
  qed
qed

text \<open>The generator returns the first \<open>max_results\<close> of all candidates, in order.\<close>

theorem generate_reference:
  "generate domain max_results = (case split_domain domain of (label, tld) \<Rightarrow>
     if label = [] then []
     else take (nat (max 1 max_results)) (fromkeys (candidate_names
       (priority_tlds tld) (sorted_set (altered_labels label)))))"
  by (simp add: generate_def add_labels_cut extend_fromkeys split: prod.split)


lemma endswith_append: "endswith s p \<Longrightarrow> s = take (length s - length p) s @ p"
  unfolding endswith_def by (metis append_take_drop_id)

lemma split_at_char: "c \<in> set s \<Longrightarrow> s = partition_before c s @ c # partition_after c s"
  unfolding partition_before_def partition_after_def
  by (induction s) auto

lemma partition_before_notin: "c \<notin> set (partition_before c s)"
  unfolding partition_before_def using set_takeWhileD by fastforce

lemma split_domain_text:
  assumes "split_domain domain = (label, tld)" "d = str_strip (str_lower domain)"
  shows "(tld \<in> set TLDS \<and> d = label @ ''.'' @ tld) \<or>
    (CHR ''.'' \<notin> set label \<and> (d = label @ ''.'' @ tld \<or> d = label \<and> tld = ''com''))"
proof (cases "List.find (\<lambda>tld. endswith d (CHR ''.'' # tld)) (sort_key (\<lambda>t. - int (length t)) TLDS)")
  case None
  show ?thesis
  proof (cases "CHR ''.'' \<in> set d")
    case True
    then have "label = partition_before CHR ''.'' d" "tld = partition_after CHR ''.'' d"
      using assms(1) None by (simp_all add: split_domain_def Let_def flip: assms(2))
    with True split_at_char[of "CHR ''.''" d] show ?thesis by (simp add: partition_before_notin)
  next
    case False
    then show ?thesis
      using assms(1) None by (simp add: split_domain_def Let_def flip: assms(2))
  qed
next
  case (Some t)
  then have r: "label = take (length d - Suc (length t)) d" "tld = t"
    using assms(1) by (auto simp add: split_domain_def Let_def simp flip: assms(2))
  from find_SomeD[OF Some] have "t \<in> set TLDS" "endswith d (CHR ''.'' # t)" by auto
  with endswith_append[OF this(2)] r show ?thesis by simp
qed

lemma partition_before_append:
  "CHR ''.'' \<notin> set w \<Longrightarrow> partition_before CHR ''.'' (w @ CHR ''.'' # s) = w"
  by (induction w) (auto simp: partition_before_def)

lemma dot_split_unique:
  fixes a b u v :: string
  assumes "CHR ''.'' \<notin> set a" "CHR ''.'' \<notin> set b" "a @ CHR ''.'' # u = b @ CHR ''.'' # v"
  shows "a = b \<and> u = v"
proof -
  from assms have "a = b" by (metis partition_before_append)
  with assms(3) show ?thesis by simp
qed

text \<open>
  A dotted label has a top-level domain of the list, so a candidate of it cannot spell the
  monitored domain: the rest after the first dot would be two names of the list joined.
\<close>

lemma candidate_not_original:
  assumes "split_domain domain = (label, tld)" "valid_label lab" "lab \<noteq> label" "t \<in> set (priority_tlds tld)"
  shows "lab @ ''.'' @ t \<noteq> str_strip (str_lower domain)"
proof
  assume eq: "lab @ ''.'' @ t = str_strip (str_lower domain)"
  note nodot = valid_label_no_dot[OF assms(2)]
  from split_domain_text[OF assms(1) eq] show False
  proof (elim disjE conjE)
    assume dots: "tld \<in> set TLDS" "lab @ ''.'' @ t = label @ ''.'' @ tld"
    then have "CHR ''.'' \<in> set label"
      using dot_split_unique[of lab label t tld] nodot assms(3) by auto
    then obtain x where x: "label = partition_before CHR ''.'' label @ CHR ''.'' # x"
      using split_at_char by blast
    with dots(2) have "lab @ CHR ''.'' # t = partition_before CHR ''.'' label @ CHR ''.'' # (x @ ''.'' @ tld)"
      by (metis append.assoc append_Cons append_Nil)
    then have "t = x @ ''.'' @ tld"
      using dot_split_unique nodot partition_before_notin by blast
    with assms(4) dots(1) show False
      by (auto simp: priority_tlds_def TLDS_def append_eq_Cons_conv)
  next
    assume "CHR ''.'' \<notin> set label" "lab @ ''.'' @ t = label @ ''.'' @ tld"
    then show False using dot_split_unique[of lab label t tld] nodot assms(3) by auto
  next
    assume "CHR ''.'' \<notin> set label" "lab @ ''.'' @ t = label"
    then show False by auto
  qed
qed

lemma generate_eq_take:
  "split_domain domain = (label, tld) \<Longrightarrow> label \<noteq> [] \<Longrightarrow> generate domain m =
     take (nat (max 1 m)) (fromkeys (candidate_names (priority_tlds tld) (sorted_set (altered_labels label))))"
  by (simp add: generate_def add_labels_cut extend_fromkeys)

lemma altered_labels_valid: "l \<in> set (altered_labels label) \<Longrightarrow> valid_label l \<and> l \<noteq> label"
  unfolding altered_labels_def set_filter by blast

lemma generate_member:
  assumes "c \<in> set (generate domain m)" "split_domain domain = (label, tld)"
  obtains lab t where "c = lab @ ''.'' @ t" "valid_label lab" "lab \<noteq> label" "t \<in> set (priority_tlds tld)"
proof -
  have "label \<noteq> []" using assms by (auto simp: generate_def)
  with assms have "c \<in> set (candidate_names (priority_tlds tld) (sorted_set (altered_labels label)))"
    by (auto simp: generate_eq_take dest: in_set_takeD)
  then show ?thesis
    by (auto simp: candidate_names_def dest!: altered_labels_valid intro: that)
qed

text \<open>The candidates are distinct, at most \<open>max_results\<close> (at least one is allowed), each a
  valid host label that differs from the monitored one before a top-level domain, and the monitored
  domain itself, in its normal form, is never among them.
\<close>

theorem generate_sound:
  "distinct (generate domain max_results) \<and>
   int (length (generate domain max_results)) \<le> max 1 max_results \<and>
   str_strip (str_lower domain) \<notin> set (generate domain max_results) \<and>
   list_all (\<lambda>c. valid_label (partition_before CHR ''.'' c)
      \<and> partition_before CHR ''.'' c \<noteq> fst (split_domain domain)) (generate domain max_results)"
proof -
  obtain label tld where sd: "split_domain domain = (label, tld)" by fastforce
  have shape: "distinct (generate domain max_results) \<and> int (length (generate domain max_results)) \<le> max 1 max_results"
  proof (cases "label = []")
    case False
    with sd show ?thesis by (auto simp: generate_eq_take)
  qed (simp add: generate_def sd)
  have orig: "str_strip (str_lower domain) \<notin> set (generate domain max_results)"
    using generate_member[OF _ sd] candidate_not_original[OF sd] by metis
  have "valid_label (partition_before CHR ''.'' c) \<and> partition_before CHR ''.'' c \<noteq> label"
    if "c \<in> set (generate domain max_results)" for c
  proof -
    from that obtain lab t where c: "c = lab @ ''.'' @ t" "valid_label lab" "lab \<noteq> label"
      using generate_member[OF _ sd] by blast
    then have "partition_before CHR ''.'' c = lab"
      using partition_before_append valid_label_no_dot by simp
    with c show ?thesis by simp
  qed
  with shape orig sd show ?thesis by (simp add: list_all_iff)
qed

section \<open>Scoring\<close>

text \<open>The reasons, and what the code reads of the evidence dictionary.\<close>

datatype reason =
    SimilarToMonitored int | SimilarToBrand int | LureTerm string | ResolvesToIp | HasMx
  | RegisteredOnly int | RegisteredDays int | CertificateDays int | ListedInUrlhaus | ParkedDomain

record factor =
  f_name :: string
  f_points :: int
  f_reason :: reason
  f_source :: string

record evidence =
  ev_resolves :: bool
  ev_mx :: bool
  ev_age_days :: "int option"
  ev_cert_age_days :: "int option"
  ev_urlhaus_listed :: bool
  ev_parked :: bool

definition VERDICTS :: "(int \<times> string) list" where
  "VERDICTS = [(70, ''malicious''), (45, ''suspicious''), (15, ''low'')]"

definition factor_of :: "string \<Rightarrow> int \<Rightarrow> reason \<Rightarrow> string \<Rightarrow> factor" where
  "factor_of n p r s = \<lparr>f_name = n, f_points = p, f_reason = r, f_source = s\<rparr>"

definition similarity_factor :: "int \<Rightarrow> factor list" where
  "similarity_factor similarity =
     (if similarity \<ge> 90 then [factor_of ''high_similarity'' 20 (SimilarToMonitored similarity) ''ThreatForge'']
      else if similarity \<ge> 75 then [factor_of ''similarity'' 10 (SimilarToMonitored similarity) ''ThreatForge'']
      else if similarity \<ge> 60 then [factor_of ''similarity'' 5 (SimilarToBrand similarity) ''ThreatForge'']
      else [])"

definition lure_factor :: "string \<Rightarrow> factor list" where
  "lure_factor domain = (case List.find (\<lambda>l. str_contains l domain) LURES of
     None \<Rightarrow> [] | Some l \<Rightarrow> [factor_of ''lure_term'' 8 (LureTerm l) ''ThreatForge''])"

definition age_factor :: "int option \<Rightarrow> factor list" where
  "age_factor age = (case age of
     None \<Rightarrow> []
   | Some a \<Rightarrow>
       if a \<le> 7 then [factor_of ''very_new_domain'' 25 (RegisteredOnly a) ''RDAP'']
       else if a \<le> 30 then [factor_of ''new_domain'' 15 (RegisteredDays a) ''RDAP'']
       else if a \<le> 90 then [factor_of ''recent_domain'' 6 (RegisteredDays a) ''RDAP''] else [])"

definition cert_factor :: "int option \<Rightarrow> factor list" where
  "cert_factor age = (case age of
     None \<Rightarrow> []
   | Some a \<Rightarrow> if a \<le> 7 then [factor_of ''fresh_cert'' 12 (CertificateDays a) ''crt.sh''] else [])"

definition scored_factors :: "string \<Rightarrow> int \<Rightarrow> evidence \<Rightarrow> factor list" where
  "scored_factors domain similarity e =
     similarity_factor similarity @ lure_factor domain
     @ (if ev_resolves e then [factor_of ''resolves'' 6 ResolvesToIp ''DNS''] else [])
     @ (if ev_mx e then [factor_of ''mx_record'' 22 HasMx ''DNS''] else [])
     @ age_factor (ev_age_days e)
     @ cert_factor (ev_cert_age_days e)
     @ (if ev_urlhaus_listed e then [factor_of ''urlhaus'' 45 ListedInUrlhaus ''abuse.ch URLhaus''] else [])"

text \<open>The set \<open>strong\<close>, filled beside the factors of the strong signals.\<close>

definition strong_signals :: "evidence \<Rightarrow> string list" where
  "strong_signals e =
     (if ev_mx e then [''mx_record''] else [])
     @ (case ev_age_days e of None \<Rightarrow> [] | Some a \<Rightarrow>
         if a \<le> 7 then [''very_new_domain''] else if a \<le> 30 then [''new_domain''] else [])
     @ (case ev_cert_age_days e of None \<Rightarrow> [] | Some a \<Rightarrow> if a \<le> 7 then [''fresh_cert''] else [])
     @ (if ev_urlhaus_listed e then [''urlhaus''] else [])"

definition threshold_verdict :: "int \<Rightarrow> string" where
  "threshold_verdict score = (case List.find (\<lambda>(t, name). score \<ge> t) VERDICTS of
     None \<Rightarrow> ''info'' | Some (t, name) \<Rightarrow> name)"

definition score_finding :: "string \<Rightarrow> int \<Rightarrow> evidence \<Rightarrow> int \<times> string \<times> factor list" where
  "score_finding domain similarity e = (
     let factors = scored_factors domain similarity e;
         strong = strong_signals e;
         score = min 100 (max 0 (sum_list (map f_points factors)));
         factors' = (if ev_parked e then factors @ [factor_of ''parked'' 0 ParkedDomain ''DNS/NS''] else factors);
         verdict0 = threshold_verdict score;
         verdict1 = (if verdict0 \<in> {''suspicious'', ''malicious''} \<and> strong = [] then ''low'' else verdict0);
         verdict2 = (if ev_parked e \<and> \<not> (\<exists>s \<in> {''mx_record'', ''urlhaus''}. s \<in> set strong)
           then (if verdict1 \<in> {''suspicious'', ''malicious''} then ''low'' else verdict1) else verdict1)
     in (score, verdict2, factors'))"

section \<open>Properties of the scoring\<close>

lemmas scoring_defs = scored_factors_def similarity_factor_def lure_factor_def age_factor_def
  cert_factor_def factor_of_def

lemma points_bounds:
  "0 \<le> sum_list (map f_points (scored_factors d s e))"
  "sum_list (map f_points (scored_factors d s e)) \<le> 138"
  by (auto simp: scoring_defs split: option.splits)

lemma points_weak: "strong_signals e = [] \<Longrightarrow> sum_list (map f_points (scored_factors d s e)) \<le> 40"
  by (auto simp: scoring_defs strong_signals_def split: option.splits if_splits)

lemma strong_mem:
  "''mx_record'' \<in> set (strong_signals e) = ev_mx e"
  "''urlhaus'' \<in> set (strong_signals e) = ev_urlhaus_listed e"
  by (auto simp: strong_signals_def split: option.splits)

lemma threshold_verdict_eq: "threshold_verdict score =
   (if score < 15 then ''info'' else if score < 45 then ''low'' else if score < 70 then ''suspicious'' else ''malicious'')"
  by (simp add: threshold_verdict_def VERDICTS_def)

text \<open>The score is the sum of the points of the returned factors, capped at 100, and the
  verdict is read off it exactly: thresholds 15, 45 and 70, with everything above \<open>low\<close> withheld from
  a parked domain that has neither a mail record nor a URLhaus listing. Without a strong signal the
  score never passes 40, so the demotion the code makes for that case can never change a verdict.
\<close>

theorem brand_verdict_exact:
  "case score_finding domain similarity e of (score, verdict, factors) \<Rightarrow>
     score = min 100 (sum_list (map f_points factors)) \<and> 0 \<le> score \<and>
     score \<le> (if strong_signals e = [] then 40 else 100) \<and>
     verdict = (if score < 15 then ''info''
       else if score < 45 \<or> (ev_parked e \<and> \<not> ev_mx e \<and> \<not> ev_urlhaus_listed e) then ''low''
       else if score < 70 then ''suspicious'' else ''malicious'')"
proof -
  define p where "p = sum_list (map f_points (scored_factors domain similarity e))"
  have p: "0 \<le> p" "p \<le> 138" "strong_signals e = [] \<Longrightarrow> p \<le> 40"
    using points_bounds points_weak by (auto simp: p_def)
  have "sum_list (map f_points (if ev_parked e then scored_factors domain similarity e
      @ [factor_of ''parked'' 0 ParkedDomain ''DNS/NS''] else scored_factors domain similarity e)) = p"
    by (simp add: p_def factor_of_def)
  with p show ?thesis
    by (cases "strong_signals e = []"; cases "p < 70")
      (simp_all add: score_finding_def Let_def strong_mem threshold_verdict_eq flip: p_def)
qed

definition age_le :: "int option \<Rightarrow> int option \<Rightarrow> bool" where
  "age_le a b = (case b of None \<Rightarrow> True | Some y \<Rightarrow> (case a of None \<Rightarrow> False | Some x \<Rightarrow> x \<le> y))"

definition stronger :: "evidence \<Rightarrow> evidence \<Rightarrow> bool" where
  "stronger e' e = ((ev_resolves e \<longrightarrow> ev_resolves e') \<and> (ev_mx e \<longrightarrow> ev_mx e')
     \<and> age_le (ev_age_days e') (ev_age_days e) \<and> age_le (ev_cert_age_days e') (ev_cert_age_days e)
     \<and> (ev_urlhaus_listed e \<longrightarrow> ev_urlhaus_listed e'))"

definition points :: "factor list \<Rightarrow> int" where
  "points fs = sum_list (map f_points fs)"

lemma points_append: "points (fs @ gs) = points fs + points gs"
  by (simp add: points_def)

text \<open>More evidence never lowers the score. Adding signals, or replacing an age by a
  smaller one, keeps or raises it.
\<close>

theorem brand_score_mono:
  assumes "stronger e' e" "similarity \<le> similarity'"
  shows "fst (score_finding domain similarity e) \<le> fst (score_finding domain similarity' e')"
proof -
  have pieces: "points (similarity_factor similarity) \<le> points (similarity_factor similarity')"
    "points (age_factor (ev_age_days e)) \<le> points (age_factor (ev_age_days e'))"
    "points (cert_factor (ev_cert_age_days e)) \<le> points (cert_factor (ev_cert_age_days e'))"
    using assms by (auto simp: stronger_def age_le_def points_def scoring_defs split: option.splits)
  have flag: "points (if b then [factor_of n p r t] else []) = (if b then p else 0)" for b n p r t
    by (simp add: points_def factor_of_def)
  have "points (scored_factors domain similarity e) \<le> points (scored_factors domain similarity' e')"
    using pieces assms(1) by (simp add: scored_factors_def points_append flag stronger_def)
  then show ?thesis by (simp add: score_finding_def Let_def points_def)
qed

definition weak_evidence :: evidence where
  "weak_evidence = \<lparr>ev_resolves = True, ev_mx = False, ev_age_days = Some 60, ev_cert_age_days = None,
     ev_urlhaus_listed = False, ev_parked = False\<rparr>"

definition strong_evidence :: evidence where
  "strong_evidence = weak_evidence\<lparr>ev_mx := True, ev_age_days := Some 3\<rparr>"

theorem brand_score_mono_witness:
  "stronger strong_evidence weak_evidence \<and> (80 :: int) \<le> 92 \<and>
   fst (score_finding ''bank-login.com'' 80 weak_evidence)
     \<le> fst (score_finding ''bank-login.com'' 92 strong_evidence)"
proof -
  have "stronger strong_evidence weak_evidence"
    by (simp add: stronger_def strong_evidence_def weak_evidence_def age_le_def)
  with brand_score_mono[of strong_evidence weak_evidence 80 92 "''bank-login.com''"] show ?thesis by simp
qed

end
