(* ===== verification/BrandScan.thy ===== *)
theory BrandScan
  imports Brand Store
begin

text \<open>
  The brand scanner (\<open>app/brand/scanner.py\<close>). What it reads from outside is a record of functions:
  address look-ups, the answers of the DNS, RDAP, certificate and URLhaus services as decoded JSON
  or an exception, the date parser, the rounded similarity (a float computation over
  \<open>levenshtein\<close>) and the order in which CPython iterates the set of official domains.
\<close>

section \<open>Values read by duck typing\<close>

text \<open>\<open>for x in v\<close> and \<open>v.get(k, default)\<close> on a decoded JSON value.\<close>

fun json_items :: "json \<Rightarrow> json list res" where
  "json_items (JList xs) = Inr xs"
| "json_items (JObj d) = Inr (map (\<lambda>(k, v). JStr k) d)"
| "json_items (JStr s) = Inr (map (\<lambda>c. JStr [c]) s)"
| "json_items _ = Inl TypeError"

fun json_get :: "json \<Rightarrow> string \<Rightarrow> json \<Rightarrow> json res" where
  "json_get (JObj d) k dflt = Inr (case map_of d k of None \<Rightarrow> dflt | Some v \<Rightarrow> v)"
| "json_get _ k dflt = Inl OtherError"

fun json_str :: "json \<Rightarrow> string res" where
  "json_str (JStr s) = Inr s"
| "json_str _ = Inl OtherError"

fun map_res :: "('a \<Rightarrow> 'b res) \<Rightarrow> 'a list \<Rightarrow> 'b list res" where
  "map_res f [] = Inr []"
| "map_res f (x # xs) = bindr (f x) (\<lambda>y. bindr (map_res f xs) (\<lambda>ys. Inr (y # ys)))"

definition default_on_error :: "'a \<Rightarrow> 'a res \<Rightarrow> 'a" where
  "default_on_error d r = (case r of Inl e \<Rightarrow> d | Inr x \<Rightarrow> x)"

section \<open>Evidence from the network\<close>

record response =
  rs_status :: int
  rs_blank :: bool
  rs_json :: "json res"

record network =
  nw_addresses :: "string \<Rightarrow> string list option res"
  nw_dns :: "string \<Rightarrow> string \<Rightarrow> response res"
  nw_rdap :: "string \<Rightarrow> response res"
  nw_crtsh :: "string \<Rightarrow> response res"
  nw_urlhaus :: "string \<Rightarrow> json res"
  nw_from_iso :: "string \<Rightarrow> time res"
  nw_from_naive_iso :: "string \<Rightarrow> time res"
  nw_percent :: "string \<Rightarrow> string \<Rightarrow> int"
  nw_first :: "string list \<Rightarrow> string"
  nw_abuse_key :: bool

text \<open>
  \<open>nw_addresses d\<close> is \<open>Inr None\<close> when \<open>getaddrinfo\<close> raises an \<open>OSError\<close>, which \<open>_resolves\<close> catches;
  any other exception (\<open>UnicodeError\<close> for a label the IDNA codec refuses) is an \<open>Inl\<close> and escapes.
\<close>

definition resolves_to :: "network \<Rightarrow> string \<Rightarrow> (bool \<times> string list) res" where
  "resolves_to nw domain = bindr (nw_addresses nw domain) (\<lambda>infos. case infos of
       None \<Rightarrow> Inr (False, [])
     | Some ips \<Rightarrow> Inr (True, sorted_set ips))"

definition has_mx :: "network \<Rightarrow> string \<Rightarrow> bool" where
  "has_mx nw domain = default_on_error False
     (bindr (nw_dns nw domain ''MX'') (\<lambda>r. bindr (rs_json r) (\<lambda>j.
        bindr (json_get j ''Answer'' JNull) (\<lambda>a. Inr (truthy a)))))"

definition PARKING_PROVIDERS :: "string list" where
  "PARKING_PROVIDERS = [
    ''sedoparking'', ''sedo.com'', ''bodis'', ''parkingcrew'', ''above.com'', ''dan.com'',
    ''afternic'', ''hugedomains'', ''voodoo.com'', ''parklogic'', ''fabulous.com'',
    ''namedrive'', ''sav.com'', ''undeveloped'', ''cashparking'', ''domainmarket'',
    ''uniregistry'', ''name.com/parking'', ''parkingpage'', ''1plus.net'', ''dnsowl'',
    ''registrar-servers'', ''porkbun-parking'', ''domc'', ''bodis.com'', ''skenzo'']"

definition nameservers :: "network \<Rightarrow> string \<Rightarrow> string list" where
  "nameservers nw domain = default_on_error []
     (bindr (nw_dns nw domain ''NS'') (\<lambda>r. bindr (rs_json r) (\<lambda>j.
        bindr (json_get j ''Answer'' (JList [])) (\<lambda>answer. bindr (json_items answer) (map_res (\<lambda>a.
          bindr (json_get a ''data'' (JStr [])) (\<lambda>v. bindr (json_str v) (\<lambda>s.
            Inr (str_lower (rstrip_chars ''.'' s))))))))))"

definition is_parked :: "string list \<Rightarrow> bool" where
  "is_parked ns = (let joined = join '' '' ns in \<exists>p \<in> set PARKING_PROVIDERS. str_contains p joined)"

definition days_since :: "time \<Rightarrow> time \<Rightarrow> int" where
  "days_since now t = max 0 ((now - t) div 86400000000)"

fun first_registration :: "network \<Rightarrow> time \<Rightarrow> json list \<Rightarrow> int option res" where
  "first_registration nw now [] = Inr None"
| "first_registration nw now (ev # evs) =
     bindr (json_get ev ''eventAction'' JNull) (\<lambda>action.
       if action = JStr ''registration'' then
         bindr (json_get ev ''eventDate'' (JStr [])) (\<lambda>d. bindr (json_str d) (\<lambda>ts.
           bindr (nw_from_iso nw (concat (map (\<lambda>c. if c = CHR ''Z'' then ''+00:00'' else [c]) ts)))
             (\<lambda>reg. Inr (Some (days_since now reg)))))
       else first_registration nw now evs)"

definition rdap_age_days :: "network \<Rightarrow> time \<Rightarrow> string \<Rightarrow> int option" where
  "rdap_age_days nw now domain = default_on_error None
     (bindr (nw_rdap nw domain) (\<lambda>r. if rs_status r \<noteq> 200 then Inr None
        else bindr (rs_json r) (\<lambda>j. bindr (json_get j ''events'' (JList [])) (\<lambda>evs.
          bindr (json_items evs) (first_registration nw now)))))"

definition ct_cert_age_days :: "network \<Rightarrow> time \<Rightarrow> string \<Rightarrow> int option" where
  "ct_cert_age_days nw now domain = default_on_error None
     (bindr (nw_crtsh nw domain) (\<lambda>r. if rs_status r \<noteq> 200 \<or> rs_blank r then Inr None
        else bindr (rs_json r) (\<lambda>entries. if \<not> truthy entries then Inr None
          else bindr (json_items entries) (\<lambda>es.
            bindr (map_res (\<lambda>e. bindr (json_get e ''not_before'' (JStr [])) json_str) es) (\<lambda>ds.
              let newest = foldr max ds [] in
              if newest = [] then Inr None
              else bindr (nw_from_naive_iso nw newest) (\<lambda>t. Inr (Some (days_since now t))))))))"

definition ct_name :: "string \<Rightarrow> string" where
  "ct_name name = lstrip_chars ''*.'' (str_lower (str_strip name))"

definition ct_discover :: "network \<Rightarrow> string \<Rightarrow> nat \<Rightarrow> string list" where
  "ct_discover nw brand_label limit = default_on_error []
     (bindr (nw_crtsh nw (''%'' @ brand_label @ ''%'')) (\<lambda>r. if rs_status r \<noteq> 200 \<or> rs_blank r then Inr []
        else bindr (rs_json r) (\<lambda>j. bindr (json_items j) (\<lambda>es.
          bindr (map_res (\<lambda>e. bindr (json_get e ''name_value'' (JStr [])) (\<lambda>v.
            bindr (json_str (jor v (JStr []))) (\<lambda>s. Inr (splitlines s)))) es) (\<lambda>names.
              Inr (take limit (sorted_set
                (filter (\<lambda>n. str_contains brand_label n \<and> CHR ''@'' \<notin> set n)
                  (map ct_name (concat names))))))))))"

text \<open>
  The host look-up of \<open>UrlhausConnector.enrich\<close>, the only kind the scanner asks for; its answer is
  \<open>nw_urlhaus\<close>, the decoded JSON or an exception.
\<close>

definition urlhaus_host :: "network \<Rightarrow> string \<Rightarrow> json res" where
  "urlhaus_host nw value =
     (if \<not> nw_abuse_key nw then
        Inr (JObj [(''skipped'', JBool True), (''reason'', JStr ''ABUSECH_API_KEY is not configured'')])
      else bindr (nw_urlhaus nw value) (\<lambda>data.
        bindr (json_get data ''query_status'' JNull) (\<lambda>status.
          if status \<noteq> JStr ''ok'' then Inr (JObj [(''listed'', JBool False), (''query_status'', status)])
          else Inr (JObj [(''listed'', JBool True), (''query_status'', JStr ''ok''),
            (''url_count'', jget (jdict data) ''url_count''), (''first_seen'', jget (jdict data) ''firstseen''),
            (''blacklists'', jget (jdict data) ''blacklists''),
            (''reference'', jget (jdict data) ''urlhaus_reference'')]))))"

definition urlhaus_listed :: "network \<Rightarrow> string \<Rightarrow> bool" where
  "urlhaus_listed nw domain = default_on_error False
     (bindr (urlhaus_host nw domain) (\<lambda>d. Inr (truthy d \<and> truthy (jget (jdict d) ''listed''))))"

section \<open>Tables\<close>

record scan_evidence = evidence +
  se_ips :: "string list"
  se_similarity :: int
  se_nameservers :: "string list"

record brand_finding =
  bf_id :: int
  bf_tenant_id :: int
  bf_brand_id :: int
  bf_domain :: string
  bf_source :: string
  bf_similarity :: int
  bf_score :: int
  bf_verdict :: string
  bf_score_factors :: "factor list"
  bf_evidence :: scan_evidence
  bf_status :: string
  bf_alerted :: bool
  bf_first_seen :: time
  bf_last_seen :: time

text \<open>The columns of a brand that only brand monitoring uses.\<close>

record monitored_brand = brand +
  mb_logo_url :: "string option"
  mb_archived_at :: "time option"
  mb_created_at :: time
  mb_last_scan_at :: "time option"

record brand_db =
  bd_brands :: "monitored_brand list"
  bd_findings :: "brand_finding list"

definition domain_list :: "'a brand_scheme \<Rightarrow> string list" where
  "domain_list b = map (\<lambda>d. str_lower (str_strip d))
     (filter (\<lambda>d. str_strip d \<noteq> []) (str_split (CHR '','') (br_official_domains b)))"

section \<open>The scan\<close>

text \<open>The evidence of one domain that is looked at deeply.\<close>

definition gather_evidence :: "network \<Rightarrow> time \<Rightarrow> bool \<Rightarrow> string \<Rightarrow> bool \<Rightarrow> string list \<Rightarrow> int \<Rightarrow> scan_evidence" where
  "gather_evidence nw now deep domain resolves ips sim = (
     let ns = (if resolves then nameservers nw domain else []) in
     \<lparr>ev_resolves = resolves,
      ev_mx = (deep \<and> resolves \<and> has_mx nw domain),
      ev_age_days = (if deep then rdap_age_days nw now domain else None),
      ev_cert_age_days = (if deep then ct_cert_age_days nw now domain else None),
      ev_urlhaus_listed = urlhaus_listed nw domain,
      ev_parked = (resolves \<and> is_parked ns),
      se_ips = ips, se_similarity = sim, se_nameservers = ns\<rparr>)"

text \<open>
  The session during a scan: the rows read and changed in place, and the rows added, which no query
  of the loop sees because the session does not flush before a query.
\<close>

record scan_state =
  sc_rows :: "brand_finding list"
  sc_added :: "brand_finding list"
  sc_updated :: nat
  sc_checked :: nat

definition known_finding :: "int \<Rightarrow> string \<Rightarrow> brand_finding list \<Rightarrow> brand_finding option" where
  "known_finding brand_id domain rows = find (\<lambda>f. bf_brand_id f = brand_id \<and> bf_domain f = domain) rows"

definition rescored :: "time \<Rightarrow> int \<Rightarrow> int \<times> string \<times> factor list \<Rightarrow> scan_evidence \<Rightarrow> brand_finding \<Rightarrow> brand_finding" where
  "rescored now sim result e f = (case result of (score, verdict, factors) \<Rightarrow>
     f\<lparr>bf_similarity := sim, bf_score := score, bf_verdict := verdict, bf_score_factors := factors,
       bf_evidence := e, bf_last_seen := now\<rparr>)"

definition new_finding ::
  "time \<Rightarrow> 'a brand_scheme \<Rightarrow> string list \<Rightarrow> string \<Rightarrow> int \<Rightarrow> int \<times> string \<times> factor list \<Rightarrow> scan_evidence \<Rightarrow> brand_finding" where
  "new_finding now b typosquats domain sim result e = (case result of (score, verdict, factors) \<Rightarrow>
     \<lparr>bf_id = 0, bf_tenant_id = br_tenant_id b, bf_brand_id = br_id b, bf_domain = domain,
      bf_source = (if domain \<in> set typosquats then ''typosquat'' else ''ct_log''), bf_similarity = sim,
      bf_score = score, bf_verdict = verdict, bf_score_factors = factors, bf_evidence = e,
      bf_status = ''new'', bf_alerted = False, bf_first_seen = now, bf_last_seen = now\<rparr>)"

definition scan_domain ::
  "network \<Rightarrow> time \<Rightarrow> bool \<Rightarrow> 'a brand_scheme \<Rightarrow> string list \<Rightarrow> string \<Rightarrow> string list \<Rightarrow> string \<Rightarrow> scan_state \<Rightarrow> scan_state res" where
  "scan_domain nw now deep b official primary typosquats domain s =
     (if domain \<in> set official then Inr s
      else let s1 = s\<lparr>sc_checked := Suc (sc_checked s)\<rparr> in
        bindr (resolves_to nw domain) (\<lambda>(resolves, ips).
          let sim = nw_percent nw domain primary in
          if \<not> resolves \<and> sim < 70 then Inr s1
          else
            let e = gather_evidence nw now deep domain resolves ips sim;
                result = score_finding domain sim (evidence.truncate e)
            in case known_finding (br_id b) domain (sc_rows s1) of
                 Some f \<Rightarrow> Inr (s1\<lparr>sc_rows := upd_row bf_id (bf_id f) (rescored now sim result e) (sc_rows s1),
                   sc_updated := Suc (sc_updated s1)\<rparr>)
               | None \<Rightarrow> Inr (s1\<lparr>sc_added := sc_added s1 @ [new_finding now b typosquats domain sim result e]\<rparr>)))"

fun scan_loop ::
  "network \<Rightarrow> time \<Rightarrow> bool \<Rightarrow> 'a brand_scheme \<Rightarrow> string list \<Rightarrow> string \<Rightarrow> string list \<Rightarrow> string list \<Rightarrow> scan_state \<Rightarrow> scan_state res" where
  "scan_loop nw now deep b official primary typosquats [] s = Inr s"
| "scan_loop nw now deep b official primary typosquats (d # ds) s =
     bindr (scan_domain nw now deep b official primary typosquats d s)
       (scan_loop nw now deep b official primary typosquats ds)"

text \<open>The flush of the commit: keys in the order of the additions, the unique index checked.\<close>

definition finding_key :: "brand_finding \<Rightarrow> int \<times> string" where
  "finding_key f = (bf_brand_id f, bf_domain f)"

fun insert_findings :: "brand_finding list \<Rightarrow> brand_finding list \<Rightarrow> (int list \<times> brand_finding list) res" where
  "insert_findings rows [] = Inr ([], rows)"
| "insert_findings rows (f # fs) =
     (let f' = f\<lparr>bf_id := next_id bf_id rows\<rparr> in
      if violates (\<lambda>_. True) finding_key f' rows then Inl IntegrityError
      else bindr (insert_findings (rows @ [f']) fs) (\<lambda>(ids, rows'). Inr (bf_id f' # ids, rows')))"

record scan_report =
  sp_brand :: string
  sp_candidates_generated :: nat
  sp_checked :: nat
  sp_updated_findings :: nat
  sp_new_finding_ids :: "int list"

text \<open>\<open>None\<close> is the answer \<open>{"error": ...}\<close> for a brand without official domains.\<close>

definition scan_brand ::
  "network \<Rightarrow> time \<Rightarrow> bool \<Rightarrow> monitored_brand \<Rightarrow> brand_db \<Rightarrow> (scan_report option \<times> brand_db) res" where
  "scan_brand nw now deep b d =
     (let official = domain_list b in
      if official = [] then Inr (None, d)
      else
        let primary = nw_first nw official;
            label = fst (split_domain primary);
            typosquats = generate primary 600;
            candidates = sorted_set (typosquats @ ct_discover nw label 200)
        in bindr (scan_loop nw now deep b official primary typosquats candidates
             \<lparr>sc_rows = bd_findings d, sc_added = [], sc_updated = 0, sc_checked = 0\<rparr>) (\<lambda>s.
           bindr (insert_findings (sc_rows s) (sc_added s)) (\<lambda>(ids, rows).
             Inr (Some \<lparr>sp_brand = br_name b, sp_candidates_generated = length candidates,
                    sp_checked = sc_checked s, sp_updated_findings = sc_updated s,
                    sp_new_finding_ids = ids\<rparr>,
                  d\<lparr>bd_findings := rows,
                    bd_brands := upd_row br_id (br_id b) (\<lambda>x. x\<lparr>mb_last_scan_at := Some now\<rparr>) (bd_brands d)\<rparr>))))"

section \<open>What a scan does to the rows\<close>

text \<open>A row of before and its row after: the scan only rewrites the assessment of the brand's rows.\<close>

definition same_finding :: "brand_finding \<Rightarrow> brand_finding \<Rightarrow> bool" where
  "same_finding f g = (bf_id g = bf_id f \<and> bf_tenant_id g = bf_tenant_id f \<and> bf_brand_id g = bf_brand_id f
     \<and> bf_domain g = bf_domain f \<and> bf_source g = bf_source f \<and> bf_status g = bf_status f
     \<and> bf_alerted g = bf_alerted f \<and> bf_first_seen g = bf_first_seen f)"

definition kept_by_scan :: "int \<Rightarrow> brand_finding \<Rightarrow> brand_finding \<Rightarrow> bool" where
  "kept_by_scan brand_id f g = (g = f \<or> bf_brand_id f = brand_id \<and> same_finding f g)"

definition added_by_scan :: "'a brand_scheme \<Rightarrow> brand_finding list \<Rightarrow> brand_finding \<Rightarrow> bool" where
  "added_by_scan b rows f = (bf_tenant_id f = br_tenant_id b \<and> bf_brand_id f = br_id b
     \<and> bf_domain f \<notin> set (domain_list b) \<and> bf_status f = ''new'' \<and> \<not> bf_alerted f
     \<and> finding_key f \<notin> finding_key ` set rows)"

lemma kept_refl [simp]: "kept_by_scan i f f"
  by (simp add: kept_by_scan_def)

lemma kept_key: "kept_by_scan i f g \<Longrightarrow> finding_key g = finding_key f \<and> bf_id g = bf_id f
    \<and> bf_tenant_id g = bf_tenant_id f \<and> bf_alerted g = bf_alerted f"
  by (auto simp: kept_by_scan_def same_finding_def finding_key_def)

lemma kept_rescored:
  "kept_by_scan (br_id b) f g \<Longrightarrow> bf_brand_id g = br_id b \<Longrightarrow> kept_by_scan (br_id b) f (rescored now sim r e g)"
  by (auto simp: kept_by_scan_def same_finding_def rescored_def split: prod.splits)

lemma list_all2_kept_map: "list_all2 (kept_by_scan i) xs ys \<Longrightarrow>
    map finding_key ys = map finding_key xs \<and> map bf_id ys = map bf_id xs"
  by (induction rule: list_all2_induct) (auto dest: kept_key)

definition scan_inv :: "'a brand_scheme \<Rightarrow> brand_finding list \<Rightarrow> string list \<Rightarrow> scan_state \<Rightarrow> bool" where
  "scan_inv b rows seen s = (list_all2 (kept_by_scan (br_id b)) rows (sc_rows s)
     \<and> distinct (map bf_domain (sc_added s)) \<and> bf_domain ` set (sc_added s) \<subseteq> set seen
     \<and> (\<forall>f \<in> set (sc_added s). added_by_scan b rows f))"

lemma known_finding_None:
  "known_finding i dn rows = None \<longleftrightarrow> (i, dn) \<notin> finding_key ` set rows"
  by (auto simp: known_finding_def find_None_iff finding_key_def)

lemma known_finding_Some:
  "known_finding i dn rows = Some f \<Longrightarrow> f \<in> set rows \<and> bf_brand_id f = i \<and> bf_domain f = dn"
  unfolding known_finding_def by (auto dest!: find_SomeD)

lemma list_all2_upd_row:
  assumes "list_all2 P xs ys" "\<And>x y. P x y \<Longrightarrow> y \<in> set ys \<Longrightarrow> rid y = i \<Longrightarrow> P x (g y)"
  shows "list_all2 P xs (upd_row rid i g ys)"
  using assms by (induction rule: list_all2_induct) (auto simp: upd_row_def)

definition worth_a_look :: "network \<Rightarrow> string list \<Rightarrow> string \<Rightarrow> string \<Rightarrow> bool" where
  "worth_a_look nw official primary dn = (dn \<notin> set official \<and>
     (case resolves_to nw dn of Inl e \<Rightarrow> False
      | Inr (resolves, ips) \<Rightarrow> resolves \<or> nw_percent nw dn primary \<ge> 70))"

lemma scan_domain_cases:
  assumes ok: "scan_domain nw now deep b official primary typosquats dn s = Inr s'"
  obtains (official) "dn \<in> set official" "s' = s" "\<not> worth_a_look nw official primary dn"
  | (skipped) "\<not> worth_a_look nw official primary dn" "s' = s\<lparr>sc_checked := Suc (sc_checked s)\<rparr>"
  | (known) f sim e where "se_similarity e = sim" "dn \<notin> set official" "worth_a_look nw official primary dn"
      "known_finding (br_id b) dn (sc_rows s) = Some f"
      "sc_rows s' = upd_row bf_id (bf_id f) (rescored now sim (score_finding dn sim (evidence.truncate e)) e) (sc_rows s)" "sc_added s' = sc_added s"
  | (fresh) sim e where "se_similarity e = sim" "dn \<notin> set official" "worth_a_look nw official primary dn"
      "known_finding (br_id b) dn (sc_rows s) = None" "sc_rows s' = sc_rows s"
      "sc_added s' = sc_added s @ [new_finding now b typosquats dn sim (score_finding dn sim (evidence.truncate e)) e]"
proof (cases "dn \<in> set official")
  case True
  with ok that(1) show ?thesis by (auto simp: scan_domain_def worth_a_look_def)
next
  case False
  with ok obtain resolves ips where r: "resolves_to nw dn = Inr (resolves, ips)"
    by (auto simp: scan_domain_def Let_def)
  show ?thesis
  proof (cases "resolves \<or> 70 \<le> nw_percent nw dn primary")
    case True
    define sim where "sim = nw_percent nw dn primary"
    define e where "e = gather_evidence nw now deep dn resolves ips sim"
    define result where "result = score_finding dn sim (evidence.truncate e)"
    have sim: "se_similarity e = sim" by (simp add: e_def gather_evidence_def Let_def)
    have "worth_a_look nw official primary dn" using True False by (simp add: worth_a_look_def r)
    then show ?thesis using ok False True that(3)[OF sim, folded result_def] that(4)[OF sim, folded result_def]
      by (cases "known_finding (br_id b) dn (sc_rows s)")
        (auto simp: scan_domain_def r Let_def simp flip: sim_def e_def result_def split: if_splits)
  next
    case skip: False
    then show ?thesis using ok False that(2)
      by (auto simp: scan_domain_def worth_a_look_def r Let_def)
  qed
qed

lemma scan_domain_inv:
  assumes inv: "scan_inv b rows seen s" and keyed: "keyed bf_id rows"
    and official: "official = domain_list b" and new: "dn \<notin> set seen"
    and ok: "scan_domain nw now deep b official primary typosquats dn s = Inr s'"
  shows "scan_inv b rows (dn # seen) s'"
proof -
  from inv have rows: "list_all2 (kept_by_scan (br_id b)) rows (sc_rows s)" by (simp add: scan_inv_def)
  from ok show ?thesis
  proof (cases rule: scan_domain_cases)
    case (known f sim e)
    note f = known_finding_Some[OF known(4)]
    have "keyed bf_id (sc_rows s)"
      using keyed list_all2_kept_map[OF rows] by (simp add: keyed_def)
    then have "y = f" if "y \<in> set (sc_rows s)" "bf_id y = bf_id f" for y
      using that f by (auto simp: keyed_def distinct_map inj_on_def)
    with f have "list_all2 (kept_by_scan (br_id b)) rows (sc_rows s')"
      unfolding known(5) by (intro list_all2_upd_row[OF rows]) (auto intro: kept_rescored)
    with inv known(6) show ?thesis by (auto simp: scan_inv_def)
  next
    case (fresh sim e)
    have "(br_id b, dn) \<notin> finding_key ` set rows"
      using fresh(4) list_all2_kept_map[OF rows] by (metis known_finding_None list.set_map)
    then have "added_by_scan b rows (new_finding now b typosquats dn sim (score_finding dn sim (evidence.truncate e)) e)"
      using fresh(2) official
      by (auto simp: added_by_scan_def new_finding_def finding_key_def split: prod.splits)
    moreover have "bf_domain (new_finding now b typosquats dn sim (score_finding dn sim (evidence.truncate e)) e) = dn"
      by (simp add: new_finding_def split: prod.splits)
    ultimately show ?thesis using inv fresh(5,6) new by (auto simp: scan_inv_def)
  qed (use inv in \<open>auto simp: scan_inv_def\<close>)
qed

lemma scan_loop_inv:
  assumes "scan_inv b rows seen s" "keyed bf_id rows" "official = domain_list b" "distinct (seen @ ds)"
    and "scan_loop nw now deep b official primary typosquats ds s = Inr s'"
  shows "scan_inv b rows (rev ds @ seen) s'"
  using assms
proof (induction ds arbitrary: seen s)
  case (Cons dn ds)
  then obtain s1 where s1: "scan_domain nw now deep b official primary typosquats dn s = Inr s1"
    "scan_loop nw now deep b official primary typosquats ds s1 = Inr s'" by auto
  have "scan_inv b rows (dn # seen) s1"
    using scan_domain_inv[OF Cons.prems(1-3) _ s1(1)] Cons.prems(4) by auto
  from Cons.IH[OF this Cons.prems(2,3) _ s1(2)] Cons.prems(4) show ?case by simp
qed simp

section \<open>The commit of a scan\<close>

text \<open>The inserted rows are the added ones up to their fresh keys.\<close>

definition same_but_id :: "brand_finding \<Rightarrow> brand_finding \<Rightarrow> bool" where
  "same_but_id f g = (g\<lparr>bf_id := bf_id f\<rparr> = f)"

lemma same_but_id_upd: "same_but_id f (f\<lparr>bf_id := i\<rparr>)"
  by (simp add: same_but_id_def)

lemma same_but_idD: "same_but_id f g \<Longrightarrow> finding_key g = finding_key f \<and> bf_tenant_id g = bf_tenant_id f
   \<and> bf_brand_id g = bf_brand_id f \<and> bf_domain g = bf_domain f \<and> bf_status g = bf_status f
   \<and> bf_alerted g = bf_alerted f"
  by (cases f; cases g) (auto simp: same_but_id_def finding_key_def)

lemma insert_findings_Inr:
  assumes "insert_findings rows fs = Inr (ids, rows')"
  shows "\<exists>new. rows' = rows @ new \<and> list_all2 same_but_id fs new \<and> ids = map bf_id new
    \<and> (keyed bf_id rows \<longrightarrow> keyed bf_id rows')
    \<and> (unique_on (\<lambda>_. True) finding_key rows \<longrightarrow> unique_on (\<lambda>_. True) finding_key rows')"
  using assms
proof (induction rows fs arbitrary: ids rows' rule: insert_findings.induct)
  case (2 rows f fs)
  define f' where "f' = f\<lparr>bf_id := next_id bf_id rows\<rparr>"
  from 2(2) obtain ids1 where r: "\<not> violates (\<lambda>_. True) finding_key f' rows"
    "insert_findings (rows @ [f']) fs = Inr (ids1, rows')" "ids = bf_id f' # ids1"
    by (auto simp: Let_def f'_def split: if_splits)
  have "keyed bf_id rows \<Longrightarrow> keyed bf_id (rows @ [f'])"
    by (simp add: keyed_append f'_def)
  moreover have "unique_on (\<lambda>_. True) finding_key rows \<Longrightarrow> unique_on (\<lambda>_. True) finding_key (rows @ [f'])"
    using r(1) by (rule unique_on_append[rotated])
  ultimately show ?case
    using 2(1)[OF f'_def _ r(2)] r same_but_id_upd[of f "next_id bf_id rows"]
    by (fastforce simp flip: f'_def)
qed simp

lemma insert_findings_total:
  assumes "distinct (map finding_key fs)" "finding_key ` set fs \<inter> finding_key ` set rows = {}"
  shows "\<exists>r. insert_findings rows fs = Inr r"
  using assms
proof (induction rows fs rule: insert_findings.induct)
  case (2 rows f fs)
  define f' where "f' = f\<lparr>bf_id := next_id bf_id rows\<rparr>"
  have k: "finding_key f' = finding_key f" by (simp add: f'_def finding_key_def)
  with 2(3) have "\<not> violates (\<lambda>_. True) finding_key f' rows" by (auto simp: violates_def)
  moreover from this 2 k obtain r where "insert_findings (rows @ [f']) fs = Inr r"
    by (fastforce simp: f'_def)
  ultimately show ?case by (cases r) (simp add: Let_def flip: f'_def)
qed simp

lemma scan_brand_cases:
  assumes "scan_brand nw now deep b d = Inr (r, d')" "keyed bf_id (bd_findings d)"
  obtains "domain_list b = []" "r = None" "d' = d"
  | s rep new where "domain_list b \<noteq> []" "r = Some rep"
    "scan_inv b (bd_findings d) (sorted_set (generate (nw_first nw (domain_list b)) 600
        @ ct_discover nw (fst (split_domain (nw_first nw (domain_list b)))) 200)) s"
    "bd_findings d' = sc_rows s @ new" "list_all2 same_but_id (sc_added s) new"
    "sp_new_finding_ids rep = map bf_id new" "keyed bf_id (bd_findings d')"
    "unique_on (\<lambda>_. True) finding_key (bd_findings d) \<Longrightarrow> unique_on (\<lambda>_. True) finding_key (bd_findings d')"
    "bd_brands d' = upd_row br_id (br_id b) (\<lambda>x. x\<lparr>mb_last_scan_at := Some now\<rparr>) (bd_brands d)"
proof (cases "domain_list b = []")
  case False
  define primary where "primary = nw_first nw (domain_list b)"
  define cands where "cands = sorted_set (generate primary 600 @ ct_discover nw (fst (split_domain primary)) 200)"
  define s0 where "s0 = \<lparr>sc_rows = bd_findings d, sc_added = [], sc_updated = 0, sc_checked = 0\<rparr>"
  from assms(1) False obtain s ids rows where s:
    "scan_loop nw now deep b (domain_list b) primary (generate primary 600) cands s0 = Inr s"
    "insert_findings (sc_rows s) (sc_added s) = Inr (ids, rows)"
    "bd_findings d' = rows" "bd_brands d' = upd_row br_id (br_id b) (\<lambda>x. x\<lparr>mb_last_scan_at := Some now\<rparr>) (bd_brands d)"
    "\<exists>rep. r = Some rep \<and> sp_new_finding_ids rep = ids"
    by (auto simp: scan_brand_def Let_def primary_def cands_def s0_def)
  have "scan_inv b (bd_findings d) [] s0"
    by (auto simp: scan_inv_def s0_def intro!: list.rel_refl)
  from scan_loop_inv[OF this assms(2) refl _ s(1)] have inv: "scan_inv b (bd_findings d) (rev cands) s"
    by (simp add: cands_def)
  then have inv': "scan_inv b (bd_findings d) cands s" by (simp add: scan_inv_def)
  from inv have "list_all2 (kept_by_scan (br_id b)) (bd_findings d) (sc_rows s)" by (simp add: scan_inv_def)
  note kept = list_all2_kept_map[OF this]
  from insert_findings_Inr[OF s(2)] obtain new where new: "rows = sc_rows s @ new"
    "list_all2 same_but_id (sc_added s) new" "ids = map bf_id new" "keyed bf_id (sc_rows s) \<longrightarrow> keyed bf_id rows"
    "unique_on (\<lambda>_. True) finding_key (sc_rows s) \<longrightarrow> unique_on (\<lambda>_. True) finding_key rows" by blast
  have "keyed bf_id (bd_findings d')" using new kept assms(2) s(3) by (simp add: keyed_def)
  moreover have "unique_on (\<lambda>_. True) finding_key (bd_findings d')"
    if "unique_on (\<lambda>_. True) finding_key (bd_findings d)"
    using new(5) kept that s(3) by (simp add: unique_on_def)
  ultimately show ?thesis
    using that(2) False inv' s(3,4,5) new(1,2,3) by (auto simp: cands_def primary_def)
qed (use assms that in \<open>simp add: scan_brand_def\<close>)

section \<open>Which candidates become findings\<close>

definition state_keys :: "scan_state \<Rightarrow> (int \<times> string) set" where
  "state_keys s = finding_key ` set (sc_rows s) \<union> finding_key ` set (sc_added s)"

lemma finding_key_rescored [simp]: "finding_key (rescored now sim r e f) = finding_key f"
  by (simp add: finding_key_def rescored_def split: prod.splits)

lemma finding_key_new [simp]: "finding_key (new_finding now b typosquats dn sim r e) = (br_id b, dn)"
  by (simp add: finding_key_def new_finding_def split: prod.splits)

lemma finding_key_upd_row: "finding_key ` set (upd_row bf_id i (rescored now sim r e) rows) = finding_key ` set rows"
proof -
  have "map finding_key (upd_row bf_id i (rescored now sim r e) rows) = map finding_key rows"
    by (simp add: upd_row_def)
  then show ?thesis by (metis list.set_map)
qed

lemma scan_domain_official:
  "dn \<in> set official \<Longrightarrow> scan_domain nw now deep b official primary typosquats dn s = Inr s"
  by (simp add: scan_domain_def)

lemma scan_domain_result:
  "dn \<notin> set official \<Longrightarrow> resolves_to nw dn = Inr x \<Longrightarrow>
   \<exists>s'. scan_domain nw now deep b official primary typosquats dn s = Inr s'"
  by (cases x) (simp add: scan_domain_def Let_def split: option.split)

lemma scan_domain_keys:
  assumes "scan_domain nw now deep b official primary typosquats dn s = Inr s'"
  shows "state_keys s' = (if worth_a_look nw official primary dn then insert (br_id b, dn) (state_keys s) else state_keys s)
    \<and> ((br_id b, dn) \<in> finding_key ` set (sc_rows s) \<longrightarrow> sc_added s' = sc_added s)
    \<and> (\<not> worth_a_look nw official primary dn \<longrightarrow> sc_added s' = sc_added s)
    \<and> finding_key ` set (sc_rows s') = finding_key ` set (sc_rows s)"
  using assms
proof (cases rule: scan_domain_cases)
  case (known f sim e)
  then have "(br_id b, dn) \<in> finding_key ` set (sc_rows s)"
    using known_finding_None[of "br_id b" dn "sc_rows s"] by auto
  with known show ?thesis by (simp add: state_keys_def insert_absorb finding_key_upd_row)
next
  case (fresh sim e)
  then have "(br_id b, dn) \<notin> finding_key ` set (sc_rows s)" by (simp only: known_finding_None simp_thms)
  with fresh show ?thesis by (simp add: state_keys_def)
qed (simp_all add: state_keys_def)

lemma scan_loop_keys:
  assumes "scan_loop nw now deep b official primary typosquats ds s = Inr s'"
  shows "state_keys s' = state_keys s \<union> {(br_id b, dn) |dn. dn \<in> set ds \<and> worth_a_look nw official primary dn}
    \<and> finding_key ` set (sc_rows s') = finding_key ` set (sc_rows s)"
  using assms
proof (induction ds arbitrary: s)
  case (Cons dn ds)
  then obtain s1 where s1: "scan_domain nw now deep b official primary typosquats dn s = Inr s1"
    "scan_loop nw now deep b official primary typosquats ds s1 = Inr s'" by auto
  from Cons.IH[OF s1(2)] scan_domain_keys[OF s1(1)] show ?case by (auto split: if_splits)
qed simp

lemma scan_loop_nothing_new:
  assumes "scan_loop nw now deep b official primary typosquats ds s = Inr s'"
    and "\<And>dn. dn \<in> set ds \<Longrightarrow> worth_a_look nw official primary dn \<Longrightarrow> (br_id b, dn) \<in> finding_key ` set (sc_rows s)"
  shows "sc_added s' = sc_added s"
  using assms
proof (induction ds arbitrary: s)
  case (Cons dn ds)
  then obtain s1 where s1: "scan_domain nw now deep b official primary typosquats dn s = Inr s1"
    "scan_loop nw now deep b official primary typosquats ds s1 = Inr s'" by auto
  note keys = scan_domain_keys[OF s1(1)]
  have "sc_added s1 = sc_added s" using keys Cons.prems(2)[of dn] by auto
  with Cons.IH[OF s1(2)] keys Cons.prems(2) show ?case by auto
qed simp

definition addresses_ok :: "network \<Rightarrow> bool" where
  "addresses_ok nw = (\<forall>dn. \<exists>a. nw_addresses nw dn = Inr a)"

lemma scan_loop_total:
  assumes "addresses_ok nw"
  shows "\<exists>s'. scan_loop nw now deep b official primary typosquats ds s = Inr s'"
proof (induction ds arbitrary: s)
  case (Cons dn ds)
  from assms obtain a where "nw_addresses nw dn = Inr a" by (auto simp: addresses_ok_def)
  then obtain resolves ips where "resolves_to nw dn = Inr (resolves, ips)"
    by (cases a) (auto simp: resolves_to_def)
  then obtain s1 where "scan_domain nw now deep b official primary typosquats dn s = Inr s1"
    by (metis scan_domain_official scan_domain_result)
  with Cons show ?case by simp
qed simp

lemma scan_loop_error:
  assumes "scan_loop nw now deep b official primary typosquats ds s = Inl e"
  shows "\<exists>dn \<in> set ds. nw_addresses nw dn = Inl e"
  using assms
proof (induction ds arbitrary: s)
  case (Cons dn ds)
  then consider "scan_domain nw now deep b official primary typosquats dn s = Inl e"
    | s1 where "scan_domain nw now deep b official primary typosquats dn s = Inr s1"
      "scan_loop nw now deep b official primary typosquats ds s1 = Inl e"
    by (cases "scan_domain nw now deep b official primary typosquats dn s") auto
  then show ?case
  proof cases
    case 1
    have "resolves_to nw dn = Inl e"
    proof (cases "resolves_to nw dn")
      case (Inl e')
      with 1 show ?thesis by (auto simp: scan_domain_def Let_def split: if_splits)
    next
      case (Inr x)
      with 1 show ?thesis by (metis scan_domain_official scan_domain_result sum.distinct(1))
    qed
    then have "nw_addresses nw dn = Inl e"
      by (cases "nw_addresses nw dn") (auto simp: resolves_to_def split: option.splits)
    then show ?thesis by simp
  next
    case 2
    with Cons.IH show ?thesis by auto
  qed
qed simp

lemma image_disjoint: "(\<And>x. x \<in> A \<Longrightarrow> f x \<notin> R) \<Longrightarrow> f ` A \<inter> R = {}"
  by blast

lemma scan_added_insertable:
  assumes "scan_inv b rows seen s"
  shows "distinct (map finding_key (sc_added s)) \<and> finding_key ` set (sc_added s) \<inter> finding_key ` set (sc_rows s) = {}"
proof -
  from assms have inv: "list_all2 (kept_by_scan (br_id b)) rows (sc_rows s)" "distinct (map bf_domain (sc_added s))"
    "\<And>f. f \<in> set (sc_added s) \<Longrightarrow> finding_key f \<notin> finding_key ` set rows"
    by (auto simp: scan_inv_def added_by_scan_def)
  have "distinct (map finding_key (sc_added s))"
    using inv(2) by (auto simp: distinct_map inj_on_def finding_key_def)
  moreover have "finding_key ` set (sc_rows s) = finding_key ` set rows"
    using list_all2_kept_map[OF inv(1)] by (metis list.set_map)
  moreover have "finding_key ` set (sc_added s) \<inter> finding_key ` set rows = {}"
    by (rule image_disjoint) (rule inv(3))
  ultimately show ?thesis by simp
qed

section \<open>Properties\<close>

definition scan_candidates :: "network \<Rightarrow> 'a brand_scheme \<Rightarrow> string list" where
  "scan_candidates nw b = (let primary = nw_first nw (domain_list b) in
     sorted_set (generate primary 600 @ ct_discover nw (fst (split_domain primary)) 200))"

lemma scan_brand_run:
  assumes "domain_list b \<noteq> []"
  shows "scan_brand nw now deep b d = bindr (scan_loop nw now deep b (domain_list b) (nw_first nw (domain_list b))
      (generate (nw_first nw (domain_list b)) 600) (scan_candidates nw b)
      \<lparr>sc_rows = bd_findings d, sc_added = [], sc_updated = 0, sc_checked = 0\<rparr>) (\<lambda>s.
    bindr (insert_findings (sc_rows s) (sc_added s)) (\<lambda>(ids, rows).
      Inr (Some \<lparr>sp_brand = br_name b, sp_candidates_generated = length (scan_candidates nw b),
             sp_checked = sc_checked s, sp_updated_findings = sc_updated s, sp_new_finding_ids = ids\<rparr>,
           d\<lparr>bd_findings := rows,
             bd_brands := upd_row br_id (br_id b) (\<lambda>x. x\<lparr>mb_last_scan_at := Some now\<rparr>) (bd_brands d)\<rparr>)))"
  using assms by (simp add: scan_brand_def scan_candidates_def Let_def)

lemma scan_start_inv: "scan_inv b rows [] \<lparr>sc_rows = rows, sc_added = [], sc_updated = 0, sc_checked = 0\<rparr>"
  by (auto simp: scan_inv_def intro!: list.rel_refl)

lemma scan_brand_error:
  assumes "scan_brand nw now deep b d = Inl e" "keyed bf_id (bd_findings d)"
  shows "\<exists>dn \<in> set (scan_candidates nw b). nw_addresses nw dn = Inl e"
proof -
  from assms have off: "domain_list b \<noteq> []" by (auto simp: scan_brand_def Let_def)
  let ?loop = "scan_loop nw now deep b (domain_list b) (nw_first nw (domain_list b))
      (generate (nw_first nw (domain_list b)) 600) (scan_candidates nw b)
      \<lparr>sc_rows = bd_findings d, sc_added = [], sc_updated = 0, sc_checked = 0\<rparr>"
  show ?thesis
  proof (cases ?loop)
    case (Inl e')
    with assms(1) have "e' = e" by (simp add: scan_brand_run[OF off])
    with scan_loop_error[OF Inl] show ?thesis by simp
  next
    case (Inr s)
    from scan_loop_inv[OF scan_start_inv assms(2) refl _ Inr]
    have "scan_inv b (bd_findings d) (rev (scan_candidates nw b) @ []) s" by (simp add: scan_candidates_def Let_def)
    from scan_added_insertable[OF this] insert_findings_total[of "sc_added s" "sc_rows s"]
    obtain r where "insert_findings (sc_rows s) (sc_added s) = Inr r" by blast
    with assms(1) Inr show ?thesis by (cases r) (simp add: scan_brand_run[OF off])
  qed
qed

lemma scan_brand_keys:
  assumes "scan_brand nw now deep b d = Inr (Some rep, d')"
  shows "finding_key ` set (bd_findings d') = finding_key ` set (bd_findings d)
    \<union> {(br_id b, dn) |dn. dn \<in> set (scan_candidates nw b)
        \<and> worth_a_look nw (domain_list b) (nw_first nw (domain_list b)) dn}"
proof -
  from assms have off: "domain_list b \<noteq> []" by (auto simp: scan_brand_def Let_def)
  from assms obtain s ids where s:
    "scan_loop nw now deep b (domain_list b) (nw_first nw (domain_list b))
      (generate (nw_first nw (domain_list b)) 600) (scan_candidates nw b)
      \<lparr>sc_rows = bd_findings d, sc_added = [], sc_updated = 0, sc_checked = 0\<rparr> = Inr s"
    "insert_findings (sc_rows s) (sc_added s) = Inr (ids, bd_findings d')"
    by (auto simp: scan_brand_run[OF off])
  from insert_findings_Inr[OF s(2)] obtain new where new: "bd_findings d' = sc_rows s @ new"
    "list_all2 same_but_id (sc_added s) new" by blast
  have "map finding_key new = map finding_key (sc_added s)"
    using new(2) by (induction rule: list_all2_induct) (auto dest: same_but_idD)
  then have "finding_key ` set new = finding_key ` set (sc_added s)" by (metis list.set_map)
  then have "finding_key ` set (bd_findings d') = state_keys s"
    by (simp only: new(1) set_append image_Un state_keys_def)
  with scan_loop_keys[OF s(1), THEN conjunct1] show ?thesis by (simp add: state_keys_def)
qed

text \<open>On tables with distinct keys a scan can only fail with the exception of an address
  look-up that is not an \<open>OSError\<close>, for one of its candidates; every other failure of the network
  is absorbed, and the insertion never violates the unique index on brand and domain.
\<close>

theorem scan_fails_only_on_lookup:
  assumes "keyed bf_id (bd_findings d)"
  shows "case scan_brand nw now deep b d of
      Inl e \<Rightarrow> (\<exists>dn \<in> set (scan_candidates nw b). nw_addresses nw dn = Inl e)
    | Inr (rep, d') \<Rightarrow> keyed bf_id (bd_findings d') \<and> (rep = None) = (domain_list b = [])"
proof (cases "scan_brand nw now deep b d")
  case (Inl e)
  with scan_brand_error[OF this assms] show ?thesis by simp
next
  case (Inr x)
  obtain rep d' where x: "x = (rep, d')" by fastforce
  from Inr[unfolded x] assms show ?thesis
    by (cases rule: scan_brand_cases) (simp_all add: Inr x assms)
qed

lemma second_scan_nothing_new:
  assumes "scan_brand nw now deep b d = Inr (Some rep, d1)" "scan_brand nw now' deep' b d1 = Inr (Some rep', d2)"
  shows "sp_new_finding_ids rep' = [] \<and> map finding_key (bd_findings d2) = map finding_key (bd_findings d1)"
proof -
  from assms have off: "domain_list b \<noteq> []" by (auto simp: scan_brand_def Let_def)
  from assms(2) obtain s ids where s:
    "scan_loop nw now' deep' b (domain_list b) (nw_first nw (domain_list b))
      (generate (nw_first nw (domain_list b)) 600) (scan_candidates nw b)
      \<lparr>sc_rows = bd_findings d1, sc_added = [], sc_updated = 0, sc_checked = 0\<rparr> = Inr s"
    "insert_findings (sc_rows s) (sc_added s) = Inr (ids, bd_findings d2)" "sp_new_finding_ids rep' = ids"
    by (auto simp: scan_brand_run[OF off])
  have "sc_added s = []"
    using scan_loop_nothing_new[OF s(1)] scan_brand_keys[OF assms(1)] by auto
  with s have "ids = []" "bd_findings d2 = sc_rows s" by auto
  moreover have "map finding_key (sc_rows s) = map finding_key (bd_findings d1)"
  proof -
    have "map finding_key (sc_rows t') = map finding_key (sc_rows t)"
      if "scan_loop nw now' deep' b off prim ty ds t = Inr t'" for off prim ty ds t t'
      using that
    proof (induction ds arbitrary: t)
      case (Cons dn ds)
      then obtain t1 where t1: "scan_domain nw now' deep' b off prim ty dn t = Inr t1"
        "scan_loop nw now' deep' b off prim ty ds t1 = Inr t'" by auto
      from t1(1) have "map finding_key (sc_rows t1) = map finding_key (sc_rows t)"
        by (cases rule: scan_domain_cases) (auto simp: upd_row_def)
      with Cons.IH[OF t1(2)] show ?case by simp
    qed simp
    from this[OF s(1)] show ?thesis by simp
  qed
  ultimately show ?thesis using s(3) by simp
qed


section \<open>Stored assessments\<close>

text \<open>What is stored of a finding is the scoring of the evidence stored with it.\<close>

definition assessed :: "brand_finding \<Rightarrow> bool" where
  "assessed f = (bf_similarity f = se_similarity (bf_evidence f) \<and>
     score_finding (bf_domain f) (bf_similarity f) (evidence.truncate (bf_evidence f))
       = (bf_score f, bf_verdict f, bf_score_factors f))"

lemma assessed_rescored:
  "bf_domain f = dn \<Longrightarrow> se_similarity e = sim \<Longrightarrow>
   assessed (rescored now sim (score_finding dn sim (evidence.truncate e)) e f)"
  by (simp add: assessed_def rescored_def split: prod.split)

lemma assessed_new:
  "se_similarity e = sim \<Longrightarrow> assessed (new_finding now b typosquats dn sim (score_finding dn sim (evidence.truncate e)) e)"
  by (simp add: assessed_def new_finding_def split: prod.split)

lemma assessed_same_but_id: "same_but_id f g \<Longrightarrow> assessed f \<Longrightarrow> assessed g"
  by (cases f; cases g) (auto simp: same_but_id_def assessed_def)

lemma scan_loop_assessed:
  assumes "scan_loop nw now deep b official primary typosquats ds s = Inr s'"
    and "\<forall>f \<in> set (sc_rows s) \<union> set (sc_added s). assessed f" "keyed bf_id (sc_rows s)"
  shows "(\<forall>f \<in> set (sc_rows s') \<union> set (sc_added s'). assessed f) \<and> keyed bf_id (sc_rows s')"
  using assms
proof (induction ds arbitrary: s)
  case (Cons dn ds)
  then obtain s1 where s1: "scan_domain nw now deep b official primary typosquats dn s = Inr s1"
    "scan_loop nw now deep b official primary typosquats ds s1 = Inr s'" by auto
  from s1(1) have "(\<forall>f \<in> set (sc_rows s1) \<union> set (sc_added s1). assessed f) \<and> keyed bf_id (sc_rows s1)"
  proof (cases rule: scan_domain_cases)
    case (known f sim e)
    note f = known_finding_Some[OF known(4)]
    let ?g = "rescored now sim (score_finding dn sim (evidence.truncate e)) e"
    have "bf_domain y = dn" if "y \<in> set (sc_rows s)" "bf_id y = bf_id f" for y
      using that f Cons.prems(3) by (auto simp: keyed_def distinct_map inj_on_def)
    then have "assessed (?g y)" if "y \<in> set (sc_rows s)" "bf_id y = bf_id f" for y
      using that known(1) by (simp add: assessed_rescored)
    moreover have "bf_id (?g y) = bf_id y" for y by (simp add: rescored_def split: prod.split)
    ultimately show ?thesis
      using Cons.prems known(5,6) by (auto simp: set_upd_row keyed_upd_row)
  next
    case (fresh sim e)
    then show ?thesis using Cons.prems assessed_new[OF fresh(1)] by auto
  qed (use Cons.prems in auto)
  with Cons.IH[OF s1(2)] show ?case by simp
qed simp

lemma scan_brand_assessed:
  assumes "scan_brand nw now deep b d = Inr (r, d')" "keyed bf_id (bd_findings d)"
    and "\<forall>f \<in> set (bd_findings d). assessed f"
  shows "\<forall>f \<in> set (bd_findings d'). assessed f"
proof (cases "domain_list b = []")
  case True
  with assms show ?thesis by (simp add: scan_brand_def)
next
  case False
  from assms(1) obtain s ids where s:
    "scan_loop nw now deep b (domain_list b) (nw_first nw (domain_list b))
      (generate (nw_first nw (domain_list b)) 600) (scan_candidates nw b)
      \<lparr>sc_rows = bd_findings d, sc_added = [], sc_updated = 0, sc_checked = 0\<rparr> = Inr s"
    "insert_findings (sc_rows s) (sc_added s) = Inr (ids, bd_findings d')"
    by (auto simp: scan_brand_run[OF False])
  have all: "\<forall>f \<in> set (sc_rows s) \<union> set (sc_added s). assessed f"
    using scan_loop_assessed[OF s(1)] assms(2,3) by simp
  from insert_findings_Inr[OF s(2)] obtain new where new: "bd_findings d' = sc_rows s @ new"
    "list_all2 same_but_id (sc_added s) new" by blast
  have "\<forall>g \<in> set new. \<exists>f \<in> set (sc_added s). same_but_id f g"
    using new(2) by (induction rule: list_all2_induct) auto
  with all new(1) show ?thesis by (fastforce intro: assessed_same_but_id)
qed

text \<open>What a whole scan does, for the operations that use it.\<close>

lemma same_but_id_rows:
  "list_all2 same_but_id xs ys \<Longrightarrow> \<forall>f \<in> set xs. bf_tenant_id f = t \<and> bf_brand_id f = i \<and> \<not> bf_alerted f \<and> bf_domain f \<notin> D
   \<Longrightarrow> \<forall>f \<in> set ys. bf_tenant_id f = t \<and> bf_brand_id f = i \<and> \<not> bf_alerted f \<and> bf_domain f \<notin> D"
  by (induction rule: list_all2_induct) (auto dest: same_but_idD)

lemma scan_brand_rows:
  assumes "scan_brand nw now deep b d = Inr (Some rep, d')" "keyed bf_id (bd_findings d)"
  obtains kept new where "bd_findings d' = kept @ new" "list_all2 (kept_by_scan (br_id b)) (bd_findings d) kept"
    "\<forall>f \<in> set new. bf_tenant_id f = br_tenant_id b \<and> bf_brand_id f = br_id b \<and> \<not> bf_alerted f
      \<and> bf_domain f \<notin> set (domain_list b)"
    "sp_new_finding_ids rep = map bf_id new" "keyed bf_id (bd_findings d')"
    "unique_on (\<lambda>_. True) finding_key (bd_findings d) \<Longrightarrow> unique_on (\<lambda>_. True) finding_key (bd_findings d')"
    "bd_brands d' = upd_row br_id (br_id b) (\<lambda>x. x\<lparr>mb_last_scan_at := Some now\<rparr>) (bd_brands d)"
  using assms
proof (cases rule: scan_brand_cases)
  case (2 s rep' new)
  have added: "\<forall>f \<in> set (sc_added s). bf_tenant_id f = br_tenant_id b \<and> bf_brand_id f = br_id b \<and> \<not> bf_alerted f
      \<and> bf_domain f \<notin> set (domain_list b)"
    using 2(3) by (auto simp: scan_inv_def added_by_scan_def)
  note new = same_but_id_rows[OF 2(5) added]
  show ?thesis
    by (rule that[of "sc_rows s" new]) (use 2 new in \<open>simp_all add: scan_inv_def\<close>)
qed simp

end
