(* ===== verification/BrandOps.thy ===== *)
theory BrandOps
  imports BrandScan Auth Retention
begin

text \<open>
  The brand routes (\<open>app/routers/brands.py\<close>) over the scanner, and the dispatch of alerts
  (\<open>app/alerts.py\<close>) as far as it changes state: the messages themselves are sent best-effort to
  channels outside the program. Each operation is one request: it answers and has committed, or it
  raises and the session is dropped.
\<close>

section \<open>State\<close>

record brand_state = brand_db +
  bd_audit :: "audit_entry list"

text \<open>The validated request bodies.\<close>

record brand_create =
  bc_name :: string
  bc_official_domains :: "string list"
  bc_keywords :: "string list"
  bc_variations :: json
  bc_aliases :: json
  bc_products :: json
  bc_subdomains :: json
  bc_social_profiles :: json
  bc_sensitive_terms :: json
  bc_logo_url :: "string option"

record brand_update =
  bu_name :: "string option"
  bu_official_domains :: "string list option"

definition owned_brand :: "brand_state \<Rightarrow> int \<Rightarrow> int \<Rightarrow> monitored_brand res" where
  "owned_brand s brand_id tid = (case find_row br_id brand_id (bd_brands s) of
     None \<Rightarrow> Inl (HTTPException 404)
   | Some b \<Rightarrow> if br_tenant_id b \<noteq> tid then Inl (HTTPException 404) else Inr b)"

definition owned_brand_finding :: "brand_state \<Rightarrow> int \<Rightarrow> int \<Rightarrow> brand_finding res" where
  "owned_brand_finding s finding_id tid = (case find_row bf_id finding_id (bd_findings s) of
     None \<Rightarrow> Inl (HTTPException 404)
   | Some f \<Rightarrow> if bf_tenant_id f \<noteq> tid then Inl (HTTPException 404) else Inr f)"

text \<open>The audit entry of a brand action.\<close>

definition brand_audit ::
  "time \<Rightarrow> principal \<Rightarrow> int \<Rightarrow> int option \<Rightarrow> http_request option \<Rightarrow> string \<Rightarrow> int \<Rightarrow> json dict \<Rightarrow> brand_state \<Rightarrow> brand_state" where
  "brand_audit now p tid operator request action target detail s =
     s\<lparr>bd_audit := bd_audit s @ [audit_row now (pr_subject p) (Some (pr_role p)) action (Some ''brand'')
        (Some (int_str target)) (Some tid) operator request detail]\<rparr>"

definition upd_brand :: "int \<Rightarrow> (monitored_brand \<Rightarrow> monitored_brand) \<Rightarrow> brand_state \<Rightarrow> brand_state" where
  "upd_brand i f s = s\<lparr>bd_brands := upd_row br_id i f (bd_brands s)\<rparr>"

definition json_or_none :: "json \<Rightarrow> json" where
  "json_or_none v = jor v JNull"

section \<open>Operations\<close>

definition created_brand :: "time \<Rightarrow> int \<Rightarrow> brand_create \<Rightarrow> brand_state \<Rightarrow> monitored_brand" where
  "created_brand now tid payload s = \<lparr>br_id = next_id br_id (bd_brands s), br_tenant_id = tid, br_name = bc_name payload,
     br_official_domains = join '','' (bc_official_domains payload),
     br_keywords = (if bc_keywords payload = [] then None else Some (join '','' (bc_keywords payload))),
     br_variations = json_or_none (bc_variations payload), br_aliases = json_or_none (bc_aliases payload),
     br_products = json_or_none (bc_products payload), br_subdomains = json_or_none (bc_subdomains payload),
     br_social_profiles = json_or_none (bc_social_profiles payload),
     br_sensitive_terms = json_or_none (bc_sensitive_terms payload), br_status = ''active'',
     mb_logo_url = bc_logo_url payload, mb_archived_at = None, mb_created_at = now, mb_last_scan_at = None\<rparr>"

definition create_brand :: "time \<Rightarrow> int \<Rightarrow> brand_create \<Rightarrow> brand_state \<Rightarrow> (int \<times> brand_state) res" where
  "create_brand now tid payload s =
     (if \<exists>b \<in> set (bd_brands s). br_tenant_id b = tid \<and> br_name b = bc_name payload then Inl (HTTPException 409)
      else let b = created_brand now tid payload s in Inr (br_id b, s\<lparr>bd_brands := bd_brands s @ [b]\<rparr>))"

text \<open>The two changes of a partial edit, each with its entry in the audit detail.\<close>

definition rename_change :: "brand_update \<Rightarrow> monitored_brand \<Rightarrow> json dict" where
  "rename_change payload b = (case bu_name payload of
     None \<Rightarrow> []
   | Some n \<Rightarrow> if n = br_name b then []
       else [(''name'', JObj [(''from'', JStr (br_name b)), (''to'', JStr n)])])"

definition domains_change :: "brand_update \<Rightarrow> monitored_brand \<Rightarrow> json dict" where
  "domains_change payload b = (case bu_official_domains payload of
     None \<Rightarrow> []
   | Some ds \<Rightarrow> let new_csv = join '','' ds in
       if new_csv = br_official_domains b then []
       else [(''official_domains'', JObj [(''from'', JStr (br_official_domains b)), (''to'', JStr new_csv)])])"

definition edited :: "brand_update \<Rightarrow> monitored_brand \<Rightarrow> monitored_brand" where
  "edited payload b = b\<lparr>
     br_name := (case bu_name payload of None \<Rightarrow> br_name b | Some n \<Rightarrow> n),
     br_official_domains := (case bu_official_domains payload of
        None \<Rightarrow> br_official_domains b | Some ds \<Rightarrow> join '','' ds)\<rparr>"

text \<open>The findings that \<open>clear_findings\<close> deletes: all of the brand, when its domains change.\<close>

definition cleared_by :: "bool \<Rightarrow> int \<Rightarrow> brand_update \<Rightarrow> monitored_brand \<Rightarrow> brand_finding \<Rightarrow> bool" where
  "cleared_by clear_findings tid payload b f = (clear_findings \<and> domains_change payload b \<noteq> []
     \<and> bf_tenant_id f = tid \<and> bf_brand_id f = br_id b)"

definition update_brand ::
  "time \<Rightarrow> principal \<Rightarrow> int \<Rightarrow> http_request option \<Rightarrow> bool \<Rightarrow> int \<Rightarrow> brand_update \<Rightarrow> brand_state \<Rightarrow> brand_state res" where
  "update_brand now p tid request clear_findings brand_id payload s =
     bindr (owned_brand s brand_id tid) (\<lambda>b.
       if rename_change payload b \<noteq> [] \<and>
          (\<exists>x \<in> set (bd_brands s). br_tenant_id x = tid \<and> Some (br_name x) = bu_name payload \<and> br_id x \<noteq> brand_id)
       then Inl (HTTPException 409)
       else
         let cleared = length (filter (cleared_by clear_findings tid payload b) (bd_findings s));
             s1 = upd_brand brand_id (edited payload) s;
             s2 = s1\<lparr>bd_findings := filter (\<lambda>f. \<not> cleared_by clear_findings tid payload b f) (bd_findings s1)\<rparr>
         in Inr (brand_audit now p tid (pr_user_id p) request ''brand.update'' brand_id
              [(''changes'', JObj (rename_change payload b @ domains_change payload b)),
               (''findings_cleared'', JInt (int cleared))] s2))"

definition archive_brand ::
  "time \<Rightarrow> principal \<Rightarrow> int \<Rightarrow> http_request option \<Rightarrow> int \<Rightarrow> brand_state \<Rightarrow> brand_state res" where
  "archive_brand now p tid request brand_id s =
     bindr (owned_brand s brand_id tid) (\<lambda>b.
       let s1 = (if br_status b \<noteq> ''archived''
                 then upd_brand brand_id (\<lambda>x. x\<lparr>br_status := ''archived'', mb_archived_at := Some now\<rparr>) s
                 else s)
       in Inr (brand_audit now p tid (pr_user_id p) request ''brand.archive'' brand_id
            [(''status'', JObj [(''from'', JStr (br_status b)), (''to'', JStr ''archived'')]),
             (''name'', JStr (br_name b))] s1))"

definition unarchive_brand ::
  "time \<Rightarrow> principal \<Rightarrow> int \<Rightarrow> http_request option \<Rightarrow> int \<Rightarrow> brand_state \<Rightarrow> brand_state res" where
  "unarchive_brand now p tid request brand_id s =
     bindr (owned_brand s brand_id tid) (\<lambda>b.
       Inr (brand_audit now p tid (pr_user_id p) request ''brand.unarchive'' brand_id
            [(''status'', JObj [(''from'', JStr (br_status b)), (''to'', JStr ''active'')]),
             (''name'', JStr (br_name b))]
            (upd_brand brand_id (\<lambda>x. x\<lparr>br_status := ''active'', mb_archived_at := None\<rparr>) s)))"

text \<open>Deleting a brand deletes its findings, by the relationship's cascade.\<close>

definition delete_brand ::
  "time \<Rightarrow> principal \<Rightarrow> int \<Rightarrow> http_request option \<Rightarrow> int \<Rightarrow> string \<Rightarrow> bool \<Rightarrow> brand_state \<Rightarrow> brand_state res" where
  "delete_brand now p tid request brand_id confirm_name force s =
     bindr (owned_brand s brand_id tid) (\<lambda>b.
       if confirm_name \<noteq> br_name b then Inl (HTTPException 422)
       else let fcount = length (filter (\<lambda>f. bf_tenant_id f = tid \<and> bf_brand_id f = brand_id) (bd_findings s)) in
         if fcount \<noteq> 0 \<and> \<not> force then Inl (HTTPException 409)
         else Inr (brand_audit now p tid (pr_user_id p) request ''brand.delete'' brand_id
           [(''deleted'', JObj [(''name'', JStr (br_name b)), (''official_domains'', JStr (br_official_domains b)),
              (''status'', JStr (br_status b))]), (''findings_deleted'', JInt (int fcount))]
           (s\<lparr>bd_brands := filter (\<lambda>x. br_id x \<noteq> brand_id) (bd_brands s),
             bd_findings := filter (\<lambda>f. bf_brand_id f \<noteq> brand_id) (bd_findings s)\<rparr>)))"

definition verdict_rank :: "string \<Rightarrow> nat option" where
  "verdict_rank v = map_of [(''info'', 0), (''low'', 1), (''suspicious'', 2), (''malicious'', 3)] v"

definition should_alert :: "string \<Rightarrow> string \<Rightarrow> bool" where
  "should_alert min_verdict v =
     ((case verdict_rank v of None \<Rightarrow> 0 | Some r \<Rightarrow> r) \<ge> (case verdict_rank min_verdict of None \<Rightarrow> 2 | Some r \<Rightarrow> r))"

text \<open>The findings that are announced: those of the ids given that are due; they are marked.\<close>

definition due_alert :: "string \<Rightarrow> int list \<Rightarrow> brand_finding \<Rightarrow> bool" where
  "due_alert min_verdict ids f = (bf_id f \<in> set ids \<and> \<not> bf_alerted f \<and> should_alert min_verdict (bf_verdict f))"

definition dispatch_new_findings :: "string \<Rightarrow> int list \<Rightarrow> brand_state \<Rightarrow> nat \<times> brand_state" where
  "dispatch_new_findings min_verdict ids s =
     (length (filter (due_alert min_verdict ids) (bd_findings s)),
      s\<lparr>bd_findings := map (\<lambda>f. if due_alert min_verdict ids f then f\<lparr>bf_alerted := True\<rparr> else f) (bd_findings s)\<rparr>)"

definition scan_route ::
  "network \<Rightarrow> string \<Rightarrow> time \<Rightarrow> principal \<Rightarrow> int \<Rightarrow> http_request option \<Rightarrow> int \<Rightarrow> bool \<Rightarrow> brand_state
    \<Rightarrow> ((scan_report \<times> nat) \<times> brand_state) res" where
  "scan_route nw min_verdict now p tid request brand_id deep s =
     bindr (owned_brand s brand_id tid) (\<lambda>b.
       if br_status b = ''archived'' then Inl (HTTPException 422)
       else bindr (scan_brand nw now deep b (brand_db.truncate s)) (\<lambda>(rep, d).
         case rep of
           None \<Rightarrow> Inl (HTTPException 422)
         | Some r \<Rightarrow>
             (let s1 = s\<lparr>bd_brands := bd_brands d, bd_findings := bd_findings d\<rparr>;
                  (sent, s2) = dispatch_new_findings min_verdict (sp_new_finding_ids r) s1
              in Inr ((r, sent), brand_audit now p tid None request ''brand.scan'' brand_id
                   [(''deep'', JBool deep), (''new_findings'', JInt (int (length (sp_new_finding_ids r)))),
                    (''alerts_sent'', JInt (int sent))] s2))))"

definition list_brand_findings ::
  "int \<Rightarrow> int \<Rightarrow> string option \<Rightarrow> string option \<Rightarrow> int \<Rightarrow> brand_state \<Rightarrow> brand_finding list res" where
  "list_brand_findings tid brand_id verdict status min_score s =
     bindr (owned_brand s brand_id tid) (\<lambda>b.
       Inr (sort_key (\<lambda>f. - bf_score f) (sort_key (\<lambda>f. - bf_last_seen f)
         (filter (\<lambda>f. bf_tenant_id f = tid \<and> bf_brand_id f = brand_id \<and> bf_score f \<ge> min_score
            \<and> (case verdict of None \<Rightarrow> True | Some v \<Rightarrow> v = [] \<or> bf_verdict f = v)
            \<and> (case status of None \<Rightarrow> True | Some v \<Rightarrow> v = [] \<or> bf_status f = v)) (bd_findings s)))))"

definition update_finding_status :: "int \<Rightarrow> int \<Rightarrow> string \<Rightarrow> brand_state \<Rightarrow> brand_state res" where
  "update_finding_status tid finding_id status s =
     bindr (owned_brand_finding s finding_id tid) (\<lambda>f.
       Inr (s\<lparr>bd_findings := upd_row bf_id finding_id (\<lambda>x. x\<lparr>bf_status := status\<rparr>) (bd_findings s)\<rparr>))"

definition resend_alert :: "int \<Rightarrow> int \<Rightarrow> brand_state \<Rightarrow> brand_state res" where
  "resend_alert tid finding_id s =
     bindr (owned_brand_finding s finding_id tid) (\<lambda>f.
       Inr (s\<lparr>bd_findings := upd_row bf_id finding_id (\<lambda>x. x\<lparr>bf_alerted := True\<rparr>) (bd_findings s)\<rparr>))"

section \<open>The invariant of the brand tables\<close>

definition FINDING_STATUSES :: "string list" where
  "FINDING_STATUSES = [''new'', ''triaging'', ''confirmed'', ''takedown_requested'', ''resolved'', ''false_positive'']"

definition name_key :: "monitored_brand \<Rightarrow> int \<times> string" where
  "name_key b = (br_tenant_id b, br_name b)"

definition brand_inv :: "brand_state \<Rightarrow> bool" where
  "brand_inv s = (keyed br_id (bd_brands s) \<and> keyed bf_id (bd_findings s)
     \<and> unique_on (\<lambda>_. True) name_key (bd_brands s) \<and> unique_on (\<lambda>_. True) finding_key (bd_findings s)
     \<and> (\<forall>f \<in> set (bd_findings s). assessed f \<and>
          (\<exists>b \<in> set (bd_brands s). br_id b = bf_brand_id f \<and> br_tenant_id b = bf_tenant_id f)))"

text \<open>One request of a tenant that succeeds.\<close>

inductive brand_step :: "int \<Rightarrow> brand_state \<Rightarrow> brand_state \<Rightarrow> bool" for tid s where
  step_create: "create_brand now tid payload s = Inr (i, s') \<Longrightarrow> brand_step tid s s'"
| step_update: "update_brand now p tid request clear i upd s = Inr s' \<Longrightarrow> brand_step tid s s'"
| step_archive: "archive_brand now p tid request i s = Inr s' \<Longrightarrow> brand_step tid s s'"
| step_unarchive: "unarchive_brand now p tid request i s = Inr s' \<Longrightarrow> brand_step tid s s'"
| step_delete: "delete_brand now p tid request i confirm force s = Inr s' \<Longrightarrow> brand_step tid s s'"
| step_scan: "scan_route nw min_verdict now p tid request i deep s = Inr (out, s') \<Longrightarrow> brand_step tid s s'"
| step_status: "update_finding_status tid i status s = Inr s' \<Longrightarrow> brand_step tid s s'"
| step_alert: "resend_alert tid i s = Inr s' \<Longrightarrow> brand_step tid s s'"

text \<open>The effects, all operations together: what changes is a row of the tenant.\<close>

inductive brand_effect :: "int \<Rightarrow> brand_state \<Rightarrow> brand_state \<Rightarrow> bool" for tid s where
  new_brand: "br_id b = next_id br_id (bd_brands s) \<Longrightarrow> br_tenant_id b = tid \<Longrightarrow>
     \<not> violates (\<lambda>_. True) name_key b (bd_brands s) \<Longrightarrow>
     brand_effect tid s (s\<lparr>bd_brands := bd_brands s @ [b]\<rparr>)"
| set_brand: "find_row br_id i (bd_brands s) = Some b \<Longrightarrow> br_tenant_id b = tid \<Longrightarrow>
     (\<And>x. br_id (g x) = br_id x \<and> br_tenant_id (g x) = br_tenant_id x) \<Longrightarrow>
     (br_name (g b) = br_name b \<or> (\<forall>x \<in> set (bd_brands s). br_tenant_id x = tid \<longrightarrow> br_name x = br_name (g b) \<longrightarrow> br_id x = i)) \<Longrightarrow>
     (\<And>f. P f \<Longrightarrow> bf_tenant_id f = tid) \<Longrightarrow>
     brand_effect tid s (s\<lparr>bd_brands := upd_row br_id i g (bd_brands s),
       bd_findings := filter (\<lambda>f. \<not> P f) (bd_findings s), bd_audit := au\<rparr>)"
| drop_brand: "find_row br_id i (bd_brands s) = Some b \<Longrightarrow> br_tenant_id b = tid \<Longrightarrow>
     brand_effect tid s (s\<lparr>bd_brands := filter (\<lambda>x. br_id x \<noteq> i) (bd_brands s),
       bd_findings := filter (\<lambda>f. bf_brand_id f \<noteq> i) (bd_findings s), bd_audit := au\<rparr>)"
| set_findings: "find_row br_id i (bd_brands s) = Some b \<Longrightarrow> br_tenant_id b = tid \<Longrightarrow>
     list_all2 (kept_by_scan i) (bd_findings s) kept \<Longrightarrow>
     keyed bf_id (kept @ new) \<Longrightarrow> unique_on (\<lambda>_. True) finding_key (kept @ new) \<Longrightarrow>
     \<forall>f \<in> set (kept @ new). assessed f \<Longrightarrow>
     \<forall>f \<in> set new. bf_tenant_id f = tid \<and> bf_brand_id f = i \<Longrightarrow>
     \<forall>f \<in> set kept. \<not> A f \<Longrightarrow>
     brand_effect tid s (s\<lparr>bd_brands := upd_row br_id i (\<lambda>x. x\<lparr>mb_last_scan_at := Some now\<rparr>) (bd_brands s),
       bd_findings := map (\<lambda>f. if A f then f\<lparr>bf_alerted := True\<rparr> else f) (kept @ new), bd_audit := au\<rparr>)"
| set_finding: "f \<in> set (bd_findings s) \<Longrightarrow> bf_tenant_id f = tid \<Longrightarrow>
     (\<And>x. g x = x\<lparr>bf_status := st\<rparr> \<or> g x = x\<lparr>bf_alerted := True\<rparr>) \<Longrightarrow>
     brand_effect tid s (s\<lparr>bd_findings := upd_row bf_id (bf_id f) g (bd_findings s)\<rparr>)"

lemma owned_brand_Inr [simp]:
  "owned_brand s i tid = Inr b \<longleftrightarrow> find_row br_id i (bd_brands s) = Some b \<and> br_tenant_id b = tid"
  by (auto simp: owned_brand_def split: option.splits)

lemma owned_finding_Inr [simp]:
  "owned_brand_finding s i tid = Inr f \<longleftrightarrow> find_row bf_id i (bd_findings s) = Some f \<and> bf_tenant_id f = tid"
  by (auto simp: owned_brand_finding_def split: option.splits)

lemma upd_row_id [simp]: "upd_row rid i (\<lambda>x. x) rs = rs"
  by (simp add: upd_row_def)

text \<open>An audit entry leaves the brand tables as they are.\<close>

lemma brand_auditE:
  obtains au where "brand_audit now p tid op request action target detail s = s\<lparr>bd_audit := au\<rparr>"
  by (simp add: brand_audit_def)

lemma effect_only_brand:
  assumes "find_row br_id i (bd_brands s) = Some b" "br_tenant_id b = tid"
    and "\<And>x. br_id (g x) = br_id x \<and> br_tenant_id (g x) = br_tenant_id x \<and> br_name (g x) = br_name x"
  shows "brand_effect tid s (s\<lparr>bd_brands := upd_row br_id i g (bd_brands s), bd_audit := au\<rparr>)"
  using set_brand[of i s b tid g "\<lambda>f. False" au] assms by simp

lemma create_effect:
  assumes "create_brand now tid payload s = Inr (i, s')"
  shows "brand_effect tid s s'"
proof -
  define b where "b = created_brand now tid payload s"
  have b: "br_id b = next_id br_id (bd_brands s)" "br_tenant_id b = tid" "br_name b = bc_name payload"
    by (simp_all add: b_def created_brand_def)
  from assms have free: "\<forall>x \<in> set (bd_brands s). \<not> (br_tenant_id x = tid \<and> br_name x = bc_name payload)"
    "s' = s\<lparr>bd_brands := bd_brands s @ [b]\<rparr>"
    by (auto simp: create_brand_def b_def Let_def split: if_splits)
  from free(1) b have "\<not> violates (\<lambda>_. True) name_key b (bd_brands s)"
    by (auto simp: violates_def name_key_def)
  from new_brand[OF b(1,2) this] free(2) show ?thesis by simp
qed

lemma update_effect:
  assumes "update_brand now p tid request clear i payload s = Inr s'"
  shows "brand_effect tid s s'"
proof -
  from assms obtain b where b: "find_row br_id i (bd_brands s) = Some b" "br_tenant_id b = tid"
    by (auto simp: update_brand_def)
  let ?gone = "cleared_by clear tid payload b"
  from assms b have free: "rename_change payload b \<noteq> [] \<longrightarrow>
      \<not> (\<exists>x \<in> set (bd_brands s). br_tenant_id x = tid \<and> Some (br_name x) = bu_name payload \<and> br_id x \<noteq> i)"
    by (auto simp: update_brand_def owned_brand_def split: if_splits)
  define s2 where "s2 = s\<lparr>bd_brands := upd_row br_id i (edited payload) (bd_brands s),
      bd_findings := filter (\<lambda>f. \<not> ?gone f) (bd_findings s)\<rparr>"
  have "\<exists>detail. s' = brand_audit now p tid (pr_user_id p) request ''brand.update'' i detail s2"
    using assms b by (auto simp: update_brand_def owned_brand_def Let_def upd_brand_def s2_def split: if_splits)
  then obtain au where "s' = s2\<lparr>bd_audit := au\<rparr>" by (metis brand_auditE)
  moreover have "br_name (edited payload b) = br_name b \<or>
      (\<forall>x \<in> set (bd_brands s). br_tenant_id x = tid \<longrightarrow> br_name x = br_name (edited payload b) \<longrightarrow> br_id x = i)"
    using free by (auto simp: edited_def rename_change_def split: option.splits if_splits)
  then have "brand_effect tid s (s\<lparr>bd_brands := upd_row br_id i (edited payload) (bd_brands s),
      bd_findings := filter (\<lambda>f. \<not> ?gone f) (bd_findings s), bd_audit := au\<rparr>)"
    by (intro set_brand[OF b]) (auto simp: edited_def cleared_by_def)
  ultimately show ?thesis by (simp add: s2_def)
qed

lemma archive_effect:
  assumes "archive_brand now p tid request i s = Inr s'"
  shows "brand_effect tid s s'"
proof -
  from assms obtain b where b: "find_row br_id i (bd_brands s) = Some b" "br_tenant_id b = tid"
    by (auto simp: archive_brand_def)
  define g where "g = (\<lambda>x :: monitored_brand. if br_status b \<noteq> ''archived''
    then x\<lparr>br_status := ''archived'', mb_archived_at := Some now\<rparr> else x)"
  have "\<exists>detail. s' = brand_audit now p tid (pr_user_id p) request ''brand.archive'' i detail (upd_brand i g s)"
    using assms b by (auto simp: archive_brand_def owned_brand_def Let_def upd_brand_def g_def)
  then obtain au where "s' = s\<lparr>bd_brands := upd_row br_id i g (bd_brands s), bd_audit := au\<rparr>"
    unfolding upd_brand_def by (metis brand_auditE)
  moreover have "brand_effect tid s (s\<lparr>bd_brands := upd_row br_id i g (bd_brands s), bd_audit := au\<rparr>)"
    by (rule effect_only_brand[OF b]) (simp add: g_def)
  ultimately show ?thesis by simp
qed

lemma unarchive_effect:
  assumes "unarchive_brand now p tid request i s = Inr s'"
  shows "brand_effect tid s s'"
  using assms by (auto simp: unarchive_brand_def brand_audit_def upd_brand_def intro!: effect_only_brand)

lemma delete_effect:
  assumes "delete_brand now p tid request i confirm force s = Inr s'"
  shows "brand_effect tid s s'"
  using assms by (auto simp: delete_brand_def brand_audit_def Let_def split: if_splits intro!: drop_brand)

lemma status_effect:
  assumes "update_finding_status tid i status s = Inr s'"
  shows "brand_effect tid s s'"
proof -
  from assms obtain f where f: "find_row bf_id i (bd_findings s) = Some f" "bf_tenant_id f = tid"
    "s' = s\<lparr>bd_findings := upd_row bf_id i (\<lambda>x. x\<lparr>bf_status := status\<rparr>) (bd_findings s)\<rparr>"
    by (auto simp: update_finding_status_def)
  have mem: "f \<in> set (bd_findings s)" "bf_id f = i" using find_row_SomeD[OF f(1)] by simp_all
  show ?thesis unfolding f(3) mem(2)[symmetric]
    by (rule set_finding[OF mem(1) f(2), where st = status]) simp
qed

lemma alert_effect:
  assumes "resend_alert tid i s = Inr s'"
  shows "brand_effect tid s s'"
proof -
  from assms obtain f where f: "find_row bf_id i (bd_findings s) = Some f" "bf_tenant_id f = tid"
    "s' = s\<lparr>bd_findings := upd_row bf_id i (\<lambda>x. x\<lparr>bf_alerted := True\<rparr>) (bd_findings s)\<rparr>"
    by (auto simp: resend_alert_def)
  have mem: "f \<in> set (bd_findings s)" "bf_id f = i" using find_row_SomeD[OF f(1)] by simp_all
  show ?thesis unfolding f(3) mem(2)[symmetric]
    by (rule set_finding[OF mem(1) f(2)]) simp
qed

lemma scan_effect:
  assumes "scan_route nw min_verdict now p tid request i deep s = Inr (out, s')" "brand_inv s"
  shows "brand_effect tid s s'"
proof -
  from assms(1) obtain b rep d where b: "find_row br_id i (bd_brands s) = Some b" "br_tenant_id b = tid"
    and live: "br_status b \<noteq> ''archived''"
    and scan: "scan_brand nw now deep b (brand_db.truncate s) = Inr (Some rep, d)"
    by (auto simp: scan_route_def split: if_splits option.splits)
  have "owned_brand s i tid = Inr b" using b by simp
  then have "\<exists>detail. s' = brand_audit now p tid None request ''brand.scan'' i detail
        (snd (dispatch_new_findings min_verdict (sp_new_finding_ids rep) (s\<lparr>bd_brands := bd_brands d, bd_findings := bd_findings d\<rparr>)))"
    using assms(1) live scan by (auto simp: scan_route_def Let_def case_prod_beta simp del: owned_brand_Inr)
  then obtain au where "s' = snd (dispatch_new_findings min_verdict (sp_new_finding_ids rep)
      (s\<lparr>bd_brands := bd_brands d, bd_findings := bd_findings d\<rparr>))\<lparr>bd_audit := au\<rparr>"
    by (metis brand_auditE)
  then have s': "s' = s\<lparr>bd_brands := bd_brands d,
      bd_findings := map (\<lambda>f. if due_alert min_verdict (sp_new_finding_ids rep) f then f\<lparr>bf_alerted := True\<rparr> else f) (bd_findings d),
      bd_audit := au\<rparr>"
    by (simp add: dispatch_new_findings_def)
  have i: "br_id b = i" using find_row_SomeD[OF b(1)] by simp
  have t: "bd_findings (brand_db.truncate s) = bd_findings s" "bd_brands (brand_db.truncate s) = bd_brands s"
    by (simp_all add: brand_db.defs)
  have "keyed bf_id (bd_findings (brand_db.truncate s))" using assms(2) t by (simp add: brand_inv_def)
  from scan this show ?thesis
  proof (cases rule: scan_brand_rows)
    case (1 kept new)
    have "\<forall>f \<in> set (bd_findings d). assessed f"
      using scan_brand_assessed[OF scan] assms(2) t by (simp add: brand_inv_def)
    moreover have "\<forall>f \<in> set kept. \<not> due_alert min_verdict (sp_new_finding_ids rep) f"
      using 1(1,4,5) by (auto simp: due_alert_def keyed_def)
    ultimately have "brand_effect tid s (s\<lparr>bd_brands := upd_row br_id i (\<lambda>x. x\<lparr>mb_last_scan_at := Some now\<rparr>) (bd_brands s),
        bd_findings := map (\<lambda>f. if due_alert min_verdict (sp_new_finding_ids rep) f then f\<lparr>bf_alerted := True\<rparr> else f)
          (kept @ new), bd_audit := au\<rparr>)"
      using 1 b i t assms(2) by (intro set_findings[OF b]) (auto simp: brand_inv_def)
    with s' 1 i t show ?thesis by simp
  qed
qed

lemma step_effect: "brand_step tid s s' \<Longrightarrow> brand_inv s \<Longrightarrow> brand_effect tid s s'"
  by (induction rule: brand_step.induct)
    (auto intro: create_effect update_effect archive_effect unarchive_effect delete_effect status_effect
      alert_effect scan_effect)

section \<open>Preservation\<close>

lemma keyed_filter: "keyed rid rs \<Longrightarrow> keyed rid (filter P rs)"
  by (simp add: keyed_def distinct_map_filter)

lemma unique_on_filter: "unique_on (\<lambda>_. True) key rs \<Longrightarrow> unique_on (\<lambda>_. True) key (filter P rs)"
  by (simp add: unique_on_def distinct_map_filter)

lemma unique_on_map: "(\<And>x. key (f x) = key x) \<Longrightarrow> unique_on (\<lambda>_. True) key (map f rs) = unique_on (\<lambda>_. True) key rs"
  by (simp add: unique_on_def comp_def)

lemma unique_on_rekeyed:
  assumes "unique_on (\<lambda>_. True) key rs" "keyed rid rs"
    and "\<And>x y. x \<in> set rs \<Longrightarrow> y \<in> set rs \<Longrightarrow> rid x = i \<Longrightarrow> key y = key (g x) \<Longrightarrow> rid y = i"
  shows "unique_on (\<lambda>_. True) key (upd_row rid i g rs)"
proof -
  let ?h = "\<lambda>r. if rid r = i then g r else r"
  have "inj_on (\<lambda>r. key (?h r)) (set rs)"
  proof (rule inj_onI)
    fix x y
    assume xy: "x \<in> set rs" "y \<in> set rs" "key (?h x) = key (?h y)"
    show "x = y"
    proof (cases "rid x = i \<or> rid y = i")
      case True
      then have "rid x = i \<and> rid y = i"
        using assms(3)[of x y] assms(3)[of y x] xy by (auto split: if_splits)
      then have "rid x = rid y" by simp
      with xy(1,2) assms(2) show ?thesis by (auto simp: keyed_def distinct_map inj_on_def)
    next
      case False
      with xy assms(1) show ?thesis by (auto simp: unique_on_def distinct_map inj_on_def)
    qed
  qed
  moreover have "distinct rs" using assms(2) by (simp add: keyed_def distinct_map)
  ultimately show ?thesis by (simp add: unique_on_def upd_row_def distinct_map comp_def inj_on_def)
qed

lemma assessed_flags [simp]:
  "assessed (f\<lparr>bf_alerted := a\<rparr>) = assessed f" "assessed (f\<lparr>bf_status := st\<rparr>) = assessed f"
  "finding_key (f\<lparr>bf_alerted := a\<rparr>) = finding_key f" "finding_key (f\<lparr>bf_status := st\<rparr>) = finding_key f"
  by (simp_all add: assessed_def finding_key_def)

text \<open>The references of the findings, after a change of the brands that keeps keys and owners.\<close>

definition owned_by :: "monitored_brand list \<Rightarrow> brand_finding \<Rightarrow> bool" where
  "owned_by bs f = (\<exists>b \<in> set bs. br_id b = bf_brand_id f \<and> br_tenant_id b = bf_tenant_id f)"

lemma owned_by_upd:
  "(\<And>x. br_id (g x) = br_id x \<and> br_tenant_id (g x) = br_tenant_id x) \<Longrightarrow> owned_by (upd_row br_id i g bs) f = owned_by bs f"
proof -
  assume g: "\<And>x. br_id (g x) = br_id x \<and> br_tenant_id (g x) = br_tenant_id x"
  have "map (\<lambda>b. (br_id b, br_tenant_id b)) (upd_row br_id i g bs) = map (\<lambda>b. (br_id b, br_tenant_id b)) bs"
    by (simp add: upd_row_def g)
  then have "(\<lambda>b. (br_id b, br_tenant_id b)) ` set (upd_row br_id i g bs) = (\<lambda>b. (br_id b, br_tenant_id b)) ` set bs"
    by (metis list.set_map)
  moreover have "owned_by cs f = ((bf_brand_id f, bf_tenant_id f) \<in> (\<lambda>b. (br_id b, br_tenant_id b)) ` set cs)" for cs
    unfolding owned_by_def image_iff by (metis prod.inject)
  ultimately show ?thesis by simp
qed

lemma owned_by_filter: "owned_by bs f \<Longrightarrow> bf_brand_id f \<noteq> i \<Longrightarrow> owned_by (filter (\<lambda>x. br_id x \<noteq> i) bs) f"
proof -
  assume "owned_by bs f" "bf_brand_id f \<noteq> i"
  then obtain b where "b \<in> set bs" "br_id b = bf_brand_id f" "br_tenant_id b = bf_tenant_id f" "br_id b \<noteq> i"
    by (auto simp: owned_by_def)
  then show ?thesis unfolding owned_by_def by (intro bexI[of _ b]) simp_all
qed

lemma owned_by_kept: "kept_by_scan i f g \<Longrightarrow> owned_by bs g = owned_by bs f"
  by (auto simp: kept_by_scan_def same_finding_def owned_by_def)

lemma list_all2_kept_owned:
  "list_all2 (kept_by_scan i) fs gs \<Longrightarrow> \<forall>f \<in> set fs. owned_by bs f \<Longrightarrow> \<forall>g \<in> set gs. owned_by bs g"
  by (induction rule: list_all2_induct) (auto simp: owned_by_kept)

lemma brand_inv_alt: "brand_inv s = (keyed br_id (bd_brands s) \<and> keyed bf_id (bd_findings s)
     \<and> unique_on (\<lambda>_. True) name_key (bd_brands s) \<and> unique_on (\<lambda>_. True) finding_key (bd_findings s)
     \<and> (\<forall>f \<in> set (bd_findings s). assessed f) \<and> (\<forall>f \<in> set (bd_findings s). owned_by (bd_brands s) f))"
  by (auto simp: brand_inv_def owned_by_def)

lemma effect_inv: "brand_effect tid s s' \<Longrightarrow> brand_inv s \<Longrightarrow> brand_inv s'"
proof (induction rule: brand_effect.induct)
  case (new_brand b)
  then show ?case
    by (auto simp: brand_inv_alt owned_by_def intro!: keyed_append unique_on_append)
next
  case (set_brand i b g P au)
  have "unique_on (\<lambda>_. True) name_key (upd_row br_id i g (bd_brands s))"
  proof (rule unique_on_rekeyed)
    show "unique_on (\<lambda>_. True) name_key (bd_brands s)" "keyed br_id (bd_brands s)"
      using set_brand by (auto simp: brand_inv_alt)
    fix x y
    assume x: "x \<in> set (bd_brands s)" "br_id x = i" and y: "y \<in> set (bd_brands s)" "name_key y = name_key (g x)"
    have b: "b \<in> set (bd_brands s)" "br_id b = i" using find_row_SomeD[OF set_brand(1)] by simp_all
    have "x = b" using x b set_brand(6) by (auto simp: brand_inv_alt keyed_def distinct_map inj_on_def)
    with y set_brand(2,3) have "br_tenant_id y = tid" "br_name y = br_name (g b)" by (auto simp: name_key_def)
    have "y = b" if "br_name (g b) = br_name b"
    proof (rule unique_onD)
      show "unique_on (\<lambda>_. True) name_key (bd_brands s)" using set_brand(6) by (simp add: brand_inv_alt)
      show "name_key y = name_key b"
        using that \<open>br_tenant_id y = tid\<close> \<open>br_name y = br_name (g b)\<close> set_brand(2) by (simp add: name_key_def)
    qed (use y b in simp_all)
    with \<open>br_tenant_id y = tid\<close> \<open>br_name y = br_name (g b)\<close> set_brand(4) y(1) b show "br_id y = i" by auto
  qed
  with set_brand show ?case
    by (auto simp: brand_inv_alt keyed_upd_row owned_by_upd intro: keyed_filter unique_on_filter)
next
  case (drop_brand i b au)
  then show ?case
    by (auto simp: brand_inv_alt owned_by_filter intro: keyed_filter unique_on_filter)
next
  case (set_findings i b kept new A au now)
  let ?mark = "\<lambda>f. if A f then f\<lparr>bf_alerted := True\<rparr> else f"
  have b: "b \<in> set (bd_brands s)" "br_id b = i" using find_row_SomeD[OF set_findings(1)] by simp_all
  have "\<forall>f \<in> set (kept @ new). owned_by (bd_brands s) f"
    using list_all2_kept_owned[OF set_findings(3)] set_findings(2,7,9) b
    by (auto simp: brand_inv_alt owned_by_def)
  moreover have "keyed bf_id (map ?mark (kept @ new))"
    using set_findings(4) by (simp add: keyed_def comp_def if_distrib cong: if_cong)
  moreover have "unique_on (\<lambda>_. True) finding_key (map ?mark (kept @ new))"
    using set_findings(5) by (subst unique_on_map) simp_all
  moreover have "unique_on (\<lambda>_. True) name_key (upd_row br_id i (\<lambda>x. x\<lparr>mb_last_scan_at := Some now\<rparr>) (bd_brands s))"
    using set_findings(9) by (simp add: brand_inv_alt upd_row_def unique_on_map name_key_def if_distrib cong: if_cong)
  ultimately show ?case
    using set_findings(6,9)
    by (auto simp: brand_inv_alt keyed_upd_row owned_by_upd) (auto simp: owned_by_def)
next
  case (set_finding f g st)
  have key: "bf_id (g x) = bf_id x \<and> finding_key (g x) = finding_key x \<and> assessed (g x) = assessed x
      \<and> owned_by bs (g x) = owned_by bs x" for x bs
    using set_finding(3)[of x] by (auto simp: owned_by_def)
  then have "unique_on (\<lambda>_. True) finding_key (upd_row bf_id (bf_id f) g (bd_findings s)) = unique_on (\<lambda>_. True) finding_key (bd_findings s)"
    unfolding upd_row_def by (intro unique_on_map) simp
  with key set_finding(4) show ?case
    by (auto simp: brand_inv_alt keyed_upd_row set_upd_row)
qed

text \<open>What the tables hold of the other tenants.\<close>

definition foreign_brands :: "int \<Rightarrow> brand_state \<Rightarrow> monitored_brand list \<times> brand_finding list" where
  "foreign_brands tid s =
     (filter (\<lambda>b. br_tenant_id b \<noteq> tid) (bd_brands s), filter (\<lambda>f. bf_tenant_id f \<noteq> tid) (bd_findings s))"

lemma filter_kept:
  "list_all2 (kept_by_scan i) fs gs \<Longrightarrow> \<forall>f \<in> set fs. bf_brand_id f = i \<longrightarrow> bf_tenant_id f = tid \<Longrightarrow>
   filter (\<lambda>f. bf_tenant_id f \<noteq> tid) gs = filter (\<lambda>f. bf_tenant_id f \<noteq> tid) fs"
  by (induction rule: list_all2_induct) (auto simp: kept_by_scan_def same_finding_def)

lemma filter_mine: "\<forall>f \<in> set fs. bf_tenant_id f = tid \<Longrightarrow> filter (\<lambda>f. bf_tenant_id f \<noteq> tid) fs = []"
  by simp

lemma map_mark_split:
  "\<forall>f \<in> set kept. \<not> A f \<Longrightarrow> map (\<lambda>f. if A f then g f else f) (kept @ new) = kept @ map (\<lambda>f. if A f then g f else f) new"
  by (simp add: map_idI)

lemma effect_foreign: "brand_effect tid s s' \<Longrightarrow> brand_inv s \<Longrightarrow> foreign_brands tid s' = foreign_brands tid s"
proof (induction rule: brand_effect.induct)
  case (new_brand b)
  then show ?case by (simp add: foreign_brands_def)
next
  case (set_brand i b g P au)
  have "b \<in> set (bd_brands s)" "br_id b = i" using find_row_SomeD[OF set_brand(1)] by simp_all
  then have "filter (\<lambda>b. br_tenant_id b \<noteq> tid) (upd_row br_id i g (bd_brands s)) = filter (\<lambda>b. br_tenant_id b \<noteq> tid) (bd_brands s)"
    using set_brand(2,3,6) by (intro filter_upd_row) (auto simp: brand_inv_def keyed_def distinct_map inj_on_def)
  moreover have "filter (\<lambda>f. bf_tenant_id f \<noteq> tid) (filter (\<lambda>f. \<not> P f) fs) = filter (\<lambda>f. bf_tenant_id f \<noteq> tid) fs" for fs
    using set_brand(5) by (induction fs) auto
  ultimately show ?case by (simp add: foreign_brands_def del: filter_filter)
next
  case (drop_brand i b au)
  have b: "b \<in> set (bd_brands s)" "br_id b = i" using find_row_SomeD[OF drop_brand(1)] by simp_all
  have "x = b" if "x \<in> set (bd_brands s)" "br_id x = i" for x
    using that b drop_brand(3) by (auto simp: brand_inv_def keyed_def distinct_map inj_on_def)
  then have brands: "br_tenant_id x = tid" if "x \<in> set (bd_brands s)" "br_id x = i" for x
    using that drop_brand(2) by blast
  then have "bf_tenant_id f = tid" if "f \<in> set (bd_findings s)" "bf_brand_id f = i" for f
    using that drop_brand(3) unfolding brand_inv_def by metis
  with brands show ?case by (auto simp: foreign_brands_def intro!: filter_cong)
next
  case (set_findings i b kept new A au now)
  have b: "b \<in> set (bd_brands s)" "br_id b = i" using find_row_SomeD[OF set_findings(1)] by simp_all
  have "x = b" if "x \<in> set (bd_brands s)" "br_id x = i" for x
    using that b set_findings(9) by (auto simp: brand_inv_def keyed_def distinct_map inj_on_def)
  then have brands: "br_tenant_id x = tid" if "x \<in> set (bd_brands s)" "br_id x = i" for x
    using that set_findings(2) by blast
  then have "\<forall>f \<in> set (bd_findings s). bf_brand_id f = i \<longrightarrow> bf_tenant_id f = tid"
    using set_findings(9) unfolding brand_inv_def by metis
  from filter_kept[OF set_findings(3) this]
  have "filter (\<lambda>f. bf_tenant_id f \<noteq> tid) (map (\<lambda>f. if A f then f\<lparr>bf_alerted := True\<rparr> else f) (kept @ new))
      = filter (\<lambda>f. bf_tenant_id f \<noteq> tid) (bd_findings s)"
    unfolding map_mark_split[OF set_findings(8)] using set_findings(7) by (auto simp: filter_empty_conv)
  moreover have "filter (\<lambda>b. br_tenant_id b \<noteq> tid) (upd_row br_id i (\<lambda>x. x\<lparr>mb_last_scan_at := Some now\<rparr>) (bd_brands s))
      = filter (\<lambda>b. br_tenant_id b \<noteq> tid) (bd_brands s)"
    using brands by (intro filter_upd_row) auto
  ultimately show ?case by (simp add: foreign_brands_def)
next
  case (set_finding f g st)
  have "x = f" if "x \<in> set (bd_findings s)" "bf_id x = bf_id f" for x
    using that set_finding(1,4) by (auto simp: brand_inv_def keyed_def distinct_map inj_on_def)
  moreover have "bf_tenant_id (g x) = bf_tenant_id x" for x using set_finding(3)[of x] by auto
  ultimately show ?case
    using set_finding(2) by (auto simp: foreign_brands_def intro!: filter_upd_row)
qed

section \<open>Properties\<close>

interpretation brand_machine: preserved "\<lambda>s s'. \<exists>tid. brand_step tid s s'" brand_inv
  by unfold_locales (blast intro: effect_inv step_effect)

definition empty_brands :: brand_state where
  "empty_brands = \<lparr>bd_brands = [], bd_findings = [], bd_audit = []\<rparr>"

definition demo_brand_create :: brand_create where
  "demo_brand_create = \<lparr>bc_name = ''Acme'', bc_official_domains = [''acme.com''], bc_keywords = [],
     bc_variations = JNull, bc_aliases = JNull, bc_products = JNull, bc_subdomains = JNull,
     bc_social_profiles = JNull, bc_sensitive_terms = JNull, bc_logo_url = None\<rparr>"

definition demo_brands :: brand_state where
  "demo_brands = empty_brands\<lparr>bd_brands := [created_brand 0 1 demo_brand_create empty_brands]\<rparr>"

lemma empty_brands_inv: "brand_inv empty_brands"
  by (simp add: brand_inv_def empty_brands_def keyed_def unique_on_def)

lemma demo_brands_step: "brand_step 1 empty_brands demo_brands"
  by (rule step_create[of 0 1 demo_brand_create])
    (simp add: create_brand_def demo_brands_def empty_brands_def Let_def)

text \<open>C33 After any sequence of successful brand requests of any tenants, keys are distinct, brand names are
  unique within a tenant, a brand has at most one finding per domain, every finding belongs to a
  brand of its own tenant, and its stored score, verdict and factors are the scoring of the evidence
  stored with it.
\<close>

theorem brand_tables_invariant:
  assumes "(\<lambda>s s'. \<exists>tid. brand_step tid s s')\<^sup>*\<^sup>* empty_brands s"
  shows "brand_inv s"
  using assms empty_brands_inv by (rule brand_machine.reachable_good)

theorem brand_tables_invariant_witness:
  "(\<lambda>s s'. \<exists>tid. brand_step tid s s')\<^sup>*\<^sup>* empty_brands demo_brands \<and> brand_inv demo_brands"
proof -
  have r: "(\<lambda>s s'. \<exists>tid. brand_step tid s s')\<^sup>*\<^sup>* empty_brands demo_brands"
    using demo_brands_step by (intro r_into_rtranclp) blast
  with brand_tables_invariant[OF r] show ?thesis by blast
qed

text \<open>A brand request of one tenant leaves the brands and findings of every other tenant as they are.
\<close>

theorem brand_tenant_isolation:
  assumes "brand_step tid s s'" "brand_inv s"
  shows "foreign_brands tid s' = foreign_brands tid s"
  using effect_foreign[OF step_effect[OF assms] assms(2)] .

theorem brand_tenant_isolation_witness:
  "brand_step 1 empty_brands demo_brands \<and> foreign_brands 1 demo_brands = foreign_brands 1 empty_brands"
  using brand_tenant_isolation[OF demo_brands_step empty_brands_inv] demo_brands_step by blast

text \<open>A network without a single address, on which every scan ends and reports nothing.\<close>

definition quiet_network :: network where
  "quiet_network = \<lparr>nw_addresses = \<lambda>_. Inr None, nw_dns = \<lambda>_ _. Inl OtherError, nw_rdap = \<lambda>_. Inl OtherError,
     nw_crtsh = \<lambda>_. Inl OtherError, nw_urlhaus = \<lambda>_. Inl OtherError, nw_from_iso = \<lambda>_. Inl OtherError,
     nw_from_naive_iso = \<lambda>_. Inl OtherError, nw_percent = \<lambda>_ _. 0, nw_first = hd, nw_abuse_key = False\<rparr>"

definition demo_admin :: principal where
  "demo_admin = \<lparr>pr_subject = ''user:1'', pr_role = ''admin'', pr_kind = ''user'', pr_is_operator = False,
     pr_operator_role = None, pr_tenant_id = Some 1, pr_user_id = Some 1\<rparr>"

lemma scan_brand_ends:
  assumes "addresses_ok nw" "keyed bf_id (bd_findings d)" "domain_list b \<noteq> []"
  obtains rep d' where "scan_brand nw now deep b d = Inr (Some rep, d')"
proof (cases "scan_brand nw now deep b d")
  case (Inl e)
  from scan_brand_error[OF Inl assms(2)] assms(1) show ?thesis by (auto simp: addresses_ok_def) (metis sum.distinct(1))
next
  case (Inr x)
  then obtain r d' where "scan_brand nw now deep b d = Inr (r, d')" by (cases x) auto
  with assms(3) that show ?thesis by (cases r) (auto simp: scan_brand_def Let_def)
qed

text \<open>Scanning a brand again while the network answers the same finds nothing new: the
  second scan ends, reports no new finding and leaves the list of the findings' brands and domains
  as it was, whatever its time and depth.
\<close>

theorem rescan_finds_nothing_new:
  assumes "addresses_ok nw" "keyed bf_id (bd_findings d)" "domain_list b \<noteq> []"
  shows "\<exists>rep d1 rep' d2. scan_brand nw now deep b d = Inr (Some rep, d1)
    \<and> scan_brand nw now' deep' b d1 = Inr (Some rep', d2)
    \<and> sp_new_finding_ids rep' = []
    \<and> map finding_key (bd_findings d2) = map finding_key (bd_findings d1)"
proof -
  from scan_brand_ends[OF assms] obtain rep d1 where one: "scan_brand nw now deep b d = Inr (Some rep, d1)" .
  from one assms(2) have "keyed bf_id (bd_findings d1)" by (cases rule: scan_brand_rows) simp
  from scan_brand_ends[OF assms(1) this assms(3)] obtain rep' d2
    where two: "scan_brand nw now' deep' b d1 = Inr (Some rep', d2)" .
  from second_scan_nothing_new[OF one two] one two show ?thesis by blast
qed

lemma quiet_ok: "addresses_ok quiet_network"
  by (simp add: addresses_ok_def quiet_network_def)

lemma demo_domains: "domain_list (created_brand 0 1 demo_brand_create empty_brands) \<noteq> []"
  by code_simp

theorem rescan_finds_nothing_new_witness:
  "\<exists>rep d1 rep' d2. scan_brand quiet_network 5 True (created_brand 0 1 demo_brand_create empty_brands)
      \<lparr>bd_brands = [], bd_findings = []\<rparr> = Inr (Some rep, d1)
    \<and> scan_brand quiet_network 9 False (created_brand 0 1 demo_brand_create empty_brands) d1 = Inr (Some rep', d2)
    \<and> sp_new_finding_ids rep' = [] \<and> map finding_key (bd_findings d2) = map finding_key (bd_findings d1)"
  by (rule rescan_finds_nothing_new[OF quiet_ok _ demo_domains]) (simp add: keyed_def)

text \<open>A scan announces exactly the new findings whose verdict reaches the threshold. A
  finding that was known before keeps its alert flag, so a domain whose verdict rises on a later scan
  is not announced, although the dispatch is documented to alert what crossed the threshold and has
  not been alerted yet.
\<close>

theorem scan_alerts_only_new:
  assumes "scan_route nw min_verdict now p tid request i deep s = Inr ((rep, sent), s')" "brand_inv s"
  shows "sent = length (filter (\<lambda>f. bf_id f \<in> set (sp_new_finding_ids rep) \<and> should_alert min_verdict (bf_verdict f))
      (bd_findings s'))
    \<and> map (\<lambda>f. (bf_id f, bf_alerted f)) (take (length (bd_findings s)) (bd_findings s'))
      = map (\<lambda>f. (bf_id f, bf_alerted f)) (bd_findings s)
    \<and> list_all (\<lambda>f. bf_id f \<in> set (sp_new_finding_ids rep) \<and> bf_alerted f = should_alert min_verdict (bf_verdict f))
      (drop (length (bd_findings s)) (bd_findings s'))"
proof -
  from assms(1) obtain b d where b: "find_row br_id i (bd_brands s) = Some b" "br_tenant_id b = tid"
    and live: "br_status b \<noteq> ''archived''"
    and scan: "scan_brand nw now deep b (brand_db.truncate s) = Inr (Some rep, d)"
    by (auto simp: scan_route_def case_prod_beta Let_def split: if_splits option.splits)
  define A where "A = due_alert min_verdict (sp_new_finding_ids rep)"
  have "owned_brand s i tid = Inr b" using b by simp
  then have s': "bd_findings s' = map (\<lambda>f. if A f then f\<lparr>bf_alerted := True\<rparr> else f) (bd_findings d)"
    and sent: "sent = length (filter A (bd_findings d))"
    using assms(1) live scan
    by (auto simp: scan_route_def Let_def case_prod_beta dispatch_new_findings_def brand_audit_def A_def simp del: owned_brand_Inr)
  have t: "bd_findings (brand_db.truncate s) = bd_findings s" by (simp add: brand_db.defs)
  have "keyed bf_id (bd_findings (brand_db.truncate s))" using assms(2) t by (simp add: brand_inv_def)
  from scan this show ?thesis
  proof (cases rule: scan_brand_rows)
    case (1 kept new)
    have old: "bf_id f \<notin> bf_id ` set new" if "f \<in> set kept" for f
      using that 1(1,5) by (auto simp: keyed_def)
    have notA: "\<forall>f \<in> set kept. \<not> A f" using old 1(4) by (auto simp: A_def due_alert_def)
    have split: "bd_findings s' = kept @ map (\<lambda>f. if A f then f\<lparr>bf_alerted := True\<rparr> else f) new"
      unfolding s' 1(1) by (rule map_mark_split[OF notA])
    have newA: "A f = should_alert min_verdict (bf_verdict f)" if "f \<in> set new" for f
      using that 1(3,4) by (auto simp: A_def due_alert_def)
    have len: "length kept = length (bd_findings s)" using 1(2) t by (auto dest: list_all2_lengthD)
    have flags: "map (\<lambda>f. (bf_id f, bf_alerted f)) kept = map (\<lambda>f. (bf_id f, bf_alerted f)) (bd_findings s)"
      using 1(2) unfolding t by (induction rule: list_all2_induct) (auto dest: kept_key)
    have kept0: "filter (\<lambda>f. bf_id f \<in> set (sp_new_finding_ids rep) \<and> should_alert min_verdict (bf_verdict f)) kept = []"
      using old 1(4) by (auto simp: filter_empty_conv)
    have "length (filter (\<lambda>f. bf_id f \<in> set (sp_new_finding_ids rep) \<and> should_alert min_verdict (bf_verdict f))
        (map (\<lambda>f. if A f then f\<lparr>bf_alerted := True\<rparr> else f) new)) = length (filter A new)"
    proof -
      have "filter ((\<lambda>f. bf_id f \<in> set (sp_new_finding_ids rep) \<and> should_alert min_verdict (bf_verdict f))
          \<circ> (\<lambda>f. if A f then f\<lparr>bf_alerted := True\<rparr> else f)) new = filter A new"
        using newA 1(4) by (intro filter_cong) auto
      then show ?thesis by (simp add: filter_map)
    qed
    moreover have "filter A kept = []" using notA by (auto simp: filter_empty_conv)
    ultimately have "sent = length (filter (\<lambda>f. bf_id f \<in> set (sp_new_finding_ids rep) \<and> should_alert min_verdict (bf_verdict f)) (bd_findings s'))"
      unfolding sent split 1(1) by (simp add: kept0)
    moreover have "list_all (\<lambda>f. bf_id f \<in> set (sp_new_finding_ids rep) \<and> bf_alerted f = should_alert min_verdict (bf_verdict f))
        (map (\<lambda>f. if A f then f\<lparr>bf_alerted := True\<rparr> else f) new)"
      using newA 1(3,4) by (auto simp: list_all_iff)
    ultimately show ?thesis using split len flags by simp
  qed
qed

lemma demo_brands_inv: "brand_inv demo_brands"
  using effect_inv[OF step_effect[OF demo_brands_step empty_brands_inv] empty_brands_inv] .

lemma demo_scan_runs:
  obtains rep sent s' where
    "scan_route quiet_network ''suspicious'' 5 demo_admin 1 None 1 True demo_brands = Inr ((rep, sent), s')"
proof -
  let ?b = "created_brand 0 1 demo_brand_create empty_brands"
  have t: "bd_findings (brand_db.truncate demo_brands) = []"
    by (simp add: brand_db.defs demo_brands_def empty_brands_def)
  then have "keyed bf_id (bd_findings (brand_db.truncate demo_brands))" by (simp add: keyed_def)
  from scan_brand_ends[OF quiet_ok this demo_domains]
  obtain rep d where run: "scan_brand quiet_network 5 True ?b (brand_db.truncate demo_brands) = Inr (Some rep, d)" .
  have "owned_brand demo_brands 1 1 = Inr ?b"
    by (simp add: find_row_def demo_brands_def empty_brands_def created_brand_def next_id_def)
  moreover have "br_status ?b \<noteq> ''archived''" by (simp add: created_brand_def)
  ultimately show ?thesis
    using that by (simp add: scan_route_def run case_prod_beta Let_def del: owned_brand_Inr)
qed

theorem scan_alerts_only_new_witness:
  "\<exists>rep sent s'. scan_route quiet_network ''suspicious'' 5 demo_admin 1 None 1 True demo_brands = Inr ((rep, sent), s')
    \<and> map (\<lambda>f. (bf_id f, bf_alerted f)) (take (length (bd_findings demo_brands)) (bd_findings s'))
      = map (\<lambda>f. (bf_id f, bf_alerted f)) (bd_findings demo_brands)"
proof -
  obtain rep sent s' where run:
    "scan_route quiet_network ''suspicious'' 5 demo_admin 1 None 1 True demo_brands = Inr ((rep, sent), s')"
    by (rule demo_scan_runs)
  from scan_alerts_only_new[OF run demo_brands_inv] run show ?thesis by blast
qed

end
