(* ===== verification/Cases.thy ===== *)
theory Cases
  imports BrandScan Auth
begin

text \<open>
  Investigation cases (\<open>app/routers/cases_routes.py\<close>) and the storage of evidence files
  (\<open>app/evidence_store.py\<close>). A request is a function of the committed database to its answer and the
  database it leaves: the audit trail commits on its own, so a request that fails late may have
  committed part of its work. A file's bytes are a \<open>string\<close>; the storage directory is an association
  of storage keys to contents.
\<close>

section \<open>Tables\<close>

record case_note =
  nt_id :: int
  nt_tenant_id :: int
  nt_case_id :: int
  nt_author_user_id :: "int option"
  nt_body :: string
  nt_is_internal :: bool
  nt_created_at :: time

record case_review =
  rw_id :: int
  rw_tenant_id :: int
  rw_case_id :: int
  rw_review_status :: string
  rw_reviewer_user_id :: "int option"
  rw_created_by_user_id :: "int option"
  rw_notes :: "string option"
  rw_created_at :: time
  rw_reviewed_at :: "time option"

record case_evidence =
  ce_id :: int
  ce_tenant_id :: int
  ce_case_id :: int
  ce_finding_id :: "int option"
  ce_filename :: string
  ce_mime_type :: string
  ce_size_bytes :: int
  ce_sha256 :: string
  ce_origin :: string
  ce_description :: "string option"
  ce_storage_backend :: string
  ce_storage_key :: "string option"
  ce_uploaded_by_user_id :: "int option"
  ce_created_at :: time

record case_db =
  kd_cases :: "inv_case list"
  kd_notes :: "case_note list"
  kd_reviews :: "case_review list"
  kd_evidence :: "case_evidence list"
  kd_files :: "string dict"
  kd_users :: "user list"
  kd_brands :: "monitored_brand list"
  kd_findings :: "brand_finding list"
  kd_audit :: "audit_entry list"

definition CASE_ACTIVE :: "string list" where
  "CASE_ACTIVE = [''open'', ''triage'', ''investigating'', ''contained'']"

definition CASE_TERMINAL :: "string list" where
  "CASE_TERMINAL = [''closed'', ''false_positive'']"

definition CASE_SEVERITIES :: "string list" where
  "CASE_SEVERITIES = [''baixo'', ''medio'', ''alto'', ''critico'']"

definition VERDICT_SEVERITY :: "string dict" where
  "VERDICT_SEVERITY = [(''malicious'', ''alto''), (''suspicious'', ''medio''), (''low'', ''baixo''),
     (''no_known_threat'', ''baixo''), (''info'', ''baixo'')]"

definition REVIEWED_STATUSES :: "string list" where
  "REVIEWED_STATUSES = [''needs_changes'', ''approved'', ''rejected'']"

definition REVIEW_STATUSES :: "string list" where
  "REVIEW_STATUSES = [''not_reviewed'', ''in_review'', ''needs_changes'', ''approved'', ''rejected'']"

section \<open>Helpers\<close>

definition owned_case :: "case_db \<Rightarrow> int \<Rightarrow> int \<Rightarrow> inv_case res" where
  "owned_case d case_id tid = (case find_row cs_id case_id (kd_cases d) of
     None \<Rightarrow> Inl (HTTPException 404)
   | Some c \<Rightarrow> if cs_tenant_id c \<noteq> tid then Inl (HTTPException 404) else Inr c)"

definition is_admin :: "principal \<Rightarrow> bool" where
  "is_admin p = (effective_role p = ''admin'')"

definition validate_assignee :: "case_db \<Rightarrow> int \<Rightarrow> int option \<Rightarrow> unit res" where
  "validate_assignee d tid uid = (case uid of None \<Rightarrow> Inr ()
     | Some i \<Rightarrow> (case find_row us_id i (kd_users d) of
         None \<Rightarrow> Inl (HTTPException 422)
       | Some u \<Rightarrow> if us_tenant_id u \<noteq> Some tid then Inl (HTTPException 422) else Inr ()))"

definition opt_int :: "int option \<Rightarrow> json" where
  "opt_int v = (case v of None \<Rightarrow> JNull | Some i \<Rightarrow> JInt i)"

definition opt_str :: "string option \<Rightarrow> json" where
  "opt_str v = (case v of None \<Rightarrow> JNull | Some s \<Rightarrow> JStr s)"

definition finding_snapshot :: "(time \<Rightarrow> string) \<Rightarrow> time \<Rightarrow> brand_finding \<Rightarrow> monitored_brand option \<Rightarrow> json dict" where
  "finding_snapshot fmt now f b =
     [(''finding_id'', JInt (bf_id f)), (''brand_id'', JInt (bf_brand_id f)),
      (''brand_name'', case b of None \<Rightarrow> JNull | Some x \<Rightarrow> JStr (br_name x)),
      (''domain'', JStr (bf_domain f)), (''score'', JInt (bf_score f)), (''verdict'', JStr (bf_verdict f)),
      (''similarity'', JInt (bf_similarity f)), (''source'', JStr (bf_source f)), (''status'', JStr (bf_status f)),
      (''captured_at'', JStr (fmt now))]"

definition active_case_for_finding :: "case_db \<Rightarrow> int \<Rightarrow> int \<Rightarrow> inv_case option" where
  "active_case_for_finding d tid finding_id =
     find (\<lambda>c. cs_tenant_id c = tid \<and> cs_finding_id c = Some finding_id \<and> cs_status c \<in> set CASE_ACTIVE) (kd_cases d)"

definition case_audit ::
  "time \<Rightarrow> principal \<Rightarrow> int \<Rightarrow> http_request option \<Rightarrow> string \<Rightarrow> int \<Rightarrow> json dict \<Rightarrow> case_db \<Rightarrow> case_db" where
  "case_audit now p tid request action case_id detail d =
     d\<lparr>kd_audit := kd_audit d @ [audit_row now (pr_subject p) (Some (pr_role p)) action (Some ''case'')
        (Some (int_str case_id)) (Some tid) (pr_user_id p) request detail]\<rparr>"

definition owned_brand_row :: "case_db \<Rightarrow> int \<Rightarrow> int \<Rightarrow> monitored_brand res" where
  "owned_brand_row d brand_id tid = (case find_row br_id brand_id (kd_brands d) of
     None \<Rightarrow> Inl (HTTPException 404)
   | Some b \<Rightarrow> if br_tenant_id b \<noteq> tid then Inl (HTTPException 404) else Inr b)"

definition owned_finding_row :: "case_db \<Rightarrow> int \<Rightarrow> int \<Rightarrow> brand_finding res" where
  "owned_finding_row d finding_id tid = (case find_row bf_id finding_id (kd_findings d) of
     None \<Rightarrow> Inl (HTTPException 404)
   | Some f \<Rightarrow> if bf_tenant_id f \<noteq> tid then Inl (HTTPException 404) else Inr f)"

section \<open>Opening a case\<close>

record case_create =
  kc_title :: string
  kc_description :: "string option"
  kc_severity :: string
  kc_brand_id :: "int option"
  kc_finding_id :: "int option"
  kc_assignee_user_id :: "int option"

definition valid_title :: "string \<Rightarrow> string res" where
  "valid_title v = (let t = str_strip v in
     if t = [] \<or> length t > 255 then Inl (HTTPException 422) else Inr t)"

definition fresh_case ::
  "time \<Rightarrow> principal \<Rightarrow> int \<Rightarrow> int option \<Rightarrow> int option \<Rightarrow> json dict option \<Rightarrow> string \<Rightarrow> string option \<Rightarrow> string
    \<Rightarrow> int option \<Rightarrow> inv_case list \<Rightarrow> inv_case" where
  "fresh_case now p tid brand_id finding_id snapshot title description severity assignee rows =
     \<lparr>cs_id = next_id cs_id rows, cs_tenant_id = tid, cs_brand_id = brand_id, cs_finding_id = finding_id,
      cs_observable_id = None, cs_finding_snapshot = snapshot, cs_title = title, cs_description = description,
      cs_severity = severity, cs_status = ''open'', cs_assignee_user_id = assignee,
      cs_created_by_user_id = pr_user_id p, cs_created_at = now, cs_updated_at = now, cs_closed_at = None\<rparr>"

definition insert_case ::
  "time \<Rightarrow> principal \<Rightarrow> int \<Rightarrow> http_request option \<Rightarrow> bool \<Rightarrow> inv_case \<Rightarrow> case_db \<Rightarrow> case_db" where
  "insert_case now p tid request from_finding c d =
     case_audit now p tid request ''case.create'' (cs_id c)
       [(''title'', JStr (cs_title c)), (''severity'', JStr (cs_severity c)), (''brand_id'', opt_int (cs_brand_id c)),
        (''finding_id'', opt_int (cs_finding_id c)), (''from_finding'', JBool from_finding)]
       (d\<lparr>kd_cases := kd_cases d @ [c]\<rparr>)"

text \<open>The brand and the finding of the request: the snapshot and the brand the case is opened under.\<close>

definition case_subject ::
  "(time \<Rightarrow> string) \<Rightarrow> time \<Rightarrow> int \<Rightarrow> case_create \<Rightarrow> case_db \<Rightarrow> (json dict option \<times> int option) res" where
  "case_subject fmt now tid q d =
     bindr (case kc_brand_id q of None \<Rightarrow> Inr None | Some i \<Rightarrow> bindr (owned_brand_row d i tid) (\<lambda>b. Inr (Some b))) (\<lambda>brand.
       case kc_finding_id q of None \<Rightarrow> Inr (None, kc_brand_id q)
       | Some i \<Rightarrow> bindr (owned_finding_row d i tid) (\<lambda>f.
           if (case brand of None \<Rightarrow> False | Some b \<Rightarrow> bf_brand_id f \<noteq> br_id b) then Inl (HTTPException 422)
           else if active_case_for_finding d tid i \<noteq> None then Inl (HTTPException 409)
           else Inr (Some (finding_snapshot fmt now f
                      (case brand of None \<Rightarrow> find_row br_id (bf_brand_id f) (kd_brands d) | Some b \<Rightarrow> Some b)),
                   case brand of None \<Rightarrow> Some (bf_brand_id f) | Some b \<Rightarrow> kc_brand_id q)))"

definition create_case ::
  "(time \<Rightarrow> string) \<Rightarrow> time \<Rightarrow> principal \<Rightarrow> int \<Rightarrow> http_request option \<Rightarrow> case_create \<Rightarrow> case_db \<Rightarrow> (inv_case \<times> case_db) res" where
  "create_case fmt now p tid request q d =
     bindr (if kc_severity q \<in> set CASE_SEVERITIES then valid_title (kc_title q) else Inl (HTTPException 422)) (\<lambda>title.
     bindr (case_subject fmt now tid q d) (\<lambda>(snapshot, brand_id).
       if kc_assignee_user_id q \<noteq> None \<and> \<not> is_admin p then Inl (HTTPException 403)
       else bindr (validate_assignee d tid (kc_assignee_user_id q)) (\<lambda>_.
         let c = fresh_case now p tid brand_id (kc_finding_id q) snapshot title (kc_description q) (kc_severity q)
                   (kc_assignee_user_id q) (kd_cases d)
         in Inr (c, insert_case now p tid request False c d))))"

definition open_case_from_finding ::
  "(time \<Rightarrow> string) \<Rightarrow> time \<Rightarrow> principal \<Rightarrow> int \<Rightarrow> http_request option \<Rightarrow> int \<Rightarrow> int \<Rightarrow> case_db \<Rightarrow> (inv_case \<times> case_db) res" where
  "open_case_from_finding fmt now p tid request brand_id finding_id d =
     bindr (owned_brand_row d brand_id tid) (\<lambda>brand.
     bindr (owned_finding_row d finding_id tid) (\<lambda>f.
       if bf_brand_id f \<noteq> brand_id then Inl (HTTPException 404)
       else if active_case_for_finding d tid finding_id \<noteq> None then Inl (HTTPException 409)
       else let c = fresh_case now p tid (Some brand_id) (Some finding_id) (Some (finding_snapshot fmt now f (Some brand)))
                      (''Investigation: '' @ bf_domain f) None
                      (case map_of VERDICT_SEVERITY (bf_verdict f) of None \<Rightarrow> ''medio'' | Some s \<Rightarrow> s) None (kd_cases d)
            in Inr (c, insert_case now p tid request True c d)))"

section \<open>Editing a case\<close>

text \<open>Of each field: whether it is in the request, and then its value, which may be null.\<close>

record case_update =
  ku_title :: "string option option"
  ku_description :: "string option option"
  ku_severity :: "string option option"
  ku_status :: "string option option"
  ku_assignee_user_id :: "int option option"

definition valid_case_update :: "case_update \<Rightarrow> case_update res" where
  "valid_case_update q =
     (if (case ku_severity q of Some (Some s) \<Rightarrow> s \<notin> set CASE_SEVERITIES | _ \<Rightarrow> False)
        \<or> (case ku_status q of Some (Some s) \<Rightarrow> s \<notin> set CASE_ACTIVE \<union> set CASE_TERMINAL | _ \<Rightarrow> False)
      then Inl (HTTPException 422)
      else case ku_title q of Some (Some t) \<Rightarrow> bindr (valid_title t) (\<lambda>t'. Inr (q\<lparr>ku_title := Some (Some t')\<rparr>))
         | _ \<Rightarrow> Inr q)"

definition set_case :: "inv_case \<Rightarrow> case_db \<Rightarrow> case_db" where
  "set_case c d = d\<lparr>kd_cases := upd_row cs_id (cs_id c) (\<lambda>_. c) (kd_cases d)\<rparr>"

text \<open>The answer so far and the database as committed so far.\<close>

type_synonym 'a stage = "'a res \<times> case_db"

definition next_stage :: "'a stage \<Rightarrow> ('a \<Rightarrow> case_db \<Rightarrow> 'b stage) \<Rightarrow> 'b stage" where
  "next_stage r f = (case r of (Inl e, d) \<Rightarrow> (Inl e, d) | (Inr x, d) \<Rightarrow> f x d)"

definition from_to :: "json \<Rightarrow> json \<Rightarrow> json" where
  "from_to old new = JObj [(''from'', old), (''to'', new)]"

definition assign_stage ::
  "time \<Rightarrow> principal \<Rightarrow> int \<Rightarrow> http_request option \<Rightarrow> case_update \<Rightarrow> inv_case \<Rightarrow> case_db \<Rightarrow> inv_case stage" where
  "assign_stage now p tid request q c d = (case ku_assignee_user_id q of
     None \<Rightarrow> (Inr c, d)
   | Some uid \<Rightarrow>
       if \<not> is_admin p then (Inl (HTTPException 403), d)
       else case validate_assignee d tid uid of
           Inl e \<Rightarrow> (Inl e, d)
         | Inr _ \<Rightarrow>
             if uid = cs_assignee_user_id c then (Inr c, d)
             else let c' = c\<lparr>cs_assignee_user_id := uid\<rparr> in
               (Inr c', case_audit now p tid request ''case.assign'' (cs_id c)
                 [(''assignee'', from_to (opt_int (cs_assignee_user_id c)) (opt_int uid))] (set_case c' d)))"

definition status_change :: "principal \<Rightarrow> time \<Rightarrow> string option \<Rightarrow> inv_case \<Rightarrow> (string \<times> inv_case) res" where
  "status_change p now target c = (let old = cs_status c in
     case target of None \<Rightarrow> Inl (HTTPException 422)
     | Some new \<Rightarrow>
         if old \<in> set CASE_ACTIVE \<and> new \<in> set CASE_ACTIVE then Inr (''case.status_change'', c\<lparr>cs_status := new\<rparr>)
         else if old \<in> set CASE_ACTIVE \<and> new \<in> set CASE_TERMINAL then
           (if \<not> is_admin p then Inl (HTTPException 403)
            else Inr (''case.close'', c\<lparr>cs_status := new, cs_closed_at := Some now\<rparr>))
         else if old \<in> set CASE_TERMINAL \<and> new \<in> set CASE_ACTIVE then
           (if \<not> is_admin p then Inl (HTTPException 403)
            else Inr (''case.reopen'', c\<lparr>cs_status := new, cs_closed_at := None\<rparr>))
         else Inl (HTTPException 422))"

definition status_stage ::
  "(time \<Rightarrow> string) \<Rightarrow> time \<Rightarrow> principal \<Rightarrow> int \<Rightarrow> http_request option \<Rightarrow> case_update \<Rightarrow> inv_case \<Rightarrow> case_db \<Rightarrow> inv_case stage" where
  "status_stage fmt now p tid request q c d = (case ku_status q of
     None \<Rightarrow> (Inr c, d)
   | Some target \<Rightarrow>
       if target = Some (cs_status c) then (Inr c, d)
       else case status_change p now target c of
           Inl e \<Rightarrow> (Inl e, d)
         | Inr (action, c') \<Rightarrow>
             (Inr c', case_audit now p tid request action (cs_id c)
               ((''status'', from_to (JStr (cs_status c)) (JStr (cs_status c')))
                 # (if action = ''case.close'' then [(''closed_at'', JStr (fmt now))] else [])) (set_case c' d)))"

definition text_change :: "string \<Rightarrow> json \<Rightarrow> 'a option \<Rightarrow> ('a \<Rightarrow> json) \<Rightarrow> json dict" where
  "text_change name old val to_json = (case val of None \<Rightarrow> [] | Some v \<Rightarrow>
     if to_json v = old then [] else [(name, from_to old (to_json v))])"

definition field_changes :: "case_update \<Rightarrow> inv_case \<Rightarrow> json dict" where
  "field_changes q c =
     text_change ''title'' (JStr (cs_title c)) (ku_title q) opt_str
     @ text_change ''description'' (opt_str (cs_description c)) (ku_description q) opt_str
     @ text_change ''severity'' (JStr (cs_severity c)) (ku_severity q) opt_str"

definition or_kept :: "'a option option \<Rightarrow> 'a \<Rightarrow> 'a" where
  "or_kept v old = (case v of Some (Some x) \<Rightarrow> x | _ \<Rightarrow> old)"

text \<open>A null title or severity is written to a column that refuses it.\<close>

definition fields_stage ::
  "time \<Rightarrow> principal \<Rightarrow> int \<Rightarrow> http_request option \<Rightarrow> case_update \<Rightarrow> inv_case \<Rightarrow> case_db \<Rightarrow> inv_case stage" where
  "fields_stage now p tid request q c d =
     (if ku_title q = Some None \<or> ku_severity q = Some None then (Inl IntegrityError, d)
      else let c' = c\<lparr>cs_title := or_kept (ku_title q) (cs_title c),
                   cs_description := (case ku_description q of None \<Rightarrow> cs_description c | Some v \<Rightarrow> v),
                   cs_severity := or_kept (ku_severity q) (cs_severity c), cs_updated_at := now\<rparr>;
               d' = set_case c' d
           in (Inr c', if field_changes q c = [] then d'
                       else case_audit now p tid request ''case.update'' (cs_id c)
                              [(''changes'', JObj (field_changes q c))] d'))"

definition update_case ::
  "(time \<Rightarrow> string) \<Rightarrow> time \<Rightarrow> principal \<Rightarrow> int \<Rightarrow> http_request option \<Rightarrow> int \<Rightarrow> case_update \<Rightarrow> case_db \<Rightarrow> inv_case stage" where
  "update_case fmt now p tid request case_id payload d =
     (case bindr (valid_case_update payload) (\<lambda>q. bindr (owned_case d case_id tid) (\<lambda>c. Inr (q, c))) of
        Inl e \<Rightarrow> (Inl e, d)
      | Inr (q, c) \<Rightarrow>
          next_stage (assign_stage now p tid request q c d) (\<lambda>c d.
          next_stage (status_stage fmt now p tid request q c d) (\<lambda>c d.
            fields_stage now p tid request q c d)))"

section \<open>Notes and reviews\<close>

definition valid_note :: "string \<Rightarrow> string res" where
  "valid_note body = (let v = str_strip body in
     if v = [] \<or> length v > 10000 then Inl (HTTPException 422) else Inr v)"

definition add_note ::
  "time \<Rightarrow> principal \<Rightarrow> int \<Rightarrow> http_request option \<Rightarrow> int \<Rightarrow> string \<Rightarrow> bool \<Rightarrow> case_db \<Rightarrow> (case_note \<times> case_db) res" where
  "add_note now p tid request case_id body is_internal d =
     bindr (valid_note body) (\<lambda>text. bindr (owned_case d case_id tid) (\<lambda>c.
       let n = \<lparr>nt_id = next_id nt_id (kd_notes d), nt_tenant_id = tid, nt_case_id = cs_id c,
             nt_author_user_id = pr_user_id p, nt_body = text, nt_is_internal = is_internal, nt_created_at = now\<rparr>
       in Inr (n, case_audit now p tid request ''case.note_added'' (cs_id c)
            [(''note_id'', JInt (nt_id n)), (''length'', JInt (int (length text)))]
            (d\<lparr>kd_notes := kd_notes d @ [n]\<rparr>))))"

definition valid_review_notes :: "string option \<Rightarrow> string option res" where
  "valid_review_notes v = (case v of None \<Rightarrow> Inr None | Some s \<Rightarrow> (let t = str_strip s in
     if t = [] then Inr None else if length t > 10000 then Inl (HTTPException 422) else Inr (Some t)))"

definition new_review :: "time \<Rightarrow> principal \<Rightarrow> int \<Rightarrow> int \<Rightarrow> string \<Rightarrow> string option \<Rightarrow> case_review list \<Rightarrow> case_review" where
  "new_review now p tid case_id review_status text rows =
     \<lparr>rw_id = next_id rw_id rows, rw_tenant_id = tid, rw_case_id = case_id,
      rw_review_status = review_status, rw_reviewer_user_id = pr_user_id p,
      rw_created_by_user_id = pr_user_id p, rw_notes = text, rw_created_at = now,
      rw_reviewed_at = (if review_status \<in> set REVIEWED_STATUSES then Some now else None)\<rparr>"

definition review_detail :: "(time \<Rightarrow> string) \<Rightarrow> case_review \<Rightarrow> json dict" where
  "review_detail fmt r =
     [(''review_id'', JInt (rw_id r)), (''review_status'', JStr (rw_review_status r)),
      (''reviewer_user_id'', opt_int (rw_reviewer_user_id r)),
      (''reviewed_at'', case rw_reviewed_at r of None \<Rightarrow> JNull | Some t \<Rightarrow> JStr (fmt t)),
      (''notes_length'', JInt (int (case rw_notes r of None \<Rightarrow> 0 | Some t \<Rightarrow> length t)))]"

definition add_review ::
  "(time \<Rightarrow> string) \<Rightarrow> time \<Rightarrow> principal \<Rightarrow> int \<Rightarrow> http_request option \<Rightarrow> int \<Rightarrow> string \<Rightarrow> string option \<Rightarrow> case_db
    \<Rightarrow> (case_review \<times> case_db) res" where
  "add_review fmt now p tid request case_id review_status notes d =
     bindr (if review_status \<in> set REVIEW_STATUSES then valid_review_notes notes else Inl (HTTPException 422)) (\<lambda>text.
     bindr (owned_case d case_id tid) (\<lambda>c.
       let r = new_review now p tid (cs_id c) review_status text (kd_reviews d)
       in Inr (r, case_audit now p tid request ''case.review_added'' (cs_id c) (review_detail fmt r)
            (set_case (c\<lparr>cs_updated_at := now\<rparr>) (d\<lparr>kd_reviews := kd_reviews d @ [r]\<rparr>)))))"

definition list_notes :: "int \<Rightarrow> int \<Rightarrow> case_db \<Rightarrow> case_note list res" where
  "list_notes tid case_id d = bindr (owned_case d case_id tid) (\<lambda>_.
     Inr (sort_key nt_created_at (sort_key nt_id
       (filter (\<lambda>n. nt_tenant_id n = tid \<and> nt_case_id n = case_id) (kd_notes d)))))"

definition list_reviews :: "int \<Rightarrow> int \<Rightarrow> case_db \<Rightarrow> case_review list res" where
  "list_reviews tid case_id d = bindr (owned_case d case_id tid) (\<lambda>_.
     Inr (sort_key rw_created_at (sort_key rw_id
       (filter (\<lambda>r. rw_tenant_id r = tid \<and> rw_case_id r = case_id) (kd_reviews d)))))"

section \<open>Evidence files\<close>

text \<open>White space and digits of a byte string.\<close>

definition is_bytes_ws :: "char \<Rightarrow> bool" where
  "is_bytes_ws c = (let n = of_char c :: nat in n = 32 \<or> (9 \<le> n \<and> n \<le> 13))"

definition MAGIC :: "(string \<times> string list) list" where
  "MAGIC = [(''application/pdf'', [''%PDF'']),
     (''image/png'', [[CHR 0x89] @ ''PNG'' @ [CHR 0x0D, CHR 0x0A, CHR 0x1A, CHR 0x0A]]),
     (''image/jpeg'', [[CHR 0xFF, CHR 0xD8, CHR 0xFF]]),
     (''image/gif'', [''GIF87a'', ''GIF89a'']),
     (''application/zip'', [''PK'' @ [CHR 0x03, CHR 0x04], ''PK'' @ [CHR 0x05, CHR 0x06], ''PK'' @ [CHR 0x07, CHR 0x08]])]"

definition TEXT_LIKE :: "string list" where
  "TEXT_LIKE = [''text/plain'', ''text/csv'', ''application/json'', ''message/rfc822'']"

definition sniff_ok :: "string \<Rightarrow> string \<Rightarrow> bool" where
  "sniff_ok declared head =
     (if declared = ''image/webp'' then length head \<ge> 12 \<and> take 4 head = ''RIFF'' \<and> take 4 (drop 8 head) = ''WEBP''
      else case map_of MAGIC declared of
        Some sigs \<Rightarrow> list_ex (startswith head) sigs
      | None \<Rightarrow>
          if declared \<in> set TEXT_LIKE then
            if CHR 0x00 \<in> set head then False
            else if declared = ''application/json'' then
              (case dropWhile is_bytes_ws head of [] \<Rightarrow> True
               | c # _ \<Rightarrow> c \<in> {CHR ''{'', CHR ''['', CHR 0x22, CHR ''-''} \<or> is_digit c)
            else True
          else False)"

definition is_nonzero_digit :: "char \<Rightarrow> bool" where
  "is_nonzero_digit c = (is_digit c \<and> c \<noteq> CHR ''0'')"

definition is_hex :: "char \<Rightarrow> bool" where
  "is_hex c = (is_digit c \<or> c \<in> {CHR ''a'', CHR ''b'', CHR ''c'', CHR ''d'', CHR ''e'', CHR ''f''})"

definition positive_number :: "string \<Rightarrow> bool" where
  "positive_number s = (case s of [] \<Rightarrow> False | c # cs \<Rightarrow> is_nonzero_digit c \<and> list_all is_digit cs)"

text \<open>\<open>_STORAGE_KEY_RE\<close>: tenant, case, 32 hexadecimal digits.\<close>

definition storage_key_ok :: "string \<Rightarrow> bool" where
  "storage_key_ok k = (case str_split (CHR ''/'') k of
     [t, c, f] \<Rightarrow> positive_number t \<and> positive_number c \<and> length f = 36 \<and> list_all is_hex (take 32 f)
       \<and> drop 32 f = ''.bin''
   | _ \<Rightarrow> False)"

definition new_storage_key :: "int \<Rightarrow> int \<Rightarrow> string \<Rightarrow> string res" where
  "new_storage_key tenant_id case_id uuid =
     (if tenant_id \<le> 0 \<or> case_id \<le> 0 then Inl (HTTPException 500)
      else Inr (int_str tenant_id @ ''/'' @ int_str case_id @ ''/'' @ uuid @ ''.bin''))"

record stored_file =
  sf_sha256 :: string
  sf_size :: int
  sf_storage_key :: "string option"
  sf_backend :: string

definition CHUNK :: nat where
  "CHUNK = 1048576"

text \<open>The loop of \<open>save_stream\<close>: what was read so far, the rest; \<open>None\<close> is \<open>EvidenceTooLarge\<close>.\<close>

function save_loop :: "nat \<Rightarrow> string \<Rightarrow> string \<Rightarrow> string option" where
  "save_loop max_bytes written rest =
     (let chunk = take CHUNK rest in
      if chunk = [] then Some written
      else if length written + length chunk > max_bytes then None
      else save_loop max_bytes (written @ chunk) (drop CHUNK rest))"
  by pat_completeness auto
termination
  by (relation "measure (\<lambda>(m, w, r). length r)") (auto simp: CHUNK_def)

declare save_loop.simps [simp del]

text \<open>
  The configuration: backend and size limit, the hash, and the string \<open>uuid4().hex\<close> of the call. The
  answer is the stored file and the directory; a file that grows too large is removed again.
\<close>

record storage_env =
  se_backend :: string
  se_max_bytes :: nat
  se_hash :: "string \<Rightarrow> string"

definition save_stream ::
  "storage_env \<Rightarrow> string \<Rightarrow> string \<Rightarrow> int \<Rightarrow> int \<Rightarrow> string dict \<Rightarrow> stored_file res \<times> string dict" where
  "save_stream S uuid content tenant_id case_id files =
     (if se_backend S \<notin> {''local'', ''none''} then (Inl (HTTPException 500), files)
      else case (if se_backend S = ''local'' then bindr (new_storage_key tenant_id case_id uuid) (\<lambda>k. Inr (Some k)) else Inr None) of
        Inl e \<Rightarrow> (Inl e, files)
      | Inr key \<Rightarrow>
          (case save_loop (se_max_bytes S) [] content of
             None \<Rightarrow> (Inl (HTTPException 413), case key of None \<Rightarrow> files | Some k \<Rightarrow> AList.delete k files)
           | Some bytes \<Rightarrow>
               (Inr \<lparr>sf_sha256 = se_hash S bytes, sf_size = int (length bytes), sf_storage_key = key,
                  sf_backend = se_backend S\<rparr>,
                case key of None \<Rightarrow> files | Some k \<Rightarrow> AList.update k bytes files)))"

definition delete_key :: "string option \<Rightarrow> string dict \<Rightarrow> string dict" where
  "delete_key key files = (case key of None \<Rightarrow> files | Some k \<Rightarrow> if k = [] then files else AList.delete k files)"

text \<open>\<open>str.isalnum\<close> on a code point of the Latin-1 range, and the name kept of an uploaded file.\<close>

definition latin_alnum :: "char \<Rightarrow> bool" where
  "latin_alnum c = (let n = of_char c :: nat in is_alnum c
     \<or> n \<in> {170, 178, 179, 181, 185, 186, 188, 189, 190} \<or> (192 \<le> n \<and> n \<noteq> 215 \<and> n \<noteq> 247))"

definition basename :: "string \<Rightarrow> string" where
  "basename path = last (str_split (CHR ''/'') path)"

definition safe_filename :: "string \<Rightarrow> string" where
  "safe_filename name = (let s = take 512 (map (\<lambda>c. if latin_alnum c \<or> c \<in> {CHR ''.'', CHR ''_'', CHR ''-''} then c else CHR ''_'')
       (basename (if name = [] then ''file'' else name))) in if s = [] then ''file'' else s)"

definition EVIDENCE_ALLOWED_MIME :: "string list" where
  "EVIDENCE_ALLOWED_MIME = [''image/png'', ''image/jpeg'', ''image/webp'', ''image/gif'', ''application/pdf'',
     ''text/plain'', ''text/csv'', ''application/json'', ''message/rfc822'', ''application/zip'']"

definition EVIDENCE_ORIGINS :: "string list" where
  "EVIDENCE_ORIGINS = [''manual_upload'', ''authorized_export'', ''whatsapp_intake'', ''telegram_public'', ''email'', ''other'']"

record evidence_upload =
  eu_content_type :: string
  eu_content :: string
  eu_filename :: string
  eu_origin :: string
  eu_description :: "string option"
  eu_finding_id :: "int option"

definition evidence_finding_ok :: "inv_case \<Rightarrow> int \<Rightarrow> int option \<Rightarrow> case_db \<Rightarrow> unit res" where
  "evidence_finding_ok c tid finding_id d = (case finding_id of None \<Rightarrow> Inr ()
     | Some i \<Rightarrow> bindr (owned_finding_row d i tid) (\<lambda>f.
         if cs_finding_id c \<noteq> None \<and> cs_finding_id c \<noteq> Some i then Inl (HTTPException 422)
         else if cs_brand_id c \<noteq> None \<and> cs_brand_id c \<noteq> Some (bf_brand_id f) then Inl (HTTPException 422)
         else Inr ()))"

definition evidence_stored :: "case_evidence \<Rightarrow> bool" where
  "evidence_stored e = (ce_storage_backend e = ''local'' \<and> ce_storage_key e \<noteq> None \<and> ce_storage_key e \<noteq> Some [])"

definition new_evidence ::
  "time \<Rightarrow> principal \<Rightarrow> int \<Rightarrow> int \<Rightarrow> evidence_upload \<Rightarrow> stored_file \<Rightarrow> case_evidence list \<Rightarrow> case_evidence" where
  "new_evidence now p tid case_id u meta rows =
     \<lparr>ce_id = next_id ce_id rows, ce_tenant_id = tid, ce_case_id = case_id,
      ce_finding_id = eu_finding_id u, ce_filename = safe_filename (eu_filename u),
      ce_mime_type = eu_content_type u, ce_size_bytes = sf_size meta, ce_sha256 = sf_sha256 meta,
      ce_origin = eu_origin u, ce_description = eu_description u, ce_storage_backend = sf_backend meta,
      ce_storage_key = sf_storage_key meta, ce_uploaded_by_user_id = pr_user_id p, ce_created_at = now\<rparr>"

definition evidence_detail :: "case_evidence \<Rightarrow> json dict" where
  "evidence_detail ev =
     [(''evidence_id'', JInt (ce_id ev)), (''filename'', JStr (ce_filename ev)),
      (''mime_type'', JStr (ce_mime_type ev)), (''size_bytes'', JInt (ce_size_bytes ev)),
      (''sha256'', JStr (ce_sha256 ev)), (''origin'', JStr (ce_origin ev)),
      (''stored'', JBool (evidence_stored ev))]"

definition evidence_checks :: "int \<Rightarrow> int \<Rightarrow> evidence_upload \<Rightarrow> case_db \<Rightarrow> inv_case res" where
  "evidence_checks tid case_id u d =
     bindr (owned_case d case_id tid) (\<lambda>c.
        if eu_origin u \<notin> set EVIDENCE_ORIGINS then Inl (HTTPException 422)
        else if eu_content_type u \<notin> set EVIDENCE_ALLOWED_MIME then Inl (HTTPException 415)
        else bindr (evidence_finding_ok c tid (eu_finding_id u) d) (\<lambda>_.
          if \<not> sniff_ok (eu_content_type u) (take 512 (eu_content u)) then Inl (HTTPException 415) else Inr c))"

text \<open>
  \<open>persisted\<close> is whether the commit of the row succeeds. Files are written before it and are not
  transactional.
\<close>

definition add_evidence ::
  "storage_env \<Rightarrow> string \<Rightarrow> bool \<Rightarrow> time \<Rightarrow> principal \<Rightarrow> int \<Rightarrow> http_request option \<Rightarrow> int \<Rightarrow> evidence_upload \<Rightarrow> case_db
    \<Rightarrow> case_evidence stage" where
  "add_evidence S uuid persisted now p tid request case_id u d =
     (case evidence_checks tid case_id u d of
        Inl e \<Rightarrow> (Inl e, d)
      | Inr c \<Rightarrow>
          (case save_stream S uuid (eu_content u) tid case_id (kd_files d) of
             (Inl e, files) \<Rightarrow> (Inl e, d\<lparr>kd_files := files\<rparr>)
           | (Inr meta, files) \<Rightarrow>
               if \<not> persisted then (Inl (HTTPException 500), d\<lparr>kd_files := delete_key (sf_storage_key meta) files\<rparr>)
               else let ev = new_evidence now p tid (cs_id c) u meta (kd_evidence d)
                    in (Inr ev, case_audit now p tid request ''evidence.add'' (cs_id c) (evidence_detail ev)
                      (d\<lparr>kd_files := files, kd_evidence := kd_evidence d @ [ev]\<rparr>))))"

definition owned_evidence :: "case_db \<Rightarrow> int \<Rightarrow> int \<Rightarrow> int \<Rightarrow> case_evidence res" where
  "owned_evidence d case_id evidence_id tid = (case find_row ce_id evidence_id (kd_evidence d) of
     None \<Rightarrow> Inl (HTTPException 404)
   | Some e \<Rightarrow> if ce_tenant_id e \<noteq> tid \<or> ce_case_id e \<noteq> case_id then Inl (HTTPException 404) else Inr e)"

definition evidence_out :: "(time \<Rightarrow> string) \<Rightarrow> case_evidence \<Rightarrow> json dict" where
  "evidence_out fmt e =
     [(''id'', JInt (ce_id e)), (''tenant_id'', JInt (ce_tenant_id e)), (''case_id'', JInt (ce_case_id e)),
      (''finding_id'', opt_int (ce_finding_id e)), (''filename'', JStr (ce_filename e)), (''mime_type'', JStr (ce_mime_type e)),
      (''size_bytes'', JInt (ce_size_bytes e)), (''sha256'', JStr (ce_sha256 e)), (''origin'', JStr (ce_origin e)),
      (''description'', opt_str (ce_description e)), (''stored'', JBool (evidence_stored e)),
      (''uploaded_by_user_id'', opt_int (ce_uploaded_by_user_id e)), (''created_at'', JStr (fmt (ce_created_at e)))]"

definition list_evidence :: "(time \<Rightarrow> string) \<Rightarrow> int \<Rightarrow> int \<Rightarrow> case_db \<Rightarrow> json dict list res" where
  "list_evidence fmt tid case_id d = bindr (owned_case d case_id tid) (\<lambda>_.
     Inr (map (evidence_out fmt) (sort_key ce_created_at (sort_key ce_id
       (filter (\<lambda>e. ce_tenant_id e = tid \<and> ce_case_id e = case_id) (kd_evidence d))))))"

definition get_evidence :: "(time \<Rightarrow> string) \<Rightarrow> int \<Rightarrow> int \<Rightarrow> int \<Rightarrow> case_db \<Rightarrow> json dict res" where
  "get_evidence fmt tid case_id evidence_id d =
     bindr (owned_evidence d case_id evidence_id tid) (\<lambda>e. Inr (evidence_out fmt e))"

text \<open>The storage key is checked again before a path is made of it.\<close>

definition download_evidence ::
  "time \<Rightarrow> principal \<Rightarrow> int \<Rightarrow> http_request option \<Rightarrow> int \<Rightarrow> int \<Rightarrow> case_db \<Rightarrow> (string \<times> case_db) res" where
  "download_evidence now p tid request case_id evidence_id d =
     bindr (owned_evidence d case_id evidence_id tid) (\<lambda>e.
       if \<not> evidence_stored e then Inl (HTTPException 409)
       else case ce_storage_key e of None \<Rightarrow> Inl (HTTPException 409)
         | Some k \<Rightarrow>
             if \<not> storage_key_ok k then Inl (ValueError ''invalid evidence storage key'')
             else case map_of (kd_files d) k of None \<Rightarrow> Inl (HTTPException 410)
               | Some bytes \<Rightarrow> Inr (bytes, case_audit now p tid request ''evidence.download'' case_id
                   [(''evidence_id'', JInt (ce_id e)), (''sha256'', JStr (ce_sha256 e))] d))"

end
