(* ===== verification/CaseSteps.thy ===== *)
theory CaseSteps
  imports Cases
begin

text \<open>
  What every case request does to the tables: edits of cases of the tenant, one new case, one appended
  note, review or file.
\<close>

section \<open>What a request does to the tables\<close>

definition assignee_ok :: "user list \<Rightarrow> inv_case \<Rightarrow> bool" where
  "assignee_ok users c = (case cs_assignee_user_id c of None \<Rightarrow> True
     | Some i \<Rightarrow> list_ex (\<lambda>u. us_id u = i \<and> us_tenant_id u = Some (cs_tenant_id c)) users)"

definition case_ok :: "user list \<Rightarrow> inv_case \<Rightarrow> bool" where
  "case_ok users c = (cs_status c \<in> set CASE_ACTIVE \<union> set CASE_TERMINAL
     \<and> (cs_closed_at c \<noteq> None \<longleftrightarrow> cs_status c \<in> set CASE_TERMINAL) \<and> cs_severity c \<in> set CASE_SEVERITIES
     \<and> cs_title c \<noteq> [] \<and> assignee_ok users c)"

text \<open>A case after a request of tenant \<open>tid\<close>: unchanged, or the tenant's and still well formed.\<close>

definition ckept :: "user list \<Rightarrow> int \<Rightarrow> inv_case \<Rightarrow> inv_case \<Rightarrow> bool" where
  "ckept users tid c c' = (c' = c \<or> cs_tenant_id c = tid \<and> cs_tenant_id c' = tid \<and> cs_id c' = cs_id c
     \<and> (case_ok users c \<longrightarrow> case_ok users c'))"

definition case_edit :: "int \<Rightarrow> case_db \<Rightarrow> case_db \<Rightarrow> bool" where
  "case_edit tid d d' = (list_all2 (ckept (kd_users d) tid) (kd_cases d) (kd_cases d')
     \<and> kd_notes d' = kd_notes d \<and> kd_reviews d' = kd_reviews d \<and> kd_evidence d' = kd_evidence d
     \<and> kd_files d' = kd_files d \<and> kd_users d' = kd_users d \<and> kd_brands d' = kd_brands d
     \<and> kd_findings d' = kd_findings d \<and> prefix (kd_audit d) (kd_audit d'))"

lemma ckept_refl [simp]: "ckept users tid c c"
  by (simp add: ckept_def)

lemma ckept_trans: "ckept us tid a b \<Longrightarrow> ckept us tid b c \<Longrightarrow> ckept us tid a c"
  by (auto simp: ckept_def)

lemma case_edit_refl [simp]: "case_edit tid d d"
  by (simp add: case_edit_def list.rel_refl)

lemma case_edit_trans:
  assumes "case_edit tid d d'" "case_edit tid d' d''"
  shows "case_edit tid d d''"
proof -
  have "list_all2 (ckept (kd_users d) tid) (kd_cases d) (kd_cases d'')"
    using assms ckept_trans
    by (intro list_all2_trans[of "ckept (kd_users d) tid" "ckept (kd_users d) tid" _ "kd_cases d" "kd_cases d'" "kd_cases d''"])
      (auto simp: case_edit_def)
  with assms show ?thesis by (auto simp: case_edit_def intro: prefix_order.trans)
qed

lemma ckept_ids: "list_all2 (ckept us tid) cs cs' \<Longrightarrow> map cs_id cs' = map cs_id cs"
  by (induction rule: list_all2_induct) (auto simp: ckept_def)

lemma case_edit_keyed: "case_edit tid d d' \<Longrightarrow> keyed cs_id (kd_cases d) \<Longrightarrow> keyed cs_id (kd_cases d')"
  using ckept_ids[of "kd_users d" tid "kd_cases d" "kd_cases d'"] by (simp add: case_edit_def keyed_def)

definition current :: "int \<Rightarrow> inv_case \<Rightarrow> case_db \<Rightarrow> bool" where
  "current tid c d = (keyed cs_id (kd_cases d) \<and> find_row cs_id (cs_id c) (kd_cases d) = Some c \<and> cs_tenant_id c = tid)"

lemma set_case_edit:
  assumes "current tid c d" "cs_id c' = cs_id c" "cs_tenant_id c' = tid" "case_ok (kd_users d) c \<Longrightarrow> case_ok (kd_users d) c'"
  shows "case_edit tid d (set_case c' d)" "current tid c' (set_case c' d)"
proof -
  have row: "x = c" if "x \<in> set (kd_cases d)" "cs_id x = cs_id c" for x
    using assms(1) find_owned[of cs_id "kd_cases d" "cs_id c" c x] that by (simp add: current_def)
  have "ckept (kd_users d) tid c c'" using assms by (simp add: ckept_def current_def)
  then have "ckept (kd_users d) tid x (if cs_id x = cs_id c then c' else x)" if "x \<in> set (kd_cases d)" for x
    using row that by auto
  then show "case_edit tid d (set_case c' d)"
    by (simp add: case_edit_def set_case_def assms(2) list_all2_conv_all_nth upd_row_def)
  have k: "keyed cs_id (kd_cases (set_case c' d))"
    using assms(1,2) by (simp add: set_case_def current_def keyed_upd_row_const)
  have "c \<in> set (kd_cases d)" using assms(1) find_row_SomeD by (fastforce simp: current_def)
  then have "c' \<in> set (kd_cases (set_case c' d))"
    by (auto simp: set_case_def set_upd_row assms(2))
  with k assms(3) show "current tid c' (set_case c' d)"
    by (simp add: current_def find_row_Some)
qed

lemma case_audit_edit [simp]: "case_edit tid d (case_audit now p t request action i detail d)"
  by (simp add: case_edit_def case_audit_def list.rel_refl)

lemma case_audit_current [simp]: "current tid c (case_audit now p t request action i detail d) = current tid c d"
  by (simp add: current_def case_audit_def)

lemma case_audit_sel [simp]:
  "kd_cases (case_audit now p t request action i detail d) = kd_cases d"
  "kd_notes (case_audit now p t request action i detail d) = kd_notes d"
  "kd_reviews (case_audit now p t request action i detail d) = kd_reviews d"
  "kd_evidence (case_audit now p t request action i detail d) = kd_evidence d"
  "kd_files (case_audit now p t request action i detail d) = kd_files d"
  "kd_users (case_audit now p t request action i detail d) = kd_users d"
  "kd_brands (case_audit now p t request action i detail d) = kd_brands d"
  "kd_findings (case_audit now p t request action i detail d) = kd_findings d"
  "prefix (kd_audit d) (kd_audit (case_audit now p t request action i detail d))"
  by (simp_all add: case_audit_def)

text \<open>A stage edits cases of the tenant and, when it goes on, hands on the current row.\<close>

definition stage_ok :: "int \<Rightarrow> case_db \<Rightarrow> inv_case stage \<Rightarrow> bool" where
  "stage_ok tid d r = (case_edit tid d (snd r) \<and> (case fst r of Inl e \<Rightarrow> True | Inr c \<Rightarrow> current tid c (snd r)))"

lemma stage_okI: "case_edit tid d d' \<Longrightarrow> current tid c d' \<Longrightarrow> stage_ok tid d (Inr c, d')"
  by (simp add: stage_ok_def)

lemma stage_ok_Inl: "stage_ok tid d (Inl e, d)"
  by (simp add: stage_ok_def)

lemma stage_ok_next:
  assumes "stage_ok tid d r" "\<And>c d1. r = (Inr c, d1) \<Longrightarrow> current tid c d1 \<Longrightarrow> stage_ok tid d1 (f c d1)"
  shows "stage_ok tid d (next_stage r f)"
proof (cases r)
  case (Pair a d1)
  show ?thesis
  proof (cases a)
    case (Inl e)
    then show ?thesis using assms(1) Pair by (simp add: next_stage_def stage_ok_def)
  next
    case (Inr c)
    have e: "case_edit tid d d1" "current tid c d1" using assms(1) Pair Inr by (simp_all add: stage_ok_def)
    have "stage_ok tid d1 (f c d1)" using assms(2) Pair Inr e by simp
    then show ?thesis using e case_edit_trans Pair Inr by (auto simp: next_stage_def stage_ok_def)
  qed
qed

lemma validate_assigneeD:
  "validate_assignee d tid uid = Inr () \<Longrightarrow> cs_tenant_id c = tid \<Longrightarrow> cs_assignee_user_id c = uid \<Longrightarrow> assignee_ok (kd_users d) c"
  by (auto simp: validate_assignee_def assignee_ok_def list_ex_iff split: option.splits if_splits dest: find_row_SomeD)

lemma set_case_audit_ok:
  assumes "current tid c d" "cs_id c' = cs_id c" "cs_tenant_id c' = tid" "case_ok (kd_users d) c \<Longrightarrow> case_ok (kd_users d) c'"
  shows "stage_ok tid d (Inr c', case_audit now p t request action i detail (set_case c' d))"
  using set_case_edit[OF assms] case_edit_trans case_audit_edit by (intro stage_okI) (blast, simp)

lemma assign_stage_ok:
  assumes "current tid c d"
  shows "stage_ok tid d (assign_stage now p tid request q c d)"
proof (cases "ku_assignee_user_id q")
  case None
  then show ?thesis using assms by (simp add: assign_stage_def stage_okI)
next
  case (Some uid)
  show ?thesis
  proof (cases "is_admin p \<and> validate_assignee d tid uid = Inr () \<and> uid \<noteq> cs_assignee_user_id c")
    case True
    let ?c' = "c\<lparr>cs_assignee_user_id := uid\<rparr>"
    have "assignee_ok (kd_users d) ?c'" using True assms by (intro validate_assigneeD[of d tid uid]) (simp_all add: current_def)
    then have ok: "case_ok (kd_users d) c \<Longrightarrow> case_ok (kd_users d) ?c'" by (simp add: case_ok_def)
    have "stage_ok tid d (Inr ?c', case_audit now p tid request ''case.assign'' (cs_id c)
        [(''assignee'', from_to (opt_int (cs_assignee_user_id c)) (opt_int uid))] (set_case ?c' d))"
      by (rule set_case_audit_ok[OF assms _ _ ok]) (use assms in \<open>simp_all add: current_def\<close>)
    with True Some show ?thesis by (simp add: assign_stage_def Let_def)
  next
    case False
    with assms Some show ?thesis
      by (auto simp: assign_stage_def stage_ok_Inl stage_okI split: sum.split)
  qed
qed

lemma active_not_terminal: "x \<in> set CASE_ACTIVE \<Longrightarrow> x \<notin> set CASE_TERMINAL"
  by (auto simp: CASE_ACTIVE_def CASE_TERMINAL_def)

lemma assignee_ok_upd [simp]:
  "assignee_ok us (c\<lparr>cs_status := st\<rparr>) = assignee_ok us c" "assignee_ok us (c\<lparr>cs_closed_at := t\<rparr>) = assignee_ok us c"
  "assignee_ok us (c\<lparr>cs_title := x\<rparr>) = assignee_ok us c" "assignee_ok us (c\<lparr>cs_description := y\<rparr>) = assignee_ok us c"
  "assignee_ok us (c\<lparr>cs_severity := x\<rparr>) = assignee_ok us c" "assignee_ok us (c\<lparr>cs_updated_at := u\<rparr>) = assignee_ok us c"
  by (simp_all add: assignee_ok_def cong: option.case_cong)

lemma status_change_cases:
  assumes "status_change p now target c = Inr (action, c')"
  obtains new where "target = Some new" "new \<in> set CASE_ACTIVE" "cs_status c \<in> set CASE_ACTIVE" "c' = c\<lparr>cs_status := new\<rparr>"
    | new where "target = Some new" "new \<in> set CASE_TERMINAL" "c' = c\<lparr>cs_status := new, cs_closed_at := Some now\<rparr>"
    | new where "target = Some new" "new \<in> set CASE_ACTIVE" "c' = c\<lparr>cs_status := new, cs_closed_at := None\<rparr>"
proof -
  obtain new where t: "target = Some new" using assms by (cases target) (simp_all add: status_change_def Let_def)
  note run = assms[unfolded status_change_def Let_def t option.case]
  show thesis
  proof (cases "cs_status c \<in> set CASE_ACTIVE \<and> new \<in> set CASE_ACTIVE")
    case True
    with run have "c' = c\<lparr>cs_status := new\<rparr>" by simp
    with True t that(1) show thesis by blast
  next
    case n1: False
    show thesis
    proof (cases "cs_status c \<in> set CASE_ACTIVE \<and> new \<in> set CASE_TERMINAL")
      case True
      with n1 run have "c' = c\<lparr>cs_status := new, cs_closed_at := Some now\<rparr>" by (cases "is_admin p") simp_all
      with True t that(2) show thesis by blast
    next
      case False
      with n1 run have "new \<in> set CASE_ACTIVE \<and> c' = c\<lparr>cs_status := new, cs_closed_at := None\<rparr>"
        by (cases "cs_status c \<in> set CASE_TERMINAL \<and> new \<in> set CASE_ACTIVE"; cases "is_admin p") auto
      with t that(3) show thesis by blast
    qed
  qed
qed

lemma status_changeD:
  assumes "status_change p now target c = Inr (action, c')"
  shows "cs_id c' = cs_id c \<and> cs_tenant_id c' = cs_tenant_id c \<and> target = Some (cs_status c')
    \<and> (case_ok users c \<longrightarrow> case_ok users c')"
  using assms
proof (cases rule: status_change_cases)
  case (1 new)
  then show ?thesis using active_not_terminal by (simp add: case_ok_def)
next
  case (2 new)
  then show ?thesis by (simp add: case_ok_def)
next
  case (3 new)
  then show ?thesis using active_not_terminal[of new] by (simp add: case_ok_def)
qed

lemma status_stage_ok:
  assumes "current tid c d"
  shows "stage_ok tid d (status_stage fmt now p tid request q c d)"
proof (cases "ku_status q")
  case None
  then show ?thesis using assms by (simp add: status_stage_def stage_okI)
next
  case (Some target)
  show ?thesis
  proof (cases "target = Some (cs_status c)")
    case True
    with Some assms show ?thesis by (simp add: status_stage_def stage_okI)
  next
    case False
    show ?thesis
    proof (cases "status_change p now target c")
      case (Inl e)
      with Some False show ?thesis by (simp add: status_stage_def stage_ok_Inl)
    next
      case (Inr r)
      obtain action c' where r: "r = (action, c')" by fastforce
      note s = status_changeD[OF Inr[unfolded r], of "kd_users d"]
      have "stage_ok tid d (Inr c', case_audit now p tid request action (cs_id c)
          ((''status'', from_to (JStr (cs_status c)) (JStr (cs_status c')))
            # (if action = ''case.close'' then [(''closed_at'', JStr (fmt now))] else [])) (set_case c' d))"
        by (rule set_case_audit_ok[OF assms]) (use s assms in \<open>simp_all add: current_def\<close>)
      with Some False Inr r show ?thesis by (simp add: status_stage_def)
    qed
  qed
qed

lemma valid_titleD: "valid_title v = Inr t \<Longrightarrow> t \<noteq> []"
  by (auto simp: valid_title_def Let_def split: if_splits)

lemma fields_stage_ok:
  assumes "current tid c d" "valid_case_update q0 = Inr q"
  shows "stage_ok tid d (fields_stage now p tid request q c d)"
proof -
  let ?c' = "c\<lparr>cs_title := or_kept (ku_title q) (cs_title c),
                   cs_description := (case ku_description q of None \<Rightarrow> cs_description c | Some v \<Rightarrow> v),
                   cs_severity := or_kept (ku_severity q) (cs_severity c), cs_updated_at := now\<rparr>"
  have t: "cs_title c \<noteq> [] \<Longrightarrow> or_kept (ku_title q) (cs_title c) \<noteq> []"
    "cs_severity c \<in> set CASE_SEVERITIES \<Longrightarrow> or_kept (ku_severity q) (cs_severity c) \<in> set CASE_SEVERITIES"
    using assms(2) valid_titleD by (auto simp: valid_case_update_def or_kept_def split: if_splits option.splits)
  then have "case_ok (kd_users d) c \<Longrightarrow> case_ok (kd_users d) ?c'" by (simp add: case_ok_def)
  note e = set_case_edit[OF assms(1) _ _ this]
  have 1: "stage_ok tid d (Inr ?c', set_case ?c' d)" using e assms(1) by (intro stage_okI) (simp_all add: current_def)
  have 2: "stage_ok tid d (Inr ?c', case_audit now p tid request a i x (set_case ?c' d))" for a i x
    using 1 case_edit_trans case_audit_edit by (auto simp: stage_ok_def)
  show ?thesis using 1 2 by (simp add: fields_stage_def Let_def stage_ok_Inl)
qed

lemma owned_caseD: "owned_case d i tid = Inr c \<Longrightarrow> keyed cs_id (kd_cases d) \<Longrightarrow> current tid c d \<and> cs_id c = i"
  by (auto simp: owned_case_def current_def split: option.splits if_splits dest: find_row_SomeD)

text \<open>An update, whether it is answered with an error or not, edits the tenant's case only and keeps it well formed.\<close>

lemma update_case_edit:
  assumes "keyed cs_id (kd_cases d)"
  shows "case_edit tid d (snd (update_case fmt now p tid request i q0 d))"
proof (cases "bindr (valid_case_update q0) (\<lambda>q. bindr (owned_case d i tid) (\<lambda>c. Inr (q, c)))")
  case (Inl e)
  then show ?thesis by (simp add: update_case_def)
next
  case (Inr r)
  then obtain q c where q: "valid_case_update q0 = Inr q" "owned_case d i tid = Inr c" "r = (q, c)" by auto
  have "current tid c d" using owned_caseD[OF q(2) assms] by blast
  then have "stage_ok tid d (next_stage (assign_stage now p tid request q c d) (\<lambda>c d.
          next_stage (status_stage fmt now p tid request q c d) (\<lambda>c d. fields_stage now p tid request q c d)))"
    by (intro stage_ok_next assign_stage_ok status_stage_ok fields_stage_ok[OF _ q(1)])
  then show ?thesis using Inr q(3) by (simp add: update_case_def stage_ok_def)
qed

section \<open>All requests\<close>

text \<open>Where a child row belongs: a case of the same tenant.\<close>

definition in_case :: "int \<Rightarrow> int \<Rightarrow> inv_case list \<Rightarrow> bool" where
  "in_case tid i cases = list_ex (\<lambda>c. cs_id c = i \<and> cs_tenant_id c = tid) cases"

definition custody :: "storage_env \<Rightarrow> string dict \<Rightarrow> case_evidence \<Rightarrow> bool" where
  "custody S files e = (case ce_storage_key e of None \<Rightarrow> True | Some k \<Rightarrow>
     (case map_of files k of None \<Rightarrow> False
      | Some bytes \<Rightarrow> ce_sha256 e = se_hash S bytes \<and> ce_size_bytes e = int (length bytes)))"

text \<open>The files of a step: none is touched, or one is added under a new key for a new row of evidence.\<close>

definition filed :: "storage_env \<Rightarrow> int \<Rightarrow> case_db \<Rightarrow> case_evidence list \<Rightarrow> string dict \<Rightarrow> bool" where
  "filed S tid d es files = (es = [] \<and> files = kd_files d
     \<or> (\<exists>e. es = [e] \<and> ce_tenant_id e = tid \<and> ce_id e = next_id ce_id (kd_evidence d) \<and> in_case tid (ce_case_id e) (kd_cases d)
        \<and> (ce_storage_key e = None \<and> files = kd_files d
           \<or> (\<exists>k bytes. ce_storage_key e = Some k \<and> k \<notin> set (dict_keys (kd_files d)) \<and> files = AList.update k bytes (kd_files d)
               \<and> ce_sha256 e = se_hash S bytes \<and> ce_size_bytes e = int (length bytes)))))"

definition added_cases :: "user list \<Rightarrow> int \<Rightarrow> inv_case list \<Rightarrow> inv_case list \<Rightarrow> bool" where
  "added_cases users tid rows cs = (cs = [] \<or> (\<exists>c. cs = [c] \<and> case_ok users c \<and> cs_tenant_id c = tid \<and> cs_id c = next_id cs_id rows))"

definition added_notes :: "int \<Rightarrow> case_db \<Rightarrow> case_note list \<Rightarrow> bool" where
  "added_notes tid d ns = (ns = [] \<or> (\<exists>n. ns = [n] \<and> nt_tenant_id n = tid \<and> nt_id n = next_id nt_id (kd_notes d)
     \<and> in_case tid (nt_case_id n) (kd_cases d)))"

definition added_reviews :: "int \<Rightarrow> case_db \<Rightarrow> case_review list \<Rightarrow> bool" where
  "added_reviews tid d rs = (rs = [] \<or> (\<exists>r. rs = [r] \<and> rw_tenant_id r = tid \<and> rw_id r = next_id rw_id (kd_reviews d)
     \<and> in_case tid (rw_case_id r) (kd_cases d)))"

definition case_effect :: "storage_env \<Rightarrow> int \<Rightarrow> case_db \<Rightarrow> case_db \<Rightarrow> bool" where
  "case_effect S tid d d' = (\<exists>mid cs ns rs es.
     list_all2 (ckept (kd_users d) tid) (kd_cases d) mid \<and> kd_cases d' = mid @ cs \<and> added_cases (kd_users d) tid mid cs
     \<and> kd_notes d' = kd_notes d @ ns \<and> added_notes tid d ns
     \<and> kd_reviews d' = kd_reviews d @ rs \<and> added_reviews tid d rs
     \<and> kd_evidence d' = kd_evidence d @ es \<and> filed S tid d es (kd_files d')
     \<and> kd_users d' = kd_users d \<and> prefix (kd_audit d) (kd_audit d'))"

lemma edit_effect: "case_edit tid d d' \<Longrightarrow> case_effect S tid d d'"
  unfolding case_effect_def
  by (rule exI[of _ "kd_cases d'"], rule exI[of _ "[]"], rule exI[of _ "[]"], rule exI[of _ "[]"], rule exI[of _ "[]"])
    (simp add: case_edit_def added_cases_def added_notes_def added_reviews_def filed_def)

lemma insert_case_effect:
  assumes "case_ok (kd_users d) c" "cs_tenant_id c = tid" "cs_id c = next_id cs_id (kd_cases d)"
  shows "case_effect S tid d (insert_case now p t request b c d)"
  unfolding case_effect_def
  by (rule exI[of _ "kd_cases d"], rule exI[of _ "[c]"], rule exI[of _ "[]"], rule exI[of _ "[]"], rule exI[of _ "[]"])
    (use assms in \<open>simp add: insert_case_def added_cases_def added_notes_def added_reviews_def filed_def list.rel_refl case_audit_def\<close>)

lemma fresh_case_ok:
  assumes "severity \<in> set CASE_SEVERITIES" "title \<noteq> []" "validate_assignee d tid assignee = Inr ()"
  shows "case_ok (kd_users d) (fresh_case now p tid b f sn title de severity assignee rows)"
    "cs_id (fresh_case now p tid b f sn title de severity assignee rows) = next_id cs_id rows"
    "cs_tenant_id (fresh_case now p tid b f sn title de severity assignee rows) = tid"
proof -
  let ?c = "fresh_case now p tid b f sn title de severity assignee rows"
  show t: "cs_tenant_id ?c = tid" "cs_id ?c = next_id cs_id rows" by (simp_all add: fresh_case_def)
  have "assignee_ok (kd_users d) ?c" using assms(3) t by (intro validate_assigneeD[of d tid assignee]) (simp_all add: fresh_case_def)
  moreover have "''open'' \<in> set CASE_ACTIVE" "''open'' \<notin> set CASE_TERMINAL" by (simp_all add: CASE_ACTIVE_def CASE_TERMINAL_def)
  ultimately show "case_ok (kd_users d) ?c" using assms(1,2) by (simp add: case_ok_def fresh_case_def)
qed

lemma create_case_effect:
  assumes "create_case fmt now p tid request q d = Inr (c, d')"
  shows "case_effect S tid d d'"
proof -
  from assms obtain title snap b where r: "kc_severity q \<in> set CASE_SEVERITIES" "valid_title (kc_title q) = Inr title"
    "validate_assignee d tid (kc_assignee_user_id q) = Inr ()"
    "c = fresh_case now p tid b (kc_finding_id q) snap title (kc_description q) (kc_severity q) (kc_assignee_user_id q) (kd_cases d)"
    "d' = insert_case now p tid request False c d"
    unfolding create_case_def by (auto simp: Let_def split: if_splits prod.splits)
  note ok = fresh_case_ok[OF r(1) valid_titleD[OF r(2)] r(3)]
  show ?thesis unfolding r(5) by (rule insert_case_effect) (simp_all add: r(4) ok)
qed

lemma verdict_severity: "(case map_of VERDICT_SEVERITY v of None \<Rightarrow> ''medio'' | Some s \<Rightarrow> s) \<in> set CASE_SEVERITIES"
  by (simp add: VERDICT_SEVERITY_def CASE_SEVERITIES_def)

lemma open_case_effect:
  assumes "open_case_from_finding fmt now p tid request brand_id i d = Inr (c, d')"
  shows "case_effect S tid d d'"
proof -
  from assms obtain b f where r: "c = fresh_case now p tid (Some brand_id) (Some i) (Some (finding_snapshot fmt now f (Some b)))
                      (''Investigation: '' @ bf_domain f) None
                      (case map_of VERDICT_SEVERITY (bf_verdict f) of None \<Rightarrow> ''medio'' | Some s \<Rightarrow> s) None (kd_cases d)"
    "d' = insert_case now p tid request True c d"
    unfolding open_case_from_finding_def by (auto simp: Let_def split: if_splits)
  have "validate_assignee d tid None = Inr ()" by (simp add: validate_assignee_def)
  note ok = fresh_case_ok[OF verdict_severity _ this]
  show ?thesis unfolding r(2) by (rule insert_case_effect) (simp_all add: r(1) ok)
qed

lemma owned_in_case: "owned_case d i tid = Inr c \<Longrightarrow> in_case tid (cs_id c) (kd_cases d)"
  by (auto simp: owned_case_def in_case_def list_ex_iff split: option.splits if_splits dest: find_row_SomeD)

lemma add_note_effect:
  assumes "add_note now p tid request i body internal d = Inr (n, d')"
  shows "case_effect S tid d d'"
proof -
  from assms obtain c t where r: "owned_case d i tid = Inr c" "n = \<lparr>nt_id = next_id nt_id (kd_notes d), nt_tenant_id = tid, nt_case_id = cs_id c,
             nt_author_user_id = pr_user_id p, nt_body = t, nt_is_internal = internal, nt_created_at = now\<rparr>"
    "d' = case_audit now p tid request ''case.note_added'' (cs_id c)
            [(''note_id'', JInt (nt_id n)), (''length'', JInt (int (length t)))] (d\<lparr>kd_notes := kd_notes d @ [n]\<rparr>)"
    unfolding add_note_def by (auto simp: Let_def)
  show ?thesis unfolding case_effect_def
    by (rule exI[of _ "kd_cases d"], rule exI[of _ "[]"], rule exI[of _ "[n]"], rule exI[of _ "[]"], rule exI[of _ "[]"])
      (use owned_in_case[OF r(1)] in \<open>simp add: r(2,3) added_cases_def added_notes_def added_reviews_def filed_def list.rel_refl case_audit_def\<close>)
qed

lemma case_edit_reviews: "case_edit tid (d\<lparr>kd_reviews := rs\<rparr>) d' \<Longrightarrow> list_all2 (ckept (kd_users d) tid) (kd_cases d) (kd_cases d')
    \<and> kd_notes d' = kd_notes d \<and> kd_reviews d' = rs \<and> kd_evidence d' = kd_evidence d \<and> kd_files d' = kd_files d
    \<and> kd_users d' = kd_users d \<and> prefix (kd_audit d) (kd_audit d')"
  by (simp add: case_edit_def)

lemma add_review_effect:
  assumes "add_review fmt now p tid request i status notes d = Inr (r, d')" "keyed cs_id (kd_cases d)"
  shows "case_effect S tid d d'"
proof -
  from assms(1) obtain c tx where r0: "owned_case d i tid = Inr c" "r = new_review now p tid (cs_id c) status tx (kd_reviews d)"
    "d' = case_audit now p tid request ''case.review_added'' (cs_id c) (review_detail fmt r)
       (set_case (c\<lparr>cs_updated_at := now\<rparr>) (d\<lparr>kd_reviews := kd_reviews d @ [r]\<rparr>))"
    unfolding add_review_def Let_def bindr_Inr prod.inject sum.inject by blast
  have r: "rw_tenant_id r = tid" "rw_case_id r = cs_id c" "rw_id r = next_id rw_id (kd_reviews d)"
    by (simp_all add: r0(2) new_review_def)
  let ?d = "d\<lparr>kd_reviews := kd_reviews d @ [r]\<rparr>"
  have "current tid c ?d" using conjunct1[OF owned_caseD[OF r0(1) assms(2)]] by (simp add: current_def)
  from set_case_edit(1)[OF this, of "c\<lparr>cs_updated_at := now\<rparr>"] this
  have "case_edit tid ?d (set_case (c\<lparr>cs_updated_at := now\<rparr>) ?d)" by (simp add: current_def case_ok_def)
  from case_edit_trans[OF this case_audit_edit] have "case_edit tid ?d d'" unfolding r0(3) .
  note e = case_edit_reviews[OF this]
  show ?thesis unfolding case_effect_def
    by (rule exI[of _ "kd_cases d'"], rule exI[of _ "[]"], rule exI[of _ "[]"], rule exI[of _ "[r]"], rule exI[of _ "[]"])
      (use e owned_in_case[OF r0(1)] r in \<open>simp add: added_cases_def added_notes_def added_reviews_def filed_def\<close>)
qed

subsection \<open>Evidence\<close>

text \<open>The loop reads everything, or stops at the first chunk past the limit.\<close>

lemma save_loop_chunk:
  assumes "rest \<noteq> []"
  obtains c r where "rest = c @ r" "c \<noteq> []" "length r < length rest"
    "\<forall>m w. save_loop m w rest = (if length w + length c > m then None else save_loop m (w @ c) r)"
proof -
  have c: "take CHUNK rest \<noteq> []" using assms by (simp add: CHUNK_def)
  have 1: "\<forall>m w. save_loop m w rest = (if length w + length (take CHUNK rest) > m then None
      else save_loop m (w @ take CHUNK rest) (drop CHUNK rest))"
    by (intro allI, subst save_loop.simps) (simp only: Let_def c if_False)
  have 2: "length (drop CHUNK rest) < length rest" using assms by (simp add: CHUNK_def)
  from that[OF append_take_drop_id[symmetric] c 2 1] show thesis .
qed

lemma save_loop_spec:
  "save_loop m w rest = (if rest = [] \<or> length w + length rest \<le> m then Some (w @ rest) else None)"
proof (induction "length rest" arbitrary: w rest rule: less_induct)
  case less
  show ?case
  proof (cases "rest = []")
    case True
    then show ?thesis by (simp add: save_loop.simps)
  next
    case False
    then obtain c r where r: "rest = c @ r" "c \<noteq> []" "length r < length rest"
      "\<forall>m w. save_loop m w rest = (if length w + length c > m then None else save_loop m (w @ c) r)"
      by (rule save_loop_chunk)
    have "save_loop m (w @ c) r = (if r = [] \<or> length (w @ c) + length r \<le> m then Some ((w @ c) @ r) else None)"
      by (rule less[OF r(3)])
    then show ?thesis using r(2) spec[OF spec[OF r(4)], of m w] by (simp add: r(1))
  qed
qed

lemma delete_fresh: "k \<notin> set (dict_keys files) \<Longrightarrow> AList.delete k files = files"
  by (induction files) (auto simp: dict_keys_def)

text \<open>A new key is one that no stored file has: what \<open>uuid4\<close> is relied on for.\<close>

definition key_unused :: "string \<Rightarrow> int \<Rightarrow> int \<Rightarrow> string dict \<Rightarrow> bool" where
  "key_unused uuid tid case_id files = (case new_storage_key tid case_id uuid of Inl e \<Rightarrow> True
     | Inr k \<Rightarrow> k \<notin> set (dict_keys files))"

lemma save_streamD:
  assumes "save_stream S uuid content tid i files = (r, files')" "key_unused uuid tid i files"
  shows "case r of Inl e \<Rightarrow> files' = files
    | Inr meta \<Rightarrow> sf_storage_key meta = None \<and> files' = files
        \<or> (\<exists>k. sf_storage_key meta = Some k \<and> k \<notin> set (dict_keys files) \<and> files' = AList.update k content files
             \<and> sf_sha256 meta = se_hash S content \<and> sf_size meta = int (length content))"
  using assms delete_fresh[of _ files]
  by (auto simp: save_stream_def key_unused_def save_loop_spec split: if_splits sum.splits option.splits)

lemma evidence_checksD: "evidence_checks tid i u d = Inr c \<Longrightarrow> owned_case d i tid = Inr c"
  by (auto simp: evidence_checks_def split: if_splits)

lemma owned_case_id: "owned_case d i tid = Inr c \<Longrightarrow> cs_id c = i"
  by (auto simp: owned_case_def split: option.splits if_splits dest: find_row_SomeD)

lemma files_effect: "filed S tid d [] files \<Longrightarrow> case_effect S tid d (d\<lparr>kd_files := files\<rparr>)"
  unfolding case_effect_def
  by (rule exI[of _ "kd_cases d"], rule exI[of _ "[]"], rule exI[of _ "[]"], rule exI[of _ "[]"], rule exI[of _ "[]"])
    (simp add: added_cases_def added_notes_def added_reviews_def list.rel_refl)

lemma evidence_effect:
  assumes "filed S tid d [e] files"
  shows "case_effect S tid d (case_audit now p t request a i detail (d\<lparr>kd_files := files, kd_evidence := kd_evidence d @ [e]\<rparr>))"
  unfolding case_effect_def
  by (rule exI[of _ "kd_cases d"], rule exI[of _ "[]"], rule exI[of _ "[]"], rule exI[of _ "[]"], rule exI[of _ "[e]"])
    (use assms in \<open>simp add: added_cases_def added_notes_def added_reviews_def list.rel_refl case_audit_def\<close>)

lemma removed_again:
  assumes "k \<notin> set (dict_keys files)"
  shows "delete_key (Some k) (AList.update k v files) = files \<or> k = []"
  using assms delete_fresh by (auto simp: delete_key_def delete_update_same)

lemma new_storage_key_ne: "new_storage_key tid i uuid = Inr k \<Longrightarrow> k \<noteq> []"
  by (auto simp: new_storage_key_def split: if_splits)

lemma save_stream_key: "save_stream S uuid content tid i files = (Inr meta, files') \<Longrightarrow> sf_storage_key meta \<noteq> Some []"
  using new_storage_key_ne by (auto simp: save_stream_def split: if_splits sum.splits option.splits)

lemma add_evidence_effect:
  assumes "add_evidence S uuid persisted now p tid request i u d = (r, d')" "key_unused uuid tid i (kd_files d)"
  shows "case_effect S tid d d'"
proof (cases "evidence_checks tid i u d")
  case (Inl e)
  then show ?thesis using assms(1) edit_effect[OF case_edit_refl] by (simp add: add_evidence_def)
next
  case (Inr c)
  note owned = evidence_checksD[OF Inr]
  obtain r' files where sv: "save_stream S uuid (eu_content u) tid i (kd_files d) = (r', files)" by fastforce
  note D = save_streamD[OF sv assms(2)]
  show ?thesis
  proof (cases r')
    case (Inl e)
    with D have "filed S tid d [] files" by (simp add: filed_def)
    from files_effect[OF this] show ?thesis using assms(1) Inr Inl sv by (simp add: add_evidence_def)
  next
    case meta: (Inr meta)
    show ?thesis
    proof (cases persisted)
      case True
      let ?e = "new_evidence now p tid (cs_id c) u meta (kd_evidence d)"
      have "in_case tid (ce_case_id ?e) (kd_cases d)" using owned_in_case[OF owned] by (simp add: new_evidence_def)
      then have "filed S tid d [?e] files" using D meta by (auto simp: filed_def new_evidence_def)
      from evidence_effect[OF this] show ?thesis using assms(1) Inr meta sv True by (auto simp: add_evidence_def Let_def)
    next
      case False
      have "delete_key (sf_storage_key meta) files = kd_files d"
        using D meta save_stream_key[OF sv[unfolded meta]] removed_again by (fastforce simp: delete_key_def)
      then have "filed S tid d [] (delete_key (sf_storage_key meta) files)" by (simp add: filed_def)
      from files_effect[OF this] show ?thesis using assms(1) Inr meta sv False by (simp add: add_evidence_def)
    qed
  qed
qed

inductive case_step :: "storage_env \<Rightarrow> (time \<Rightarrow> string) \<Rightarrow> int \<Rightarrow> case_db \<Rightarrow> case_db \<Rightarrow> bool" for S fmt tid where
  step_create_case: "create_case fmt now p tid request q d = Inr (c, d') \<Longrightarrow> case_step S fmt tid d d'"
| step_open_case: "open_case_from_finding fmt now p tid request b i d = Inr (c, d') \<Longrightarrow> case_step S fmt tid d d'"
| step_update_case: "update_case fmt now p tid request i uq d = (r, d') \<Longrightarrow> case_step S fmt tid d d'"
| step_note: "add_note now p tid request i body internal d = Inr (n, d') \<Longrightarrow> case_step S fmt tid d d'"
| step_review: "add_review fmt now p tid request i status notes d = Inr (rv, d') \<Longrightarrow> case_step S fmt tid d d'"
| step_evidence: "key_unused uuid tid i (kd_files d) \<Longrightarrow>
    add_evidence S uuid persisted now p tid request i u d = (er, d') \<Longrightarrow> case_step S fmt tid d d'"
| step_download: "download_evidence now p tid request i e d = Inr (bytes, d') \<Longrightarrow> case_step S fmt tid d d'"

inductive_cases case_stepE: "case_step S fmt tid d d'"

lemma download_edit: "download_evidence now p tid request i e d = Inr (bytes, d') \<Longrightarrow> case_edit tid d d'"
  unfolding download_evidence_def by (auto split: if_splits option.splits)

lemma case_step_effect: "case_step S fmt tid d d' \<Longrightarrow> keyed cs_id (kd_cases d) \<Longrightarrow> case_effect S tid d d'"
  by (induction rule: case_step.induct)
    (blast intro: create_case_effect open_case_effect add_note_effect add_review_effect add_evidence_effect
       edit_effect[OF download_edit], blast intro: open_case_effect,
     metis edit_effect update_case_edit snd_conv, blast intro: add_note_effect, blast intro: add_review_effect,
     blast intro: add_evidence_effect, blast intro: edit_effect[OF download_edit])

end
