(* ===== verification/CaseProps.thy ===== *)
theory CaseProps
  imports CaseSteps
begin

text \<open>
  What every sequence of case requests keeps: the invariant of the tables and of the evidence
  directory, the rows of other tenants, and the history; then the properties of cases.
\<close>

section \<open>The invariant\<close>

definition storage_keys :: "case_evidence list \<Rightarrow> string list" where
  "storage_keys es = concat (map (\<lambda>e. case ce_storage_key e of None \<Rightarrow> [] | Some k \<Rightarrow> [k]) es)"

definition case_inv :: "storage_env \<Rightarrow> case_db \<Rightarrow> bool" where
  "case_inv S d = (keyed cs_id (kd_cases d) \<and> keyed nt_id (kd_notes d) \<and> keyed rw_id (kd_reviews d) \<and> keyed ce_id (kd_evidence d)
     \<and> list_all (case_ok (kd_users d)) (kd_cases d)
     \<and> list_all (\<lambda>n. in_case (nt_tenant_id n) (nt_case_id n) (kd_cases d)) (kd_notes d)
     \<and> list_all (\<lambda>r. in_case (rw_tenant_id r) (rw_case_id r) (kd_cases d)) (kd_reviews d)
     \<and> list_all (\<lambda>e. in_case (ce_tenant_id e) (ce_case_id e) (kd_cases d) \<and> custody S (kd_files d) e) (kd_evidence d)
     \<and> distinct (storage_keys (kd_evidence d)) \<and> set (dict_keys (kd_files d)) = set (storage_keys (kd_evidence d)))"

lemma storage_keys_simps [simp]: "storage_keys [] = []" "storage_keys (es @ es') = storage_keys es @ storage_keys es'"
  "storage_keys [e] = (case ce_storage_key e of None \<Rightarrow> [] | Some k \<Rightarrow> [k])"
  by (simp_all add: storage_keys_def)

lemma in_case_kept:
  assumes "list_all2 (ckept us tid) cs mid" "in_case t i cs"
  shows "in_case t i (mid @ more_cases)"
proof -
  have "list_all2 (ckept us tid) cs mid \<Longrightarrow> in_case t i cs \<longrightarrow> in_case t i mid"
    by (induction rule: list_all2_induct) (auto simp: in_case_def ckept_def)
  with assms show ?thesis by (simp add: in_case_def)
qed

lemma list_all_kept: "list_all2 (ckept us tid) cs mid \<Longrightarrow> list_all (case_ok us) cs \<Longrightarrow> list_all (case_ok us) mid"
  by (induction rule: list_all2_induct) (auto simp: ckept_def)

lemma list_all_weaken: "list_all P xs \<Longrightarrow> (\<And>x. P x \<Longrightarrow> Q x) \<Longrightarrow> list_all Q xs"
  by (simp add: list_all_iff)

lemma custody_update: "custody S files e \<Longrightarrow> k \<notin> set (dict_keys files) \<Longrightarrow> custody S (AList.update k v files) e"
  by (auto simp: custody_def update_conv map_of_None_keys[symmetric] split: option.splits)

lemma keyed_filed: "filed S tid d es files \<Longrightarrow> keyed ce_id (kd_evidence d) \<Longrightarrow> keyed ce_id (kd_evidence d @ es)"
proof -
  assume f: "filed S tid d es files" and k: "keyed ce_id (kd_evidence d)"
  from f consider "es = []" | e where "es = [e]" "ce_id e = next_id ce_id (kd_evidence d)" unfolding filed_def by blast
  then show ?thesis
  proof cases
    case 2
    show ?thesis unfolding 2(1) by (rule keyed_append[OF k 2(2)])
  qed (simp add: k)
qed

lemma filed_custody:
  assumes "filed S tid d es files" "list_all (\<lambda>e. in_case (ce_tenant_id e) (ce_case_id e) (kd_cases d) \<and> custody S (kd_files d) e) (kd_evidence d)"
  shows "list_all (\<lambda>e. in_case (ce_tenant_id e) (ce_case_id e) (kd_cases d) \<and> custody S files e) (kd_evidence d @ es)"
  using assms(1) unfolding filed_def
proof (elim disjE conjE exE)
  fix e k bytes
  assume e: "es = [e]" "ce_tenant_id e = tid" "in_case tid (ce_case_id e) (kd_cases d)"
    "ce_storage_key e = Some k" "k \<notin> set (dict_keys (kd_files d))" "files = AList.update k bytes (kd_files d)"
    "ce_sha256 e = se_hash S bytes" "ce_size_bytes e = int (length bytes)"
  have "list_all (\<lambda>e. in_case (ce_tenant_id e) (ce_case_id e) (kd_cases d) \<and> custody S files e) (kd_evidence d)"
    unfolding e(6)
  proof (rule list_all_weaken[OF assms(2)])
    fix x
    assume "in_case (ce_tenant_id x) (ce_case_id x) (kd_cases d) \<and> custody S (kd_files d) x"
    then show "in_case (ce_tenant_id x) (ce_case_id x) (kd_cases d) \<and> custody S (AList.update k bytes (kd_files d)) x"
      using custody_update[OF _ e(5)] by simp
  qed
  moreover have "custody S files e" using e(4,6,7,8) by (simp only: custody_def update_conv) (simp add: fun_upd_same)
  ultimately show ?thesis using e(1,2,3) by simp
qed (use assms(2) in \<open>simp_all add: custody_def\<close>)

lemma filed_keys:
  assumes "filed S tid d es files" "distinct (storage_keys (kd_evidence d))" "set (dict_keys (kd_files d)) = set (storage_keys (kd_evidence d))"
  shows "distinct (storage_keys (kd_evidence d @ es)) \<and> set (dict_keys files) = set (storage_keys (kd_evidence d @ es))"
  using assms(1) unfolding filed_def
proof (elim disjE conjE exE)
  fix e k bytes
  assume e: "es = [e]" "ce_storage_key e = Some k" "k \<notin> set (dict_keys (kd_files d))" "files = AList.update k bytes (kd_files d)"
  from e(3) assms(3) have "k \<notin> set (storage_keys (kd_evidence d))" by simp
  with e(1,2,4) assms(2,3) show ?thesis by simp
qed (use assms(2,3) in simp_all)

lemma keyed_added: "added_cases us tid mid cs \<Longrightarrow> keyed cs_id mid \<Longrightarrow> keyed cs_id (mid @ cs)"
  unfolding added_cases_def by (elim disjE conjE exE) (simp_all add: keyed_append)

lemma effect_case_inv:
  assumes "case_effect S tid d d'" "case_inv S d"
  shows "case_inv S d'"
proof -
  from assms(1) obtain mid cs ns rs es where e:
    "list_all2 (ckept (kd_users d) tid) (kd_cases d) mid" "kd_cases d' = mid @ cs" "added_cases (kd_users d) tid mid cs"
    "kd_notes d' = kd_notes d @ ns" "added_notes tid d ns" "kd_reviews d' = kd_reviews d @ rs" "added_reviews tid d rs"
    "kd_evidence d' = kd_evidence d @ es" "filed S tid d es (kd_files d')" "kd_users d' = kd_users d"
    unfolding case_effect_def by blast
  note inv = assms(2)[unfolded case_inv_def]
  have "keyed cs_id mid" using inv ckept_ids[OF e(1)] by (simp add: keyed_def)
  then have k: "keyed cs_id (kd_cases d')" using keyed_added[OF e(3)] e(2) by simp
  have kn: "keyed nt_id (kd_notes d')" using inv e(4,5) by (auto simp: added_notes_def keyed_append)
  have kr: "keyed rw_id (kd_reviews d')" using inv e(6,7) by (auto simp: added_reviews_def keyed_append)
  have ke: "keyed ce_id (kd_evidence d')" using inv keyed_filed[OF e(9)] e(8) by simp
  have "list_all (case_ok (kd_users d)) mid" using inv list_all_kept[OF e(1)] by blast
  then have ok: "list_all (case_ok (kd_users d')) (kd_cases d')" using e(2,3,10) by (auto simp: added_cases_def)
  have up: "in_case t i (kd_cases d) \<Longrightarrow> in_case t i (kd_cases d')" for t i unfolding e(2) by (rule in_case_kept[OF e(1)])
  have "list_all (\<lambda>n. in_case (nt_tenant_id n) (nt_case_id n) (kd_cases d)) (kd_notes d')"
    using inv e(4,5) by (auto simp: added_notes_def)
  from list_all_weaken[OF this up] have n: "list_all (\<lambda>n. in_case (nt_tenant_id n) (nt_case_id n) (kd_cases d')) (kd_notes d')" .
  have "list_all (\<lambda>r. in_case (rw_tenant_id r) (rw_case_id r) (kd_cases d)) (kd_reviews d')"
    using inv e(6,7) by (auto simp: added_reviews_def)
  from list_all_weaken[OF this up] have r: "list_all (\<lambda>r. in_case (rw_tenant_id r) (rw_case_id r) (kd_cases d')) (kd_reviews d')" .
  have "list_all (\<lambda>e. in_case (ce_tenant_id e) (ce_case_id e) (kd_cases d) \<and> custody S (kd_files d') e) (kd_evidence d')"
    using filed_custody[OF e(9)] inv e(8) by simp
  then have c: "list_all (\<lambda>e. in_case (ce_tenant_id e) (ce_case_id e) (kd_cases d') \<and> custody S (kd_files d') e) (kd_evidence d')"
    by (rule list_all_weaken) (use up in blast)
  have "distinct (storage_keys (kd_evidence d')) \<and> set (dict_keys (kd_files d')) = set (storage_keys (kd_evidence d'))"
    using filed_keys[OF e(9)] inv e(8) by simp
  with k kn kr ke ok n r c show ?thesis unfolding case_inv_def by blast
qed

lemma case_step_inv: "case_inv S d \<Longrightarrow> case_step S fmt tid d d' \<Longrightarrow> case_inv S d'"
  by (rule effect_case_inv[OF case_step_effect]) (simp_all add: case_inv_def)

interpretation case_machine: preserved "\<lambda>d d'. \<exists>tid. case_step S fmt tid d d'" "case_inv S" for S fmt
  by unfold_locales (blast intro: case_step_inv)

section \<open>Other tenants and earlier rows\<close>

definition foreign_cases :: "int \<Rightarrow> case_db \<Rightarrow> inv_case list \<times> case_note list \<times> case_review list \<times> case_evidence list" where
  "foreign_cases tid d = (filter (\<lambda>c. cs_tenant_id c \<noteq> tid) (kd_cases d), filter (\<lambda>n. nt_tenant_id n \<noteq> tid) (kd_notes d),
     filter (\<lambda>r. rw_tenant_id r \<noteq> tid) (kd_reviews d), filter (\<lambda>e. ce_tenant_id e \<noteq> tid) (kd_evidence d))"

lemma foreign_ckept: "list_all2 (ckept us tid) cs mid \<Longrightarrow> filter (\<lambda>c. cs_tenant_id c \<noteq> tid) mid = filter (\<lambda>c. cs_tenant_id c \<noteq> tid) cs"
  by (induction rule: list_all2_induct) (auto simp: ckept_def)

lemma effect_case_foreign: "case_effect S tid d d' \<Longrightarrow> foreign_cases tid d' = foreign_cases tid d"
  unfolding case_effect_def using foreign_ckept
  by (fastforce simp: foreign_cases_def added_cases_def added_notes_def added_reviews_def filed_def)

definition file_kept :: "string dict \<Rightarrow> string dict \<Rightarrow> bool" where
  "file_kept files files' = list_all (\<lambda>k. map_of files' k = map_of files k) (dict_keys files)"

lemma filed_kept: "filed S tid d es files \<Longrightarrow> file_kept (kd_files d) files"
  unfolding filed_def file_kept_def list_all_iff by (auto simp: update_conv)

lemma effect_appends:
  "case_effect S tid d d' \<Longrightarrow> prefix (kd_notes d) (kd_notes d') \<and> prefix (kd_reviews d) (kd_reviews d')
     \<and> prefix (kd_evidence d) (kd_evidence d') \<and> prefix (kd_audit d) (kd_audit d') \<and> file_kept (kd_files d) (kd_files d')
     \<and> prefix (map cs_id (kd_cases d)) (map cs_id (kd_cases d'))"
  unfolding case_effect_def by (auto dest: filed_kept ckept_ids)

section \<open>Reachable states\<close>

abbreviation case_reach :: "storage_env \<Rightarrow> (time \<Rightarrow> string) \<Rightarrow> case_db \<Rightarrow> case_db \<Rightarrow> bool" where
  "case_reach S fmt \<equiv> (\<lambda>d d'. \<exists>tid. case_step S fmt tid d d')\<^sup>*\<^sup>*"

definition case_appends :: "case_db \<Rightarrow> case_db \<Rightarrow> bool" where
  "case_appends d d' = (prefix (kd_notes d) (kd_notes d') \<and> prefix (kd_reviews d) (kd_reviews d')
     \<and> prefix (kd_evidence d) (kd_evidence d') \<and> prefix (kd_audit d) (kd_audit d') \<and> file_kept (kd_files d) (kd_files d')
     \<and> prefix (map cs_id (kd_cases d)) (map cs_id (kd_cases d')))"

lemma file_kept_refl [simp]: "file_kept f f"
  by (simp add: file_kept_def list_all_iff)

lemma file_kept_trans: "file_kept f g \<Longrightarrow> file_kept g h \<Longrightarrow> file_kept f h"
  unfolding file_kept_def list_all_iff by (metis map_of_None_keys)

lemma case_appends_refl [simp]: "case_appends d d"
  by (simp add: case_appends_def)

lemma case_appends_trans: "case_appends d e \<Longrightarrow> case_appends e f \<Longrightarrow> case_appends d f"
  unfolding case_appends_def by (meson file_kept_trans prefix_order.trans)

lemma case_step_appends: "case_step S fmt tid d d' \<Longrightarrow> case_inv S d \<Longrightarrow> case_appends d d'"
  unfolding case_appends_def by (rule effect_appends[OF case_step_effect]) (simp_all add: case_inv_def)

interpretation case_history: preserved "\<lambda>d d'. \<exists>tid. case_step S fmt tid d d'" "\<lambda>d'. case_inv S d' \<and> case_appends d d'" for S fmt d
  by unfold_locales (blast intro: case_step_inv case_step_appends case_appends_trans)

lemma reach_appends: "case_reach S fmt d d' \<Longrightarrow> case_inv S d \<Longrightarrow> case_inv S d' \<and> case_appends d d'"
  using case_history.reachable_good[of S fmt d d' d] by simp

section \<open>Evidence comes back\<close>

lemma positive_number_int: "0 < i \<Longrightarrow> positive_number (int_str i)"
proof -
  have first: "n > 0 \<Longrightarrow> \<exists>c cs. nat_str n = c # cs \<and> is_nonzero_digit c" for n
  proof (induction n rule: nat_str.induct)
    case (1 n)
    show ?case
    proof (cases "n < 10")
      case True
      with 1(2) show ?thesis
        by (subst nat_str.simps) (auto simp: is_nonzero_digit_def is_digit_def dest: arg_cong[of _ _ "of_char :: char \<Rightarrow> nat"])
    next
      case False
      with 1(1) obtain c cs where "nat_str (n div 10) = c # cs" "is_nonzero_digit c" by (auto simp: div_greater_zero_iff)
      with False show ?thesis by (subst nat_str.simps) simp
    qed
  qed
  assume "0 < i"
  with first[of "nat i"] obtain c cs where c: "int_str i = c # cs" "is_nonzero_digit c" by (auto simp: int_str_def)
  have "is_digit x" if "x \<in> set cs" for x
    using that c(1) nat_str_digits[of x "nat i"] \<open>0 < i\<close> by (simp add: int_str_def)
  with c show ?thesis by (simp add: positive_number_def list_all_iff)
qed

lemma int_str_no_slash: "CHR ''/'' \<notin> set (int_str i)"
  using int_str_chars[of "CHR ''/''" i] by (auto simp: is_digit_def)

definition uuid_ok :: "string \<Rightarrow> bool" where
  "uuid_ok u = (length u = 32 \<and> list_all is_hex u)"

lemma new_storage_key_ok:
  assumes "new_storage_key t c u = Inr k" "uuid_ok u"
  shows "storage_key_ok k"
proof -
  have k: "0 < t" "0 < c" "k = int_str t @ ''/'' @ int_str c @ ''/'' @ u @ ''.bin''"
    using assms(1) by (auto simp: new_storage_key_def split: if_splits)
  have u: "CHR ''/'' \<notin> set (u @ ''.bin'')" using assms(2) by (auto simp: uuid_ok_def list_all_iff is_hex_def is_digit_def)
  have "str_split (CHR ''/'') k = [int_str t, int_str c, u @ ''.bin'']"
    by (simp only: k(3) append_Cons append_Nil str_split_append[OF int_str_no_slash] str_split_no_sep[OF u[unfolded append_Cons append_Nil]])
  then show ?thesis using assms(2) k(1,2) by (simp add: storage_key_ok_def positive_number_int uuid_ok_def)
qed

lemma evidence_download:
  assumes "case_inv S d" "e \<in> set (kd_evidence d)" "ce_tenant_id e = tid" "ce_case_id e = i" "ce_storage_backend e = ''local''"
    "ce_storage_key e = Some k" "storage_key_ok k" "map_of (kd_files d) k = Some bytes"
  shows "download_evidence now p tid request i (ce_id e) d = Inr (bytes, case_audit now p tid request ''evidence.download'' i
                   [(''evidence_id'', JInt (ce_id e)), (''sha256'', JStr (ce_sha256 e))] d)"
proof -
  have "find_row ce_id (ce_id e) (kd_evidence d) = Some e" using assms(1,2) by (simp add: case_inv_def find_row_Some)
  moreover have "k \<noteq> []" using assms(7) by (auto simp: storage_key_ok_def)
  ultimately show ?thesis using assms(3-8) by (simp add: download_evidence_def owned_evidence_def evidence_stored_def)
qed

lemma add_evidence_stored:
  assumes "add_evidence S uuid True now p tid request i u d = (Inr e, d')" "se_backend S = ''local''" "uuid_ok uuid"
  obtains k where "e \<in> set (kd_evidence d')" "ce_tenant_id e = tid" "ce_case_id e = i" "ce_storage_backend e = ''local''"
    "ce_storage_key e = Some k" "storage_key_ok k" "map_of (kd_files d') k = Some (eu_content u)"
    "ce_sha256 e = se_hash S (eu_content u)"
proof -
  from assms(1) obtain c meta files where r: "evidence_checks tid i u d = Inr c" "save_stream S uuid (eu_content u) tid i (kd_files d) = (Inr meta, files)"
    "e = new_evidence now p tid (cs_id c) u meta (kd_evidence d)"
    "d' = case_audit now p tid request ''evidence.add'' (cs_id c) (evidence_detail e) (d\<lparr>kd_files := files, kd_evidence := kd_evidence d @ [e]\<rparr>)"
    unfolding add_evidence_def by (auto simp: Let_def split: sum.splits prod.splits)
  from r(2) assms(2) obtain k where s: "new_storage_key tid i uuid = Inr k" "sf_storage_key meta = Some k" "sf_backend meta = ''local''"
    "files = AList.update k (eu_content u) (kd_files d)" "sf_sha256 meta = se_hash S (eu_content u)"
    by (auto simp: save_stream_def save_loop_spec split: sum.splits if_splits option.splits)
  have "cs_id c = i" using owned_case_id[OF evidence_checksD[OF r(1)]] .
  with s(2,3,5) r(3) have e: "ce_tenant_id e = tid" "ce_case_id e = i" "ce_storage_backend e = ''local''" "ce_storage_key e = Some k"
    "ce_sha256 e = se_hash S (eu_content u)" by (simp_all add: new_evidence_def)
  have "e \<in> set (kd_evidence d')" "map_of (kd_files d') k = Some (eu_content u)"
    by (simp_all add: r(4) s(4) update_conv)
  with e new_storage_key_ok[OF s(1) assms(3)] show thesis using that by blast
qed

section \<open>What an analyst cannot do\<close>

definition same_standing :: "inv_case \<Rightarrow> inv_case \<Rightarrow> bool" where
  "same_standing c c' = (cs_assignee_user_id c' = cs_assignee_user_id c \<and> cs_closed_at c' = cs_closed_at c
     \<and> (cs_status c' \<in> set CASE_TERMINAL \<longleftrightarrow> cs_status c \<in> set CASE_TERMINAL))"

lemma same_standing_refl [simp]: "same_standing c c"
  by (simp add: same_standing_def)

definition standing_kept :: "case_db \<Rightarrow> case_db \<Rightarrow> bool" where
  "standing_kept d d' = list_all2 same_standing (kd_cases d) (kd_cases d')"

lemma standing_refl [simp]: "standing_kept d d"
  by (simp add: standing_kept_def list.rel_refl)

lemma standing_audit [simp]: "standing_kept d (case_audit now p t request a i x e) = standing_kept d e"
  by (simp add: standing_kept_def)

lemma standing_trans: "standing_kept d e \<Longrightarrow> standing_kept e f \<Longrightarrow> standing_kept d f"
  unfolding standing_kept_def
  by (rule list_all2_trans[of same_standing same_standing same_standing]) (auto simp: same_standing_def)

lemma standing_set:
  assumes "current tid c d" "cs_id c' = cs_id c" "same_standing c c'"
  shows "standing_kept d (set_case c' d)"
proof -
  have "same_standing x (if cs_id x = cs_id c then c' else x)" if "x \<in> set (kd_cases d)" for x
    using assms(1,3) find_owned[of cs_id "kd_cases d" "cs_id c" c x] that by (auto simp: current_def)
  then show ?thesis by (simp add: standing_kept_def set_case_def assms(2) list_all2_conv_all_nth upd_row_def)
qed

lemma standing_hd: "list_all2 same_standing xs ys \<Longrightarrow> xs \<noteq> [] \<Longrightarrow> cs_assignee_user_id (hd ys) = cs_assignee_user_id (hd xs)"
  by (cases xs; cases ys) (auto simp: same_standing_def)

lemma assign_standing: "\<not> is_admin p \<Longrightarrow> assign_stage now p tid request q c d = (r, d1) \<Longrightarrow> d1 = d \<and> (r = Inr c \<or> isl r)"
  by (auto simp: assign_stage_def split: option.splits)

lemma status_standing:
  assumes "current tid c d" "\<not> is_admin p"
  shows "standing_kept d (snd (status_stage fmt now p tid request q c d))"
proof (cases "\<exists>target action c'. ku_status q = Some target \<and> target \<noteq> Some (cs_status c) \<and> status_change p now target c = Inr (action, c')")
  case True
  then obtain target action c' where t: "ku_status q = Some target" "target \<noteq> Some (cs_status c)" "status_change p now target c = Inr (action, c')" by blast
  then have c: "cs_status c \<in> set CASE_ACTIVE" "cs_status c' \<in> set CASE_ACTIVE" "c' = c\<lparr>cs_status := cs_status c'\<rparr>"
    using assms(2) by (auto simp: status_change_def Let_def split: option.splits if_splits)
  have "same_standing c c'"
    unfolding same_standing_def using active_not_terminal[OF c(1)] active_not_terminal[OF c(2)] by (subst c(3), subst (2) c(3)) simp
  moreover have "cs_id c' = cs_id c" by (subst c(3)) simp
  ultimately show ?thesis using t standing_set[OF assms(1)] by (simp add: status_stage_def)
next
  case False
  then show ?thesis by (auto simp: status_stage_def split: option.splits sum.splits)
qed

lemma fields_standing:
  assumes "current tid c d"
  shows "standing_kept d (snd (fields_stage now p tid request q c d))"
  using standing_set[OF assms] by (simp add: fields_stage_def Let_def same_standing_def)

section \<open>A small tenant\<close>

declare save_loop.simps [code del] save_loop_spec [code]

definition no_cases :: "user list \<Rightarrow> monitored_brand list \<Rightarrow> brand_finding list \<Rightarrow> case_db" where
  "no_cases us bs fs = \<lparr>kd_cases = [], kd_notes = [], kd_reviews = [], kd_evidence = [], kd_files = [],
     kd_users = us, kd_brands = bs, kd_findings = fs, kd_audit = []\<rparr>"

lemma no_cases_inv: "case_inv S (no_cases us bs fs)"
  by (simp add: case_inv_def no_cases_def keyed_def)

definition case_person :: "int \<Rightarrow> string \<Rightarrow> principal" where
  "case_person i role = \<lparr>pr_subject = ''user'', pr_role = role, pr_kind = ''user'', pr_is_operator = False,
     pr_operator_role = None, pr_tenant_id = Some 1, pr_user_id = Some i\<rparr>"

definition case_users :: "user list" where
  "case_users = map (\<lambda>(i, role). \<lparr>us_id = i, us_email = ''u@acme.com'', us_role = role, us_is_operator = False,
     us_operator_role = None, us_tenant_id = Some 1, us_is_active = True, us_pwd_version = 1\<rparr>) [(1, ''admin''), (2, ''analyst'')]"

definition case_brand :: monitored_brand where
  "case_brand = \<lparr>br_id = 1, br_tenant_id = 1, br_name = ''Acme'', br_official_domains = ''acme.com'', br_keywords = None,
     br_variations = JNull, br_aliases = JNull, br_products = JNull, br_subdomains = JNull, br_social_profiles = JNull,
     br_sensitive_terms = JNull, br_status = ''active'', mb_logo_url = None, mb_archived_at = None, mb_created_at = 0,
     mb_last_scan_at = None\<rparr>"

definition case_finding :: brand_finding where
  "case_finding = \<lparr>bf_id = 7, bf_tenant_id = 1, bf_brand_id = 1, bf_domain = ''acme-login.com'', bf_source = ''typosquat'',
     bf_similarity = 90, bf_score = 60, bf_verdict = ''suspicious'', bf_score_factors = [],
     bf_evidence = \<lparr>ev_resolves = True, ev_mx = False, ev_age_days = None, ev_cert_age_days = None, ev_urlhaus_listed = False,
       ev_parked = False, se_ips = [], se_similarity = 90, se_nameservers = []\<rparr>,
     bf_status = ''new'', bf_alerted = False, bf_first_seen = 0, bf_last_seen = 0\<rparr>"

definition case_ground :: case_db where
  "case_ground = no_cases case_users [case_brand] [case_finding]"

definition case_stored :: "(inv_case \<times> case_db) res" where
  "case_stored = open_case_from_finding (\<lambda>_. []) 5 (case_person 2 ''analyst'') 1 None 1 7 case_ground"

lemma case_storedE: obtains c d where
  "open_case_from_finding (\<lambda>_. []) 5 (case_person 2 ''analyst'') 1 None 1 7 case_ground = Inr (c, d)" "case_stored = Inr (c, d)"
proof -
  have "\<not> isl case_stored" by code_simp
  then show thesis using that by (cases case_stored) (auto simp: case_stored_def)
qed

definition case_opened :: case_db where
  "case_opened = (case case_stored of Inl e \<Rightarrow> case_ground | Inr (c, d) \<Rightarrow> d)"

definition case_storage :: storage_env where
  "case_storage = \<lparr>se_backend = ''local'', se_max_bytes = 100, se_hash = (\<lambda>s. int_str (int (length s)))\<rparr>"

lemma case_opened_step: "case_step S (\<lambda>_. []) 1 case_ground case_opened"
proof (rule case_storedE)
  fix c d
  assume o: "open_case_from_finding (\<lambda>_. []) 5 (case_person 2 ''analyst'') 1 None 1 7 case_ground = Inr (c, d)" "case_stored = Inr (c, d)"
  show ?thesis using step_open_case[OF o(1)] by (simp add: case_opened_def o(2))
qed

lemma case_opened_inv: "case_inv S case_opened"
  by (rule case_step_inv[OF _ case_opened_step]) (simp add: case_ground_def no_cases_inv)

section \<open>The properties\<close>



text \<open>A case request of one tenant leaves the cases, notes, reviews and evidence of every other tenant as they are.\<close>

theorem case_tenant_isolation:
  assumes "case_step S fmt tid d d'" "case_inv S d"
  shows "foreign_cases tid d' = foreign_cases tid d"
proof (rule effect_case_foreign)
  show "case_effect S tid d d'" using assms by (intro case_step_effect) (simp_all add: case_inv_def)
qed

theorem case_tenant_isolation_witness:
  "foreign_cases 1 case_opened = foreign_cases 1 case_ground \<and> case_step case_storage (\<lambda>_. []) 1 case_ground case_opened"
proof -
  have "case_inv case_storage case_ground" by (simp add: case_ground_def no_cases_inv)
  from case_tenant_isolation[OF case_opened_step this] case_opened_step show ?thesis by blast
qed

text \<open>Notes, reviews, evidence and the audit trail are append-only: whatever requests follow, the earlier rows are
  there in order and unchanged, no case disappears and no stored file changes.\<close>

theorem case_history_append_only:
  assumes "case_reach S fmt d d'" "case_inv S d"
  shows "case_appends d d'"
  using reach_appends[OF assms] by (rule conjunct2)

theorem case_history_append_only_witness:
  "case_appends case_ground case_opened \<and> \<not> case_appends case_opened case_ground"
proof -
  have r: "case_reach case_storage (\<lambda>_. []) case_ground case_opened" using case_opened_step by blast
  have "case_inv case_storage case_ground" by (simp add: case_ground_def no_cases_inv)
  moreover have "\<not> case_appends case_opened case_ground" by code_simp
  ultimately show ?thesis using case_history_append_only[OF r] by blast
qed

text \<open>C11 A file that was accepted comes back: after any later case requests of any tenant a download answers with the bytes
  that were uploaded, under the hash recorded at the upload.\<close>

theorem evidence_custody:
  assumes "add_evidence S uuid True now p tid request i u d = (Inr e, d1)" "case_inv S d" "key_unused uuid tid i (kd_files d)"
    "se_backend S = ''local''" "uuid_ok uuid" "case_reach S fmt d1 d2"
  shows "ce_sha256 e = se_hash S (eu_content u)
    \<and> download_evidence now' p' tid request' i (ce_id e) d2
      = Inr (eu_content u, case_audit now' p' tid request' ''evidence.download'' i
               [(''evidence_id'', JInt (ce_id e)), (''sha256'', JStr (ce_sha256 e))] d2)"
proof -
  have inv1: "case_inv S d1" using case_step_inv[OF assms(2) step_evidence[OF assms(3,1)]] .
  note r = reach_appends[OF assms(6) inv1]
  obtain k where k: "e \<in> set (kd_evidence d1)" "ce_tenant_id e = tid" "ce_case_id e = i" "ce_storage_backend e = ''local''"
    "ce_storage_key e = Some k" "storage_key_ok k" "map_of (kd_files d1) k = Some (eu_content u)" "ce_sha256 e = se_hash S (eu_content u)"
    by (rule add_evidence_stored[OF assms(1,4,5)])
  have "e \<in> set (kd_evidence d2)" using r k(1) by (auto simp: case_appends_def dest: set_mono_prefix)
  moreover have "map_of (kd_files d2) k = Some (eu_content u)"
    using r k(7) map_of_None_keys[of "kd_files d1" k] by (fastforce simp: case_appends_def file_kept_def list_all_iff)
  ultimately show ?thesis using evidence_download[OF conjunct1[OF r] _ k(2-6)] k(8) by simp
qed

definition case_pdf :: evidence_upload where
  "case_pdf = \<lparr>eu_content_type = ''application/pdf'', eu_content = ''%PDF-1.4 sample'', eu_filename = ''a/report.pdf'',
     eu_origin = ''manual_upload'', eu_description = None, eu_finding_id = Some 7\<rparr>"

theorem evidence_custody_witness:
  "case add_evidence case_storage (replicate 32 (CHR ''a'')) True 6 (case_person 2 ''analyst'') 1 None 1 case_pdf case_opened of
     (Inl _, _) \<Rightarrow> False
   | (Inr e, d1) \<Rightarrow> (case download_evidence 9 (case_person 1 ''admin'') 1 None 1 (ce_id e) d1 of
       Inl _ \<Rightarrow> False | Inr (bytes, _) \<Rightarrow> bytes = eu_content case_pdf)"
proof -
  let ?a = "add_evidence case_storage (replicate 32 (CHR ''a'')) True 6 (case_person 2 ''analyst'') 1 None 1 case_pdf case_opened"
  have "\<not> isl (fst ?a)" by code_simp
  then obtain e d1 where a: "?a = (Inr e, d1)" by (cases ?a; cases "fst ?a") auto
  have "key_unused (replicate 32 (CHR ''a'')) 1 1 (kd_files case_opened)" "se_backend case_storage = ''local''"
    "uuid_ok (replicate 32 (CHR ''a''))" by code_simp+
  from evidence_custody[OF a case_opened_inv this rtranclp.rtrancl_refl] show ?thesis by (simp add: a)
qed




text \<open>A PATCH is not atomic: the audit record of the assignment commits it, so an administrator's request that assigns and
  then asks for a forbidden transition is refused with 422 and leaves the case assigned.\<close>

theorem refused_patch_assigns:
  assumes "valid_case_update q0 = Inr q" "owned_case d i tid = Inr c" "is_admin p"
    "ku_assignee_user_id q = Some uid" "validate_assignee d tid uid = Inr ()" "uid \<noteq> cs_assignee_user_id c"
    "ku_status q = Some (Some st)" "st \<noteq> cs_status c" "cs_status c \<in> set CASE_TERMINAL" "st \<notin> set CASE_ACTIVE"
  shows "update_case fmt now p tid request i q0 d =
    (Inl (HTTPException 422), case_audit now p tid request ''case.assign'' (cs_id c)
       [(''assignee'', from_to (opt_int (cs_assignee_user_id c)) (opt_int uid))] (set_case (c\<lparr>cs_assignee_user_id := uid\<rparr>) d))"
proof -
  have "cs_status c \<notin> set CASE_ACTIVE" using assms(9) active_not_terminal by blast
  with assms show ?thesis
    by (simp add: update_case_def next_stage_def assign_stage_def status_stage_def status_change_def Let_def)
qed

definition case_closed :: case_db where
  "case_closed = snd (update_case (\<lambda>_. []) 6 (case_person 1 ''admin'') 1 None 1
     \<lparr>ku_title = None, ku_description = None, ku_severity = None, ku_status = Some (Some ''closed''), ku_assignee_user_id = None\<rparr>
     case_opened)"

definition case_patch :: case_update where
  "case_patch = \<lparr>ku_title = None, ku_description = None, ku_severity = None, ku_status = Some (Some ''false_positive''),
     ku_assignee_user_id = Some (Some 2)\<rparr>"

theorem refused_patch_assigns_witness:
  "case update_case (\<lambda>_. []) 7 (case_person 1 ''admin'') 1 None 1 case_patch case_closed of
     (Inr _, _) \<Rightarrow> False
   | (Inl e, d) \<Rightarrow> e = HTTPException 422 \<and> map cs_assignee_user_id (kd_cases d) = [Some 2]
       \<and> map cs_assignee_user_id (kd_cases case_closed) = [None]"
proof -
  let ?c = "hd (kd_cases case_closed)"
  have "valid_case_update case_patch = Inr case_patch" by (simp add: valid_case_update_def case_patch_def CASE_TERMINAL_def)
  moreover have "owned_case case_closed 1 1 = Inr ?c" by code_simp
  moreover have "is_admin (case_person 1 ''admin'')" "validate_assignee case_closed 1 (Some 2) = Inr ()"
    "Some 2 \<noteq> cs_assignee_user_id ?c" "''false_positive'' \<noteq> cs_status ?c" "cs_status ?c \<in> set CASE_TERMINAL"
    "''false_positive'' \<notin> set CASE_ACTIVE" by code_simp+
  moreover have "map cs_assignee_user_id (kd_cases (set_case (?c\<lparr>cs_assignee_user_id := Some 2\<rparr>) case_closed)) = [Some 2]"
    "map cs_assignee_user_id (kd_cases case_closed) = [None]" by code_simp+
  ultimately show ?thesis
    using refused_patch_assigns[of case_patch case_patch case_closed 1 1 ?c "case_person 1 ''admin''" "Some 2" "''false_positive''"
        "\<lambda>_. []" 7 None]
    by (simp add: case_patch_def)
qed

text \<open>
  A new case for a finding is refused while one is active, but reopening does not look: a closed case
  that is reopened after another was opened leaves two active cases for one finding.
\<close>

lemma reopen_duplicates:
  "let q = \<lparr>ku_title = None, ku_description = None, ku_severity = None, ku_status = Some (Some ''open''), ku_assignee_user_id = None\<rparr>
   in case open_case_from_finding (\<lambda>_. []) 7 (case_person 2 ''analyst'') 1 None 1 7 case_closed of Inl _ \<Rightarrow> False
      | Inr (c, d) \<Rightarrow> (case update_case (\<lambda>_. []) 8 (case_person 1 ''admin'') 1 None 1 q d of (r, d') \<Rightarrow>
          \<not> isl r \<and> map (\<lambda>c. (cs_finding_id c, cs_status c)) (kd_cases d') = [(Some 7, ''open''), (Some 7, ''open'')])"
  by code_simp

end
