(* ===== verification/Envelope.thy ===== *)
theory Envelope
  imports Prelude "HOL-Library.Multiset"
begin

text \<open>
  The evidence envelope of \<open>app/collection/envelope.py\<close>: the deterministic JSON text that is
  hashed (\<open>canonical_json\<close>), the versioned fingerprint, and the immutable envelope built from a
  normalised update. \<open>emit\<close> is \<open>json.dumps\<close> with tight separators and \<open>ensure_ascii=False\<close>,
  \<open>canon\<close> is its \<open>sort_keys=True\<close>. SHA-256 is the parameter \<open>H\<close>. The lemmas show that the text
  determines the value up to the order of keys, and that the order of keys does not matter.
\<close>

section \<open>Canonical JSON\<close>

definition escape_char :: "char \<Rightarrow> string" where
  "escape_char c = (let n = of_char c :: nat in
     if n = 34 \<or> n = 92 then [CHR 0x5C, c]
     else if n = 8 then [CHR 0x5C, CHR ''b'']
     else if n = 12 then [CHR 0x5C, CHR ''f'']
     else if n = 10 then [CHR 0x5C, CHR ''n'']
     else if n = 13 then [CHR 0x5C, CHR ''r'']
     else if n = 9 then [CHR 0x5C, CHR ''t'']
     else if n < 32 then [CHR 0x5C, CHR ''u'', CHR ''0'', CHR ''0'', hex_digit (n div 16), hex_digit (n mod 16)]
     else [c])"

definition quote :: "string \<Rightarrow> string" where
  "quote s = CHR 0x22 # concat (map escape_char s) @ [CHR 0x22]"

fun emit :: "json \<Rightarrow> string" where
  "emit JNull = ''null''"
| "emit (JBool b) = (if b then ''true'' else ''false'')"
| "emit (JInt i) = int_str i"
| "emit (JStr s) = quote s"
| "emit (JList xs) = ''['' @ join '','' (map emit xs) @ '']''"
| "emit (JObj d) = ''{'' @ join '','' (map (\<lambda>kv. quote (fst kv) @ '':'' @ emit (snd kv)) d) @ ''}''"

fun canon :: "json \<Rightarrow> json" where
  "canon (JList xs) = JList (map canon xs)"
| "canon (JObj d) = JObj (sort_key fst (map (\<lambda>kv. (fst kv, canon (snd kv))) d))"
| "canon v = v"

definition canonical_json :: "json \<Rightarrow> string" where
  "canonical_json v = emit (canon v)"

definition fingerprint_normalized :: "(string \<Rightarrow> string) \<Rightarrow> json dict \<Rightarrow> int \<Rightarrow> string" where
  "fingerprint_normalized H normalized content_version =
     H (canonical_json (JObj [(''v'', JInt content_version), (''n'', JObj normalized)]))"

section \<open>The envelope\<close>

record evidence_envelope =
  ee_provider :: string
  ee_tenant_id :: int
  ee_source_ref :: string
  ee_normalized_fingerprint :: string
  ee_redacted_text :: string
  ee_content_version :: int
  ee_redaction_profile :: string
  ee_fingerprint_alg :: string
  ee_schema_version :: string
  ee_occurred_at :: string
  ee_raw_fingerprint :: string
  ee_original_custody :: bool
  ee_metadata :: "json dict"

definition from_normalized ::
  "(string \<Rightarrow> string) \<Rightarrow> string \<Rightarrow> int \<Rightarrow> string \<Rightarrow> json dict \<Rightarrow> string \<Rightarrow> int \<Rightarrow> string \<Rightarrow> string \<Rightarrow> string
    \<Rightarrow> json dict option \<Rightarrow> evidence_envelope" where
  "from_normalized H provider tenant_id source_ref normalized redacted_text content_version
       redaction_profile occurred_at raw_fingerprint metadata =
     \<lparr>ee_provider = provider, ee_tenant_id = tenant_id, ee_source_ref = source_ref,
      ee_normalized_fingerprint = fingerprint_normalized H normalized content_version,
      ee_redacted_text = redacted_text, ee_content_version = content_version,
      ee_redaction_profile = redaction_profile, ee_fingerprint_alg = ''sha256'',
      ee_schema_version = ''evidence-envelope/1'', ee_occurred_at = occurred_at,
      ee_raw_fingerprint = raw_fingerprint, ee_original_custody = False,
      ee_metadata = (case metadata of None \<Rightarrow> [] | Some m \<Rightarrow> m)\<rparr>"

definition envelope_to_dict :: "evidence_envelope \<Rightarrow> json dict" where
  "envelope_to_dict e =
     [(''provider'', JStr (ee_provider e)), (''tenant_id'', JInt (ee_tenant_id e)),
      (''source_ref'', JStr (ee_source_ref e)),
      (''normalized_fingerprint'', JStr (ee_normalized_fingerprint e)),
      (''redacted_text'', JStr (ee_redacted_text e)),
      (''content_version'', JInt (ee_content_version e)),
      (''redaction_profile'', JStr (ee_redaction_profile e)),
      (''fingerprint_alg'', JStr (ee_fingerprint_alg e)),
      (''schema_version'', JStr (ee_schema_version e)),
      (''occurred_at'', JStr (ee_occurred_at e)),
      (''raw_fingerprint'', JStr (ee_raw_fingerprint e)),
      (''original_custody'', JBool (ee_original_custody e)),
      (''metadata'', JObj (ee_metadata e))]"

section \<open>The text determines the value\<close>

text \<open>Reading one escaped character back.\<close>

definition hex_val :: "char \<Rightarrow> nat" where
  "hex_val c = (if of_char c < (58::nat) then of_char c - 48 else of_char c - 87)"

definition unescape :: "string \<Rightarrow> char \<times> string" where
  "unescape s = (if hd s \<noteq> CHR 0x5C then (hd s, tl s)
     else let e = s ! 1; r = drop 2 s in
       if e = CHR ''b'' then (char_of (8::nat), r)
       else if e = CHR ''f'' then (char_of (12::nat), r)
       else if e = CHR ''n'' then (char_of (10::nat), r)
       else if e = CHR ''r'' then (char_of (13::nat), r)
       else if e = CHR ''t'' then (char_of (9::nat), r)
       else if e = CHR ''u'' then (char_of (16 * hex_val (s ! 4) + hex_val (s ! 5)), drop 6 s)
       else (e, r))"

lemma hex_val_digit: "n < 16 \<Longrightarrow> hex_val (hex_digit n) = n"
  by (auto simp: hex_val_def hex_digit_def)

lemma char_eq: "of_char c = (n::nat) \<Longrightarrow> c = char_of n"
  by auto

lemma char_codes:
  "char_of (34::nat) = CHR 0x22" "char_of (92::nat) = CHR 0x5C" "char_of (8::nat) = CHR 0x08"
  "char_of (12::nat) = CHR 0x0C" "char_of (10::nat) = CHR 0x0A" "char_of (13::nat) = CHR 0x0D"
  "char_of (9::nat) = CHR 0x09"
  by (code_simp; simp)+

lemma unescape_escape: "unescape (escape_char c @ x) = (c, x)"
proof -
  have small: "char_of (16 * hex_val (hex_digit (of_char c div 16)) + hex_val (hex_digit (of_char c mod 16))) = c"
    if "(of_char c :: nat) < 32"
  proof -
    have "(of_char c :: nat) div 16 < 16" using that by simp
    then show ?thesis by (simp add: hex_val_digit)
  qed
  consider "of_char c = (34::nat)" | "of_char c = (92::nat)" | "of_char c = (8::nat)" | "of_char c = (12::nat)"
    | "of_char c = (10::nat)" | "of_char c = (13::nat)" | "of_char c = (9::nat)"
    | "(of_char c :: nat) < 32" "of_char c \<notin> {8, 9, 10, 12, 13 :: nat}"
    | "\<not> (of_char c :: nat) < 32" "of_char c \<notin> {34, 92 :: nat}"
    by auto
  then show ?thesis
  proof cases
    case 8
    then show ?thesis using small by (simp add: escape_char_def unescape_def Let_def)
  next
    case 9
    then have "c \<noteq> CHR 0x5C" by auto
    with 9 show ?thesis by (simp add: escape_char_def unescape_def Let_def)
  qed (drule char_eq, simp add: char_codes escape_char_def unescape_def Let_def)+
qed

lemma escape_char_inj: "escape_char c @ x = escape_char c' @ y \<Longrightarrow> c = c' \<and> x = y"
  by (metis unescape_escape Pair_inject)

lemma escape_char_not_quote: "escape_char c @ x \<noteq> CHR 0x22 # r"
  by (auto simp: escape_char_def Let_def)

lemma escape_char_ne: "escape_char c \<noteq> []"
  by (auto simp: escape_char_def Let_def)

lemma escaped_inj:
  "concat (map escape_char s) @ CHR 0x22 # r = concat (map escape_char s') @ CHR 0x22 # r'
    \<Longrightarrow> s = s' \<and> r = r'"
proof (induction s arbitrary: s')
  case Nil
  then show ?case
    by (cases s') (auto simp: escape_char_not_quote dest: sym)
next
  case (Cons c s)
  then obtain c' t where s': "s' = c' # t"
    by (cases s') (auto simp: escape_char_not_quote)
  with Cons.prems have "c = c' \<and> concat (map escape_char s) @ CHR 0x22 # r =
      concat (map escape_char t) @ CHR 0x22 # r'"
    by (intro escape_char_inj) simp
  with Cons.IH s' show ?case by auto
qed

lemma quote_inj: "quote s @ r = quote s' @ r' \<Longrightarrow> s = s' \<and> r = r'"
  by (auto simp: quote_def dest: escaped_inj)

text \<open>What may follow a value: nothing, a comma or a closing bracket.\<close>

definition delimited :: "string \<Rightarrow> bool" where
  "delimited r = (case r of [] \<Rightarrow> True | c # _ \<Rightarrow> c \<in> {CHR '','', CHR '']'', CHR ''}''})"

lemma delimited_simps [simp]:
  "delimited []" "delimited (CHR '','' # r)" "delimited (CHR '']'' # r)" "delimited (CHR ''}'' # r)"
  by (simp_all add: delimited_def)

lemma int_str_delimited:
  assumes "int_str i @ r = int_str j @ r'" "delimited r" "delimited r'"
  shows "i = j \<and> r = r'"
proof -
  let ?P = "\<lambda>c. is_digit c \<or> c = CHR ''-''"
  have tw: "takeWhile ?P (int_str k @ t) = int_str k" if "delimited t" for k t
  proof -
    have "takeWhile ?P t = []"
      using that by (cases t) (auto simp: delimited_def is_digit_def)
    then show ?thesis
      using int_str_chars [of _ k] by (simp add: takeWhile_append2)
  qed
  from assms tw have "int_str i = int_str j" by metis
  with assms(1) show ?thesis by (auto dest: int_str_inj)
qed

fun first_ok :: "json \<Rightarrow> char \<Rightarrow> bool" where
  "first_ok JNull c = (c = CHR ''n'')"
| "first_ok (JBool b) c = (c = (if b then CHR ''t'' else CHR ''f''))"
| "first_ok (JInt i) c = (is_digit c \<or> c = CHR ''-'')"
| "first_ok (JStr s) c = (c = CHR 0x22)"
| "first_ok (JList xs) c = (c = CHR ''['')"
| "first_ok (JObj d) c = (c = CHR ''{'')"

lemma emit_first: "\<exists>c t. emit v = c # t \<and> first_ok v c"
proof (cases v)
  case (JInt i)
  obtain c t where ct: "int_str i = c # t"
    by (cases "int_str i") (auto simp: int_str_def split: if_splits)
  with JInt int_str_chars [of c i] show ?thesis by simp
qed (auto simp: quote_def)

lemma first_ok_kind:
  assumes "emit v @ r = emit w @ r'"
  shows "\<exists>c. first_ok v c \<and> first_ok w c"
proof -
  obtain c t where "emit v = c # t" "first_ok v c" using emit_first by blast
  moreover obtain c' t' where "emit w = c' # t'" "first_ok w c'" using emit_first by blast
  ultimately show ?thesis using assms by auto
qed

lemma join_comma_Cons: "join '','' (w # ws) = w @ concat (map (\<lambda>v. CHR '','' # v) ws)"
  by (simp add: join_def cong: map_cong)

text \<open>A separated sequence up to its closing bracket determines its elements.\<close>

lemma tail_inj:
  assumes "\<And>x y r r'. x \<in> set xs \<Longrightarrow> delimited r \<Longrightarrow> delimited r' \<Longrightarrow> f x @ r = f y @ r' \<Longrightarrow> x = y \<and> r = r'"
    and "concat (map (\<lambda>v. CHR '','' # v) (map f xs)) @ q # r
      = concat (map (\<lambda>v. CHR '','' # v) (map f ys)) @ q # r'"
    and q: "q = CHR '']'' \<or> q = CHR ''}''"
  shows "xs = ys \<and> r = r'"
  using assms(1,2)
proof (induction xs arbitrary: ys)
  case Nil
  with q show ?case by (cases ys) auto
next
  case (Cons x xs)
  from Cons.prems(2) q obtain y zs where ys: "ys = y # zs" by (cases ys) auto
  have d: "delimited (concat (map (\<lambda>v. CHR '','' # v) (map f us)) @ q # t)" for us t
    using q by (cases us) auto
  from Cons.prems(2) ys have
    "f x @ (concat (map (\<lambda>v. CHR '','' # v) (map f xs)) @ q # r)
      = f y @ (concat (map (\<lambda>v. CHR '','' # v) (map f zs)) @ q # r')" by simp
  from Cons.prems(1) [OF _ d d this]
  have "x = y" and rest: "concat (map (\<lambda>v. CHR '','' # v) (map f xs)) @ q # r
      = concat (map (\<lambda>v. CHR '','' # v) (map f zs)) @ q # r'" by auto
  from Cons.IH [OF _ rest] Cons.prems(1) have "xs = zs \<and> r = r'" by (meson list.set_intros(2))
  with \<open>x = y\<close> ys show ?case by simp
qed

lemma join_inj_closed:
  assumes "\<And>x y r r'. x \<in> set xs \<Longrightarrow> delimited r \<Longrightarrow> delimited r' \<Longrightarrow> f x @ r = f y @ r' \<Longrightarrow> x = y \<and> r = r'"
    and "\<And>x t. f x @ t \<noteq> [] \<and> hd (f x @ t) \<noteq> q"
    and "join '','' (map f xs) @ q # r = join '','' (map f ys) @ q # r'"
    and q: "q = CHR '']'' \<or> q = CHR ''}''"
  shows "xs = ys \<and> r = r'"
proof (cases xs)
  case xs: Nil
  show ?thesis
  proof (cases ys)
    case Nil
    with xs assms(3) show ?thesis by simp
  next
    case (Cons y zs)
    with xs assms(3) have "q # r = f y @ (concat (map (\<lambda>v. CHR '','' # v) (map f zs)) @ q # r')"
      by (simp add: join_comma_Cons) (simp add: join_def)
    with assms(2) show ?thesis by (metis list.sel(1))
  qed
next
  case xs: (Cons x us)
  show ?thesis
  proof (cases ys)
    case Nil
    with xs assms(3) have "q # r' = f x @ (concat (map (\<lambda>v. CHR '','' # v) (map f us)) @ q # r)"
      by (simp add: join_comma_Cons) (simp add: join_def)
    with assms(2) show ?thesis by (metis list.sel(1))
  next
    case (Cons y zs)
    have "concat (map (\<lambda>v. CHR '','' # v) (map f xs)) @ q # r
      = concat (map (\<lambda>v. CHR '','' # v) (map f ys)) @ q # r'"
      using assms(3) xs Cons by (simp add: join_comma_Cons)
    from tail_inj [OF assms(1) this q] show ?thesis by blast
  qed
qed

lemma emit_inj:
  "emit v @ r = emit w @ r' \<Longrightarrow> delimited r \<Longrightarrow> delimited r' \<Longrightarrow> v = w \<and> r = r'"
proof (induction v arbitrary: w r r')
  case JNull
  with first_ok_kind [OF JNull(1)] show ?case by (cases w) (auto simp: is_digit_def split: if_splits)
next
  case (JBool b)
  with first_ok_kind [OF JBool(1)] show ?case by (cases w) (auto simp: is_digit_def split: if_splits)
next
  case (JInt i)
  from first_ok_kind [OF JInt(1)] obtain j where w: "w = JInt j"
    by (cases w) (auto simp: is_digit_def split: if_splits)
  with JInt int_str_delimited [of i r j r'] show ?case by simp
next
  case (JStr s)
  from first_ok_kind [OF JStr(1)] obtain t where w: "w = JStr t"
    by (cases w) (auto simp: is_digit_def split: if_splits)
  with JStr quote_inj [of s r t r'] show ?case by simp
next
  case (JList xs)
  from first_ok_kind [OF JList(2)] obtain ys where w: "w = JList ys"
    by (cases w) (auto simp: is_digit_def split: if_splits)
  have "xs = ys \<and> r = r'"
  proof (rule join_inj_closed [where f = emit and q = "CHR '']''"])
    show "emit x @ t \<noteq> [] \<and> hd (emit x @ t) \<noteq> CHR '']''" for x t
      using emit_first [of x] by (cases x) (auto simp: is_digit_def)
  qed (use JList w in auto)
  with w show ?case by simp
next
  case (JObj d)
  from first_ok_kind [OF JObj(2)] obtain d' where w: "w = JObj d'"
    by (cases w) (auto simp: is_digit_def split: if_splits)
  have "d = d' \<and> r = r'"
  proof (rule join_inj_closed [where f = "\<lambda>kv. quote (fst kv) @ '':'' @ emit (snd kv)" and q = "CHR ''}''"])
    fix kv kv' t t'
    assume kv: "kv \<in> set d" and d: "delimited t" "delimited t'"
      and eq: "(quote (fst kv) @ '':'' @ emit (snd kv)) @ t = (quote (fst kv') @ '':'' @ emit (snd kv')) @ t'"
    from eq have "fst kv = fst kv' \<and> '':'' @ emit (snd kv) @ t = '':'' @ emit (snd kv') @ t'"
      by (intro quote_inj) simp
    moreover from this have "snd kv = snd kv' \<and> t = t'"
      using JObj.IH [OF kv] d by (metis append_same_eq same_append_eq snds.intros)
    ultimately show "kv = kv' \<and> t = t'" by (simp add: prod_eq_iff)
  qed (use JObj w in \<open>auto simp: quote_def\<close>)
  with w show ?case by simp
qed

lemma canonical_json_inj: "canonical_json v = canonical_json w \<Longrightarrow> canon v = canon w"
  using emit_inj [of "canon v" "[]" "canon w" "[]"] by (simp add: canonical_json_def)

section \<open>The order of keys does not matter\<close>

lemma canon_obj_perm:
  assumes "mset d = mset d'" "distinct (dict_keys d)"
  shows "canon (JObj d) = canon (JObj d')"
proof -
  let ?m = "\<lambda>kv. (fst kv, canon (snd kv))"
  have m: "mset (map ?m d) = mset (map ?m d')" using assms(1) by simp
  have "distinct (map fst (map ?m d))" using assms(2) by (simp add: dict_keys_def comp_def)
  then have "inj_on fst (set (map ?m d))" by (simp only: distinct_map)
  with m have "sort_key fst (map ?m d) = sort_key fst (map ?m d')"
    by (intro sort_key_inj_key_eq) simp_all
  then show ?thesis by simp
qed

lemma fingerprint_material:
  "canon (JObj [(''v'', JInt v), (''n'', JObj n)]) = JObj [(''n'', canon (JObj n)), (''v'', JInt v)]"
  by simp

section \<open>Properties\<close>

lemma canonical_material_eq:
  "canonical_json (JObj [(''v'', JInt v), (''n'', JObj n)]) = canonical_json (JObj [(''v'', JInt v'), (''n'', JObj n')])
     \<longleftrightarrow> v = v' \<and> canon (JObj n) = canon (JObj n')" (is "?l \<longleftrightarrow> ?r")
proof
  assume ?l
  from canonical_json_inj [OF this] show ?r unfolding fingerprint_material by blast
next
  assume ?r
  then show ?l unfolding canonical_json_def fingerprint_material by (simp only:)
qed

text \<open>C34 The fingerprint of a message identifies its normalized content: two fingerprints agree exactly when
  the content versions and the values are the same, whatever the order of keys at any depth. The hash
  must not collide on the two texts.\<close>

theorem fingerprint_identifies:
  assumes "inj_on H {canonical_json (JObj [(''v'', JInt v), (''n'', JObj n)]),
                     canonical_json (JObj [(''v'', JInt v'), (''n'', JObj n')])}"
  shows "fingerprint_normalized H n v = fingerprint_normalized H n' v' \<longleftrightarrow>
           v = v' \<and> canon (JObj n) = canon (JObj n')"
proof -
  let ?m = "canonical_json (JObj [(''v'', JInt v), (''n'', JObj n)])"
  let ?m' = "canonical_json (JObj [(''v'', JInt v'), (''n'', JObj n')])"
  have "fingerprint_normalized H n v = fingerprint_normalized H n' v' \<longleftrightarrow> ?m = ?m'"
    unfolding fingerprint_normalized_def by (rule inj_on_eq_iff [OF assms]) (rule insertI1, rule insertI2, rule insertI1)
  also have "\<dots> \<longleftrightarrow> v = v' \<and> canon (JObj n) = canon (JObj n')"
    by (rule canonical_material_eq)
  finally show ?thesis .
qed

theorem fingerprint_identifies_witness:
  "fingerprint_normalized id [(''b'', JInt 1), (''a'', JNull)] 1 = fingerprint_normalized id [(''a'', JNull), (''b'', JInt 1)] 1
   \<and> fingerprint_normalized id [(''a'', JNull)] 1 \<noteq> fingerprint_normalized id [(''a'', JStr [])] 1"
  using fingerprint_identifies [of id 1 "[(''b'', JInt 1), (''a'', JNull)]" 1 "[(''a'', JNull), (''b'', JInt 1)]"]
    fingerprint_identifies [of id 1 "[(''a'', JNull)]" 1 "[(''a'', JStr [])]"]
  by simp

text \<open>The fingerprint does not depend on the order in which the normalized fields were inserted, for any
  hash.\<close>

theorem fingerprint_key_order:
  assumes "mset n = mset n'" "distinct (dict_keys n)"
  shows "fingerprint_normalized H n v = fingerprint_normalized H n' v"
  unfolding fingerprint_normalized_def canonical_json_def fingerprint_material canon_obj_perm [OF assms] ..

theorem fingerprint_key_order_witness:
  "fingerprint_normalized id [(''text'', JStr ''x''), (''chat'', JInt 5)] 1
     = fingerprint_normalized id [(''chat'', JInt 5), (''text'', JStr ''x'')] 1"
  using fingerprint_key_order [of "[(''text'', JStr ''x''), (''chat'', JInt 5)]" "[(''chat'', JInt 5), (''text'', JStr ''x'')]" id 1]
  by (simp add: dict_keys_def)

end
