(* ===== verification/ExposureIngest.thy ===== *)
theory ExposureIngest
  imports PyText Envelope
begin

text \<open>
  The exposure ingestion pipeline (\<open>app/exposure_ingest.py\<close>): field classes and masking,
  redaction of secrets, deduplication keys and the five file parsers. SHA-256 (in hexadecimal) is
  the parameter \<open>H\<close>; \<open>json.loads\<close> is the parameter of the JSON parser, the text of its error or the
  decoded value. A parsed record is a dictionary, as in the code: the JSON parser passes on whatever
  keys the file has.
\<close>

section \<open>Field classes and masking\<close>

datatype data_class = Public | Pii | Credential | Secret

definition FIELD_CLASS :: "(string \<times> data_class) list" where
  "FIELD_CLASS = [
    (''email'', Pii), (''person_label'', Pii), (''person'', Pii), (''full_name'', Pii), (''cpf'', Pii),
    (''phone'', Pii), (''url'', Public), (''url_defanged'', Public), (''domain'', Public),
    (''platform'', Public), (''exposure_kind'', Public), (''stealer_family'', Public),
    (''breach_name'', Public), (''line_source'', Public),
    (''password'', Credential), (''password_masked'', Credential), (''password_sha256'', Credential),
    (''token'', Secret), (''api_key'', Secret), (''secret'', Secret), (''private_key'', Secret),
    (''fingerprint'', Secret)]"

definition PLAINTEXT_SECRET_KEYS :: "string list" where
  "PLAINTEXT_SECRET_KEYS = [''password'', ''token'', ''api_key'', ''secret'', ''private_key'',
    ''auth_key'', ''client_secret'', ''passwd'', ''pwd'', ''cookie'', ''cookies'', ''session'',
    ''autofill'', ''card'', ''cvv'', ''wallet'', ''crypto_wallet'', ''seed_phrase'']"

definition DROP_KEYS :: "string list" where
  "DROP_KEYS = [''cookie'', ''cookies'', ''session'', ''sessions'', ''autofill'', ''card'', ''cc'',
    ''cvv'', ''wallet'', ''crypto_wallet'', ''seed_phrase'']"

definition classify :: "string \<Rightarrow> data_class" where
  "classify field = (case map_of FIELD_CLASS (str_lower field) of None \<Rightarrow> Public | Some c \<Rightarrow> c)"

text \<open>\<open>str(value or "")\<close>.\<close>

definition text_of :: "json \<Rightarrow> string" where
  "text_of v = py_str (jor v (JStr []))"

definition mask_generic :: "json \<Rightarrow> string" where
  "mask_generic value = (let v = text_of value in
     if length v \<le> 2 then ''***'' else [hd v] @ ''***'' @ [last v])"

definition mask_email :: "json \<Rightarrow> string" where
  "mask_email value = (let v = text_of value in
     if CHR ''@'' \<notin> set v then mask_generic (JStr v)
     else let local = partition_before CHR ''@'' v;
              domain = partition_after CHR ''@'' v;
              dom_name = rpartition_before CHR ''.'' domain;
              tld = rpartition_after CHR ''.'' domain
       in take 1 local @ ''***@'' @ (if dom_name \<noteq> [] then take 1 dom_name @ ''***'' else ''***'')
          @ (if tld \<noteq> [] then ''.'' @ tld else []))"

definition mask_value :: "json \<Rightarrow> data_class \<Rightarrow> string \<Rightarrow> string \<Rightarrow> json" where
  "mask_value value data_class role policy =
     (if value = JNull then value
      else if data_class = Secret \<or> data_class = Credential then value
      else if data_class = Pii \<and> policy = ''by_role'' \<and> role \<noteq> ''admin''
        then JStr (if CHR ''@'' \<in> set (py_str value) then mask_email value else mask_generic value)
      else value)"

definition mask_detail :: "json dict \<Rightarrow> string \<Rightarrow> string \<Rightarrow> json dict" where
  "mask_detail detail role policy =
     map (\<lambda>(k, v). (k, if is_str v then mask_value v (classify k) role policy else v)) detail"

section \<open>Normalisation and redaction\<close>

definition norm_value :: "json \<Rightarrow> string" where
  "norm_value value = str_lower (str_strip (text_of value))"

definition sha256_norm :: "(string \<Rightarrow> string) \<Rightarrow> json \<Rightarrow> string" where
  "sha256_norm H value = H (norm_value value)"

definition mask_secret :: "json \<Rightarrow> string" where
  "mask_secret value = (let v = text_of value in
     if v = [] then [] else if length v \<le> 3 then ''***'' else take 2 v @ ''****'' @ [last v])"

definition PASSWORD_KEYS :: "string list" where
  "PASSWORD_KEYS = [''password'', ''passwd'', ''pwd'']"

definition TOKEN_KEYS :: "string list" where
  "TOKEN_KEYS = [''token'', ''api_key'', ''secret'', ''private_key'', ''auth_key'', ''client_secret'']"

fun redact_item :: "(string \<Rightarrow> string) \<Rightarrow> string \<times> json \<Rightarrow> json dict \<Rightarrow> json dict" where
  "redact_item H (k, v) out = (let kl = str_lower k in
     if kl \<in> set DROP_KEYS then out
     else if kl \<in> set PASSWORD_KEYS then
       (if truthy v then AList.update ''password_masked'' (JStr (mask_secret v))
          (AList.update ''password_sha256'' (JStr (sha256_norm H v)) out) else out)
     else if kl \<in> set TOKEN_KEYS then
       (if truthy v then AList.update ''secret_masked'' (JStr (mask_secret v))
          (AList.update ''fingerprint'' (JStr (H (py_str v))) out) else out)
     else AList.update k v out)"

fun redact_detail :: "(string \<Rightarrow> string) \<Rightarrow> json \<Rightarrow> json dict" where
  "redact_detail H (JObj detail) = fold (redact_item H) detail []"
| "redact_detail H _ = []"

fun has_plaintext_secret :: "json \<Rightarrow> bool" where
  "has_plaintext_secret (JObj detail) = (\<exists>k \<in> set (dict_keys detail). str_lower k \<in> set PLAINTEXT_SECRET_KEYS)"
| "has_plaintext_secret _ = False"

section \<open>Deduplication key\<close>

text \<open>\<open>json.dumps\<close> with its default separators and \<open>ensure_ascii\<close>.\<close>

definition escape_ascii :: "char \<Rightarrow> string" where
  "escape_ascii c = (let n = of_char c :: nat in
     if n \<ge> 127 then [CHR 0x5C, CHR ''u'', CHR ''0'', CHR ''0'', hex_digit (n div 16), hex_digit (n mod 16)]
     else escape_char c)"

definition quote_ascii :: "string \<Rightarrow> string" where
  "quote_ascii s = CHR 0x22 # concat (map escape_ascii s) @ [CHR 0x22]"

fun dumps :: "json \<Rightarrow> string" where
  "dumps JNull = ''null''"
| "dumps (JBool b) = (if b then ''true'' else ''false'')"
| "dumps (JInt i) = int_str i"
| "dumps (JStr s) = quote_ascii s"
| "dumps (JList xs) = ''['' @ join '', '' (map dumps xs) @ '']''"
| "dumps (JObj d) = ''{'' @ join '', '' (map (\<lambda>kv. quote_ascii (fst kv) @ '': '' @ dumps (snd kv)) d) @ ''}''"

definition dedup_material :: "int \<Rightarrow> string \<Rightarrow> json dict \<Rightarrow> string list" where
  "dedup_material tenant_id exposure_type d =
     (if exposure_type = ''credential_exposure'' then
        [int_str tenant_id, exposure_type, norm_value (jget d ''email''), text_of (jget d ''password_sha256'')]
      else if exposure_type = ''identity_exposure'' then
        [int_str tenant_id, exposure_type, norm_value (jor (jget d ''email'') (jget d ''person_label'')),
         norm_value (jget d ''exposure_kind''), norm_value (jor (jget d ''url'') (jget d ''url_defanged''))]
      else [int_str tenant_id, exposure_type, dumps (canon (JObj d))])"

definition dedup_key :: "(string \<Rightarrow> string) \<Rightarrow> int \<Rightarrow> string \<Rightarrow> json dict \<Rightarrow> string" where
  "dedup_key H tenant_id exposure_type d = H (join ''|'' (dedup_material tenant_id exposure_type d))"

section \<open>Parsers\<close>

definition machine_id_hash :: "(string \<Rightarrow> string) \<Rightarrow> string \<Rightarrow> string" where
  "machine_id_hash H v = H (''mid:'' @ norm_value (JStr v))"

text \<open>A credential record: \<open>password\<close> is the empty text when there is none.\<close>

definition rec_credential :: "string \<Rightarrow> string \<Rightarrow> json dict \<Rightarrow> json dict" where
  "rec_credential email password extra = (
     let detail = [(''email'', JStr (norm_value (JStr email)))]
           @ (if password \<noteq> [] then [(''password'', JStr password)] else [])
     in [(''exposure_type'', JStr ''credential_exposure''),
         (''title'', JStr (''Credential exposure '' @ norm_value (JStr email))),
         (''detail'', JObj (dict_merge detail extra))])"

definition error_rec :: "string \<Rightarrow> int \<Rightarrow> json dict" where
  "error_rec msg line = [(''_error'', JStr msg), (''_line'', JInt line)]"

definition combolist_sep :: "string \<Rightarrow> char option" where
  "combolist_sep line = (if CHR '':'' \<in> set line then Some CHR '':''
     else if CHR '';'' \<in> set line then Some CHR '';'' else None)"

definition combolist_line :: "nat \<Rightarrow> string \<Rightarrow> json dict option" where
  "combolist_line i raw = (let line = str_strip raw; n = int i + 1 in
     if line = [] \<or> hd line = CHR ''#'' then None
     else case combolist_sep line of
         None \<Rightarrow> Some (error_rec ''no separator'' n)
       | Some sep \<Rightarrow>
           let email = partition_before sep line; pw = partition_after sep line in
           if CHR ''@'' \<notin> set email then Some (error_rec ''invalid email'' n)
           else Some (AList.update ''_line'' (JInt n) (rec_credential email pw [])))"

fun combolist_lines :: "nat \<Rightarrow> string list \<Rightarrow> json dict list" where
  "combolist_lines i [] = []"
| "combolist_lines i (l # ls) =
     (case combolist_line i l of None \<Rightarrow> [] | Some r \<Rightarrow> [r]) @ combolist_lines (Suc i) ls"

definition parse_combolist :: "string \<Rightarrow> json dict list" where
  "parse_combolist text = combolist_lines 0 (splitlines text)"

text \<open>
  A row of \<open>DictReader\<close> with its keys and values cleaned. A long row has a list under the key
  \<open>None\<close>, on which \<open>strip\<close> raises.
\<close>

definition clean_row :: "dict_row \<Rightarrow> string dict res" where
  "clean_row row = (case dr_rest row of
     Some _ \<Rightarrow> Inl OtherError
   | None \<Rightarrow> Inr (fold (\<lambda>(k, v). AList.update (str_lower (str_strip k))
       (str_strip (case v of None \<Rightarrow> [] | Some s \<Rightarrow> s))) (dr_cells row) []))"

definition cell :: "string dict \<Rightarrow> string \<Rightarrow> string" where
  "cell row k = (case map_of row k of None \<Rightarrow> [] | Some v \<Rightarrow> v)"

definition csv_generic_row :: "nat \<Rightarrow> string dict \<Rightarrow> json dict" where
  "csv_generic_row i row = (let email = cell row ''email''; n = int i + 2 in
     if email \<noteq> [] \<and> CHR ''@'' \<in> set email then
       let extra = concat (map (\<lambda>k. if cell row k \<noteq> [] then [(k, JStr (cell row k))] else [])
             [''domain'', ''url'', ''exposure_kind''])
       in AList.update ''_line'' (JInt n)
         (if cell row ''password'' \<noteq> [] then rec_credential email (cell row ''password'') extra
          else [(''exposure_type'', JStr ''identity_exposure''),
                (''title'', JStr (''Identity exposure '' @ norm_value (JStr email))),
                (''detail'', JObj (dict_merge [(''email'', JStr (norm_value (JStr email)))] extra))])
     else error_rec ''missing/invalid email'' n)"

definition breach_row :: "nat \<Rightarrow> string dict \<Rightarrow> json dict" where
  "breach_row i row = (let email = cell row ''email''; n = int i + 2 in
     if email = [] \<or> CHR ''@'' \<notin> set email then error_rec ''missing/invalid email'' n
     else
       let bn = (if cell row ''breach'' \<noteq> [] then cell row ''breach'' else cell row ''breach_name'');
           extra = [(''source_kind'', JStr ''breach'')]
             @ (if bn \<noteq> [] then [(''breach_name'', JStr bn)] else [])
             @ (if cell row ''domain'' \<noteq> [] then [(''domain'', JStr (cell row ''domain''))] else [])
       in AList.update ''_line'' (JInt n) (rec_credential email (cell row ''password'') extra))"

text \<open>
  A generator is the list of the records it yields before it ends or raises, and the exception.
\<close>

type_synonym parsed = "json dict list \<times> exn option"

fun csv_records :: "(nat \<Rightarrow> string dict \<Rightarrow> json dict) \<Rightarrow> nat \<Rightarrow> dict_row list \<Rightarrow> bool \<Rightarrow> parsed" where
  "csv_records f i [] err = ([], if err then Some OtherError else None)"
| "csv_records f i (row # rows) err = (case clean_row row of
       Inl e \<Rightarrow> ([], Some e)
     | Inr r \<Rightarrow> (case csv_records f (Suc i) rows err of (recs, e) \<Rightarrow> (f i r # recs, e)))"

definition parse_csv_generic :: "string \<Rightarrow> parsed" where
  "parse_csv_generic text = (case dict_reader text of (rows, err) \<Rightarrow> csv_records csv_generic_row 0 rows err)"

definition parse_breach :: "string \<Rightarrow> parsed" where
  "parse_breach text = (case dict_reader text of (rows, err) \<Rightarrow> csv_records breach_row 0 rows err)"

definition setdefault :: "string \<Rightarrow> json \<Rightarrow> json dict \<Rightarrow> json dict" where
  "setdefault k v d = (if k \<in> set (dict_keys d) then d else AList.update k v d)"

fun json_finding :: "nat \<Rightarrow> json \<Rightarrow> json dict" where
  "json_finding i (JObj item) = (let n = int i + 1 in
     if ''exposure_type'' \<notin> set (dict_keys item) then error_rec ''record missing exposure_type'' n
     else AList.update ''_line'' (JInt n)
       (setdefault ''title'' (JStr (py_str (jget item ''exposure_type'') @ '' #'' @ int_str n))
         (setdefault ''detail'' (JObj []) item)))"
| "json_finding i _ = error_rec ''record missing exposure_type'' (int i + 1)"

fun json_items_from :: "nat \<Rightarrow> json list \<Rightarrow> json dict list" where
  "json_items_from i [] = []"
| "json_items_from i (x # xs) = json_finding i x # json_items_from (Suc i) xs"

definition parse_json_findings :: "(string \<Rightarrow> string + json) \<Rightarrow> string \<Rightarrow> json dict list" where
  "parse_json_findings loads text = (case loads text of
       Inl msg \<Rightarrow> [error_rec (''invalid json: '' @ msg) 0]
     | Inr (JList data) \<Rightarrow> json_items_from 0 data
     | Inr _ \<Rightarrow> [error_rec ''expected a JSON array'' 0])"

subsection \<open>Stealer logs\<close>

definition STEALER_META_KEYS :: "string dict" where
  "STEALER_META_KEYS = [
    (''build'', ''stealer_family''), (''stealer'', ''stealer_family''), (''software'', ''stealer_family''),
    (''machineid'', ''machine_id''), (''machine id'', ''machine_id''), (''hwid'', ''machine_id''), (''pc'', ''machine_id''),
    (''date'', ''malware_date''), (''log date'', ''malware_date''), (''install date'', ''malware_date'')]"

text \<open>The locals of the parser; an unset text is empty, which the code treats alike.\<close>

record stealer =
  sl_fam :: string
  sl_mid :: string
  sl_mdate :: string
  sl_blocks :: "(string dict \<times> int) list"
  sl_cur :: "string dict"
  sl_line :: int

definition stealer_start :: stealer where
  "stealer_start = \<lparr>sl_fam = [], sl_mid = [], sl_mdate = [], sl_blocks = [], sl_cur = [], sl_line = 0\<rparr>"

definition flush_block :: "stealer \<Rightarrow> stealer" where
  "flush_block s = (if cell (sl_cur s) ''login'' \<noteq> [] \<and> cell (sl_cur s) ''password'' \<noteq> []
     then s\<lparr>sl_blocks := sl_blocks s @ [(sl_cur s, sl_line s)]\<rparr> else s)"

definition clear_block :: "stealer \<Rightarrow> stealer" where
  "clear_block s = (flush_block s)\<lparr>sl_cur := [], sl_line := 0\<rparr>"

definition set_field :: "string \<Rightarrow> string \<Rightarrow> nat \<Rightarrow> stealer \<Rightarrow> stealer" where
  "set_field k v i s = s\<lparr>sl_cur := AList.update k v (sl_cur s),
     sl_line := (if sl_line s \<noteq> 0 then sl_line s else int i + 1)\<rparr>"

definition stealer_line :: "nat \<Rightarrow> string \<Rightarrow> stealer \<Rightarrow> stealer" where
  "stealer_line i raw s = (let line = str_strip raw in
     if line = [] then clear_block s
     else if CHR '':'' \<notin> set line then s
     else
       let key = str_lower (str_strip (partition_before CHR '':'' line));
           val = str_strip (partition_after CHR '':'' line);
           meta = map_of STEALER_META_KEYS key
       in if meta = Some ''stealer_family'' then s\<lparr>sl_fam := (if sl_fam s \<noteq> [] then sl_fam s else str_lower val)\<rparr>
       else if meta = Some ''machine_id'' then s\<lparr>sl_mid := (if sl_mid s \<noteq> [] then sl_mid s else val)\<rparr>
       else if meta = Some ''malware_date'' then s\<lparr>sl_mdate := (if sl_mdate s \<noteq> [] then sl_mdate s else val)\<rparr>
       else if key \<in> {''url'', ''host'', ''soft''} then
         set_field ''url'' val i
           (if cell (sl_cur s) ''login'' \<noteq> [] \<and> cell (sl_cur s) ''password'' \<noteq> [] then clear_block s else s)
       else if key \<in> {''login'', ''username'', ''user'', ''email'', ''user name''} then set_field ''login'' val i s
       else if key \<in> {''password'', ''pass'', ''passwd''} then set_field ''password'' val i s
       else s)"

fun stealer_lines :: "nat \<Rightarrow> string list \<Rightarrow> stealer \<Rightarrow> stealer" where
  "stealer_lines i [] s = flush_block s"
| "stealer_lines i (l # ls) s = stealer_lines (Suc i) ls (stealer_line i l s)"

definition stealer_block :: "(string \<Rightarrow> string) \<Rightarrow> stealer \<Rightarrow> string dict \<times> int \<Rightarrow> json dict" where
  "stealer_block H s b = (case b of (blk, line_no) \<Rightarrow>
     let login = cell blk ''login'' in
     if CHR ''@'' \<notin> set login then error_rec ''login is not an email'' line_no
     else
       let extra = [(''source_kind'', JStr ''stealer''), (''captured_types'', JList [JStr ''passwords''])]
             @ (if sl_fam s \<noteq> [] then [(''stealer_family'', JStr (sl_fam s))] else [])
             @ (if sl_mdate s \<noteq> [] then [(''malware_date'', JStr (sl_mdate s))] else [])
             @ (if sl_mid s \<noteq> [] then [(''machine_id_hash'', JStr (machine_id_hash H (sl_mid s)))] else [])
             @ (if cell blk ''url'' \<noteq> [] then [(''url'', JStr (cell blk ''url''))] else [])
       in AList.update ''_line'' (JInt line_no) (rec_credential login (cell blk ''password'') extra))"

definition parse_stealer_log :: "(string \<Rightarrow> string) \<Rightarrow> string \<Rightarrow> json dict list" where
  "parse_stealer_log H text = (let s = stealer_lines 0 (splitlines text) stealer_start in
     map (stealer_block H s) (sl_blocks s))"

section \<open>The parser table\<close>

definition PARSER_VERSIONS :: "string dict" where
  "PARSER_VERSIONS = [(''combolist'', ''1.0''), (''csv_generic'', ''1.0''), (''json_findings'', ''1.0''),
     (''stealer_log'', ''1.0''), (''breach'', ''1.0'')]"

definition run_parser :: "(string \<Rightarrow> string) \<Rightarrow> (string \<Rightarrow> string + json) \<Rightarrow> string \<Rightarrow> string \<Rightarrow> parsed" where
  "run_parser H loads parser text =
     (if parser = ''combolist'' then (parse_combolist text, None)
      else if parser = ''csv_generic'' then parse_csv_generic text
      else if parser = ''json_findings'' then (parse_json_findings loads text, None)
      else if parser = ''stealer_log'' then (parse_stealer_log H text, None)
      else parse_breach text)"

section \<open>Redaction\<close>

text \<open>What an entry of a redacted detail can be.\<close>

definition redacted_entry :: "(string \<Rightarrow> string) \<Rightarrow> json dict \<Rightarrow> string \<times> json \<Rightarrow> bool" where
  "redacted_entry H d kv = (case kv of (k, v) \<Rightarrow>
     if (k, v) \<in> set d then str_lower k \<notin> set (PLAINTEXT_SECRET_KEYS @ DROP_KEYS)
     else if k = ''password_sha256'' then \<exists>w. v = JStr (sha256_norm H w)
     else if k = ''fingerprint'' then \<exists>w. v = JStr (H (py_str w))
     else (k = ''password_masked'' \<or> k = ''secret_masked'') \<and> (\<exists>w. v = JStr (mask_secret w)))"

lemma secret_keys_cover: "set PLAINTEXT_SECRET_KEYS \<subseteq> set DROP_KEYS \<union> set PASSWORD_KEYS \<union> set TOKEN_KEYS"
  by code_simp

lemma derived_keys_clean:
  "list_all (\<lambda>k. str_lower k \<notin> set (PLAINTEXT_SECRET_KEYS @ DROP_KEYS)
     \<and> str_lower k \<notin> set PASSWORD_KEYS \<and> str_lower k \<notin> set TOKEN_KEYS)
   [''password_sha256'', ''password_masked'', ''fingerprint'', ''secret_masked'']"
  by code_simp

definition clean_key :: "string \<Rightarrow> bool" where
  "clean_key k = (str_lower k \<notin> set DROP_KEYS \<and> str_lower k \<notin> set PASSWORD_KEYS \<and> str_lower k \<notin> set TOKEN_KEYS)"

lemma clean_keyD: "clean_key k \<Longrightarrow> str_lower k \<notin> set (PLAINTEXT_SECRET_KEYS @ DROP_KEYS)"
  using secret_keys_cover by (auto simp: clean_key_def)

lemma clean_derived: "clean_key ''password_sha256''" "clean_key ''password_masked''" "clean_key ''fingerprint''" "clean_key ''secret_masked''"
  using derived_keys_clean by (auto simp: clean_key_def)

lemma redact_item_clean: "clean_key k \<Longrightarrow> redact_item H (k, v) out = AList.update k v out"
  by (simp add: clean_key_def)

lemma redact_item_password:
  "str_lower k \<notin> set DROP_KEYS \<Longrightarrow> str_lower k \<in> set PASSWORD_KEYS \<Longrightarrow> truthy v \<Longrightarrow>
   redact_item H (k, v) out = AList.update ''password_masked'' (JStr (mask_secret v))
     (AList.update ''password_sha256'' (JStr (sha256_norm H v)) out)"
  by simp

text \<open>The shape of a step, for the inductions.\<close>

lemma redact_item_cases:
  obtains "redact_item H (k, v) out = out"
  | "redact_item H (k, v) out = AList.update ''password_masked'' (JStr (mask_secret v))
       (AList.update ''password_sha256'' (JStr (sha256_norm H v)) out)"
  | "redact_item H (k, v) out = AList.update ''secret_masked'' (JStr (mask_secret v))
       (AList.update ''fingerprint'' (JStr (H (py_str v))) out)"
  | "clean_key k" "redact_item H (k, v) out = AList.update k v out"
proof -
  consider "clean_key k" | "str_lower k \<in> set DROP_KEYS \<or> \<not> truthy v" "\<not> clean_key k"
    | "str_lower k \<notin> set DROP_KEYS" "str_lower k \<in> set PASSWORD_KEYS" "truthy v"
    | "str_lower k \<notin> set DROP_KEYS" "str_lower k \<notin> set PASSWORD_KEYS" "str_lower k \<in> set TOKEN_KEYS" "truthy v"
    by (auto simp: clean_key_def)
  then show ?thesis
  proof cases
    case 1
    then show ?thesis using that(4) by (simp add: clean_key_def)
  next
    case 2
    then show ?thesis using that(1) by (auto simp: clean_key_def Let_def)
  next
    case 3
    then show ?thesis using that(2) by simp
  next
    case 4
    then show ?thesis using that(3) by simp
  qed
qed

definition clean_dict :: "json dict \<Rightarrow> bool" where
  "clean_dict d = (distinct (dict_keys d) \<and> (\<forall>k \<in> set (dict_keys d). clean_key k))"

lemma clean_dict_update: "clean_key k \<Longrightarrow> clean_dict d \<Longrightarrow> clean_dict (AList.update k v d)"
  by (simp add: clean_dict_def)

lemma redact_item_keys: "clean_dict out \<Longrightarrow> clean_dict (redact_item H (k, v) out)"
  by (cases rule: redact_item_cases[of H k v out]) (simp_all only: clean_dict_update clean_derived)

lemma redact_fold_keys: "clean_dict out \<Longrightarrow> clean_dict (fold (redact_item H) d out)"
proof (induction d arbitrary: out)
  case (Cons kv d)
  then show ?case using redact_item_keys[of out H "fst kv" "snd kv"] by (simp only: fold_simps prod.collapse)
qed simp

lemma redact_keys: "clean_dict (redact_detail H d)"
proof -
  have "clean_dict []" by (simp add: clean_dict_def)
  then show ?thesis by (cases d) (simp_all only: redact_detail.simps redact_fold_keys)
qed

lemma fold_update_id:
  assumes "distinct (dict_keys (out @ d))" "\<forall>k \<in> set (dict_keys d). clean_key k"
  shows "fold (redact_item H) d out = out @ d"
  using assms
proof (induction d arbitrary: out)
  case (Cons kv d)
  obtain k v where kv: "kv = (k, v)" by fastforce
  have "redact_item H (k, v) out = AList.update k v out"
    using Cons.prems kv by (intro redact_item_clean) simp
  also have "\<dots> = out @ [(k, v)]"
    using Cons.prems(1) kv by (induction out) auto
  finally show ?case using Cons.IH[of "out @ [(k, v)]"] Cons.prems kv by simp
qed simp

lemma redacted_entry_fold:
  assumes "\<forall>e \<in> set out. redacted_entry H d e" "set d' \<subseteq> set d"
  shows "\<forall>e \<in> set (fold (redact_item H) d' out). redacted_entry H d e"
  using assms
proof (induction d' arbitrary: out)
  case (Cons kv d')
  obtain k v where kv: "kv = (k, v)" by fastforce
  have derived: "redacted_entry H d (''password_sha256'', JStr (sha256_norm H w))"
    "redacted_entry H d (''password_masked'', JStr (mask_secret w))"
    "redacted_entry H d (''fingerprint'', JStr (H (py_str w)))"
    "redacted_entry H d (''secret_masked'', JStr (mask_secret w))" for w
    using clean_keyD[OF clean_derived(1)] clean_keyD[OF clean_derived(2)] clean_keyD[OF clean_derived(3)]
      clean_keyD[OF clean_derived(4)] by (auto simp: redacted_entry_def simp del: set_append)
  have "\<forall>e \<in> set (redact_item H (k, v) out). redacted_entry H d e"
  proof (cases rule: redact_item_cases[of H k v out])
    case 4
    have "redacted_entry H d (k, v)"
      using Cons.prems(2) kv clean_keyD[OF 4(1)] by (simp add: redacted_entry_def del: set_append)
    then show ?thesis unfolding 4(2) using Cons.prems(1) by (blast dest!: in_set_update)
  qed (use Cons.prems(1) derived in \<open>auto dest!: in_set_update simp del: redact_item.simps\<close>)
  with Cons.IH[of "redact_item H (k, v) out"] Cons.prems(2) kv show ?case by simp
qed simp

text \<open>Redaction leaves no entry under a plaintext-secret key: every entry of the result is an entry of the input
  whose key is no secret, or a hash or a mask of a value.\<close>

theorem redaction_sound:
  "\<not> has_plaintext_secret (JObj (redact_detail H (JObj d))) \<and>
   list_all (redacted_entry H d) (redact_detail H (JObj d))"
proof -
  have "\<forall>e \<in> set (redact_detail H (JObj d)). redacted_entry H d e"
    using redacted_entry_fold[of "[]" H d d] by simp
  moreover have "\<not> has_plaintext_secret (JObj (redact_detail H (JObj d)))"
    using redact_keys[of H "JObj d"] clean_keyD by (fastforce simp: clean_dict_def)
  ultimately show ?thesis by (simp add: list_all_iff)
qed

text \<open>Redacting twice is redacting once.\<close>

theorem redaction_idempotent: "redact_detail H (JObj (redact_detail H d)) = redact_detail H d"
  using fold_update_id[of "[]" "redact_detail H d" H] redact_keys[of H d] by (simp add: clean_dict_def)

text \<open>Redaction looks at the keys of the detail only, not into its values: a secret nested under any
  harmless key is kept in clear, although the pipeline promises that none is ever stored.\<close>

theorem nested_secret_survives:
  assumes "str_lower k \<notin> set DROP_KEYS" "str_lower k \<notin> set PASSWORD_KEYS" "str_lower k \<notin> set TOKEN_KEYS"
  shows "redact_detail H (JObj [(k, JObj [(''password'', JStr p)])]) = [(k, JObj [(''password'', JStr p)])]
    \<and> \<not> has_plaintext_secret (JObj (redact_detail H (JObj [(k, JObj [(''password'', JStr p)])])))"
proof -
  have "clean_key k" using assms by (simp add: clean_key_def)
  then show ?thesis using clean_keyD[of k] by (simp add: redact_item_clean del: redact_item.simps)
qed

theorem nested_secret_survives_witness:
  "redact_detail (\<lambda>s. s) (JObj [(''account'', JObj [(''password'', JStr ''hunter2'')])])
     = [(''account'', JObj [(''password'', JStr ''hunter2'')])]"
proof -
  have k: "str_lower ''account'' \<notin> set DROP_KEYS" "str_lower ''account'' \<notin> set PASSWORD_KEYS"
    "str_lower ''account'' \<notin> set TOKEN_KEYS" by code_simp+
  from nested_secret_survives[OF k, of "\<lambda>s. s" "''hunter2''"] show ?thesis by blast
qed

lemma redact_email_password:
  assumes "w \<noteq> []"
  shows "redact_detail H (JObj [(''email'', JStr e), (''password'', JStr w)]) =
      [(''email'', JStr e), (''password_sha256'', JStr (sha256_norm H (JStr w))), (''password_masked'', JStr (mask_secret (JStr w)))]"
proof -
  have k: "clean_key ''email''" "str_lower ''password'' \<notin> set DROP_KEYS" "str_lower ''password'' \<in> set PASSWORD_KEYS"
    by code_simp+
  from assms have "truthy (JStr w)" by simp
  with k show ?thesis by (simp add: redact_item_clean redact_item_password del: redact_item.simps truthy.simps)
qed

section \<open>Deduplication\<close>

lemma join_int_str_first:
  assumes "join ''|'' (int_str a # xs) = join ''|'' (int_str b # ys)" "xs \<noteq> []" "ys \<noteq> []"
  shows "a = b"
proof -
  from assms(2,3) have "int_str a @ CHR ''|'' # join ''|'' xs = int_str b @ CHR ''|'' # join ''|'' ys"
    using assms(1) by (cases xs; cases ys) (simp_all add: join_Cons_Cons)
  moreover have "takeWhile (\<lambda>c. c \<noteq> CHR ''|'') (int_str i @ CHR ''|'' # s) = int_str i" for i s
    using int_str_no_bar[of i] by (subst takeWhile_append2) auto
  ultimately have "int_str a = int_str b" by metis
  then show ?thesis by (rule int_str_inj)
qed

text \<open>Findings of two tenants never share a deduplication key, for a hash without a collision on the two texts.\<close>

theorem exposure_dedup_scoped:
  assumes "dedup_key H t a d = dedup_key H t' a' d'"
    and "H (join ''|'' (dedup_material t a d)) = H (join ''|'' (dedup_material t' a' d'))
      \<Longrightarrow> join ''|'' (dedup_material t a d) = join ''|'' (dedup_material t' a' d')"
  shows "t = t'"
proof -
  from assms have "join ''|'' (dedup_material t a d) = join ''|'' (dedup_material t' a' d')"
    by (simp add: dedup_key_def)
  moreover have "\<exists>xs. dedup_material i b e = int_str i # xs \<and> xs \<noteq> []" for i b e
    by (simp add: dedup_material_def)
  ultimately show ?thesis using join_int_str_first by metis
qed

theorem exposure_dedup_scoped_witness:
  "dedup_key (\<lambda>s. s) 1 ''credential_exposure'' [(''email'', JStr ''A@b.com '')]
    = dedup_key (\<lambda>s. s) 1 ''credential_exposure'' [(''email'', JStr ''a@b.com'')] \<and> (1 :: int) = 1"
proof -
  have e: "dedup_key (\<lambda>s. s) 1 ''credential_exposure'' [(''email'', JStr ''A@b.com '')]
    = dedup_key (\<lambda>s. s) 1 ''credential_exposure'' [(''email'', JStr ''a@b.com'')]" by code_simp
  from exposure_dedup_scoped[OF e] e show ?thesis by (simp add: dedup_key_def)
qed

text \<open>The password fingerprint is taken of the lower-case, stripped password: two different passwords that agree up
  to case and surrounding blanks get one fingerprint, so their leaks are one finding and count as one password.\<close>

theorem password_case_conflated:
  assumes "str_lower (str_strip p) = str_lower (str_strip q)" "p \<noteq> []" "q \<noteq> []"
  shows "dedup_key H t ''credential_exposure'' (redact_detail H (JObj [(''email'', JStr e), (''password'', JStr p)]))
     = dedup_key H t ''credential_exposure'' (redact_detail H (JObj [(''email'', JStr e), (''password'', JStr q)]))"
proof -
  have "redact_detail H (JObj [(''email'', JStr e), (''password'', JStr w)]) =
      [(''email'', JStr e), (''password_sha256'', JStr (H (str_lower (str_strip w)))), (''password_masked'', JStr (mask_secret (JStr w)))]"
    if "w \<noteq> []" for w
    using that redact_email_password[of w H e] by (simp add: sha256_norm_def norm_value_def text_of_def jor_def)
  with assms show ?thesis by (simp add: dedup_key_def dedup_material_def)
qed

theorem password_case_conflated_witness:
  "''Secret1'' \<noteq> ''secret1'' \<and>
   dedup_key (\<lambda>s. s) 1 ''credential_exposure'' (redact_detail (\<lambda>s. s) (JObj [(''email'', JStr ''a@b.com''), (''password'', JStr ''Secret1'')]))
     = dedup_key (\<lambda>s. s) 1 ''credential_exposure'' (redact_detail (\<lambda>s. s) (JObj [(''email'', JStr ''a@b.com''), (''password'', JStr ''secret1'')]))"
proof -
  have "str_lower (str_strip ''Secret1'') = str_lower (str_strip ''secret1'')" by code_simp
  from password_case_conflated[OF this, of "\<lambda>s. s" 1 "''a@b.com''"] show ?thesis by simp
qed

section \<open>Combo lists\<close>

definition effective_line :: "string \<Rightarrow> bool" where
  "effective_line raw = (str_strip raw \<noteq> [] \<and> hd (str_strip raw) \<noteq> CHR ''#'')"

lemma combolist_line_None: "combolist_line i raw = None \<longleftrightarrow> \<not> effective_line raw"
  by (auto simp: combolist_line_def effective_line_def Let_def split: option.splits)

lemma combolist_line_number: "combolist_line i raw = Some r \<Longrightarrow> jget r ''_line'' = JInt (int i + 1)"
  by (auto simp: combolist_line_def Let_def error_rec_def split: option.splits if_splits)

lemma combolist_lines_numbers:
  "map (\<lambda>r. jget r ''_line'') (combolist_lines i ls)
     = map (\<lambda>j. JInt (int (i + j) + 1)) (filter (\<lambda>j. effective_line (ls ! j)) [0..<length ls])"
proof (induction ls arbitrary: i)
  case (Cons l ls)
  have "[0..<length (l # ls)] = 0 # map Suc [0..<length ls]" by (simp add: upt_conv_Cons map_Suc_upt del: upt_Suc)
  then have "map (\<lambda>j. JInt (int (i + j) + 1)) (filter (\<lambda>j. effective_line ((l # ls) ! j)) [0..<length (l # ls)])
     = (if effective_line l then [JInt (int i + 1)] else [])
       @ map (\<lambda>j. JInt (int (Suc i + j) + 1)) (filter (\<lambda>j. effective_line (ls ! j)) [0..<length ls])"
    by (simp add: filter_map comp_def)
  moreover have "map (\<lambda>r. jget r ''_line'') (case combolist_line i l of None \<Rightarrow> [] | Some r \<Rightarrow> [r])
     = (if effective_line l then [JInt (int i + 1)] else [])"
    using combolist_line_None[of i l] combolist_line_number[of i l] by (auto split: option.split)
  ultimately show ?case using Cons by simp
qed simp

text \<open>Every line of a combo list that is neither blank nor a comment gives exactly one record, a credential or an
  error, which carries the number of its line; no other record is yielded.\<close>

theorem combolist_accounts_for_lines:
  "map (\<lambda>r. jget r ''_line'') (parse_combolist text)
     = map (\<lambda>j. JInt (int j + 1)) (filter (\<lambda>j. effective_line (splitlines text ! j)) [0..<length (splitlines text)])"
  using combolist_lines_numbers[of 0 "splitlines text"] by (simp add: parse_combolist_def)

lemma splitlines_aux_single:
  "list_all (\<lambda>c. \<not> is_linebreak c) s \<Longrightarrow> splitlines_aux cur s = (if rev cur @ s = [] then [] else [rev cur @ s])"
  by (induction s arbitrary: cur) auto

lemma partition_first:
  "c \<notin> set a \<Longrightarrow> partition_before c (a @ c # b) = a"
  "c \<notin> set a \<Longrightarrow> partition_after c (a @ c # b) = b"
  by (induction a) (auto simp: partition_before_def partition_after_def)

text \<open>A line \<open>email;password\<close> is split at a colon when there is one, so a password with a colon is cut there:
  what precedes the colon is kept, in clear, as part of the stored e-mail address.\<close>

theorem combolist_semicolon_leak:
  assumes "list_all (\<lambda>c. \<not> is_linebreak c) (e @ '';'' @ p1 @ '':'' @ p2)"
    and "str_strip (e @ '';'' @ p1 @ '':'' @ p2) = e @ '';'' @ p1 @ '':'' @ p2"
    and "hd (e @ '';'') \<noteq> CHR ''#''" "CHR ''@'' \<in> set e" "CHR '':'' \<notin> set e" "CHR '':'' \<notin> set p1" "p2 \<noteq> []"
  shows "\<exists>r. parse_combolist (e @ '';'' @ p1 @ '':'' @ p2) = [r]
    \<and> jget (redact_detail H (jget r ''detail'')) ''email'' = JStr (str_lower (str_strip (e @ '';'' @ p1)))
    \<and> jget (redact_detail H (jget r ''detail'')) ''password_sha256'' = JStr (H (str_lower (str_strip p2)))"
proof -
  define line where "line = e @ '';'' @ p1 @ '':'' @ p2"
  have line: "line = (e @ '';'' @ p1) @ CHR '':'' # p2" by (simp add: line_def)
  have "CHR '':'' \<notin> set (e @ '';'' @ p1)" using assms by simp
  note parts = partition_first[OF this, of p2, folded line]
  have "line \<noteq> []" "hd line \<noteq> CHR ''#''" using assms(3,4) by (cases e; auto simp: line_def)+
  then have eff: "str_strip line \<noteq> []" "hd (str_strip line) \<noteq> CHR ''#''" "str_strip line = line"
    using assms(2)[folded line_def] by simp_all
  define em where "em = norm_value (JStr (e @ '';'' @ p1))"
  define r where "r = AList.update ''_line'' (JInt 1) (rec_credential (e @ '';'' @ p1) p2 [])"
  have "combolist_sep line = Some CHR '':''" by (simp add: combolist_sep_def line)
  then have "combolist_line 0 line = Some r"
    using eff parts assms(4) by (simp add: combolist_line_def Let_def r_def)
  moreover have "splitlines line = [line]"
    using splitlines_aux_single[of line "[]"] assms(1) \<open>line \<noteq> []\<close> by (simp add: splitlines_def line_def)
  ultimately have "parse_combolist line = [r]" by (simp add: parse_combolist_def)
  moreover have "jget r ''detail'' = JObj [(''email'', JStr em), (''password'', JStr p2)]"
    using assms(7) by (simp add: r_def rec_credential_def em_def dict_merge_def)
  ultimately show ?thesis
    unfolding line_def[symmetric] using redact_email_password[OF assms(7), of H em]
    by (simp add: em_def norm_value_def text_of_def jor_def sha256_norm_def del: redact_detail.simps)
qed

theorem combolist_semicolon_leak_witness:
  "\<exists>r. parse_combolist ''bob@acme.com;s3cr:et'' = [r]
    \<and> jget (redact_detail (\<lambda>s. s) (jget r ''detail'')) ''email'' = JStr ''bob@acme.com;s3cr''"
proof -
  have "list_all (\<lambda>c. \<not> is_linebreak c) (''bob@acme.com'' @ '';'' @ ''s3cr'' @ '':'' @ ''et'')"
    "str_strip (''bob@acme.com'' @ '';'' @ ''s3cr'' @ '':'' @ ''et'') = ''bob@acme.com'' @ '';'' @ ''s3cr'' @ '':'' @ ''et''"
    "str_lower (str_strip (''bob@acme.com'' @ '';'' @ ''s3cr'')) = ''bob@acme.com;s3cr''"
    by code_simp+
  with combolist_semicolon_leak[of "''bob@acme.com''" "''s3cr''" "''et''" "\<lambda>s. s"] show ?thesis by auto
qed

end
