(* ===== verification/Exposure.thy ===== *)
theory Exposure
  imports ExposureIngest Auth Retention
begin

text \<open>
  Exposure findings: the risk score (\<open>app/risk.py\<close>), the credential dossiers
  (\<open>app/credential_intel.py\<close>), and the intake, import, rollback and triage routes
  (\<open>app/routers/exposure_routes.py\<close>). The session is the working tables and the findings added but
  not flushed: the factory sets \<open>autoflush=False\<close>, so queries do not see those.
\<close>

section \<open>Tables\<close>

record ingest_batch =
  ib_id :: int
  ib_tenant_id :: int
  ib_source :: string
  ib_original_filename :: string
  ib_source_file_hash :: string
  ib_parser :: string
  ib_parser_version :: string
  ib_record_count :: int
  ib_created_count :: int
  ib_deduped_count :: int
  ib_error_count :: int
  ib_status :: string
  ib_created_by_user_id :: "int option"
  ib_created_at :: time

record cred_identity =
  ci_id :: int
  ci_tenant_id :: int
  ci_identity_hash :: string
  ci_email :: string
  ci_domain :: string
  ci_leak_count :: int
  ci_password_hashes :: "json list"
  ci_sources :: "json list"
  ci_stealer_families :: "json list"
  ci_first_seen :: time
  ci_last_seen :: time
  ci_vip_asset_id :: "int option"
  ci_max_risk :: int
  ci_status :: string

record exposure_db =
  xd_findings :: "finding list"
  xd_batches :: "ingest_batch list"
  xd_identities :: "cred_identity list"
  xd_assets :: "asset list"
  xd_audit :: "audit_entry list"

record xsession =
  xs_db :: exposure_db
  xs_pending :: "finding list"

section \<open>Risk\<close>

text \<open>
  What the code relies on from outside: SHA-256 in hexadecimal, \<open>json.loads\<close> (the text of its error
  or the value), and how the database driver takes a dynamically typed value for a text, an integer
  or a timestamp column (it may refuse it). The points of a factor are \<open>int(round(intensity * weight))\<close> in double arithmetic with a configured
  weight: \<open>rk_points\<close> gives them for a factor's label and its intensity in percent. \<open>rk_age\<close> is the
  text \<open>f"{age:.0f}d"\<close> of an age in microseconds.
\<close>

record exposure_env =
  rk_points :: "string \<Rightarrow> int \<Rightarrow> int"
  rk_age :: "int \<Rightarrow> string"
  en_hash :: "string \<Rightarrow> string"
  en_loads :: "string \<Rightarrow> string + json"
  en_text :: "json \<Rightarrow> string res"
  en_int :: "json \<Rightarrow> int option res"
  en_time :: "json \<Rightarrow> time option res"

definition EXPOSURE_INTENSITY :: "(string \<times> int) list" where
  "EXPOSURE_INTENSITY = [(''credential_exposure'', 90), (''secret_exposure'', 100), (''identity_exposure'', 50),
     (''brand_exposure'', 45), (''infrastructure_exposure'', 65), (''source_code_exposure'', 65)]"

definition CRIT_INTENSITY :: "(string \<times> int) list" where
  "CRIT_INTENSITY = [(''low'', 20), (''medium'', 45), (''high'', 75), (''critical'', 100)]"

definition VERIFY_INTENSITY :: "(string \<times> int) list" where
  "VERIFY_INTENSITY = [(''new'', 30), (''triaging'', 45), (''confirmed'', 100), (''mitigated'', 50),
     (''closed'', 40), (''duplicate'', 20), (''false_positive'', 0)]"

definition lookup_or :: "'a \<Rightarrow> (string \<times> 'a) list \<Rightarrow> string \<Rightarrow> 'a" where
  "lookup_or d t k = (case map_of t k of None \<Rightarrow> d | Some v \<Rightarrow> v)"

definition band_of :: "int \<Rightarrow> string" where
  "band_of score = (if score \<ge> 90 then ''critical'' else if score \<ge> 70 then ''high''
     else if score \<ge> 40 then ''medium'' else ''low'')"

definition day :: int where
  "day = 86400000000"

definition freshness_intensity :: "exposure_env \<Rightarrow> int \<Rightarrow> int \<times> string" where
  "freshness_intensity E age =
     (if age \<le> 7 * day then 100 else if age \<le> 30 * day then 70 else if age \<le> 90 * day then 40 else 15, rk_age E age)"

definition sensitivity :: "json dict \<Rightarrow> int \<times> string \<times> json" where
  "sensitivity d = (let has = (\<lambda>k. k \<in> set (dict_keys d)) in
     if has ''fingerprint'' \<or> has ''secret_masked'' then (100, ''secret'', JStr ''exposed secret/token fingerprint'')
     else if has ''password_sha256'' \<or> has ''password_masked'' then (85, ''credential'', JStr ''leaked credential'')
     else if has ''email'' \<or> has ''person_label'' then (40, ''pii'', JStr ''personal data (PII)'')
     else (20, ''generic'', JNull))"

definition admiralty_intensity :: "string \<Rightarrow> string \<Rightarrow> int" where
  "admiralty_intensity rel cred =
     (let rel_rank = (case find_from ''ABCDEF'' (if rel \<noteq> [] then rel else ''F'') 0 of None \<Rightarrow> 5 | Some i \<Rightarrow> int i);
          cred_rank = (case parse_int cred of None \<Rightarrow> 5 | Some n \<Rightarrow> n - 1)
      in max 0 (100 - (rel_rank + cred_rank) * 10))"

definition risk_factor :: "exposure_env \<Rightarrow> string \<Rightarrow> int \<Rightarrow> string \<Rightarrow> json \<Rightarrow> string \<times> int \<times> string \<times> json" where
  "risk_factor E label intensity value reason = (label, rk_points E label intensity, value, reason)"

definition factor_json :: "string \<times> int \<times> string \<times> json \<Rightarrow> json" where
  "factor_json f = (case f of (label, points, value, reason) \<Rightarrow>
     JObj [(''label'', JStr label), (''value'', JStr value), (''points'', JInt points), (''reason'', reason)])"

definition risk_factors :: "exposure_env \<Rightarrow> time \<Rightarrow> finding \<Rightarrow> asset option \<Rightarrow> (string \<times> int \<times> string \<times> json) list" where
  "risk_factors E now f a =
     (let crit = (case a of None \<Rightarrow> [] | Some x \<Rightarrow> as_criticality x);
          fresh = freshness_intensity E (max 0 (now - fd_last_seen f));
          sens = sensitivity (fd_detail f)
      in [risk_factor E ''Asset criticality'' (lookup_or 30 CRIT_INTENSITY crit) (if crit \<noteq> [] then crit else ''n/a'')
            (if crit = ''critical'' then JStr ''VIP asset'' else JNull),
          risk_factor E ''Exposure type'' (lookup_or 50 EXPOSURE_INTENSITY (fd_exposure_type f)) (fd_exposure_type f) JNull,
          risk_factor E ''Source reliability'' (admiralty_intensity (fd_source_reliability f) (fd_info_credibility f))
            (fd_source_reliability f @ fd_info_credibility f) (JStr ''Admiralty code''),
          risk_factor E ''Freshness'' (fst fresh) (snd fresh) JNull,
          risk_factor E ''Verification'' (lookup_or 30 VERIFY_INTENSITY (fd_status f)) (fd_status f) JNull,
          risk_factor E ''Sensitivity'' (fst sens) (fst (snd sens)) (snd (snd sens))])"

definition risk_compute :: "exposure_env \<Rightarrow> time \<Rightarrow> finding \<Rightarrow> asset option \<Rightarrow> int \<times> json dict" where
  "risk_compute E now f a =
     (if fd_status f = ''false_positive'' then
        (0, [(''score'', JInt 0), (''band'', JStr ''low''),
             (''factors'', JList [factor_json (''Verification'', 0, ''false_positive'', JStr ''marked as false positive'')])])
      else
        let factors = risk_factors E now f a;
            score = max 0 (min 100 (sum_list (map (\<lambda>(l, p, v, r). p) factors)))
        in (score, [(''score'', JInt score), (''band'', JStr (band_of score)),
              (''factors'', JList (map factor_json factors))]))"

definition apply_risk :: "exposure_env \<Rightarrow> time \<Rightarrow> exposure_db \<Rightarrow> int \<Rightarrow> finding \<Rightarrow> finding" where
  "apply_risk E now d tid f =
     (let asset = (case fd_asset_id f of
            None \<Rightarrow> None
          | Some i \<Rightarrow> if i = 0 then None else
              (case find_row as_id i (xd_assets d) of None \<Rightarrow> None
               | Some a \<Rightarrow> if as_tenant_id a = tid then Some a else None));
          bd = risk_compute E now f asset
      in f\<lparr>fd_risk_score := fst bd, fd_detail := AList.update ''risk_breakdown'' (JObj (snd bd)) (fd_detail f)\<rparr>)"

section \<open>Flush\<close>

definition exposure_row_ok :: "asset list \<Rightarrow> finding \<Rightarrow> bool" where
  "exposure_row_ok assets f =
     (fd_exposure_type f \<in> {''identity_exposure'', ''credential_exposure'', ''brand_exposure'',
        ''infrastructure_exposure'', ''secret_exposure'', ''source_code_exposure''}
      \<and> fd_source_reliability f \<in> {''A'', ''B'', ''C'', ''D'', ''E'', ''F''}
      \<and> fd_info_credibility f \<in> {''1'', ''2'', ''3'', ''4'', ''5'', ''6''}
      \<and> fd_severity f \<in> {''low'', ''medium'', ''high'', ''critical''}
      \<and> fd_status f \<in> {''new'', ''triaging'', ''confirmed'', ''mitigated'', ''closed'', ''false_positive'', ''duplicate''}
      \<and> (case fd_asset_id f of None \<Rightarrow> True | Some i \<Rightarrow> i \<in> as_id ` set assets))"

definition exposure_key :: "finding \<Rightarrow> int \<times> string" where
  "exposure_key f = (fd_tenant_id f, fd_dedup_key f)"

fun flush_findings :: "asset list \<Rightarrow> finding list \<Rightarrow> finding list \<Rightarrow> finding list res" where
  "flush_findings assets rows [] = Inr rows"
| "flush_findings assets rows (f # fs) =
     (let f' = f\<lparr>fd_id := next_id fd_id rows\<rparr> in
      if \<not> exposure_row_ok assets f' \<or> violates (\<lambda>_. True) exposure_key f' rows then Inl IntegrityError
      else flush_findings assets (rows @ [f']) fs)"

definition flush_session :: "xsession \<Rightarrow> xsession res" where
  "flush_session s = bindr (flush_findings (xd_assets (xs_db s)) (xd_findings (xs_db s)) (xs_pending s)) (\<lambda>rows.
     Inr \<lparr>xs_db = (xs_db s)\<lparr>xd_findings := rows\<rparr>, xs_pending = []\<rparr>)"

section \<open>Credential dossiers\<close>

definition identity_hash :: "exposure_env \<Rightarrow> int \<Rightarrow> string \<Rightarrow> string" where
  "identity_hash E tid email = en_hash E (int_str tid @ ''|'' @ norm_value (JStr email))"

definition value_hash :: "exposure_env \<Rightarrow> string \<Rightarrow> string" where
  "value_hash E v = en_hash E (norm_value (JStr v))"

definition add_distinct :: "json list \<Rightarrow> json \<Rightarrow> json list" where
  "add_distinct lst val = (if truthy val \<and> val \<notin> set lst then lst @ [val] else lst)"

definition new_identity :: "exposure_env \<Rightarrow> time \<Rightarrow> int \<Rightarrow> string \<Rightarrow> cred_identity list \<Rightarrow> cred_identity" where
  "new_identity E now tid email rows = \<lparr>ci_id = next_id ci_id rows, ci_tenant_id = tid,
     ci_identity_hash = identity_hash E tid email, ci_email = email, ci_domain = partition_after CHR ''@'' email,
     ci_leak_count = 0, ci_password_hashes = [], ci_sources = [], ci_stealer_families = [], ci_first_seen = now,
     ci_last_seen = now, ci_vip_asset_id = None, ci_max_risk = 0, ci_status = ''new''\<rparr>"

definition find_identity :: "exposure_env \<Rightarrow> int \<Rightarrow> string \<Rightarrow> cred_identity list \<Rightarrow> cred_identity option" where
  "find_identity E tid email rows =
     find (\<lambda>c. ci_tenant_id c = tid \<and> ci_identity_hash c = identity_hash E tid email) rows"

text \<open>The columns the finding contributes to.\<close>

definition aggregated :: "time \<Rightarrow> finding \<Rightarrow> string \<Rightarrow> cred_identity \<Rightarrow> cred_identity" where
  "aggregated now f outcome ci = (let d = fd_detail f in
     ci\<lparr>ci_leak_count := ci_leak_count ci + (if outcome = ''created'' then 1 else 0),
        ci_password_hashes := add_distinct (ci_password_hashes ci) (jget d ''password_sha256''),
        ci_sources := add_distinct (ci_sources ci) (jor (jget d ''source_kind'') (JStr (fd_source f))),
        ci_stealer_families := add_distinct (ci_stealer_families ci) (jget d ''stealer_family''),
        ci_last_seen := now,
        ci_max_risk := max (ci_max_risk ci) (fd_risk_score f)\<rparr>)"

definition vip_asset :: "exposure_env \<Rightarrow> int \<Rightarrow> string \<Rightarrow> asset list \<Rightarrow> asset option" where
  "vip_asset E tid email assets = find (\<lambda>a. as_tenant_id a = tid \<and> as_value_hash a = value_hash E email
     \<and> as_asset_type a \<in> {''identity'', ''email''}) assets"

text \<open>
  \<open>update_identity\<close> ends with a flush, which inserts what the session holds. A first match with a
  monitored asset is recorded in the audit trail; the alert itself is best-effort output.
\<close>

definition vip_audit :: "time \<Rightarrow> principal \<Rightarrow> int \<Rightarrow> asset \<Rightarrow> cred_identity \<Rightarrow> audit_entry" where
  "vip_audit now p tid a ci = audit_row now (pr_subject p) (Some (pr_role p)) ''credential.vip_hit''
     (Some ''credential_identity'') (Some (int_str (ci_id ci))) (Some tid) (pr_user_id p) None
     [(''asset_id'', JInt (as_id a)), (''domain'', JStr (ci_domain ci)), (''leak_count'', JInt (ci_leak_count ci))]"

definition identity_for ::
  "exposure_env \<Rightarrow> time \<Rightarrow> int \<Rightarrow> string \<Rightarrow> cred_identity list \<Rightarrow> cred_identity \<times> cred_identity list" where
  "identity_for E now tid email ids = (case find_identity E tid email ids of
     Some c \<Rightarrow> (c, ids)
   | None \<Rightarrow> let c = new_identity E now tid email ids in (c, ids @ [c]))"

definition vip_hit :: "exposure_env \<Rightarrow> int \<Rightarrow> string \<Rightarrow> cred_identity \<Rightarrow> asset list \<Rightarrow> asset option" where
  "vip_hit E tid email ci assets = (if ci_vip_asset_id ci = None then vip_asset E tid email assets else None)"

definition dossier :: "time \<Rightarrow> finding \<Rightarrow> string \<Rightarrow> asset option \<Rightarrow> cred_identity \<Rightarrow> cred_identity" where
  "dossier now f outcome hit ci = (aggregated now f outcome ci)\<lparr>ci_vip_asset_id :=
     (case hit of None \<Rightarrow> ci_vip_asset_id ci | Some a \<Rightarrow> Some (as_id a))\<rparr>"

definition with_dossier ::
  "exposure_env \<Rightarrow> time \<Rightarrow> principal \<Rightarrow> int \<Rightarrow> string \<Rightarrow> finding \<Rightarrow> string \<Rightarrow> exposure_db \<Rightarrow> exposure_db" where
  "with_dossier E now p tid email f outcome d =
     (let (ci, ids) = identity_for E now tid email (xd_identities d);
          hit = vip_hit E tid email ci (xd_assets d);
          ci' = dossier now f outcome hit ci
      in d\<lparr>xd_identities := upd_row ci_id (ci_id ci) (\<lambda>_. ci') ids,
           xd_audit := xd_audit d @ (case hit of None \<Rightarrow> [] | Some a \<Rightarrow> [vip_audit now p tid a ci'])\<rparr>)"

definition update_identity ::
  "exposure_env \<Rightarrow> time \<Rightarrow> principal \<Rightarrow> int \<Rightarrow> finding \<Rightarrow> string \<Rightarrow> xsession \<Rightarrow> xsession res" where
  "update_identity E now p tid f outcome s =
     (let email = norm_value (jget (fd_detail f) ''email'') in
      if email = [] \<or> CHR ''@'' \<notin> set email then Inr s
      else flush_session (s\<lparr>xs_db := with_dossier E now p tid email f outcome (xs_db s)\<rparr>))"

definition reuse_partner_count :: "int \<Rightarrow> cred_identity \<Rightarrow> cred_identity list \<Rightarrow> nat" where
  "reuse_partner_count tid ci ids =
     (let hashes = set (ci_password_hashes ci) in
      if hashes = {} then 0
      else length (filter (\<lambda>c. ci_tenant_id c = tid \<and> ci_id c \<noteq> ci_id ci
             \<and> (\<exists>h \<in> set (ci_password_hashes c). h \<in> hashes)) ids))"

section \<open>Persisting a record\<close>

definition SOURCE_DEFAULTS :: "(string \<times> string \<times> string) list" where
  "SOURCE_DEFAULTS = [
    (''stealer'', ''B'', ''2''), (''infostealer'', ''B'', ''2''), (''breach'', ''B'', ''2''),
    (''paste'', ''C'', ''3''), (''github'', ''C'', ''2''), (''repo'', ''C'', ''2''),
    (''osint'', ''D'', ''4''), (''manual_intake'', ''C'', ''3''), (''authorized_upload'', ''C'', ''3'')]"

definition reliability_for :: "string \<Rightarrow> json \<Rightarrow> json \<Rightarrow> json \<times> json" where
  "reliability_for source rel cred =
     (let (d_rel, d_cred) = lookup_or (''F'', ''6'') SOURCE_DEFAULTS (str_lower source)
      in (jor rel (JStr d_rel), jor cred (JStr d_cred)))"

definition known_exposure :: "int \<Rightarrow> string \<Rightarrow> finding list \<Rightarrow> finding option" where
  "known_exposure tid key rows = find (\<lambda>f. fd_tenant_id f = tid \<and> fd_dedup_key f = key) rows"

text \<open>
  A seen finding: \<open>last_seen\<close>, the counter of sightings in its detail, and its risk anew. The
  counter is \<open>int\<close> of whatever the detail holds under \<open>sightings\<close>.
\<close>

definition sighted :: "exposure_env \<Rightarrow> time \<Rightarrow> exposure_db \<Rightarrow> int \<Rightarrow> finding \<Rightarrow> finding res" where
  "sighted E now d tid f =
     bindr (py_int (case map_of (fd_detail f) ''sightings'' of None \<Rightarrow> JInt 1 | Some v \<Rightarrow> v)) (\<lambda>n.
       Inr (apply_risk E now d tid (f\<lparr>fd_last_seen := now,
         fd_detail := AList.update ''sightings'' (JInt (n + 1)) (fd_detail f)\<rparr>)))"

definition new_exposure ::
  "exposure_env \<Rightarrow> time \<Rightarrow> principal \<Rightarrow> int \<Rightarrow> string \<Rightarrow> string \<Rightarrow> ingest_batch option \<Rightarrow> json dict \<Rightarrow> json dict
    \<Rightarrow> time option \<Rightarrow> finding res" where
  "new_exposure E now p tid source etype ingest rec detail observed =
     (let (rel, cred) = reliability_for source (jget rec ''source_reliability'') (jget rec ''info_credibility'') in
      bindr (en_int E (jget rec ''asset_id'')) (\<lambda>asset.
      bindr (en_text E (jor (jget rec ''title'') (JStr etype))) (\<lambda>title.
      bindr (en_text E rel) (\<lambda>rel. bindr (en_text E cred) (\<lambda>cred.
      bindr (en_text E (jor (jget rec ''severity'') (JStr ''medium''))) (\<lambda>severity.
      bindr (en_int E (jget rec ''_line'')) (\<lambda>line.
        Inr \<lparr>fd_id = 0, fd_tenant_id = tid, fd_exposure_type = etype, fd_asset_id = asset, fd_title = title,
          fd_source = source, fd_source_reliability = rel, fd_info_credibility = cred, fd_severity = severity,
          fd_status = ''new'', fd_observed_at = observed, fd_first_seen = now, fd_last_seen = now,
          fd_dedup_key = dedup_key (en_hash E) tid etype detail, fd_detail = detail, fd_redacted = True, fd_risk_score = 0,
          fd_ingest_id = map_option ib_id ingest, fd_record_number = line,
          fd_parser_version = map_option ib_parser_version ingest, fd_created_by_user_id = pr_user_id p,
          fd_created_at = now\<rparr>)))))))"

definition persist_record ::
  "exposure_env \<Rightarrow> time \<Rightarrow> principal \<Rightarrow> int \<Rightarrow> string \<Rightarrow> ingest_batch option \<Rightarrow> string \<Rightarrow> time option res
    \<Rightarrow> json dict \<Rightarrow> xsession \<Rightarrow> (string \<times> finding \<times> xsession) res" where
  "persist_record E now p tid source ingest etype observed rec s =
     (let detail = redact_detail (en_hash E) (jor (jget rec ''detail'') (JObj []));
          d = xs_db s
      in case known_exposure tid (dedup_key (en_hash E) tid etype detail) (xd_findings d) of
        Some f \<Rightarrow>
          bindr (sighted E now d tid f) (\<lambda>f'.
            let s1 = s\<lparr>xs_db := d\<lparr>xd_findings := upd_row fd_id (fd_id f) (\<lambda>_. f') (xd_findings d)\<rparr>\<rparr> in
            bindr (if etype = ''credential_exposure'' then update_identity E now p tid f' ''deduped'' s1 else Inr s1)
              (\<lambda>s2. Inr (''deduped'', f', s2)))
      | None \<Rightarrow>
          bindr (bindr observed (new_exposure E now p tid source etype ingest rec detail)) (\<lambda>f0.
            let f = apply_risk E now d tid f0; s1 = s\<lparr>xs_pending := xs_pending s @ [f]\<rparr> in
            bindr (if etype = ''credential_exposure'' then update_identity E now p tid f ''created'' s1 else Inr s1)
              (\<lambda>s2. Inr (''created'', f, s2))))"

definition commit_session :: "xsession \<Rightarrow> exposure_db res" where
  "commit_session s = bindr (flush_session s) (\<lambda>s'. Inr (xs_db s'))"

section \<open>Routes\<close>

definition EXPOSURE_MVP_TYPES :: "string list" where
  "EXPOSURE_MVP_TYPES = [''identity_exposure'', ''credential_exposure'']"

definition x_audit ::
  "time \<Rightarrow> principal \<Rightarrow> int \<Rightarrow> http_request option \<Rightarrow> string \<Rightarrow> int \<Rightarrow> json dict \<Rightarrow> exposure_db \<Rightarrow> exposure_db" where
  "x_audit now p tid request action target detail d =
     d\<lparr>xd_audit := xd_audit d @ [audit_row now (pr_subject p) (Some (pr_role p)) action (Some ''exposure'')
        (Some (int_str target)) (Some tid) (pr_user_id p) request detail]\<rparr>"

definition owned_asset :: "exposure_db \<Rightarrow> int \<Rightarrow> int \<Rightarrow> asset res" where
  "owned_asset d asset_id tid = (case find_row as_id asset_id (xd_assets d) of
     None \<Rightarrow> Inl (HTTPException 404)
   | Some a \<Rightarrow> if as_tenant_id a \<noteq> tid then Inl (HTTPException 404) else Inr a)"

definition owned_finding :: "exposure_db \<Rightarrow> int \<Rightarrow> int \<Rightarrow> finding res" where
  "owned_finding d finding_id tid = (case find_row fd_id finding_id (xd_findings d) of
     None \<Rightarrow> Inl (HTTPException 404)
   | Some f \<Rightarrow> if fd_tenant_id f \<noteq> tid then Inl (HTTPException 404) else Inr f)"

definition owned_ingest :: "exposure_db \<Rightarrow> int \<Rightarrow> int \<Rightarrow> ingest_batch res" where
  "owned_ingest d ingest_id tid = (case find_row ib_id ingest_id (xd_batches d) of
     None \<Rightarrow> Inl (HTTPException 404)
   | Some b \<Rightarrow> if ib_tenant_id b \<noteq> tid then Inl (HTTPException 404) else Inr b)"

record intake =
  it_exposure_type :: string
  it_title :: "string option"
  it_source :: string
  it_asset_id :: "int option"
  it_source_reliability :: "string option"
  it_info_credibility :: "string option"
  it_severity :: "string option"
  it_observed_at :: "time option"
  it_detail :: "json dict"

text \<open>The request schemas: the closed vocabularies of their fields.\<close>

definition opt_in :: "string option \<Rightarrow> string list \<Rightarrow> bool" where
  "opt_in v xs = (case v of None \<Rightarrow> True | Some x \<Rightarrow> x \<in> set xs)"

definition RELIABILITIES :: "string list" where
  "RELIABILITIES = [''A'', ''B'', ''C'', ''D'', ''E'', ''F'']"

definition CREDIBILITIES :: "string list" where
  "CREDIBILITIES = [''1'', ''2'', ''3'', ''4'', ''5'', ''6'']"

definition SEVERITIES :: "string list" where
  "SEVERITIES = [''low'', ''medium'', ''high'', ''critical'']"

definition FINDING_STATUSES :: "string list" where
  "FINDING_STATUSES = [''new'', ''triaging'', ''confirmed'', ''mitigated'', ''closed'', ''false_positive'', ''duplicate'']"

definition valid_intake :: "intake \<Rightarrow> bool" where
  "valid_intake q = (it_exposure_type q \<in> {''identity_exposure'', ''credential_exposure''}
     \<and> opt_in (it_source_reliability q) RELIABILITIES \<and> opt_in (it_info_credibility q) CREDIBILITIES
     \<and> opt_in (it_severity q) SEVERITIES)"

definition json_opt :: "string option \<Rightarrow> json" where
  "json_opt v = (case v of None \<Rightarrow> JNull | Some s \<Rightarrow> JStr s)"

definition intake_record :: "intake \<Rightarrow> json dict" where
  "intake_record q = [(''exposure_type'', JStr (it_exposure_type q)), (''title'', json_opt (it_title q)),
     (''detail'', JObj (it_detail q)), (''asset_id'', case it_asset_id q of None \<Rightarrow> JNull | Some i \<Rightarrow> JInt i),
     (''severity'', json_opt (it_severity q)),
     (''source_reliability'', json_opt (it_source_reliability q)),
     (''info_credibility'', json_opt (it_info_credibility q))]"

definition intake_finding ::
  "exposure_env \<Rightarrow> time \<Rightarrow> principal \<Rightarrow> int \<Rightarrow> http_request option \<Rightarrow> intake \<Rightarrow> exposure_db
    \<Rightarrow> (string \<times> exposure_db) res" where
  "intake_finding E now p tid request q d =
     (if \<not> valid_intake q \<or> it_exposure_type q \<notin> set EXPOSURE_MVP_TYPES then Inl (HTTPException 422)
      else bindr (case it_asset_id q of None \<Rightarrow> Inr () | Some i \<Rightarrow> bindr (owned_asset d i tid) (\<lambda>_. Inr ())) (\<lambda>_.
        bindr (persist_record E now p tid (it_source q) None (it_exposure_type q) (Inr (it_observed_at q)) (intake_record q)
            \<lparr>xs_db = d, xs_pending = []\<rparr>) (\<lambda>(outcome, f, s).
          bindr (commit_session s) (\<lambda>d'.
            let target = (case known_exposure tid (fd_dedup_key f) (xd_findings d') of None \<Rightarrow> 0 | Some g \<Rightarrow> fd_id g) in
            Inr (outcome, x_audit now p tid request ''exposure.intake'' target
              [(''exposure_type'', JStr (fd_exposure_type f)), (''outcome'', JStr outcome)] d')))))"

text \<open>The uploaded file: its bytes are known by their number, their hash and their decoded text.\<close>

record upload =
  up_content_type :: string
  up_size :: int
  up_hash :: string
  up_text :: string
  up_filename :: string

definition IMPORT_ALLOWED_MIME :: "string list" where
  "IMPORT_ALLOWED_MIME = [''text/plain'', ''text/csv'', ''application/json'']"

definition new_batch :: "time \<Rightarrow> principal \<Rightarrow> int \<Rightarrow> string \<Rightarrow> upload \<Rightarrow> exposure_db \<Rightarrow> ingest_batch" where
  "new_batch now p tid parser file d =
     \<lparr>ib_id = next_id ib_id (xd_batches d), ib_tenant_id = tid, ib_source = ''file_import'',
      ib_original_filename = take 512 (up_filename file), ib_source_file_hash = up_hash file, ib_parser = parser,
      ib_parser_version = lookup_or [] PARSER_VERSIONS parser, ib_record_count = 0, ib_created_count = 0,
      ib_deduped_count = 0, ib_error_count = 0, ib_status = ''processing'',
      ib_created_by_user_id = pr_user_id p, ib_created_at = now\<rparr>"

record import_counts =
  ic_total :: int
  ic_created :: int
  ic_deduped :: int
  ic_errors :: int

definition zero_counts :: import_counts where
  "zero_counts = \<lparr>ic_total = 0, ic_created = 0, ic_deduped = 0, ic_errors = 0\<rparr>"

definition counted :: "string \<Rightarrow> import_counts \<Rightarrow> import_counts" where
  "counted outcome c = c\<lparr>ic_total := ic_total c + 1,
     ic_created := ic_created c + (if outcome = ''created'' then 1 else 0),
     ic_deduped := ic_deduped c + (if outcome = ''deduped'' then 1 else 0),
     ic_errors := ic_errors c + (if outcome = ''error'' then 1 else 0)\<rparr>"

definition mvp_type :: "json dict \<Rightarrow> string option" where
  "mvp_type rec = (case jget rec ''exposure_type'' of
     JStr t \<Rightarrow> if t \<in> set EXPOSURE_MVP_TYPES then Some t else None | _ \<Rightarrow> None)"

definition import_record ::
  "exposure_env \<Rightarrow> time \<Rightarrow> principal \<Rightarrow> int \<Rightarrow> ingest_batch \<Rightarrow> json dict \<Rightarrow> import_counts \<times> xsession
    \<Rightarrow> (import_counts \<times> xsession) res" where
  "import_record E now p tid batch rec cs = (case cs of (c, s) \<Rightarrow>
     if truthy (jget rec ''_error'') then Inr (counted ''error'' c, s)
     else case mvp_type rec of
         None \<Rightarrow> Inr (counted ''error'' c, s)
       | Some etype \<Rightarrow>
           bindr (persist_record E now p tid ''file_import'' (Some batch) etype (en_time E (jget rec ''observed_at'')) rec s)
             (\<lambda>(outcome, f, s'). Inr (counted outcome c, s')))"

fun import_records ::
  "exposure_env \<Rightarrow> time \<Rightarrow> principal \<Rightarrow> int \<Rightarrow> ingest_batch \<Rightarrow> json dict list \<Rightarrow> import_counts \<times> xsession
    \<Rightarrow> (import_counts \<times> xsession) res" where
  "import_records E now p tid batch [] cs = Inr cs"
| "import_records E now p tid batch (r # rs) cs =
     bindr (import_record E now p tid batch r cs) (import_records E now p tid batch rs)"

definition completed_batch :: "import_counts \<Rightarrow> ingest_batch \<Rightarrow> ingest_batch" where
  "completed_batch c b = b\<lparr>ib_record_count := ic_total c, ib_created_count := ic_created c,
     ib_deduped_count := ic_deduped c, ib_error_count := ic_errors c, ib_status := ''completed''\<rparr>"

definition import_file ::
  "exposure_env \<Rightarrow> int \<Rightarrow> time \<Rightarrow> principal \<Rightarrow> int \<Rightarrow> http_request option \<Rightarrow> string \<Rightarrow> upload \<Rightarrow> exposure_db
    \<Rightarrow> (ingest_batch \<times> exposure_db) res" where
  "import_file E max_bytes now p tid request parser file d =
     (if parser \<notin> set (dict_keys PARSER_VERSIONS) then Inl (HTTPException 422)
      else if up_content_type file \<notin> set IMPORT_ALLOWED_MIME then Inl (HTTPException 415)
      else if up_size file > max_bytes then Inl (HTTPException 413)
      else
        let batch = new_batch now p tid parser file d;
            s0 = \<lparr>xs_db = d\<lparr>xd_batches := xd_batches d @ [batch]\<rparr>, xs_pending = []\<rparr>;
            (recs, raised) = run_parser (en_hash E) (en_loads E) parser (up_text file)
        in bindr (import_records E now p tid batch recs (zero_counts, s0)) (\<lambda>(c, s).
           case raised of Some e \<Rightarrow> Inl e | None \<Rightarrow>
             bindr (commit_session s) (\<lambda>d'.
               let b = completed_batch c batch in
               Inr (b, x_audit now p tid request ''exposure.import'' (ib_id batch)
                 [(''parser'', JStr parser), (''source_file_hash'', JStr (up_hash file)),
                  (''created'', JInt (ic_created c)), (''deduped'', JInt (ic_deduped c)),
                  (''errors'', JInt (ic_errors c))]
                 (d'\<lparr>xd_batches := upd_row ib_id (ib_id batch) (\<lambda>_. b) (xd_batches d')\<rparr>)))))"

definition rollback_ingest ::
  "time \<Rightarrow> principal \<Rightarrow> int \<Rightarrow> http_request option \<Rightarrow> int \<Rightarrow> exposure_db \<Rightarrow> (nat \<times> exposure_db) res" where
  "rollback_ingest now p tid request ingest_id d =
     bindr (owned_ingest d ingest_id tid) (\<lambda>batch.
       let victim = (\<lambda>f. fd_tenant_id f = tid \<and> fd_ingest_id f = Some ingest_id);
           removed = length (filter victim (xd_findings d))
       in Inr (removed, x_audit now p tid request ''exposure.import_rollback'' ingest_id
            [(''removed'', JInt (int removed))]
            (d\<lparr>xd_findings := filter (\<lambda>f. \<not> victim f) (xd_findings d),
               xd_batches := upd_row ib_id ingest_id (\<lambda>b. b\<lparr>ib_status := ''rolled_back''\<rparr>) (xd_batches d)\<rparr>)))"

record triage =
  tg_status :: "string option"
  tg_severity :: "string option"
  tg_source_reliability :: "string option"
  tg_info_credibility :: "string option"

definition valid_triage :: "triage \<Rightarrow> bool" where
  "valid_triage q = (opt_in (tg_status q) FINDING_STATUSES \<and> opt_in (tg_severity q) SEVERITIES
     \<and> opt_in (tg_source_reliability q) RELIABILITIES \<and> opt_in (tg_info_credibility q) CREDIBILITIES)"

definition field_change :: "string \<Rightarrow> string option \<Rightarrow> string \<Rightarrow> json list" where
  "field_change name val old = (case val of None \<Rightarrow> [] | Some v \<Rightarrow> if v = old then [] else [JStr name])"

definition or_old :: "string option \<Rightarrow> string \<Rightarrow> string" where
  "or_old val old = (case val of None \<Rightarrow> old | Some v \<Rightarrow> v)"

definition triage_changes :: "triage \<Rightarrow> finding \<Rightarrow> json list" where
  "triage_changes q f =
     field_change ''status'' (tg_status q) (fd_status f) @ field_change ''severity'' (tg_severity q) (fd_severity f)
     @ field_change ''source_reliability'' (tg_source_reliability q) (fd_source_reliability f)
     @ field_change ''info_credibility'' (tg_info_credibility q) (fd_info_credibility f)"

definition triaged :: "triage \<Rightarrow> finding \<Rightarrow> finding" where
  "triaged q f = f\<lparr>fd_status := or_old (tg_status q) (fd_status f), fd_severity := or_old (tg_severity q) (fd_severity f),
     fd_source_reliability := or_old (tg_source_reliability q) (fd_source_reliability f),
     fd_info_credibility := or_old (tg_info_credibility q) (fd_info_credibility f)\<rparr>"

definition triage_finding ::
  "exposure_env \<Rightarrow> time \<Rightarrow> principal \<Rightarrow> int \<Rightarrow> http_request option \<Rightarrow> int \<Rightarrow> triage \<Rightarrow> exposure_db \<Rightarrow> exposure_db res" where
  "triage_finding E now p tid request finding_id q d =
     (if \<not> valid_triage q then Inl (HTTPException 422) else
     bindr (owned_finding d finding_id tid) (\<lambda>f.
       let changes = triage_changes q f in
       if changes = [] then Inr d
       else Inr (x_audit now p tid request ''exposure.finding_triage'' finding_id [(''changes'', JList changes)]
         (d\<lparr>xd_findings := upd_row fd_id finding_id (\<lambda>_. apply_risk E now d tid (triaged q f)) (xd_findings d)\<rparr>))))"

subsection \<open>Monitored assets\<close>

record asset_create =
  ac_asset_type :: string
  ac_label :: string
  ac_value :: string
  ac_criticality :: string
  ac_consent_ref :: "string option"
  ac_active :: bool

text \<open>The label and the value are stripped before they are stored.\<close>

definition valid_asset :: "asset_create \<Rightarrow> asset_create res" where
  "valid_asset q =
     (if ac_asset_type q \<in> {''identity'', ''email'', ''domain'', ''keyword'', ''secret_pattern'', ''repo'', ''ip_range''}
        \<and> ac_criticality q \<in> set SEVERITIES \<and> str_strip (ac_label q) \<noteq> [] \<and> str_strip (ac_value q) \<noteq> []
      then Inr (q\<lparr>ac_label := str_strip (ac_label q), ac_value := str_strip (ac_value q)\<rparr>)
      else Inl (HTTPException 422))"

definition create_asset ::
  "exposure_env \<Rightarrow> time \<Rightarrow> principal \<Rightarrow> int \<Rightarrow> http_request option \<Rightarrow> asset_create \<Rightarrow> exposure_db \<Rightarrow> exposure_db res" where
  "create_asset E now p tid request payload d =
     bindr (valid_asset payload) (\<lambda>q.
      let a = \<lparr>as_id = next_id as_id (xd_assets d), as_tenant_id = tid, as_asset_type = ac_asset_type q,
        as_label = ac_label q, as_value = ac_value q, as_value_hash = sha256_norm (en_hash E) (JStr (ac_value q)),
        as_criticality = ac_criticality q, as_consent_ref = ac_consent_ref q, as_active = ac_active q\<rparr>
      in Inr (x_audit now p tid request ''exposure.asset_create'' (as_id a)
           [(''asset_type'', JStr (ac_asset_type q)), (''criticality'', JStr (ac_criticality q))]
           (d\<lparr>xd_assets := xd_assets d @ [a]\<rparr>)))"

record asset_update =
  av_label :: "string option"
  av_criticality :: "string option"
  av_consent_ref :: "string option"
  av_active :: "bool option"

definition asset_changes :: "asset_update \<Rightarrow> asset \<Rightarrow> json list" where
  "asset_changes q a =
     field_change ''label'' (av_label q) (as_label a) @ field_change ''criticality'' (av_criticality q) (as_criticality a)
     @ (case av_consent_ref q of None \<Rightarrow> [] | Some v \<Rightarrow> if Some v = as_consent_ref a then [] else [JStr ''consent_ref''])
     @ (case av_active q of None \<Rightarrow> [] | Some v \<Rightarrow> if v = as_active a then [] else [JStr ''active''])"

definition updated_asset :: "asset_update \<Rightarrow> asset \<Rightarrow> asset" where
  "updated_asset q a = a\<lparr>as_label := or_old (av_label q) (as_label a),
     as_criticality := or_old (av_criticality q) (as_criticality a),
     as_consent_ref := (case av_consent_ref q of None \<Rightarrow> as_consent_ref a | Some v \<Rightarrow> Some v),
     as_active := (case av_active q of None \<Rightarrow> as_active a | Some v \<Rightarrow> v)\<rparr>"

definition update_asset ::
  "time \<Rightarrow> principal \<Rightarrow> int \<Rightarrow> http_request option \<Rightarrow> int \<Rightarrow> asset_update \<Rightarrow> exposure_db \<Rightarrow> exposure_db res" where
  "update_asset now p tid request asset_id q d =
     (if \<not> opt_in (av_criticality q) SEVERITIES then Inl (HTTPException 422) else
     bindr (owned_asset d asset_id tid) (\<lambda>a.
       if asset_changes q a = [] then Inr d
       else Inr (x_audit now p tid request ''exposure.asset_update'' asset_id [(''changes'', JList (asset_changes q a))]
         (d\<lparr>xd_assets := upd_row as_id asset_id (updated_asset q) (xd_assets d)\<rparr>))))"

text \<open>Deleting an asset clears the references to it (\<open>ON DELETE SET NULL\<close>).\<close>

definition delete_asset ::
  "time \<Rightarrow> principal \<Rightarrow> int \<Rightarrow> http_request option \<Rightarrow> int \<Rightarrow> exposure_db \<Rightarrow> exposure_db res" where
  "delete_asset now p tid request asset_id d =
     bindr (owned_asset d asset_id tid) (\<lambda>a.
       Inr (x_audit now p tid request ''exposure.asset_delete'' asset_id []
         (d\<lparr>xd_assets := filter (\<lambda>x. as_id x \<noteq> asset_id) (xd_assets d),
            xd_findings := map (\<lambda>f. if fd_asset_id f = Some asset_id then f\<lparr>fd_asset_id := None\<rparr> else f) (xd_findings d),
            xd_identities := map (\<lambda>c. if ci_vip_asset_id c = Some asset_id then c\<lparr>ci_vip_asset_id := None\<rparr> else c)
              (xd_identities d)\<rparr>)))"

subsection \<open>Reading\<close>

definition finding_out :: "finding \<Rightarrow> principal \<Rightarrow> string \<Rightarrow> finding" where
  "finding_out f p policy = f\<lparr>fd_detail := mask_detail (fd_detail f) (effective_role p) policy\<rparr>"

definition get_finding :: "int \<Rightarrow> principal \<Rightarrow> string \<Rightarrow> int \<Rightarrow> exposure_db \<Rightarrow> finding res" where
  "get_finding tid p policy finding_id d = bindr (owned_finding d finding_id tid) (\<lambda>f. Inr (finding_out f p policy))"

text \<open>
  The description of a case opened from a finding. The asset is read by its key alone.
\<close>

definition context_description :: "exposure_db \<Rightarrow> finding \<Rightarrow> string" where
  "context_description d f =
     (let det = fd_detail f;
          named = jor (jget det ''email'') (jor (jget det ''domain'') (jor (jget det ''url'') (jget det ''person_label'')));
          affected = (if truthy named then py_str named
            else case fd_asset_id f of None \<Rightarrow> []
              | Some i \<Rightarrow> if i = 0 then [] else (case find_row as_id i (xd_assets d) of None \<Rightarrow> [] | Some a \<Rightarrow> as_label a))
      in join [CHR 0x0A] ([''Opened from exposure finding #'' @ int_str (fd_id f) @ '' ('' @ fd_exposure_type f @ '').'']
           @ (if affected \<noteq> [] then [''Affected: '' @ affected] else [])
           @ [''Source: '' @ fd_source f] @ [''Risk score: '' @ int_str (fd_risk_score f)]
           @ (case fd_ingest_id f of None \<Rightarrow> []
              | Some i \<Rightarrow> if i = 0 then [] else [''Import id: '' @ int_str i])))"

end
