(* ===== verification/ExposureSteps.thy ===== *)
theory ExposureSteps
  imports Exposure
begin

text \<open>
  What the exposure routes do to the tables, step by step: a flush, a dossier, a persisted record, an
  imported file.
\<close>

section \<open>What an operation does to the findings\<close>

text \<open>
  The rows of a session are those in the tables and those waiting to be inserted. \<open>xkept\<close> relates a
  row of before to the same row later: rows of other tenants stay, a row of the tenant keeps its
  owner, its deduplication key and its batch, and a clean detail stays clean.
\<close>

definition all_rows :: "xsession \<Rightarrow> finding list" where
  "all_rows s = xd_findings (xs_db s) @ xs_pending s"

definition xkept :: "int \<Rightarrow> finding \<Rightarrow> finding \<Rightarrow> bool" where
  "xkept tid f g = (g = f \<or> fd_tenant_id f = tid \<and> exposure_key g = exposure_key f
     \<and> fd_ingest_id g = fd_ingest_id f \<and> (clean_dict (fd_detail f) \<longrightarrow> clean_dict (fd_detail g)))"

lemma xkept_refl [simp]: "xkept tid f f"
  by (simp add: xkept_def)

lemma xkept_trans: "xkept tid f g \<Longrightarrow> xkept tid g h \<Longrightarrow> xkept tid f h"
  by (auto simp: xkept_def exposure_key_def)

lemma xkept_list_refl [simp]: "list_all2 (xkept tid) fs fs"
  by (simp add: list.rel_refl)

lemma xkept_list_trans:
  "list_all2 (xkept tid) fs gs \<Longrightarrow> list_all2 (xkept tid) gs hs \<Longrightarrow> list_all2 (xkept tid) fs hs"
  by (rule list_all2_trans[where ?P2.0 = "xkept tid"]) (auto intro: xkept_trans)

lemma flush_xkept:
  assumes "flush_findings assets rows fs = Inr rows'" "\<forall>f \<in> set fs. fd_tenant_id f = tid"
  shows "list_all2 (xkept tid) (rows @ fs) rows' \<and> (\<exists>new. rows' = rows @ new \<and> length new = length fs)
    \<and> (keyed fd_id rows \<longrightarrow> keyed fd_id rows')
    \<and> (unique_on (\<lambda>_. True) exposure_key rows \<longrightarrow> unique_on (\<lambda>_. True) exposure_key rows')
    \<and> ((\<forall>f \<in> set rows. exposure_row_ok assets f) \<longrightarrow> (\<forall>f \<in> set rows'. exposure_row_ok assets f))"
  using assms
proof (induction assets rows fs rule: flush_findings.induct)
  case (2 assets rows f fs)
  define f' where "f' = f\<lparr>fd_id := next_id fd_id rows\<rparr>"
  from 2(2) have r: "exposure_row_ok assets f'" "\<not> violates (\<lambda>_. True) exposure_key f' rows"
    "flush_findings assets (rows @ [f']) fs = Inr rows'"
    by (auto simp: Let_def f'_def split: if_splits)
  have guard: "\<not> (\<not> exposure_row_ok assets f' \<or> violates (\<lambda>_. True) exposure_key f' rows)" using r by simp
  have mine: "\<forall>f \<in> set fs. fd_tenant_id f = tid" using 2(3) by simp
  note IH = 2(1)[OF f'_def guard r(3) mine]
  from IH obtain new where new: "rows' = (rows @ [f']) @ new" "length new = length fs" by blast
  have "xkept tid f f'" using 2(3) by (simp add: xkept_def f'_def exposure_key_def)
  then have "list_all2 (xkept tid) (rows @ f # fs) (rows @ f' # fs)"
    by (intro list_all2_appendI) simp_all
  moreover have "list_all2 (xkept tid) (rows @ f' # fs) rows'" using IH by simp
  ultimately have 1: "list_all2 (xkept tid) (rows @ f # fs) rows'" by (rule xkept_list_trans)
  have 2: "\<exists>new. rows' = rows @ new \<and> length new = length (f # fs)"
    using new by (intro exI[of _ "f' # new"]) simp
  have 3: "keyed fd_id rows \<longrightarrow> keyed fd_id rows'"
    using IH by (auto simp: keyed_append f'_def)
  have 4: "unique_on (\<lambda>_. True) exposure_key rows \<longrightarrow> unique_on (\<lambda>_. True) exposure_key rows'"
    using IH unique_on_append[OF _ r(2)] by blast
  have 5: "(\<forall>f \<in> set rows. exposure_row_ok assets f) \<longrightarrow> (\<forall>f \<in> set rows'. exposure_row_ok assets f)"
    using IH r(1) by simp
  from 1 2 3 4 5 show ?case by blast
qed simp

text \<open>A successful flush, seen from outside.\<close>

lemma flush_sessionD:
  assumes "flush_session s = Inr s'" "\<forall>f \<in> set (xs_pending s). fd_tenant_id f = tid"
  shows "list_all2 (xkept tid) (all_rows s) (all_rows s') \<and> xs_pending s' = []
    \<and> xs_db s' = (xs_db s)\<lparr>xd_findings := xd_findings (xs_db s')\<rparr>
    \<and> (keyed fd_id (xd_findings (xs_db s)) \<longrightarrow> keyed fd_id (xd_findings (xs_db s')))
    \<and> (unique_on (\<lambda>_. True) exposure_key (xd_findings (xs_db s)) \<longrightarrow> unique_on (\<lambda>_. True) exposure_key (xd_findings (xs_db s')))
    \<and> ((\<forall>f \<in> set (xd_findings (xs_db s)). exposure_row_ok (xd_assets (xs_db s)) f)
        \<longrightarrow> (\<forall>f \<in> set (xd_findings (xs_db s')). exposure_row_ok (xd_assets (xs_db s)) f))"
proof -
  from assms(1) obtain rows where rows: "flush_findings (xd_assets (xs_db s)) (xd_findings (xs_db s)) (xs_pending s) = Inr rows"
    "s' = \<lparr>xs_db = (xs_db s)\<lparr>xd_findings := rows\<rparr>, xs_pending = []\<rparr>"
    by (auto simp: flush_session_def)
  from flush_xkept[OF rows(1) assms(2)] rows(2) show ?thesis by (auto simp: all_rows_def)
qed

definition xgood :: "int \<Rightarrow> xsession \<Rightarrow> bool" where
  "xgood tid s = (keyed fd_id (xd_findings (xs_db s)) \<and> unique_on (\<lambda>_. True) exposure_key (xd_findings (xs_db s))
     \<and> (\<forall>f \<in> set (xd_findings (xs_db s)). exposure_row_ok (xd_assets (xs_db s)) f)
     \<and> keyed ci_id (xd_identities (xs_db s)) \<and> (\<forall>f \<in> set (xs_pending s). fd_tenant_id f = tid))"

definition xstep :: "int \<Rightarrow> xsession \<Rightarrow> finding list \<Rightarrow> xsession \<Rightarrow> bool" where
  "xstep tid s new s' = (list_all2 (xkept tid) (all_rows s @ new) (all_rows s')
     \<and> xd_assets (xs_db s') = xd_assets (xs_db s) \<and> xd_batches (xs_db s') = xd_batches (xs_db s)
     \<and> filter (\<lambda>c. ci_tenant_id c \<noteq> tid) (xd_identities (xs_db s'))
       = filter (\<lambda>c. ci_tenant_id c \<noteq> tid) (xd_identities (xs_db s))
     \<and> xgood tid s')"

lemma xstep_trans:
  assumes "xstep tid s new s'" "xstep tid s' new' s''"
  shows "xstep tid s (new @ new') s''"
proof -
  have "list_all2 (xkept tid) ((all_rows s @ new) @ new') (all_rows s' @ new')"
    using assms(1) by (intro list_all2_appendI) (simp_all add: xstep_def)
  then have "list_all2 (xkept tid) (all_rows s @ new @ new') (all_rows s'')"
    using assms(2) xkept_list_trans unfolding xstep_def by (metis append.assoc)
  with assms show ?thesis by (simp add: xstep_def)
qed

lemma flush_step:
  assumes "flush_session s = Inr s'" "xgood tid s"
  shows "xstep tid s [] s' \<and> xs_pending s' = []"
proof -
  have mine: "\<forall>f \<in> set (xs_pending s). fd_tenant_id f = tid" using assms(2) by (simp add: xgood_def)
  note F = flush_sessionD[OF assms(1) mine]
  from F have e: "xs_db s' = (xs_db s)\<lparr>xd_findings := xd_findings (xs_db s')\<rparr>" by blast
  have rest: "xd_assets (xs_db s') = xd_assets (xs_db s)" "xd_batches (xs_db s') = xd_batches (xs_db s)"
    "xd_identities (xs_db s') = xd_identities (xs_db s)"
    using arg_cong[OF e, of xd_assets] arg_cong[OF e, of xd_batches] arg_cong[OF e, of xd_identities] by simp_all
  with F assms(2) show ?thesis by (simp add: xstep_def xgood_def)
qed

lemma find_identity_Some: "find_identity E tid email ids = Some c \<Longrightarrow> c \<in> set ids \<and> ci_tenant_id c = tid"
  unfolding find_identity_def by (auto simp: find_Some_iff)

lemma identity_for_rows:
  assumes "identity_for E now tid email ids = (ci, ids1)" "keyed ci_id ids"
  shows "ci \<in> set ids1" "ci_tenant_id ci = tid" "keyed ci_id ids1"
    "filter (\<lambda>c. ci_tenant_id c \<noteq> tid) ids1 = filter (\<lambda>c. ci_tenant_id c \<noteq> tid) ids"
  using assms find_identity_Some
  by (auto simp: identity_for_def Let_def new_identity_def intro: keyed_append split: option.splits)

lemma dossier_key [simp]: "ci_id (dossier now f outcome hit ci) = ci_id ci"
  "ci_tenant_id (dossier now f outcome hit ci) = ci_tenant_id ci"
  by (simp_all add: dossier_def aggregated_def Let_def)

lemma with_dossier_rows:
  assumes "keyed ci_id (xd_identities d)"
  shows "keyed ci_id (xd_identities (with_dossier E now p tid email f outcome d))
    \<and> filter (\<lambda>c. ci_tenant_id c \<noteq> tid) (xd_identities (with_dossier E now p tid email f outcome d))
      = filter (\<lambda>c. ci_tenant_id c \<noteq> tid) (xd_identities d)
    \<and> xd_findings (with_dossier E now p tid email f outcome d) = xd_findings d
    \<and> xd_assets (with_dossier E now p tid email f outcome d) = xd_assets d
    \<and> xd_batches (with_dossier E now p tid email f outcome d) = xd_batches d"
proof -
  obtain ci ids1 where ci: "identity_for E now tid email (xd_identities d) = (ci, ids1)" by fastforce
  note ids1 = identity_for_rows[OF ci assms]
  have "x = ci" if "x \<in> set ids1" "ci_id x = ci_id ci" for x
    using that ids1(1,3) by (auto simp: keyed_def distinct_map inj_on_def)
  then have "filter (\<lambda>c. ci_tenant_id c \<noteq> tid) (upd_row ci_id (ci_id ci) (\<lambda>_. dossier now f outcome hit ci) ids1)
      = filter (\<lambda>c. ci_tenant_id c \<noteq> tid) ids1" for hit
    using ids1(2) by (intro filter_upd_row) auto
  with ids1 ci show ?thesis by (simp add: with_dossier_def Let_def keyed_upd_row_const)
qed

lemma update_identity_step:
  assumes "update_identity E now p tid f outcome s = Inr s'" "xgood tid s"
  shows "xstep tid s [] s'"
proof (cases "norm_value (jget (fd_detail f) ''email'') = [] \<or> CHR ''@'' \<notin> set (norm_value (jget (fd_detail f) ''email''))")
  case True
  with assms show ?thesis by (auto simp: update_identity_def xstep_def)
next
  case False
  define d where "d = with_dossier E now p tid (norm_value (jget (fd_detail f) ''email'')) f outcome (xs_db s)"
  have run: "flush_session (s\<lparr>xs_db := d\<rparr>) = Inr s'"
    using assms(1) False by (simp add: update_identity_def Let_def d_def)
  have "keyed ci_id (xd_identities (xs_db s))" using assms(2) by (simp add: xgood_def)
  note d = with_dossier_rows[OF this, of E now p tid "norm_value (jget (fd_detail f) ''email'')" f outcome, folded d_def]
  have good: "xgood tid (s\<lparr>xs_db := d\<rparr>)" using assms(2) d by (simp add: xgood_def)
  have "xstep tid s [] (s\<lparr>xs_db := d\<rparr>)" using good d by (simp add: xstep_def all_rows_def)
  from xstep_trans[OF this conjunct1[OF flush_step[OF run good]]] show ?thesis by simp
qed

lemma apply_risk_keeps [simp]:
  "exposure_key (apply_risk E now d tid f) = exposure_key f" "fd_id (apply_risk E now d tid f) = fd_id f"
  "fd_tenant_id (apply_risk E now d tid f) = fd_tenant_id f"
  "fd_ingest_id (apply_risk E now d tid f) = fd_ingest_id f"
  "exposure_row_ok as (apply_risk E now d tid f) = exposure_row_ok as f"
  "fd_dedup_key (apply_risk E now d tid f) = fd_dedup_key f"
  by (simp_all add: apply_risk_def Let_def exposure_key_def exposure_row_ok_def)

lemma clean_counters: "clean_key ''risk_breakdown''" "clean_key ''sightings''"
  by (code_simp, code_simp)

lemma apply_risk_clean: "clean_dict (fd_detail f) \<Longrightarrow> clean_dict (fd_detail (apply_risk E now d tid f))"
  by (simp add: apply_risk_def Let_def clean_dict_update clean_counters)

lemma sightedD:
  assumes "sighted E now d tid f = Inr g" "fd_tenant_id f = tid"
  shows "xkept tid f g \<and> fd_id g = fd_id f \<and> exposure_row_ok as g = exposure_row_ok as f"
proof -
  from assms(1) obtain n where g: "g = apply_risk E now d tid (f\<lparr>fd_last_seen := now,
      fd_detail := AList.update ''sightings'' (JInt (n + 1)) (fd_detail f)\<rparr>)"
    unfolding sighted_def by auto
  have "clean_dict (fd_detail f) \<longrightarrow> clean_dict (fd_detail g)"
    unfolding g by (simp add: apply_risk_clean clean_dict_update clean_counters)
  moreover have "exposure_row_ok as (f\<lparr>fd_last_seen := t, fd_detail := x\<rparr>) = exposure_row_ok as f" for t x
    by (simp add: exposure_row_ok_def)
  ultimately show ?thesis using assms(2) unfolding xkept_def g by (simp add: exposure_key_def)
qed

lemma known_exposureD: "known_exposure tid key rows = Some f \<Longrightarrow> f \<in> set rows \<and> fd_tenant_id f = tid \<and> fd_dedup_key f = key"
  by (auto simp: known_exposure_def find_Some_iff)

lemma upd_row_xkept:
  assumes "keyed fd_id rows" "f \<in> set rows" "xkept tid f g"
  shows "list_all2 (xkept tid) rows (upd_row fd_id (fd_id f) (\<lambda>_. g) rows)"
proof -
  have "x = f" if "x \<in> set rows" "fd_id x = fd_id f" for x
    using that assms(1,2) by (auto simp: keyed_def distinct_map inj_on_def)
  then have "xkept tid x (if fd_id x = fd_id f then g else x)" if "x \<in> set rows" for x
    using that assms(3) by auto
  then show ?thesis by (simp add: list_all2_conv_all_nth upd_row_def)
qed

lemma xkept_keys: "list_all2 (xkept tid) fs gs \<Longrightarrow> map exposure_key gs = map exposure_key fs"
  by (induction rule: list_all2_induct) (auto simp: xkept_def)

text \<open>Replacing a finding of the tenant by a version of it.\<close>

lemma replace_step:
  assumes "xgood tid s" "f \<in> set (xd_findings (xs_db s))" "xkept tid f g" "fd_id g = fd_id f"
    "exposure_row_ok (xd_assets (xs_db s)) g"
  shows "xstep tid s [] (s\<lparr>xs_db := (xs_db s)\<lparr>xd_findings :=
    upd_row fd_id (fd_id f) (\<lambda>_. g) (xd_findings (xs_db s))\<rparr>\<rparr>)"
proof -
  let ?rows = "upd_row fd_id (fd_id f) (\<lambda>_. g) (xd_findings (xs_db s))"
  have k: "keyed fd_id (xd_findings (xs_db s))" using assms(1) by (simp add: xgood_def)
  have l: "list_all2 (xkept tid) (xd_findings (xs_db s)) ?rows" by (rule upd_row_xkept[OF k assms(2,3)])
  have "map exposure_key ?rows = map exposure_key (xd_findings (xs_db s))" by (rule xkept_keys[OF l])
  then have u: "unique_on (\<lambda>_. True) exposure_key ?rows" using assms(1) by (simp add: xgood_def unique_on_def)
  have r: "\<forall>x \<in> set ?rows. exposure_row_ok (xd_assets (xs_db s)) x"
    using assms(1,5) by (auto simp: xgood_def set_upd_row)
  have "keyed fd_id ?rows" by (rule keyed_upd_row_const[OF k assms(4)])
  with u r l assms(1) show ?thesis
    by (simp add: xstep_def xgood_def all_rows_def list_all2_appendI)
qed

lemma clean_redacted: "clean_dict (redact_detail H d)"
  by (rule redact_keys)

lemma new_exposureD:
  assumes "new_exposure E now p tid source etype ingest rec detail observed = Inr f"
  shows "fd_tenant_id f = tid \<and> fd_dedup_key f = dedup_key (en_hash E) tid etype detail \<and> fd_detail f = detail
    \<and> fd_ingest_id f = map_option ib_id ingest \<and> fd_exposure_type f = etype"
  using assms by (auto simp: new_exposure_def split: prod.splits)

text \<open>
  A persisted record: a new row of the tenant, with the key of its redacted detail and the batch, or
  a version of a row that is there.
\<close>

lemma persist_record_step:
  assumes "persist_record E now p tid source ingest etype observed rec s = Inr (outcome, f, s')" "xgood tid s"
  shows "outcome = ''created'' \<and> (\<exists>g. xstep tid s [g] s' \<and> clean_dict (fd_detail g) \<and> fd_tenant_id g = tid
      \<and> fd_ingest_id g = map_option ib_id ingest) \<or> outcome = ''deduped'' \<and> xstep tid s [] s'"
proof -
  define detail where "detail = redact_detail (en_hash E) (jor (jget rec ''detail'') (JObj []))"
  define key where "key = dedup_key (en_hash E) tid etype detail"
  show ?thesis
  proof (cases "known_exposure tid key (xd_findings (xs_db s))")
    case (Some h)
    note h = known_exposureD[OF Some]
    define s1 where "s1 g = s\<lparr>xs_db := (xs_db s)\<lparr>xd_findings := upd_row fd_id (fd_id h) (\<lambda>_. g) (xd_findings (xs_db s))\<rparr>\<rparr>" for g
    from assms(1) Some obtain g where g: "sighted E now (xs_db s) tid h = Inr g" "outcome = ''deduped''"
      and run: "(if etype = ''credential_exposure'' then update_identity E now p tid g ''deduped'' (s1 g) else Inr (s1 g)) = Inr s'"
      unfolding persist_record_def Let_def detail_def[symmetric] key_def[symmetric] s1_def by auto
    note v = sightedD[OF g(1) conjunct1[OF conjunct2[OF h]], of "xd_assets (xs_db s)"]
    have "exposure_row_ok (xd_assets (xs_db s)) h" using assms(2) h by (simp add: xgood_def)
    then have 1: "xstep tid s [] (s1 g)" using v h unfolding s1_def by (intro replace_step assms(2)) simp_all
    then have "xgood tid (s1 g)" by (simp add: xstep_def)
    with run have "xstep tid (s1 g) [] s'"
      using update_identity_step by (auto simp: xstep_def split: if_splits)
    from xstep_trans[OF 1 this] g(2) show ?thesis by simp
  next
    case None
    define s1 where "s1 g = s\<lparr>xs_pending := xs_pending s @ [g]\<rparr>" for g
    from assms(1) None obtain g0 obs where g0: "new_exposure E now p tid source etype ingest rec detail obs = Inr g0"
      "outcome = ''created''"
      and run: "(if etype = ''credential_exposure'' then update_identity E now p tid (apply_risk E now (xs_db s) tid g0) ''created''
          (s1 (apply_risk E now (xs_db s) tid g0)) else Inr (s1 (apply_risk E now (xs_db s) tid g0))) = Inr s'"
      unfolding persist_record_def Let_def detail_def[symmetric] key_def[symmetric] s1_def by auto
    define g where "g = apply_risk E now (xs_db s) tid g0"
    note n = new_exposureD[OF g0(1)]
    have mine: "fd_tenant_id g = tid" "fd_ingest_id g = map_option ib_id ingest" using n by (simp_all add: g_def)
    have "clean_dict (fd_detail g0)" using n clean_redacted by (simp add: detail_def)
    then have cl: "clean_dict (fd_detail g)" unfolding g_def by (rule apply_risk_clean)
    have 1: "xstep tid s [g] (s1 g)" using assms(2) mine by (simp add: xstep_def xgood_def s1_def all_rows_def)
    then have "xgood tid (s1 g)" by (simp add: xstep_def)
    with run have "xstep tid (s1 g) [] s'"
      using update_identity_step unfolding g_def[symmetric] by (auto simp: xstep_def split: if_splits)
    from xstep_trans[OF 1 this] g0(2) mine cl show ?thesis by auto
  qed
qed

section \<open>Importing\<close>

definition from_batch :: "int \<Rightarrow> int option \<Rightarrow> finding \<Rightarrow> bool" where
  "from_batch tid ib g = (clean_dict (fd_detail g) \<and> fd_tenant_id g = tid \<and> fd_ingest_id g = ib)"

definition counts_add :: "import_counts \<Rightarrow> int \<Rightarrow> int \<Rightarrow> int \<Rightarrow> import_counts" where
  "counts_add c n dd e = \<lparr>ic_total = ic_total c + n + dd + e, ic_created = ic_created c + n,
     ic_deduped = ic_deduped c + dd, ic_errors = ic_errors c + e\<rparr>"

lemma counted_add: "counted ''created'' c = counts_add c 1 0 0" "counted ''deduped'' c = counts_add c 0 1 0"
  "counted ''error'' c = counts_add c 0 0 1"
  by (simp_all add: counted_def counts_add_def)

lemma counts_add_add [simp]: "counts_add (counts_add c a b e) a' b' e' = counts_add c (a + a') (b + b') (e + e')"
  by (simp add: counts_add_def)

lemma counts_add_0 [simp]: "counts_add c 0 0 0 = c"
  by (simp add: counts_add_def)

lemma xstep_refl: "xgood tid s \<Longrightarrow> xstep tid s [] s"
  by (simp add: xstep_def)

text \<open>One record of a file: a counted error without effect, a new row of the batch, or a sighting.\<close>

lemma import_record_step:
  assumes "import_record E now p tid batch rec (c, s) = Inr (c', s')" "xgood tid s"
  shows "\<exists>new dd e. xstep tid s new s' \<and> list_all (from_batch tid (Some (ib_id batch))) new
    \<and> c' = counts_add c (int (length new)) dd e \<and> int (length new) + dd + e = 1"
proof (cases "truthy (jget rec ''_error'') \<or> mvp_type rec = None")
  case True
  with assms(1) have "c' = counted ''error'' c" "s' = s" by (auto simp: import_record_def split: if_splits)
  with xstep_refl[OF assms(2)] show ?thesis
    by (intro exI[of _ "[]"] exI[of _ 0] exI[of _ 1]) (simp add: counted_add)
next
  case False
  then obtain etype where "mvp_type rec = Some etype" by auto
  with False assms(1) obtain outcome f where run:
    "persist_record E now p tid ''file_import'' (Some batch) etype (en_time E (jget rec ''observed_at'')) rec s = Inr (outcome, f, s')"
    "c' = counted outcome c"
    by (auto simp: import_record_def)
  from persist_record_step[OF run(1) assms(2)] show ?thesis
  proof (elim disjE conjE exE)
    fix g assume g: "outcome = ''created''" "xstep tid s [g] s'" "clean_dict (fd_detail g)" "fd_tenant_id g = tid"
      "fd_ingest_id g = map_option ib_id (Some batch)"
    then show ?thesis using run(2)
      by (intro exI[of _ "[g]"] exI[of _ 0]) (simp add: counted_add from_batch_def)
  next
    assume "outcome = ''deduped''" "xstep tid s [] s'"
    then show ?thesis using run(2)
      by (intro exI[of _ "[]"] exI[of _ 1] exI[of _ 0]) (simp add: counted_add)
  qed
qed

lemma import_records_step:
  assumes "import_records E now p tid batch recs (c, s) = Inr (c', s')" "xgood tid s"
  shows "\<exists>new dd e. xstep tid s new s' \<and> list_all (from_batch tid (Some (ib_id batch))) new
    \<and> c' = counts_add c (int (length new)) dd e \<and> int (length new) + dd + e = int (length recs)"
  using assms
proof (induction recs arbitrary: c s)
  case Nil
  then have "c' = counts_add c 0 0 0" "xstep tid s [] s'" using xstep_refl by simp_all
  then show ?case by (intro exI[of _ "[]"] exI[of _ 0] exI[of _ 0]) simp
next
  case (Cons r rs)
  from Cons(2) obtain c1 s1 where one: "import_record E now p tid batch r (c, s) = Inr (c1, s1)"
    and rest: "import_records E now p tid batch rs (c1, s1) = Inr (c', s')" by auto
  from import_record_step[OF one Cons(3)] obtain new dd e where 1: "xstep tid s new s1"
    "list_all (from_batch tid (Some (ib_id batch))) new" "c1 = counts_add c (int (length new)) dd e"
    "int (length new) + dd + e = 1" by blast
  from 1(1) have "xgood tid s1" by (simp add: xstep_def)
  from Cons(1)[OF rest this] obtain new' dd' e' where 2: "xstep tid s1 new' s'"
    "list_all (from_batch tid (Some (ib_id batch))) new'" "c' = counts_add c1 (int (length new')) dd' e'"
    "int (length new') + dd' + e' = int (length rs)" by blast
  from xstep_trans[OF 1(1) 2(1)] show ?case using 1 2
    by (intro exI[of _ "new @ new'"] exI[of _ "dd + dd'"] exI[of _ "e + e'"]) simp
qed

section \<open>The invariant\<close>

definition batch_known :: "int set \<Rightarrow> finding \<Rightarrow> bool" where
  "batch_known ids f = (\<forall>i. fd_ingest_id f = Some i \<longrightarrow> i \<in> ids)"

definition exposure_inv :: "exposure_db \<Rightarrow> bool" where
  "exposure_inv d = (keyed fd_id (xd_findings d) \<and> unique_on (\<lambda>_. True) exposure_key (xd_findings d)
     \<and> (\<forall>f \<in> set (xd_findings d). exposure_row_ok (xd_assets d) f \<and> clean_dict (fd_detail f)
          \<and> batch_known (ib_id ` set (xd_batches d)) f)
     \<and> keyed ci_id (xd_identities d) \<and> keyed ib_id (xd_batches d) \<and> keyed as_id (xd_assets d))"

text \<open>What storing records does to the tables.\<close>

definition stored :: "int \<Rightarrow> finding list \<Rightarrow> exposure_db \<Rightarrow> exposure_db \<Rightarrow> bool" where
  "stored tid new d d' = (list_all2 (xkept tid) (xd_findings d @ new) (xd_findings d')
     \<and> keyed fd_id (xd_findings d') \<and> unique_on (\<lambda>_. True) exposure_key (xd_findings d')
     \<and> (\<forall>f \<in> set (xd_findings d'). exposure_row_ok (xd_assets d) f) \<and> keyed ci_id (xd_identities d')
     \<and> xd_assets d' = xd_assets d
     \<and> filter (\<lambda>c. ci_tenant_id c \<noteq> tid) (xd_identities d') = filter (\<lambda>c. ci_tenant_id c \<noteq> tid) (xd_identities d))"

lemma inv_xgood: "exposure_inv d \<Longrightarrow> xgood tid \<lparr>xs_db = d, xs_pending = []\<rparr>"
  by (simp add: exposure_inv_def xgood_def)

lemma commit_stored:
  assumes "xstep tid s0 new s" "commit_session s = Inr d'" "xs_pending s0 = []"
  shows "stored tid new (xs_db s0) d' \<and> xd_batches d' = xd_batches (xs_db s0)"
proof -
  from assms(2) obtain s' where s': "flush_session s = Inr s'" "d' = xs_db s'" by (auto simp: commit_session_def)
  from assms(1) have "xgood tid s" by (simp add: xstep_def)
  note F = flush_step[OF s'(1) this]
  from xstep_trans[OF assms(1) conjunct1[OF F]] have "xstep tid s0 new s'" by simp
  with assms(3) conjunct2[OF F] s'(2) show ?thesis
    by (auto simp: stored_def xstep_def all_rows_def xgood_def)
qed

lemma xkept_list_mem:
  assumes "list_all2 (xkept tid) fs gs" "g \<in> set gs"
  shows "\<exists>f \<in> set fs. fd_ingest_id g = fd_ingest_id f \<and> (clean_dict (fd_detail f) \<longrightarrow> clean_dict (fd_detail g))"
  using assms by (induction rule: list_all2_induct) (auto simp: xkept_def)

lemma stored_inv:
  assumes "stored tid new d d'" "exposure_inv d" "list_all (from_batch tid ib) new" "keyed ib_id (xd_batches d')"
    "ib_id ` set (xd_batches d) \<subseteq> ib_id ` set (xd_batches d')" "\<forall>i. ib = Some i \<longrightarrow> i \<in> ib_id ` set (xd_batches d')"
  shows "exposure_inv d'"
proof -
  have "clean_dict (fd_detail g) \<and> batch_known (ib_id ` set (xd_batches d')) g"
    if g: "g \<in> set (xd_findings d')" for g
  proof -
    have "list_all2 (xkept tid) (xd_findings d @ new) (xd_findings d')" using assms(1) by (simp add: stored_def)
    from xkept_list_mem[OF this g] obtain f where f: "f \<in> set (xd_findings d @ new)" "fd_ingest_id g = fd_ingest_id f"
      "clean_dict (fd_detail f) \<longrightarrow> clean_dict (fd_detail g)" by blast
    show ?thesis
    proof (cases "f \<in> set new")
      case True
      then have "from_batch tid ib f" using assms(3) by (simp add: list_all_iff)
      with f assms(6) show ?thesis by (simp add: from_batch_def batch_known_def)
    next
      case False
      with f(1) have "f \<in> set (xd_findings d)" by simp
      with assms(2) have old: "clean_dict (fd_detail f)" "batch_known (ib_id ` set (xd_batches d)) f"
        unfolding exposure_inv_def by simp_all
      from subsetD[OF assms(5)] old f(2,3) show ?thesis unfolding batch_known_def by simp
    qed
  qed
  moreover have "keyed as_id (xd_assets d')" "xd_assets d' = xd_assets d"
    using assms(1,2) by (simp_all add: stored_def exposure_inv_def)
  ultimately show ?thesis using assms(1,4) unfolding exposure_inv_def stored_def by simp
qed

section \<open>The routes as steps\<close>

inductive exposure_step :: "exposure_env \<Rightarrow> int \<Rightarrow> int \<Rightarrow> exposure_db \<Rightarrow> exposure_db \<Rightarrow> bool" for E mb tid where
  step_intake: "intake_finding E now p tid request q d = Inr (outcome, d') \<Longrightarrow> exposure_step E mb tid d d'"
| step_import: "import_file E mb now p tid request parser file d = Inr (b, d') \<Longrightarrow> exposure_step E mb tid d d'"
| step_rollback: "rollback_ingest now p tid request i d = Inr (n, d') \<Longrightarrow> exposure_step E mb tid d d'"
| step_triage: "triage_finding E now p tid request i tq d = Inr d' \<Longrightarrow> exposure_step E mb tid d d'"
| step_create: "create_asset E now p tid request aq d = Inr d' \<Longrightarrow> exposure_step E mb tid d d'"
| step_update: "update_asset now p tid request i au d = Inr d' \<Longrightarrow> exposure_step E mb tid d d'"
| step_delete: "delete_asset now p tid request i d = Inr d' \<Longrightarrow> exposure_step E mb tid d d'"

inductive_cases exposure_stepE: "exposure_step E mb tid d d'"

lemma x_audit_sel [simp]:
  "xd_findings (x_audit now p tid request action target detail d) = xd_findings d"
  "xd_batches (x_audit now p tid request action target detail d) = xd_batches d"
  "xd_identities (x_audit now p tid request action target detail d) = xd_identities d"
  "xd_assets (x_audit now p tid request action target detail d) = xd_assets d"
  by (simp_all add: x_audit_def)

text \<open>The tables without the audit trail.\<close>

definition same_tables :: "exposure_db \<Rightarrow> exposure_db \<Rightarrow> bool" where
  "same_tables d d' = (xd_findings d' = xd_findings d \<and> xd_batches d' = xd_batches d
     \<and> xd_identities d' = xd_identities d \<and> xd_assets d' = xd_assets d)"

lemma stored_cong: "stored tid new d d' \<Longrightarrow> same_tables d' d'' \<Longrightarrow> stored tid new d d''"
  by (simp add: stored_def same_tables_def)

lemma intakeD:
  assumes "intake_finding E now p tid request q d = Inr (outcome, d')" "exposure_inv d"
  shows "\<exists>new. stored tid new d d' \<and> xd_batches d' = xd_batches d \<and> list_all (from_batch tid None) new"
proof -
  from assms(1) obtain f s d1 where run:
    "persist_record E now p tid (it_source q) None (it_exposure_type q) (Inr (it_observed_at q)) (intake_record q)
       \<lparr>xs_db = d, xs_pending = []\<rparr> = Inr (outcome, f, s)"
    "commit_session s = Inr d1" "same_tables d1 d'"
    unfolding intake_finding_def by (auto simp: Let_def same_tables_def split: if_splits)
  have "\<exists>new. xstep tid \<lparr>xs_db = d, xs_pending = []\<rparr> new s \<and> list_all (from_batch tid None) new"
    using persist_record_step[OF run(1) inv_xgood[OF assms(2)]]
  proof (elim disjE conjE exE)
    fix g assume "xstep tid \<lparr>xs_db = d, xs_pending = []\<rparr> [g] s" "clean_dict (fd_detail g)" "fd_tenant_id g = tid"
      "fd_ingest_id g = map_option ib_id None"
    then show ?thesis by (intro exI[of _ "[g]"]) (simp add: from_batch_def)
  next
    assume "xstep tid \<lparr>xs_db = d, xs_pending = []\<rparr> [] s"
    then show ?thesis by (intro exI[of _ "[]"]) simp
  qed
  then obtain new where new: "xstep tid \<lparr>xs_db = d, xs_pending = []\<rparr> new s" "list_all (from_batch tid None) new" by blast
  have "stored tid new d d1 \<and> xd_batches d1 = xd_batches d" using commit_stored[OF new(1) run(2)] by simp
  then have "stored tid new d d'" "xd_batches d' = xd_batches d"
    using stored_cong run(3) by (auto simp: same_tables_def)
  with new(2) show ?thesis by blast
qed

lemma new_batch_key [simp]: "ib_id (new_batch now p tid parser file d) = next_id ib_id (xd_batches d)"
  "ib_tenant_id (new_batch now p tid parser file d) = tid"
  by (simp_all add: new_batch_def)

lemma completed_batch_sel [simp]: "ib_id (completed_batch c b) = ib_id b" "ib_tenant_id (completed_batch c b) = ib_tenant_id b"
  "ib_record_count (completed_batch c b) = ic_total c" "ib_created_count (completed_batch c b) = ic_created c"
  "ib_deduped_count (completed_batch c b) = ic_deduped c" "ib_error_count (completed_batch c b) = ic_errors c"
  "ib_status (completed_batch c b) = ''completed''"
  by (simp_all add: completed_batch_def)

lemma importD:
  assumes "import_file E mb now p tid request parser file d = Inr (b, d')" "exposure_inv d"
  shows "\<exists>new dd e. stored tid new d d' \<and> xd_batches d' = xd_batches d @ [b]
    \<and> list_all (from_batch tid (Some (ib_id b))) new \<and> ib_id b = next_id ib_id (xd_batches d) \<and> ib_tenant_id b = tid
    \<and> ib_status b = ''completed'' \<and> ib_created_count b = int (length new) \<and> ib_deduped_count b = dd \<and> ib_error_count b = e
    \<and> ib_record_count b = int (length new) + dd + e
    \<and> ib_record_count b = int (length (fst (run_parser (en_hash E) (en_loads E) parser (up_text file))))"
proof -
  define batch where "batch = new_batch now p tid parser file d"
  define d0 where "d0 = d\<lparr>xd_batches := xd_batches d @ [batch]\<rparr>"
  obtain recs raised where parsed: "run_parser (en_hash E) (en_loads E) parser (up_text file) = (recs, raised)" by fastforce
  from assms(1) obtain c s d1 where run:
    "import_records E now p tid batch recs (zero_counts, \<lparr>xs_db = d0, xs_pending = []\<rparr>) = Inr (c, s)"
    "commit_session s = Inr d1" "b = completed_batch c batch"
    "same_tables (d1\<lparr>xd_batches := upd_row ib_id (ib_id batch) (\<lambda>_. b) (xd_batches d1)\<rparr>) d'"
    unfolding import_file_def parsed batch_def[symmetric] d0_def[symmetric]
    by (auto simp: Let_def same_tables_def batch_def d0_def split: if_splits option.splits)
  have "xgood tid \<lparr>xs_db = d0, xs_pending = []\<rparr>" using inv_xgood[OF assms(2)] by (simp add: xgood_def d0_def)
  from import_records_step[OF run(1) this] obtain new dd e where new:
    "xstep tid \<lparr>xs_db = d0, xs_pending = []\<rparr> new s" "list_all (from_batch tid (Some (ib_id batch))) new"
    "c = counts_add zero_counts (int (length new)) dd e" "int (length new) + dd + e = int (length recs)" by blast
  have st: "stored tid new d0 d1" "xd_batches d1 = xd_batches d @ [batch]"
    using commit_stored[OF new(1) run(2)] by (simp_all add: d0_def)
  have "\<forall>r \<in> set (xd_batches d). ib_id r \<noteq> ib_id batch"
    using next_id_gt[of _ "xd_batches d" ib_id] by (force simp: batch_def)
  then have "upd_row ib_id (ib_id batch) (\<lambda>_. b) (xd_batches d1) = xd_batches d @ [b]"
    unfolding st(2) by (rule upd_row_last) simp
  then have "xd_batches d' = xd_batches d @ [b]" using run(4) by (simp add: same_tables_def)
  moreover have "stored tid new d d'" using st(1) run(4) by (simp add: stored_def same_tables_def d0_def)
  moreover have "ib_id b = next_id ib_id (xd_batches d)" "ib_tenant_id b = tid" "ib_id b = ib_id batch"
    by (simp_all add: run(3) batch_def)
  ultimately show ?thesis using new(2,3,4) run(3) parsed
    by (intro exI[of _ new] exI[of _ dd] exI[of _ e]) (simp add: counts_add_def zero_counts_def)
qed

text \<open>The other routes.\<close>

definition batch_victim :: "int \<Rightarrow> int \<Rightarrow> finding \<Rightarrow> bool" where
  "batch_victim tid i = (\<lambda>f. fd_tenant_id f = tid \<and> fd_ingest_id f = Some i)"

lemma rollbackD:
  assumes "rollback_ingest now p tid request i d = Inr (n, d')"
  shows "n = length (filter (batch_victim tid i) (xd_findings d))
    \<and> xd_findings d' = filter (\<lambda>f. \<not> batch_victim tid i f) (xd_findings d)
    \<and> xd_batches d' = upd_row ib_id i (\<lambda>b. b\<lparr>ib_status := ''rolled_back''\<rparr>) (xd_batches d)
    \<and> xd_identities d' = xd_identities d \<and> xd_assets d' = xd_assets d
    \<and> (\<exists>b \<in> set (xd_batches d). ib_id b = i \<and> ib_tenant_id b = tid)"
  using assms find_row_SomeD[of ib_id i "xd_batches d"]
  by (auto simp: rollback_ingest_def owned_ingest_def batch_victim_def Let_def bindr_def
      split: option.splits if_splits sum.splits)

lemma opt_inD: "opt_in v xs \<Longrightarrow> or_old v old \<in> insert old (set xs)"
  by (auto simp: opt_in_def or_old_def split: option.splits)

lemma row_ok_vocabularies:
  "exposure_row_ok as f = (fd_exposure_type f \<in> {''identity_exposure'', ''credential_exposure'', ''brand_exposure'',
        ''infrastructure_exposure'', ''secret_exposure'', ''source_code_exposure''}
      \<and> fd_source_reliability f \<in> set RELIABILITIES \<and> fd_info_credibility f \<in> set CREDIBILITIES
      \<and> fd_severity f \<in> set SEVERITIES \<and> fd_status f \<in> set FINDING_STATUSES
      \<and> (case fd_asset_id f of None \<Rightarrow> True | Some i \<Rightarrow> i \<in> as_id ` set as))"
  by (simp add: exposure_row_ok_def FINDING_STATUSES_def SEVERITIES_def RELIABILITIES_def CREDIBILITIES_def)

lemma triaged_row_ok:
  assumes "valid_triage q" "exposure_row_ok as f"
  shows "exposure_row_ok as (triaged q f)"
proof -
  have "or_old (tg_status q) (fd_status f) \<in> insert (fd_status f) (set FINDING_STATUSES)"
    "or_old (tg_severity q) (fd_severity f) \<in> insert (fd_severity f) (set SEVERITIES)"
    "or_old (tg_source_reliability q) (fd_source_reliability f) \<in> insert (fd_source_reliability f) (set RELIABILITIES)"
    "or_old (tg_info_credibility q) (fd_info_credibility f) \<in> insert (fd_info_credibility f) (set CREDIBILITIES)"
    using assms(1) opt_inD unfolding valid_triage_def by blast+
  moreover note assms(2)[unfolded row_ok_vocabularies]
  ultimately have "or_old (tg_status q) (fd_status f) \<in> set FINDING_STATUSES"
    "or_old (tg_severity q) (fd_severity f) \<in> set SEVERITIES"
    "or_old (tg_source_reliability q) (fd_source_reliability f) \<in> set RELIABILITIES"
    "or_old (tg_info_credibility q) (fd_info_credibility f) \<in> set CREDIBILITIES"
    by (metis insertE)+
  with assms(2) show ?thesis unfolding row_ok_vocabularies by (simp add: triaged_def)
qed

lemma triaged_keeps [simp]: "exposure_key (triaged q f) = exposure_key f" "fd_id (triaged q f) = fd_id f"
  "fd_tenant_id (triaged q f) = fd_tenant_id f" "fd_ingest_id (triaged q f) = fd_ingest_id f"
  "fd_detail (triaged q f) = fd_detail f"
  by (simp_all add: triaged_def exposure_key_def)

lemma triageD:
  assumes "triage_finding E now p tid request i q d = Inr d'" "exposure_inv d"
  shows "stored tid [] d d' \<and> xd_batches d' = xd_batches d"
proof -
  from assms(1) have ok: "valid_triage q" by (auto simp: triage_finding_def split: if_splits)
  from assms(1) obtain f where f: "find_row fd_id i (xd_findings d) = Some f" "fd_tenant_id f = tid"
    and run: "same_tables d d' \<or> same_tables (d\<lparr>xd_findings :=
      upd_row fd_id (fd_id f) (\<lambda>_. apply_risk E now d tid (triaged q f)) (xd_findings d)\<rparr>) d'"
    using find_row_SomeD[of fd_id i "xd_findings d"]
    by (auto simp: triage_finding_def owned_finding_def Let_def same_tables_def bindr_def split: if_splits option.splits sum.splits)
  let ?s = "\<lparr>xs_db = d, xs_pending = []\<rparr>"
  have mem: "f \<in> set (xd_findings d)" using find_row_SomeD[OF f(1)] by simp
  have clean: "clean_dict (fd_detail f) \<Longrightarrow> clean_dict (fd_detail (apply_risk E now d tid (triaged q f)))"
    by (rule apply_risk_clean) simp
  then have kept: "xkept tid f (apply_risk E now d tid (triaged q f))" using f(2) by (simp add: xkept_def)
  have "exposure_row_ok (xd_assets d) f" using assms(2) mem by (simp add: exposure_inv_def)
  then have row: "exposure_row_ok (xd_assets d) (apply_risk E now d tid (triaged q f))"
    using triaged_row_ok[OF ok] by simp
  have "xstep tid ?s [] (?s\<lparr>xs_db := d\<lparr>xd_findings := upd_row fd_id (fd_id f) (\<lambda>_. apply_risk E now d tid (triaged q f)) (xd_findings d)\<rparr>\<rparr>)"
    using replace_step[OF inv_xgood[OF assms(2)], where f = f and g = "apply_risk E now d tid (triaged q f)"] mem kept row by simp
  then have 1: "stored tid [] d (d\<lparr>xd_findings := upd_row fd_id (fd_id f) (\<lambda>_. apply_risk E now d tid (triaged q f)) (xd_findings d)\<rparr>)"
    by (simp add: stored_def xstep_def xgood_def all_rows_def)
  have 2: "stored tid [] d d" using inv_xgood[OF assms(2), of tid] by (simp add: stored_def xgood_def)
  from run stored_cong[OF 1] stored_cong[OF 2] show ?thesis by (auto simp: same_tables_def)
qed

lemma assetD:
  "create_asset E now p tid request aq d = Inr d' \<Longrightarrow> \<exists>a. same_tables (d\<lparr>xd_assets := xd_assets d @ [a]\<rparr>) d'
     \<and> as_id a = next_id as_id (xd_assets d) \<and> as_tenant_id a = tid"
  "update_asset now p tid request i au d = Inr d' \<Longrightarrow> (\<exists>a. find_row as_id i (xd_assets d) = Some a \<and> as_tenant_id a = tid)
     \<and> (same_tables d d' \<or> same_tables (d\<lparr>xd_assets := upd_row as_id i (updated_asset au) (xd_assets d)\<rparr>) d')"
  "delete_asset now p tid request i d = Inr d' \<Longrightarrow> (\<exists>a. find_row as_id i (xd_assets d) = Some a \<and> as_tenant_id a = tid)
     \<and> same_tables (d\<lparr>xd_assets := filter (\<lambda>x. as_id x \<noteq> i) (xd_assets d),
            xd_findings := map (\<lambda>f. if fd_asset_id f = Some i then f\<lparr>fd_asset_id := None\<rparr> else f) (xd_findings d),
            xd_identities := map (\<lambda>c. if ci_vip_asset_id c = Some i then c\<lparr>ci_vip_asset_id := None\<rparr> else c)
              (xd_identities d)\<rparr>) d'"
  by (auto simp: create_asset_def update_asset_def delete_asset_def owned_asset_def Let_def same_tables_def bindr_def
      split: if_splits option.splits sum.splits)

lemma same_tables_inv: "same_tables d d' \<Longrightarrow> exposure_inv d \<Longrightarrow> exposure_inv d'"
  by (simp add: same_tables_def exposure_inv_def)

lemma row_ok_more_assets: "exposure_row_ok as f \<Longrightarrow> as_id ` set as \<subseteq> as_id ` set as' \<Longrightarrow> exposure_row_ok as' f"
  unfolding row_ok_vocabularies using subsetD[of "as_id ` set as" "as_id ` set as'"] by (cases "fd_asset_id f") simp_all

lemma assets_inv:
  assumes "exposure_inv d" "keyed as_id as'" "as_id ` set (xd_assets d) \<subseteq> as_id ` set as'"
  shows "exposure_inv (d\<lparr>xd_assets := as'\<rparr>)"
  using assms(1,2) row_ok_more_assets[OF _ assms(3)] unfolding exposure_inv_def by simp

lemma inv_from_keys:
  assumes "exposure_inv d" "map fd_id (xd_findings d') = map fd_id (xd_findings d)"
    "map exposure_key (xd_findings d') = map exposure_key (xd_findings d)"
    "map ci_id (xd_identities d') = map ci_id (xd_identities d)" "keyed as_id (xd_assets d')"
    "xd_batches d' = xd_batches d"
    "\<forall>f \<in> set (xd_findings d'). exposure_row_ok (xd_assets d') f \<and> clean_dict (fd_detail f)
       \<and> batch_known (ib_id ` set (xd_batches d)) f"
  shows "exposure_inv d'"
  using assms by (simp add: exposure_inv_def keyed_def unique_on_def)

lemma dropped_asset_row_ok:
  assumes "exposure_row_ok as f"
  shows "exposure_row_ok (filter (\<lambda>x. as_id x \<noteq> i) as) (if fd_asset_id f = Some i then f\<lparr>fd_asset_id := None\<rparr> else f)"
proof (cases "fd_asset_id f")
  case None
  then show ?thesis using assms by (simp add: row_ok_vocabularies)
next
  case (Some j)
  then have "j \<noteq> i \<Longrightarrow> j \<in> as_id ` set (filter (\<lambda>x. as_id x \<noteq> i) as)"
    using assms unfolding row_ok_vocabularies by auto
  with Some assms show ?thesis by (simp add: row_ok_vocabularies)
qed

lemma drop_asset_inv:
  assumes "exposure_inv d"
  shows "exposure_inv (d\<lparr>xd_assets := filter (\<lambda>x. as_id x \<noteq> i) (xd_assets d),
            xd_findings := map (\<lambda>f. if fd_asset_id f = Some i then f\<lparr>fd_asset_id := None\<rparr> else f) (xd_findings d),
            xd_identities := map (\<lambda>c. if ci_vip_asset_id c = Some i then c\<lparr>ci_vip_asset_id := None\<rparr> else c)
              (xd_identities d)\<rparr>)" (is "exposure_inv ?d")
proof -
  let ?g = "\<lambda>f. if fd_asset_id f = Some i then f\<lparr>fd_asset_id := None\<rparr> else f"
  have g: "fd_id (?g f) = fd_id f" "exposure_key (?g f) = exposure_key f" "fd_detail (?g f) = fd_detail f"
    "batch_known B (?g f) = batch_known B f" for f B by (simp_all add: exposure_key_def batch_known_def)
  have "map fd_id (xd_findings ?d) = map fd_id (xd_findings d)"
    "map exposure_key (xd_findings ?d) = map exposure_key (xd_findings d)" by (simp_all add: g comp_def)
  moreover have "map ci_id (xd_identities ?d) = map ci_id (xd_identities d)" by simp
  moreover have "keyed as_id (xd_assets ?d)" using assms by (simp add: exposure_inv_def keyed_def distinct_map_filter)
  moreover have "\<forall>f \<in> set (xd_findings ?d). exposure_row_ok (xd_assets ?d) f \<and> clean_dict (fd_detail f)
      \<and> batch_known (ib_id ` set (xd_batches d)) f"
  proof
    fix x assume "x \<in> set (xd_findings ?d)"
    then obtain f where f: "f \<in> set (xd_findings d)" "x = ?g f" by auto
    with assms have "exposure_row_ok (xd_assets d) f \<and> clean_dict (fd_detail f)
      \<and> batch_known (ib_id ` set (xd_batches d)) f" unfolding exposure_inv_def by blast
    with dropped_asset_row_ok[of "xd_assets d" f i] show "exposure_row_ok (xd_assets ?d) x \<and> clean_dict (fd_detail x)
      \<and> batch_known (ib_id ` set (xd_batches d)) x" unfolding f(2) by (simp only: g) simp
  qed
  moreover have "xd_batches ?d = xd_batches d" by simp
  ultimately show ?thesis using inv_from_keys[OF assms] by blast
qed

lemma rollback_inv:
  assumes "rollback_ingest now p tid request i d = Inr (n, d')" "exposure_inv d"
  shows "exposure_inv d'"
proof -
  note r = rollbackD[OF assms(1)]
  have "ib_id ` set (xd_batches d') = ib_id ` set (xd_batches d)" using r by (simp add: set_ids_upd_row)
  moreover have "keyed ib_id (xd_batches d')" using r assms(2) by (simp add: exposure_inv_def keyed_upd_row)
  moreover have "keyed fd_id (xd_findings d')" using r assms(2) by (simp add: exposure_inv_def keyed_def distinct_map_filter)
  moreover have "unique_on (\<lambda>_. True) exposure_key (xd_findings d')"
    using r assms(2) by (simp add: exposure_inv_def unique_on_def distinct_map_filter)
  moreover have "\<forall>f \<in> set (xd_findings d'). exposure_row_ok (xd_assets d) f \<and> clean_dict (fd_detail f)
      \<and> batch_known (ib_id ` set (xd_batches d)) f"
    using r assms(2) by (simp add: exposure_inv_def)
  moreover have "keyed ci_id (xd_identities d')" "keyed as_id (xd_assets d')" "xd_assets d' = xd_assets d"
    using r assms(2) by (simp_all add: exposure_inv_def)
  ultimately show ?thesis unfolding exposure_inv_def by metis
qed

lemma exposure_step_inv:
  assumes "exposure_step E mb tid d d'" "exposure_inv d"
  shows "exposure_inv d'"
  using assms(1)
proof (cases rule: exposure_step.cases)
  case (step_intake now p request q outcome)
  from intakeD[OF this assms(2)] obtain new where "stored tid new d d'" "xd_batches d' = xd_batches d"
    "list_all (from_batch tid None) new" by blast
  with assms(2) show ?thesis by (intro stored_inv[of tid new d d' None]) (simp_all add: exposure_inv_def)
next
  case (step_import now p request parser up b)
  from importD[OF this assms(2)] obtain new where new: "stored tid new d d'" "xd_batches d' = xd_batches d @ [b]"
    "list_all (from_batch tid (Some (ib_id b))) new" "ib_id b = next_id ib_id (xd_batches d)" by blast
  have "keyed ib_id (xd_batches d')" using new assms(2) by (simp add: exposure_inv_def keyed_append)
  moreover have "ib_id ` set (xd_batches d) \<subseteq> ib_id ` set (xd_batches d')"
    "\<forall>i. Some (ib_id b) = Some i \<longrightarrow> i \<in> ib_id ` set (xd_batches d')" using new(2) by auto
  ultimately show ?thesis using stored_inv[OF new(1) assms(2) new(3)] by blast
next
  case (step_rollback now p request i n)
  then show ?thesis using rollback_inv assms(2) by blast
next
  case (step_triage now p request i tq)
  from triageD[OF this assms(2)] assms(2) show ?thesis
    by (intro stored_inv[of tid "[]" d d' None]) (simp_all add: exposure_inv_def)
next
  case (step_create now p request aq)
  from assetD(1)[OF this] obtain a where a: "same_tables (d\<lparr>xd_assets := xd_assets d @ [a]\<rparr>) d'"
    "as_id a = next_id as_id (xd_assets d)" by blast
  have "exposure_inv (d\<lparr>xd_assets := xd_assets d @ [a]\<rparr>)"
    using assms(2) a(2) by (intro assets_inv) (auto simp: exposure_inv_def keyed_append)
  with a(1) show ?thesis by (rule same_tables_inv)
next
  case (step_update now p request i au)
  have k: "as_id (updated_asset au x) = as_id x" for x by (simp add: updated_asset_def)
  have "exposure_inv (d\<lparr>xd_assets := upd_row as_id i (updated_asset au) (xd_assets d)\<rparr>)"
    using assms(2) by (intro assets_inv) (simp_all add: exposure_inv_def keyed_upd_row set_ids_upd_row k)
  with assetD(2)[OF step_update] assms(2) same_tables_inv show ?thesis by blast
next
  case (step_delete now p request i)
  from assetD(3)[OF this] drop_asset_inv[OF assms(2)] same_tables_inv show ?thesis by blast
qed

section \<open>Other tenants\<close>

text \<open>
  What the tables hold of other tenants, but for the references to assets.
\<close>

definition foreign_exposures ::
  "int \<Rightarrow> exposure_db \<Rightarrow> finding list \<times> ingest_batch list \<times> cred_identity list \<times> asset list" where
  "foreign_exposures tid d =
     (map (fd_asset_id_update (\<lambda>_. None)) (filter (\<lambda>f. fd_tenant_id f \<noteq> tid) (xd_findings d)),
      filter (\<lambda>b. ib_tenant_id b \<noteq> tid) (xd_batches d),
      map (ci_vip_asset_id_update (\<lambda>_. None)) (filter (\<lambda>c. ci_tenant_id c \<noteq> tid) (xd_identities d)),
      filter (\<lambda>a. as_tenant_id a \<noteq> tid) (xd_assets d))"

lemma foreign_xkept:
  "list_all2 (xkept tid) fs gs \<Longrightarrow> filter (\<lambda>f. fd_tenant_id f \<noteq> tid) gs = filter (\<lambda>f. fd_tenant_id f \<noteq> tid) fs"
  by (induction rule: list_all2_induct) (auto simp: xkept_def exposure_key_def)

lemma foreign_stored:
  assumes "stored tid new d d'" "list_all (from_batch tid ib) new"
    "filter (\<lambda>b. ib_tenant_id b \<noteq> tid) (xd_batches d') = filter (\<lambda>b. ib_tenant_id b \<noteq> tid) (xd_batches d)"
  shows "foreign_exposures tid d' = foreign_exposures tid d"
proof -
  have "filter (\<lambda>f. fd_tenant_id f \<noteq> tid) new = []" using assms(2) by (induction new) (auto simp: from_batch_def)
  then have "filter (\<lambda>f. fd_tenant_id f \<noteq> tid) (xd_findings d') = filter (\<lambda>f. fd_tenant_id f \<noteq> tid) (xd_findings d)"
    using foreign_xkept[of tid "xd_findings d @ new" "xd_findings d'"] assms(1) by (simp add: stored_def)
  with assms(1,3) show ?thesis by (simp add: foreign_exposures_def stored_def)
qed

lemma foreign_same: "same_tables d d' \<Longrightarrow> foreign_exposures tid d' = foreign_exposures tid d"
  by (simp add: same_tables_def foreign_exposures_def)

lemma map_blank:
  assumes "\<And>x. blank (g x) = blank x" "\<And>x. P (g x) = P x"
  shows "map blank (filter P (map g xs)) = map blank (filter P xs)"
  by (induction xs) (simp_all add: assms)

lemma exposure_step_foreign:
  assumes "exposure_step E mb tid d d'" "exposure_inv d"
  shows "foreign_exposures tid d' = foreign_exposures tid d"
  using assms(1)
proof (cases rule: exposure_step.cases)
  case (step_intake now p request q outcome)
  from intakeD[OF this assms(2)] foreign_stored show ?thesis by fastforce
next
  case (step_import now p request parser up b)
  from importD[OF this assms(2)] obtain new where new: "stored tid new d d'" "xd_batches d' = xd_batches d @ [b]"
    "list_all (from_batch tid (Some (ib_id b))) new" "ib_tenant_id b = tid" by blast
  then show ?thesis by (intro foreign_stored) simp_all
next
  case (step_rollback now p request i n)
  note r = rollbackD[OF this]
  then obtain b where b: "b \<in> set (xd_batches d)" "ib_id b = i" "ib_tenant_id b = tid" by blast
  have "ib_tenant_id x = tid" if "x \<in> set (xd_batches d)" "ib_id x = i" for x
    using that b assms(2) by (auto simp: exposure_inv_def keyed_def distinct_map inj_on_def)
  then have "filter (\<lambda>b. ib_tenant_id b \<noteq> tid) (xd_batches d') = filter (\<lambda>b. ib_tenant_id b \<noteq> tid) (xd_batches d)"
    using r by (simp add: filter_upd_row)
  moreover have "filter (\<lambda>f. fd_tenant_id f \<noteq> tid) (filter (\<lambda>f. \<not> batch_victim tid i f) fs)
      = filter (\<lambda>f. fd_tenant_id f \<noteq> tid) fs" for fs
    by (induction fs) (auto simp: batch_victim_def)
  ultimately show ?thesis using r by (simp add: foreign_exposures_def del: filter_filter)
next
  case (step_triage now p request i tq)
  from triageD[OF this assms(2)] show ?thesis by (intro foreign_stored[of tid "[]" d d' None]) simp_all
next
  case (step_create now p request aq)
  from assetD(1)[OF this] foreign_same show ?thesis by (fastforce simp: foreign_exposures_def)
next
  case (step_update now p request i au)
  note u = assetD(2)[OF this]
  then obtain a where a: "find_row as_id i (xd_assets d) = Some a" "as_tenant_id a = tid" by blast
  have "as_tenant_id x = tid" if "x \<in> set (xd_assets d)" "as_id x = i" for x
    using find_owned[OF _ a(1) that] a(2) assms(2) by (simp add: exposure_inv_def)
  then have "filter (\<lambda>a. as_tenant_id a \<noteq> tid) (upd_row as_id i (updated_asset au) (xd_assets d))
      = filter (\<lambda>a. as_tenant_id a \<noteq> tid) (xd_assets d)"
    by (intro filter_upd_row) (simp add: updated_asset_def)
  then have "foreign_exposures tid (d\<lparr>xd_assets := upd_row as_id i (updated_asset au) (xd_assets d)\<rparr>) = foreign_exposures tid d"
    by (simp add: foreign_exposures_def)
  with u foreign_same show ?thesis by metis
next
  case (step_delete now p request i)
  note u = assetD(3)[OF this]
  then obtain a where a: "find_row as_id i (xd_assets d) = Some a" "as_tenant_id a = tid" by blast
  have "as_tenant_id x = tid" if "x \<in> set (xd_assets d)" "as_id x = i" for x
    using find_owned[OF _ a(1) that] a(2) assms(2) by (simp add: exposure_inv_def)
  then have as: "filter (\<lambda>a. as_tenant_id a \<noteq> tid) (filter (\<lambda>x. as_id x \<noteq> i) (xd_assets d))
      = filter (\<lambda>a. as_tenant_id a \<noteq> tid) (xd_assets d)"
    unfolding filter_filter by (intro filter_cong) auto
  show ?thesis using foreign_same[OF conjunct2[OF u], of tid]
    by (simp add: foreign_exposures_def as map_blank del: filter_filter)
qed

end
