(* ===== verification/Surface.thy ===== *)
theory Surface
  imports BrandScan ExposureSteps
begin

text \<open>
  The attack surface of a tenant: passive discovery from a brand's domains
  (\<open>app/surface_discovery.py\<close>), and the import, triage and promotion of its assets
  (\<open>app/routers/surface_routes.py\<close>). Promotion writes a finding into the tables of \<open>Exposure\<close>; the network
  is the record \<open>network\<close> of \<open>BrandScan\<close>. A request answers and has committed, or raises and the session is
  dropped.
\<close>

section \<open>Tables\<close>

record surface_asset =
  sa_id :: int
  sa_tenant_id :: int
  sa_brand_id :: "int option"
  sa_asset_type :: string
  sa_value :: string
  sa_value_hash :: string
  sa_parent_id :: "int option"
  sa_source :: string
  sa_detail :: "json dict"
  sa_status :: string
  sa_first_seen :: time
  sa_last_seen :: time
  sa_dedup_key :: string
  sa_risk_score :: int
  sa_created_by_user_id :: "int option"
  sa_created_at :: time

record surface_db =
  sf_assets :: "surface_asset list"
  sf_brands :: "monitored_brand list"
  sf_exposures :: exposure_db

definition SURFACE_MVP_TYPES :: "string list" where
  "SURFACE_MVP_TYPES = [''subdomain'', ''ip'', ''certificate'']"

definition SURFACE_STATUS :: "string list" where
  "SURFACE_STATUS = [''new'', ''confirmed'', ''ignored'', ''resolved'']"

definition SURFACE_SOURCES :: "string list" where
  "SURFACE_SOURCES = [''ct_log'', ''dns'', ''rdap'', ''tls'', ''manual_import'', ''active_scan'']"

definition surface_value_hash :: "exposure_env \<Rightarrow> string \<Rightarrow> string \<Rightarrow> string" where
  "surface_value_hash E asset_type v = en_hash E (asset_type @ ''|'' @ norm v)"

definition surface_dedup_key :: "exposure_env \<Rightarrow> int \<Rightarrow> string \<Rightarrow> string \<Rightarrow> string" where
  "surface_dedup_key E tid asset_type v = en_hash E (int_str tid @ ''|'' @ asset_type @ ''|'' @ norm v)"

definition known_surface :: "int \<Rightarrow> string \<Rightarrow> surface_asset list \<Rightarrow> surface_asset option" where
  "known_surface tid key rows = find (\<lambda>a. sa_tenant_id a = tid \<and> sa_dedup_key a = key) rows"

definition new_surface ::
  "exposure_env \<Rightarrow> time \<Rightarrow> int \<Rightarrow> int option \<Rightarrow> string \<Rightarrow> string \<Rightarrow> string \<Rightarrow> json dict \<Rightarrow> int option \<Rightarrow> int option
    \<Rightarrow> surface_asset list \<Rightarrow> surface_asset" where
  "new_surface E now tid brand_id asset_type v source detail parent_id user rows =
     \<lparr>sa_id = next_id sa_id rows, sa_tenant_id = tid, sa_brand_id = brand_id, sa_asset_type = asset_type, sa_value = v,
      sa_value_hash = surface_value_hash E asset_type v, sa_parent_id = parent_id, sa_source = source,
      sa_detail = detail, sa_status = ''new'', sa_first_seen = now, sa_last_seen = now,
      sa_dedup_key = surface_dedup_key E tid asset_type v, sa_risk_score = 0, sa_created_by_user_id = user,
      sa_created_at = now\<rparr>"

section \<open>What the network answers\<close>

text \<open>The subdomains the certificates of a domain name.\<close>

definition ct_entry_names :: "json \<Rightarrow> string list res" where
  "ct_entry_names e = bindr (json_get e ''name_value'' (JStr [])) (\<lambda>v.
     bindr (json_str (jor v (JStr []))) (\<lambda>s. Inr (map ct_name (splitlines s))))"

definition ct_subdomains :: "network \<Rightarrow> string \<Rightarrow> nat \<Rightarrow> string list" where
  "ct_subdomains nw domain limit = default_on_error []
     (bindr (nw_crtsh nw (''%.'' @ domain)) (\<lambda>r. if rs_status r \<noteq> 200 \<or> rs_blank r then Inr []
        else bindr (rs_json r) (\<lambda>j. bindr (json_items j) (\<lambda>es. bindr (map_res ct_entry_names es) (\<lambda>names.
          Inr (take limit (sorted_set (filter (\<lambda>n. CHR ''@'' \<notin> set n \<and> CHR ''*'' \<notin> set n
                 \<and> (n = domain \<or> endswith n (CHR ''.'' # domain))) (concat names)))))))))"

definition resolve_ips :: "network \<Rightarrow> string \<Rightarrow> string list" where
  "resolve_ips nw host = (case nw_addresses nw host of Inr (Some ips) \<Rightarrow> sorted_set ips | _ \<Rightarrow> [])"

fun rdap_events :: "json \<Rightarrow> json list \<Rightarrow> json res" where
  "rdap_events registered [] = Inr registered"
| "rdap_events registered (ev # evs) = bindr (json_get ev ''eventAction'' JNull) (\<lambda>action.
     if action = JStr ''registration'' then bindr (json_get ev ''eventDate'' JNull) (\<lambda>d. rdap_events d evs)
     else rdap_events registered evs)"

definition rdap_info :: "network \<Rightarrow> string \<Rightarrow> json dict" where
  "rdap_info nw domain = default_on_error []
     (bindr (nw_rdap nw domain) (\<lambda>r. if rs_status r \<noteq> 200 then Inr []
        else bindr (rs_json r) (\<lambda>j. bindr (json_get j ''handle'' JNull) (\<lambda>h.
          bindr (json_get j ''events'' (JList [])) (\<lambda>evs. bindr (json_items evs) (\<lambda>es.
            bindr (rdap_events JNull es) (\<lambda>registered.
              Inr (filter (\<lambda>kv. truthy (snd kv)) [(''handle'', h), (''registered'', registered)]))))))))"

text \<open>\<open>max\<close> by a key: a later entry wins when its key is greater. Texts and numbers compare with their like.\<close>

fun json_greater :: "json \<Rightarrow> json \<Rightarrow> bool res" where
  "json_greater (JStr a) (JStr b) = Inr (b < a)"
| "json_greater (JInt a) (JInt b) = Inr (b < a)"
| "json_greater (JBool a) (JBool b) = Inr (b < a)"
| "json_greater (JInt a) (JBool b) = Inr ((if b then 1 else 0) < a)"
| "json_greater (JBool a) (JInt b) = Inr (b < (if a then 1 else 0))"
| "json_greater _ _ = Inl TypeError"

fun newest_entry :: "json \<times> json \<Rightarrow> (json \<times> json) list \<Rightarrow> json res" where
  "newest_entry best [] = Inr (fst best)"
| "newest_entry best (e # es) =
     bindr (json_greater (snd e) (snd best)) (\<lambda>g. newest_entry (if g then e else best) es)"

definition keyed_entry :: "json \<Rightarrow> (json \<times> json) res" where
  "keyed_entry e = bindr (json_get e ''not_before'' (JStr [])) (\<lambda>k. Inr (e, k))"

definition cert_dict :: "json \<Rightarrow> json dict" where
  "cert_dict e = [(''issuer'', jget (jdict e) ''issuer_name''), (''not_before'', jget (jdict e) ''not_before''),
     (''not_after'', jget (jdict e) ''not_after''), (''serial'', jget (jdict e) ''serial_number'')]"

definition cert_info :: "network \<Rightarrow> string \<Rightarrow> json dict option" where
  "cert_info nw domain = default_on_error None
     (bindr (nw_crtsh nw domain) (\<lambda>r. if rs_status r \<noteq> 200 \<or> rs_blank r then Inr None
        else bindr (rs_json r) (\<lambda>entries. if \<not> truthy entries then Inr None
          else bindr (json_items entries) (\<lambda>es. bindr (map_res keyed_entry es) (\<lambda>ks.
            case ks of [] \<Rightarrow> Inr None | k # ks' \<Rightarrow> bindr (newest_entry k ks') (\<lambda>e. Inr (Some (cert_dict e))))))))"

section \<open>Passive discovery\<close>

text \<open>The row of a value, whether it is new, and the table.\<close>

definition upsert ::
  "exposure_env \<Rightarrow> time \<Rightarrow> int \<Rightarrow> int \<Rightarrow> string \<Rightarrow> string \<Rightarrow> string \<Rightarrow> json dict \<Rightarrow> int option \<Rightarrow> surface_asset list
    \<Rightarrow> surface_asset \<times> bool \<times> surface_asset list" where
  "upsert E now tid brand_id asset_type v source detail parent_id rows =
     (case known_surface tid (surface_dedup_key E tid asset_type v) rows of
        Some a \<Rightarrow> let a' = a\<lparr>sa_last_seen := now,
            sa_detail := (if detail \<noteq> [] then dict_merge (sa_detail a) detail else sa_detail a)\<rparr>
          in (a', False, upd_row sa_id (sa_id a) (\<lambda>_. a') rows)
      | None \<Rightarrow> let a = new_surface E now tid (Some brand_id) asset_type v source detail parent_id None rows
          in (a, True, rows @ [a]))"

record discovery =
  dc_created :: int
  dc_deduped :: int
  dc_counts :: "(string \<times> int) list"

definition no_discovery :: discovery where
  "no_discovery = \<lparr>dc_created = 0, dc_deduped = 0, dc_counts = [(''subdomain'', 0), (''ip'', 0), (''certificate'', 0)]\<rparr>"

definition tally_found :: "string \<Rightarrow> bool \<Rightarrow> discovery \<Rightarrow> discovery" where
  "tally_found asset_type is_new c = (let n = (if is_new then 1 else 0) in
     c\<lparr>dc_created := dc_created c + n, dc_deduped := dc_deduped c + (1 - n),
       dc_counts := map (\<lambda>(k, i). (k, if k = asset_type then i + n else i)) (dc_counts c)\<rparr>)"

type_synonym discovering = "discovery \<times> surface_asset list"

definition found ::
  "exposure_env \<Rightarrow> time \<Rightarrow> int \<Rightarrow> int \<Rightarrow> string \<Rightarrow> string \<Rightarrow> string \<Rightarrow> json dict \<Rightarrow> int option \<Rightarrow> discovering
    \<Rightarrow> surface_asset \<times> discovering" where
  "found E now tid brand_id asset_type v source detail parent_id st =
     (case upsert E now tid brand_id asset_type v source detail parent_id (snd st) of
        (a, is_new, rows) \<Rightarrow> (a, tally_found asset_type is_new (fst st), rows))"

definition discover_ip :: "exposure_env \<Rightarrow> time \<Rightarrow> int \<Rightarrow> int \<Rightarrow> string \<Rightarrow> int \<Rightarrow> string \<Rightarrow> discovering \<Rightarrow> discovering" where
  "discover_ip E now tid brand_id sub parent ip st =
     snd (found E now tid brand_id ''ip'' ip ''dns'' [(''host'', JStr sub)] (Some parent) st)"

definition discover_cert :: "exposure_env \<Rightarrow> network \<Rightarrow> time \<Rightarrow> int \<Rightarrow> int \<Rightarrow> string \<Rightarrow> int \<Rightarrow> discovering \<Rightarrow> discovering" where
  "discover_cert E nw now tid brand_id domain parent st = (case cert_info nw domain of None \<Rightarrow> st
     | Some ci \<Rightarrow> snd (found E now tid brand_id ''certificate'' (py_str (jor (jget ci ''serial'') (JStr (''cert:'' @ domain))))
         ''tls'' ci (Some parent) st))"

definition sub_detail :: "string \<Rightarrow> json dict \<Rightarrow> string \<Rightarrow> json dict" where
  "sub_detail domain rdap sub = (''apex'', JStr domain) # (if sub = domain \<and> rdap \<noteq> [] then [(''rdap'', JObj rdap)] else [])"

definition discover_sub ::
  "exposure_env \<Rightarrow> network \<Rightarrow> time \<Rightarrow> int \<Rightarrow> int \<Rightarrow> string \<Rightarrow> json dict \<Rightarrow> string \<Rightarrow> discovering \<Rightarrow> discovering" where
  "discover_sub E nw now tid brand_id domain rdap sub st =
     (case found E now tid brand_id ''subdomain'' sub ''ct_log'' (sub_detail domain rdap sub) None st of
        (a, st1) \<Rightarrow> let st2 = fold (discover_ip E now tid brand_id sub (sa_id a)) (resolve_ips nw sub) st1
          in if sub = domain then discover_cert E nw now tid brand_id domain (sa_id a) st2 else st2)"

definition subdomains_of :: "network \<Rightarrow> nat \<Rightarrow> string \<Rightarrow> string list" where
  "subdomains_of nw limit domain =
     (let subs = ct_subdomains nw domain limit in if domain \<notin> set subs then domain # subs else subs)"

definition discover_domain ::
  "exposure_env \<Rightarrow> network \<Rightarrow> nat \<Rightarrow> time \<Rightarrow> int \<Rightarrow> int \<Rightarrow> string \<Rightarrow> discovering \<Rightarrow> discovering" where
  "discover_domain E nw limit now tid brand_id domain st =
     fold (discover_sub E nw now tid brand_id domain (rdap_info nw domain)) (subdomains_of nw limit domain) st"

definition discover_brand ::
  "exposure_env \<Rightarrow> network \<Rightarrow> nat \<Rightarrow> time \<Rightarrow> int \<Rightarrow> monitored_brand \<Rightarrow> surface_asset list \<Rightarrow> discovering" where
  "discover_brand E nw limit now tid b rows =
     fold (discover_domain E nw limit now tid (br_id b)) (domain_list b) (no_discovery, rows)"

section \<open>Routes\<close>

definition surface_audit ::
  "time \<Rightarrow> principal \<Rightarrow> int \<Rightarrow> http_request option \<Rightarrow> string \<Rightarrow> int option \<Rightarrow> json dict \<Rightarrow> surface_db \<Rightarrow> surface_db" where
  "surface_audit now p tid request action target detail d = (let x = sf_exposures d in
     d\<lparr>sf_exposures := x\<lparr>xd_audit := xd_audit x @ [audit_row now (pr_subject p) (Some (pr_role p)) action (Some ''surface'')
        (map_option int_str target) (Some tid) (pr_user_id p) request detail]\<rparr>\<rparr>)"

definition owned_surface :: "surface_db \<Rightarrow> int \<Rightarrow> int \<Rightarrow> surface_asset res" where
  "owned_surface d asset_id tid = (case find_row sa_id asset_id (sf_assets d) of
     None \<Rightarrow> Inl (HTTPException 404)
   | Some a \<Rightarrow> if sa_tenant_id a \<noteq> tid then Inl (HTTPException 404) else Inr a)"

definition surface_brand :: "surface_db \<Rightarrow> int \<Rightarrow> int \<Rightarrow> monitored_brand res" where
  "surface_brand d brand_id tid = (case find_row br_id brand_id (sf_brands d) of
     None \<Rightarrow> Inl (HTTPException 404)
   | Some b \<Rightarrow> if br_tenant_id b \<noteq> tid then Inl (HTTPException 404) else Inr b)"

record surface_item =
  si_asset_type :: string
  si_value :: string
  si_brand_id :: "int option"
  si_detail :: "json dict"

definition valid_item :: "surface_item \<Rightarrow> bool" where
  "valid_item i = (si_asset_type i \<in> set SURFACE_MVP_TYPES \<and> str_strip (si_value i) \<noteq> [])"

definition brand_checked :: "surface_db \<Rightarrow> int \<Rightarrow> int option \<Rightarrow> unit res" where
  "brand_checked d tid b = (case b of None \<Rightarrow> Inr () | Some i \<Rightarrow> bindr (surface_brand d i tid) (\<lambda>_. Inr ()))"

definition item_brand :: "int option \<Rightarrow> surface_item \<Rightarrow> int option" where
  "item_brand brand_id i = (case si_brand_id i of None \<Rightarrow> brand_id | Some b \<Rightarrow> Some b)"

text \<open>One item: the key of its row and whether it is new.\<close>

definition import_item ::
  "exposure_env \<Rightarrow> time \<Rightarrow> principal \<Rightarrow> int \<Rightarrow> int option \<Rightarrow> surface_item \<Rightarrow> surface_db \<Rightarrow> (int \<times> bool \<times> surface_db) res" where
  "import_item E now p tid brand_id i d = bindr (brand_checked d tid (item_brand brand_id i)) (\<lambda>_.
     let v = str_strip (si_value i) in
     case known_surface tid (surface_dedup_key E tid (si_asset_type i) v) (sf_assets d) of
       Some a \<Rightarrow> Inr (sa_id a, False, d\<lparr>sf_assets := upd_row sa_id (sa_id a) (\<lambda>_. a\<lparr>sa_last_seen := now\<rparr>) (sf_assets d)\<rparr>)
     | None \<Rightarrow> let a = new_surface E now tid (item_brand brand_id i) (si_asset_type i) v ''manual_import'' (si_detail i) None
                        (pr_user_id p) (sf_assets d)
         in Inr (sa_id a, True, d\<lparr>sf_assets := sf_assets d @ [a]\<rparr>))"

fun import_items ::
  "exposure_env \<Rightarrow> time \<Rightarrow> principal \<Rightarrow> int \<Rightarrow> int option \<Rightarrow> surface_item list \<Rightarrow> surface_db \<Rightarrow> ((int \<times> bool) list \<times> surface_db) res" where
  "import_items E now p tid brand_id [] d = Inr ([], d)"
| "import_items E now p tid brand_id (i # is) d = bindr (import_item E now p tid brand_id i d) (\<lambda>(k, new, d1).
     bindr (import_items E now p tid brand_id is d1) (\<lambda>(ks, d2). Inr ((k, new) # ks, d2)))"

definition created_of :: "(int \<times> bool) list \<Rightarrow> int" where
  "created_of ks = int (length (filter snd ks))"

definition import_surface ::
  "exposure_env \<Rightarrow> time \<Rightarrow> principal \<Rightarrow> int \<Rightarrow> http_request option \<Rightarrow> int option \<Rightarrow> surface_item list \<Rightarrow> surface_db
    \<Rightarrow> ((int \<times> int \<times> int list) \<times> surface_db) res" where
  "import_surface E now p tid request brand_id is d =
     (if \<not> list_all valid_item is then Inl (HTTPException 422)
      else bindr (brand_checked d tid brand_id) (\<lambda>_. bindr (import_items E now p tid brand_id is d) (\<lambda>(ks, d').
        let created = created_of ks; deduped = int (length ks) - created in
        Inr ((created, deduped, map fst ks), surface_audit now p tid request ''surface.import'' None
          [(''created'', JInt created), (''deduped'', JInt deduped),
           (''brand_id'', case brand_id of None \<Rightarrow> JNull | Some b \<Rightarrow> JInt b)] d'))))"

definition get_surface :: "surface_db \<Rightarrow> int \<Rightarrow> int \<Rightarrow> surface_asset res" where
  "get_surface d asset_id tid = owned_surface d asset_id tid"

definition set_surface :: "surface_asset \<Rightarrow> surface_db \<Rightarrow> surface_db" where
  "set_surface a d = d\<lparr>sf_assets := upd_row sa_id (sa_id a) (\<lambda>_. a) (sf_assets d)\<rparr>"

definition triage_surface ::
  "time \<Rightarrow> principal \<Rightarrow> int \<Rightarrow> http_request option \<Rightarrow> int \<Rightarrow> string \<Rightarrow> surface_db \<Rightarrow> (surface_asset \<times> surface_db) res" where
  "triage_surface now p tid request asset_id status d =
     (if status \<notin> set SURFACE_STATUS then Inl (HTTPException 422)
      else bindr (owned_surface d asset_id tid) (\<lambda>a.
        if status = sa_status a then Inr (a, d)
        else let a' = a\<lparr>sa_status := status\<rparr> in
          Inr (a', surface_audit now p tid request ''surface.triage'' (Some (sa_id a)) [(''status'', JStr status)] (set_surface a' d))))"

definition discover ::
  "exposure_env \<Rightarrow> network \<Rightarrow> time \<Rightarrow> principal \<Rightarrow> int \<Rightarrow> http_request option \<Rightarrow> int \<Rightarrow> surface_db \<Rightarrow> (discovery \<times> surface_db) res" where
  "discover E nw now p tid request brand_id d = bindr (surface_brand d brand_id tid) (\<lambda>b.
     case discover_brand E nw 300 now tid b (sf_assets d) of (c, rows) \<Rightarrow>
       Inr (c, surface_audit now p tid request ''surface.discover'' (Some brand_id)
         [(''created'', JInt (dc_created c)), (''deduped'', JInt (dc_deduped c)),
          (''counts'', JObj (map (\<lambda>(k, i). (k, JInt i)) (dc_counts c)))] (d\<lparr>sf_assets := rows\<rparr>)))"

subsection \<open>Promotion to an exposure finding\<close>

definition promotion_key :: "exposure_env \<Rightarrow> int \<Rightarrow> surface_asset \<Rightarrow> string" where
  "promotion_key E tid a =
     en_hash E (int_str tid @ ''|infrastructure_exposure|'' @ sa_asset_type a @ ''|'' @ norm (sa_value a))"

definition promotion_detail :: "surface_asset \<Rightarrow> json dict" where
  "promotion_detail a =
     [(''surface_asset_id'', JInt (sa_id a)), (''surface_type'', JStr (sa_asset_type a)), (''value'', JStr (sa_value a))]
     @ (if sa_asset_type a = ''subdomain'' then [(''subdomain'', JStr (sa_value a)), (''domain'', JStr (sa_value a))]
        else if sa_asset_type a = ''ip'' then [(''ip'', JStr (sa_value a))]
        else if sa_asset_type a = ''certificate'' then [(''certificate'', JStr (sa_value a))] else [])
     @ (case sa_brand_id a of None \<Rightarrow> [] | Some b \<Rightarrow> [(''brand_id'', JInt b)])"

definition surface_finding :: "exposure_env \<Rightarrow> time \<Rightarrow> principal \<Rightarrow> int \<Rightarrow> surface_asset \<Rightarrow> finding" where
  "surface_finding E now p tid a =
     \<lparr>fd_id = 0, fd_tenant_id = tid, fd_exposure_type = ''infrastructure_exposure'', fd_asset_id = None,
      fd_title = take 300 (''Exposed '' @ sa_asset_type a @ '': '' @ sa_value a), fd_source = ''attack_surface'',
      fd_source_reliability = ''B'', fd_info_credibility = ''2'', fd_severity = ''medium'', fd_status = ''new'',
      fd_observed_at = None, fd_first_seen = now, fd_last_seen = now, fd_dedup_key = promotion_key E tid a,
      fd_detail = promotion_detail a, fd_redacted = True, fd_risk_score = 0, fd_ingest_id = None, fd_record_number = None,
      fd_parser_version = None, fd_created_by_user_id = pr_user_id p, fd_created_at = now\<rparr>"

definition scored_finding :: "exposure_env \<Rightarrow> time \<Rightarrow> finding \<Rightarrow> finding" where
  "scored_finding E now f = (let bd = risk_compute E now f None in
     f\<lparr>fd_risk_score := fst bd, fd_detail := AList.update ''risk_breakdown'' (JObj (snd bd)) (fd_detail f)\<rparr>)"

definition linked_surface :: "int \<Rightarrow> surface_asset \<Rightarrow> surface_asset" where
  "linked_surface finding_id a =
     a\<lparr>sa_detail := AList.update ''exposure_finding_id'' (JInt finding_id) (sa_detail a)\<rparr>"

text \<open>The key of the finding, and whether it was created.\<close>

definition promote_surface ::
  "exposure_env \<Rightarrow> time \<Rightarrow> principal \<Rightarrow> int \<Rightarrow> http_request option \<Rightarrow> int \<Rightarrow> surface_db \<Rightarrow> ((int \<times> bool) \<times> surface_db) res" where
  "promote_surface E now p tid request asset_id d = bindr (owned_surface d asset_id tid) (\<lambda>a.
     let key = promotion_key E tid a in
     case known_exposure tid key (xd_findings (sf_exposures d)) of
       Some f \<Rightarrow> Inr ((fd_id f, False), set_surface (linked_surface (fd_id f) a) d)
     | None \<Rightarrow> bindr (flush_session \<lparr>xs_db = sf_exposures d, xs_pending = [scored_finding E now (surface_finding E now p tid a)]\<rparr>) (\<lambda>s.
         let x = xs_db s; i = (case known_exposure tid key (xd_findings x) of None \<Rightarrow> 0 | Some f \<Rightarrow> fd_id f);
             a' = (linked_surface i a)\<lparr>sa_status := ''confirmed''\<rparr>
         in Inr ((i, True), surface_audit now p tid request ''surface.promote'' (Some (sa_id a))
              [(''exposure_finding_id'', JInt i), (''asset_type'', JStr (sa_asset_type a))]
              (set_surface a' (d\<lparr>sf_exposures := x\<rparr>)))))"

end
