(* ===== verification/Observables.thy ===== *)
theory Observables
  imports Auth Retention BrandScan Schemas
begin

text \<open>
  Indicators of a tenant and their enrichment (\<open>app/routers/observables.py\<close>), the connectors it asks
  (\<open>app/connectors\<close>) and the score of their answers (\<open>app/scoring.py\<close>). The texts of the factors' reasons,
  which are for display, are left out.
\<close>

section \<open>Tables\<close>

record score_factor =
  sf_name :: string
  sf_points :: int
  sf_source :: string

record observable =
  ob_id :: int
  ob_tenant_id :: int
  ob_type :: string
  ob_value :: string
  ob_created_at :: time
  ob_last_enriched_at :: "time option"
  ob_score :: int
  ob_verdict :: string
  ob_score_factors :: "score_factor list option"

record enrichment =
  ek_id :: int
  ek_observable_id :: int
  ek_source :: string
  ek_data :: "json dict option"
  ek_created_at :: time

record kev_entry =
  kv_cve_id :: string
  kv_vendor :: json
  kv_product :: json
  kv_name :: json
  kv_description :: json
  kv_date_added :: json
  kv_due_date :: json
  kv_known_ransomware :: "string option"

record observable_db =
  od_observables :: "observable list"
  od_enrichments :: "enrichment list"
  od_kev :: "kev_entry list"
  od_audit :: "audit_entry list"

text \<open>
  What lies outside: the answers of FIRST.org (as the connector returns them) and of URLhaus (the decoded body of
  the reply of an endpoint to a value, or the exception), the points \<open>round(p * 30)\<close> of a probability in double
  arithmetic, and what the log records of an exception.
\<close>

record intel_env =
  ie_epss :: "string \<Rightarrow> json dict option res"
  ie_urlhaus :: "string \<Rightarrow> string \<Rightarrow> json res"
  ie_abuse_key :: bool
  ie_points :: "json \<Rightarrow> int"
  ie_status_code :: "exn \<Rightarrow> json"
  ie_error_type :: "exn \<Rightarrow> string"

section \<open>Connectors\<close>

datatype connector = CisaKev | Epss | Urlhaus

definition CONNECTORS :: "connector list" where
  "CONNECTORS = [CisaKev, Epss, Urlhaus]"

fun connector_name :: "connector \<Rightarrow> string" where
  "connector_name CisaKev = ''cisa_kev''"
| "connector_name Epss = ''epss''"
| "connector_name Urlhaus = ''urlhaus''"

fun supported_types :: "connector \<Rightarrow> string list" where
  "supported_types CisaKev = [''cve'']"
| "supported_types Epss = [''cve'']"
| "supported_types Urlhaus = [''url'', ''domain'', ''ip'', ''hash'']"

definition supports :: "connector \<Rightarrow> string \<Rightarrow> bool" where
  "supports c kind = (kind \<in> set (supported_types c))"

definition kev_enrich :: "kev_entry list \<Rightarrow> string \<Rightarrow> json dict option" where
  "kev_enrich kev v = (case find (\<lambda>e. kv_cve_id e = v) kev of None \<Rightarrow> None
     | Some e \<Rightarrow> Some [(''listed'', JBool True), (''vendor'', kv_vendor e), (''product'', kv_product e), (''name'', kv_name e),
         (''description'', kv_description e), (''date_added'', kv_date_added e), (''due_date'', kv_due_date e),
         (''known_ransomware'', case kv_known_ransomware e of None \<Rightarrow> JNull | Some s \<Rightarrow> JStr s)])"

definition urlhaus_endpoint :: "string \<Rightarrow> string \<Rightarrow> string res" where
  "urlhaus_endpoint kind v = (if kind = ''url'' then Inr ''/url/'' else if kind \<in> {''domain'', ''ip''} then Inr ''/host/''
     else if length v \<in> {32, 40, 64} then Inr ''/payload/'' else Inl KeyError)"

definition urlhaus_fields :: "string \<Rightarrow> json dict \<Rightarrow> json dict" where
  "urlhaus_fields kind d = [(''listed'', JBool True), (''query_status'', JStr ''ok'')] @
     (if kind = ''url'' then [(''url_status'', jget d ''url_status''), (''threat'', jget d ''threat''),
        (''date_added'', jget d ''date_added''), (''tags'', jget d ''tags''), (''reference'', jget d ''urlhaus_reference'')]
      else if kind \<in> {''domain'', ''ip''} then [(''url_count'', jget d ''url_count''), (''first_seen'', jget d ''firstseen''),
        (''blacklists'', jget d ''blacklists''), (''reference'', jget d ''urlhaus_reference'')]
      else [(''file_type'', jget d ''file_type''), (''signature'', jget d ''signature''), (''url_count'', jget d ''url_count''),
        (''first_seen'', jget d ''firstseen'')])"

definition urlhaus_enrich :: "intel_env \<Rightarrow> string \<Rightarrow> string \<Rightarrow> json dict option res" where
  "urlhaus_enrich E kind v =
     (if \<not> ie_abuse_key E then
        Inr (Some [(''skipped'', JBool True), (''reason'', JStr ''ABUSECH_API_KEY is not configured'')])
      else bindr (urlhaus_endpoint kind v) (\<lambda>endpoint. bindr (ie_urlhaus E endpoint v) (\<lambda>body.
        bindr (json_get body ''query_status'' JNull) (\<lambda>status.
          if status \<noteq> JStr ''ok'' then Inr (Some [(''listed'', JBool False), (''query_status'', status)])
          else Inr (Some (urlhaus_fields kind (jdict body)))))))"

fun enrich :: "intel_env \<Rightarrow> kev_entry list \<Rightarrow> connector \<Rightarrow> string \<Rightarrow> string \<Rightarrow> json dict option res" where
  "enrich E kev CisaKev kind v = Inr (kev_enrich kev v)"
| "enrich E kev Epss kind v = ie_epss E v"
| "enrich E kev Urlhaus kind v = urlhaus_enrich E kind v"

section \<open>The score\<close>

type_synonym results = "(string \<times> json dict option) list"

definition VERDICTS :: "(int \<times> string) list" where
  "VERDICTS = [(70, ''malicious''), (40, ''suspicious''), (1, ''low'')]"

definition result_of :: "results \<Rightarrow> string \<Rightarrow> json dict" where
  "result_of rs name = (case map_of rs name of Some (Some d) \<Rightarrow> d | _ \<Rightarrow> [])"

definition kev_factors :: "json dict \<Rightarrow> score_factor list" where
  "kev_factors kev = (if truthy (jget kev ''listed'') then
       \<lparr>sf_name = ''kev_listed'', sf_points = 50, sf_source = ''CISA KEV''\<rparr>
       # (if str_lower (py_str (jor (jget kev ''known_ransomware'') (JStr []))) = ''known''
          then [\<lparr>sf_name = ''kev_ransomware'', sf_points = 10, sf_source = ''CISA KEV''\<rparr>] else [])
     else [])"

definition epss_factors :: "intel_env \<Rightarrow> json dict \<Rightarrow> score_factor list" where
  "epss_factors E epss = (if jget epss ''epss'' \<noteq> JNull \<and> ie_points E (jget epss ''epss'') > 0
     then [\<lparr>sf_name = ''epss'', sf_points = ie_points E (jget epss ''epss''), sf_source = ''FIRST EPSS''\<rparr>] else [])"

definition urlhaus_factors :: "json dict \<Rightarrow> score_factor list" where
  "urlhaus_factors uh = (let has = (\<lambda>k. k \<in> set (dict_keys uh)); f = (\<lambda>n p. \<lparr>sf_name = n, sf_points = p, sf_source = ''abuse.ch URLhaus''\<rparr>) in
     if truthy (jget uh ''listed'') then
       (if has ''url_status'' then
          f ''urlhaus_url'' 45 # (if jget uh ''url_status'' = JStr ''online'' then [f ''urlhaus_online'' 10] else [])
        else if has ''blacklists'' \<or> has ''url_count'' \<and> \<not> has ''file_type'' then [f ''urlhaus_host'' 35] else [])
       @ (if has ''file_type'' then [f ''urlhaus_payload'' 45] else [])
     else [])"

definition verdict_of :: "int \<Rightarrow> string" where
  "verdict_of score = (case find (\<lambda>(threshold, name). score \<ge> threshold) VERDICTS of
     None \<Rightarrow> ''no_known_threat'' | Some (threshold, name) \<Rightarrow> name)"

definition compute_score :: "intel_env \<Rightarrow> results \<Rightarrow> int \<times> string \<times> score_factor list" where
  "compute_score E rs = (
     let factors = kev_factors (result_of rs ''cisa_kev'') @ epss_factors E (result_of rs ''epss'')
           @ urlhaus_factors (result_of rs ''urlhaus'');
         score = min 100 (max 0 (sum_list (map sf_points factors)))
     in (score, verdict_of score, factors))"

section \<open>Routes\<close>

definition owned_observable :: "observable_db \<Rightarrow> int \<Rightarrow> int \<Rightarrow> observable res" where
  "owned_observable d observable_id tid = (case find_row ob_id observable_id (od_observables d) of
     None \<Rightarrow> Inl (HTTPException 404)
   | Some o1 \<Rightarrow> if ob_tenant_id o1 \<noteq> tid then Inl (HTTPException 404) else Inr o1)"

definition new_observable :: "time \<Rightarrow> int \<Rightarrow> string \<Rightarrow> string \<Rightarrow> observable list \<Rightarrow> observable" where
  "new_observable now tid kind v rows = \<lparr>ob_id = next_id ob_id rows, ob_tenant_id = tid, ob_type = kind, ob_value = v,
     ob_created_at = now, ob_last_enriched_at = None, ob_score = 0, ob_verdict = ''unknown'', ob_score_factors = None\<rparr>"

definition create_observable :: "time \<Rightarrow> int \<Rightarrow> string \<Rightarrow> string \<Rightarrow> observable_db \<Rightarrow> (observable \<times> observable_db) res" where
  "create_observable now tid kind text d =
     (if kind \<notin> set OBSERVABLE_TYPES \<or> str_strip text = [] \<or> length text > 2048 then Inl (HTTPException 422)
      else case validate_observable kind text of Inl e \<Rightarrow> Inl (HTTPException 422)
      | Inr v \<Rightarrow> (case find (\<lambda>x. ob_tenant_id x = tid \<and> ob_type x = kind \<and> ob_value x = v) (od_observables d) of
            Some x \<Rightarrow> Inr (x, d)
          | None \<Rightarrow> let x = new_observable now tid kind v (od_observables d) in
              Inr (x, d\<lparr>od_observables := od_observables d @ [x]\<rparr>)))"

definition get_observable :: "int \<Rightarrow> int \<Rightarrow> observable_db \<Rightarrow> observable res" where
  "get_observable observable_id tid d = owned_observable d observable_id tid"

text \<open>The sources are asked one after the other: their answers, the warnings, and what was stored.\<close>

definition source_label :: "connector \<Rightarrow> string" where
  "source_label c = (case c of Urlhaus \<Rightarrow> ''URLhaus'' | CisaKev \<Rightarrow> ''CISA KEV'' | Epss \<Rightarrow> ''EPSS'')"

definition friendly_source_failure :: "connector \<Rightarrow> string" where
  "friendly_source_failure c = ''N'' @ [CHR 0xE3] @ ''o foi poss'' @ [CHR 0xED] @ ''vel consultar a fonte '' @ source_label c
     @ '' no momento.''"

definition source_failed_audit ::
  "intel_env \<Rightarrow> time \<Rightarrow> principal \<Rightarrow> int \<Rightarrow> http_request option \<Rightarrow> observable \<Rightarrow> connector \<Rightarrow> exn \<Rightarrow> audit_entry" where
  "source_failed_audit E now p tid request x c e = audit_row now (pr_subject p) (Some (pr_role p)) ''enrichment.source_failed''
     (Some ''observable'') (Some (int_str (ob_id x))) (Some tid) None request
     [(''source'', JStr (connector_name c)), (''status_code'', ie_status_code E e), (''error_type'', JStr (ie_error_type E e))]"

definition ask_source ::
  "intel_env \<Rightarrow> time \<Rightarrow> principal \<Rightarrow> int \<Rightarrow> http_request option \<Rightarrow> observable \<Rightarrow> connector
    \<Rightarrow> results \<times> string list \<times> observable_db \<Rightarrow> results \<times> string list \<times> observable_db" where
  "ask_source E now p tid request x c st = (case st of (rs, warnings, d) \<Rightarrow>
     if \<not> supports c (ob_type x) then st
     else case enrich E (od_kev d) c (ob_type x) (ob_value x) of
         Inl e \<Rightarrow> (rs, warnings @ [friendly_source_failure c],
           d\<lparr>od_audit := od_audit d @ [source_failed_audit E now p tid request x c e]\<rparr>)
       | Inr answer \<Rightarrow> (rs @ [(connector_name c, answer)], warnings,
           d\<lparr>od_enrichments := od_enrichments d @ [\<lparr>ek_id = next_id ek_id (od_enrichments d), ek_observable_id = ob_id x,
              ek_source = connector_name c, ek_data = answer, ek_created_at = now\<rparr>]\<rparr>))"

definition enriched :: "intel_env \<Rightarrow> time \<Rightarrow> results \<Rightarrow> string list \<Rightarrow> observable \<Rightarrow> observable" where
  "enriched E now rs warnings x = (
     let x' = (if rs \<noteq> [] then (case compute_score E rs of (score, verdict, factors) \<Rightarrow>
                 x\<lparr>ob_score := score, ob_verdict := verdict, ob_score_factors := Some factors\<rparr>)
               else if warnings \<noteq> [] \<and> ob_last_enriched_at x = None
                 then x\<lparr>ob_verdict := ''unknown'', ob_score := 0, ob_score_factors := Some []\<rparr> else x)
     in x'\<lparr>ob_last_enriched_at := Some now\<rparr>)"

definition enrich_observable ::
  "intel_env \<Rightarrow> time \<Rightarrow> principal \<Rightarrow> int \<Rightarrow> http_request option \<Rightarrow> int \<Rightarrow> observable_db
    \<Rightarrow> ((observable \<times> string list) \<times> observable_db) res" where
  "enrich_observable E now p tid request observable_id d = bindr (owned_observable d observable_id tid) (\<lambda>x.
     case fold (ask_source E now p tid request x) CONNECTORS ([], [], d) of (rs, warnings, d1) \<Rightarrow>
       let x' = enriched E now rs warnings x;
           shown = (if warnings \<noteq> [] \<and> rs = []
             then warnings @ [''O IOC foi mantido como '' @ map char_upper (ob_verdict x') @ ''.''] else warnings)
       in Inr ((x', shown), d1\<lparr>od_observables := upd_row ob_id (ob_id x) (\<lambda>_. x') (od_observables d1)\<rparr>))"

section \<open>What holds\<close>

definition counts_for :: "score_factor \<Rightarrow> bool" where
  "counts_for f = (sf_points f > 0)"

lemma factors_positive:
  "list_all counts_for (kev_factors kev @ epss_factors E epss @ urlhaus_factors uh)"
  by (simp add: kev_factors_def epss_factors_def urlhaus_factors_def counts_for_def Let_def)

lemma positive_sum: "list_all counts_for fs \<Longrightarrow> 0 \<le> sum_list (map sf_points fs) \<and> (sum_list (map sf_points fs) = 0 \<longleftrightarrow> fs = [])"
  by (induction fs) (auto simp: counts_for_def)

lemma verdict_cases: "verdict_of s = (if s \<ge> 70 then ''malicious'' else if s \<ge> 40 then ''suspicious''
    else if s \<ge> 1 then ''low'' else ''no_known_threat'')"
  by (simp add: verdict_of_def VERDICTS_def)

lemma compute_score_facts:
  "case compute_score E rs of (s, v, fs) \<Rightarrow> 0 \<le> s \<and> s \<le> 100 \<and> s = min 100 (sum_list (map sf_points fs))
     \<and> v = verdict_of s \<and> (v = ''no_known_threat'') = (fs = []) \<and> (v = ''malicious'') = (70 \<le> sum_list (map sf_points fs))"
proof -
  define fs where "fs = kev_factors (result_of rs ''cisa_kev'') @ epss_factors E (result_of rs ''epss'')
    @ urlhaus_factors (result_of rs ''urlhaus'')"
  have pos: "0 \<le> sum_list (map sf_points fs)" "(sum_list (map sf_points fs) = 0) = (fs = [])"
    using positive_sum[OF factors_positive] unfolding fs_def by blast+
  have "compute_score E rs = (min 100 (max 0 (sum_list (map sf_points fs))),
      verdict_of (min 100 (max 0 (sum_list (map sf_points fs)))), fs)"
    unfolding compute_score_def Let_def fs_def[symmetric] ..
  with pos show ?thesis by (auto simp: verdict_cases)
qed

text \<open>The score is the sum of positive points cut at 100, so it lies between 0 and 100; the verdict is its band, and
  an indicator has no known threat exactly when no factor counts against it.\<close>

theorem score_bounds:
  "case compute_score E rs of (s, v, fs) \<Rightarrow> 0 \<le> s \<and> s \<le> 100 \<and> s = min 100 (sum_list (map sf_points fs))
     \<and> v = verdict_of s \<and> (v = ''no_known_threat'') = (fs = []) \<and> (v = ''malicious'') = (70 \<le> sum_list (map sf_points fs))"
  by (rule compute_score_facts)

subsection \<open>Asking the sources\<close>

text \<open>The sources that answer and those that fail, for an indicator.\<close>

definition asked :: "observable \<Rightarrow> connector list" where
  "asked x = filter (\<lambda>c. supports c (ob_type x)) CONNECTORS"

definition answers :: "intel_env \<Rightarrow> kev_entry list \<Rightarrow> observable \<Rightarrow> connector list \<Rightarrow> results" where
  "answers E kev x cs = concat (map (\<lambda>c. case enrich E kev c (ob_type x) (ob_value x) of
     Inl e \<Rightarrow> [] | Inr a \<Rightarrow> [(connector_name c, a)]) cs)"

definition failures :: "intel_env \<Rightarrow> kev_entry list \<Rightarrow> observable \<Rightarrow> connector list \<Rightarrow> connector list" where
  "failures E kev x cs = filter (\<lambda>c. isl (enrich E kev c (ob_type x) (ob_value x))) cs"

lemma ask_source_rows:
  "ask_source E now p tid request x c (rs, ws, d) = (rs', ws', d') \<Longrightarrow> od_observables d' = od_observables d \<and> od_kev d' = od_kev d
    \<and> (keyed ek_id (od_enrichments d) \<longrightarrow> keyed ek_id (od_enrichments d'))
    \<and> (\<forall>k \<in> set (od_enrichments d'). k \<in> set (od_enrichments d) \<or> ek_observable_id k = ob_id x)
    \<and> rs' = rs @ answers E (od_kev d) x (filter (\<lambda>c. supports c (ob_type x)) [c])
    \<and> ws' = ws @ map friendly_source_failure (failures E (od_kev d) x (filter (\<lambda>c. supports c (ob_type x)) [c]))"
  by (auto simp: ask_source_def answers_def failures_def keyed_append split: if_splits sum.splits)

lemma ask_sources_rows:
  "fold (ask_source E now p tid request x) cs (rs, ws, d) = (rs', ws', d') \<Longrightarrow> od_observables d' = od_observables d \<and> od_kev d' = od_kev d
    \<and> (keyed ek_id (od_enrichments d) \<longrightarrow> keyed ek_id (od_enrichments d'))
    \<and> (\<forall>k \<in> set (od_enrichments d'). k \<in> set (od_enrichments d) \<or> ek_observable_id k = ob_id x)
    \<and> rs' = rs @ answers E (od_kev d) x (filter (\<lambda>c. supports c (ob_type x)) cs)
    \<and> ws' = ws @ map friendly_source_failure (failures E (od_kev d) x (filter (\<lambda>c. supports c (ob_type x)) cs))"
proof (induction cs arbitrary: rs ws d)
  case Nil
  then show ?case by (simp add: answers_def failures_def)
next
  case (Cons c cs)
  obtain rs1 ws1 d1 where a: "ask_source E now p tid request x c (rs, ws, d) = (rs1, ws1, d1)" by (metis prod_cases3)
  with Cons.prems have "fold (ask_source E now p tid request x) cs (rs1, ws1, d1) = (rs', ws', d')" by simp
  note IH = Cons.IH[OF this] and h = ask_source_rows[OF a]
  have app: "answers E k x (us @ vs) = answers E k x us @ answers E k x vs"
    "failures E k x (us @ vs) = failures E k x us @ failures E k x vs" for k us vs
    by (simp_all add: answers_def failures_def)
  have f: "filter (\<lambda>c. supports c (ob_type x)) (c # cs)
      = filter (\<lambda>c. supports c (ob_type x)) [c] @ filter (\<lambda>c. supports c (ob_type x)) cs" by simp
  show ?case unfolding f app using IH h by (simp del: filter.simps) blast
qed

lemma owned_observableD: "owned_observable d i tid = Inr x \<Longrightarrow> x \<in> set (od_observables d) \<and> ob_id x = i \<and> ob_tenant_id x = tid"
  using find_row_SomeD[of ob_id i "od_observables d" x] by (auto simp: owned_observable_def split: option.splits if_splits)

lemma enrich_run:
  assumes "enrich_observable E now p tid request i d = Inr ((x', shown), d')" "owned_observable d i tid = Inr x"
  shows "x' = enriched E now (answers E (od_kev d) x (asked x)) (map friendly_source_failure (failures E (od_kev d) x (asked x))) x"
    "od_observables d' = upd_row ob_id i (\<lambda>_. x') (od_observables d)"
    "keyed ek_id (od_enrichments d) \<Longrightarrow> keyed ek_id (od_enrichments d')"
    "k \<in> set (od_enrichments d') \<Longrightarrow> k \<in> set (od_enrichments d) \<or> ek_observable_id k = i"
proof -
  obtain rs ws d1 where r: "fold (ask_source E now p tid request x) CONNECTORS ([], [], d) = (rs, ws, d1)" by (metis prod_cases3)
  note h = ask_sources_rows[OF r] and x = owned_observableD[OF assms(2)]
  have e: "x' = enriched E now rs ws x" "d' = d1\<lparr>od_observables := upd_row ob_id (ob_id x) (\<lambda>_. x') (od_observables d1)\<rparr>"
    using assms r by (auto simp: enrich_observable_def Let_def)
  show "x' = enriched E now (answers E (od_kev d) x (asked x)) (map friendly_source_failure (failures E (od_kev d) x (asked x))) x"
    using e(1) h by (simp add: asked_def)
  show "od_observables d' = upd_row ob_id i (\<lambda>_. x') (od_observables d)" using e(2) h x by simp
  show "keyed ek_id (od_enrichments d) \<Longrightarrow> keyed ek_id (od_enrichments d')" using e(2) h by simp
  show "k \<in> set (od_enrichments d') \<Longrightarrow> k \<in> set (od_enrichments d) \<or> ek_observable_id k = i" using e(2) h x by simp
qed

text \<open>C27 When every source that is asked fails, an indicator that was enriched before keeps its score, verdict and
  factors, and a new one is unknown with score 0, never without a known threat; when one answers, the score is that
  of the answers.\<close>

theorem failed_enrichment_keeps:
  assumes "enrich_observable E now p tid request i d = Inr ((x', shown), d')" "owned_observable d i tid = Inr x"
    "ob_last_enriched_at x = None \<longrightarrow> ob_score x = 0 \<and> ob_verdict x = ''unknown''"
  shows "(failures E (od_kev d) x (asked x) = asked x \<longrightarrow> ob_score x' = ob_score x \<and> ob_verdict x' = ob_verdict x
       \<and> (ob_last_enriched_at x \<noteq> None \<longrightarrow> ob_score_factors x' = ob_score_factors x))
    \<and> (failures E (od_kev d) x (asked x) \<noteq> asked x \<longrightarrow>
         (ob_score x', ob_verdict x', ob_score_factors x') = (case compute_score E (answers E (od_kev d) x (asked x)) of (s, v, fs) \<Rightarrow> (s, v, Some fs)))"
proof -
  have none: "answers E kev x cs = [] \<longleftrightarrow> failures E kev x cs = cs" for kev cs
  proof -
    have "failures E kev x cs = cs \<longleftrightarrow> (\<forall>c \<in> set cs. isl (enrich E kev c (ob_type x) (ob_value x)))"
      by (simp add: failures_def filter_id_conv)
    moreover have "((case r of Inl e \<Rightarrow> [] | Inr a \<Rightarrow> [(n, a)]) = []) = isl r"
      for n :: string and r :: "json dict option res" by (cases r) simp_all
    ultimately show ?thesis by (simp add: answers_def)
  qed
  show ?thesis
  proof (cases "failures E (od_kev d) x (asked x) = asked x")
    case True
    then have "answers E (od_kev d) x (asked x) = []" using none by blast
    with True enrich_run(1)[OF assms(1,2)] assms(3) show ?thesis by (simp add: enriched_def Let_def)
  next
    case False
    then have "answers E (od_kev d) x (asked x) \<noteq> []" using none by blast
    with False enrich_run(1)[OF assms(1,2)] show ?thesis by (simp add: enriched_def Let_def split: prod.splits)
  qed
qed

subsection \<open>The tables\<close>

inductive observable_step :: "intel_env \<Rightarrow> int \<Rightarrow> observable_db \<Rightarrow> observable_db \<Rightarrow> bool" for E tid where
  step_create_observable: "create_observable now tid kind text d = Inr (x, d') \<Longrightarrow> observable_step E tid d d'"
| step_enrich: "enrich_observable E now p tid request i d = Inr (r, d') \<Longrightarrow> observable_step E tid d d'"

definition observable_key :: "observable \<Rightarrow> int \<times> string \<times> string" where
  "observable_key x = (ob_tenant_id x, ob_type x, ob_value x)"

definition observable_ok :: "observable \<Rightarrow> bool" where
  "observable_ok x = (pattern_ok (ob_type x) (ob_value x) \<and> 0 \<le> ob_score x \<and> ob_score x \<le> 100
     \<and> (ob_verdict x = ''unknown'' \<and> ob_score x = 0 \<or> ob_verdict x = verdict_of (ob_score x))
     \<and> (ob_last_enriched_at x = None \<longrightarrow> ob_verdict x = ''unknown''))"

definition observable_inv :: "observable_db \<Rightarrow> bool" where
  "observable_inv d = (keyed ob_id (od_observables d) \<and> unique_on (\<lambda>_. True) observable_key (od_observables d)
     \<and> list_all observable_ok (od_observables d) \<and> keyed ek_id (od_enrichments d)
     \<and> list_all (\<lambda>k. ek_observable_id k \<in> ob_id ` set (od_observables d)) (od_enrichments d))"

lemma enriched_key: "ob_id (enriched E now rs ws x) = ob_id x" "observable_key (enriched E now rs ws x) = observable_key x"
  "ob_tenant_id (enriched E now rs ws x) = ob_tenant_id x" "ob_type (enriched E now rs ws x) = ob_type x"
  "ob_value (enriched E now rs ws x) = ob_value x"
  by (auto simp: enriched_def observable_key_def Let_def split: prod.splits)

lemma enriched_ok:
  assumes "observable_ok x"
  shows "observable_ok (enriched E now rs ws x)"
proof (cases "rs = []")
  case True
  with assms show ?thesis by (auto simp: enriched_def observable_ok_def Let_def)
next
  case False
  obtain s v fs where c: "compute_score E rs = (s, v, fs)" by (metis prod_cases3)
  from compute_score_facts[of E rs] have "0 \<le> s \<and> s \<le> 100 \<and> v = verdict_of s" unfolding c prod.case by blast
  with assms False c show ?thesis by (auto simp: enriched_def observable_ok_def Let_def)
qed

lemma observable_ok_key: "observable_key x = observable_key y \<Longrightarrow> ob_tenant_id x = ob_tenant_id y"
  by (simp add: observable_key_def)

text \<open>A request of a tenant: a validated indicator is added, or one of its own is replaced by its enrichment.\<close>

lemma create_observableD:
  assumes "create_observable now tid kind text d = Inr (x, d')"
  shows "d' = d \<or> (d' = d\<lparr>od_observables := od_observables d @ [x]\<rparr> \<and> ob_id x = next_id ob_id (od_observables d)
    \<and> ob_tenant_id x = tid \<and> observable_ok x \<and> observable_key x \<notin> observable_key ` set (od_observables d))"
proof -
  from assms obtain v where v: "validate_observable kind text = Inr v"
    by (auto simp: create_observable_def split: if_splits sum.splits)
  have ok: "pattern_ok kind v" by (rule validate_patternD[OF v, THEN conjunct2])
  show ?thesis
  proof (cases "find (\<lambda>x. ob_tenant_id x = tid \<and> ob_type x = kind \<and> ob_value x = v) (od_observables d)")
    case None
    let ?x = "new_observable now tid kind v (od_observables d)"
    have "x = ?x" "d' = d\<lparr>od_observables := od_observables d @ [?x]\<rparr>"
      using assms v None by (auto simp: create_observable_def Let_def split: if_splits)
    moreover have "observable_ok ?x" using ok by (simp add: observable_ok_def new_observable_def)
    moreover have "observable_key ?x \<notin> observable_key ` set (od_observables d)"
      using None by (auto simp: find_None_iff observable_key_def new_observable_def)
    ultimately show ?thesis by (simp add: new_observable_def)
  next
    case (Some y)
    then show ?thesis using assms v by (auto simp: create_observable_def split: if_splits)
  qed
qed

lemma observable_step_inv:
  assumes "observable_step E tid d d'" "observable_inv d"
  shows "observable_inv d' \<and> filter (\<lambda>x. ob_tenant_id x \<noteq> tid) (od_observables d') = filter (\<lambda>x. ob_tenant_id x \<noteq> tid) (od_observables d)"
  using assms(1)
proof cases
  case (step_create_observable now kind raw x)
  from create_observableD[OF this] show ?thesis
  proof
    assume n: "d' = d\<lparr>od_observables := od_observables d @ [x]\<rparr> \<and> ob_id x = next_id ob_id (od_observables d)
      \<and> ob_tenant_id x = tid \<and> observable_ok x \<and> observable_key x \<notin> observable_key ` set (od_observables d)"
    have "keyed ob_id (od_observables d @ [x])" using n assms(2) by (intro keyed_append) (simp_all add: observable_inv_def)
    moreover have "unique_on (\<lambda>_. True) observable_key (od_observables d @ [x])"
      using n assms(2) by (intro unique_on_append) (simp_all add: observable_inv_def violates_def)
    ultimately show ?thesis using n assms(2) by (simp add: observable_inv_def list_all_iff)
  qed (simp add: assms(2))
next
  case (step_enrich now p request i r)
  obtain x' shown where r: "r = (x', shown)" by (cases r)
  from step_enrich obtain x where x: "owned_observable d i tid = Inr x" by (auto simp: enrich_observable_def)
  note run = enrich_run[OF step_enrich[unfolded r] x] and own = owned_observableD[OF x]
  have key: "ob_id x' = i" "observable_key x' = observable_key x" "ob_tenant_id x' = tid"
    using run(1) own by (simp_all add: enriched_key)
  have k: "keyed ob_id (od_observables d)" using assms(2) by (simp add: observable_inv_def)
  have same: "y = x" if "y \<in> set (od_observables d)" "ob_id y = i" for y
    using that own k by (auto simp: keyed_def distinct_map inj_on_def)
  have keys: "map observable_key (od_observables d') = map observable_key (od_observables d)"
    "map ob_id (od_observables d') = map ob_id (od_observables d)"
    unfolding run(2) upd_row_def using same key own by auto
  have "observable_ok x'" unfolding run(1) using own assms(2) by (intro enriched_ok) (simp add: observable_inv_def list_all_iff)
  then have "list_all observable_ok (od_observables d')"
    using assms(2) by (auto simp: run(2) observable_inv_def list_all_iff set_upd_row)
  moreover have "ob_id ` set (od_observables d') = ob_id ` set (od_observables d)" using keys(2) by (metis list.set_map)
  moreover have "list_all (\<lambda>k. ek_observable_id k \<in> ob_id ` set (od_observables d)) (od_enrichments d')"
    using run(4) own assms(2) unfolding observable_inv_def list_all_iff by blast
  moreover have "filter (\<lambda>y. ob_tenant_id y \<noteq> tid) (od_observables d') = filter (\<lambda>y. ob_tenant_id y \<noteq> tid) (od_observables d)"
    unfolding run(2) using same own key(3) by (intro filter_upd_row) auto
  ultimately show ?thesis using keys run(3) assms(2) by (simp add: observable_inv_def keyed_def unique_on_def)
qed

interpretation observable_machine: preserved "\<lambda>d d'. \<exists>tid. observable_step E tid d d'" observable_inv for E
  by unfold_locales (blast dest: observable_step_inv)

definition no_observables :: "kev_entry list \<Rightarrow> observable_db" where
  "no_observables kev = \<lparr>od_observables = [], od_enrichments = [], od_kev = kev, od_audit = []\<rparr>"

definition quiet_intel :: intel_env where
  "quiet_intel = \<lparr>ie_epss = \<lambda>_. Inl OtherError, ie_urlhaus = \<lambda>_ _. Inl OtherError, ie_abuse_key = True,
     ie_points = \<lambda>_. 24, ie_status_code = \<lambda>_. JNull, ie_error_type = \<lambda>_. ''Timeout''\<rparr>"

definition demo_kev :: "kev_entry list" where
  "demo_kev = [\<lparr>kv_cve_id = ''CVE-2024-0001'', kv_vendor = JNull, kv_product = JNull, kv_name = JNull, kv_description = JNull,
     kv_date_added = JNull, kv_due_date = JNull, kv_known_ransomware = Some ''Known''\<rparr>]"

definition demo_analyst_person :: principal where
  "demo_analyst_person = \<lparr>pr_subject = ''a'', pr_role = ''analyst'', pr_kind = ''user'', pr_is_operator = False,
     pr_operator_role = None, pr_tenant_id = Some 1, pr_user_id = Some 3\<rparr>"

definition demo_observable :: observable where
  "demo_observable = new_observable 3 1 ''domain'' ''evil.io'' []"

definition demo_observables :: observable_db where
  "demo_observables = (no_observables demo_kev)\<lparr>od_observables := [demo_observable]\<rparr>"

lemma demo_created: "create_observable 3 1 ''domain'' '' Evil[.]io'' (no_observables demo_kev) = Inr (demo_observable, demo_observables)"
  by code_simp

text \<open>After any sequence of requests of any tenants, a tenant has one row per kind and canonical value, every value
  satisfies the pattern of its kind, scores lie between 0 and 100, the verdict is \<open>unknown\<close> with score 0 or the band of
  the score, and every enrichment belongs to an indicator; a single request changes no other tenant's indicators.\<close>

theorem observable_tables_invariant:
  assumes "(\<lambda>d d'. \<exists>tid. observable_step E tid d d')\<^sup>*\<^sup>* (no_observables kev) d" "observable_step E tid d d'"
  shows "observable_inv d'
    \<and> filter (\<lambda>x. ob_tenant_id x \<noteq> tid) (od_observables d') = filter (\<lambda>x. ob_tenant_id x \<noteq> tid) (od_observables d)"
proof -
  have "observable_inv (no_observables kev)" by (simp add: observable_inv_def no_observables_def keyed_def unique_on_def)
  from observable_step_inv[OF assms(2) observable_machine.reachable_good[OF assms(1) this]] show ?thesis .
qed

theorem observable_tables_invariant_witness:
  "observable_inv demo_observables \<and> filter (\<lambda>x. ob_tenant_id x \<noteq> 1) (od_observables demo_observables) = []"
  using observable_tables_invariant[OF rtranclp.rtrancl_refl step_create_observable[OF demo_created, of quiet_intel]]
  by (simp add: no_observables_def)

theorem failed_enrichment_keeps_witness:
  "case enrich_observable quiet_intel 5 demo_analyst_person 1 None 1 demo_observables of Inl _ \<Rightarrow> False
   | Inr ((x', shown), d') \<Rightarrow> ob_verdict x' = ''unknown'' \<and> ob_score x' = 0 \<and> length shown = 2"
proof -
  have s: "case enrich_observable quiet_intel 5 demo_analyst_person 1 None 1 demo_observables of Inl _ \<Rightarrow> False
    | Inr ((x', shown), d') \<Rightarrow> length shown = 2" by code_simp
  obtain x' shown d' where r: "enrich_observable quiet_intel 5 demo_analyst_person 1 None 1 demo_observables = Inr ((x', shown), d')"
    using s by (auto split: sum.splits)
  have own: "owned_observable demo_observables 1 1 = Inr demo_observable" by code_simp
  have fresh: "ob_last_enriched_at demo_observable = None \<longrightarrow> ob_score demo_observable = 0 \<and> ob_verdict demo_observable = ''unknown''"
    by code_simp
  have all: "failures quiet_intel (od_kev demo_observables) demo_observable (asked demo_observable) = asked demo_observable" by code_simp
  have "ob_score x' = ob_score demo_observable" "ob_verdict x' = ob_verdict demo_observable"
    using failed_enrichment_keeps[OF r own fresh] all by blast+
  with fresh s r show ?thesis by (simp add: demo_observable_def new_observable_def)
qed

subsection \<open>Checks that did not happen\<close>

text \<open>Without an API key the URLhaus connector answers that it was skipped, which counts as an answer: the first
  enrichment gives an unchecked domain the verdict that there is no known threat.\<close>

lemma skipped_check_is_clean:
  "case enrich_observable (quiet_intel\<lparr>ie_abuse_key := False\<rparr>) 5 demo_analyst_person 1 None 1 demo_observables of Inl _ \<Rightarrow> False
   | Inr ((x', shown), d') \<Rightarrow> ob_verdict x' = ''no_known_threat'' \<and> shown = []"
  by code_simp

text \<open>A source that fails takes its part of an earlier score away when another one answers: a CVE whose probability
  counted is rescored without it.\<close>

definition scored_cve :: observable_db where
  "scored_cve = (no_observables demo_kev)\<lparr>od_observables := [(new_observable 3 1 ''cve'' ''CVE-2024-0001'' [])
     \<lparr>ob_last_enriched_at := Some 4, ob_score := 84, ob_verdict := ''malicious''\<rparr>]\<rparr>"

lemma partial_failure_lowers_verdict:
  "case enrich_observable (quiet_intel\<lparr>ie_epss := \<lambda>_. Inr (Some [(''epss'', JStr ''0.8'')])\<rparr>) 5 demo_analyst_person 1 None 1 scored_cve
     of Inl _ \<Rightarrow> False | Inr ((x', shown), d') \<Rightarrow> (ob_score x', ob_verdict x') = (84, ''malicious'')"
  "case enrich_observable quiet_intel 6 demo_analyst_person 1 None 1 scored_cve of Inl _ \<Rightarrow> False
     | Inr ((x', shown), d') \<Rightarrow> (ob_score x', ob_verdict x') = (60, ''suspicious'')"
  by code_simp+

end
