(* ===== verification/Correlation.thy ===== *)
theory Correlation
  imports Surface Observables
begin

text \<open>
  The correlation graph of a tenant (\<open>app/correlation.py\<close>, \<open>app/routers/correlation_routes.py\<close>): findings, assets,
  indicators, brands and cases that share an identifier with a seed; and the case that is opened from a finding with
  the brand its graph points to (\<open>app/routers/exposure_routes.py\<close>). A Python set is the list of its members.
  The queries have a limit of 1000 rows and no order; they are modelled in the order of the keys.
\<close>

section \<open>Identifiers\<close>

record ids =
  id_emails :: "string list"
  id_domains :: "string list"
  id_hashes :: "string list"
  id_ips :: "string list"

definition LIMIT :: nat where
  "LIMIT = 1000"

text \<open>\<open>str(v or "").strip().lower()\<close> of a dynamically typed value.\<close>

definition jnorm :: "json \<Rightarrow> string" where
  "jnorm v = norm (py_str (jor v (JStr [])))"

definition domain_of_email :: "string \<Rightarrow> string list" where
  "domain_of_email e = (if CHR ''@'' \<in> set e \<and> partition_after CHR ''@'' e \<noteq> [] then [partition_after CHR ''@'' e] else [])"

fun token_runs :: "(char \<Rightarrow> bool) \<Rightarrow> string \<Rightarrow> string \<Rightarrow> string list" where
  "token_runs P cur [] = [rev cur]"
| "token_runs P cur (c # s) = (if P c then token_runs P (c # cur) s else rev cur # token_runs P [] s)"

definition strip_dots :: "string \<Rightarrow> string" where
  "strip_dots s = rstrip_chars ''.'' (lstrip_chars ''.'' s)"

definition tokens_domains :: "json \<Rightarrow> string list" where
  "tokens_domains v = map strip_dots (filter (\<lambda>t. CHR ''.'' \<in> set t \<and> length (strip_dots t) \<ge> 4)
     (token_runs (\<lambda>c. is_lower c \<or> is_digit c \<or> c = CHR ''.'' \<or> c = CHR ''-'') [] (jnorm v)))"

definition blank_ids :: ids where
  "blank_ids = \<lparr>id_emails = [], id_domains = [], id_hashes = [], id_ips = []\<rparr>"

definition when_set :: "json dict \<Rightarrow> string \<Rightarrow> string list" where
  "when_set d k = (if truthy (jget d k) then [jnorm (jget d k)] else [])"

definition ids_from_exposure :: "finding \<Rightarrow> ids" where
  "ids_from_exposure f = (let d = fd_detail f; email = when_set d ''email'' in
     \<lparr>id_emails = email,
      id_domains = concat (map domain_of_email email) @ when_set d ''domain'' @ when_set d ''subdomain'' @ when_set d ''host'',
      id_hashes = when_set d ''password_sha256'' @ when_set d ''fingerprint'',
      id_ips = when_set d ''ip''\<rparr>)"

definition ids_from_surface :: "surface_asset \<Rightarrow> ids" where
  "ids_from_surface a = (let v = norm (sa_value a) in
     if sa_asset_type a = ''subdomain'' then blank_ids\<lparr>id_domains := v # when_set (sa_detail a) ''apex''\<rparr>
     else if sa_asset_type a = ''ip'' then blank_ids\<lparr>id_ips := [v]\<rparr> else blank_ids)"

definition ids_from_asset :: "asset \<Rightarrow> ids" where
  "ids_from_asset a = (let v = norm (as_value a) in
     if CHR ''@'' \<in> set v then blank_ids\<lparr>id_emails := [v], id_domains := domain_of_email v\<rparr>
     else if as_asset_type a = ''domain'' \<or> CHR ''.'' \<in> set v then blank_ids\<lparr>id_domains := [v]\<rparr> else blank_ids)"

definition ids_from_observable :: "observable \<Rightarrow> ids" where
  "ids_from_observable x = (let v = norm (ob_value x); t = norm (ob_type x) in
     if t = ''email'' then blank_ids\<lparr>id_emails := [v], id_domains := domain_of_email v\<rparr>
     else if t = ''domain'' then blank_ids\<lparr>id_domains := [v]\<rparr>
     else if t = ''hash'' then blank_ids\<lparr>id_hashes := [v]\<rparr>
     else if t = ''ip'' then blank_ids\<lparr>id_ips := [v]\<rparr> else blank_ids)"

text \<open>The least common member. The label of a kind is its plural without the last letter.\<close>

definition common :: "string list \<Rightarrow> string list \<Rightarrow> string list" where
  "common xs ys = sorted_set (filter (\<lambda>x. x \<in> set ys) xs)"

definition id_kinds :: "(string \<times> (ids \<Rightarrow> string list)) list" where
  "id_kinds = [(''emails'', id_emails), (''hashes'', id_hashes), (''domains'', id_domains), (''ips'', id_ips)]"

fun overlap_in :: "(string \<times> (ids \<Rightarrow> string list)) list \<Rightarrow> ids \<Rightarrow> ids \<Rightarrow> (string \<times> string) option" where
  "overlap_in [] a b = None"
| "overlap_in ((key, sel) # ks) a b = (case common (sel a) (sel b) of
     [] \<Rightarrow> overlap_in ks a b | v # vs \<Rightarrow> Some (butlast key, v))"

definition overlap :: "ids \<Rightarrow> ids \<Rightarrow> (string \<times> string) option" where
  "overlap a b = overlap_in id_kinds a b"

section \<open>The graph\<close>

record node =
  nd_kind :: string
  nd_ref :: json
  nd_label :: string
  nd_risk :: "int option"

definition node_id :: "node \<Rightarrow> string" where
  "node_id n = nd_kind n @ '':'' @ py_str (nd_ref n)"

definition row_node :: "string \<Rightarrow> int \<Rightarrow> string \<Rightarrow> int option \<Rightarrow> node" where
  "row_node kind oid label risk = \<lparr>nd_kind = kind, nd_ref = JInt oid, nd_label = label, nd_risk = risk\<rparr>"

record graph_db =
  gd_findings :: "finding list"
  gd_assets :: "asset list"
  gd_observables :: "observable list"
  gd_brands :: "monitored_brand list"
  gd_brand_findings :: "brand_finding list"
  gd_surface :: "surface_asset list"
  gd_cases :: "inv_case list"
  gd_audit :: "audit_entry list"

definition finding_node :: "finding \<Rightarrow> node" where
  "finding_node f = row_node ''exposure_finding'' (fd_id f) (fd_title f) (Some (fd_risk_score f))"

definition asset_node :: "asset \<Rightarrow> node" where
  "asset_node a = row_node ''monitored_asset'' (as_id a) (as_label a) None"

definition observable_node :: "observable \<Rightarrow> node" where
  "observable_node x = row_node ''observable'' (ob_id x) (ob_type x @ '':'' @ ob_value x) None"

definition surface_node :: "surface_asset \<Rightarrow> node" where
  "surface_node a = row_node ''surface_asset'' (sa_id a) (sa_asset_type a @ '':'' @ sa_value a) None"

definition brand_node :: "monitored_brand \<Rightarrow> node" where
  "brand_node b = row_node ''brand'' (br_id b) (br_name b) None"

definition brand_finding_node :: "brand_finding \<Rightarrow> node" where
  "brand_finding_node f = row_node ''brand_finding'' (bf_id f) (bf_domain f) (Some (bf_score f))"

definition case_node :: "inv_case \<Rightarrow> node" where
  "case_node c = row_node ''case'' (cs_id c) (''Case #'' @ int_str (cs_id c) @ '': '' @ cs_title c) None"

text \<open>The seed with its identifiers. A selector names a row, or an identifier itself; the key of the set an identifier
  goes to is the kind with an \<open>s\<close>.\<close>

type_synonym seeded = "(node \<times> ids) option"

definition owned_seed :: "('r \<Rightarrow> int) \<Rightarrow> ('r \<Rightarrow> int) \<Rightarrow> ('r \<Rightarrow> node) \<Rightarrow> ('r \<Rightarrow> ids) \<Rightarrow> int \<Rightarrow> int \<Rightarrow> 'r list \<Rightarrow> seeded" where
  "owned_seed rid tenant mk ids_of tid i rows = (case find_row rid i rows of
     None \<Rightarrow> None | Some r \<Rightarrow> if tenant r \<noteq> tid then None else Some (mk r, ids_of r))"

definition row_seed :: "graph_db \<Rightarrow> int \<Rightarrow> string \<Rightarrow> int \<Rightarrow> seeded" where
  "row_seed d tid kind i =
     (if kind = ''finding'' then owned_seed fd_id fd_tenant_id finding_node ids_from_exposure tid i (gd_findings d)
      else if kind = ''asset'' then owned_seed as_id as_tenant_id asset_node ids_from_asset tid i (gd_assets d)
      else if kind = ''observable'' then owned_seed ob_id ob_tenant_id observable_node ids_from_observable tid i (gd_observables d)
      else if kind = ''surface'' then owned_seed sa_id sa_tenant_id surface_node ids_from_surface tid i (gd_surface d)
      else None)"

definition identifier_seed :: "string \<Rightarrow> string \<Rightarrow> seeded res" where
  "identifier_seed kind ref = (let v = norm ref;
      n = \<lparr>nd_kind = ''identifier'', nd_ref = JStr v, nd_label = kind @ '':'' @ v, nd_risk = None\<rparr> in
     if kind = ''email'' then Inr (Some (n, blank_ids\<lparr>id_emails := [v], id_domains := domain_of_email v\<rparr>))
     else if kind = ''domain'' then Inr (Some (n, blank_ids\<lparr>id_domains := [v]\<rparr>))
     else if kind = ''ip'' then Inr (Some (n, blank_ids\<lparr>id_ips := [v]\<rparr>))
     else if kind = ''hash'' then Inl KeyError
     else Inr None)"

text \<open>The rows of a tenant a query reads, and the links of each table to the seed, in the order of the code.\<close>

definition rows_of :: "('r \<Rightarrow> int) \<Rightarrow> int \<Rightarrow> 'r list \<Rightarrow> 'r list" where
  "rows_of tenant tid rows = take LIMIT (filter (\<lambda>r. tenant r = tid) rows)"

type_synonym link = "node \<times> string"

definition via :: "string \<times> string \<Rightarrow> string" where
  "via ov = fst ov @ '':'' @ snd ov"

definition shared :: "node \<Rightarrow> ids \<Rightarrow> ('r \<Rightarrow> node) \<Rightarrow> ('r \<Rightarrow> ids) \<Rightarrow> 'r \<Rightarrow> link list" where
  "shared seed ids mk ids_of r = (if nd_kind (mk r) = nd_kind seed \<and> nd_ref (mk r) = nd_ref seed then [] else
     (case overlap ids (ids_of r) of None \<Rightarrow> [] | Some ov \<Rightarrow> [(mk r, via ov)]))"

definition brand_links :: "ids \<Rightarrow> monitored_brand \<Rightarrow> link list" where
  "brand_links ids b = (case common (id_domains ids) (tokens_domains (JStr (br_official_domains b))) of
     [] \<Rightarrow> [] | v # vs \<Rightarrow> [(brand_node b, ''domain:'' @ v)])"

definition brand_finding_links :: "ids \<Rightarrow> brand_finding \<Rightarrow> link list" where
  "brand_finding_links ids f = (if norm (bf_domain f) \<in> set (id_domains ids)
     then [(brand_finding_node f, ''domain:'' @ norm (bf_domain f))] else [])"

definition surface_links :: "graph_db \<Rightarrow> int \<Rightarrow> node \<Rightarrow> ids \<Rightarrow> surface_asset \<Rightarrow> link list" where
  "surface_links d tid seed ids a = (case shared seed ids surface_node ids_from_surface a of
     [] \<Rightarrow> []
   | l # ls \<Rightarrow> l # (case sa_brand_id a of None \<Rightarrow> []
       | Some i \<Rightarrow> (case find_row br_id i (gd_brands d) of None \<Rightarrow> []
           | Some b \<Rightarrow> if br_tenant_id b = tid then [(brand_node b, ''surface'')] else [])))"

definition case_links :: "node \<Rightarrow> ids \<Rightarrow> inv_case \<Rightarrow> link list" where
  "case_links seed ids c = (let snap = (case cs_finding_snapshot c of None \<Rightarrow> [] | Some s \<Rightarrow> s) in
     if nd_kind seed = ''exposure_finding'' \<and> jget snap ''exposure_finding_id'' = nd_ref seed then [(case_node c, ''case-of-finding'')]
     else (case common (id_domains ids) (tokens_domains (case map_of snap ''domain'' of None \<Rightarrow> JStr [] | Some v \<Rightarrow> v)) of
       [] \<Rightarrow> [] | v # vs \<Rightarrow> [(case_node c, ''domain:'' @ v)]))"

definition all_links :: "graph_db \<Rightarrow> int \<Rightarrow> node \<Rightarrow> ids \<Rightarrow> link list" where
  "all_links d tid seed ids =
     concat (map (shared seed ids finding_node ids_from_exposure) (rows_of fd_tenant_id tid (gd_findings d)))
   @ concat (map (shared seed ids asset_node ids_from_asset) (rows_of as_tenant_id tid (gd_assets d)))
   @ concat (map (shared seed ids observable_node ids_from_observable) (rows_of ob_tenant_id tid (gd_observables d)))
   @ concat (map (brand_links ids) (rows_of br_tenant_id tid (gd_brands d)))
   @ (if id_domains ids \<noteq> [] then concat (map (brand_finding_links ids) (rows_of bf_tenant_id tid (gd_brand_findings d))) else [])
   @ concat (map (surface_links d tid seed ids) (rows_of sa_tenant_id tid (gd_surface d)))
   @ concat (map (case_links seed ids) (rows_of cs_tenant_id tid (gd_cases d)))"

record graph =
  gr_seed :: node
  gr_nodes :: "node list"
  gr_edges :: "(string \<times> string \<times> string) list"

definition add_link :: "link \<Rightarrow> graph \<Rightarrow> graph" where
  "add_link l g = (if node_id (fst l) \<in> node_id ` set (gr_seed g # gr_nodes g) then g
     else g\<lparr>gr_nodes := gr_nodes g @ [fst l], gr_edges := gr_edges g @ [(node_id (gr_seed g), node_id (fst l), snd l)]\<rparr>)"

definition graph_of :: "graph_db \<Rightarrow> int \<Rightarrow> node \<Rightarrow> ids \<Rightarrow> graph" where
  "graph_of d tid seed ids = fold add_link (all_links d tid seed ids) \<lparr>gr_seed = seed, gr_nodes = [], gr_edges = []\<rparr>"

definition identifiers :: "ids \<Rightarrow> (string \<times> string list) list" where
  "identifiers ids = filter (\<lambda>kv. snd kv \<noteq> []) [(''emails'', sorted_set (id_emails ids)), (''domains'', sorted_set (id_domains ids)),
     (''hashes'', sorted_set (id_hashes ids)), (''ips'', sorted_set (id_ips ids))]"

type_synonym answer_graph = "graph \<times> (string \<times> string list) list"

definition graph_answer :: "graph_db \<Rightarrow> int \<Rightarrow> seeded \<Rightarrow> answer_graph option" where
  "graph_answer d tid s = map_option (\<lambda>(seed, ids). (graph_of d tid seed ids, identifiers ids)) s"

definition ROW_KINDS :: "string list" where
  "ROW_KINDS = [''finding'', ''asset'', ''observable'', ''surface'']"

definition ENTITY_KINDS :: "string list" where
  "ENTITY_KINDS = ROW_KINDS @ [''email'', ''domain'', ''hash'', ''ip'']"

definition correlate :: "graph_db \<Rightarrow> int \<Rightarrow> string \<Rightarrow> string + int \<Rightarrow> answer_graph option res" where
  "correlate d tid kind ref = (case ref of
     Inr i \<Rightarrow> Inr (graph_answer d tid (row_seed d tid kind i))
   | Inl s \<Rightarrow> bindr (identifier_seed kind s) (\<lambda>sd. Inr (graph_answer d tid sd)))"

definition get_correlation :: "graph_db \<Rightarrow> int \<Rightarrow> string \<Rightarrow> answer_graph res" where
  "get_correlation d tid entity = (let kind = partition_before CHR '':'' entity; ref = partition_after CHR '':'' entity in
     if CHR '':'' \<notin> set entity \<or> kind \<notin> set ENTITY_KINDS \<or> ref = [] then Inl (HTTPException 422)
     else bindr (if kind \<in> set ROW_KINDS then (case parse_int ref of None \<Rightarrow> Inl (HTTPException 422) | Some i \<Rightarrow> Inr (Inr i)) else Inr (Inl ref))
       (\<lambda>r. bindr (correlate d tid kind r) (\<lambda>g. case g of None \<Rightarrow> Inl (HTTPException 404) | Some a \<Rightarrow> Inr a)))"

section \<open>A case from a finding\<close>

definition unique_correlated_brand :: "graph_db \<Rightarrow> int \<Rightarrow> int \<Rightarrow> int option" where
  "unique_correlated_brand d tid finding_id = (case correlate d tid ''finding'' (Inr finding_id) of
     Inr (Some (g, i)) \<Rightarrow> (case fromkeys (map nd_ref (filter (\<lambda>n. nd_kind n = ''brand'') (gr_nodes g))) of [JInt b] \<Rightarrow> Some b | _ \<Rightarrow> None)
   | _ \<Rightarrow> None)"

definition SEV_TO_CASE :: "string dict" where
  "SEV_TO_CASE = [(''low'', ''baixo''), (''medium'', ''medio''), (''high'', ''alto''), (''critical'', ''critico'')]"

definition exposure_snapshot :: "finding \<Rightarrow> json dict" where
  "exposure_snapshot f = [(''exposure_finding_id'', JInt (fd_id f)), (''exposure_type'', JStr (fd_exposure_type f)),
     (''source'', JStr (fd_source f)), (''source_reliability'', JStr (fd_source_reliability f)),
     (''info_credibility'', JStr (fd_info_credibility f)), (''dedup_key'', JStr (fd_dedup_key f)), (''detail'', JObj (fd_detail f))]"

definition exposures_of :: "graph_db \<Rightarrow> exposure_db" where
  "exposures_of d = \<lparr>xd_findings = gd_findings d, xd_batches = [], xd_identities = [], xd_assets = gd_assets d, xd_audit = gd_audit d\<rparr>"

definition exposure_case :: "time \<Rightarrow> principal \<Rightarrow> int \<Rightarrow> finding \<Rightarrow> graph_db \<Rightarrow> inv_case" where
  "exposure_case now p tid f d = \<lparr>cs_id = next_id cs_id (gd_cases d), cs_tenant_id = tid,
     cs_brand_id = unique_correlated_brand d tid (fd_id f), cs_finding_id = None, cs_observable_id = None,
     cs_finding_snapshot = Some (exposure_snapshot f),
     cs_title = take 255 (if fd_title f \<noteq> [] then fd_title f else ''Exposure #'' @ int_str (fd_id f)),
     cs_description = Some (context_description (exposures_of d) f),
     cs_severity = lookup_or ''medio'' SEV_TO_CASE (fd_severity f), cs_status = ''open'',
     cs_assignee_user_id = pr_user_id p, cs_created_by_user_id = pr_user_id p, cs_created_at = now, cs_updated_at = now,
     cs_closed_at = None\<rparr>"

definition json_int :: "int option \<Rightarrow> json" where
  "json_int v = (case v of None \<Rightarrow> JNull | Some i \<Rightarrow> JInt i)"

definition open_case ::
  "time \<Rightarrow> principal \<Rightarrow> int \<Rightarrow> http_request option \<Rightarrow> int \<Rightarrow> graph_db \<Rightarrow> (inv_case \<times> graph_db) res" where
  "open_case now p tid request finding_id d = bindr (owned_finding (exposures_of d) finding_id tid) (\<lambda>f.
     let c = exposure_case now p tid f d in
     Inr (c, d\<lparr>gd_cases := gd_cases d @ [c], gd_audit := gd_audit d @ [audit_row now (pr_subject p) (Some (pr_role p))
       ''exposure.case_opened'' (Some ''exposure'') (Some (int_str (fd_id f))) (Some tid) (pr_user_id p) request
       [(''case_id'', JInt (cs_id c)), (''brand_id'', json_int (cs_brand_id c)), (''assignee_user_id'', json_int (cs_assignee_user_id c))]]\<rparr>))"

end
