(* ===== verification/CorrelationProps.thy ===== *)
theory CorrelationProps
  imports Correlation
begin

text \<open>
  Properties of the correlation graph: its shape, what it holds (only rows of the tenant; exactly the findings that
  share an identifier with the seed, so the relation is symmetric), its errors, and the brand of a case.
\<close>

section \<open>Shape of a graph\<close>

definition graph_ok :: "graph \<Rightarrow> bool" where
  "graph_ok g \<longleftrightarrow> distinct (map node_id (gr_seed g # gr_nodes g))
     \<and> map (\<lambda>(a, b, v). (a, b)) (gr_edges g) = map (\<lambda>n. (node_id (gr_seed g), node_id n)) (gr_nodes g)"

definition empty_graph :: "node \<Rightarrow> graph" where
  "empty_graph seed = \<lparr>gr_seed = seed, gr_nodes = [], gr_edges = []\<rparr>"

lemma graph_of_fold: "graph_of d t seed i = fold add_link (all_links d t seed i) (empty_graph seed)"
  by (simp add: graph_of_def empty_graph_def)

lemma add_link_seed [simp]: "gr_seed (add_link l g) = gr_seed g"
  by (simp add: add_link_def)

lemma add_links_seed [simp]: "gr_seed (fold add_link ls g) = gr_seed g"
  by (induction ls arbitrary: g) simp_all

lemma add_link_ok: "graph_ok g \<Longrightarrow> graph_ok (add_link l g)"
  by (auto simp: add_link_def graph_ok_def)

lemma add_links_ok: "graph_ok g \<Longrightarrow> graph_ok (fold add_link ls g)"
  by (induction ls arbitrary: g) (simp_all add: add_link_ok)

lemma graph_of_ok: "graph_ok (graph_of d t seed i)"
  unfolding graph_of_fold by (rule add_links_ok) (simp add: graph_ok_def empty_graph_def)

lemma graph_of_seed [simp]: "gr_seed (graph_of d t seed i) = seed"
  by (simp add: graph_of_fold empty_graph_def)

lemma add_link_nodes: "set (gr_nodes (add_link l g)) \<subseteq> insert (fst l) (set (gr_nodes g))"
  by (auto simp: add_link_def)

lemma add_links_nodes: "set (gr_nodes (fold add_link ls g)) \<subseteq> fst ` set ls \<union> set (gr_nodes g)"
proof (induction ls arbitrary: g)
  case (Cons l ls)
  show ?case using Cons.IH[of "add_link l g"] add_link_nodes[of l g] by auto
qed simp

lemma add_link_ids: "node_id ` set (gr_seed g # gr_nodes (add_link l g)) = insert (node_id (fst l)) (node_id ` set (gr_seed g # gr_nodes g))"
  by (auto simp: add_link_def)

lemma add_links_ids:
  "node_id ` set (gr_seed g # gr_nodes (fold add_link ls g)) = node_id ` fst ` set ls \<union> node_id ` set (gr_seed g # gr_nodes g)"
proof (induction ls arbitrary: g)
  case (Cons l ls)
  have "node_id ` set (gr_seed g # gr_nodes (fold add_link ls (add_link l g)))
      = node_id ` fst ` set ls \<union> node_id ` set (gr_seed g # gr_nodes (add_link l g))"
    using Cons.IH[of "add_link l g"] by simp
  also have "\<dots> = node_id ` fst ` set ls \<union> insert (node_id (fst l)) (node_id ` set (gr_seed g # gr_nodes g))"
    unfolding add_link_ids ..
  finally show ?case by (simp add: insert_commute)
qed simp

lemma graph_nodes: "n \<in> set (gr_nodes (graph_of d t seed i)) \<Longrightarrow> n \<in> fst ` set (all_links d t seed i)"
  using add_links_nodes[of "all_links d t seed i" "empty_graph seed"] by (auto simp: graph_of_fold empty_graph_def)

lemma insert_cut: "x \<notin> A \<Longrightarrow> insert x A = insert x B \<Longrightarrow> A = B - {x}"
  by auto

lemma graph_ids:
  "node_id ` set (gr_nodes (graph_of d t seed i)) = node_id ` fst ` set (all_links d t seed i) - {node_id seed}"
proof -
  have d: "node_id seed \<notin> node_id ` set (gr_nodes (graph_of d t seed i))"
    using graph_of_ok[of d t seed i] by (simp add: graph_ok_def)
  have "insert (node_id seed) (node_id ` set (gr_nodes (graph_of d t seed i))) = insert (node_id seed) (node_id ` fst ` set (all_links d t seed i))"
    using add_links_ids[of "empty_graph seed" "all_links d t seed i"] by (simp add: graph_of_fold empty_graph_def)
  with d show ?thesis by (rule insert_cut)
qed

section \<open>Rows of the tenant\<close>

definition tenant_nodes :: "graph_db \<Rightarrow> int \<Rightarrow> node set" where
  "tenant_nodes d t = finding_node ` {r \<in> set (gd_findings d). fd_tenant_id r = t}
     \<union> asset_node ` {r \<in> set (gd_assets d). as_tenant_id r = t}
     \<union> observable_node ` {r \<in> set (gd_observables d). ob_tenant_id r = t}
     \<union> brand_node ` {r \<in> set (gd_brands d). br_tenant_id r = t}
     \<union> brand_finding_node ` {r \<in> set (gd_brand_findings d). bf_tenant_id r = t}
     \<union> surface_node ` {r \<in> set (gd_surface d). sa_tenant_id r = t}
     \<union> case_node ` {r \<in> set (gd_cases d). cs_tenant_id r = t}"

lemma rows_of_set: "r \<in> set (rows_of tenant t rows) \<Longrightarrow> r \<in> set rows \<and> tenant r = t"
  unfolding rows_of_def by (drule in_set_takeD) simp

lemma rows_of_all: "length (filter (\<lambda>r. tenant r = t) rows) \<le> LIMIT \<Longrightarrow> rows_of tenant t rows = filter (\<lambda>r. tenant r = t) rows"
  by (simp add: rows_of_def)

lemma shared_link: "l \<in> set (shared seed i mk ids_of r) \<Longrightarrow> fst l = mk r"
  by (auto simp: shared_def split: if_splits option.splits)

lemma brand_link: "l \<in> set (brand_links i b) \<Longrightarrow> fst l = brand_node b"
  by (auto simp: brand_links_def split: list.splits)

lemma brand_finding_link: "l \<in> set (brand_finding_links i b) \<Longrightarrow> fst l = brand_finding_node b"
  by (auto simp: brand_finding_links_def split: if_splits)

lemma case_link: "l \<in> set (case_links seed i c) \<Longrightarrow> fst l = case_node c"
  by (auto simp: case_links_def Let_def split: if_splits list.splits)

lemma surface_link:
  assumes "l \<in> set (surface_links d t seed i a)"
  shows "fst l = surface_node a \<or> (\<exists>b \<in> set (gd_brands d). br_tenant_id b = t \<and> fst l = brand_node b)"
proof (cases "shared seed i surface_node ids_from_surface a")
  case (Cons h hs)
  have h: "fst h = surface_node a" using shared_link[of h seed i surface_node ids_from_surface a] Cons by simp
  show ?thesis
  proof (cases "l = h")
    case False
    with assms Cons obtain k b where "find_row br_id k (gd_brands d) = Some b" "br_tenant_id b = t" "l = (brand_node b, ''surface'')"
      by (cases "sa_brand_id a"; cases "find_row br_id (the (sa_brand_id a)) (gd_brands d)")
         (auto simp: surface_links_def split: if_splits)
    then show ?thesis using find_row_SomeD[of br_id k "gd_brands d" b] by auto
  qed (simp add: h)
qed (use assms in \<open>simp add: surface_links_def\<close>)

text \<open>A link comes from one of the seven tables.\<close>

lemma link_cases:
  assumes "l \<in> set (all_links d t seed i)"
  obtains (finding) r where "r \<in> set (rows_of fd_tenant_id t (gd_findings d))" "l \<in> set (shared seed i finding_node ids_from_exposure r)"
    | (asset) r where "r \<in> set (rows_of as_tenant_id t (gd_assets d))" "fst l = asset_node r"
    | (observable) r where "r \<in> set (rows_of ob_tenant_id t (gd_observables d))" "fst l = observable_node r"
    | (brand) r where "r \<in> set (gd_brands d)" "br_tenant_id r = t" "fst l = brand_node r"
    | (brand_finding) r where "r \<in> set (rows_of bf_tenant_id t (gd_brand_findings d))" "fst l = brand_finding_node r"
    | (surface) r where "r \<in> set (rows_of sa_tenant_id t (gd_surface d))" "fst l = surface_node r"
    | (cases) r where "r \<in> set (rows_of cs_tenant_id t (gd_cases d))" "fst l = case_node r"
proof -
  from assms consider
      r where "r \<in> set (rows_of fd_tenant_id t (gd_findings d))" "l \<in> set (shared seed i finding_node ids_from_exposure r)"
    | r where "r \<in> set (rows_of as_tenant_id t (gd_assets d))" "l \<in> set (shared seed i asset_node ids_from_asset r)"
    | r where "r \<in> set (rows_of ob_tenant_id t (gd_observables d))" "l \<in> set (shared seed i observable_node ids_from_observable r)"
    | r where "r \<in> set (rows_of br_tenant_id t (gd_brands d))" "l \<in> set (brand_links i r)"
    | r where "r \<in> set (rows_of bf_tenant_id t (gd_brand_findings d))" "l \<in> set (brand_finding_links i r)"
    | r where "r \<in> set (rows_of sa_tenant_id t (gd_surface d))" "l \<in> set (surface_links d t seed i r)"
    | r where "r \<in> set (rows_of cs_tenant_id t (gd_cases d))" "l \<in> set (case_links seed i r)"
    unfolding all_links_def by (auto split: if_splits)
  then show thesis
  proof cases
    case 1 then show thesis by (rule finding)
  next
    case (2 r) show thesis by (rule asset[OF 2(1) shared_link[OF 2(2)]])
  next
    case (3 r) show thesis by (rule observable[OF 3(1) shared_link[OF 3(2)]])
  next
    case (4 r) show thesis using rows_of_set[OF 4(1)] brand_link[OF 4(2)] brand by blast
  next
    case (5 r) show thesis by (rule brand_finding[OF 5(1) brand_finding_link[OF 5(2)]])
  next
    case (6 r) show thesis using surface_link[OF 6(2)] surface[OF 6(1)] brand by blast
  next
    case (7 r) show thesis by (rule cases[OF 7(1) case_link[OF 7(2)]])
  qed
qed

lemma all_links_scope: "n \<in> fst ` set (all_links d t seed i) \<Longrightarrow> n \<in> tenant_nodes d t"
proof -
  assume "n \<in> fst ` set (all_links d t seed i)"
  then obtain l where l: "l \<in> set (all_links d t seed i)" "n = fst l" by (rule imageE) simp
  from l(1) show ?thesis
  proof (cases rule: link_cases)
    case (finding r)
    then show ?thesis using shared_link[OF finding(2)] by (auto simp: tenant_nodes_def l(2) dest: rows_of_set)
  qed (auto simp: tenant_nodes_def l(2) dest: rows_of_set)
qed

section \<open>Shared identifiers\<close>

definition shares_identifier :: "ids \<Rightarrow> ids \<Rightarrow> bool" where
  "shares_identifier a b \<longleftrightarrow> set (id_emails a) \<inter> set (id_emails b) \<noteq> {} \<or> set (id_hashes a) \<inter> set (id_hashes b) \<noteq> {}
     \<or> set (id_domains a) \<inter> set (id_domains b) \<noteq> {} \<or> set (id_ips a) \<inter> set (id_ips b) \<noteq> {}"

lemma sorted_set_Nil [simp]: "sorted_set xs = [] \<longleftrightarrow> xs = []"
  using set_sorted_set[of xs] by (metis set_empty)

lemma common_Nil: "common xs ys = [] \<longleftrightarrow> set xs \<inter> set ys = {}"
  by (auto simp: common_def filter_empty_conv)

lemma overlap_in_None: "overlap_in ks a b = None \<longleftrightarrow> (\<forall>(k, sel) \<in> set ks. set (sel a) \<inter> set (sel b) = {})"
proof (induction ks)
  case (Cons p ks)
  obtain k sel where p: "p = (k, sel)" by (cases p)
  show ?case
  proof (cases "common (sel a) (sel b)")
    case Nil
    then have e: "set (sel a) \<inter> set (sel b) = {}" by (simp add: common_Nil)
    show ?thesis using Cons Nil e by (simp add: p)
  next
    case (Cons v vs)
    then have "set (sel a) \<inter> set (sel b) \<noteq> {}" by (metis common_Nil list.distinct(1))
    with Cons show ?thesis by (simp add: p)
  qed
qed simp

lemma overlap_None: "overlap a b = None \<longleftrightarrow> \<not> shares_identifier a b"
  unfolding overlap_def overlap_in_None by (simp add: id_kinds_def shares_identifier_def) blast

lemma row_node_id_inj: "node_id (row_node k i l r) = node_id (row_node k j l' r') \<Longrightarrow> i = j"
  by (auto simp: node_id_def row_node_def dest: int_str_inj)

lemma finding_node_id: "node_id (finding_node f) = node_id (finding_node h) \<longleftrightarrow> fd_id f = fd_id h"
  by (auto simp: finding_node_def dest: row_node_id_inj) (simp add: node_id_def row_node_def)

lemma finding_node_other:
  "node_id (finding_node f) \<noteq> node_id (asset_node a)" "node_id (finding_node f) \<noteq> node_id (observable_node x)"
  "node_id (finding_node f) \<noteq> node_id (brand_node b)" "node_id (finding_node f) \<noteq> node_id (brand_finding_node y)"
  "node_id (finding_node f) \<noteq> node_id (surface_node z)" "node_id (finding_node f) \<noteq> node_id (case_node c)"
  by (simp_all add: finding_node_def asset_node_def observable_node_def brand_node_def brand_finding_node_def
      surface_node_def case_node_def node_id_def row_node_def)

lemma shared_self: "shared (finding_node f) i finding_node ids_from_exposure h \<noteq> [] \<longleftrightarrow>
    fd_id h \<noteq> fd_id f \<and> overlap i (ids_from_exposure h) \<noteq> None"
  by (auto simp: shared_def finding_node_def row_node_def split: option.splits)

lemma finding_links:
  assumes "l \<in> set (all_links d t seed i)" "node_id (fst l) = node_id (finding_node h)"
  shows "\<exists>r \<in> set (gd_findings d). fd_tenant_id r = t \<and> fd_id r = fd_id h \<and> l \<in> set (shared seed i finding_node ids_from_exposure r)"
proof -
  from assms(1) show ?thesis
  proof (cases rule: link_cases)
    case (finding r)
    with shared_link[OF finding(2)] assms(2) rows_of_set[OF finding(1)] show ?thesis by (auto simp: finding_node_id)
  qed (use assms(2) in \<open>simp_all add: finding_node_other[symmetric]\<close>)
qed

lemma finding_in_graph:
  assumes k: "keyed fd_id (gd_findings d)" and h: "h \<in> set (gd_findings d)" "fd_tenant_id h = t"
    and small: "length (filter (\<lambda>r. fd_tenant_id r = t) (gd_findings d)) \<le> LIMIT"
  shows "node_id (finding_node h) \<in> node_id ` set (gr_nodes (graph_of d t (finding_node f) i)) \<longleftrightarrow>
    fd_id h \<noteq> fd_id f \<and> shares_identifier i (ids_from_exposure h)"
proof -
  let ?sh = "shared (finding_node f) i finding_node ids_from_exposure"
  have one: "r = h" if "r \<in> set (gd_findings d)" "fd_id r = fd_id h" for r
    using k h(1) that unfolding keyed_def by (metis inj_on_def distinct_map)
  have "(\<exists>l \<in> set (all_links d t (finding_node f) i). node_id (fst l) = node_id (finding_node h)) \<longleftrightarrow> ?sh h \<noteq> []"
  proof
    assume "\<exists>l \<in> set (all_links d t (finding_node f) i). node_id (fst l) = node_id (finding_node h)"
    then obtain l where "l \<in> set (all_links d t (finding_node f) i)" "node_id (fst l) = node_id (finding_node h)" by blast
    from finding_links[OF this] one show "?sh h \<noteq> []" by (metis empty_iff list.set(1))
  next
    assume "?sh h \<noteq> []"
    then obtain l ls where l: "?sh h = l # ls" by (cases "?sh h") auto
    have "h \<in> set (rows_of fd_tenant_id t (gd_findings d))" using h small by (simp add: rows_of_all)
    with l have "l \<in> set (all_links d t (finding_node f) i)" by (force simp: all_links_def)
    moreover have "fst l = finding_node h" using shared_link[of l "finding_node f" i finding_node ids_from_exposure h] l by simp
    ultimately show "\<exists>l \<in> set (all_links d t (finding_node f) i). node_id (fst l) = node_id (finding_node h)" by (metis (no_types))
  qed
  moreover have "node_id x \<in> node_id ` fst ` L \<longleftrightarrow> (\<exists>l \<in> L. node_id (fst l) = node_id x)" for x :: node and L :: "link set"
    by (simp add: image_image image_iff eq_commute[of "node_id x"])
  ultimately show ?thesis by (simp only: graph_ids Diff_iff shared_self overlap_None finding_node_id) (auto simp: finding_node_id)
qed

section \<open>The answers\<close>

lemma get_correlation_graph:
  assumes "get_correlation d t e = Inr (g, i)"
  shows "\<exists>seed j. g = graph_of d t seed j"
  using assms by (auto simp: get_correlation_def correlate_def graph_answer_def Let_def split: if_splits option.splits sum.splits)
    blast+

text \<open>A demonstration tenant: two findings about one mailbox, a brand that owns its domain, and a finding of another tenant.\<close>

definition mail_finding :: "int \<Rightarrow> int \<Rightarrow> finding" where
  "mail_finding i t = (blank_finding 0)\<lparr>fd_id := i, fd_tenant_id := t, fd_title := ''leak'',
     fd_detail := [(''email'', JStr '' Bob@Acme.com'')]\<rparr>"

definition acme_brand :: monitored_brand where
  "acme_brand = \<lparr>br_id = 4, br_tenant_id = 1, br_name = ''Acme'', br_official_domains = ''acme.com, acme.org'', br_keywords = None,
     br_variations = JNull, br_aliases = JNull, br_products = JNull, br_subdomains = JNull, br_social_profiles = JNull,
     br_sensitive_terms = JNull, br_status = ''active'', mb_logo_url = None, mb_archived_at = None, mb_created_at = 0, mb_last_scan_at = None\<rparr>"

definition demo_graph :: graph_db where
  "demo_graph = \<lparr>gd_findings = [mail_finding 1 1, mail_finding 2 1, mail_finding 3 2], gd_assets = [], gd_observables = [],
     gd_brands = [acme_brand], gd_brand_findings = [], gd_surface = [], gd_cases = [], gd_audit = []\<rparr>"

definition demo_correlation :: "answer_graph res" where
  "demo_correlation = get_correlation demo_graph 1 ''finding:1''"

lemma demo_correlation_value: "case demo_correlation of Inl _ \<Rightarrow> False
   | Inr (g, i) \<Rightarrow> map node_id (gr_nodes g) = [''exposure_finding:2'', ''brand:4''] \<and> i = [(''emails'', [''bob@acme.com'']), (''domains'', [''acme.com''])]"
  by code_simp

lemma demo_correlationE:
  obtains g i where "get_correlation demo_graph 1 ''finding:1'' = Inr (g, i)" "demo_correlation = Inr (g, i)"
    "map node_id (gr_nodes g) = [''exposure_finding:2'', ''brand:4'']"
proof -
  obtain r where r: "demo_correlation = Inr r"
  proof (cases demo_correlation)
    case (Inl e)
    from demo_correlation_value[unfolded Inl] show thesis by simp
  qed (rule that)
  obtain g i where gi: "r = (g, i)" by (cases r)
  from demo_correlation_value[unfolded r gi sum.case prod.case] have "map node_id (gr_nodes g) = [''exposure_finding:2'', ''brand:4'']" by simp
  with r gi show thesis using that by (simp add: demo_correlation_def)
qed




lemma demo_graph_findings: "keyed fd_id (gd_findings demo_graph)" "length (filter (\<lambda>r. fd_tenant_id r = 1) (gd_findings demo_graph)) \<le> LIMIT"
  by (simp_all add: demo_graph_def mail_finding_def keyed_def LIMIT_def)


text \<open>
  C3. The selector of a hash is documented and accepted, and always fails: the set it names, \<open>hashs\<close>, does not exist.
\<close>

theorem hash_selector_fails:
  "v \<noteq> [] \<Longrightarrow> get_correlation d t (''hash:'' @ v) = Inl KeyError"
  by (simp add: get_correlation_def partition_before_def partition_after_def ENTITY_KINDS_def ROW_KINDS_def correlate_def
      identifier_seed_def Let_def)

theorem hash_selector_fails_witness: "get_correlation demo_graph 1 ''hash:0af5'' = Inl KeyError"
  using hash_selector_fails[of "''0af5''" demo_graph 1] by simp

section \<open>The brand of a case\<close>

lemma fromkeys_single: "fromkeys xs = [x] \<longleftrightarrow> set xs = {x}"
proof
  assume s: "set xs = {x}"
  then have "set (fromkeys xs) = {x}" "distinct (fromkeys xs)" by simp_all
  then show "fromkeys xs = [x]" by (cases "fromkeys xs"; cases "tl (fromkeys xs)") auto
qed (metis set_fromkeys list.set(1) list.set(2))

lemma brand_case_exact: "(case xs of [JInt b] \<Rightarrow> Some b | _ \<Rightarrow> None) = Some c \<longleftrightarrow> xs = [JInt c]"
  by (cases xs; cases "hd xs"; cases "tl xs") simp_all

lemma tenant_brand_node: "n \<in> tenant_nodes d t \<Longrightarrow> nd_kind n = ''brand'' \<Longrightarrow> \<exists>b \<in> set (gd_brands d). br_tenant_id b = t \<and> n = brand_node b"
  by (auto simp: tenant_nodes_def finding_node_def asset_node_def observable_node_def brand_node_def brand_finding_node_def
      surface_node_def case_node_def row_node_def)

lemma owned_finding_iff: "owned_finding (exposures_of d) i t = Inr f \<longleftrightarrow> find_row fd_id i (gd_findings d) = Some f \<and> fd_tenant_id f = t"
  by (auto simp: owned_finding_def exposures_of_def split: option.splits)

definition brand_nodes :: "graph_db \<Rightarrow> int \<Rightarrow> finding \<Rightarrow> node set" where
  "brand_nodes d t f = {n \<in> set (gr_nodes (graph_of d t (finding_node f) (ids_from_exposure f))). nd_kind n = ''brand''}"

lemma unique_brand:
  assumes "find_row fd_id i (gd_findings d) = Some f" "fd_tenant_id f = t"
  shows "unique_correlated_brand d t i = Some b \<longleftrightarrow> nd_ref ` brand_nodes d t f = {JInt b}"
  using assms
  by (simp add: unique_correlated_brand_def correlate_def row_seed_def owned_seed_def graph_answer_def brand_case_exact
      fromkeys_single brand_nodes_def)

text \<open>C21 
  C4. A case opened from a finding has a brand exactly when the graph of the finding points to one brand and no other, and
  that brand is the tenant's; the finding is the tenant's and the case is the only change of the table.
\<close>

theorem case_brand_not_guessed:
  assumes "open_case now p t rq i d = Inr (c, d')"
  shows "\<exists>f \<in> set (gd_findings d). fd_id f = i \<and> fd_tenant_id f = t \<and> cs_tenant_id c = t \<and> gd_cases d' = gd_cases d @ [c] \<and>
    (\<forall>b. cs_brand_id c = Some b \<longleftrightarrow> nd_ref ` brand_nodes d t f = {JInt b}) \<and>
    (\<forall>b. cs_brand_id c = Some b \<longrightarrow> b \<in> br_id ` {r \<in> set (gd_brands d). br_tenant_id r = t})"
proof -
  from assms obtain f where f: "find_row fd_id i (gd_findings d) = Some f" "fd_tenant_id f = t"
    and c: "c = exposure_case now p t f d" "gd_cases d' = gd_cases d @ [c]"
    by (auto simp: open_case_def owned_finding_iff Let_def)
  have i: "f \<in> set (gd_findings d)" "fd_id f = i" using find_row_SomeD[OF f(1)] by auto
  have b: "cs_brand_id c = Some b \<longleftrightarrow> nd_ref ` brand_nodes d t f = {JInt b}" for b
    using unique_brand[OF f] i(2) by (simp add: c(1) exposure_case_def)
  have row: "b \<in> br_id ` {r \<in> set (gd_brands d). br_tenant_id r = t}" if "cs_brand_id c = Some b" for b
  proof -
    from that b obtain n where n: "n \<in> brand_nodes d t f" "nd_ref n = JInt b" by (metis imageE insertI1)
    then obtain r where r: "r \<in> set (gd_brands d)" "br_tenant_id r = t" "n = brand_node r"
      using tenant_brand_node[OF all_links_scope[OF graph_nodes]] unfolding brand_nodes_def by blast
    with n(2) have "br_id r = b" by (simp add: brand_node_def row_node_def)
    with r show ?thesis by blast
  qed
  show ?thesis using f(2) i b row c(2) by (intro bexI[of _ f]) (simp_all add: c(1) exposure_case_def)
qed

definition demo_operator :: principal where
  "demo_operator = \<lparr>pr_subject = ''ops'', pr_role = ''admin'', pr_kind = ''user'', pr_is_operator = True,
     pr_operator_role = Some ''platform_admin'', pr_tenant_id = None, pr_user_id = Some 9\<rparr>"

definition demo_opened :: "(inv_case \<times> graph_db) res" where
  "demo_opened = open_case 5 demo_operator 1 None 1 demo_graph"

lemma demo_opened_value: "case demo_opened of Inl _ \<Rightarrow> False
   | Inr (c, d') \<Rightarrow> cs_brand_id c = Some 4 \<and> cs_severity c = ''medio'' \<and> cs_assignee_user_id c = Some 9"
  by code_simp

theorem case_brand_not_guessed_witness:
  "case demo_opened of Inl _ \<Rightarrow> False | Inr (c, d') \<Rightarrow> cs_brand_id c = Some 4 \<and> gd_cases d' = [c] \<and> 4 \<in> br_id ` set (gd_brands demo_graph)"
proof (cases demo_opened)
  case (Inl e)
  from demo_opened_value[unfolded Inl] show ?thesis by simp
next
  case (Inr r)
  obtain c d where r: "r = (c, d)" by (cases r)
  from demo_opened_value[unfolded Inr r sum.case prod.case] have b: "cs_brand_id c = Some 4" by simp
  have o: "open_case 5 demo_operator 1 None 1 demo_graph = Inr (c, d)" using Inr r by (simp add: demo_opened_def)
  from case_brand_not_guessed[OF o] b show ?thesis unfolding Inr r sum.case prod.case by (auto simp: demo_graph_def)
qed

text \<open>An operator is a user of no tenant: the comment of \<open>open_case\<close> says such a principal has no user id and leaves the case
  unassigned, but it becomes the assignee of the tenant's case.\<close>

lemma operator_becomes_assignee:
  assumes "open_case now p t rq i d = Inr (c, d')" "pr_is_operator p" "pr_tenant_id p = None" "pr_user_id p = Some u"
  shows "cs_assignee_user_id c = Some u"
  using assms by (auto simp: open_case_def exposure_case_def Let_def)

end
