(* ===== verification/Features.thy ===== *)
theory Features
  imports Prelude
begin

text \<open>
  The feature gate of \<open>app/features.py\<close>: which paid features a request may use. The edition is the
  configuration value \<open>EDITION\<close>, the licence what \<open>enterprise_adapter.get_enterprise_status\<close>
  reports (\<open>None\<close> when it raises).
\<close>

datatype feature =
    EXPORT_PDF | INTEGRATION_MISP | INTEGRATION_OPENCTI | INTEGRATION_GENERIC | ENRICHMENT_PREMIUM
  | FEEDS_DARKWEB | FEEDS_REALTIME | FEEDS_ENRICHMENT | COLLECTION_TELEGRAM | ANALYSIS_TELEGRAM

fun feature_value :: "feature \<Rightarrow> string" where
  "feature_value EXPORT_PDF = ''export.pdf''"
| "feature_value INTEGRATION_MISP = ''integration.misp''"
| "feature_value INTEGRATION_OPENCTI = ''integration.opencti''"
| "feature_value INTEGRATION_GENERIC = ''integration.generic''"
| "feature_value ENRICHMENT_PREMIUM = ''enrichment.premium''"
| "feature_value FEEDS_DARKWEB = ''feeds.darkweb''"
| "feature_value FEEDS_REALTIME = ''feeds.realtime''"
| "feature_value FEEDS_ENRICHMENT = ''feeds.enrichment''"
| "feature_value COLLECTION_TELEGRAM = ''collection.telegram''"
| "feature_value ANALYSIS_TELEGRAM = ''analysis.telegram''"

definition PREMIUM :: "feature list" where
  "PREMIUM = [EXPORT_PDF, INTEGRATION_MISP, INTEGRATION_OPENCTI, INTEGRATION_GENERIC,
     ENRICHMENT_PREMIUM, FEEDS_DARKWEB, FEEDS_REALTIME, FEEDS_ENRICHMENT, COLLECTION_TELEGRAM,
     ANALYSIS_TELEGRAM]"

definition FEATURE_LABEL :: "string dict" where
  "FEATURE_LABEL = [(''export.pdf'', ''Premium PDF export''),
     (''integration.misp'', ''MISP integration''), (''integration.opencti'', ''OpenCTI integration''),
     (''integration.generic'', ''Generic threat-intel integration''),
     (''enrichment.premium'', ''Premium enrichment''), (''feeds.darkweb'', ''Dark/deep web feeds''),
     (''feeds.realtime'', ''Real-time collection''), (''feeds.enrichment'', ''Feed enrichment''),
     (''collection.telegram'', ''Telegram intelligence collection''),
     (''analysis.telegram'', ''Telegram intelligence analysis'')]"

fun ENTERPRISE_ALIASES :: "feature \<Rightarrow> string list" where
  "ENTERPRISE_ALIASES EXPORT_PDF = [''export.pdf'', ''premium_pdf_reports'']"
| "ENTERPRISE_ALIASES INTEGRATION_MISP = [''integration.misp'', ''enterprise_integrations'']"
| "ENTERPRISE_ALIASES INTEGRATION_OPENCTI = [''integration.opencti'', ''enterprise_integrations'']"
| "ENTERPRISE_ALIASES INTEGRATION_GENERIC =
     [''integration.generic'', ''enterprise_integrations'', ''advanced_connectors'']"
| "ENTERPRISE_ALIASES ENRICHMENT_PREMIUM = [''enrichment.premium'', ''advanced_connectors'']"
| "ENTERPRISE_ALIASES FEEDS_DARKWEB = [''feeds.darkweb'', ''advanced_connectors'']"
| "ENTERPRISE_ALIASES FEEDS_REALTIME = [''feeds.realtime'', ''advanced_connectors'', ''scheduled_reports'']"
| "ENTERPRISE_ALIASES FEEDS_ENRICHMENT = [''feeds.enrichment'', ''advanced_connectors'']"
| "ENTERPRISE_ALIASES COLLECTION_TELEGRAM = [''collection.telegram'']"
| "ENTERPRISE_ALIASES ANALYSIS_TELEGRAM = [''analysis.telegram'']"

record license_status =
  ls_available :: bool
  ls_valid :: bool
  ls_features :: "json list"

definition enterprise_feature_set :: "license_status option \<Rightarrow> string list" where
  "enterprise_feature_set status = (case status of
       None \<Rightarrow> []
     | Some st \<Rightarrow> if \<not> ls_available st \<or> \<not> ls_valid st then [] else map py_str (ls_features st))"

definition resolve_license :: "license_status option \<Rightarrow> feature list" where
  "resolve_license status =
     (let granted = enterprise_feature_set status in
      if granted = [] then []
      else filter (\<lambda>f. list_ex (\<lambda>k. k \<in> set granted) (ENTERPRISE_ALIASES f)) PREMIUM)"

definition entitlements :: "string option \<Rightarrow> license_status option \<Rightarrow> feature list" where
  "entitlements edition status =
     (let e = (case edition of None \<Rightarrow> ''community'' | Some s \<Rightarrow> if s = [] then ''community'' else s)
      in if str_lower e \<noteq> ''enterprise'' then [] else resolve_license status)"

definition is_enabled :: "string option \<Rightarrow> license_status option \<Rightarrow> feature \<Rightarrow> bool" where
  "is_enabled edition status f = (f \<notin> set PREMIUM \<or> f \<in> set (entitlements edition status))"

definition ensure_enabled :: "string option \<Rightarrow> license_status option \<Rightarrow> feature \<Rightarrow> unit res" where
  "ensure_enabled edition status f =
     (if is_enabled edition status f then Inr () else Inl (EnterpriseFeatureRequired (feature_value f)))"

definition allowed_features :: "string option \<Rightarrow> license_status option \<Rightarrow> string list" where
  "allowed_features edition status =
     (let ent = entitlements edition status in sort (map feature_value (filter (\<lambda>f. f \<in> set ent) PREMIUM)))"

definition blocked_features :: "string option \<Rightarrow> license_status option \<Rightarrow> string list" where
  "blocked_features edition status =
     (let ent = entitlements edition status in sort (map feature_value (filter (\<lambda>f. f \<notin> set ent) PREMIUM)))"

definition payment_required_detail :: "string \<Rightarrow> json dict \<Rightarrow> json \<Rightarrow> json dict" where
  "payment_required_detail f upgrade edition =
     (let label = (case map_of FEATURE_LABEL f of None \<Rightarrow> ''This premium feature'' | Some l \<Rightarrow> l)
      in [(''error'', JStr ''enterprise_feature_required''),
          (''detail'', JStr (label @ '' requires a ThreatForge Enterprise license.'')),
          (''feature'', JStr f), (''edition'', edition), (''upgrade'', JObj upgrade)])"

lemma all_premium: "f \<in> set PREMIUM"
  by (cases f) (simp_all add: PREMIUM_def)

lemma entitled_iff:
  "f \<in> set (entitlements edition status) \<longleftrightarrow>
     (\<exists>e. edition = Some e \<and> str_lower e = ''enterprise'')
     \<and> (\<exists>st. status = Some st \<and> ls_available st \<and> ls_valid st
          \<and> set (ENTERPRISE_ALIASES f) \<inter> set (map py_str (ls_features st)) \<noteq> {})"
  by (auto simp: entitlements_def resolve_license_def enterprise_feature_set_def Let_def all_premium
      list_ex_iff str_lower_def char_lower_def split: option.splits)

section \<open>Properties\<close>

text \<open>A paid feature is usable exactly when the edition is \<open>enterprise\<close> in some letter case and a licence
  that is available and valid lists one of the feature's keys; every other answer of the licence, an
  exception included, closes it, and then \<open>ensure_enabled\<close> raises with the feature's name.\<close>

theorem gate_exact:
  "(ensure_enabled edition status f = Inr () \<longleftrightarrow>
      (\<exists>e. edition = Some e \<and> str_lower e = ''enterprise'')
      \<and> (\<exists>st. status = Some st \<and> ls_available st \<and> ls_valid st
           \<and> set (ENTERPRISE_ALIASES f) \<inter> set (map py_str (ls_features st)) \<noteq> {}))
   \<and> (ensure_enabled edition status f = Inr () \<or> ensure_enabled edition status f = Inl (EnterpriseFeatureRequired (feature_value f)))"
  by (simp add: ensure_enabled_def is_enabled_def all_premium entitled_iff)

text \<open>The Telegram features have no alias: no bundle key of a licence, nor all of them together, opens
  collection or analysis; only the exact key does.\<close>

theorem telegram_needs_exact_key:
  assumes "f = COLLECTION_TELEGRAM \<or> f = ANALYSIS_TELEGRAM"
  shows "is_enabled edition (Some st) f \<longleftrightarrow>
    (\<exists>e. edition = Some e \<and> str_lower e = ''enterprise'') \<and> ls_available st \<and> ls_valid st
    \<and> feature_value f \<in> set (map py_str (ls_features st))"
proof -
  have "set (ENTERPRISE_ALIASES f) = {feature_value f}" using assms by auto
  then show ?thesis by (simp add: is_enabled_def all_premium entitled_iff del: set_map)
qed

theorem telegram_needs_exact_key_witness:
  "\<not> is_enabled (Some ''enterprise'') (Some \<lparr>ls_available = True, ls_valid = True,
       ls_features = [JStr ''advanced_connectors'', JStr ''enterprise_integrations'']\<rparr>) COLLECTION_TELEGRAM"
  using telegram_needs_exact_key [of COLLECTION_TELEGRAM "Some ''enterprise''" "\<lparr>ls_available = True, ls_valid = True,
       ls_features = [JStr ''advanced_connectors'', JStr ''enterprise_integrations'']\<rparr>"] by simp

text \<open>The licence screen tells every premium feature exactly once: the allowed and the blocked names
  together are all of them, without a repetition.\<close>

theorem allowed_blocked_partition:
  "distinct (allowed_features edition status @ blocked_features edition status)
   \<and> set (allowed_features edition status @ blocked_features edition status) = set (map feature_value PREMIUM)
   \<and> sorted (allowed_features edition status) \<and> sorted (blocked_features edition status)"
proof -
  have "inj_on feature_value (set PREMIUM)" by (simp add: PREMIUM_def)
  moreover have "distinct PREMIUM" by (simp add: PREMIUM_def)
  ultimately have "distinct (map feature_value (filter P PREMIUM))" for P
    by (simp add: distinct_map inj_on_subset [of _ "set PREMIUM"])
  moreover have "feature_value ` {x \<in> set PREMIUM. P x} \<inter> feature_value ` {x \<in> set PREMIUM. \<not> P x} = {}" for P
    using \<open>inj_on feature_value (set PREMIUM)\<close> by (auto simp: inj_on_def)
  moreover have "feature_value ` {x \<in> set PREMIUM. P x} \<union> feature_value ` {x \<in> set PREMIUM. \<not> P x} = feature_value ` set PREMIUM" for P
    by auto
  ultimately show ?thesis by (simp add: allowed_features_def blocked_features_def Let_def)
qed

end
