(* ===== verification/Integrations.thy ===== *)
theory Integrations
  imports Auth Retention Features
begin

text \<open>
  Premium integrations: the registry of descriptors and connectors (\<open>app/integrations\<close>) and the routes that save,
  test and synchronise a tenant's connection (\<open>app/routers/integrations_routes.py\<close>). A request leaves a database
  even when it fails, because refusals are audited and the audit trail commits. A request's body is a dictionary
  decoded from JSON. The connectors themselves are the Enterprise package's.
\<close>

section \<open>Descriptors\<close>

text \<open>A configuration schema is the list of its fields, each with whether it is required.\<close>

type_synonym config_schema = "(string \<times> bool) list"

definition MispConfig :: config_schema where
  "MispConfig = [(''base_url'', True), (''verify_tls'', False), (''direction'', False), (''tags'', False), (''sync_interval_minutes'', False)]"

definition OpenctiConfig :: config_schema where
  "OpenctiConfig = [(''base_url'', True), (''verify_tls'', False), (''direction'', False), (''sync_interval_minutes'', False)]"

definition GenericConfig :: config_schema where
  "GenericConfig = [(''endpoint_url'', True), (''format'', False), (''direction'', False)]"

record secret_spec =
  ss_required :: "string list"
  ss_optional :: "string list"

definition SECRETS_SPEC :: "secret_spec dict" where
  "SECRETS_SPEC = [(''misp'', \<lparr>ss_required = [''api_key''], ss_optional = []\<rparr>),
     (''opencti'', \<lparr>ss_required = [''api_token''], ss_optional = []\<rparr>),
     (''generic'', \<lparr>ss_required = [], ss_optional = [''token'', ''secret'']\<rparr>)]"

definition secrets_spec_for :: "string \<Rightarrow> secret_spec" where
  "secrets_spec_for name = (case map_of SECRETS_SPEC name of None \<Rightarrow> \<lparr>ss_required = [], ss_optional = []\<rparr> | Some s \<Rightarrow> s)"

definition all_names :: "secret_spec \<Rightarrow> string list" where
  "all_names s = ss_required s @ ss_optional s"

record descriptor =
  ds_name :: string
  ds_title :: string
  ds_feature :: feature
  ds_capabilities :: "string list"
  ds_config_schema :: config_schema
  ds_premium :: bool
  ds_description :: string

type_synonym registry = "descriptor dict"

definition register_descriptor :: "descriptor \<Rightarrow> registry \<Rightarrow> registry" where
  "register_descriptor d reg = AList.update (ds_name d) d reg"

definition get_descriptor :: "registry \<Rightarrow> string \<Rightarrow> descriptor option" where
  "get_descriptor reg name = map_of reg name"

definition list_descriptors :: "registry \<Rightarrow> descriptor list" where
  "list_descriptors reg = map (\<lambda>k. the (map_of reg k)) (sort (dict_keys reg))"

text \<open>The connectors an Enterprise package registers.\<close>

definition register_connector :: "string \<Rightarrow> 'c \<Rightarrow> 'c dict \<Rightarrow> 'c dict" where
  "register_connector name impl impls = AList.update name impl impls"

definition has_connector :: "'c dict \<Rightarrow> string \<Rightarrow> bool" where
  "has_connector impls name = (name \<in> set (dict_keys impls))"

definition get_connector :: "registry \<Rightarrow> 'c dict \<Rightarrow> string \<Rightarrow> 'c res" where
  "get_connector reg impls name = (case map_of impls name of
     Some impl \<Rightarrow> Inr impl
   | None \<Rightarrow> Inl (EnterpriseFeatureRequired (case map_of reg name of None \<Rightarrow> name | Some d \<Rightarrow> feature_value (ds_feature d))))"

definition misp :: descriptor where
  "misp = \<lparr>ds_name = ''misp'', ds_title = ''MISP'', ds_feature = INTEGRATION_MISP,
     ds_capabilities = [''pull_iocs'', ''push_iocs'', ''scheduled_sync''], ds_config_schema = MispConfig, ds_premium = True,
     ds_description = ''Sync indicators of compromise with a MISP instance.''\<rparr>"

definition opencti :: descriptor where
  "opencti = \<lparr>ds_name = ''opencti'', ds_title = ''OpenCTI'', ds_feature = INTEGRATION_OPENCTI,
     ds_capabilities = [''pull_observables'', ''push_observables'', ''scheduled_sync''], ds_config_schema = OpenctiConfig,
     ds_premium = True, ds_description = ''Sync observables and indicators with an OpenCTI platform.''\<rparr>"

definition generic :: descriptor where
  "generic = \<lparr>ds_name = ''generic'', ds_title = ''Generic / Webhook'', ds_feature = INTEGRATION_GENERIC,
     ds_capabilities = [''push_stix'', ''push_csv''], ds_config_schema = GenericConfig, ds_premium = True,
     ds_description = ''Push threat intel to a generic STIX/CSV endpoint.''\<rparr>"

definition REGISTRY :: registry where
  "REGISTRY = register_descriptor generic (register_descriptor opencti (register_descriptor misp []))"

section \<open>Connections\<close>

record integration_connection =
  ic_id :: int
  ic_tenant_id :: int
  ic_name :: string
  ic_enabled :: bool
  ic_config_json :: "json dict"
  ic_secrets_metadata :: "json dict"
  ic_created_at :: time
  ic_updated_at :: time

record integration_db =
  ig_connections :: "integration_connection list"
  ig_audit :: "audit_entry list"

text \<open>The edition and the licence, as the feature gate reads them.\<close>

record licence =
  li_edition :: "string option"
  li_status :: "license_status option"

definition SECRET_KEYS :: "string list" where
  "SECRET_KEYS = [''api_key'', ''api_token'', ''token'', ''secret'', ''password'', ''client_secret'', ''auth_key'', ''private_key'']"

definition secret_key :: "string \<Rightarrow> bool" where
  "secret_key k = (str_lower k \<in> set SECRET_KEYS)"

text \<open>The keys in lower case; of two keys that become the same the later one wins.\<close>

definition lowered :: "json dict \<Rightarrow> json dict" where
  "lowered d = fold (\<lambda>(k, v). AList.update (str_lower k) v) d []"

definition integration_audit ::
  "time \<Rightarrow> principal \<Rightarrow> int \<Rightarrow> http_request option \<Rightarrow> string \<Rightarrow> string \<Rightarrow> json dict \<Rightarrow> integration_db \<Rightarrow> integration_db" where
  "integration_audit now p tid request action name detail d = d\<lparr>ig_audit := ig_audit d @ [audit_row now (pr_subject p)
     (Some (pr_role p)) action (Some ''integration'') None (Some tid) (pr_user_id p) request
     (AList.update ''integration'' (JStr name) detail)]\<rparr>"

definition is_licensed :: "licence \<Rightarrow> feature \<Rightarrow> bool" where
  "is_licensed L f = is_enabled (li_edition L) (li_status L) f"

text \<open>The catalogue is shown without a licence, with the upgrade block on what is locked.\<close>

record catalog_item =
  ci_descriptor :: descriptor
  ci_enabled :: bool
  ci_upgrade :: "json dict option"

definition catalog_item :: "licence \<Rightarrow> json dict \<Rightarrow> descriptor \<Rightarrow> catalog_item" where
  "catalog_item L upgrade d = \<lparr>ci_descriptor = d, ci_enabled = is_licensed L (ds_feature d),
     ci_upgrade = (if is_licensed L (ds_feature d) then None else Some upgrade)\<rparr>"

definition list_integrations :: "licence \<Rightarrow> json dict \<Rightarrow> registry \<Rightarrow> catalog_item list" where
  "list_integrations L upgrade reg = map (catalog_item L upgrade) (list_descriptors reg)"

definition get_integration :: "licence \<Rightarrow> json dict \<Rightarrow> registry \<Rightarrow> string \<Rightarrow> (catalog_item \<times> config_schema \<times> secret_spec) res" where
  "get_integration L upgrade reg name = (case get_descriptor reg name of None \<Rightarrow> Inl (HTTPException 404)
     | Some d \<Rightarrow> Inr (catalog_item L upgrade d, ds_config_schema d, secrets_spec_for name))"

definition gate ::
  "licence \<Rightarrow> registry \<Rightarrow> time \<Rightarrow> principal \<Rightarrow> int \<Rightarrow> http_request option \<Rightarrow> string \<Rightarrow> string \<Rightarrow> integration_db
    \<Rightarrow> descriptor res \<times> integration_db" where
  "gate L reg now p tid request name denied_action d = (case get_descriptor reg name of
     None \<Rightarrow> (Inl (HTTPException 404), d)
   | Some ds \<Rightarrow> if is_licensed L (ds_feature ds) then (Inr ds, d)
       else (Inl (EnterpriseFeatureRequired (feature_value (ds_feature ds))),
         integration_audit now p tid request denied_action name
           [(''edition'', case li_edition L of None \<Rightarrow> JNull | Some e \<Rightarrow> JStr e), (''feature'', JStr (feature_value (ds_feature ds)))] d))"

definition marker :: "bool \<Rightarrow> json" where
  "marker present = JObj [(''present'', JBool present), (''masked'', JStr ''***'')]"

definition split_secrets :: "json dict \<Rightarrow> json dict \<times> json dict" where
  "split_secrets payload = (filter (\<lambda>kv. \<not> secret_key (fst kv)) payload,
     map (\<lambda>(k, v). (k, marker (truthy v))) (filter (\<lambda>kv. secret_key (fst kv)) payload))"

definition required_config_fields :: "descriptor \<Rightarrow> string list" where
  "required_config_fields d = map fst (filter snd (ds_config_schema d))"

definition empty_value :: "json \<Rightarrow> bool" where
  "empty_value v = (v = JNull \<or> v = JStr [] \<or> v = JList [])"

definition marker_present :: "json dict \<Rightarrow> string \<Rightarrow> bool" where
  "marker_present meta key = (case find (\<lambda>kv. str_lower (fst kv) = str_lower key) meta of
     None \<Rightarrow> False | Some (k, m) \<Rightarrow> is_obj m \<and> jget (jdict m) ''present'' = JBool True)"

definition missing_required ::
  "descriptor \<Rightarrow> string \<Rightarrow> json dict \<Rightarrow> integration_connection option \<Rightarrow> string list \<times> string list" where
  "missing_required d name payload existing = (
     let low = lowered payload;
         stored = (case existing of None \<Rightarrow> [] | Some r \<Rightarrow> ic_secrets_metadata r)
     in (filter (\<lambda>f. empty_value (jget low (str_lower f))) (required_config_fields d),
         filter (\<lambda>s. empty_value (jget low (str_lower s)) \<and> \<not> marker_present stored s) (ss_required (secrets_spec_for name))))"

definition is_ready :: "integration_connection option \<Rightarrow> descriptor \<Rightarrow> string \<Rightarrow> bool" where
  "is_ready row d name = (case row of None \<Rightarrow> False | Some r \<Rightarrow>
     let cfg = lowered (ic_config_json r); sec = lowered (ic_secrets_metadata r) in
     list_all (\<lambda>f. \<not> empty_value (jget cfg (str_lower f))) (required_config_fields d)
     \<and> list_all (\<lambda>s. let m = jget sec (str_lower s) in is_obj m \<and> truthy (jget (jdict m) ''present'')) (ss_required (secrets_spec_for name)))"

text \<open>The answer about a row is the row and whether it is ready.\<close>

type_synonym connection_view = "integration_connection \<times> bool"

definition serialize :: "descriptor \<Rightarrow> integration_connection \<Rightarrow> connection_view" where
  "serialize d r = (r, is_ready (Some r) d (ic_name r))"

definition find_connection :: "int \<Rightarrow> string \<Rightarrow> integration_db \<Rightarrow> integration_connection option" where
  "find_connection tid name d = find (\<lambda>r. ic_tenant_id r = tid \<and> ic_name r = name) (ig_connections d)"

definition get_integration_connection ::
  "licence \<Rightarrow> registry \<Rightarrow> time \<Rightarrow> principal \<Rightarrow> int \<Rightarrow> http_request option \<Rightarrow> string \<Rightarrow> integration_db
    \<Rightarrow> connection_view option res \<times> integration_db" where
  "get_integration_connection L reg now p tid request name d =
     (case gate L reg now p tid request name ''integration.read_denied'' d of
        (Inl e, d1) \<Rightarrow> (Inl e, d1)
      | (Inr ds, d1) \<Rightarrow> (Inr (map_option (serialize ds) (find_connection tid name d1)), d1))"

definition merge_markers :: "json dict \<Rightarrow> json dict \<Rightarrow> json dict" where
  "merge_markers stored new = fold (\<lambda>(k, v) m.
     if truthy (jget (jdict v) ''present'') \<or> map_of m k = None then AList.update k v m else m) new stored"

definition saved_row ::
  "time \<Rightarrow> int \<Rightarrow> string \<Rightarrow> json dict \<times> json dict \<Rightarrow> integration_connection option \<Rightarrow> integration_connection list
    \<Rightarrow> integration_connection" where
  "saved_row now tid name sp existing rows = (case existing of
     None \<Rightarrow> \<lparr>ic_id = next_id ic_id rows, ic_tenant_id = tid, ic_name = name, ic_enabled = True, ic_config_json = fst sp,
       ic_secrets_metadata = snd sp, ic_created_at = now, ic_updated_at = now\<rparr>
   | Some r \<Rightarrow> r\<lparr>ic_config_json := fst sp, ic_secrets_metadata := merge_markers (ic_secrets_metadata r) (snd sp),
       ic_enabled := True, ic_updated_at := now\<rparr>)"

definition save_row :: "integration_connection \<Rightarrow> integration_connection option \<Rightarrow> integration_connection list \<Rightarrow> integration_connection list" where
  "save_row r existing rows = (case existing of None \<Rightarrow> rows @ [r] | Some x \<Rightarrow> upd_row ic_id (ic_id x) (\<lambda>_. r) rows)"

definition json_strings :: "string list \<Rightarrow> json" where
  "json_strings xs = JList (map JStr xs)"

definition configure_integration ::
  "licence \<Rightarrow> registry \<Rightarrow> time \<Rightarrow> principal \<Rightarrow> int \<Rightarrow> http_request option \<Rightarrow> string \<Rightarrow> json dict \<Rightarrow> integration_db
    \<Rightarrow> connection_view res \<times> integration_db" where
  "configure_integration L reg now p tid request name payload d =
     (case gate L reg now p tid request name ''integration.config_denied'' d of
        (Inl e, d1) \<Rightarrow> (Inl e, d1)
      | (Inr ds, d1) \<Rightarrow>
          let existing = find_connection tid name d1;
              missing = missing_required ds name payload existing
          in if fst missing \<noteq> [] \<or> snd missing \<noteq> [] then
               (Inl (HTTPException 422), integration_audit now p tid request ''integration.config_rejected'' name
                  [(''missing_config_fields'', json_strings (fst missing)), (''missing_required_secrets'', json_strings (snd missing))] d1)
             else
               let sp = split_secrets payload;
                   r = saved_row now tid name sp existing (ig_connections d1)
               in (Inr (serialize ds r), integration_audit now p tid request ''integration.config_saved'' name
                    [(''connection_id'', JInt (ic_id r)), (''config_keys'', json_strings (sort (dict_keys (fst sp)))),
                     (''secrets_present'', json_strings (sort (map fst (filter (\<lambda>kv. truthy (jget (jdict (snd kv)) ''present'')) (snd sp)))))]
                    (d1\<lparr>ig_connections := save_row r existing (ig_connections d1)\<rparr>)))"

text \<open>Testing and synchronising answer whether the connection is ready.\<close>

definition test_integration ::
  "licence \<Rightarrow> registry \<Rightarrow> time \<Rightarrow> principal \<Rightarrow> int \<Rightarrow> http_request option \<Rightarrow> string \<Rightarrow> integration_db \<Rightarrow> (bool \<times> string) res \<times> integration_db" where
  "test_integration L reg now p tid request name d =
     (case gate L reg now p tid request name ''integration.test_denied'' d of
        (Inl e, d1) \<Rightarrow> (Inl e, d1)
      | (Inr ds, d1) \<Rightarrow> let ready = is_ready (find_connection tid name d1) ds name in
          (Inr (ready, if ready then ''ready'' else ''not_configured''),
           integration_audit now p tid request ''integration.test_requested'' name [(''configured'', JBool ready)] d1))"

definition sync_integration ::
  "licence \<Rightarrow> registry \<Rightarrow> time \<Rightarrow> principal \<Rightarrow> int \<Rightarrow> http_request option \<Rightarrow> string \<Rightarrow> integration_db \<Rightarrow> (bool \<times> string) res \<times> integration_db" where
  "sync_integration L reg now p tid request name d =
     (case gate L reg now p tid request name ''integration.sync_denied'' d of
        (Inl e, d1) \<Rightarrow> (Inl e, d1)
      | (Inr ds, d1) \<Rightarrow> let ready = is_ready (find_connection tid name d1) ds name in
          (Inr (ready, if ready then ''queued'' else ''not_configured''),
           integration_audit now p tid request ''integration.sync_requested'' name [(''accepted'', JBool ready)] d1))"

end
