(* ===== verification/IntegrationProps.thy ===== *)
theory IntegrationProps
  imports Integrations
begin

text \<open>
  Properties of the premium integrations: no secret is kept or used, the tables in every reachable state, when a saved
  connection is ready, and what a request without a licence can do.
\<close>

section \<open>Secret values are not used\<close>

text \<open>Two bodies that differ only in the values of secret fields; of these only whether they are given matters.\<close>

definition secret_alike :: "json \<Rightarrow> json \<Rightarrow> bool" where
  "secret_alike v w \<longleftrightarrow> empty_value v = empty_value w \<and> truthy v = truthy w"

definition payload_alike :: "json dict \<Rightarrow> json dict \<Rightarrow> bool" where
  "payload_alike p q \<longleftrightarrow> list_all2 (\<lambda>a b. fst a = fst b
     \<and> (if secret_key (fst a) then secret_alike (snd a) (snd b) else snd a = snd b)) p q"

definition alike_given :: "string \<times> json \<Rightarrow> string \<times> json \<Rightarrow> bool" where
  "alike_given a b \<longleftrightarrow> fst a = fst b \<and> empty_value (snd a) = empty_value (snd b)"

lemma update_alike:
  "list_all2 alike_given m n \<Longrightarrow> empty_value v = empty_value w \<Longrightarrow> list_all2 alike_given (AList.update k v m) (AList.update k w n)"
proof (induction rule: list_all2_induct)
  case (Cons x xs y ys)
  then show ?case by (cases x; cases y) (auto simp: alike_given_def)
qed (simp add: alike_given_def)

lemma lowered_alike: "payload_alike p q \<Longrightarrow> list_all2 alike_given (lowered p) (lowered q)"
proof -
  have "list_all2 alike_given m n \<Longrightarrow> payload_alike p q \<Longrightarrow>
      list_all2 alike_given (fold (\<lambda>(k, v). AList.update (str_lower k) v) p m) (fold (\<lambda>(k, v). AList.update (str_lower k) v) q n)" for m n
  proof (induction p arbitrary: m n q)
    case (Cons a p)
    from Cons.prems(2) obtain b q' where q: "q = b # q'" "payload_alike p q'" "fst a = fst b"
      "if secret_key (fst a) then secret_alike (snd a) (snd b) else snd a = snd b"
      by (auto simp: payload_alike_def list_all2_Cons1)
    then have "empty_value (snd a) = empty_value (snd b)" by (simp add: secret_alike_def split: if_splits)
    from update_alike[OF Cons.prems(1) this] have "list_all2 alike_given (AList.update (str_lower (fst a)) (snd a) m)
      (AList.update (str_lower (fst b)) (snd b) n)" by (simp add: q(3))
    from Cons.IH[OF this q(2)] show ?case by (simp add: q(1) case_prod_beta)
  qed (simp add: payload_alike_def)
  then show "payload_alike p q \<Longrightarrow> list_all2 alike_given (lowered p) (lowered q)" by (simp add: lowered_def)
qed

lemma jget_alike: "list_all2 alike_given m n \<Longrightarrow> empty_value (jget m k) = empty_value (jget n k)"
  by (induction rule: list_all2_induct) (auto simp: jget_def alike_given_def)

lemma split_alike: "payload_alike p q \<Longrightarrow> split_secrets p = split_secrets q"
  unfolding payload_alike_def
  by (induction rule: list_all2_induct) (auto simp: split_secrets_def secret_alike_def split: if_splits)

lemma missing_alike: "payload_alike p q \<Longrightarrow> missing_required ds name p existing = missing_required ds name q existing"
  using jget_alike[OF lowered_alike] by (simp add: missing_required_def Let_def)

text \<open>C22 
  Saving a connection answers the same, stores the same and audits the same for two bodies that differ in the values of
  their secret fields only: no secret value reaches the database, the answer or the audit trail.
\<close>

theorem secret_values_not_used:
  assumes "payload_alike payload payload'"
  shows "configure_integration L reg now p tid request name payload d = configure_integration L reg now p tid request name payload' d"
  unfolding configure_integration_def missing_alike[OF assms] split_alike[OF assms] ..

definition demo_admin :: principal where
  "demo_admin = \<lparr>pr_subject = ''ann'', pr_role = ''admin'', pr_kind = ''user'', pr_is_operator = False, pr_operator_role = None,
     pr_tenant_id = Some 1, pr_user_id = Some 2\<rparr>"

definition demo_licence :: licence where
  "demo_licence = \<lparr>li_edition = Some ''enterprise'', li_status = Some \<lparr>ls_available = True, ls_valid = True,
     ls_features = [JStr ''integration.misp'']\<rparr>\<rparr>"

definition no_integrations :: integration_db where
  "no_integrations = \<lparr>ig_connections = [], ig_audit = []\<rparr>"

definition misp_body :: "string \<Rightarrow> json dict" where
  "misp_body key = [(''base_url'', JStr ''https://m''), (''api_key'', JStr key)]"

definition saved_misp :: "string \<Rightarrow> connection_view res \<times> integration_db" where
  "saved_misp key = configure_integration demo_licence REGISTRY 5 demo_admin 1 None ''misp'' (misp_body key) no_integrations"

theorem secret_values_not_used_witness:
  "saved_misp ''s3cret'' = saved_misp ''other'' \<and> (case saved_misp ''s3cret'' of (Inr (r, ok), d) \<Rightarrow> ok | _ \<Rightarrow> False)"
proof -
  have "secret_key ''api_key''" by code_simp
  then have "payload_alike (misp_body ''s3cret'') (misp_body ''other'')"
    by (simp add: payload_alike_def misp_body_def secret_alike_def empty_value_def)
  from secret_values_not_used[OF this] have "saved_misp ''s3cret'' = saved_misp ''other''" unfolding saved_misp_def .
  moreover have "case saved_misp ''s3cret'' of (Inr (r, ok), d) \<Rightarrow> ok | _ \<Rightarrow> False" by code_simp
  ultimately show ?thesis by blast
qed

section \<open>The tables\<close>

inductive integration_step :: "licence \<Rightarrow> registry \<Rightarrow> int \<Rightarrow> integration_db \<Rightarrow> integration_db \<Rightarrow> bool" for L reg tid where
  step_read: "get_integration_connection L reg now p tid request name d = (r, d') \<Longrightarrow> integration_step L reg tid d d'"
| step_configure: "distinct (dict_keys payload) \<Longrightarrow> configure_integration L reg now p tid request name payload d = (v, d') \<Longrightarrow>
    integration_step L reg tid d d'"
| step_test: "test_integration L reg now p tid request name d = (b, d') \<Longrightarrow> integration_step L reg tid d d'"
| step_sync: "sync_integration L reg now p tid request name d = (b, d') \<Longrightarrow> integration_step L reg tid d d'"

definition connection_key :: "integration_connection \<Rightarrow> int \<times> string" where
  "connection_key r = (ic_tenant_id r, ic_name r)"

definition markers_ok :: "json dict \<Rightarrow> bool" where
  "markers_ok m \<longleftrightarrow> distinct (dict_keys m) \<and> (\<forall>(k, v) \<in> set m. secret_key k \<and> (v = marker True \<or> v = marker False))"

definition connection_ok :: "registry \<Rightarrow> integration_connection \<Rightarrow> bool" where
  "connection_ok reg r \<longleftrightarrow> ic_name r \<in> set (dict_keys reg) \<and> (\<forall>(k, v) \<in> set (ic_config_json r). \<not> secret_key k)
     \<and> distinct (dict_keys (ic_config_json r)) \<and> markers_ok (ic_secrets_metadata r)"

definition integration_inv :: "registry \<Rightarrow> integration_db \<Rightarrow> bool" where
  "integration_inv reg d \<longleftrightarrow> keyed ic_id (ig_connections d) \<and> unique_on (\<lambda>_. True) connection_key (ig_connections d)
     \<and> list_all (connection_ok reg) (ig_connections d)"

lemma split_ok:
  assumes "distinct (dict_keys payload)" "split_secrets payload = (cfg, sec)"
  shows "distinct (dict_keys cfg)" "\<forall>(k, v) \<in> set cfg. \<not> secret_key k" "markers_ok sec"
proof -
  have f: "distinct (dict_keys (filter P payload))" for P using assms(1) by (simp add: dict_keys_def distinct_map_filter)
  show "distinct (dict_keys cfg)" using assms(2) f by (auto simp: split_secrets_def)
  show "\<forall>(k, v) \<in> set cfg. \<not> secret_key k" using assms(2) by (auto simp: split_secrets_def)
  have "map fst sec = dict_keys (filter (\<lambda>kv. secret_key (fst kv)) payload)"
    using assms(2) by (auto simp: split_secrets_def dict_keys_def)
  with f[of "\<lambda>kv. secret_key (fst kv)"] have "distinct (dict_keys sec)" by (simp add: dict_keys_def)
  moreover have "\<forall>(k, v) \<in> set sec. secret_key k \<and> (v = marker True \<or> v = marker False)"
    using assms(2) by (auto simp: split_secrets_def) (metis (full_types))+
  ultimately show "markers_ok sec" by (simp add: markers_ok_def)
qed

lemma merge_ok: "markers_ok stored \<Longrightarrow> markers_ok new \<Longrightarrow> markers_ok (merge_markers stored new)"
proof -
  let ?f = "\<lambda>(k, v) m. if truthy (jget (jdict v) ''present'') \<or> map_of m k = None then AList.update k v m else m"
  have "markers_ok m \<Longrightarrow> \<forall>(k, v) \<in> set new. secret_key k \<and> (v = marker True \<or> v = marker False) \<Longrightarrow> markers_ok (fold ?f new m)" for m
  proof (induction new arbitrary: m)
    case (Cons a new)
    obtain k v where a: "a = (k, v)" by (cases a)
    have "set (AList.update k v m) \<subseteq> insert (k, v) (set m)" by (induction m) auto
    then have "markers_ok (AList.update k v m)"
      using Cons.prems distinct_update[of m k v] unfolding markers_ok_def dict_keys_def by (auto simp: a)
    then show ?case using Cons by (simp add: a)
  qed simp
  then show "markers_ok stored \<Longrightarrow> markers_ok new \<Longrightarrow> markers_ok (merge_markers stored new)"
    by (simp add: merge_markers_def markers_ok_def)
qed

lemma gate_rows:
  "gate L reg now p tid request name action d = (g, d1) \<Longrightarrow> ig_connections d1 = ig_connections d
    \<and> (\<forall>ds. g = Inr ds \<longrightarrow> get_descriptor reg name = Some ds \<and> d1 = d \<and> is_licensed L (ds_feature ds))"
  by (auto simp: gate_def integration_audit_def split: option.splits if_splits)

lemma audit_rows [simp]: "ig_connections (integration_audit now p tid request action name detail d) = ig_connections d"
  by (simp add: integration_audit_def)

text \<open>A request changes no connection, or it saves the one of its tenant and name.\<close>

lemma configure_cases:
  assumes "configure_integration L reg now p tid request name payload d = (v, d')"
  obtains (unchanged) e where "ig_connections d' = ig_connections d" "v = Inl e"
    | (saved) ds r where "get_descriptor reg name = Some ds" "is_licensed L (ds_feature ds)"
      "missing_required ds name payload (find_connection tid name d) = ([], [])"
      "r = saved_row now tid name (split_secrets payload) (find_connection tid name d) (ig_connections d)"
      "v = Inr (serialize ds r)" "ig_connections d' = save_row r (find_connection tid name d) (ig_connections d)"
proof -
  obtain g d1 where g: "gate L reg now p tid request name ''integration.config_denied'' d = (g, d1)" by (metis surj_pair)
  note G = gate_rows[OF g]
  show thesis
  proof (cases g)
    case (Inl e)
    with assms g G show thesis by (intro unchanged[of e]) (simp_all add: configure_integration_def)
  next
    case (Inr ds)
    with G have G': "get_descriptor reg name = Some ds" "d1 = d" "is_licensed L (ds_feature ds)" by blast+
    show thesis
    proof (cases "missing_required ds name payload (find_connection tid name d) = ([], [])")
      case True
      with assms g Inr G' show thesis by (intro saved) (auto simp: configure_integration_def Let_def)
    next
      case False
      then have "fst (missing_required ds name payload (find_connection tid name d)) \<noteq> [] \<or>
        snd (missing_required ds name payload (find_connection tid name d)) \<noteq> []" by (metis prod.collapse)
      with assms g Inr G' show thesis
        by (intro unchanged[of "HTTPException 422"]) (auto simp: configure_integration_def Let_def)
    qed
  qed
qed

lemma find_connectionD: "find_connection tid name d = Some r \<Longrightarrow> r \<in> set (ig_connections d) \<and> ic_tenant_id r = tid \<and> ic_name r = name"
  unfolding find_connection_def by (drule find_SomeD) simp

lemma same_key_rows:
  assumes "keyed rid rows" "x \<in> set rows" "key r = key x"
  shows "map key (upd_row rid (rid x) (\<lambda>_. r) rows) = map key rows"
proof -
  have "y = x" if "y \<in> set rows" "rid y = rid x" for y using assms(1,2) that by (auto simp: keyed_def distinct_map inj_on_def)
  with assms(3) show ?thesis by (auto simp: upd_row_def)
qed

lemma save_row_inv:
  assumes inv: "integration_inv reg d" and n: "get_descriptor reg name = Some ds" and p: "distinct (dict_keys payload)"
    and r: "r = saved_row now tid name (split_secrets payload) (find_connection tid name d) (ig_connections d)"
    and d': "ig_connections d' = save_row r (find_connection tid name d) (ig_connections d)"
  shows "integration_inv reg d'"
proof -
  obtain cfg sec where s: "split_secrets payload = (cfg, sec)" by (cases "split_secrets payload")
  note sp = split_ok[OF p s]
  have name: "name \<in> set (dict_keys reg)" using map_of_SomeD[of reg name ds] n by (force simp: get_descriptor_def dict_keys_def)
  show ?thesis
  proof (cases "find_connection tid name d")
    case None
    then have new: "(tid, name) \<notin> connection_key ` set (ig_connections d)"
      by (auto simp: find_connection_def find_None_iff connection_key_def)
    from None have "r = \<lparr>ic_id = next_id ic_id (ig_connections d), ic_tenant_id = tid, ic_name = name, ic_enabled = True,
      ic_config_json = cfg, ic_secrets_metadata = sec, ic_created_at = now, ic_updated_at = now\<rparr>" by (simp add: r saved_row_def s)
    with inv None d' sp name new show ?thesis
      by (auto simp: integration_inv_def save_row_def connection_ok_def connection_key_def intro!: keyed_append unique_on_append)
        (simp add: violates_def connection_key_def)
  next
    case (Some x)
    note x = find_connectionD[OF Some]
    have r': "r = x\<lparr>ic_config_json := cfg, ic_secrets_metadata := merge_markers (ic_secrets_metadata x) sec, ic_enabled := True, ic_updated_at := now\<rparr>"
      using Some by (simp add: r saved_row_def s)
    have ok: "connection_ok reg r"
      using inv x sp merge_ok[OF _ sp(3), of "ic_secrets_metadata x"] by (auto simp: r' integration_inv_def connection_ok_def list_all_iff)
    have rows: "ig_connections d' = upd_row ic_id (ic_id x) (\<lambda>_. r) (ig_connections d)" using d' Some by (simp add: save_row_def)
    have k: "keyed ic_id (ig_connections d)" using inv by (simp add: integration_inv_def)
    have "map connection_key (ig_connections d') = map connection_key (ig_connections d)"
      unfolding rows by (rule same_key_rows[OF k]) (use x in \<open>simp_all add: r' connection_key_def\<close>)
    moreover have "keyed ic_id (ig_connections d')" unfolding rows by (rule keyed_upd_row_const[OF k]) (simp add: r')
    moreover have "list_all (connection_ok reg) (ig_connections d')"
      using inv ok by (auto simp: integration_inv_def rows set_upd_row list_all_iff)
    ultimately show ?thesis using inv by (simp add: integration_inv_def unique_on_def)
  qed
qed

lemma step_rows:
  assumes "integration_step L reg tid d d'"
  shows "ig_connections d' = ig_connections d \<or> (\<exists>name ds payload now r. get_descriptor reg name = Some ds \<and> is_licensed L (ds_feature ds) \<and>
    distinct (dict_keys payload) \<and> r = saved_row now tid name (split_secrets payload) (find_connection tid name d) (ig_connections d) \<and>
    ig_connections d' = save_row r (find_connection tid name d) (ig_connections d))"
  using assms
proof cases
  case (step_read now p request name r)
  then show ?thesis
    by (auto simp: get_integration_connection_def dest: gate_rows split: prod.splits sum.splits)
next
  case (step_configure payload now p request name v)
  from step_configure(2) show ?thesis by (cases rule: configure_cases) (use step_configure(1) in blast)+
next
  case (step_test now p request name b)
  then show ?thesis by (auto simp: test_integration_def Let_def dest: gate_rows split: prod.splits sum.splits)
next
  case (step_sync now p request name b)
  then show ?thesis by (auto simp: sync_integration_def Let_def dest: gate_rows split: prod.splits sum.splits)
qed

lemma integration_step_inv:
  assumes "integration_inv reg d" "integration_step L reg tid d d'"
  shows "integration_inv reg d'"
  using step_rows[OF assms(2)]
proof
  assume "ig_connections d' = ig_connections d"
  with assms(1) show ?thesis by (simp add: integration_inv_def)
qed (use save_row_inv[OF assms(1)] in blast)

interpretation integration_machine: preserved "\<lambda>d d'. \<exists>tid. integration_step L reg tid d d'" "integration_inv reg" for L reg
  by unfold_locales (blast intro: integration_step_inv)

text \<open>
  After any requests of any tenants: a tenant has one connection per integration, of a registered name; no field of its
  configuration is named like a secret, and of a secret only a marker is kept.
\<close>

theorem integration_tables_invariant:
  assumes "(\<lambda>d d'. \<exists>tid. integration_step L reg tid d d')\<^sup>*\<^sup>* no_integrations d"
  shows "integration_inv reg d"
proof -
  have "integration_inv reg no_integrations" by (simp add: integration_inv_def no_integrations_def keyed_def unique_on_def)
  with assms show ?thesis by (rule integration_machine.reachable_good)
qed

lemma saved_mispE:
  obtains r d where "saved_misp ''s3cret'' = (Inr (r, True), d)" "ig_connections d \<noteq> []"
proof -
  have "case saved_misp ''s3cret'' of (Inr (r, ok), d) \<Rightarrow> ok \<and> ig_connections d \<noteq> [] | _ \<Rightarrow> False" by code_simp
  then show thesis by (auto intro: that split: prod.splits sum.splits)
qed

lemma saved_misp_step: "saved_misp ''s3cret'' = (v, d) \<Longrightarrow> integration_step demo_licence REGISTRY 1 no_integrations d"
  unfolding saved_misp_def by (erule step_configure[rotated]) (simp add: misp_body_def)

theorem integration_tables_invariant_witness:
  "case saved_misp ''s3cret'' of (v, d) \<Rightarrow> ig_connections d \<noteq> [] \<and> integration_inv REGISTRY d"
proof -
  obtain r d where d: "saved_misp ''s3cret'' = (Inr (r, True), d)" "ig_connections d \<noteq> []" by (rule saved_mispE)
  from saved_misp_step[OF d(1)] have "(\<lambda>d d'. \<exists>tid. integration_step demo_licence REGISTRY tid d d')\<^sup>*\<^sup>* no_integrations d" by blast
  from integration_tables_invariant[OF this] d show ?thesis by simp
qed

text \<open>
  A request of a tenant changes no connection of another tenant, and without a licence for any registered integration it
  changes no connection at all.
\<close>

theorem integration_isolation:
  assumes "integration_inv reg d" "integration_step L reg tid d d'"
  shows "filter (\<lambda>r. ic_tenant_id r \<noteq> tid) (ig_connections d') = filter (\<lambda>r. ic_tenant_id r \<noteq> tid) (ig_connections d)
    \<and> ((\<forall>ds \<in> snd ` set reg. \<not> is_licensed L (ds_feature ds)) \<longrightarrow> ig_connections d' = ig_connections d)"
  using step_rows[OF assms(2)]
proof
  assume "\<exists>name ds payload now r. get_descriptor reg name = Some ds \<and> is_licensed L (ds_feature ds) \<and>
    distinct (dict_keys payload) \<and> r = saved_row now tid name (split_secrets payload) (find_connection tid name d) (ig_connections d) \<and>
    ig_connections d' = save_row r (find_connection tid name d) (ig_connections d)"
  then obtain name ds payload now r where 1: "get_descriptor reg name = Some ds" "is_licensed L (ds_feature ds)"
    and r: "r = saved_row now tid name (split_secrets payload) (find_connection tid name d) (ig_connections d)"
    and rows: "ig_connections d' = save_row r (find_connection tid name d) (ig_connections d)" by blast
  have "ds \<in> snd ` set reg" using 1(1) map_of_SomeD[of reg name ds] by (force simp: get_descriptor_def)
  moreover have "filter (\<lambda>r. ic_tenant_id r \<noteq> tid) (ig_connections d') = filter (\<lambda>r. ic_tenant_id r \<noteq> tid) (ig_connections d)"
  proof (cases "find_connection tid name d")
    case None
    then show ?thesis by (simp add: rows save_row_def r saved_row_def)
  next
    case (Some x)
    have x: "x \<in> set (ig_connections d)" "ic_tenant_id x = tid" using find_connectionD[OF Some] by auto
    have one: "y = x" if "y \<in> set (ig_connections d)" "ic_id y = ic_id x" for y
      using assms(1) x(1) that by (auto simp: integration_inv_def keyed_def distinct_map inj_on_def)
    show ?thesis unfolding rows Some save_row_def option.case
      by (rule filter_upd_row) (use one x(2) Some in \<open>auto simp: r saved_row_def\<close>)
  qed
  ultimately show ?thesis using 1(2) by blast
qed simp

theorem integration_isolation_witness:
  "case saved_misp ''s3cret'' of (v, d) \<Rightarrow> ig_connections d \<noteq> [] \<and> filter (\<lambda>r. ic_tenant_id r \<noteq> 1) (ig_connections d) = []"
proof -
  obtain r d where d: "saved_misp ''s3cret'' = (Inr (r, True), d)" "ig_connections d \<noteq> []" by (rule saved_mispE)
  have "integration_inv REGISTRY no_integrations" by (simp add: integration_inv_def no_integrations_def keyed_def unique_on_def)
  from integration_isolation[OF this saved_misp_step[OF d(1)]] have "filter (\<lambda>r. ic_tenant_id r \<noteq> 1) (ig_connections d) = []"
    by (simp add: no_integrations_def)
  with d show ?thesis by simp
qed

section \<open>A saved connection is ready\<close>

definition lower_keys :: "json dict \<Rightarrow> bool" where
  "lower_keys d \<longleftrightarrow> list_all (\<lambda>kv. str_lower (fst kv) = fst kv) d \<and> distinct (dict_keys d)"

lemma map_of_lowered_fold:
  "map_of (fold (\<lambda>(k, v). AList.update (str_lower k) v) d m) = map_of m ++ map_of (rev (map (\<lambda>(k, v). (str_lower k, v)) d))"
proof (induction d arbitrary: m)
  case (Cons a d)
  obtain k v where a: "a = (k, v)" by (cases a)
  show ?case unfolding a by (simp add: Cons.IH update_conv') (auto simp: map_add_def split: option.splits)
qed simp

lemma lowered_lower: "lower_keys d \<Longrightarrow> map_of (lowered d) = map_of d"
proof -
  assume l: "lower_keys d"
  then have "map (\<lambda>(k, v). (str_lower k, v)) d = d" by (intro map_idI) (auto simp: lower_keys_def list_all_iff)
  with l show ?thesis by (simp add: lowered_def map_of_lowered_fold map_of_rev_distinct lower_keys_def dict_keys_def)
qed

lemma jget_lowered: "lower_keys d \<Longrightarrow> jget (lowered d) k = jget d k"
  by (simp add: jget_def lowered_lower)

lemma marker_present_lower:
  "lower_keys meta \<Longrightarrow> marker_present meta k \<Longrightarrow> \<exists>m. map_of meta (str_lower k) = Some m \<and> is_obj m \<and> jget (jdict m) ''present'' = JBool True"
proof (induction meta)
  case (Cons a meta)
  then show ?case by (cases a) (auto simp: marker_present_def lower_keys_def split: if_splits)
qed (simp add: marker_present_def)

lemma map_of_merge:
  "distinct (dict_keys new) \<Longrightarrow> map_of (merge_markers stored new) k = (case map_of new k of
     None \<Rightarrow> map_of stored k
   | Some v \<Rightarrow> if truthy (jget (jdict v) ''present'') \<or> map_of stored k = None then Some v else map_of stored k)"
proof (induction new arbitrary: stored)
  case (Cons a new)
  obtain i v where a: "a = (i, v)" by (cases a)
  have n: "i \<notin> set (dict_keys new)" "distinct (dict_keys new)" using Cons.prems by (simp_all add: a)
  have none: "map_of new i = None" using n(1) by (simp add: dict_keys_def map_of_eq_None_iff)
  show ?case using Cons.IH[OF n(2)] none
    by (cases "k = i") (auto simp: merge_markers_def a update_conv' split: option.splits)
qed (simp add: merge_markers_def)

lemma merge_keys: "set (dict_keys (merge_markers stored new)) \<subseteq> set (dict_keys stored) \<union> set (dict_keys new)"
proof (induction new arbitrary: stored)
  case (Cons a new)
  obtain i v where a: "a = (i, v)" by (cases a)
  have u: "set (dict_keys (AList.update i v stored)) = insert i (set (dict_keys stored))" by (induction stored) (auto simp: dict_keys_def)
  show ?case using Cons.IH[of "AList.update i v stored"] Cons.IH[of stored] u by (auto simp: merge_markers_def a)
qed (simp add: merge_markers_def)

text \<open>The integrations of the registry: no configuration field is named like a secret, every secret is.\<close>

lemma registry_fields: "get_descriptor REGISTRY name = Some ds \<Longrightarrow> list_all (\<lambda>f. \<not> secret_key f \<and> str_lower f = f) (required_config_fields ds)"
  by (auto simp: get_descriptor_def REGISTRY_def register_descriptor_def misp_def opencti_def generic_def required_config_fields_def
      MispConfig_def OpenctiConfig_def GenericConfig_def secret_key_def SECRET_KEYS_def str_lower_def char_lower_def split: if_splits)

lemma spec_secrets: "list_all (\<lambda>s. secret_key s \<and> str_lower s = s) (ss_required (secrets_spec_for name))"
  by (auto simp: secrets_spec_for_def SECRETS_SPEC_def secret_key_def SECRET_KEYS_def str_lower_def char_lower_def split: option.splits if_splits)

definition body_ok :: "json dict \<Rightarrow> bool" where
  "body_ok payload \<longleftrightarrow> lower_keys payload \<and> (\<forall>(k, v) \<in> set payload. secret_key k \<longrightarrow> is_str v)"

lemma lower_keys_alt: "lower_keys d \<longleftrightarrow> (\<forall>k \<in> set (dict_keys d). str_lower k = k) \<and> distinct (dict_keys d)"
  by (auto simp: lower_keys_def list_all_iff dict_keys_def)

lemma split_snd_keys: "dict_keys (snd (split_secrets payload)) = dict_keys (filter (\<lambda>kv. secret_key (fst kv)) payload)"
  by (simp add: split_secrets_def dict_keys_def case_prod_beta comp_def)

lemma distinct_keys_filter: "distinct (dict_keys d) \<Longrightarrow> distinct (dict_keys (filter P d))"
  by (simp add: dict_keys_def distinct_map_filter)

lemma in_keys_filter: "k \<in> set (dict_keys (filter P d)) \<Longrightarrow> k \<in> set (dict_keys d)"
  by (auto simp: dict_keys_def)

lemma merge_lower: "lower_keys stored \<Longrightarrow> lower_keys new \<Longrightarrow> lower_keys (merge_markers stored new)"
proof -
  have "distinct (dict_keys stored) \<Longrightarrow> distinct (dict_keys (merge_markers stored new))"
    unfolding merge_markers_def
    by (induction new arbitrary: stored) (auto simp: dict_keys_def distinct_update case_prod_beta)
  then show "lower_keys stored \<Longrightarrow> lower_keys new \<Longrightarrow> lower_keys (merge_markers stored new)"
    using merge_keys[of stored new] unfolding lower_keys_alt by blast
qed

lemma split_maps:
  assumes "lower_keys payload"
  shows "map_of (fst (split_secrets payload)) k = (if secret_key k then None else map_of payload k)"
    "map_of (snd (split_secrets payload)) k = (if secret_key k then map_option (\<lambda>v. marker (truthy v)) (map_of payload k) else None)"
    "lower_keys (fst (split_secrets payload))" "lower_keys (snd (split_secrets payload))"
proof -
  show "map_of (fst (split_secrets payload)) k = (if secret_key k then None else map_of payload k)"
    by (induction payload) (auto simp: split_secrets_def)
  show "map_of (snd (split_secrets payload)) k = (if secret_key k then map_option (\<lambda>v. marker (truthy v)) (map_of payload k) else None)"
    by (induction payload) (auto simp: split_secrets_def)
  show "lower_keys (fst (split_secrets payload))"
    using assms by (auto simp: lower_keys_alt split_secrets_def distinct_keys_filter dest: in_keys_filter)
  show "lower_keys (snd (split_secrets payload))"
    using assms by (auto simp: lower_keys_alt split_snd_keys distinct_keys_filter dest: in_keys_filter)
qed

lemma marker_facts [simp]: "is_obj (marker b)" "jget (jdict (marker b)) ''present'' = JBool b"
  by (simp_all add: marker_def jget_def)

text \<open>The marker of a required secret after a body that passed the check.\<close>

lemma given_present: "is_str v \<Longrightarrow> \<not> empty_value v \<Longrightarrow> truthy v"
  by (cases v) (auto simp: empty_value_def)

lemma saved_ready:
  assumes ds: "get_descriptor REGISTRY name = Some ds" and body: "body_ok payload"
    and stored: "\<And>x. ex = Some x \<Longrightarrow> lower_keys (ic_secrets_metadata x)"
    and miss: "missing_required ds name payload ex = ([], [])"
  shows "is_ready (Some (saved_row now tid name (split_secrets payload) ex rows)) ds name"
proof -
  let ?r = "saved_row now tid name (split_secrets payload) ex rows"
  have low: "lower_keys payload" and str: "\<And>k v. map_of payload k = Some v \<Longrightarrow> secret_key k \<Longrightarrow> is_str v"
    using body map_of_SomeD by (fastforce simp: body_ok_def)+
  note sp = split_maps[OF low]
  have cfg: "ic_config_json ?r = fst (split_secrets payload)" by (simp add: saved_row_def split: option.split)
  have c: "\<not> empty_value (jget (lowered (ic_config_json ?r)) (str_lower f))" if "f \<in> set (required_config_fields ds)" for f
  proof -
    have f: "\<not> secret_key f" "str_lower f = f" using registry_fields[OF ds] that by (auto simp: list_all_iff)
    have "\<not> empty_value (jget payload f)"
      using miss that f by (auto simp: missing_required_def Let_def jget_lowered[OF low] filter_empty_conv)
    then show ?thesis by (simp add: cfg f(2) jget_lowered[OF sp(3)]) (simp add: jget_def sp(1) f(1))
  qed
  have m: "is_obj (jget (lowered (ic_secrets_metadata ?r)) (str_lower s)) \<and> truthy (jget (jdict (jget (lowered (ic_secrets_metadata ?r)) (str_lower s))) ''present'')"
    if "s \<in> set (ss_required (secrets_spec_for name))" for s
  proof -
    have s: "secret_key s" "str_lower s = s" using spec_secrets[of name] that by (auto simp: list_all_iff)
    let ?old = "case ex of None \<Rightarrow> [] | Some x \<Rightarrow> ic_secrets_metadata x"
    have ok: "\<not> empty_value (jget payload s) \<or> marker_present ?old s"
      using miss that s by (auto simp: missing_required_def Let_def jget_lowered[OF low] filter_empty_conv)
    have old: "lower_keys ?old" using stored by (cases ex) (simp_all add: lower_keys_def)
    have new: "lower_keys (snd (split_secrets payload))" by (rule sp(4))
    have d: "distinct (dict_keys (snd (split_secrets payload)))" using new by (simp add: lower_keys_def)
    have given: "map_of (snd (split_secrets payload)) s = Some (marker True)" if "\<not> empty_value (jget payload s)"
      using that s(1) str[of s] given_present by (auto simp: sp(2) jget_def empty_value_def split: option.splits)
    have meta: "map_of (ic_secrets_metadata ?r) s = (case map_of (snd (split_secrets payload)) s of None \<Rightarrow> map_of ?old s
       | Some v \<Rightarrow> if truthy (jget (jdict v) ''present'') \<or> map_of ?old s = None then Some v else map_of ?old s)"
      using map_of_merge[OF d, of ?old s] by (cases ex) (simp_all add: saved_row_def split: option.splits)
    have lowm: "map_of (lowered (ic_secrets_metadata ?r)) s = map_of (ic_secrets_metadata ?r) s"
    proof -
      have "lower_keys (ic_secrets_metadata ?r)"
        using merge_lower[OF old new] new by (cases ex) (simp_all add: saved_row_def)
      then show ?thesis by (simp add: lowered_lower)
    qed
    have "\<exists>m. map_of (ic_secrets_metadata ?r) s = Some m \<and> is_obj m \<and> jget (jdict m) ''present'' = JBool True"
    proof (cases "empty_value (jget payload s)")
      case True
      with ok have "marker_present ?old s" by blast
      from marker_present_lower[OF old this] s(2) obtain m where m: "map_of ?old s = Some m" "is_obj m"
        "jget (jdict m) ''present'' = JBool True" by auto
      show ?thesis
      proof (cases "map_of (snd (split_secrets payload)) s")
        case None
        with m show ?thesis by (simp add: meta)
      next
        case (Some v)
        then obtain b where "v = marker b" by (auto simp: sp(2) split: if_splits)
        with m Some show ?thesis by (cases b) (simp_all add: meta)
      qed
    qed (simp add: meta given)
    then show ?thesis using lowm s(2) by (auto simp: jget_def[of "lowered (ic_secrets_metadata ?r)"])
  qed
  show ?thesis using c m by (simp add: is_ready_def Let_def list_all_iff)
qed

lemma find_at_end: "find P xs = None \<Longrightarrow> find P (xs @ [x]) = (if P x then Some x else None)"
  by (induction xs) (auto split: if_splits)

lemma find_saved:
  assumes "integration_inv reg d" "r = saved_row now tid name sp (find_connection tid name d) (ig_connections d)"
    "ig_connections d' = save_row r (find_connection tid name d) (ig_connections d)"
  shows "find_connection tid name d' = Some r"
proof (cases "find_connection tid name d")
  case None
  then have "find (\<lambda>r. ic_tenant_id r = tid \<and> ic_name r = name) (ig_connections d) = None" by (simp add: find_connection_def)
  with None assms(2,3) show ?thesis by (simp add: find_connection_def[of _ _ d'] save_row_def saved_row_def find_at_end)
next
  case (Some x)
  note x = find_connectionD[OF Some]
  have u: "unique_on (\<lambda>_. True) connection_key (ig_connections d')" "r \<in> set (ig_connections d')"
  proof -
    have k: "keyed ic_id (ig_connections d)" using assms(1) by (simp add: integration_inv_def)
    have rows: "ig_connections d' = upd_row ic_id (ic_id x) (\<lambda>_. r) (ig_connections d)" using assms(3) Some by (simp add: save_row_def)
    have key: "connection_key r = connection_key x" using assms(2) Some by (simp add: saved_row_def connection_key_def)
    show "unique_on (\<lambda>_. True) connection_key (ig_connections d')"
      using same_key_rows[where key = connection_key, OF k x[THEN conjunct1] key] assms(1)
      by (simp add: unique_on_def rows integration_inv_def)
    show "r \<in> set (ig_connections d')" using x by (auto simp: rows set_upd_row)
  qed
  have rk: "ic_tenant_id r = tid" "ic_name r = name" using assms(2) Some x by (simp_all add: saved_row_def)
  then obtain y where y: "find_connection tid name d' = Some y"
    using u(2) by (cases "find_connection tid name d'") (auto simp: find_connection_def find_None_iff)
  from find_connectionD[OF y] rk have "y = r"
    using unique_onD[OF u(1), of y r] u(2) by (simp add: connection_key_def)
  with y show ?thesis by simp
qed



text \<open>Without these conditions it is not, although the code says so: a blank secret under another spelling of its name
  hides the stored marker, and a secret that is a number 0 passes the check but has the marker of an absent one.\<close>

lemma recased_secret_loses_ready:
  "case saved_misp ''s3cret'' of (v, d) \<Rightarrow>
     (case configure_integration demo_licence REGISTRY 6 demo_admin 1 None ''misp''
        [(''base_url'', JStr ''https://m''), (''API_KEY'', JStr [])] d of
      (Inl e, _) \<Rightarrow> False | (Inr (r, rdy), _) \<Rightarrow> \<not> rdy)"
  by code_simp

lemma zero_secret_not_ready:
  "case configure_integration demo_licence REGISTRY 6 demo_admin 1 None ''misp''
        [(''base_url'', JStr ''https://m''), (''api_key'', JInt 0)] no_integrations of
      (Inl e, _) \<Rightarrow> False | (Inr (r, rdy), _) \<Rightarrow> \<not> rdy"
  by code_simp

end
