(* ===== verification/Similarity.thy ===== *)
theory Similarity
  imports Prelude
begin

text \<open>
  The edit distance of \<open>app/brand/similarity.py\<close>, row by row as the code computes it.
  \<open>edits\<close> is the specification: an edit script of a given cost between two words.
\<close>

section \<open>Levenshtein\<close>

text \<open>One row: \<open>prev\<close> is the previous one, \<open>left\<close> the last value appended, \<open>cb\<close> runs over \<open>b\<close>.\<close>

fun lev_row :: "char \<Rightarrow> nat list \<Rightarrow> nat \<Rightarrow> string \<Rightarrow> nat list" where
  "lev_row ca (diag # up # prev) left (cb # b) =
     (let v = min (min (up + 1) (left + 1)) (diag + (if ca \<noteq> cb then 1 else 0))
      in v # lev_row ca (up # prev) v b)"
| "lev_row ca prev left b = []"

fun lev_rows :: "string \<Rightarrow> nat \<Rightarrow> nat list \<Rightarrow> string \<Rightarrow> nat list" where
  "lev_rows [] i prev b = prev"
| "lev_rows (ca # a) i prev b = lev_rows a (Suc i) (i # lev_row ca prev i b) b"

definition levenshtein :: "string \<Rightarrow> string \<Rightarrow> nat" where
  "levenshtein a b =
     (if a = b then 0 else if a = [] then length b else if b = [] then length a
      else last (lev_rows a 1 [0..<Suc (length b)] b))"

section \<open>The specification\<close>

inductive edits :: "'a list \<Rightarrow> 'a list \<Rightarrow> nat \<Rightarrow> bool" where
  edits_nil: "edits [] [] 0"
| edits_keep: "edits a b n \<Longrightarrow> edits (x # a) (x # b) n"
| edits_subst: "edits a b n \<Longrightarrow> edits (x # a) (y # b) (Suc n)"
| edits_delete: "edits a b n \<Longrightarrow> edits (x # a) b (Suc n)"
| edits_insert: "edits a b n \<Longrightarrow> edits a (y # b) (Suc n)"

text \<open>The recursion on the last characters, as a function.\<close>

fun dist :: "'a list \<Rightarrow> 'a list \<Rightarrow> nat" where
  "dist [] b = length b"
| "dist a [] = length a"
| "dist (x # a) (y # b) =
     min (min (dist a (y # b) + 1) (dist (x # a) b + 1)) (dist a b + (if x \<noteq> y then 1 else 0))"

lemma dist_Nil2 [simp]: "dist a [] = length a"
  by (cases a) auto

lemma edits_inserts: "edits [] b (length b)"
  by (induction b) (auto intro: edits.intros)

lemma edits_deletes: "edits a [] (length a)"
  by (induction a) (auto intro: edits.intros)

lemma edits_dist: "edits a b (dist a b)"
proof (induction a b rule: dist.induct)
  case (3 x a y b)
  have "edits (x # a) (y # b) (dist a b + (if x \<noteq> y then 1 else 0))"
    using 3(3) by (cases "x = y") (auto intro: edits.intros)
  moreover have "edits (x # a) (y # b) (dist a (y # b) + 1)"
    using 3(1) by (auto intro: edits.intros)
  moreover have "edits (x # a) (y # b) (dist (x # a) b + 1)"
    using 3(2) by (auto intro: edits.intros)
  ultimately show ?case by (simp only: dist.simps min_def split: if_split) blast
next
  case (2 x a)
  show ?case using edits_deletes [of "x # a"] by simp
qed (simp add: edits_inserts)

lemma dist_delete_le: "dist (x # a) b \<le> Suc (dist a b)"
  by (cases b) auto

lemma dist_insert_le: "dist a (y # b) \<le> Suc (dist a b)"
  by (cases a) auto

lemma dist_le_edits: "edits a b n \<Longrightarrow> dist a b \<le> n"
proof (induction rule: edits.induct)
  case (edits_delete a b n x)
  with dist_delete_le [of x a b] show ?case by simp
next
  case (edits_insert a b n y)
  with dist_insert_le [of a y b] show ?case by simp
qed auto

lemma edits_append: "edits a b n \<Longrightarrow> edits c d m \<Longrightarrow> edits (a @ c) (b @ d) (n + m)"
  by (induction rule: edits.induct) (auto intro: edits.intros)

lemma edits_rev: "edits a b n \<Longrightarrow> edits (rev a) (rev b) n"
proof (induction rule: edits.induct)
  case edits_nil
  show ?case by (simp add: edits.edits_nil)
next
  case (edits_keep a b n x)
  from edits_append [OF edits_keep.IH, of "[x]" "[x]" 0] show ?case by (simp add: edits.intros)
next
  case (edits_subst a b n x y)
  from edits_append [OF edits_subst.IH edits.edits_subst [OF edits.edits_nil], of x y] show ?case by simp
next
  case (edits_delete a b n x)
  from edits_append [OF edits_delete.IH edits.edits_delete [OF edits.edits_nil], of x] show ?case by simp
next
  case (edits_insert a b n y)
  from edits_append [OF edits_insert.IH edits.edits_insert [OF edits.edits_nil], of y] show ?case by simp
qed

lemma dist_rev: "dist (rev a) (rev b) = dist a b"
proof (rule antisym)
  show "dist (rev a) (rev b) \<le> dist a b" by (intro dist_le_edits edits_rev edits_dist)
  have "dist (rev (rev a)) (rev (rev b)) \<le> dist (rev a) (rev b)"
    by (intro dist_le_edits edits_rev edits_dist)
  then show "dist a b \<le> dist (rev a) (rev b)" by simp
qed

lemma edits_keeps: "edits a a 0"
  by (induction a) (auto intro: edits_nil edits_keep)

lemma dist_self [simp]: "dist a a = 0"
  using dist_le_edits [OF edits_keeps] by simp

lemma edits_sym: "edits a b n \<Longrightarrow> edits b a n"
proof (induction rule: edits.induct)
  case edits_nil
  show ?case by (rule edits.edits_nil)
next
  case (edits_keep a b n x)
  show ?case by (rule edits.edits_keep [OF edits_keep.IH])
next
  case (edits_subst a b n x y)
  show ?case by (rule edits.edits_subst [OF edits_subst.IH])
next
  case (edits_delete a b n x)
  show ?case by (rule edits.edits_insert [OF edits_delete.IH])
next
  case (edits_insert a b n y)
  show ?case by (rule edits.edits_delete [OF edits_insert.IH])
qed

lemma dist_sym: "dist a b = dist b a"
  by (rule antisym) (rule dist_le_edits [OF edits_sym [OF edits_dist]])+

section \<open>The rows compute it\<close>

text \<open>\<open>drow p q b\<close> lists the distances from \<open>p\<close> to \<open>q\<close> and to \<open>q\<close> with a longer and longer prefix of
  \<open>b\<close> pushed on it: the row the code holds, when \<open>p\<close> and \<open>q\<close> are the read prefixes, reversed.\<close>

fun drow :: "string \<Rightarrow> string \<Rightarrow> string \<Rightarrow> nat list" where
  "drow p q [] = [dist p q]"
| "drow p q (c # b) = dist p q # drow p (c # q) b"

lemma drow_hd: "drow p q b = dist p q # tl (drow p q b)"
  by (cases b) auto

lemma drow_last: "last (drow p q b) = dist p (rev b @ q)"
proof (induction b arbitrary: q)
  case (Cons c b)
  have "drow p (c # q) b \<noteq> []" using drow_hd [of p "c # q" b] by (metis list.distinct(1))
  with Cons show ?case by simp
qed simp

lemma drow_Nil: "drow [] q b = [length q..<Suc (length q + length b)]"
  by (induction b arbitrary: q) (auto simp: upt_rec)

lemma lev_row_drow: "lev_row ca (drow p q b) (dist (ca # p) q) b = tl (drow (ca # p) q b)"
proof (induction b arbitrary: q)
  case (Cons c b)
  let ?v = "min (min (dist p (c # q) + 1) (dist (ca # p) q + 1)) (dist p q + (if ca \<noteq> c then 1 else 0))"
  have v: "?v = dist (ca # p) (c # q)" by simp
  have "lev_row ca (drow p q (c # b)) (dist (ca # p) q) (c # b)
      = ?v # lev_row ca (drow p (c # q) b) ?v b"
    by (subst drow.simps, subst (1 2) drow_hd [of p "c # q" b]) (simp add: Let_def)
  also have "\<dots> = dist (ca # p) (c # q) # tl (drow (ca # p) (c # q) b)"
    by (simp only: v Cons.IH)
  also have "\<dots> = tl (drow (ca # p) q (c # b))"
    by (subst drow_hd [of "ca # p" "c # q" b, symmetric]) simp
  finally show ?case .
qed simp

lemma lev_rows_drow: "lev_rows a (Suc (length p)) (drow p [] b) b = drow (rev a @ p) [] b"
proof (induction a arbitrary: p)
  case (Cons ca a)
  have "Suc (length p) # lev_row ca (drow p [] b) (Suc (length p)) b = drow (ca # p) [] b"
    using lev_row_drow [of ca p "[]" b] drow_hd [of "ca # p" "[]" b] by simp
  then show ?case using Cons.IH [of "ca # p"] by simp
qed simp

lemma levenshtein_eq: "levenshtein a b = dist a b"
proof -
  have "last (lev_rows a 1 [0..<Suc (length b)] b) = dist (rev a) (rev b)"
    using lev_rows_drow [of a "[]" b] drow_Nil [of "[]" b] drow_last [of "rev a" "[]" b] by simp
  then show ?thesis by (auto simp: levenshtein_def dist_rev)
qed

section \<open>Properties\<close>

text \<open>C38 The row-by-row computation is the edit distance: some script of insertions, deletions and
  substitutions of that cost turns one word into the other, and no script is cheaper.\<close>

theorem levenshtein_least_cost:
  "edits a b (levenshtein a b) \<and> (\<nexists>n. n < levenshtein a b \<and> edits a b n)"
  unfolding levenshtein_eq using edits_dist [of a b] by (auto dest: dist_le_edits simp: not_less [symmetric])

text \<open>The distance is symmetric, zero exactly on equal words, and never more than the longer length.\<close>

theorem levenshtein_metric:
  "levenshtein a b = levenshtein b a \<and> (levenshtein a b = 0 \<longleftrightarrow> a = b) \<and> levenshtein a b \<le> max (length a) (length b)"
proof -
  have z: "a = b" if "edits a b n" "n = 0" for n and a b :: string
    using that by (induction rule: edits.induct) auto
  have m: "dist a b \<le> max (length a) (length b)" for a b :: string
    by (induction a b rule: dist.induct) auto
  show ?thesis
    using dist_sym [of a b] z [OF edits_dist [of a b]] m [of a b] by (auto simp: levenshtein_eq)
qed

end
