(* ===== verification/SurfaceSteps.thy ===== *)
theory SurfaceSteps
  imports Surface
begin

text \<open>
  What the surface routes do to the tables: every request is a sequence of changes of rows, and a discovery is a
  sequence of sightings, each of which touches exactly one row.
\<close>

section \<open>What an operation does to the surface\<close>

text \<open>The columns of a row that never change.\<close>

definition stable :: "surface_asset \<Rightarrow> surface_asset" where
  "stable a = a\<lparr>sa_last_seen := 0, sa_detail := [], sa_status := []\<rparr>"

definition surface_key :: "surface_asset \<Rightarrow> int \<times> string" where
  "surface_key a = (sa_tenant_id a, sa_dedup_key a)"

lemma stableD:
  assumes "stable a' = stable a"
  shows "sa_id a' = sa_id a" "sa_tenant_id a' = sa_tenant_id a" "surface_key a' = surface_key a" "sa_brand_id a' = sa_brand_id a"
    "sa_asset_type a' = sa_asset_type a" "sa_value a' = sa_value a" "sa_value_hash a' = sa_value_hash a"
    "sa_parent_id a' = sa_parent_id a" "sa_source a' = sa_source a" "sa_dedup_key a' = sa_dedup_key a"
  using arg_cong[OF assms, of sa_id] arg_cong[OF assms, of sa_tenant_id] arg_cong[OF assms, of sa_brand_id]
    arg_cong[OF assms, of sa_asset_type] arg_cong[OF assms, of sa_value] arg_cong[OF assms, of sa_value_hash]
    arg_cong[OF assms, of sa_parent_id] arg_cong[OF assms, of sa_source] arg_cong[OF assms, of sa_dedup_key]
  by (simp_all add: stable_def surface_key_def)

lemma stable_updates [simp]: "stable (a\<lparr>sa_last_seen := t\<rparr>) = stable a" "stable (a\<lparr>sa_detail := x\<rparr>) = stable a"
  "stable (a\<lparr>sa_status := s\<rparr>) = stable a" "stable (linked_surface i a) = stable a"
  by (simp_all add: stable_def linked_surface_def)

definition brand_in :: "monitored_brand list \<Rightarrow> int \<Rightarrow> int option \<Rightarrow> bool" where
  "brand_in bs tid b = (case b of None \<Rightarrow> True | Some i \<Rightarrow> (i, tid) \<in> (\<lambda>x. (br_id x, br_tenant_id x)) ` set bs)"

definition parent_tag :: "surface_asset \<Rightarrow> int \<times> int" where
  "parent_tag a = (sa_id a, sa_tenant_id a)"

definition parent_in :: "surface_asset list \<Rightarrow> int \<Rightarrow> int option \<Rightarrow> bool" where
  "parent_in rows tid p = (case p of None \<Rightarrow> True | Some i \<Rightarrow> (i, tid) \<in> parent_tag ` set rows)"

definition surface_row_ok :: "exposure_env \<Rightarrow> monitored_brand list \<Rightarrow> surface_asset list \<Rightarrow> surface_asset \<Rightarrow> bool" where
  "surface_row_ok E bs rows a = (sa_asset_type a \<in> set SURFACE_MVP_TYPES \<and> sa_status a \<in> set SURFACE_STATUS
     \<and> sa_source a \<in> set SURFACE_SOURCES \<and> sa_dedup_key a = surface_dedup_key E (sa_tenant_id a) (sa_asset_type a) (sa_value a)
     \<and> sa_value_hash a = surface_value_hash E (sa_asset_type a) (sa_value a)
     \<and> brand_in bs (sa_tenant_id a) (sa_brand_id a) \<and> parent_in rows (sa_tenant_id a) (sa_parent_id a))"

definition surface_rows_ok :: "exposure_env \<Rightarrow> monitored_brand list \<Rightarrow> surface_asset list \<Rightarrow> bool" where
  "surface_rows_ok E bs rows = (keyed sa_id rows \<and> unique_on (\<lambda>_. True) surface_key rows
     \<and> list_all (surface_row_ok E bs rows) rows)"

text \<open>A row is seen again or edited; a row is added under a key its tenant does not have.\<close>

inductive surface_change ::
  "exposure_env \<Rightarrow> monitored_brand list \<Rightarrow> int \<Rightarrow> surface_asset list \<Rightarrow> surface_asset list \<Rightarrow> bool" for E bs tid where
  change_row: "a \<in> set rows \<Longrightarrow> sa_tenant_id a = tid \<Longrightarrow> stable a' = stable a \<Longrightarrow> sa_status a' \<in> set SURFACE_STATUS
    \<Longrightarrow> surface_change E bs tid rows (upd_row sa_id (sa_id a) (\<lambda>_. a') rows)"
| add_row: "known_surface tid (surface_dedup_key E tid ty v) rows = None \<Longrightarrow> ty \<in> set SURFACE_MVP_TYPES
    \<Longrightarrow> src \<in> set SURFACE_SOURCES \<Longrightarrow> brand_in bs tid b \<Longrightarrow> parent_in rows tid par
    \<Longrightarrow> surface_change E bs tid rows (rows @ [new_surface E now tid b ty v src det par user rows])"

lemma known_surfaceD: "known_surface tid key rows = Some a \<Longrightarrow> a \<in> set rows \<and> sa_tenant_id a = tid \<and> sa_dedup_key a = key"
  unfolding known_surface_def by (drule find_SomeD) simp

lemma known_surface_None: "known_surface tid key rows = None \<longleftrightarrow> (tid, key) \<notin> surface_key ` set rows"
  by (auto simp: known_surface_def find_None_iff surface_key_def)

lemma map_upd_same:
  assumes "keyed sa_id rows" "a \<in> set rows" "f a' = f a"
  shows "map f (upd_row sa_id (sa_id a) (\<lambda>_. a') rows) = map f rows"
proof -
  have "f (if sa_id r = sa_id a then a' else r) = f r" if "r \<in> set rows" for r
    using that assms by (auto simp: keyed_def distinct_map inj_on_def)
  then show ?thesis by (simp add: upd_row_def)
qed

lemma map_factor: "map f xs = map f ys \<Longrightarrow> (\<And>a b. f a = f b \<Longrightarrow> g a = g b) \<Longrightarrow> map g xs = map g ys"
proof -
  assume eq: "map f xs = map f ys" and g: "\<And>a b. f a = f b \<Longrightarrow> g a = g b"
  have len: "length xs = length ys" using map_eq_imp_length_eq[OF eq] .
  show "map g xs = map g ys"
  proof (rule nth_equalityI)
    fix i assume "i < length (map g xs)"
    then show "map g xs ! i = map g ys ! i" using len arg_cong[OF eq, of "\<lambda>l. l ! i"] g[of "xs ! i" "ys ! i"] by simp
  qed (simp add: len)
qed

lemma tag_stable: "stable a = stable b \<Longrightarrow> parent_tag a = parent_tag b"
  using stableD(1,2)[of a b] by (simp add: parent_tag_def)

text \<open>The stable columns of the old rows are a prefix of those of the new ones.\<close>

lemma change_stable:
  assumes "surface_change E bs tid rows rows'" "keyed sa_id rows"
  shows "prefix (map stable rows) (map stable rows')"
  using assms
proof cases
  case (change_row a a')
  then show ?thesis using map_upd_same[OF assms(2), of a stable a'] by simp
qed simp

lemma prefix_image:
  assumes "prefix (map f xs) (map f ys)" "\<And>a b. f a = f b \<Longrightarrow> g a = g b"
  shows "prefix (map g xs) (map g ys)"
proof -
  from assms(1) obtain zs where "map f ys = map f xs @ zs" by (auto simp: prefix_def)
  then obtain us vs where u: "ys = us @ vs" "map f us = map f xs" by (auto simp: map_eq_append_conv)
  from map_factor[OF u(2) assms(2)] u(1) show ?thesis by simp
qed

lemma stable_keys:
  assumes "prefix (map stable rows) (map stable rows')"
  shows "prefix (map surface_key rows) (map surface_key rows')" "parent_tag ` set rows \<subseteq> parent_tag ` set rows'"
proof -
  show "prefix (map surface_key rows) (map surface_key rows')" by (rule prefix_image[OF assms]) (rule stableD)
  have "prefix (map parent_tag rows) (map parent_tag rows')" by (rule prefix_image[OF assms]) (rule tag_stable)
  from set_mono_prefix[OF this] show "parent_tag ` set rows \<subseteq> parent_tag ` set rows'" by simp
qed

lemma parent_in_mono: "parent_in rows t p \<Longrightarrow> parent_tag ` set rows \<subseteq> parent_tag ` set rows' \<Longrightarrow> parent_in rows' t p"
  unfolding parent_in_def by (cases p) (simp, simp only: option.case, erule subsetD[rotated])

lemma row_ok_mono:
  "surface_row_ok E bs rows a \<Longrightarrow> parent_tag ` set rows \<subseteq> parent_tag ` set rows' \<Longrightarrow> surface_row_ok E bs rows' a"
  using parent_in_mono[of rows "sa_tenant_id a" "sa_parent_id a" rows'] by (simp add: surface_row_ok_def)

lemma row_ok_stable:
  "surface_row_ok E bs rows a \<Longrightarrow> stable a' = stable a \<Longrightarrow> sa_status a' \<in> set SURFACE_STATUS \<Longrightarrow> surface_row_ok E bs rows a'"
  using stableD[of a' a] by (simp add: surface_row_ok_def)

lemma change_ok:
  assumes "surface_change E bs tid rows rows'" "surface_rows_ok E bs rows"
  shows "surface_rows_ok E bs rows'"
proof -
  have k: "keyed sa_id rows" using assms(2) by (simp add: surface_rows_ok_def)
  note tags = stable_keys(2)[OF change_stable[OF assms(1) k]]
  show ?thesis
    using assms(1)
  proof cases
    case (change_row a a')
    have "map sa_id rows' = map sa_id rows" "map surface_key rows' = map surface_key rows"
      unfolding change_row(1) by (rule map_upd_same[OF k change_row(2)], rule stableD, rule change_row(4))+
    moreover have "surface_row_ok E bs rows' r" if r: "r \<in> set rows'" for r
    proof -
      have "r \<in> (\<lambda>x. if sa_id x = sa_id a then a' else x) ` set rows" using r unfolding change_row(1) set_upd_row .
      then obtain x where "x \<in> set rows" "r = (if sa_id x = sa_id a then a' else x)" by (rule imageE)
      then have "r \<in> set rows \<or> r = a'" by presburger
      moreover have "surface_row_ok E bs rows a'"
        using assms(2) change_row(2) row_ok_stable[OF _ change_row(4,5)] by (simp add: surface_rows_ok_def list_all_iff)
      moreover have "list_all (surface_row_ok E bs rows) rows" using assms(2) by (simp add: surface_rows_ok_def)
      ultimately have "surface_row_ok E bs rows r" unfolding list_all_iff by metis
      then show ?thesis using row_ok_mono tags by blast
    qed
    ultimately show ?thesis using assms(2) by (simp add: surface_rows_ok_def keyed_def unique_on_def list_all_iff)
  next
    case (add_row ty v src b par now det user)
    let ?a = "new_surface E now tid b ty v src det par user rows"
    have "keyed sa_id rows'" unfolding add_row(1) by (rule keyed_append[OF k]) (simp add: new_surface_def)
    moreover have "unique_on (\<lambda>_. True) surface_key rows'"
      unfolding add_row(1)
      by (rule unique_on_append) (use assms(2) add_row(2) in \<open>simp_all add: surface_rows_ok_def violates_def known_surface_None
          surface_key_def new_surface_def\<close>)
    moreover have "surface_row_ok E bs rows ?a"
      using add_row(3-6) by (simp add: surface_row_ok_def new_surface_def SURFACE_STATUS_def)
    then have "list_all (surface_row_ok E bs rows) rows'"
      unfolding add_row(1) using assms(2) by (simp add: surface_rows_ok_def)
    then have "list_all (surface_row_ok E bs rows') rows'" using row_ok_mono tags by (auto simp: list_all_iff)
    ultimately show ?thesis by (simp add: surface_rows_ok_def)
  qed
qed

lemma change_foreign:
  assumes "surface_change E bs tid rows rows'" "keyed sa_id rows"
  shows "filter (\<lambda>a. sa_tenant_id a \<noteq> tid) rows' = filter (\<lambda>a. sa_tenant_id a \<noteq> tid) rows"
  using assms(1)
proof cases
  case (change_row a a')
  have "sa_tenant_id r = tid" if "r \<in> set rows" "sa_id r = sa_id a" for r
    using that change_row(2,3) assms(2) by (auto simp: keyed_def distinct_map inj_on_def)
  then show ?thesis unfolding change_row(1) using stableD(2)[OF change_row(4)] change_row(3)
    by (intro filter_upd_row) simp
qed (simp add: new_surface_def)

interpretation surface_rows: preserved "surface_change E bs tid" "surface_rows_ok E bs" for E bs tid
  by unfold_locales (rule change_ok)

lemma changes_keep:
  assumes "(surface_change E bs tid)\<^sup>*\<^sup>* rows rows'" "surface_rows_ok E bs rows"
  shows "surface_rows_ok E bs rows' \<and> prefix (map stable rows) (map stable rows')
    \<and> filter (\<lambda>a. sa_tenant_id a \<noteq> tid) rows' = filter (\<lambda>a. sa_tenant_id a \<noteq> tid) rows"
  using assms
proof (induction rule: rtranclp_induct)
  case (step r1 r2)
  then have ok: "surface_rows_ok E bs r1" by blast
  then have k: "keyed sa_id r1" by (simp add: surface_rows_ok_def)
  from step change_ok[OF step(2) ok] change_stable[OF step(2) k] change_foreign[OF step(2) k] prefix_order.trans
  show ?case by simp blast
qed simp

section \<open>Discovery\<close>

text \<open>What one sighting of a value is known by, and the sightings of a discovery in their order.\<close>

definition sighting_key :: "exposure_env \<Rightarrow> int \<Rightarrow> string \<times> string \<Rightarrow> int \<times> string" where
  "sighting_key E tid v = (tid, surface_dedup_key E tid (fst v) (snd v))"

definition cert_sightings :: "network \<Rightarrow> string \<Rightarrow> (string \<times> string) list" where
  "cert_sightings nw domain = (case cert_info nw domain of None \<Rightarrow> []
     | Some ci \<Rightarrow> [(''certificate'', py_str (jor (jget ci ''serial'') (JStr (''cert:'' @ domain))))])"

definition sub_sightings :: "network \<Rightarrow> string \<Rightarrow> string \<Rightarrow> (string \<times> string) list" where
  "sub_sightings nw domain sub = (''subdomain'', sub) # map (Pair ''ip'') (resolve_ips nw sub)
     @ (if sub = domain then cert_sightings nw domain else [])"

definition brand_sightings :: "network \<Rightarrow> nat \<Rightarrow> monitored_brand \<Rightarrow> (string \<times> string) list" where
  "brand_sightings nw limit b =
     concat (map (\<lambda>domain. concat (map (sub_sightings nw domain) (subdomains_of nw limit domain))) (domain_list b))"

text \<open>A state reached from another by these sightings.\<close>

definition ran ::
  "exposure_env \<Rightarrow> monitored_brand list \<Rightarrow> int \<Rightarrow> (string \<times> string) list \<Rightarrow> discovering \<Rightarrow> discovering \<Rightarrow> bool" where
  "ran E bs tid vs s s' = ((surface_change E bs tid)\<^sup>*\<^sup>* (snd s) (snd s')
     \<and> dc_created (fst s') + dc_deduped (fst s') = dc_created (fst s) + dc_deduped (fst s) + int (length vs)
     \<and> dc_created (fst s') - dc_created (fst s) = int (length (snd s')) - int (length (snd s))
     \<and> surface_key ` set (snd s') = surface_key ` set (snd s) \<union> set (map (sighting_key E tid) vs))"

lemma ran_refl: "ran E bs tid [] s s"
  by (simp add: ran_def)

lemma ran_trans:
  assumes "ran E bs tid vs s s1" "ran E bs tid ws s1 s2"
  shows "ran E bs tid (vs @ ws) s s2"
proof -
  have "(surface_change E bs tid)\<^sup>*\<^sup>* (snd s) (snd s2)"
    using assms rtranclp_trans[of "surface_change E bs tid" "snd s" "snd s1" "snd s2"] by (simp add: ran_def)
  with assms show ?thesis by (simp add: ran_def Un_assoc)
qed

lemma ran_keeps:
  assumes "ran E bs tid vs s s'" "surface_rows_ok E bs (snd s)"
  shows "surface_rows_ok E bs (snd s')" "prefix (map stable (snd s)) (map stable (snd s'))"
    "parent_tag ` set (snd s) \<subseteq> parent_tag ` set (snd s')"
proof -
  from assms(1) have "(surface_change E bs tid)\<^sup>*\<^sup>* (snd s) (snd s')" by (simp add: ran_def)
  note k = changes_keep[OF this assms(2)]
  then show "surface_rows_ok E bs (snd s')" "prefix (map stable (snd s)) (map stable (snd s'))" by simp_all
  from stable_keys(2)[OF this(2)] show "parent_tag ` set (snd s) \<subseteq> parent_tag ` set (snd s')" .
qed

lemma ran_fold:
  assumes "\<And>x s. x \<in> set xs \<Longrightarrow> surface_rows_ok E bs (snd s) \<Longrightarrow> parent_in (snd s) tid par \<Longrightarrow> ran E bs tid (f x) s (g x s)"
    "surface_rows_ok E bs (snd s)" "parent_in (snd s) tid par"
  shows "ran E bs tid (concat (map f xs)) s (fold g xs s)"
  using assms
proof (induction xs arbitrary: s)
  case Nil
  then show ?case by (simp add: ran_refl)
next
  case (Cons x xs)
  have 1: "ran E bs tid (f x) s (g x s)" using Cons.prems by simp
  note k = ran_keeps[OF 1 Cons.prems(2)]
  have "ran E bs tid (concat (map f xs)) (g x s) (fold g xs (g x s))"
    using Cons.prems(1) k(1) parent_in_mono[OF Cons.prems(3) k(3)] by (intro Cons.IH) simp_all
  from ran_trans[OF 1 this] show ?case by simp
qed

lemma upsert_change:
  assumes "upsert E now tid bid ty v src det par rows = (a, is_new, rows')" "surface_rows_ok E bs rows"
    "ty \<in> set SURFACE_MVP_TYPES" "src \<in> set SURFACE_SOURCES" "brand_in bs tid (Some bid)" "parent_in rows tid par"
  shows "surface_change E bs tid rows rows' \<and> (sa_id a, tid) \<in> parent_tag ` set rows'
    \<and> length rows' = length rows + (if is_new then 1 else 0)
    \<and> surface_key ` set rows' = insert (sighting_key E tid (ty, v)) (surface_key ` set rows)"
proof (cases "known_surface tid (surface_dedup_key E tid ty v) rows")
  case None
  let ?a = "new_surface E now tid (Some bid) ty v src det par None rows"
  have r: "a = ?a" "is_new" "rows' = rows @ [?a]" using assms(1) None by (auto simp: upsert_def Let_def)
  have "surface_change E bs tid rows rows'" unfolding r(3) using None assms(3-6) by (rule add_row)
  moreover have "parent_tag ?a = (sa_id a, tid)" "surface_key ?a = sighting_key E tid (ty, v)"
    using r(1) by (simp_all add: parent_tag_def surface_key_def sighting_key_def new_surface_def)
  ultimately show ?thesis using r(2,3) by simp
next
  case (Some b)
  let ?a = "b\<lparr>sa_last_seen := now, sa_detail := (if det \<noteq> [] then dict_merge (sa_detail b) det else sa_detail b)\<rparr>"
  have r: "a = ?a" "\<not> is_new" "rows' = upd_row sa_id (sa_id b) (\<lambda>_. ?a) rows" using assms(1) Some by (auto simp: upsert_def Let_def)
  from known_surfaceD[OF Some] have b: "b \<in> set rows" "sa_tenant_id b = tid" "sa_dedup_key b = surface_dedup_key E tid ty v" by simp_all
  have st: "stable ?a = stable b" by (simp add: stable_def)
  have "sa_status b \<in> set SURFACE_STATUS" using assms(2) b(1) by (simp add: surface_rows_ok_def surface_row_ok_def list_all_iff)
  then have c: "surface_change E bs tid rows rows'" unfolding r(3) using b(1,2) st by (intro change_row) simp_all
  have k: "keyed sa_id rows" using assms(2) by (simp add: surface_rows_ok_def)
  have "map surface_key rows' = map surface_key rows"
    unfolding r(3) by (rule map_upd_same[OF k b(1)]) (rule stableD(3)[OF st])
  then have keys: "surface_key ` set rows' = surface_key ` set rows" using list.set_map by metis
  have "surface_key b = sighting_key E tid (ty, v)" using b by (simp add: surface_key_def sighting_key_def)
  then have "sighting_key E tid (ty, v) \<in> surface_key ` set rows" using b(1) by (metis image_eqI)
  moreover have "parent_tag b \<in> parent_tag ` set rows" using b(1) by simp
  then have "(sa_id a, tid) \<in> parent_tag ` set rows'"
    using stable_keys(2)[OF change_stable[OF c k]] b(2) r(1) by (auto simp: parent_tag_def)
  ultimately show ?thesis using c keys r(2,3) by (simp add: insert_absorb)
qed

lemma found_ran:
  assumes "found E now tid bid ty v src det par s = (a, s')" "surface_rows_ok E bs (snd s)"
    "ty \<in> set SURFACE_MVP_TYPES" "src \<in> set SURFACE_SOURCES" "brand_in bs tid (Some bid)" "parent_in (snd s) tid par"
  shows "ran E bs tid [(ty, v)] s s' \<and> parent_in (snd s') tid (Some (sa_id a))"
proof -
  obtain a' is_new rows' where u: "upsert E now tid bid ty v src det par (snd s) = (a', is_new, rows')" by (metis prod_cases3)
  have s: "a = a'" "s' = (tally_found ty is_new (fst s), rows')" using assms(1) u by (simp_all add: found_def)
  from upsert_change[OF u assms(2-6)] show ?thesis
    unfolding s by (auto simp: ran_def tally_found_def Let_def parent_in_def)
qed

lemmas kinds = SURFACE_MVP_TYPES_def SURFACE_SOURCES_def

lemma discover_ip_ran:
  assumes "surface_rows_ok E bs (snd s)" "brand_in bs tid (Some bid)" "parent_in (snd s) tid (Some par)"
  shows "ran E bs tid [(''ip'', ip)] s (discover_ip E now tid bid sub par ip s)"
proof -
  obtain a s' where f: "found E now tid bid ''ip'' ip ''dns'' [(''host'', JStr sub)] (Some par) s = (a, s')" by (metis surj_pair)
  from found_ran[OF f assms(1) _ _ assms(2,3)] show ?thesis by (simp add: discover_ip_def f kinds)
qed

lemma discover_cert_ran:
  assumes "surface_rows_ok E bs (snd s)" "brand_in bs tid (Some bid)" "parent_in (snd s) tid (Some par)"
  shows "ran E bs tid (cert_sightings nw domain) s (discover_cert E nw now tid bid domain par s)"
proof (cases "cert_info nw domain")
  case None
  then show ?thesis by (simp add: cert_sightings_def discover_cert_def ran_refl)
next
  case (Some ci)
  define v where "v = py_str (jor (jget ci ''serial'') (JStr (''cert:'' @ domain)))"
  obtain a s' where f: "found E now tid bid ''certificate'' v ''tls'' ci (Some par) s = (a, s')" by (metis surj_pair)
  have "cert_sightings nw domain = [(''certificate'', v)]" "discover_cert E nw now tid bid domain par s = s'"
    unfolding cert_sightings_def discover_cert_def Some option.case v_def[symmetric] f by simp_all
  with found_ran[OF f assms(1) _ _ assms(2,3)] show ?thesis by (simp add: kinds)
qed

lemma discover_sub_ran:
  assumes "surface_rows_ok E bs (snd s)" "brand_in bs tid (Some bid)"
  shows "ran E bs tid (sub_sightings nw domain sub) s (discover_sub E nw now tid bid domain rdap sub s)"
proof -
  obtain a s1 where f: "found E now tid bid ''subdomain'' sub ''ct_log'' (sub_detail domain rdap sub) None s = (a, s1)"
    by (metis surj_pair)
  from found_ran[OF f assms(1) _ _ assms(2)] have 1: "ran E bs tid [(''subdomain'', sub)] s s1" "parent_in (snd s1) tid (Some (sa_id a))"
    by (simp_all add: kinds parent_in_def)
  let ?s2 = "fold (discover_ip E now tid bid sub (sa_id a)) (resolve_ips nw sub) s1"
  have ok1: "surface_rows_ok E bs (snd s1)" by (rule ran_keeps(1)[OF 1(1) assms(1)])
  have "ran E bs tid (concat (map (\<lambda>ip. [(''ip'', ip)]) (resolve_ips nw sub))) s1 ?s2"
    by (rule ran_fold[OF _ ok1 1(2)]) (rule discover_ip_ran[OF _ assms(2)])
  moreover have "concat (map (\<lambda>ip. [(''ip'', ip)]) xs) = map (Pair ''ip'') xs" for xs :: "string list" by (induction xs) simp_all
  ultimately have 2: "ran E bs tid (map (Pair ''ip'') (resolve_ips nw sub)) s1 ?s2" by simp
  note k = ran_keeps[OF 2 ok1]
  have "ran E bs tid (if sub = domain then cert_sightings nw domain else []) ?s2
      (if sub = domain then discover_cert E nw now tid bid domain (sa_id a) ?s2 else ?s2)"
    using discover_cert_ran[OF k(1) assms(2) parent_in_mono[OF 1(2) k(3)], of nw domain now]
      ran_refl[of E bs tid ?s2] by (cases "sub = domain") (simp_all only: if_True if_False refl)
  from ran_trans[OF ran_trans[OF 1(1) 2] this] show ?thesis
    unfolding sub_sightings_def discover_sub_def f by (simp add: Let_def split del: if_split)
qed

lemma discover_brand_ran:
  assumes "surface_rows_ok E bs rows" "brand_in bs tid (Some (br_id b))"
  shows "ran E bs tid (brand_sightings nw limit b) (no_discovery, rows) (discover_brand E nw limit now tid b rows)"
  unfolding brand_sightings_def discover_brand_def
proof (rule ran_fold[where par = None])
  fix domain :: string and s :: discovering
  assume ok: "surface_rows_ok E bs (snd s)"
  show "ran E bs tid (concat (map (sub_sightings nw domain) (subdomains_of nw limit domain))) s
      (discover_domain E nw limit now tid (br_id b) domain s)"
    unfolding discover_domain_def
    by (rule ran_fold[OF _ ok, where par = None]) (rule discover_sub_ran[OF _ assms(2)], simp_all add: parent_in_def)
qed (simp_all add: assms(1) parent_in_def)

end
