(* ===== verification/ExposureSightings.thy ===== *)
theory ExposureSightings
  imports ExposureSteps
begin

text \<open>
  The findings as an abstract counter of sightings, and the import as a sequence of them.
\<close>

section \<open>Sightings\<close>

text \<open>
  The abstract view of the findings: how often each key was seen. Seeing a key counts it up, or
  enters it with its first count (one, unless the record itself carries a counter).
\<close>

definition sight_count :: "json dict \<Rightarrow> int" where
  "sight_count detail = (case map_of detail ''sightings'' of None \<Rightarrow> 1
     | Some v \<Rightarrow> (case py_int v of Inl e \<Rightarrow> 0 | Inr n \<Rightarrow> n))"

definition sight_map :: "finding list \<Rightarrow> (int \<times> string) \<Rightarrow> int option" where
  "sight_map rows = map_of (map (\<lambda>f. (exposure_key f, sight_count (fd_detail f))) rows)"

fun sight :: "(int \<times> string) \<times> int \<Rightarrow> ((int \<times> string) \<Rightarrow> int option) \<Rightarrow> (int \<times> string) \<Rightarrow> int option" where
  "sight (k, first) m = m(k \<mapsto> (case m k of None \<Rightarrow> first | Some n \<Rightarrow> n + 1))"

definition detail_of :: "exposure_env \<Rightarrow> json dict \<Rightarrow> json dict" where
  "detail_of E rec = redact_detail (en_hash E) (jor (jget rec ''detail'') (JObj []))"

definition sighting :: "exposure_env \<Rightarrow> int \<Rightarrow> string \<Rightarrow> json dict \<Rightarrow> (int \<times> string) \<times> int" where
  "sighting E tid etype rec =
     ((tid, dedup_key (en_hash E) tid etype (detail_of E rec)), sight_count (detail_of E rec))"

definition record_sightings :: "exposure_env \<Rightarrow> int \<Rightarrow> json dict \<Rightarrow> ((int \<times> string) \<times> int) list" where
  "record_sightings E tid rec = (if truthy (jget rec ''_error'') then []
     else case mvp_type rec of None \<Rightarrow> [] | Some etype \<Rightarrow> [sighting E tid etype rec])"

text \<open>A flush changes keys of rows only.\<close>

definition view :: "finding list \<Rightarrow> ((int \<times> string) \<times> json dict) list" where
  "view rows = map (\<lambda>f. (exposure_key f, fd_detail f)) rows"

lemma view_sight_map: "view rows = view rows' \<Longrightarrow> sight_map rows = sight_map rows'"
proof -
  have "sight_map rows = map_of (map (\<lambda>(k, d). (k, sight_count d)) (view rows))" for rows
    by (simp add: sight_map_def view_def comp_def)
  then show "view rows = view rows' \<Longrightarrow> ?thesis" by simp
qed

lemma flush_findings_view: "flush_findings assets rows fs = Inr rows' \<Longrightarrow> view rows' = view (rows @ fs)"
  by (induction assets rows fs rule: flush_findings.induct)
    (auto simp: Let_def view_def exposure_key_def split: if_splits)

lemma flush_session_view: "flush_session s = Inr s' \<Longrightarrow> view (all_rows s') = view (all_rows s)"
  by (auto simp: flush_session_def all_rows_def dest: flush_findings_view)

lemma with_dossier_findings [simp]: "xd_findings (with_dossier E now p tid email f outcome d) = xd_findings d"
  by (simp add: with_dossier_def Let_def split: prod.splits)

lemma update_identity_view: "update_identity E now p tid f outcome s = Inr s' \<Longrightarrow> view (all_rows s') = view (all_rows s)"
  by (auto simp: update_identity_def Let_def all_rows_def dest!: flush_session_view split: if_splits)

lemma maybe_identity_view:
  "(if b then update_identity E now p tid f outcome s else Inr s) = Inr s' \<Longrightarrow> view (all_rows s') = view (all_rows s)"
  using update_identity_view by (cases b) auto

lemma sight_count_risk [simp]: "sight_count (fd_detail (apply_risk E now d tid f)) = sight_count (fd_detail f)"
  by (simp add: apply_risk_def Let_def sight_count_def update_conv)

lemma sight_count_set: "sight_count (AList.update ''sightings'' (JInt m) d) = m"
  by (simp add: sight_count_def update_conv)

lemma sighted_count:
  assumes "sighted E now d tid f = Inr g"
  shows "sight_count (fd_detail g) = sight_count (fd_detail f) + 1"
proof -
  from assms obtain n where n: "py_int (case map_of (fd_detail f) ''sightings'' of None \<Rightarrow> JInt 1 | Some v \<Rightarrow> v) = Inr n"
    and g: "g = apply_risk E now d tid (f\<lparr>fd_last_seen := now,
      fd_detail := AList.update ''sightings'' (JInt (n + 1)) (fd_detail f)\<rparr>)" unfolding sighted_def by auto
  from n have "sight_count (fd_detail f) = n" by (simp add: sight_count_def split: option.splits)
  then show ?thesis by (simp add: g sight_count_set)
qed

lemma sight_map_replace:
  assumes "keyed fd_id rows" "f \<in> set rows" "distinct (map exposure_key (rows @ qs))" "exposure_key g = exposure_key f"
  shows "sight_map (upd_row fd_id (fd_id f) (\<lambda>_. g) rows @ qs)
    = (sight_map (rows @ qs))(exposure_key f \<mapsto> sight_count (fd_detail g))"
    and "sight_map (rows @ qs) (exposure_key f) = Some (sight_count (fd_detail f))"
proof -
  obtain xs ys where rows: "rows = xs @ f # ys" using assms(2) by (meson split_list)
  have "fd_id f \<notin> fd_id ` set (xs @ ys)" using assms(1) unfolding rows keyed_def by auto
  then have other: "\<forall>x \<in> set xs \<union> set ys. fd_id x \<noteq> fd_id f" by (metis imageI set_append)
  then have upd: "upd_row fd_id (fd_id f) (\<lambda>_. g) rows = xs @ g # ys"
    unfolding rows upd_row_def by (simp add: map_idI)
  have new: "exposure_key f \<notin> exposure_key ` set xs" using assms(3) unfolding rows by auto
  then have none: "map_of (map (\<lambda>f. (exposure_key f, sight_count (fd_detail f))) xs) (exposure_key f) = None"
    by (simp add: map_of_eq_None_iff image_image)
  show "sight_map (upd_row fd_id (fd_id f) (\<lambda>_. g) rows @ qs)
    = (sight_map (rows @ qs))(exposure_key f \<mapsto> sight_count (fd_detail g))"
    unfolding upd using none unfolding rows sight_map_def
    by (intro ext) (auto simp: assms(4) map_add_def split: option.splits)
  show "sight_map (rows @ qs) (exposure_key f) = Some (sight_count (fd_detail f))"
    using none unfolding rows sight_map_def by (simp add: map_add_def)
qed

lemma sight_map_new:
  assumes "distinct (map exposure_key (rows @ [g]))"
  shows "sight_map (rows @ [g]) = (sight_map rows)(exposure_key g \<mapsto> sight_count (fd_detail g))"
    and "sight_map rows (exposure_key g) = None"
proof -
  have new: "exposure_key g \<notin> exposure_key ` set rows" using assms by auto
  then show none: "sight_map rows (exposure_key g) = None"
    by (simp add: sight_map_def map_of_eq_None_iff image_image)
  have "map_of (map h xs @ [(k, v)]) = (map_of (map h xs))(k \<mapsto> v)" if "map_of (map h xs) k = None" for h xs k v
    using that by (intro ext) (auto simp: map_add_def split: option.splits)
  with none show "sight_map (rows @ [g]) = (sight_map rows)(exposure_key g \<mapsto> sight_count (fd_detail g))"
    by (simp add: sight_map_def)
qed

lemma view_keys: "view rows = view rows' \<Longrightarrow> map exposure_key rows = map exposure_key rows'"
proof -
  have "map exposure_key rows = map fst (view rows)" for rows by (simp add: view_def comp_def)
  then show "view rows = view rows' \<Longrightarrow> ?thesis" by simp
qed

text \<open>Persisting a record is one sighting of its key.\<close>

lemma persist_sighting:
  assumes "persist_record E now p tid source ingest etype observed rec s = Inr (outcome, f, s')" "xgood tid s"
    "distinct (map exposure_key (all_rows s'))"
  shows "sight_map (all_rows s') = sight (sighting E tid etype rec) (sight_map (all_rows s))"
proof -
  define detail where "detail = detail_of E rec"
  define key where "key = dedup_key (en_hash E) tid etype detail"
  have sg: "sighting E tid etype rec = ((tid, key), sight_count detail)" by (simp add: sighting_def detail_def key_def)
  note fold_detail = detail_of_def[symmetric] detail_def[symmetric] key_def[symmetric]
  show ?thesis
  proof (cases "known_exposure tid key (xd_findings (xs_db s))")
    case (Some h)
    note h = known_exposureD[OF Some]
    define s1 where "s1 g = s\<lparr>xs_db := (xs_db s)\<lparr>xd_findings := upd_row fd_id (fd_id h) (\<lambda>_. g) (xd_findings (xs_db s))\<rparr>\<rparr>" for g
    from assms(1) Some obtain g where g: "sighted E now (xs_db s) tid h = Inr g"
      and run: "(if etype = ''credential_exposure'' then update_identity E now p tid g ''deduped'' (s1 g) else Inr (s1 g)) = Inr s'"
      unfolding persist_record_def Let_def fold_detail s1_def by auto
    have kept: "xkept tid h g" using sightedD[OF g] h by blast
    then have k: "exposure_key g = exposure_key h" by (auto simp: xkept_def)
    have kh: "exposure_key h = (tid, key)" using h by (simp add: exposure_key_def)
    have v: "view (all_rows s') = view (all_rows (s1 g))" by (rule maybe_identity_view[OF run])
    have "keyed fd_id (xd_findings (xs_db s))" using assms(2) by (simp add: xgood_def)
    note kd = this conjunct1[OF h]
    have "map exposure_key (upd_row fd_id (fd_id h) (\<lambda>_. g) (xd_findings (xs_db s))) = map exposure_key (xd_findings (xs_db s))"
      by (rule xkept_keys[OF upd_row_xkept[OF kd kept]])
    then have "map exposure_key (all_rows (s1 g)) = map exposure_key (all_rows s)" by (simp add: all_rows_def s1_def)
    with view_keys[OF v] have "map exposure_key (all_rows s') = map exposure_key (all_rows s)" by (rule trans)
    with assms(3) have d: "distinct (map exposure_key (xd_findings (xs_db s) @ xs_pending s))"
      unfolding all_rows_def[of s] by metis
    have "sight_map (all_rows (s1 g)) = (sight_map (all_rows s))((tid, key) \<mapsto> sight_count (fd_detail h) + 1)"
      using sight_map_replace(1)[OF kd d k] sighted_count[OF g] by (simp add: all_rows_def s1_def kh)
    moreover have "sight_map (all_rows s) (tid, key) = Some (sight_count (fd_detail h))"
      using sight_map_replace(2)[OF kd d k] by (simp add: all_rows_def kh)
    ultimately show ?thesis using view_sight_map[OF v] by (simp add: sg)
  next
    case None
    define s1 where "s1 g = s\<lparr>xs_pending := xs_pending s @ [g]\<rparr>" for g
    from assms(1) None obtain g0 obs where g0: "new_exposure E now p tid source etype ingest rec detail obs = Inr g0"
      and run: "(if etype = ''credential_exposure'' then update_identity E now p tid (apply_risk E now (xs_db s) tid g0) ''created''
          (s1 (apply_risk E now (xs_db s) tid g0)) else Inr (s1 (apply_risk E now (xs_db s) tid g0))) = Inr s'"
      unfolding persist_record_def Let_def fold_detail s1_def by auto
    define g where "g = apply_risk E now (xs_db s) tid g0"
    note n = new_exposureD[OF g0]
    have kg: "exposure_key g = (tid, key)" "sight_count (fd_detail g) = sight_count detail"
      using n by (simp_all add: g_def exposure_key_def key_def)
    have v: "view (all_rows s') = view (all_rows (s1 g))" unfolding g_def by (rule maybe_identity_view[OF run])
    have "all_rows (s1 g) = all_rows s @ [g]" by (simp add: all_rows_def s1_def)
    moreover from this have d: "distinct (map exposure_key (all_rows s @ [g]))" using assms(3) view_keys[OF v] by simp
    ultimately show ?thesis using sight_map_new[OF d] view_sight_map[OF v] by (simp add: sg kg)
  qed
qed

lemma xstep_keys: "xstep tid s new s' \<Longrightarrow> map exposure_key (all_rows s') = map exposure_key (all_rows s @ new)"
  by (rule xkept_keys[of tid]) (simp add: xstep_def)

lemma xstep_distinct_back:
  "xstep tid s new s' \<Longrightarrow> distinct (map exposure_key (all_rows s')) \<Longrightarrow> distinct (map exposure_key (all_rows s))"
  unfolding xstep_keys by simp

lemma import_record_sighting:
  assumes "import_record E now p tid batch rec (c, s) = Inr (c', s')" "xgood tid s"
    "distinct (map exposure_key (all_rows s'))"
  shows "sight_map (all_rows s') = fold sight (record_sightings E tid rec) (sight_map (all_rows s))"
proof (cases "truthy (jget rec ''_error'') \<or> mvp_type rec = None")
  case True
  with assms(1) have "s' = s" "record_sightings E tid rec = []"
    by (auto simp: import_record_def record_sightings_def split: if_splits)
  then show ?thesis by simp
next
  case False
  then obtain etype where "mvp_type rec = Some etype" by auto
  with False assms(1) obtain outcome f where run:
    "persist_record E now p tid ''file_import'' (Some batch) etype (en_time E (jget rec ''observed_at'')) rec s = Inr (outcome, f, s')"
    "record_sightings E tid rec = [sighting E tid etype rec]"
    by (auto simp: import_record_def record_sightings_def)
  from persist_sighting[OF run(1) assms(2,3)] run(2) show ?thesis by simp
qed

lemma import_records_sightings:
  assumes "import_records E now p tid batch recs (c, s) = Inr (c', s')" "xgood tid s"
    "distinct (map exposure_key (all_rows s'))"
  shows "sight_map (all_rows s') = fold sight (concat (map (record_sightings E tid) recs)) (sight_map (all_rows s))"
  using assms
proof (induction recs arbitrary: c s)
  case (Cons r rs)
  from Cons(2) obtain c1 s1 where one: "import_record E now p tid batch r (c, s) = Inr (c1, s1)"
    and rest: "import_records E now p tid batch rs (c1, s1) = Inr (c', s')" by auto
  from import_record_step[OF one Cons(3)] obtain new where "xstep tid s new s1" by blast
  then have good: "xgood tid s1" by (simp add: xstep_def)
  from import_records_step[OF rest good] obtain new' where "xstep tid s1 new' s'" by blast
  from xstep_distinct_back[OF this Cons(4)] have "distinct (map exposure_key (all_rows s1))" .
  from import_record_sighting[OF one Cons(3) this] Cons(1)[OF rest good Cons(4)] show ?case by simp
qed simp

text \<open>The run of a successful import.\<close>

lemma importE:
  assumes "import_file E mb now p tid request parser up d = Inr (b, d')" "exposure_inv d"
  obtains batch c s d0 d1 where
    "import_records E now p tid batch (fst (run_parser (en_hash E) (en_loads E) parser (up_text up)))
       (zero_counts, \<lparr>xs_db = d0, xs_pending = []\<rparr>) = Inr (c, s)"
    "commit_session s = Inr d1" "xd_findings d1 = xd_findings d'" "xd_findings d0 = xd_findings d"
    "xgood tid \<lparr>xs_db = d0, xs_pending = []\<rparr>"
proof -
  define batch where "batch = new_batch now p tid parser up d"
  define d0 where "d0 = d\<lparr>xd_batches := xd_batches d @ [batch]\<rparr>"
  obtain recs raised where parsed: "run_parser (en_hash E) (en_loads E) parser (up_text up) = (recs, raised)" by fastforce
  from assms(1) obtain c s d1 where run:
    "import_records E now p tid batch recs (zero_counts, \<lparr>xs_db = d0, xs_pending = []\<rparr>) = Inr (c, s)"
    "commit_session s = Inr d1" "xd_findings d1 = xd_findings d'"
    unfolding import_file_def parsed batch_def[symmetric] d0_def[symmetric]
    by (auto simp: Let_def batch_def d0_def split: if_splits option.splits)
  moreover have "xgood tid \<lparr>xs_db = d0, xs_pending = []\<rparr>" using inv_xgood[OF assms(2)] by (simp add: xgood_def d0_def)
  moreover have "xd_findings d0 = xd_findings d" by (simp add: d0_def)
  ultimately show thesis using that[of batch d0 c s d1] parsed by simp
qed

lemma import_sightings:
  assumes "import_file E mb now p tid request parser up d = Inr (b, d')" "exposure_inv d"
  shows "sight_map (xd_findings d') = fold sight
    (concat (map (record_sightings E tid) (fst (run_parser (en_hash E) (en_loads E) parser (up_text up))))) (sight_map (xd_findings d))"
proof -
  from importE[OF assms] obtain batch c s d0 d1 where run:
    "import_records E now p tid batch (fst (run_parser (en_hash E) (en_loads E) parser (up_text up)))
       (zero_counts, \<lparr>xs_db = d0, xs_pending = []\<rparr>) = Inr (c, s)"
    "commit_session s = Inr d1" "xd_findings d1 = xd_findings d'" "xd_findings d0 = xd_findings d"
    "xgood tid \<lparr>xs_db = d0, xs_pending = []\<rparr>" .
  from run(2) obtain s' where s': "flush_session s = Inr s'" "d1 = xs_db s'" "xs_pending s' = []"
    by (auto simp: commit_session_def flush_session_def)
  have v: "view (xd_findings d') = view (all_rows s)"
    using flush_session_view[OF s'(1)] s' run(3) by (simp add: all_rows_def)
  from import_records_step[OF run(1,5)] obtain new where "xstep tid \<lparr>xs_db = d0, xs_pending = []\<rparr> new s" by blast
  then have "xgood tid s" by (simp add: xstep_def)
  from flush_step[OF s'(1) this] have "distinct (map exposure_key (all_rows s'))"
    by (simp add: xstep_def xgood_def all_rows_def unique_on_def)
  then have "distinct (map exposure_key (all_rows s))" using view_keys[OF flush_session_view[OF s'(1)]] by simp
  from import_records_sightings[OF run(1,5) this] run(4) view_sight_map[OF v] show ?thesis
    by (simp add: all_rows_def)
qed

end
