(* ===== verification/ExposureProps.thy ===== *)
theory ExposureProps
  imports ExposureSightings
begin

text \<open>
  The properties of the exposure component: the tables, the tenants, and what an import does.
\<close>

section \<open>A concrete session\<close>

definition demo_exposure_env :: exposure_env where
  "demo_exposure_env = \<lparr>rk_points = (\<lambda>l i. i div 10), rk_age = (\<lambda>a. ''0d''), en_hash = (\<lambda>s. s),
     en_loads = (\<lambda>s. Inl s), en_text = (\<lambda>v. case v of JStr s \<Rightarrow> Inr s | _ \<Rightarrow> Inl OperationalError),
     en_int = (\<lambda>v. case v of JNull \<Rightarrow> Inr None | JInt i \<Rightarrow> Inr (Some i) | _ \<Rightarrow> Inl OperationalError),
     en_time = (\<lambda>v. case v of JNull \<Rightarrow> Inr None | JInt i \<Rightarrow> Inr (Some i) | _ \<Rightarrow> Inl OperationalError)\<rparr>"

definition empty_exposures :: exposure_db where
  "empty_exposures = \<lparr>xd_findings = [], xd_batches = [], xd_identities = [], xd_assets = [], xd_audit = []\<rparr>"

definition demo_upload :: "string \<Rightarrow> upload" where
  "demo_upload text = \<lparr>up_content_type = ''text/plain'', up_size = int (length text), up_hash = text, up_text = text,
     up_filename = ''a.txt''\<rparr>"

definition demo_analyst :: principal where
  "demo_analyst = \<lparr>pr_subject = ''a'', pr_role = ''analyst'', pr_kind = ''user'', pr_is_operator = False,
     pr_operator_role = None, pr_tenant_id = Some 1, pr_user_id = Some 3\<rparr>"

text \<open>A combo list with one leak, seen twice.\<close>

definition demo_combo :: string where
  "demo_combo = ''bob@x.io:pw1'' @ [CHR 0x0A] @ ''nobody'' @ [CHR 0x0A] @ ''Bob@x.io:PW1''"

definition demo_import :: "(ingest_batch \<times> exposure_db) res" where
  "demo_import = import_file demo_exposure_env 1000 5 demo_analyst 1 None ''combolist'' (demo_upload demo_combo) empty_exposures"

lemma demo_import_ok: "case demo_import of Inl _ \<Rightarrow> False | Inr _ \<Rightarrow> True"
  by code_simp

lemma demo_importE: obtains b d where "import_file demo_exposure_env 1000 5 demo_analyst 1 None ''combolist''
    (demo_upload demo_combo) empty_exposures = Inr (b, d)" "demo_import = Inr (b, d)"
proof -
  obtain r where r: "demo_import = Inr r"
  proof (cases demo_import)
    case (Inl e)
    from demo_import_ok[unfolded Inl] show thesis by simp
  qed
  obtain b d where "r = (b, d)" by (cases r)
  with r show thesis using that by (simp add: demo_import_def)
qed

lemma empty_exposures_inv: "exposure_inv empty_exposures"
  by (simp add: exposure_inv_def empty_exposures_def keyed_def unique_on_def)

section \<open>The tables\<close>

interpretation exposure_machine: preserved "\<lambda>d d'. \<exists>tid. exposure_step E mb tid d d'" exposure_inv for E mb
  by unfold_locales (blast intro: exposure_step_inv)



text \<open>C16 A successful exposure request of a tenant changes no finding, batch, dossier or asset of another tenant, except that
  deleting an asset clears the references that other tenants' rows hold to it.\<close>

theorem exposure_tenant_isolation:
  assumes "exposure_step E mb tid d d'" "exposure_inv d"
  shows "foreign_exposures tid d' = foreign_exposures tid d"
  using assms by (rule exposure_step_foreign)

theorem exposure_tenant_isolation_witness:
  "case demo_import of Inl _ \<Rightarrow> False | Inr (b, d) \<Rightarrow> foreign_exposures 1 d = foreign_exposures 1 empty_exposures"
proof -
  obtain b d where d: "import_file demo_exposure_env 1000 5 demo_analyst 1 None ''combolist''
    (demo_upload demo_combo) empty_exposures = Inr (b, d)" "demo_import = Inr (b, d)" by (rule demo_importE)
  from exposure_tenant_isolation[OF step_import[OF d(1)] empty_exposures_inv] show ?thesis by (simp add: d(2))
qed

section \<open>Imports\<close>

lemma xkept_ingest: "list_all2 (xkept tid) fs gs \<Longrightarrow> map fd_ingest_id gs = map fd_ingest_id fs"
  by (induction rule: list_all2_induct) (auto simp: xkept_def)

lemma stored_batch_count:
  assumes "stored tid new d d'" "list_all (from_batch tid (Some i)) new" "\<forall>f \<in> set (xd_findings d). batch_known B f" "i \<notin> B"
  shows "length (filter (\<lambda>f. fd_ingest_id f = Some i) (xd_findings d')) = length new"
proof -
  have "map fd_ingest_id (xd_findings d') = map fd_ingest_id (xd_findings d @ new)"
    using assms(1) by (intro xkept_ingest[of tid]) (simp add: stored_def)
  then have "length (filter (\<lambda>f. fd_ingest_id f = Some i) (xd_findings d'))
      = length (filter (\<lambda>f. fd_ingest_id f = Some i) (xd_findings d @ new))"
    by (simp only: length_filter_map[of "\<lambda>x. x = Some i" fd_ingest_id])
  moreover have "filter (\<lambda>f. fd_ingest_id f = Some i) (xd_findings d) = []"
    using assms(3,4) by (auto simp: filter_empty_conv batch_known_def)
  moreover have "filter (\<lambda>f. fd_ingest_id f = Some i) new = new"
    using assms(2) by (auto simp: filter_id_conv list_all_iff from_batch_def)
  ultimately show ?thesis by simp
qed

lemma fresh_batch: "next_id ib_id bs \<notin> ib_id ` set bs"
  using next_id_gt[of _ bs ib_id] by force

text \<open>C18 The counters of a completed import add up to the number of records the parser yields, and the number it reports as
  created is the number of findings that carry the batch; the findings of before keep owner, key and batch.\<close>

theorem import_accounting:
  assumes "import_file E mb now p tid request parser up d = Inr (b, d')" "exposure_inv d"
  shows "ib_record_count b = int (length (fst (run_parser (en_hash E) (en_loads E) parser (up_text up))))
    \<and> ib_record_count b = ib_created_count b + ib_deduped_count b + ib_error_count b
    \<and> ib_created_count b = int (length (filter (\<lambda>f. fd_ingest_id f = Some (ib_id b)) (xd_findings d')))
    \<and> take (length (xd_findings d)) (map (\<lambda>f. (exposure_key f, fd_ingest_id f)) (xd_findings d'))
        = map (\<lambda>f. (exposure_key f, fd_ingest_id f)) (xd_findings d)
    \<and> xd_batches d' = xd_batches d @ [b] \<and> ib_status b = ''completed''"
proof -
  from importD[OF assms] obtain new where new: "stored tid new d d'" "xd_batches d' = xd_batches d @ [b]"
    "list_all (from_batch tid (Some (ib_id b))) new" "ib_id b = next_id ib_id (xd_batches d)" "ib_status b = ''completed''"
    "ib_created_count b = int (length new)" "ib_record_count b = ib_created_count b + ib_deduped_count b + ib_error_count b"
    "ib_record_count b = int (length (fst (run_parser (en_hash E) (en_loads E) parser (up_text up))))"
    by fastforce
  have "\<forall>f \<in> set (xd_findings d). batch_known (ib_id ` set (xd_batches d)) f" using assms(2) by (simp add: exposure_inv_def)
  from stored_batch_count[OF new(1,3) this] fresh_batch new(4)
  have "length (filter (\<lambda>f. fd_ingest_id f = Some (ib_id b)) (xd_findings d')) = length new" by metis
  moreover have "list_all2 (xkept tid) (xd_findings d @ new) (xd_findings d')" using new(1) by (simp add: stored_def)
  then have "map (\<lambda>f. (exposure_key f, fd_ingest_id f)) (xd_findings d') = map (\<lambda>f. (exposure_key f, fd_ingest_id f)) (xd_findings d @ new)"
    by (induction rule: list_all2_induct) (auto simp: xkept_def)
  ultimately show ?thesis using new by simp
qed

theorem import_accounting_witness:
  "case demo_import of Inl _ \<Rightarrow> False | Inr (b, d) \<Rightarrow> ib_record_count b = 3 \<and> ib_created_count b = 1 \<and> ib_deduped_count b = 1
     \<and> ib_record_count b = ib_created_count b + ib_deduped_count b + ib_error_count b"
proof -
  obtain b d where d: "import_file demo_exposure_env 1000 5 demo_analyst 1 None ''combolist''
    (demo_upload demo_combo) empty_exposures = Inr (b, d)" "demo_import = Inr (b, d)" by (rule demo_importE)
  have "case demo_import of Inl _ \<Rightarrow> False | Inr (b, d) \<Rightarrow> ib_record_count b = 3 \<and> ib_created_count b = 1 \<and> ib_deduped_count b = 1"
    by code_simp
  with import_accounting[OF d(1) empty_exposures_inv] show ?thesis by (simp add: d(2))
qed

text \<open>C9 A completed import refines a counter of sightings: the number of times each deduplication key has been seen is what it
  was before, counted up in the order of the file by the records that are not errors. Duplicates inside the
  file, pending rows and the order in which rows are flushed make no difference.\<close>

theorem import_refines_sightings:
  assumes "import_file E mb now p tid request parser up d = Inr (b, d')" "exposure_inv d"
  shows "sight_map (xd_findings d') = fold sight
    (concat (map (record_sightings E tid) (fst (run_parser (en_hash E) (en_loads E) parser (up_text up))))) (sight_map (xd_findings d))"
  using assms by (rule import_sightings)

theorem import_refines_sightings_witness:
  "case demo_import of Inl _ \<Rightarrow> False | Inr (b, d) \<Rightarrow> sight_map (xd_findings d) = fold sight
     (concat (map (record_sightings demo_exposure_env 1) (parse_combolist demo_combo))) (\<lambda>_. None)
     \<and> map (\<lambda>f. sight_map (xd_findings d) (exposure_key f)) (xd_findings d) = [Some 2]"
proof -
  obtain b d where d: "import_file demo_exposure_env 1000 5 demo_analyst 1 None ''combolist''
    (demo_upload demo_combo) empty_exposures = Inr (b, d)" "demo_import = Inr (b, d)" by (rule demo_importE)
  have "case demo_import of Inl _ \<Rightarrow> False | Inr (b, d) \<Rightarrow>
     map (\<lambda>f. sight_map (xd_findings d) (exposure_key f)) (xd_findings d) = [Some 2]" by code_simp
  moreover have "sight_map (xd_findings empty_exposures) = (\<lambda>_. None)" by (simp add: empty_exposures_def sight_map_def)
  moreover have "fst (run_parser (en_hash demo_exposure_env) (en_loads demo_exposure_env) ''combolist''
      (up_text (demo_upload demo_combo))) = parse_combolist demo_combo" by (simp add: run_parser_def demo_upload_def)
  ultimately show ?thesis using import_refines_sightings[OF d(1) empty_exposures_inv] by (simp add: d(2))
qed

lemma rollback_ok:
  assumes "find_row ib_id i (xd_batches d) = Some b" "ib_tenant_id b = tid"
  shows "\<exists>d'. rollback_ingest now p tid request i d = Inr (length (filter (batch_victim tid i) (xd_findings d)), d')"
  using assms by (simp add: rollback_ingest_def owned_ingest_def batch_victim_def Let_def)

text \<open>C17 Rolling back a completed import removes exactly the findings it created, and the findings that remain are those
  of before the import, with their owners, keys and batches. The credential dossiers stay as the import left
  them: leaks, sources and password fingerprints of removed findings remain counted.\<close>

theorem import_rollback:
  assumes "import_file E mb now p tid request parser up d = Inr (b, d')" "exposure_inv d"
  shows "\<exists>d''. rollback_ingest now' p' tid request' (ib_id b) d' = Inr (nat (ib_created_count b), d'')
    \<and> map (\<lambda>f. (exposure_key f, fd_ingest_id f)) (xd_findings d'') = map (\<lambda>f. (exposure_key f, fd_ingest_id f)) (xd_findings d)
    \<and> xd_identities d'' = xd_identities d' \<and> xd_assets d'' = xd_assets d"
proof -
  from importD[OF assms] obtain new where new: "stored tid new d d'" "xd_batches d' = xd_batches d @ [b]"
    "list_all (from_batch tid (Some (ib_id b))) new" "ib_id b = next_id ib_id (xd_batches d)" "ib_tenant_id b = tid"
    "ib_created_count b = int (length new)" by fastforce
  have fresh: "ib_id b \<notin> ib_id ` set (xd_batches d)" using fresh_batch new(4) by metis
  then have "\<forall>x \<in> set (xd_batches d). ib_id x \<noteq> ib_id b" by (metis imageI)
  then have "find_row ib_id (ib_id b) (xd_batches d') = Some b" unfolding new(2) by (rule find_row_last)
  from rollback_ok[OF this new(5)] obtain d'' where d'': "rollback_ingest now' p' tid request' (ib_id b) d'
    = Inr (length (filter (batch_victim tid (ib_id b)) (xd_findings d')), d'')" by blast
  note r = rollbackD[OF d'']
  let ?v = "\<lambda>f. (exposure_key f, fd_ingest_id f)" and ?P = "\<lambda>((t, k), i). t = tid \<and> i = Some (ib_id b)"
  have P: "batch_victim tid (ib_id b) f = ?P (?v f)" for f by (simp add: batch_victim_def exposure_key_def)
  have "list_all2 (xkept tid) (xd_findings d @ new) (xd_findings d')" using new(1) by (simp add: stored_def)
  then have keys: "map ?v (xd_findings d') = map ?v (xd_findings d @ new)"
    by (induction rule: list_all2_induct) (auto simp: xkept_def)
  have old: "\<not> batch_victim tid (ib_id b) f" if "f \<in> set (xd_findings d)" for f
    using that assms(2) fresh by (auto simp: exposure_inv_def batch_known_def batch_victim_def)
  have mine: "batch_victim tid (ib_id b) f" if "f \<in> set new" for f
    using that new(3) by (simp add: batch_victim_def list_all_iff from_batch_def)
  have "length (filter (batch_victim tid (ib_id b)) (xd_findings d')) = length (filter ?P (map ?v (xd_findings d')))"
    unfolding P by (rule length_filter_map[of ?P ?v])
  also have "\<dots> = length (filter (batch_victim tid (ib_id b)) (xd_findings d @ new))"
    unfolding keys P by (rule length_filter_map[of ?P ?v, symmetric])
  also have "\<dots> = length new" using old mine by (simp add: filter_empty_conv filter_id_conv)
  finally have n: "length (filter (batch_victim tid (ib_id b)) (xd_findings d')) = length new" .
  have F: "map ?v (filter (\<lambda>f. \<not> batch_victim tid (ib_id b) f) fs) = filter (\<lambda>x. \<not> ?P x) (map ?v fs)" for fs
    unfolding P by (rule map_filter_out[of ?v ?P])
  have "xd_findings d'' = filter (\<lambda>f. \<not> batch_victim tid (ib_id b) f) (xd_findings d')" using r by blast
  then have "map ?v (xd_findings d'') = filter (\<lambda>x. \<not> ?P x) (map ?v (xd_findings d'))" by (simp only: F)
  also have "\<dots> = map ?v (filter (\<lambda>f. \<not> batch_victim tid (ib_id b) f) (xd_findings d @ new))"
    unfolding keys by (rule F[symmetric])
  also have "filter (\<lambda>f. \<not> batch_victim tid (ib_id b) f) (xd_findings d @ new) = xd_findings d"
    using old mine by (simp add: filter_empty_conv filter_id_conv)
  finally show ?thesis using d'' r n new(1,6) by (simp add: stored_def)
qed

theorem import_rollback_witness:
  "case demo_import of Inl _ \<Rightarrow> False | Inr (b, d) \<Rightarrow>
     (case rollback_ingest 6 demo_analyst 1 None (ib_id b) d of Inl _ \<Rightarrow> False
      | Inr (n, d') \<Rightarrow> n = 1 \<and> xd_findings d' = [] \<and> map ci_leak_count (xd_identities d') = [1])"
proof -
  obtain b d where d: "import_file demo_exposure_env 1000 5 demo_analyst 1 None ''combolist''
    (demo_upload demo_combo) empty_exposures = Inr (b, d)" "demo_import = Inr (b, d)" by (rule demo_importE)
  have "case demo_import of Inl _ \<Rightarrow> False | Inr (b, d) \<Rightarrow> ib_created_count b = 1 \<and> map ci_leak_count (xd_identities d) = [1]"
    by code_simp
  with import_rollback[OF d(1) empty_exposures_inv, of 6 demo_analyst None] show ?thesis
    by (auto simp: d(2) empty_exposures_def)
qed

section \<open>A file that repeats an identity\<close>

definition identity_or_error :: "json dict \<Rightarrow> bool" where
  "identity_or_error rec = (truthy (jget rec ''_error'') \<or> mvp_type rec \<noteq> Some ''credential_exposure'')"

text \<open>The keys of the identity records that no finding has.\<close>

definition new_keys :: "exposure_env \<Rightarrow> int \<Rightarrow> (int \<times> string) set \<Rightarrow> json dict list \<Rightarrow> (int \<times> string) list" where
  "new_keys E tid known recs = filter (\<lambda>k. k \<notin> known) (map fst (concat (map (record_sightings E tid) recs)))"

lemma upd_row_keys:
  assumes "keyed fd_id rows" "f \<in> set rows" "exposure_key g = exposure_key f"
  shows "map exposure_key (upd_row fd_id (fd_id f) (\<lambda>_. g) rows) = map exposure_key rows"
proof -
  have "x = f" if "x \<in> set rows" "fd_id x = fd_id f" for x
    using that assms(1,2) by (auto simp: keyed_def distinct_map inj_on_def)
  then have "exposure_key (if fd_id x = fd_id f then g else x) = exposure_key x" if "x \<in> set rows" for x
    using that assms(3) by metis
  then show ?thesis by (simp add: upd_row_def)
qed

lemma known_exposure_None: "known_exposure tid key rows = None \<longleftrightarrow> (tid, key) \<notin> exposure_key ` set rows"
  by (auto simp: known_exposure_def find_None_iff exposure_key_def)

lemma identity_record_keys:
  assumes "import_record E now p tid batch rec (c, s) = Inr (c', s')" "xgood tid s" "identity_or_error rec"
  shows "map exposure_key (xd_findings (xs_db s')) = map exposure_key (xd_findings (xs_db s))
    \<and> map exposure_key (xs_pending s') = map exposure_key (xs_pending s)
        @ new_keys E tid (exposure_key ` set (xd_findings (xs_db s))) [rec] \<and> xgood tid s'"
proof -
  have good: "xgood tid s'" using import_record_step[OF assms(1,2)] by (auto simp: xstep_def)
  show ?thesis
  proof (cases "truthy (jget rec ''_error'') \<or> mvp_type rec = None")
    case True
    with assms(1) have "s' = s" "record_sightings E tid rec = []"
      by (auto simp: import_record_def record_sightings_def split: if_splits)
    with good show ?thesis by (simp add: new_keys_def)
  next
    case False
    then obtain etype where et: "mvp_type rec = Some etype" "etype \<noteq> ''credential_exposure''"
      using assms(3) by (auto simp: identity_or_error_def)
    with False assms(1) obtain outcome f where run:
      "persist_record E now p tid ''file_import'' (Some batch) etype (en_time E (jget rec ''observed_at'')) rec s = Inr (outcome, f, s')"
      by (auto simp: import_record_def)
    define key where "key = dedup_key (en_hash E) tid etype (detail_of E rec)"
    have rs: "map fst (record_sightings E tid rec) = [(tid, key)]"
      using False et by (simp add: record_sightings_def sighting_def key_def)
    note fold_detail = detail_of_def[symmetric] key_def[symmetric]
    show ?thesis
    proof (cases "known_exposure tid key (xd_findings (xs_db s))")
      case (Some h)
      note h = known_exposureD[OF Some]
      from run Some et(2) obtain g where g: "sighted E now (xs_db s) tid h = Inr g"
        "s' = s\<lparr>xs_db := (xs_db s)\<lparr>xd_findings := upd_row fd_id (fd_id h) (\<lambda>_. g) (xd_findings (xs_db s))\<rparr>\<rparr>"
        unfolding persist_record_def Let_def fold_detail by auto
      have "exposure_key g = exposure_key h" using sightedD[OF g(1)] h by (auto simp: xkept_def)
      then have "map exposure_key (xd_findings (xs_db s')) = map exposure_key (xd_findings (xs_db s))"
        using upd_row_keys[of "xd_findings (xs_db s)" h g] h assms(2) by (simp add: g(2) xgood_def)
      moreover have "(tid, key) \<in> exposure_key ` set (xd_findings (xs_db s))"
        using known_exposure_None[of tid key "xd_findings (xs_db s)"] Some by auto
      ultimately show ?thesis using good rs by (simp add: new_keys_def g(2))
    next
      case None
      from run None et(2) obtain g0 obs where g0: "new_exposure E now p tid ''file_import'' etype (Some batch) rec (detail_of E rec) obs = Inr g0"
        "s' = s\<lparr>xs_pending := xs_pending s @ [apply_risk E now (xs_db s) tid g0]\<rparr>"
        unfolding persist_record_def Let_def fold_detail by auto
      have "exposure_key (apply_risk E now (xs_db s) tid g0) = (tid, key)"
        using new_exposureD[OF g0(1)] by (simp add: exposure_key_def key_def)
      moreover have "(tid, key) \<notin> exposure_key ` set (xd_findings (xs_db s))"
        using known_exposure_None[of tid key "xd_findings (xs_db s)"] None by auto
      ultimately show ?thesis using good rs by (simp add: new_keys_def g0(2))
    qed
  qed
qed

lemma new_keys_Cons: "new_keys E tid known (r # rs) = new_keys E tid known [r] @ new_keys E tid known rs"
  by (simp add: new_keys_def)

lemma set_of_keys: "map exposure_key xs = map exposure_key ys \<Longrightarrow> exposure_key ` set xs = exposure_key ` set ys"
  by (metis list.set_map)

lemma identity_records_keys:
  assumes "import_records E now p tid batch recs (c, s) = Inr (c', s')" "xgood tid s" "list_all identity_or_error recs"
  shows "map exposure_key (xs_pending s') = map exposure_key (xs_pending s)
        @ new_keys E tid (exposure_key ` set (xd_findings (xs_db s))) recs"
  using assms
proof (induction recs arbitrary: c s)
  case Nil
  then show ?case by (simp add: new_keys_def)
next
  case (Cons r rs)
  from Cons(2) obtain c1 s1 where one: "import_record E now p tid batch r (c, s) = Inr (c1, s1)"
    and rest: "import_records E now p tid batch rs (c1, s1) = Inr (c', s')" by auto
  have ok: "identity_or_error r" "list_all identity_or_error rs" using Cons(4) by simp_all
  note 1 = identity_record_keys[OF one Cons(3) ok(1)]
  then have good: "xgood tid s1" by blast
  note known = set_of_keys[OF conjunct1[OF 1]]
  show ?case using 1 Cons(1)[OF rest good ok(2)]
    by (simp add: known new_keys_Cons[of E tid _ r rs])
qed

lemma pending_distinct: "flush_session s = Inr s' \<Longrightarrow> xgood tid s \<Longrightarrow> distinct (map exposure_key (xs_pending s))"
  using view_keys[OF flush_session_view] flush_step
  by (metis all_rows_def append_Nil2 distinct_append map_append unique_on_def xgood_def xstep_def filter_True)

text \<open>Rows that are added but not flushed are not seen by the duplicate check: a file of identity records that names a new
  identity twice is refused as a whole, where a credential file with a repeated line is imported.\<close>

theorem repeated_identity_refused:
  assumes "exposure_inv d" "list_all identity_or_error (fst (run_parser (en_hash E) (en_loads E) parser (up_text up)))"
    "\<not> distinct (new_keys E tid (exposure_key ` set (xd_findings d)) (fst (run_parser (en_hash E) (en_loads E) parser (up_text up))))"
  shows "isl (import_file E mb now p tid request parser up d)"
proof (rule ccontr)
  assume "\<not> isl (import_file E mb now p tid request parser up d)"
  then obtain r where "import_file E mb now p tid request parser up d = Inr r"
    by (cases "import_file E mb now p tid request parser up d") simp_all
  then obtain b d' where ok: "import_file E mb now p tid request parser up d = Inr (b, d')" by (cases r) simp
  from importE[OF ok assms(1)] obtain batch c s d0 d1 where run:
    "import_records E now p tid batch (fst (run_parser (en_hash E) (en_loads E) parser (up_text up)))
       (zero_counts, \<lparr>xs_db = d0, xs_pending = []\<rparr>) = Inr (c, s)"
    "commit_session s = Inr d1" "xd_findings d0 = xd_findings d" "xgood tid \<lparr>xs_db = d0, xs_pending = []\<rparr>" .
  from run(2) obtain s' where s': "flush_session s = Inr s'" by (auto simp: commit_session_def)
  from import_records_step[OF run(1,4)] obtain new where "xstep tid \<lparr>xs_db = d0, xs_pending = []\<rparr> new s" by blast
  then have "xgood tid s" by (simp add: xstep_def)
  from pending_distinct[OF s' this] identity_records_keys[OF run(1,4) assms(2)] run(3) assms(3) show False by simp
qed

definition demo_identities :: string where
  "demo_identities = ''email'' @ [CHR 0x0A] @ ''bob@x.io'' @ [CHR 0x0A] @ ''bob@x.io'' @ [CHR 0x0A]"

theorem repeated_identity_refused_witness:
  "length (fst (parse_csv_generic demo_identities)) = 2
   \<and> isl (import_file demo_exposure_env 1000 5 demo_analyst 1 None ''csv_generic'' (demo_upload demo_identities) empty_exposures)"
proof -
  have p: "fst (run_parser (en_hash demo_exposure_env) (en_loads demo_exposure_env) ''csv_generic'' (up_text (demo_upload demo_identities)))
    = fst (parse_csv_generic demo_identities)" by (simp add: run_parser_def demo_upload_def)
  have 1: "list_all identity_or_error (fst (parse_csv_generic demo_identities))" by code_simp
  have 2: "\<not> distinct (new_keys demo_exposure_env 1 (exposure_key ` set (xd_findings empty_exposures)) (fst (parse_csv_generic demo_identities)))"
    by code_simp
  have 3: "length (fst (parse_csv_generic demo_identities)) = 2" by code_simp
  from repeated_identity_refused[OF empty_exposures_inv, where E = demo_exposure_env and parser = "''csv_generic''"
      and up = "demo_upload demo_identities" and tid = 1 and mb = 1000 and now = 5 and p = demo_analyst and request = None,
      unfolded p, OF 1 2] 3 show ?thesis by blast
qed

section \<open>A foreign asset\<close>

definition victim_asset :: asset where
  "victim_asset = \<lparr>as_id = 1, as_tenant_id = 1, as_asset_type = ''identity'', as_label = ''CFO Maria'', as_value = ''maria@acme.com'',
     as_value_hash = [], as_criticality = ''critical'', as_consent_ref = None, as_active = True\<rparr>"

definition victim_db :: exposure_db where
  "victim_db = empty_exposures\<lparr>xd_assets := [victim_asset]\<rparr>"

definition probing_env :: exposure_env where
  "probing_env = demo_exposure_env\<lparr>en_loads := (\<lambda>s. Inr (JList [JObj [(''exposure_type'', JStr ''identity_exposure''),
     (''asset_id'', JInt 1)]]))\<rparr>"

definition probed_labels :: "(ingest_batch \<times> exposure_db) res \<Rightarrow> (int \<times> bool) list" where
  "probed_labels r = (case r of Inl _ \<Rightarrow> [] | Inr (b, d) \<Rightarrow>
     map (\<lambda>f. (fd_tenant_id f, str_contains ''CFO Maria'' (context_description d f))) (xd_findings d))"

text \<open>An intake checks that the asset is the tenant's; an imported record's \<open>asset_id\<close> is stored as it is. The case
  opened from such a finding describes the affected asset by its label, whoever owns it.\<close>

theorem foreign_asset_label_leaks:
  "intake_finding probing_env 5 demo_analyst 2 None
     \<lparr>it_exposure_type = ''identity_exposure'', it_title = None, it_source = ''manual_intake'', it_asset_id = Some 1,
      it_source_reliability = None, it_info_credibility = None, it_severity = None, it_observed_at = None, it_detail = []\<rparr>
     victim_db = Inl (HTTPException 404)
   \<and> probed_labels (import_file probing_env 1000 5 demo_analyst 2 None ''json_findings'' (demo_upload ''x'') victim_db) = [(2, True)]"
proof
  show "intake_finding probing_env 5 demo_analyst 2 None
     \<lparr>it_exposure_type = ''identity_exposure'', it_title = None, it_source = ''manual_intake'', it_asset_id = Some 1,
      it_source_reliability = None, it_info_credibility = None, it_severity = None, it_observed_at = None, it_detail = []\<rparr>
     victim_db = Inl (HTTPException 404)"
    by (simp add: intake_finding_def valid_intake_def opt_in_def EXPOSURE_MVP_TYPES_def owned_asset_def victim_db_def
        find_row_def victim_asset_def)
  show "probed_labels (import_file probing_env 1000 5 demo_analyst 2 None ''json_findings'' (demo_upload ''x'') victim_db) = [(2, True)]"
    by code_simp
qed

end
