(* ===== verification/SurfaceProps.thy ===== *)
theory SurfaceProps
  imports SurfaceSteps ExposureProps
begin

text \<open>
  The surface requests as one machine, together with the exposure requests it shares its findings with, and the
  properties of the component.
\<close>

section \<open>The requests\<close>

definition surface_inv :: "exposure_env \<Rightarrow> surface_db \<Rightarrow> bool" where
  "surface_inv E d = (surface_rows_ok E (sf_brands d) (sf_assets d) \<and> exposure_inv (sf_exposures d))"

inductive surface_step :: "exposure_env \<Rightarrow> int \<Rightarrow> int \<Rightarrow> surface_db \<Rightarrow> surface_db \<Rightarrow> bool" for E mb tid where
  step_surface_import: "import_surface E now p tid request brand_id is d = Inr (r, d') \<Longrightarrow> surface_step E mb tid d d'"
| step_surface_triage: "triage_surface now p tid request i status d = Inr (a, d') \<Longrightarrow> surface_step E mb tid d d'"
| step_discover: "discover E nw now p tid request brand_id d = Inr (c, d') \<Longrightarrow> surface_step E mb tid d d'"
| step_promote: "promote_surface E now p tid request i d = Inr (r, d') \<Longrightarrow> surface_step E mb tid d d'"
| step_exposures: "exposure_step E mb tid (sf_exposures d) x \<Longrightarrow> surface_step E mb tid d (d\<lparr>sf_exposures := x\<rparr>)"

text \<open>What a request does: changes of the tenant's rows, and a step of the exposure tables that keeps other tenants.\<close>

definition exposures_kept :: "int \<Rightarrow> exposure_db \<Rightarrow> exposure_db \<Rightarrow> bool" where
  "exposures_kept tid x x' = (exposure_inv x' \<and> foreign_exposures tid x' = foreign_exposures tid x)"

definition surface_effect :: "exposure_env \<Rightarrow> int \<Rightarrow> surface_db \<Rightarrow> surface_db \<Rightarrow> bool" where
  "surface_effect E tid d d' = ((surface_change E (sf_brands d) tid)\<^sup>*\<^sup>* (sf_assets d) (sf_assets d')
     \<and> sf_brands d' = sf_brands d \<and> exposures_kept tid (sf_exposures d) (sf_exposures d'))"

lemma same_kept: "same_tables x x' \<Longrightarrow> exposure_inv x \<Longrightarrow> exposures_kept tid x x'"
  using same_tables_inv[of x x'] foreign_same[of x x' tid] by (simp add: exposures_kept_def)

lemma surface_audit_sel [simp]:
  "sf_assets (surface_audit now p tid request action target detail d) = sf_assets d"
  "sf_brands (surface_audit now p tid request action target detail d) = sf_brands d"
  "same_tables (sf_exposures d) (sf_exposures (surface_audit now p tid request action target detail d))"
  by (simp_all add: surface_audit_def Let_def same_tables_def)

lemma surface_audit_tables [simp]:
  "xd_findings (sf_exposures (surface_audit now p tid request action target detail d)) = xd_findings (sf_exposures d)"
  by (simp add: surface_audit_def Let_def)

lemma set_surface_sel [simp]: "sf_brands (set_surface a d) = sf_brands d" "sf_exposures (set_surface a d) = sf_exposures d"
  "sf_assets (set_surface a d) = upd_row sa_id (sa_id a) (\<lambda>_. a) (sf_assets d)"
  by (simp_all add: set_surface_def)

lemma owned_surfaceD:
  "owned_surface d i tid = Inr a \<Longrightarrow> a \<in> set (sf_assets d) \<and> sa_id a = i \<and> sa_tenant_id a = tid"
  using find_row_SomeD[of sa_id i "sf_assets d" a] by (auto simp: owned_surface_def split: option.splits if_splits)

lemma surface_brand_in:
  assumes "surface_brand d i tid = Inr b"
  shows "brand_in (sf_brands d) tid (Some i)" "br_id b = i"
proof -
  from assms have f: "find_row br_id i (sf_brands d) = Some b" "br_tenant_id b = tid"
    by (auto simp: surface_brand_def split: option.splits if_splits)
  from find_row_SomeD[OF f(1)] f(2) show "brand_in (sf_brands d) tid (Some i)" "br_id b = i"
    by (auto simp: brand_in_def)
qed

lemma brand_checked_in: "brand_checked d tid b = Inr u \<Longrightarrow> brand_in (sf_brands d) tid b"
  using surface_brand_in(1) by (cases b) (auto simp: brand_checked_def brand_in_def bindr_def split: sum.splits)

lemma status_ok: "surface_rows_ok E bs rows \<Longrightarrow> a \<in> set rows \<Longrightarrow> sa_status a \<in> set SURFACE_STATUS"
  by (simp add: surface_rows_ok_def surface_row_ok_def list_all_iff)

text \<open>Editing an owned row.\<close>

lemma edit_change:
  assumes "owned_surface d i tid = Inr a" "stable a' = stable a" "sa_status a' \<in> set SURFACE_STATUS"
  shows "surface_change E bs tid (sf_assets d) (sf_assets (set_surface a' d))"
  using change_row[of a "sf_assets d" tid a' E bs] owned_surfaceD[OF assms(1)] assms(2,3) stableD(1)[OF assms(2)] by simp

lemma import_item_change:
  assumes "import_item E now p tid brand_id i d = Inr (k, new, d')" "valid_item i" "surface_rows_ok E (sf_brands d) (sf_assets d)"
  shows "surface_change E (sf_brands d) tid (sf_assets d) (sf_assets d') \<and> sf_brands d' = sf_brands d
    \<and> sf_exposures d' = sf_exposures d"
proof -
  let ?v = "str_strip (si_value i)"
  from assms(1) obtain u where b: "brand_checked d tid (item_brand brand_id i) = Inr u" by (auto simp: import_item_def)
  show ?thesis
  proof (cases "known_surface tid (surface_dedup_key E tid (si_asset_type i) ?v) (sf_assets d)")
    case None
    have "surface_change E (sf_brands d) tid (sf_assets d) (sf_assets d @ [new_surface E now tid (item_brand brand_id i)
        (si_asset_type i) ?v ''manual_import'' (si_detail i) None (pr_user_id p) (sf_assets d)])"
      using assms(2) brand_checked_in[OF b] by (intro add_row[OF None]) (simp_all add: valid_item_def kinds parent_in_def)
    then show ?thesis using assms(1) b None by (auto simp: import_item_def Let_def)
  next
    case (Some a)
    note a = known_surfaceD[OF Some]
    have "surface_change E (sf_brands d) tid (sf_assets d) (upd_row sa_id (sa_id a) (\<lambda>_. a\<lparr>sa_last_seen := now\<rparr>) (sf_assets d))"
      using a status_ok[OF assms(3)] by (intro change_row) simp_all
    then show ?thesis using assms(1) b Some by (auto simp: import_item_def Let_def)
  qed
qed

lemma import_items_change:
  "import_items E now p tid brand_id is d = Inr (ks, d') \<Longrightarrow> list_all valid_item is
    \<Longrightarrow> surface_rows_ok E (sf_brands d) (sf_assets d)
    \<Longrightarrow> (surface_change E (sf_brands d) tid)\<^sup>*\<^sup>* (sf_assets d) (sf_assets d') \<and> sf_brands d' = sf_brands d
      \<and> sf_exposures d' = sf_exposures d"
proof (induction "is" arbitrary: d ks)
  case (Cons i "is")
  from Cons.prems(1) obtain k new d1 ks1 where d1: "import_item E now p tid brand_id i d = Inr (k, new, d1)"
    "import_items E now p tid brand_id is d1 = Inr (ks1, d')" by auto
  note c = import_item_change[OF d1(1) _ Cons.prems(3)]
  have v: "valid_item i" "list_all valid_item is" using Cons.prems(2) by simp_all
  have "surface_rows_ok E (sf_brands d1) (sf_assets d1)"
    using change_ok[OF conjunct1[OF c[OF v(1)]] Cons.prems(3)] c[OF v(1)] by simp
  note r = Cons.IH[OF d1(2) v(2) this]
  from c[OF v(1)] r converse_rtranclp_into_rtranclp[of "surface_change E (sf_brands d) tid" "sf_assets d" "sf_assets d1" "sf_assets d'"]
  show ?case by simp
qed simp

text \<open>A promotion stores one finding, which is well formed.\<close>

definition promoted_row :: "exposure_env \<Rightarrow> time \<Rightarrow> principal \<Rightarrow> int \<Rightarrow> surface_asset \<Rightarrow> exposure_db \<Rightarrow> finding" where
  "promoted_row E now p tid a x = (scored_finding E now (surface_finding E now p tid a))\<lparr>fd_id := next_id fd_id (xd_findings x)\<rparr>"

lemma promoted_sel [simp]: "fd_id (promoted_row E now p tid a x) = next_id fd_id (xd_findings x)"
  "fd_tenant_id (promoted_row E now p tid a x) = tid" "fd_dedup_key (promoted_row E now p tid a x) = promotion_key E tid a"
  "exposure_key (promoted_row E now p tid a x) = (tid, promotion_key E tid a)"
  "exposure_row_ok assets (promoted_row E now p tid a x)" "fd_ingest_id (promoted_row E now p tid a x) = None"
  by (simp_all add: promoted_row_def scored_finding_def surface_finding_def Let_def exposure_key_def exposure_row_ok_def)

lemma clean_names: "clean_dict [(''surface_asset_id'', a), (''surface_type'', b), (''value'', c)]"
  "list_all clean_key [''subdomain'', ''domain'', ''ip'', ''certificate'', ''brand_id'']"
  by (simp_all add: clean_dict_def) code_simp+

lemma promotion_detail_clean: "clean_dict (promotion_detail a)"
proof -
  have "clean_key k" if "k \<in> {''surface_asset_id'', ''surface_type'', ''value'', ''subdomain'', ''domain'', ''ip'', ''certificate'', ''brand_id''}" for k
    using that clean_names(1)[of JNull JNull JNull] clean_names(2) by (auto simp: clean_dict_def)
  then show ?thesis by (auto simp: promotion_detail_def clean_dict_def split: option.splits)
qed

lemma promoted_clean: "clean_dict (fd_detail (promoted_row E now p tid a x))"
  using clean_dict_update[OF clean_counters(1) promotion_detail_clean]
  by (simp add: promoted_row_def scored_finding_def surface_finding_def Let_def)

lemma promote_flush:
  assumes "known_exposure tid (promotion_key E tid a) (xd_findings x) = None"
  shows "flush_session \<lparr>xs_db = x, xs_pending = [scored_finding E now (surface_finding E now p tid a)]\<rparr>
    = Inr \<lparr>xs_db = x\<lparr>xd_findings := xd_findings x @ [promoted_row E now p tid a x]\<rparr>, xs_pending = []\<rparr>"
proof -
  have "\<not> violates (\<lambda>_. True) exposure_key (promoted_row E now p tid a x) (xd_findings x)"
    using assms by (simp add: violates_def known_exposure_None)
  then show ?thesis by (simp add: flush_session_def Let_def promoted_row_def[symmetric])
qed

lemma promoted_kept:
  assumes "exposure_inv x" "known_exposure tid (promotion_key E tid a) (xd_findings x) = None"
  shows "exposures_kept tid x (x\<lparr>xd_findings := xd_findings x @ [promoted_row E now p tid a x]\<rparr>)"
proof -
  have k: "keyed fd_id (xd_findings x)" "unique_on (\<lambda>_. True) exposure_key (xd_findings x)"
    using assms(1) by (simp_all add: exposure_inv_def)
  have "keyed fd_id (xd_findings x @ [promoted_row E now p tid a x])" by (rule keyed_append[OF k(1)]) simp
  moreover have "unique_on (\<lambda>_. True) exposure_key (xd_findings x @ [promoted_row E now p tid a x])"
    by (rule unique_on_append[OF k(2)]) (use assms(2) in \<open>simp add: violates_def known_exposure_None\<close>)
  ultimately show ?thesis
    using assms(1) promoted_clean by (simp add: exposures_kept_def exposure_inv_def batch_known_def foreign_exposures_def)
qed


lemma find_append: "find P (xs @ ys) = (case find P xs of None \<Rightarrow> find P ys | Some x \<Rightarrow> Some x)"
  by (induction xs) auto

text \<open>The answer of a promotion, with the row that is linked.\<close>

lemma promotion_cases:
  assumes "owned_surface d i tid = Inr a" "exposure_inv (sf_exposures d)"
  obtains (known) f where "known_exposure tid (promotion_key E tid a) (xd_findings (sf_exposures d)) = Some f"
      "promote_surface E now p tid request i d = Inr ((fd_id f, False), set_surface (linked_surface (fd_id f) a) d)"
  | (fresh) d' k where "known_exposure tid (promotion_key E tid a) (xd_findings (sf_exposures d)) = None"
      "k = next_id fd_id (xd_findings (sf_exposures d))" "promote_surface E now p tid request i d = Inr ((k, True), d')"
      "xd_findings (sf_exposures d') = xd_findings (sf_exposures d) @ [promoted_row E now p tid a (sf_exposures d)]"
      "sf_brands d' = sf_brands d" "sf_assets d' = sf_assets (set_surface ((linked_surface k a)\<lparr>sa_status := ''confirmed''\<rparr>) d)"
      "exposures_kept tid (sf_exposures d) (sf_exposures d')"
proof (cases "known_exposure tid (promotion_key E tid a) (xd_findings (sf_exposures d))")
  case (Some f)
  then show thesis using assms(1) by (intro known[of f]) (simp_all add: promote_surface_def Let_def)
next
  case None
  let ?x = "sf_exposures d" let ?f = "promoted_row E now p tid a ?x"
  let ?x' = "?x\<lparr>xd_findings := xd_findings ?x @ [?f]\<rparr>"
  have "known_exposure tid (promotion_key E tid a) (xd_findings ?x @ [?f]) = Some ?f"
    using None by (simp add: known_exposure_def find_append)
  then have run: "promote_surface E now p tid request i d = Inr ((fd_id ?f, True),
      surface_audit now p tid request ''surface.promote'' (Some (sa_id a))
        [(''exposure_finding_id'', JInt (fd_id ?f)), (''asset_type'', JStr (sa_asset_type a))]
        (set_surface ((linked_surface (fd_id ?f) a)\<lparr>sa_status := ''confirmed''\<rparr>) (d\<lparr>sf_exposures := ?x'\<rparr>)))"
    (is "_ = Inr (_, ?d)")
    using assms(1) None promote_flush[OF None] by (simp add: promote_surface_def Let_def del: promoted_sel)
  have "same_tables ?x' (sf_exposures ?d)"
    using surface_audit_sel(3)[of "set_surface ((linked_surface (fd_id ?f) a)\<lparr>sa_status := ''confirmed''\<rparr>) (d\<lparr>sf_exposures := ?x'\<rparr>)"
      now p tid request "''surface.promote''" "Some (sa_id a)"] by simp
  from same_kept[OF this, of tid] promoted_kept[OF assms(2) None] have kept: "exposures_kept tid ?x (sf_exposures ?d)"
    by (simp add: exposures_kept_def)
  show thesis by (rule fresh[OF None _ run]) (use kept in \<open>simp_all add: set_surface_def\<close>)
qed

lemma surface_effect_refl:
  assumes "(surface_change E (sf_brands d) tid)\<^sup>*\<^sup>* (sf_assets d) (sf_assets d')" "sf_brands d' = sf_brands d"
    "same_tables (sf_exposures d) (sf_exposures d')" "exposure_inv (sf_exposures d)"
  shows "surface_effect E tid d d'"
  using assms same_kept[OF assms(3,4)] by (simp add: surface_effect_def)

lemma same_tables_refl [simp]: "same_tables x x"
  by (simp add: same_tables_def)

lemma surface_step_effect:
  assumes "surface_step E mb tid d d'" "surface_inv E d"
  shows "surface_effect E tid d d'"
proof -
  have inv: "surface_rows_ok E (sf_brands d) (sf_assets d)" "exposure_inv (sf_exposures d)"
    using assms(2) by (simp_all add: surface_inv_def)
  show ?thesis
    using assms(1)
  proof cases
    case (step_surface_import now p request brand_id "is" r)
    then obtain ks d1 detail where i: "import_items E now p tid brand_id is d = Inr (ks, d1)" "list_all valid_item is"
      "d' = surface_audit now p tid request ''surface.import'' None detail d1"
      by (auto simp: import_surface_def Let_def split: if_splits)
    from import_items_change[OF i(1,2) inv(1)] surface_audit_sel(3)[of d1 now p tid request "''surface.import''" None detail]
    show ?thesis unfolding i(3) by (intro surface_effect_refl inv(2)) simp_all
  next
    case (step_surface_triage now p request i status a)
    then obtain b where b: "owned_surface d i tid = Inr b" "status \<in> set SURFACE_STATUS"
      by (auto simp: triage_surface_def split: if_splits)
    have "d' = d \<or> (\<exists>detail. d' = surface_audit now p tid request ''surface.triage'' (Some (sa_id b)) detail (set_surface (b\<lparr>sa_status := status\<rparr>) d))"
      using step_surface_triage b by (auto simp: triage_surface_def Let_def split: if_splits)
    then show ?thesis
    proof
      assume "\<exists>detail. d' = surface_audit now p tid request ''surface.triage'' (Some (sa_id b)) detail (set_surface (b\<lparr>sa_status := status\<rparr>) d)"
      then obtain detail where e: "d' = surface_audit now p tid request ''surface.triage'' (Some (sa_id b)) detail
          (set_surface (b\<lparr>sa_status := status\<rparr>) d)" by blast
      have "surface_change E (sf_brands d) tid (sf_assets d) (sf_assets (set_surface (b\<lparr>sa_status := status\<rparr>) d))"
        by (rule edit_change[OF b(1)]) (simp_all add: b(2))
      then show ?thesis
        using surface_audit_sel(3)[of "set_surface (b\<lparr>sa_status := status\<rparr>) d" now p tid request "''surface.triage''" "Some (sa_id b)" detail]
        unfolding e by (intro surface_effect_refl inv(2)) (simp_all add: r_into_rtranclp)
    qed (simp add: surface_effect_refl inv(2))
  next
    case (step_discover nw now p request brand_id c)
    then obtain b where b: "surface_brand d brand_id tid = Inr b" by (auto simp: discover_def)
    obtain c' rows where r: "discover_brand E nw 300 now tid b (sf_assets d) = (c', rows)" by (metis surj_pair)
    obtain detail where e: "d' = surface_audit now p tid request ''surface.discover'' (Some brand_id) detail (d\<lparr>sf_assets := rows\<rparr>)"
      using step_discover b r by (auto simp: discover_def)
    have "brand_in (sf_brands d) tid (Some (br_id b))" using surface_brand_in[OF b] by simp
    from discover_brand_ran[OF inv(1) this, of nw 300 now] r have "(surface_change E (sf_brands d) tid)\<^sup>*\<^sup>* (sf_assets d) rows"
      by (simp add: ran_def)
    then show ?thesis
      using surface_audit_sel(3)[of "d\<lparr>sf_assets := rows\<rparr>" now p tid request "''surface.discover''" "Some brand_id" detail]
      unfolding e by (intro surface_effect_refl inv(2)) simp_all
  next
    case (step_promote now p request i r)
    then obtain a where a: "owned_surface d i tid = Inr a" by (auto simp: promote_surface_def)
    have st: "sa_status a \<in> set SURFACE_STATUS" using status_ok[OF inv(1)] owned_surfaceD[OF a] by blast
    from a inv(2) show ?thesis
    proof (cases rule: promotion_cases[where E = E and now = now and p = p and request = request])
      case (known f)
      have "surface_change E (sf_brands d) tid (sf_assets d) (sf_assets (set_surface (linked_surface (fd_id f) a) d))"
        by (rule edit_change[OF a]) (use st in \<open>simp_all add: linked_surface_def\<close>)
      moreover have "d' = set_surface (linked_surface (fd_id f) a) d" using step_promote known(2) by simp
      ultimately show ?thesis by (intro surface_effect_refl inv(2)) (simp_all add: r_into_rtranclp)
    next
      case (fresh d1 k)
      have "surface_change E (sf_brands d) tid (sf_assets d) (sf_assets (set_surface ((linked_surface k a)\<lparr>sa_status := ''confirmed''\<rparr>) d))"
        by (rule edit_change[OF a]) (simp_all add: SURFACE_STATUS_def)
      moreover have "d' = d1" using step_promote fresh(3) by simp
      ultimately show ?thesis using fresh(5-7) by (simp add: surface_effect_def r_into_rtranclp)
    qed
  next
    case (step_exposures x)
    then show ?thesis using exposure_step_inv exposure_step_foreign inv(2)
      by (simp add: surface_effect_def exposures_kept_def)
  qed
qed

lemma surface_effect_inv: "surface_effect E tid d d' \<Longrightarrow> surface_inv E d \<Longrightarrow> surface_inv E d'"
  using changes_keep[of E "sf_brands d" tid "sf_assets d" "sf_assets d'"]
  by (simp add: surface_effect_def surface_inv_def exposures_kept_def)

interpretation surface_machine: preserved "\<lambda>d d'. \<exists>tid. surface_step E mb tid d d'" "surface_inv E" for E mb
  by unfold_locales (blast intro: surface_effect_inv surface_step_effect)

section \<open>Properties\<close>

definition empty_surface :: "monitored_brand list \<Rightarrow> surface_db" where
  "empty_surface bs = \<lparr>sf_assets = [], sf_brands = bs, sf_exposures = empty_exposures\<rparr>"

lemma empty_surface_inv: "surface_inv E (empty_surface bs)"
  by (simp add: surface_inv_def empty_surface_def surface_rows_ok_def keyed_def unique_on_def empty_exposures_inv)

definition demo_net :: network where
  "demo_net = \<lparr>nw_addresses = \<lambda>h. if h = ''a.x.io'' then Inr (Some [''10.0.0.7'', ''10.0.0.7'']) else Inr None,
     nw_dns = \<lambda>_ _. Inl OtherError, nw_rdap = \<lambda>_. Inl OtherError,
     nw_crtsh = \<lambda>q. Inr \<lparr>rs_status = 200, rs_blank = False,
       rs_json = Inr (if q = ''x.io'' then JList [JObj [(''not_before'', JStr ''2024''), (''serial_number'', JStr ''07'')]]
         else JList [JObj [(''name_value'', JStr ''*.A.x.io'')], JObj [(''name_value'', JStr ''b.y.io'')]])\<rparr>,
     nw_urlhaus = \<lambda>_. Inl OtherError, nw_from_iso = \<lambda>_. Inl OtherError, nw_from_naive_iso = \<lambda>_. Inl OtherError,
     nw_percent = \<lambda>_ _. 0, nw_first = hd, nw_abuse_key = False\<rparr>"

definition demo_surface_brand :: monitored_brand where
  "demo_surface_brand = \<lparr>br_id = 1, br_tenant_id = 1, br_name = ''X'', br_official_domains = '' X.io,'', br_keywords = None,
     br_variations = JNull, br_aliases = JNull, br_products = JNull, br_subdomains = JNull, br_social_profiles = JNull,
     br_sensitive_terms = JNull, br_status = ''active'', mb_logo_url = None, mb_archived_at = None, mb_created_at = 0,
     mb_last_scan_at = None\<rparr>"

definition demo_surface :: surface_db where
  "demo_surface = empty_surface [demo_surface_brand]"

definition demo_discovery :: "(discovery \<times> surface_db) res" where
  "demo_discovery = discover demo_exposure_env demo_net 5 demo_analyst 1 None 1 demo_surface"

lemma demo_discovery_found: "case demo_discovery of Inl _ \<Rightarrow> False
  | Inr (c, d) \<Rightarrow> (dc_created c, dc_deduped c, map sa_value (sf_assets d)) = (4, 0, [''x.io'', ''07'', ''a.x.io'', ''10.0.0.7''])"
  by code_simp

lemma demo_discoveryE:
  obtains c d where "discover demo_exposure_env demo_net 5 demo_analyst 1 None 1 demo_surface = Inr (c, d)"
    "demo_discovery = Inr (c, d)" "dc_created c = 4" "sf_assets d \<noteq> []"
proof -
  obtain r where r: "demo_discovery = Inr r"
  proof (cases demo_discovery)
    case (Inl e)
    from demo_discovery_found[unfolded Inl] show thesis by simp
  qed
  obtain c d where cd: "r = (c, d)" by (cases r)
  from demo_discovery_found[unfolded r cd sum.case prod.case] have "dc_created c = 4" "sf_assets d \<noteq> []" by auto
  with r cd show thesis using that by (simp add: demo_discovery_def)
qed

text \<open>C26 After any sequence of surface and exposure requests of any tenants: a tenant has one row per kind and value,
  kinds, states and sources are known, a row's keys are the hashes of its value, its brand and its parent belong to its
  tenant; the exposure tables keep their invariant, so a promoted finding has one row and no secret in its detail.\<close>

theorem surface_tables_invariant:
  assumes "(\<lambda>d d'. \<exists>tid. surface_step E mb tid d d')\<^sup>*\<^sup>* (empty_surface bs) d"
  shows "surface_inv E d"
  using assms empty_surface_inv by (rule surface_machine.reachable_good)

theorem surface_tables_invariant_witness:
  "case demo_discovery of Inl _ \<Rightarrow> False | Inr (c, d) \<Rightarrow> sf_assets d \<noteq> [] \<and> surface_inv demo_exposure_env d"
proof -
  obtain c d where d: "discover demo_exposure_env demo_net 5 demo_analyst 1 None 1 demo_surface = Inr (c, d)"
    "demo_discovery = Inr (c, d)" "dc_created c = 4" "sf_assets d \<noteq> []" by (rule demo_discoveryE)
  from step_discover[OF d(1)] have "(\<lambda>d d'. \<exists>tid. surface_step demo_exposure_env 1000 tid d d')\<^sup>*\<^sup>*
      (empty_surface [demo_surface_brand]) d" unfolding demo_surface_def by blast
  from surface_tables_invariant[OF this] d(4) show ?thesis unfolding d(2) sum.case prod.case by blast
qed

text \<open>A surface request of a tenant changes no surface asset, brand, finding, batch, dossier or monitored asset of
  another tenant, and never changes what identifies a row: its tenant, kind, value, brand, parent, source and keys.\<close>

theorem surface_tenant_isolation:
  assumes "surface_step E mb tid d d'" "surface_inv E d"
  shows "filter (\<lambda>a. sa_tenant_id a \<noteq> tid) (sf_assets d') = filter (\<lambda>a. sa_tenant_id a \<noteq> tid) (sf_assets d)
    \<and> sf_brands d' = sf_brands d \<and> foreign_exposures tid (sf_exposures d') = foreign_exposures tid (sf_exposures d)
    \<and> prefix (map stable (sf_assets d)) (map stable (sf_assets d'))"
  using surface_step_effect[OF assms] changes_keep[of E "sf_brands d" tid "sf_assets d" "sf_assets d'"] assms(2)
  by (simp add: surface_effect_def exposures_kept_def surface_inv_def)

theorem surface_tenant_isolation_witness:
  "case demo_discovery of Inl _ \<Rightarrow> False | Inr (c, d) \<Rightarrow> filter (\<lambda>a. sa_tenant_id a \<noteq> 1) (sf_assets d) = []"
proof -
  obtain c d where d: "discover demo_exposure_env demo_net 5 demo_analyst 1 None 1 demo_surface = Inr (c, d)"
    "demo_discovery = Inr (c, d)" "dc_created c = 4" "sf_assets d \<noteq> []" by (rule demo_discoveryE)
  have "surface_inv demo_exposure_env demo_surface" unfolding demo_surface_def by (rule empty_surface_inv)
  from surface_tenant_isolation[OF step_discover[OF d(1)] this] show ?thesis unfolding d(2) sum.case prod.case
    by (simp add: demo_surface_def empty_surface_def)
qed

lemma same_keys_no_growth:
  assumes "prefix xs ys" "distinct ys" "set ys \<subseteq> set xs"
  shows "ys = xs"
proof -
  from assms(1) obtain zs where zs: "ys = xs @ zs" by (auto simp: prefix_def)
  with assms(2) have "set zs \<inter> set xs = {}" by auto
  moreover have "set zs \<subseteq> set xs" using assms(3) zs by simp
  ultimately have "set zs = {}" by (metis Int_absorb2)
  with zs show ?thesis by simp
qed

lemma surface_key_factor: "stable a = stable b \<Longrightarrow> surface_key a = surface_key b"
  by (drule stableD(3)[OF sym]) simp

text \<open>C25 Discovery is exact and idempotent: its counters add up to the sightings of the network, one row is created for
  each new one, every sighting has its row, and a second discovery under the same answers creates nothing and
  counts every sighting as known.\<close>

theorem discover_idempotent:
  assumes "surface_inv E d" "surface_brand d brand_id tid = Inr b"
    "discover E nw now p tid request brand_id d = Inr (c, d1)" "discover E nw now' p' tid request' brand_id d1 = Inr (c', d2)"
  shows "dc_created c + dc_deduped c = int (length (brand_sightings nw 300 b))
    \<and> length (sf_assets d1) = length (sf_assets d) + nat (dc_created c)
    \<and> list_all (\<lambda>v. known_surface tid (surface_dedup_key E tid (fst v) (snd v)) (sf_assets d1) \<noteq> None) (brand_sightings nw 300 b)
    \<and> dc_created c' = 0 \<and> dc_deduped c' = dc_created c + dc_deduped c
    \<and> map stable (sf_assets d2) = map stable (sf_assets d1)"
proof -
  let ?vs = "brand_sightings nw 300 b"
  have run: "\<exists>c0 rows. discover_brand E nw 300 n tid b (sf_assets e) = (c0, rows) \<and> c0 = k \<and> sf_assets e' = rows \<and> sf_brands e' = sf_brands e"
    if "discover E nw n q tid rq brand_id e = Inr (k, e')" "sf_brands e = sf_brands d" for n q rq k e e'
  proof -
    have "surface_brand e brand_id tid = Inr b" using assms(2) that(2) by (simp add: surface_brand_def)
    with that show ?thesis by (auto simp: discover_def split: prod.splits)
  qed
  from run[OF assms(3)] have 1: "discover_brand E nw 300 now tid b (sf_assets d) = (c, sf_assets d1)" "sf_brands d1 = sf_brands d" by auto
  from run[OF assms(4) 1(2)] have 2: "discover_brand E nw 300 now' tid b (sf_assets d1) = (c', sf_assets d2)" by auto
  have ok: "surface_rows_ok E (sf_brands d) (sf_assets d)" using assms(1) by (simp add: surface_inv_def)
  have b: "brand_in (sf_brands d) tid (Some (br_id b))" using surface_brand_in[OF assms(2)] by simp
  have r1: "ran E (sf_brands d) tid ?vs (no_discovery, sf_assets d) (c, sf_assets d1)"
    using discover_brand_ran[OF ok b, of nw 300 now] 1(1) by simp
  have ok1: "surface_rows_ok E (sf_brands d) (sf_assets d1)" using ran_keeps(1)[OF r1] ok by simp
  have r2: "ran E (sf_brands d) tid ?vs (no_discovery, sf_assets d1) (c', sf_assets d2)"
    using discover_brand_ran[OF ok1 b, of nw 300 now'] 2 by simp
  note k2 = ran_keeps[OF r2, simplified, OF ok1]
  have keys: "map surface_key (sf_assets d2) = map surface_key (sf_assets d1)"
  proof (rule same_keys_no_growth)
    show "prefix (map surface_key (sf_assets d1)) (map surface_key (sf_assets d2))" by (rule stable_keys(1)[OF k2(2)])
    show "distinct (map surface_key (sf_assets d2))" using k2(1) by (simp add: surface_rows_ok_def unique_on_def)
    show "set (map surface_key (sf_assets d2)) \<subseteq> set (map surface_key (sf_assets d1))" using r1 r2 by (auto simp: ran_def)
  qed
  then have "length (map surface_key (sf_assets d2)) = length (map surface_key (sf_assets d1))" by (rule arg_cong)
  then have len: "length (sf_assets d2) = length (sf_assets d1)" by simp
  then have st: "map stable (sf_assets d2) = map stable (sf_assets d1)" using k2(2) unfolding prefix_def by (metis append_Nil2 append_eq_append_conv length_map)
  have known: "list_all (\<lambda>v. known_surface tid (surface_dedup_key E tid (fst v) (snd v)) (sf_assets d1) \<noteq> None) ?vs"
    using r1 by (auto simp: ran_def list_all_iff known_surface_None sighting_key_def)
  have "prefix (map stable (sf_assets d)) (map stable (sf_assets d1))" using ran_keeps(2)[OF r1] ok by simp
  then have "length (sf_assets d) \<le> length (sf_assets d1)" using prefix_length_le by fastforce
  then have grow: "length (sf_assets d1) = length (sf_assets d) + nat (dc_created c)"
    using r1 by (simp add: ran_def no_discovery_def)
  from r1 r2 len st known grow show ?thesis by (simp add: ran_def no_discovery_def)
qed

lemma demo_again_ok: "case demo_discovery of Inl _ \<Rightarrow> False | Inr (c, d) \<Rightarrow>
   (case discover demo_exposure_env demo_net 9 demo_analyst 1 None 1 d of Inl _ \<Rightarrow> False | Inr (c', d') \<Rightarrow> True)"
  by code_simp

theorem discover_idempotent_witness:
  "case demo_discovery of Inl _ \<Rightarrow> False | Inr (c, d) \<Rightarrow> dc_created c = 4 \<and>
     (case discover demo_exposure_env demo_net 9 demo_analyst 1 None 1 d of Inl _ \<Rightarrow> False | Inr (c', d') \<Rightarrow> dc_created c' = 0 \<and> dc_deduped c' = 4)"
proof -
  obtain c d where d: "discover demo_exposure_env demo_net 5 demo_analyst 1 None 1 demo_surface = Inr (c, d)"
    "demo_discovery = Inr (c, d)" "dc_created c = 4" "sf_assets d \<noteq> []" by (rule demo_discoveryE)
  obtain r where r: "discover demo_exposure_env demo_net 9 demo_analyst 1 None 1 d = Inr r"
    using demo_again_ok unfolding d(2) sum.case prod.case
    by (cases "discover demo_exposure_env demo_net 9 demo_analyst 1 None 1 d") (simp_all only: sum.case)
  obtain c' d' where cd: "r = (c', d')" by (cases r)
  have "surface_inv demo_exposure_env demo_surface" unfolding demo_surface_def by (rule empty_surface_inv)
  moreover have "surface_brand demo_surface 1 1 = Inr demo_surface_brand" by code_simp
  ultimately have "dc_created c' = 0" "dc_deduped c' = dc_created c + dc_deduped c"
    using discover_idempotent[OF _ _ d(1) r[unfolded cd]] by simp_all
  moreover have "dc_deduped c = 0" using demo_discovery_found unfolding d(2) sum.case prod.case by simp
  ultimately show ?thesis using d(3) unfolding d(2) sum.case prod.case r cd by simp
qed

text \<open>C24 Promoting an asset always succeeds and is idempotent: its tenant has exactly one infrastructure finding for it, the
  asset links to that finding, and promoting it again answers the same finding and stores nothing.\<close>

theorem promote_once:
  assumes "surface_inv E d" "owned_surface d i tid = Inr a"
  shows "case promote_surface E now p tid request i d of Inl e \<Rightarrow> False
    | Inr ((k, new), d1) \<Rightarrow>
        new = (known_exposure tid (promotion_key E tid a) (xd_findings (sf_exposures d)) = None)
        \<and> length (xd_findings (sf_exposures d1)) = length (xd_findings (sf_exposures d)) + (if new then 1 else 0)
        \<and> (case known_exposure tid (promotion_key E tid a) (xd_findings (sf_exposures d1)) of None \<Rightarrow> False | Some f \<Rightarrow> fd_id f = k)
        \<and> (case owned_surface d1 i tid of Inl e \<Rightarrow> False | Inr a1 \<Rightarrow> jget (sa_detail a1) ''exposure_finding_id'' = JInt k)
        \<and> (case promote_surface E now' p' tid request' i d1 of Inl e \<Rightarrow> False
           | Inr ((k', new'), d2) \<Rightarrow> k' = k \<and> \<not> new' \<and> sf_exposures d2 = sf_exposures d1)"
proof -
  have x: "exposure_inv (sf_exposures d)" and k: "keyed sa_id (sf_assets d)"
    using assms(1) by (simp_all add: surface_inv_def surface_rows_ok_def)
  note a = owned_surfaceD[OF assms(2)]
  have upd: "owned_surface d1 i tid = Inr a1"
    if "sf_assets d1 = upd_row sa_id (sa_id a1) (\<lambda>_. a1) (sf_assets d)" "stable a1 = stable a" for d1 a1
  proof -
    have e: "sa_id a1 = i" "sa_tenant_id a1 = tid" using stableD(1,2)[OF that(2)] a by simp_all
    have "keyed sa_id (sf_assets d1)" unfolding that(1) by (rule keyed_upd_row_const[OF k]) simp
    moreover have "a1 \<in> set (sf_assets d1)" unfolding that(1) set_upd_row using a e by (auto intro!: image_eqI[of _ _ a])
    ultimately have "find_row sa_id i (sf_assets d1) = Some a1" using e(1) by (simp add: find_row_Some)
    with e(2) show ?thesis by (simp add: owned_surface_def)
  qed
  have again: "promote_surface E now' p' tid request' i d1 = Inr ((fd_id f, False), set_surface (linked_surface (fd_id f) a1) d1)"
    if "owned_surface d1 i tid = Inr a1" "stable a1 = stable a"
      "known_exposure tid (promotion_key E tid a) (xd_findings (sf_exposures d1)) = Some f" for d1 a1 f
    using that stableD[OF that(2)] by (simp add: promote_surface_def Let_def promotion_key_def)
  from assms(2) x show ?thesis
  proof (cases rule: promotion_cases[where E = E and now = now and p = p and request = request])
    case (known f)
    let ?a = "linked_surface (fd_id f) a" let ?d = "set_surface ?a d"
    have o: "owned_surface ?d i tid = Inr ?a" by (rule upd) simp_all
    from again[OF o] known(1) have "promote_surface E now' p' tid request' i ?d = Inr ((fd_id f, False), set_surface (linked_surface (fd_id f) ?a) ?d)"
      by simp
    with known o show ?thesis by (simp add: linked_surface_def)
  next
    case (fresh d1 n)
    let ?a = "(linked_surface n a)\<lparr>sa_status := ''confirmed''\<rparr>"
    have o: "owned_surface d1 i tid = Inr ?a" by (rule upd) (simp_all add: fresh(6))
    have f: "known_exposure tid (promotion_key E tid a) (xd_findings (sf_exposures d1)) = Some (promoted_row E now p tid a (sf_exposures d))"
      using fresh(1) unfolding fresh(4) by (simp add: known_exposure_def find_append)
    from again[OF o _ f] have "promote_surface E now' p' tid request' i d1 = Inr ((n, False), set_surface (linked_surface n ?a) d1)"
      using fresh(2) by simp
    with fresh(1-4) f o show ?thesis by (simp add: linked_surface_def)
  qed
qed

theorem promote_once_witness:
  "case demo_discovery of Inl _ \<Rightarrow> False | Inr (c, d) \<Rightarrow>
     (case promote_surface demo_exposure_env 6 demo_analyst 1 None 4 d of Inl _ \<Rightarrow> False | Inr ((k, new), d1) \<Rightarrow>
        (case promote_surface demo_exposure_env 7 demo_analyst 1 None 4 d1 of Inl _ \<Rightarrow> False | Inr ((k', new'), d2) \<Rightarrow> k' = k \<and> \<not> new'))"
proof -
  obtain c d where d: "discover demo_exposure_env demo_net 5 demo_analyst 1 None 1 demo_surface = Inr (c, d)"
    "demo_discovery = Inr (c, d)" "dc_created c = 4" "sf_assets d \<noteq> []" by (rule demo_discoveryE)
  have "surface_inv demo_exposure_env demo_surface" unfolding demo_surface_def by (rule empty_surface_inv)
  from surface_effect_inv[OF surface_step_effect[OF step_discover[OF d(1), of 1000] this] this]
  have inv: "surface_inv demo_exposure_env d" .
  have "case demo_discovery of Inl _ \<Rightarrow> False | Inr (c, d) \<Rightarrow> (case owned_surface d 4 1 of Inl _ \<Rightarrow> False | Inr _ \<Rightarrow> True)" by code_simp
  then obtain a where a: "owned_surface d 4 1 = Inr a" unfolding d(2) sum.case prod.case
    by (cases "owned_surface d 4 1") (simp_all only: sum.case)
  from promote_once[OF inv a, where now = 6 and now' = 7 and p = demo_analyst and p' = demo_analyst and request = None and request' = None] show ?thesis
    unfolding d(2) sum.case prod.case by (auto split: sum.splits prod.splits)
qed

end
