(* ===== verification/Alerts.thy ===== *)
theory Alerts
  imports Service
begin

text \<open>
  Alert channels and the alert outbox of \<open>app/collection/service.py\<close>. \<open>enqueue_alert\<close> runs in a
  transaction next to others: \<open>race\<close> are the outbox rows concurrent transactions commit between its
  lookup and its insert, which is how the unique index on the idempotency key is hit.
\<close>

section \<open>Channels\<close>

definition create_alert_channel ::
  "(string \<Rightarrow> string) \<Rightarrow> (string \<Rightarrow> bool) \<Rightarrow> ('p, 'c, 'k) registries \<Rightarrow> time \<Rightarrow> int \<Rightarrow> string \<Rightarrow> string
    \<Rightarrow> json dict \<Rightarrow> string option \<Rightarrow> resolver \<Rightarrow> db \<Rightarrow> (channel \<times> db) res \<times> resolver" where
  "create_alert_channel H ipv6_ok regs now tenant_id name channel_type payload actor r d =
     (case require_registered_alert_channel regs channel_type of
        Inl e \<Rightarrow> (Inl e, r)
      | Inr channel_type \<Rightarrow>
          (let split = classify_payload H ipv6_ok payload (Some channel_type) None;
               (refs, split, r') = persist_secrets H r tenant_id (''channel:'' @ name) split;
               ch = (blank_channel now)\<lparr>ch_id := next_id ch_id (db_channels d),
                      ch_tenant_id := tenant_id, ch_name := name, ch_channel_type := channel_type,
                      ch_enabled := False, ch_config_json := sp_config split, ch_secret_refs := refs,
                      ch_secrets_metadata := secrets_metadata split, ch_created_by := actor\<rparr>
           in (flushed ch (d\<lparr>db_channels := db_channels d @ [ch]\<rparr>), r')))"

definition resolve_channel_secret ::
  "(string \<Rightarrow> string option) \<Rightarrow> (string \<Rightarrow> string option) \<Rightarrow> resolver \<Rightarrow> channel \<Rightarrow> string \<Rightarrow> string option" where
  "resolve_channel_secret env secret_file r channel name =
     resolve_secret env secret_file r (ch_secret_refs channel) name"

definition REQUIRED_CHANNEL_CONFIG :: "(string list \<times> string list) dict" where
  "REQUIRED_CHANNEL_CONFIG =
     [(''telegram'', ([''chat_id''], [''bot_token''])),
      (''webhook'', ([], [''webhook_url''])),
      (''email'', ([''smtp_host'', ''smtp_from'', ''smtp_to''], [])),
      (''smtp'', ([''smtp_host'', ''smtp_from'', ''smtp_to''], []))]"

definition assert_channel_ready :: "channel \<Rightarrow> unit res" where
  "assert_channel_ready channel =
     (if ch_deleted_at channel \<noteq> None \<or> \<not> ch_enabled channel
      then Inl (ChannelNotReady ''alert channel is disabled or deleted'')
      else
        let (req_config, req_secrets) =
              (case map_of REQUIRED_CHANNEL_CONFIG (ch_channel_type channel) of
                 None \<Rightarrow> ([], []) | Some rs \<Rightarrow> rs);
            missing_config = filter (\<lambda>k. k \<notin> set (dict_keys (ch_config_json channel))) req_config;
            missing_secrets = filter (\<lambda>k. k \<notin> set (dict_keys (ch_secret_refs channel))) req_secrets
        in if missing_config \<noteq> [] \<or> missing_secrets \<noteq> []
           then Inl (ChannelNotReady (''alert channel is incomplete: config='' @ sorted_keys missing_config
                  @ '', secrets='' @ sorted_keys missing_secrets))
           else Inr ())"

definition enable_alert_channel :: "time \<Rightarrow> int \<Rightarrow> int \<Rightarrow> db \<Rightarrow> (channel \<times> db) res" where
  "enable_alert_channel now tenant_id channel_id d =
     bindr (get_channel tenant_id channel_id d) (\<lambda>channel.
     bindr (assert_channel_ready (channel\<lparr>ch_enabled := True\<rparr>)) (\<lambda>_.
       let f = (\<lambda>c. c\<lparr>ch_enabled := True, ch_updated_at := now\<rparr>)
       in flushed (f channel) (upd_channel (ch_id channel) f d)))"

definition soft_delete_alert_channel ::
  "time \<Rightarrow> int \<Rightarrow> int \<Rightarrow> string option \<Rightarrow> db \<Rightarrow> (channel \<times> db) res" where
  "soft_delete_alert_channel now tenant_id channel_id actor d =
     bindr (get_channel tenant_id channel_id d) (\<lambda>channel.
       let f = (\<lambda>c. c\<lparr>ch_enabled := False, ch_deleted_at := Some now, ch_deleted_by := actor,
                      ch_updated_at := now\<rparr>)
       in flushed (f channel) (upd_channel (ch_id channel) f d))"

section \<open>The outbox\<close>

record enqueue_outcome =
  eo_created :: bool
  eo_outbox_id :: int
  eo_dedup_key :: string
  eo_status :: outbox_status

definition with_dedup_key :: "string \<Rightarrow> db \<Rightarrow> outbox_row option" where
  "with_dedup_key key d = find (\<lambda>r. ob_dedup_key r = key) (db_outbox d)"

definition already_enqueued :: "outbox_row \<Rightarrow> enqueue_outcome" where
  "already_enqueued row = \<lparr>eo_created = False, eo_outbox_id = ob_id row,
     eo_dedup_key = ob_dedup_key row, eo_status = ob_status row\<rparr>"

definition enqueue_alert ::
  "(string \<Rightarrow> string) \<Rightarrow> time \<Rightarrow> outbox_row list \<Rightarrow> int \<Rightarrow> int \<Rightarrow> int \<Rightarrow> string \<Rightarrow> string
    \<Rightarrow> json dict \<Rightarrow> string option \<Rightarrow> db \<Rightarrow> (enqueue_outcome \<times> db) res" where
  "enqueue_alert H now race tenant_id alert_channel_id finding_id template template_version
       payload external_channel_ref d =
     bindr (assert_payload_clean (JObj payload)) (\<lambda>_.
     case find (\<lambda>c. ch_id c = alert_channel_id \<and> ch_deleted_at c = None) (db_channels d) of
       None \<Rightarrow> Inl (NotFound ''alert channel not found'')
     | Some channel \<Rightarrow>
       if ch_tenant_id channel \<noteq> tenant_id
       then Inl (TenantMismatch ''alert channel belongs to a different tenant'')
       else bindr (assert_channel_ready channel) (\<lambda>_.
       case find_row fd_id finding_id (db_findings d) of
         None \<Rightarrow> Inl (NotFound ''finding not found'')
       | Some finding \<Rightarrow>
         if fd_tenant_id finding \<noteq> tenant_id
         then Inl (TenantMismatch ''finding belongs to a different tenant'')
         else
           let dedup_key = compute_dedup_key H tenant_id (JInt finding_id) alert_channel_id template
                 (JStr template_version) in
           case with_dedup_key dedup_key d of
             Some existing \<Rightarrow> Inr (already_enqueued existing, d)
           | None \<Rightarrow>
             let d1 = d\<lparr>db_outbox := db_outbox d @ race\<rparr>;
                 row = (blank_outbox now)\<lparr>ob_id := next_id ob_id (db_outbox d1),
                   ob_tenant_id := tenant_id, ob_alert_channel_id := alert_channel_id,
                   ob_finding_id := Some finding_id, ob_external_channel_ref := external_channel_ref,
                   ob_template := template, ob_template_version := template_version,
                   ob_dedup_key := dedup_key, ob_status := Out_pending, ob_attempts := 0,
                   ob_payload_json := payload\<rparr>
             in case flush (d1\<lparr>db_outbox := db_outbox d1 @ [row]\<rparr>) of
                  Inl e \<Rightarrow> (case with_dedup_key dedup_key d1 of
                      None \<Rightarrow> Inl e
                    | Some existing \<Rightarrow> Inr (already_enqueued existing, d1))
                | Inr d' \<Rightarrow>
                    Inr (\<lparr>eo_created = True, eo_outbox_id = ob_id row, eo_dedup_key = dedup_key,
                          eo_status = Out_pending\<rparr>, d')))"

definition mark_delivered :: "time \<Rightarrow> int \<Rightarrow> int \<Rightarrow> db \<Rightarrow> (outbox_row \<times> db) res" where
  "mark_delivered now tenant_id outbox_id d =
     bindr (get_outbox tenant_id outbox_id d) (\<lambda>row.
       let f = (\<lambda>r. r\<lparr>ob_status := Out_delivered, ob_delivered_at := Some now, ob_error_code := None,
                      ob_updated_at := now\<rparr>)
       in flushed (f row) (upd_outbox (ob_id row) f d))"

definition failed_outbox :: "time \<Rightarrow> string \<Rightarrow> bool \<Rightarrow> outbox_row \<Rightarrow> outbox_row" where
  "failed_outbox now error_code dead_letter r =
     (let r1 = r\<lparr>ob_attempts := ob_attempts r + 1, ob_error_code := Some (take 60 error_code),
                ob_updated_at := now\<rparr>
      in if dead_letter then r1\<lparr>ob_status := Out_dead_letter\<rparr>
         else r1\<lparr>ob_status := Out_failed,
                 ob_next_attempt_at := Some (next_backoff (ob_attempts r1) 30 3600 now)\<rparr>)"

definition mark_failed :: "time \<Rightarrow> int \<Rightarrow> int \<Rightarrow> string \<Rightarrow> bool \<Rightarrow> db \<Rightarrow> (outbox_row \<times> db) res" where
  "mark_failed now tenant_id outbox_id error_code dead_letter d =
     bindr (get_outbox tenant_id outbox_id d) (\<lambda>row.
       flushed (failed_outbox now error_code dead_letter row)
         (upd_outbox (ob_id row) (failed_outbox now error_code dead_letter) d))"

section \<open>What an accepted notification satisfies\<close>

lemma with_dedup_key_None: "with_dedup_key k d = None \<longleftrightarrow> k \<notin> ob_dedup_key ` set (db_outbox d)"
  by (auto simp: with_dedup_key_def find_None_iff)

lemma with_dedup_key_Some: "with_dedup_key k d = Some r \<Longrightarrow> r \<in> set (db_outbox d) \<and> ob_dedup_key r = k"
  by (auto simp: with_dedup_key_def find_Some_iff)

lemma find_conjD: "find P xs = Some x \<Longrightarrow> x \<in> set xs \<and> P x"
  by (auto simp: find_Some_iff)

text \<open>The scope checks, on every accepting path.\<close>

lemma enqueue_alert_scope:
  assumes "enqueue_alert H now race tenant cid fid tpl tv payload ext d = Inr (out, d')"
  shows "assert_payload_clean (JObj payload) = Inr ()"
    and "\<exists>ch. ch \<in> set (db_channels d) \<and> ch_id ch = cid \<and> ch_tenant_id ch = tenant
           \<and> assert_channel_ready ch = Inr ()"
    and "\<exists>f. f \<in> set (db_findings d) \<and> fd_id f = fid \<and> fd_tenant_id f = tenant"
    and "eo_dedup_key out = compute_dedup_key H tenant (JInt fid) cid tpl (JStr tv)"
  using assms
  by (auto simp: enqueue_alert_def Let_def already_enqueued_def
      split: option.splits if_splits sum.splits
      dest!: find_conjD find_row_SomeD with_dedup_key_Some)

lemma assert_channel_ready_live:
  "assert_channel_ready ch = Inr () \<Longrightarrow> ch_enabled ch \<and> ch_deleted_at ch = None"
  by (auto simp: assert_channel_ready_def split: if_splits)

text \<open>Exactly one row carries the key afterwards, whatever the other transactions did.\<close>

lemma enqueue_alert_row:
  assumes "enqueue_alert H now race tenant cid fid tpl tv payload ext d = Inr (out, d')"
  shows "\<exists>r \<in> set (db_outbox d'). ob_dedup_key r = eo_dedup_key out \<and> ob_id r = eo_outbox_id out
     \<and> ob_status r = eo_status out"
  using assms
  by (auto simp: enqueue_alert_def Let_def already_enqueued_def
      split: option.splits if_splits sum.splits
      dest!: with_dedup_key_Some)

lemma enqueue_alert_frame:
  assumes "enqueue_alert H now race tenant cid fid tpl tv payload ext d = Inr (out, d')"
  shows "d' = d\<lparr>db_outbox := db_outbox d'\<rparr>"
    and "db_outbox d' = db_outbox d \<or> db_outbox d' = db_outbox d @ race
       \<or> (\<exists>r. db_outbox d' = db_outbox d @ race @ [r] \<and> ob_status r = Out_pending
              \<and> ob_tenant_id r = tenant \<and> ob_payload_json r = payload)"
  using assms
  by (auto simp: enqueue_alert_def Let_def split: option.splits if_splits sum.splits)

section \<open>Properties\<close>

lemma with_dedup_key_unique:
  assumes "indexes_ok d" "r \<in> set (db_outbox d)"
  shows "with_dedup_key (ob_dedup_key r) d = Some r"
proof -
  have u: "unique_on (\<lambda>_. True) ob_dedup_key (db_outbox d)" using assms(1) by (simp add: indexes_ok_def)
  have "with_dedup_key (ob_dedup_key r) d \<noteq> None" using assms(2) by (auto simp: with_dedup_key_None)
  then obtain r' where r': "with_dedup_key (ob_dedup_key r) d = Some r'" by blast
  with unique_onD [OF u _ assms(2)] with_dedup_key_Some [OF r'] show ?thesis by auto
qed

lemma enqueue_alert_found:
  assumes "enqueue_alert H now race t c f tpl tv payload ext d = Inr (out, d')"
  shows "\<exists>r. with_dedup_key (eo_dedup_key out) d' = Some r \<and> ob_id r = eo_outbox_id out \<and> ob_status r = eo_status out"
proof (cases "indexes_ok d'")
  case True
  with enqueue_alert_row [OF assms] show ?thesis by (metis with_dedup_key_unique)
next
  case False
  with assms have "\<exists>r. with_dedup_key (compute_dedup_key H t (JInt f) c tpl (JStr tv)) d' = Some r \<and> out = already_enqueued r"
    by (auto simp: enqueue_alert_def Let_def split: option.splits if_splits sum.splits)
  moreover have "eo_dedup_key out = compute_dedup_key H t (JInt f) c tpl (JStr tv)"
    by (rule enqueue_alert_scope [OF assms])
  ultimately have "\<exists>r. with_dedup_key (eo_dedup_key out) d' = Some r \<and> out = already_enqueued r" by simp
  then show ?thesis by (auto simp: already_enqueued_def)
qed

lemma enqueue_alert_tables:
  assumes "enqueue_alert H now race t c f tpl tv payload ext d = Inr (out, d')"
  shows "db_channels d' = db_channels d" "db_findings d' = db_findings d"
  by (subst enqueue_alert_frame(1) [OF assms], simp)+

text \<open>Enqueuing is idempotent: repeating an accepted notification, at any later time and with any other
  transactions in between it and the insert, creates nothing, reports the same row and leaves the
  database as the first call left it.\<close>

theorem enqueue_idempotent:
  assumes "enqueue_alert H now race t c f tpl tv payload ext d = Inr (out, d')"
  shows "enqueue_alert H now' race' t c f tpl tv payload ext' d' = Inr (out\<lparr>eo_created := False\<rparr>, d')"
proof -
  obtain r where r: "with_dedup_key (eo_dedup_key out) d' = Some r" "ob_id r = eo_outbox_id out" "ob_status r = eo_status out"
    using enqueue_alert_found [OF assms] by blast
  have k: "ob_dedup_key r = eo_dedup_key out" using with_dedup_key_Some [OF r(1)] by simp
  have key: "eo_dedup_key out = compute_dedup_key H t (JInt f) c tpl (JStr tv)"
    by (rule enqueue_alert_scope [OF assms])
  note tables = enqueue_alert_tables [OF assms]
  have "already_enqueued r = out\<lparr>eo_created := False\<rparr>"
    using r k by (simp add: already_enqueued_def)
  with assms r(1) show ?thesis
    unfolding enqueue_alert_def Let_def tables key
    by (auto split: option.splits if_splits)
qed

definition demo_db :: db where
  "demo_db = empty_db\<lparr>db_channels := [(blank_channel 0)\<lparr>ch_id := 1, ch_tenant_id := 7, ch_name := ''ops'',
       ch_channel_type := ''webhook'', ch_enabled := True, ch_secret_refs := [(''webhook_url'', ''secretref://mem/1'')]\<rparr>],
     db_findings := [(blank_finding 0)\<lparr>fd_id := 5, fd_tenant_id := 7\<rparr>]\<rparr>"

theorem enqueue_idempotent_witness:
  "\<exists>out d'. enqueue_alert id 0 [] 7 1 5 ''finding'' ''1'' [] None demo_db = Inr (out, d')
     \<and> enqueue_alert id 9 [] 7 1 5 ''finding'' ''1'' [] None d' = Inr (out\<lparr>eo_created := False\<rparr>, d')"
proof -
  have "\<exists>out d'. enqueue_alert id 0 [] 7 1 5 ''finding'' ''1'' [] None demo_db = Inr (out, d')"
    by (simp add: enqueue_alert_def demo_db_def empty_db_def assert_payload_clean_def dict_keys_def Let_def
      blank_channel_def blank_finding_def find_row_def assert_channel_ready_def REQUIRED_CHANNEL_CONFIG_def with_dedup_key_def
      flush_def indexes_ok_def unique_on_def)
  with enqueue_idempotent [of id 0 "[]" 7 1 5 "''finding''" "''1''" "[]" None demo_db _ _ 9 "[]" None]
  show ?thesis by blast
qed

text \<open>An accepted notification stays in its tenant: the channel and the finding it names belong to the
  tenant, the channel is enabled and complete, the payload satisfies the contract, and a row with the
  reported key and id is in the outbox.\<close>

theorem enqueue_scoped:
  assumes "enqueue_alert H now race t c f tpl tv payload ext d = Inr (out, d')"
  shows "(\<exists>ch \<in> set (db_channels d'). ch_id ch = c \<and> ch_tenant_id ch = t \<and> ch_enabled ch \<and> ch_deleted_at ch = None)
    \<and> (\<exists>fd \<in> set (db_findings d'). fd_id fd = f \<and> fd_tenant_id fd = t)
    \<and> assert_payload_clean (JObj payload) = Inr ()
    \<and> (\<exists>r \<in> set (db_outbox d'). ob_dedup_key r = eo_dedup_key out \<and> ob_id r = eo_outbox_id out)"
proof -
  note tables = enqueue_alert_tables [OF assms]
  show ?thesis
    using enqueue_alert_scope [OF assms] enqueue_alert_row [OF assms]
    unfolding tables by (blast dest: assert_channel_ready_live)
qed

theorem enqueue_scoped_witness:
  "\<exists>out d'. enqueue_alert id 0 [] 7 1 5 ''finding'' ''1'' [] None demo_db = Inr (out, d')
     \<and> (\<exists>fd \<in> set (db_findings d'). fd_id fd = 5 \<and> fd_tenant_id fd = 7)"
proof -
  have "\<exists>out d'. enqueue_alert id 0 [] 7 1 5 ''finding'' ''1'' [] None demo_db = Inr (out, d')"
    by (simp add: enqueue_alert_def demo_db_def empty_db_def assert_payload_clean_def dict_keys_def Let_def
      blank_channel_def blank_finding_def find_row_def assert_channel_ready_def REQUIRED_CHANNEL_CONFIG_def with_dedup_key_def
      flush_def indexes_ok_def unique_on_def)
  with enqueue_scoped [of id 0 "[]" 7 1 5 "''finding''" "''1''" "[]" None demo_db] show ?thesis by blast
qed

end
