(* ===== verification/ServiceSteps.thy ===== *)
theory ServiceSteps
  imports Alerts
begin

text \<open>
  The services as one machine: an operation with its arguments is a \<open>svc_op\<close>, \<open>svc_exec\<close> runs it
  for a tenant, and \<open>svc_step\<close> is one request of any tenant (a request that raises is rolled back,
  what it gave the secret resolver stays there). The invariant \<open>svc_inv\<close> is what the rows satisfy
  after any sequence of requests.
\<close>

datatype svc_op =
    CreateConnection string string "json dict" "string dict" "string option"
  | BindIdentity int provider_identity bool
  | RevokeConnection int "string option"
  | SoftDeleteConnection int "string option"
  | SetConnectionEnabled int bool
  | SetConnectionHealth int "json dict"
  | CreateSource int string string "string option" "string option"
  | SetSourceEnabled int bool
  | SoftDeleteSource int "string option"
  | RequestSourceTest string int "int option" int "string option"
  | CreateAlertChannel string string "json dict" "string option"
  | EnableAlertChannel int
  | SoftDeleteAlertChannel int "string option"
  | EnqueueAlert int int string string "json dict" "string option"
  | MarkDelivered int
  | MarkFailed int string bool

definition snd_res :: "('a \<times> 'b) res \<Rightarrow> 'b res" where
  "snd_res r = bindr r (\<lambda>(x, y). Inr y)"

record 'r svc_env =
  se_hash :: "string \<Rightarrow> string"
  se_ipv6 :: "string \<Rightarrow> bool"
  se_regs :: 'r

fun svc_exec :: "(('p, 'c, 'k) registries) svc_env \<Rightarrow> time \<Rightarrow> int \<Rightarrow> svc_op \<Rightarrow> resolver \<times> db \<Rightarrow> db res \<times> resolver" where
  "svc_exec E now t (CreateConnection provider name payload refs actor) (r, d) =
     (let (res, r') = create_connection (se_hash E) (se_ipv6 E) (se_regs E) now t provider name payload refs actor r d
      in (snd_res res, r'))"
| "svc_exec E now t (BindIdentity c identity enable) (r, d) = (snd_res (bind_bot_identity now t c identity enable d), r)"
| "svc_exec E now t (RevokeConnection c actor) (r, d) = (snd_res (revoke_connection now t c actor d), r)"
| "svc_exec E now t (SoftDeleteConnection c actor) (r, d) = (snd_res (soft_delete_connection now t c actor d), r)"
| "svc_exec E now t (SetConnectionEnabled c b) (r, d) = (snd_res (set_connection_enabled now t c b d), r)"
| "svc_exec E now t (SetConnectionHealth c h) (r, d) = (snd_res (set_connection_health now t c h d), r)"
| "svc_exec E now t (CreateSource c sref kind name actor) (r, d) = (snd_res (create_source now t c sref kind name actor d), r)"
| "svc_exec E now t (SetSourceEnabled s b) (r, d) = (snd_res (set_source_enabled now t s b d), r)"
| "svc_exec E now t (SoftDeleteSource s actor) (r, d) = (snd_res (soft_delete_source now t s actor d), r)"
| "svc_exec E now t (RequestSourceTest nonce c s ttl actor) (r, d) =
     (snd_res (request_source_test (se_hash E) nonce now t c s ttl actor d), r)"
| "svc_exec E now t (CreateAlertChannel name ct payload actor) (r, d) =
     (let (res, r') = create_alert_channel (se_hash E) (se_ipv6 E) (se_regs E) now t name ct payload actor r d
      in (snd_res res, r'))"
| "svc_exec E now t (EnableAlertChannel c) (r, d) = (snd_res (enable_alert_channel now t c d), r)"
| "svc_exec E now t (SoftDeleteAlertChannel c actor) (r, d) = (snd_res (soft_delete_alert_channel now t c actor d), r)"
| "svc_exec E now t (EnqueueAlert c f tpl tv payload ext) (r, d) =
     (snd_res (enqueue_alert (se_hash E) now [] t c f tpl tv payload ext d), r)"
| "svc_exec E now t (MarkDelivered i) (r, d) = (snd_res (mark_delivered now t i d), r)"
| "svc_exec E now t (MarkFailed i code dead) (r, d) = (snd_res (mark_failed now t i code dead d), r)"

definition svc_next :: "(('p, 'c, 'k) registries) svc_env \<Rightarrow> time \<Rightarrow> int \<Rightarrow> svc_op \<Rightarrow> resolver \<times> db \<Rightarrow> resolver \<times> db" where
  "svc_next E now t op s = (case svc_exec E now t op s of
       (Inl e, r') \<Rightarrow> (r', snd s) | (Inr d', r') \<Rightarrow> (r', d'))"

inductive svc_step :: "(('p, 'c, 'k) registries) svc_env \<Rightarrow> resolver \<times> db \<Rightarrow> resolver \<times> db \<Rightarrow> bool"
  for E where
  svc_step_intro: "svc_step E s (svc_next E now t op s)"

inductive_cases svc_stepE: "svc_step E s s'"

section \<open>Tenant isolation\<close>

text \<open>Everything the collection tables hold of the other tenants.\<close>

definition others ::
  "int \<Rightarrow> db \<Rightarrow> connection list \<times> source list \<times> test_request list \<times> channel list \<times> outbox_row list" where
  "others t d = (filter (\<lambda>c. cn_tenant_id c \<noteq> t) (db_connections d),
     filter (\<lambda>s. sr_tenant_id s \<noteq> t) (db_sources d), filter (\<lambda>r. tr_tenant_id r \<noteq> t) (db_tests d),
     filter (\<lambda>c. ch_tenant_id c \<noteq> t) (db_channels d), filter (\<lambda>r. ob_tenant_id r \<noteq> t) (db_outbox d))"

definition beyond :: "db \<Rightarrow> event list \<times> finding list \<times> inv_case list \<times> tenant list" where
  "beyond d = (db_events d, db_findings d, db_cases d, db_tenants d)"

lemma upd_row_others:
  assumes "keyed rid rs" "x \<in> set rs" "rid x = i" "ten x = t" "\<And>r. ten (f r) = ten r"
  shows "filter (\<lambda>r. ten r \<noteq> t) (upd_row rid i f rs) = filter (\<lambda>r. ten r \<noteq> t) rs"
  using assms(1-4)
proof (induction rs)
  case Nil
  then show ?case by simp
next
  case (Cons r rs)
  have unchanged: "upd_row rid i f rs = rs" if "rid r = i"
    using Cons.prems(1) that unfolding upd_row_def keyed_def by (intro map_idI) (auto simp: image_iff)
  show ?case
  proof (cases "x = r")
    case True
    with Cons.prems unchanged assms(5) show ?thesis by (auto simp: upd_row_def)
  next
    case False
    with Cons.prems have "x \<in> set rs" by simp
    with Cons.prems have "rid r \<noteq> i" by (auto simp: keyed_def)
    with Cons \<open>x \<in> set rs\<close> show ?thesis by (auto simp: upd_row_def keyed_def)
  qed
qed

lemma get_connection_Inr:
  "get_connection t i d = Inr c \<Longrightarrow>
     c \<in> set (db_connections d) \<and> cn_id c = i \<and> cn_tenant_id c = t \<and> cn_deleted_at c = None"
  by (auto simp: get_connection_def split: option.splits dest: find_conjD)

lemma get_source_Inr:
  "get_source t i d = Inr s \<Longrightarrow>
     s \<in> set (db_sources d) \<and> sr_id s = i \<and> sr_tenant_id s = t \<and> sr_deleted_at s = None"
  by (auto simp: get_source_def split: option.splits dest: find_conjD)

lemma get_channel_Inr:
  "get_channel t i d = Inr c \<Longrightarrow>
     c \<in> set (db_channels d) \<and> ch_id c = i \<and> ch_tenant_id c = t \<and> ch_deleted_at c = None"
  by (auto simp: get_channel_def split: option.splits dest: find_conjD)

lemma get_outbox_Inr:
  "get_outbox t i d = Inr r \<Longrightarrow> r \<in> set (db_outbox d) \<and> ob_id r = i \<and> ob_tenant_id r = t"
  by (auto simp: get_outbox_def split: option.splits dest: find_conjD)

lemma snd_res_Inr [simp]: "snd_res r = Inr y \<longleftrightarrow> (\<exists>x. r = Inr (x, y))"
  by (auto simp: snd_res_def)

section \<open>The row invariant\<close>

text \<open>
  A connection is active exactly when it is enabled, an enabled one has a verified identity, a
  deleted one is revoked; its configuration holds no field the classification calls secret, apart
  from the two entries the services write themselves; its secrets are references.
\<close>

definition is_secretref :: "string \<Rightarrow> bool" where
  "is_secretref r = startswith r ''secretref://''"

definition conn_ok :: "(string \<Rightarrow> bool) \<Rightarrow> connection \<Rightarrow> bool" where
  "conn_ok ip c =
     ((cn_enabled c \<longleftrightarrow> cn_status c = Conn_active)
      \<and> (cn_enabled c \<longrightarrow> cn_provider_account_ref c \<noteq> None \<and> cn_deleted_at c = None)
      \<and> (cn_deleted_at c \<noteq> None \<longrightarrow> cn_status c = Conn_revoked)
      \<and> (\<forall>(k, v) \<in> set (cn_config_json c). k = ''bot_username'' \<or> k = ''_health''
            \<or> field_kind ip (allowed_config None (Some (cn_provider c))) (norm k) v = None)
      \<and> (\<forall>(k, r) \<in> set (cn_secret_refs c). is_secretref r))"

definition source_ok :: "db \<Rightarrow> source \<Rightarrow> bool" where
  "source_ok d s =
     ((sr_enabled s \<longleftrightarrow> sr_status s = Src_active) \<and> (sr_deleted_at s \<noteq> None \<longrightarrow> \<not> sr_enabled s)
      \<and> (\<exists>c \<in> set (db_connections d). cn_id c = sr_connection_id s \<and> cn_tenant_id c = sr_tenant_id s
            \<and> cn_provider c = sr_provider s))"

definition test_ok :: "db \<Rightarrow> test_request \<Rightarrow> bool" where
  "test_ok d r = (\<exists>c \<in> set (db_connections d). cn_id c = tr_connection_id r
      \<and> cn_tenant_id c = tr_tenant_id r \<and> cn_provider c = tr_provider r)"

definition channel_ok :: "(string \<Rightarrow> bool) \<Rightarrow> channel \<Rightarrow> bool" where
  "channel_ok ip c =
     ((ch_enabled c \<longrightarrow> assert_channel_ready c = Inr ())
      \<and> (\<forall>(k, v) \<in> set (ch_config_json c).
            field_kind ip (allowed_config (Some (ch_channel_type c)) None) (norm k) v = None)
      \<and> (\<forall>(k, r) \<in> set (ch_secret_refs c). is_secretref r))"

definition outbox_ok :: "db \<Rightarrow> outbox_row \<Rightarrow> bool" where
  "outbox_ok d r =
     (assert_payload_clean (JObj (ob_payload_json r)) = Inr ()
      \<and> (\<exists>c \<in> set (db_channels d). ch_id c = ob_alert_channel_id r \<and> ch_tenant_id c = ob_tenant_id r)
      \<and> (\<exists>f \<in> set (db_findings d). Some (fd_id f) = ob_finding_id r \<and> fd_tenant_id f = ob_tenant_id r))"

definition rows_ok :: "(string \<Rightarrow> bool) \<Rightarrow> db \<Rightarrow> bool" where
  "rows_ok ip d =
     ((\<forall>c \<in> set (db_connections d). conn_ok ip c) \<and> (\<forall>s \<in> set (db_sources d). source_ok d s)
      \<and> (\<forall>r \<in> set (db_tests d). test_ok d r) \<and> (\<forall>c \<in> set (db_channels d). channel_ok ip c)
      \<and> (\<forall>r \<in> set (db_outbox d). outbox_ok d r))"

section \<open>Effects\<close>

text \<open>
  The shape of every successful operation: one row of the tenant appended to a table, or the row
  of the tenant with a given key rewritten without changing its key or its owner.
\<close>

inductive svc_effect :: "(string \<Rightarrow> bool) \<Rightarrow> int \<Rightarrow> db \<Rightarrow> db \<Rightarrow> bool" for ip t d where
  new_connection: "cn_tenant_id c = t \<Longrightarrow> cn_id c = next_id cn_id (db_connections d) \<Longrightarrow> conn_ok ip c \<Longrightarrow>
     svc_effect ip t d (d\<lparr>db_connections := db_connections d @ [c]\<rparr>)"
| set_connection: "c \<in> set (db_connections d) \<Longrightarrow> cn_tenant_id c = t \<Longrightarrow>
     (\<And>c. cn_id (f c) = cn_id c \<and> cn_tenant_id (f c) = cn_tenant_id c \<and> cn_provider (f c) = cn_provider c) \<Longrightarrow>
     (conn_ok ip c \<Longrightarrow> conn_ok ip (f c)) \<Longrightarrow>
     svc_effect ip t d (upd_connection (cn_id c) f d)"
| new_source: "sr_tenant_id s = t \<Longrightarrow> sr_id s = next_id sr_id (db_sources d) \<Longrightarrow> source_ok d s \<Longrightarrow>
     svc_effect ip t d (d\<lparr>db_sources := db_sources d @ [s]\<rparr>)"
| set_source: "s \<in> set (db_sources d) \<Longrightarrow> sr_tenant_id s = t \<Longrightarrow>
     (\<And>s. sr_id (f s) = sr_id s \<and> sr_tenant_id (f s) = sr_tenant_id s) \<Longrightarrow>
     (source_ok d s \<Longrightarrow> source_ok d (f s)) \<Longrightarrow>
     svc_effect ip t d (upd_source (sr_id s) f d)"
| new_test: "tr_tenant_id r = t \<Longrightarrow> tr_id r = next_id tr_id (db_tests d) \<Longrightarrow> test_ok d r \<Longrightarrow>
     svc_effect ip t d (d\<lparr>db_tests := db_tests d @ [r]\<rparr>)"
| new_channel: "ch_tenant_id c = t \<Longrightarrow> ch_id c = next_id ch_id (db_channels d) \<Longrightarrow> channel_ok ip c \<Longrightarrow>
     svc_effect ip t d (d\<lparr>db_channels := db_channels d @ [c]\<rparr>)"
| set_channel: "c \<in> set (db_channels d) \<Longrightarrow> ch_tenant_id c = t \<Longrightarrow>
     (\<And>c. ch_id (f c) = ch_id c \<and> ch_tenant_id (f c) = ch_tenant_id c) \<Longrightarrow>
     (channel_ok ip c \<Longrightarrow> channel_ok ip (f c)) \<Longrightarrow>
     svc_effect ip t d (upd_channel (ch_id c) f d)"
| new_outbox: "ob_tenant_id r = t \<Longrightarrow> ob_id r = next_id ob_id (db_outbox d) \<Longrightarrow> outbox_ok d r \<Longrightarrow>
     svc_effect ip t d (d\<lparr>db_outbox := db_outbox d @ [r]\<rparr>)"
| set_outbox: "r \<in> set (db_outbox d) \<Longrightarrow> ob_tenant_id r = t \<Longrightarrow>
     (\<And>r. ob_id (f r) = ob_id r \<and> ob_tenant_id (f r) = ob_tenant_id r) \<Longrightarrow>
     (outbox_ok d r \<Longrightarrow> outbox_ok d (f r)) \<Longrightarrow>
     svc_effect ip t d (upd_outbox (ob_id r) f d)"
| no_change: "svc_effect ip t d d"

lemma keyed_append_next: "keyed rid rs \<Longrightarrow> rid r = next_id rid rs \<Longrightarrow> keyed rid (rs @ [r])"
  by (rule keyed_append)

lemma svc_effect_keys: "svc_effect ip t d d' \<Longrightarrow> keys_ok d \<Longrightarrow> keys_ok d'"
  by (induction rule: svc_effect.induct)
    (auto simp: keys_ok_def upd_defs keyed_upd_row keyed_append_next)

lemma svc_effect_others: "svc_effect ip t d d' \<Longrightarrow> keys_ok d \<Longrightarrow> others t d' = others t d \<and> beyond d' = beyond d"
  by (induction rule: svc_effect.induct)
    (auto simp: keys_ok_def others_def beyond_def upd_defs intro!: upd_row_others)

lemma upd_row_all:
  assumes "keyed rid rs" "x \<in> set rs" "\<forall>r \<in> set rs. P r" "P x \<Longrightarrow> P (f x)"
  shows "\<forall>r \<in> set (upd_row rid (rid x) f rs). P r"
proof
  fix r
  assume "r \<in> set (upd_row rid (rid x) f rs)"
  then obtain y where y: "y \<in> set rs" "r = (if rid y = rid x then f y else y)"
    by (auto simp: set_upd_row)
  show "P r"
  proof (cases "rid y = rid x")
    case True
    with assms(1,2) y(1) have "y = x" by (auto simp: keyed_def distinct_map inj_on_def)
    with True y assms show ?thesis by auto
  next
    case False
    with y assms(3) show ?thesis by auto
  qed
qed

lemma upd_row_ex:
  "\<exists>c \<in> set rs. P c \<Longrightarrow> (\<And>c. P c \<Longrightarrow> P (f c)) \<Longrightarrow> \<exists>c \<in> set (upd_row rid i f rs). P c"
  unfolding set_upd_row by auto

lemma svc_effect_rows: "svc_effect ip t d d' \<Longrightarrow> keys_ok d \<Longrightarrow> rows_ok ip d \<Longrightarrow> rows_ok ip d'"
proof (induction rule: svc_effect.induct)
  case (set_connection c f)
  have k: "keyed cn_id (db_connections d)" using set_connection.prems(1) by (simp add: keys_ok_def)
  have "\<forall>c \<in> set (upd_row cn_id (cn_id c) f (db_connections d)). conn_ok ip c"
    using set_connection by (intro upd_row_all [OF k]) (auto simp: rows_ok_def)
  moreover have "\<exists>c \<in> set (upd_row cn_id (cn_id c) f (db_connections d)). cn_id c = i \<and> cn_tenant_id c = t' \<and> cn_provider c = p"
    if "\<exists>c \<in> set (db_connections d). cn_id c = i \<and> cn_tenant_id c = t' \<and> cn_provider c = p" for i t' p
    using that set_connection(3) by (intro upd_row_ex) auto
  ultimately show ?case
    using set_connection.prems(2)
    by (auto simp: rows_ok_def upd_connection_def source_ok_def test_ok_def outbox_ok_def)
next
  case (set_source s f)
  have k: "keyed sr_id (db_sources d)" using set_source.prems(1) by (simp add: keys_ok_def)
  have "\<forall>s \<in> set (upd_row sr_id (sr_id s) f (db_sources d)). source_ok d s"
    using set_source by (intro upd_row_all [OF k]) (auto simp: rows_ok_def)
  then show ?case
    using set_source.prems(2)
    by (auto simp: rows_ok_def upd_source_def source_ok_def test_ok_def outbox_ok_def)
next
  case (set_channel c f)
  have k: "keyed ch_id (db_channels d)" using set_channel.prems(1) by (simp add: keys_ok_def)
  have "\<forall>c \<in> set (upd_row ch_id (ch_id c) f (db_channels d)). channel_ok ip c"
    using set_channel by (intro upd_row_all [OF k]) (auto simp: rows_ok_def)
  moreover have "\<exists>c \<in> set (upd_row ch_id (ch_id c) f (db_channels d)). ch_id c = i \<and> ch_tenant_id c = t'"
    if "\<exists>c \<in> set (db_channels d). ch_id c = i \<and> ch_tenant_id c = t'" for i t'
    using that set_channel(3) by (intro upd_row_ex) auto
  ultimately show ?case
    using set_channel.prems(2)
    by (auto simp: rows_ok_def upd_channel_def source_ok_def test_ok_def outbox_ok_def)
next
  case (set_outbox r f)
  have k: "keyed ob_id (db_outbox d)" using set_outbox.prems(1) by (simp add: keys_ok_def)
  have "\<forall>r \<in> set (upd_row ob_id (ob_id r) f (db_outbox d)). outbox_ok d r"
    using set_outbox by (intro upd_row_all [OF k]) (auto simp: rows_ok_def)
  then show ?case
    using set_outbox.prems(2)
    by (auto simp: rows_ok_def upd_outbox_def source_ok_def test_ok_def outbox_ok_def)
qed (auto simp: rows_ok_def source_ok_def test_ok_def outbox_ok_def)

text \<open>Every operation that returns has such an effect, and has passed the unique indexes.\<close>

lemmas svc_defs = create_connection_def bind_bot_identity_def revoke_connection_def
  soft_delete_connection_def set_connection_enabled_def set_connection_health_def
  create_source_def set_source_enabled_def soft_delete_source_def request_source_test_def
  create_alert_channel_def enable_alert_channel_def soft_delete_alert_channel_def
  mark_delivered_def mark_failed_def

lemma allowed_config_norm: "allowed_config None (Some (norm p)) = allowed_config None (Some p)"
  "allowed_config (Some (norm p)) None = allowed_config (Some p) None"
  by (simp_all add: allowed_config_def)

lemma resolver_put_ref: "resolver_put H s t sc n v = (ref, s') \<Longrightarrow> is_secretref ref"
  by (cases s) (auto simp: is_secretref_def startswith_def mem_ref_def Let_def)

interpretation anyres: opaque_store "resolver_put H" is_secretref "\<lambda>_. True" for H
  by unfold_locales (auto dest: resolver_put_ref)

lemma persist_secretrefs:
  "persist_secrets H r t sc sp = (refs, sp', r') \<Longrightarrow>
     (\<forall>(k, x) \<in> set refs. is_secretref x) \<and> sp_config sp' = sp_config sp \<and> sp_refs sp' = sp_refs sp
     \<and> set (dict_keys refs) = set (dict_keys (sp_values sp)) \<and> sp_values sp' = []"
  by (fastforce simp: persist_secrets_def split: prod.splits dest: anyres.persist_own [OF TrueI])

lemma startswith_append: "startswith s (p @ q) \<Longrightarrow> startswith s p"
  unfolding startswith_def by (metis append_eq_conv_conj append_take_drop_id append.assoc)

lemma validate_secretref: "validate_opaque_ref x = Inr r \<Longrightarrow> is_secretref r"
  using startswith_append [of "str_strip x" "''secretref://''" "''env/''"]
    startswith_append [of "str_strip x" "''secretref://''" "''file/''"]
  by (auto simp: validate_opaque_ref_def Let_def is_secretref_def
      ENV_SECRET_REF_PREFIX_def FILE_SECRET_REF_PREFIX_def split: if_splits)

lemma add_opaque_refs_ok:
  "add_opaque_refs rs refs md = Inr (refs', md') \<Longrightarrow> \<forall>(k, x) \<in> set refs. is_secretref x
    \<Longrightarrow> \<forall>(k, x) \<in> set refs'. is_secretref x"
proof (induction rs refs md rule: add_opaque_refs.induct)
  case (1 refs md)
  then show ?case by simp
next
  case (2 n x rest refs md)
  from 2(2) obtain ref where v: "validate_opaque_ref x = Inr ref"
    and rest: "add_opaque_refs rest (AList.update (norm n) ref refs)
      (AList.update (norm n) (JObj [(''present'', JBool True), (''kind'', JStr ''opaque_ref''),
         (''masked'', JStr ''***'')]) md) = Inr (refs', md')"
    by (auto simp: Let_def)
  have "\<forall>(k, x) \<in> set (AList.update (norm n) ref refs). is_secretref x"
    using 2(3) validate_secretref [OF v] by (auto dest: in_set_update)
  from 2(1) [OF refl rest this] show ?case .
qed

lemma classified_config:
  assumes "persist_secrets H r t sc (classify_payload H ip payload ct pr) = (refs, sp, r')"
  shows "\<forall>(k, v) \<in> set (sp_config sp). field_kind ip (allowed_config ct pr) (norm k) v = None"
  using persist_secretrefs [OF assms] classify_payload_ok [of ip ct pr payload H]
  by (fastforce simp: split_ok_def)

lemma bound_connection_keys:
  "cn_id (bound_connection now i b c) = cn_id c \<and> cn_tenant_id (bound_connection now i b c) = cn_tenant_id c
   \<and> cn_provider (bound_connection now i b c) = cn_provider c"
  by (simp add: bound_connection_def Let_def)

lemma bound_connection_ok:
  "conn_ok ip c \<Longrightarrow> cn_deleted_at c = None \<Longrightarrow> conn_ok ip (bound_connection now i b c)"
  by (fastforce simp: conn_ok_def bound_connection_def Let_def dest: in_set_update)

lemma health_connection_ok:
  "conn_ok ip c \<Longrightarrow> conn_ok ip (c\<lparr>cn_config_json := AList.update ''_health'' v (cn_config_json c),
     cn_updated_at := now\<rparr>)"
  by (fastforce simp: conn_ok_def dest: in_set_update)

lemma failed_outbox_keys:
  "ob_id (failed_outbox now e b r) = ob_id r \<and> ob_tenant_id (failed_outbox now e b r) = ob_tenant_id r"
  by (simp add: failed_outbox_def Let_def)

lemma failed_outbox_ok: "outbox_ok d r \<Longrightarrow> outbox_ok d (failed_outbox now e b r)"
  by (simp add: outbox_ok_def failed_outbox_def Let_def)

lemma create_connection_effect:
  assumes "create_connection H ip regs now t provider name payload refs actor r d = (Inr (c, d'), r')"
  shows "svc_effect ip t d d' \<and> indexes_ok d'"
proof -
  from assms obtain p refs1 sp refs2 md where
    p: "require_registered_provider regs provider = Inr p"
    and ps: "persist_secrets H r t (''connection:'' @ name) (classify_payload H ip payload None (Some p)) = (refs1, sp, r')"
    and ao: "add_opaque_refs refs refs1 (secrets_metadata sp) = Inr (refs2, md)"
    and c: "c = (blank_connection now)\<lparr>cn_id := next_id cn_id (db_connections d),
                       cn_tenant_id := t, cn_provider := p, cn_name := name,
                       cn_enabled := False, cn_status := Conn_pending,
                       cn_config_json := sp_config sp, cn_secret_refs := refs2,
                       cn_secrets_metadata := md, cn_created_by := actor\<rparr>"
    and d': "d' = d\<lparr>db_connections := db_connections d @ [c]\<rparr>" "indexes_ok d'"
    by (auto simp: create_connection_def Let_def split: sum.splits prod.splits)
  have "\<forall>(k, x) \<in> set refs2. is_secretref x"
    using add_opaque_refs_ok [OF ao] persist_secretrefs [OF ps] by simp
  with classified_config [OF ps] have "conn_ok ip c"
    by (auto simp: conn_ok_def c blank_connection_def)
  then show ?thesis
    unfolding d'(1) using d' c by (auto intro!: svc_effect.new_connection)
qed

lemma create_channel_effect:
  assumes "create_alert_channel H ip regs now t name ct payload actor r d = (Inr (c, d'), r')"
  shows "svc_effect ip t d d' \<and> indexes_ok d'"
proof -
  from assms obtain p refs1 sp where
    p: "require_registered_alert_channel regs ct = Inr p"
    and ps: "persist_secrets H r t (''channel:'' @ name) (classify_payload H ip payload (Some p) None) = (refs1, sp, r')"
    and c: "c = (blank_channel now)\<lparr>ch_id := next_id ch_id (db_channels d),
                      ch_tenant_id := t, ch_name := name, ch_channel_type := p,
                      ch_enabled := False, ch_config_json := sp_config sp, ch_secret_refs := refs1,
                      ch_secrets_metadata := secrets_metadata sp, ch_created_by := actor\<rparr>"
    and d': "d' = d\<lparr>db_channels := db_channels d @ [c]\<rparr>" "indexes_ok d'"
    by (auto simp: create_alert_channel_def Let_def split: sum.splits prod.splits)
  from classified_config [OF ps] persist_secretrefs [OF ps] have "channel_ok ip c"
    by (auto simp: channel_ok_def c blank_channel_def)
  then show ?thesis
    unfolding d'(1) using d' c by (auto intro!: svc_effect.new_channel)
qed

lemma enqueue_effect:
  assumes "enqueue_alert H now [] t c f tpl tv payload ext d = Inr (out, d')"
  shows "svc_effect ip t d d' \<and> (indexes_ok d \<longrightarrow> indexes_ok d')"
proof -
  have same: "d\<lparr>db_outbox := db_outbox d\<rparr> = d" by simp
  note scope = enqueue_alert_scope [OF assms]
  show ?thesis
    using assms scope
    by (auto simp: enqueue_alert_def Let_def same outbox_ok_def split: option.splits if_splits sum.splits
        intro!: svc_effect.no_change svc_effect.new_outbox)
qed

text \<open>Every operation that returns has such an effect, and has passed the unique indexes.\<close>

lemma svc_exec_effect:
  assumes "svc_exec E now t op (r, d) = (Inr d', r')" "indexes_ok d"
  shows "svc_effect (se_ipv6 E) t d d' \<and> indexes_ok d'"
proof (cases op)
  case (CreateConnection provider name payload refs actor)
  with assms show ?thesis
    by (auto split: prod.splits dest: create_connection_effect)
next
  case (CreateAlertChannel name ct payload actor)
  with assms show ?thesis
    by (auto split: prod.splits dest: create_channel_effect)
next
  case (EnqueueAlert c f tpl tv payload ext)
  with assms show ?thesis by (auto dest: enqueue_effect)
next
  case (BindIdentity c identity enable)
  with assms show ?thesis
    by (auto simp: svc_defs bound_connection_keys bound_connection_ok split: if_splits
      dest!: get_connection_Inr intro!: svc_effect.set_connection)
next
  case (RevokeConnection c actor)
  with assms show ?thesis
    by (auto simp: svc_defs Let_def conn_ok_def dest!: get_connection_Inr intro!: svc_effect.set_connection)
next
  case (SoftDeleteConnection c actor)
  with assms show ?thesis
    by (auto simp: svc_defs Let_def conn_ok_def dest!: get_connection_Inr intro!: svc_effect.set_connection)
next
  case (SetConnectionEnabled c b)
  with assms show ?thesis
    by (auto simp: svc_defs Let_def conn_ok_def split: if_splits option.splits
      dest!: get_connection_Inr intro!: svc_effect.set_connection)
next
  case (SetConnectionHealth c h)
  with assms show ?thesis
    by (auto simp: svc_defs Let_def health_connection_ok dest!: get_connection_Inr
      intro!: svc_effect.set_connection)
next
  case (CreateSource c sref kind name actor)
  with assms show ?thesis
    by (auto simp: svc_defs Let_def source_ok_def blank_source_def dest!: get_connection_Inr
      intro!: svc_effect.new_source)
next
  case (SetSourceEnabled s b)
  with assms show ?thesis
    by (auto simp: svc_defs Let_def source_ok_def dest!: get_source_Inr intro!: svc_effect.set_source)
next
  case (SoftDeleteSource s actor)
  with assms show ?thesis
    by (auto simp: svc_defs Let_def source_ok_def dest!: get_source_Inr intro!: svc_effect.set_source)
next
  case (RequestSourceTest nonce c s ttl actor)
  with assms show ?thesis
    by (auto simp: svc_defs Let_def test_ok_def blank_test_request_def dest!: get_connection_Inr
      intro!: svc_effect.new_test)
next
  case (EnableAlertChannel c)
  with assms show ?thesis
    by (auto simp: svc_defs Let_def channel_ok_def assert_channel_ready_def dest!: get_channel_Inr
      intro!: svc_effect.set_channel)
next
  case (SoftDeleteAlertChannel c actor)
  with assms show ?thesis
    by (auto simp: svc_defs Let_def channel_ok_def dest!: get_channel_Inr intro!: svc_effect.set_channel)
next
  case (MarkDelivered i)
  with assms show ?thesis
    by (auto simp: svc_defs Let_def outbox_ok_def dest!: get_outbox_Inr intro!: svc_effect.set_outbox)
next
  case (MarkFailed i code dead)
  with assms show ?thesis
    by (auto simp: svc_defs failed_outbox_keys failed_outbox_ok dest!: get_outbox_Inr
      intro!: svc_effect.set_outbox)
qed

section \<open>The machine\<close>

definition svc_inv :: "(('p, 'c, 'k) registries) svc_env \<Rightarrow> resolver \<times> db \<Rightarrow> bool" where
  "svc_inv E s = (db_ok (snd s) \<and> rows_ok (se_ipv6 E) (snd s))"

lemma svc_next_inv: "svc_inv E s \<Longrightarrow> svc_inv E (svc_next E now t op s)"
proof -
  assume inv: "svc_inv E s"
  obtain r d where s: "s = (r, d)" by (cases s)
  show "svc_inv E (svc_next E now t op s)"
  proof (cases "svc_exec E now t op s")
    case (Pair res r')
    show ?thesis
    proof (cases res)
      case (Inl e)
      with Pair inv s show ?thesis by (simp add: svc_next_def svc_inv_def)
    next
      case (Inr d')
      with Pair s have ex: "svc_exec E now t op (r, d) = (Inr d', r')" by simp
      from inv s have d: "keys_ok d" "indexes_ok d" "rows_ok (se_ipv6 E) d"
        by (auto simp: svc_inv_def db_ok_def)
      from svc_exec_effect [OF ex d(2)] have "svc_effect (se_ipv6 E) t d d'" "indexes_ok d'" by auto
      with svc_effect_keys svc_effect_rows d have "svc_inv E (r', d')"
        by (auto simp: svc_inv_def db_ok_def)
      with Pair Inr s show ?thesis by (simp add: svc_next_def)
    qed
  qed
qed

interpretation svc: preserved "svc_step E" "svc_inv E" for E
  by unfold_locales (auto elim!: svc_stepE intro: svc_next_inv)

section \<open>Properties\<close>

text \<open>A concrete environment and state for the witnesses: tenant 7 has an enabled bot connection.\<close>

definition demo_env :: "((unit, unit, unit) registries) svc_env" where
  "demo_env = \<lparr>se_hash = id, se_ipv6 = (\<lambda>_. False), se_regs = initial_registries\<rparr>"

definition demo_conn :: connection where
  "demo_conn = (blank_connection 0)\<lparr>cn_id := 1, cn_tenant_id := 7, cn_provider := ''telegram'', cn_name := ''main'',
     cn_enabled := True, cn_status := Conn_active, cn_provider_account_ref := Some ''42''\<rparr>"

definition demo_conn_db :: db where
  "demo_conn_db = empty_db\<lparr>db_connections := [demo_conn]\<rparr>"

lemma demo_inv: "svc_inv demo_env (NullSecretResolver, demo_conn_db)"
  by (simp add: svc_inv_def demo_conn_db_def demo_conn_def empty_db_def db_ok_def keys_ok_def indexes_ok_def keyed_def
    unique_on_def rows_ok_def conn_ok_def blank_connection_def)

lemma svc_next_others:
  assumes "svc_inv E s"
  shows "others t (snd (svc_next E now t op s)) = others t (snd s) \<and> beyond (snd (svc_next E now t op s)) = beyond (snd s)"
proof (cases "svc_exec E now t op s")
  case (Pair res r')
  obtain r d where s: "s = (r, d)" by (cases s)
  have d: "keys_ok d" "indexes_ok d" using assms s by (auto simp: svc_inv_def db_ok_def)
  show ?thesis
  proof (cases res)
    case (Inr d')
    with Pair s have "svc_exec E now t op (r, d) = (Inr d', r')" by simp
    from svc_effect_others [OF conjunct1 [OF svc_exec_effect [OF this d(2)]] d(1)] Pair Inr s
    show ?thesis by (simp add: svc_next_def)
  qed (use Pair in \<open>simp add: svc_next_def\<close>)
qed



text \<open>C2 The invariant of the collection tables survives every sequence of requests of any tenants: keys and
  unique indexes hold, a connection is active exactly when enabled and then has a verified identity, a
  deleted one is revoked, configurations hold no field the classification calls secret, secrets are
  references, sources, tests and outbox rows point inside their tenant.\<close>

theorem service_invariant_reachable:
  assumes "svc_inv E s0" "rtranclp (svc_step E) s0 s"
  shows "db_ok (snd s) \<and> rows_ok (se_ipv6 E) (snd s)"
  using svc.reachable_good [OF assms(2,1)] by (simp add: svc_inv_def)

theorem service_invariant_reachable_witness:
  "rows_ok (\<lambda>_. False) (snd (svc_next demo_env 5 7 (SoftDeleteConnection 1 None) (NullSecretResolver, demo_conn_db)))"
  using service_invariant_reachable [OF demo_inv r_into_rtranclp [where r = "svc_step demo_env",
    OF svc_step_intro [of demo_env "(NullSecretResolver, demo_conn_db)" 5 7 "SoftDeleteConnection 1 None"]]]
  by (simp add: demo_env_def)



text \<open>The exclusivity check of \<open>bind_bot_identity\<close> compares the provider as it was spelled: for the same
  bot the canonical spelling is refused as a conflict, another spelling passes the check and breaks
  the unique index at the flush instead.\<close>

theorem bind_conflict_spelling:
  "bind_bot_identity 5 8 2 \<lparr>pi_provider = ''telegram'', pi_account_ref = ''42'', pi_display_name = [], pi_username = []\<rparr> True
     (demo_conn_db\<lparr>db_connections := [demo_conn, demo_conn\<lparr>cn_id := 2, cn_tenant_id := 8, cn_enabled := False\<rparr>]\<rparr>) = Inl IdentityConflict
   \<and> bind_bot_identity 5 8 2 \<lparr>pi_provider = ''Telegram'', pi_account_ref = ''42'', pi_display_name = [], pi_username = []\<rparr> True
     (demo_conn_db\<lparr>db_connections := [demo_conn, demo_conn\<lparr>cn_id := 2, cn_tenant_id := 8, cn_enabled := False\<rparr>]\<rparr>) = Inl IntegrityError"
proof -
  have n: "norm ''telegram'' = ''telegram''" "norm ''Telegram'' = ''telegram''" by code_simp+
  show ?thesis
    by (simp add: bind_bot_identity_def get_connection_def identity_clash_def n demo_conn_def demo_conn_db_def
      blank_connection_def empty_db_def flushed_def flush_def indexes_ok_def unique_on_def upd_connection_def upd_row_def
      bound_connection_def Let_def conn_identity_indexed_def conn_identity_key_def)
qed

end
