(* ===== verification/Ingest.thy ===== *)
theory Ingest
  imports ServiceSteps Envelope
begin

text \<open>
  \<open>app/collection/ingest.py\<close>: one raw update is validated, normalised, stored (as an event, a
  TF-VERIFY control event or a sanitised rejection) and the connection's cursor is advanced, all in
  one transaction.

  The provider's \<open>normalizer\<close> and \<open>validator\<close> are parameters (they may raise), \<open>fromiso\<close> is
  \<open>datetime.fromisoformat\<close>. A \<open>flush_fault\<close> says what the database does at the flush: rows that
  concurrent transactions committed in between, or an operational error.
\<close>

record flush_fault =
  ff_race :: "event list"
  ff_down :: bool

definition no_fault :: flush_fault where
  "no_fault = \<lparr>ff_race = [], ff_down = False\<rparr>"

datatype ingest_outcome = Ing_normalized | Ing_control | Ing_rejected | Ing_deduplicated

record ingest_result =
  ir_outcome :: ingest_outcome
  ir_event_id :: int
  ir_cursor :: "string option"
  ir_envelope :: "evidence_envelope option"

section \<open>Reading the raw update\<close>

definition extract_cursor :: "json dict \<Rightarrow> string option" where
  "extract_cursor raw =
     (case find (\<lambda>k. jget raw k \<noteq> JNull) [''update_id'', ''cursor'', ''offset'', ''id''] of
        None \<Rightarrow> None | Some k \<Rightarrow> Some (py_str (jget raw k)))"

definition extract_text :: "json dict \<Rightarrow> string option" where
  "extract_text raw = (case jget raw ''text'' of
       JStr t \<Rightarrow> Some t
     | _ \<Rightarrow> (case jget raw ''message'' of
         JObj msg \<Rightarrow> (case jget msg ''text'' of JStr t \<Rightarrow> Some t | _ \<Rightarrow> None)
       | _ \<Rightarrow> None))"

definition raw_date :: "json dict \<Rightarrow> json" where
  "raw_date raw = (case jget raw ''message'' of
       JObj msg \<Rightarrow> if jget msg ''date'' \<noteq> JNull then jget msg ''date'' else jget raw ''date''
     | _ \<Rightarrow> jget raw ''date'')"

text \<open>\<open>datetime.fromtimestamp\<close> accepts the years 1 to 9999.\<close>

definition from_timestamp :: "int \<Rightarrow> time option" where
  "from_timestamp i = (if -62135596800 \<le> i \<and> i \<le> 253402300799 then Some (i * 1000000) else None)"

definition parse_occurred_at :: "(string \<Rightarrow> time option) \<Rightarrow> json \<Rightarrow> time option" where
  "parse_occurred_at fromiso value =
     (if value = JNull \<or> value = JStr [] then None
      else if (case value of JInt _ \<Rightarrow> True | JBool _ \<Rightarrow> True | _ \<Rightarrow> False) \<or> str_isdigit (py_str value)
      then (case py_int value of Inl _ \<Rightarrow> None | Inr i \<Rightarrow> from_timestamp i)
      else fromiso (py_str value))"

section \<open>Gate and replay lookup\<close>

definition resolve_active_pair :: "source \<Rightarrow> db \<Rightarrow> connection res" where
  "resolve_active_pair source d =
     (case find (\<lambda>c. cn_id c = sr_connection_id source \<and> cn_tenant_id c = sr_tenant_id source)
             (db_connections d) of
        None \<Rightarrow> Inl (IngestNotAllowed ''connection not found for source'')
      | Some conn \<Rightarrow>
          if cn_deleted_at conn \<noteq> None \<or> \<not> cn_enabled conn \<or> cn_status conn = Conn_revoked
          then Inl (IngestNotAllowed ''connection is disabled, revoked or deleted'')
          else if sr_deleted_at source \<noteq> None \<or> \<not> sr_enabled source \<or> sr_status source = Src_revoked
          then Inl (IngestNotAllowed ''source is disabled, revoked or deleted'')
          else Inr conn)"

definition find_existing_event :: "source \<Rightarrow> string \<Rightarrow> db \<Rightarrow> event option" where
  "find_existing_event source ext_hash d =
     (if ext_hash = [] then None
      else find (\<lambda>e. ev_tenant_id e = sr_tenant_id source \<and> ev_source_id e = sr_id source
             \<and> ev_external_id_hash e = ext_hash \<and> ev_processing_state e \<noteq> Rejected) (db_events d))"

section \<open>Storing the outcome\<close>

definition cursor_row :: "time \<Rightarrow> string option \<Rightarrow> connection \<Rightarrow> connection" where
  "cursor_row now cursor_val c =
     (case cursor_val of None \<Rightarrow> c | Some v \<Rightarrow> c\<lparr>cn_cursor := Some v\<rparr>)\<lparr>cn_updated_at := now\<rparr>"

definition advance_cursor :: "time \<Rightarrow> int \<Rightarrow> string option \<Rightarrow> db \<Rightarrow> db" where
  "advance_cursor now conn_id cursor_val d = upd_connection conn_id (cursor_row now cursor_val) d"

definition cursor_of :: "int \<Rightarrow> db \<Rightarrow> string option" where
  "cursor_of conn_id d = (case find_row cn_id conn_id (db_connections d) of
       None \<Rightarrow> None | Some c \<Rightarrow> cn_cursor c)"

definition insert_event :: "event \<Rightarrow> db \<Rightarrow> db" where
  "insert_event ev d = d\<lparr>db_events := db_events d @ [ev\<lparr>ev_id := next_id ev_id (db_events d)\<rparr>]\<rparr>"

definition last_event_id :: "db \<Rightarrow> int" where
  "last_event_id d = ev_id (last (db_events d))"

definition add_race :: "event list \<Rightarrow> db \<Rightarrow> db" where
  "add_race race d = d\<lparr>db_events := db_events d @ race\<rparr>"

text \<open>Flush and commit; on any database error the session is rolled back.\<close>

definition commit_change :: "flush_fault \<Rightarrow> (db \<Rightarrow> db) \<Rightarrow> session \<Rightarrow> unit res \<times> session" where
  "commit_change fault change s =
     (if ff_down fault then (Inl OperationalError, rollback s)
      else
        let s1 = \<lparr>committed = add_race (ff_race fault) (committed s),
                  working = add_race (ff_race fault) (working s)\<rparr>
        in case flush (change (working s1)) of
             Inl e \<Rightarrow> (Inl e, rollback s1)
           | Inr d \<Rightarrow> (Inr (), commit (s1\<lparr>working := d\<rparr>)))"

fun exn_name :: "exn \<Rightarrow> string" where
  "exn_name ValidationRejected = ''ValidationRejected''"
| "exn_name (ValueError _) = ''ValueError''"
| "exn_name TypeError = ''TypeError''"
| "exn_name KeyError = ''KeyError''"
| "exn_name _ = ''Exception''"

definition validation_error :: "exn \<Rightarrow> bool" where
  "validation_error e = (case e of ValidationRejected \<Rightarrow> True | ValueError _ \<Rightarrow> True
     | TypeError \<Rightarrow> True | KeyError \<Rightarrow> True | _ \<Rightarrow> False)"

definition rejection_of :: "(string \<Rightarrow> string) \<Rightarrow> source \<Rightarrow> string option \<Rightarrow> exn \<Rightarrow> rejection_record" where
  "rejection_of H source cursor_val e =
     \<lparr>rj_provider = sr_provider source, rj_reason_code = take 60 (exn_name e),
      rj_external_id_hash = (case cursor_val of None \<Rightarrow> [] | Some c \<Rightarrow> H c),
      rj_sanitized_detail = ''update rejected during validation/normalization'', rj_context = []\<rparr>"

definition rejected_event :: "time \<Rightarrow> source \<Rightarrow> rejection_record \<Rightarrow> event" where
  "rejected_event now source rec = (blank_event now)\<lparr>ev_tenant_id := sr_tenant_id source,
     ev_source_id := sr_id source, ev_provider := sr_provider source,
     ev_external_id_hash := rj_external_id_hash rec, ev_processing_state := Rejected,
     ev_rejection_reason := Some (rj_reason_code rec),
     ev_context_json := [(''detail'', JStr (rj_sanitized_detail rec))]\<rparr>"

definition record_rejection ::
  "(string \<Rightarrow> string) \<Rightarrow> flush_fault \<Rightarrow> time \<Rightarrow> connection \<Rightarrow> source \<Rightarrow> string option \<Rightarrow> exn \<Rightarrow> session
    \<Rightarrow> ingest_result res \<times> session" where
  "record_rejection H fault now conn source cursor_val e s =
     (case commit_change fault (advance_cursor now (cn_id conn) cursor_val
               \<circ> insert_event (rejected_event now source (rejection_of H source cursor_val e))) s of
        (Inl _, s') \<Rightarrow> (Inl IngestInfrastructureError, s')
      | (Inr _, s') \<Rightarrow> (Inr \<lparr>ir_outcome = Ing_rejected, ir_event_id = last_event_id (committed s'),
            ir_cursor = cursor_of (cn_id conn) (committed s'), ir_envelope = None\<rparr>, s'))"

definition control_event ::
  "(string \<Rightarrow> string) \<Rightarrow> (string \<Rightarrow> time option) \<Rightarrow> time \<Rightarrow> source \<Rightarrow> string \<Rightarrow> string \<Rightarrow> json dict \<Rightarrow> event" where
  "control_event H fromiso now source ext_hash nonce raw = (blank_event now)\<lparr>
     ev_tenant_id := sr_tenant_id source, ev_source_id := sr_id source,
     ev_provider := sr_provider source, ev_external_id_hash := ext_hash,
     ev_processing_state := Control, ev_is_control := True,
     ev_control_nonce_hash := Some (nonce_hash H nonce),
     ev_occurred_at := parse_occurred_at fromiso (raw_date raw), ev_redacted_text := None,
     ev_context_json := [(''kind'', JStr ''tf_verify'')]\<rparr>"

definition confirm_change :: "(string \<Rightarrow> string) \<Rightarrow> time \<Rightarrow> test_request \<Rightarrow> string \<Rightarrow> db \<Rightarrow> db" where
  "confirm_change H now request nonce d =
     (case confirm_test_request now request
             [(''confirmed_via'', JStr ''ingest''),
              (''nonce_hash_prefix'', JStr (take 12 (nonce_hash H nonce)))] d of
        Inl _ \<Rightarrow> d | Inr (_, d') \<Rightarrow> d')"

definition ingest_control ::
  "(string \<Rightarrow> string) \<Rightarrow> (string \<Rightarrow> time option) \<Rightarrow> flush_fault \<Rightarrow> time \<Rightarrow> connection \<Rightarrow> source \<Rightarrow> json dict
    \<Rightarrow> string option \<Rightarrow> string \<Rightarrow> string \<Rightarrow> test_request \<Rightarrow> session \<Rightarrow> ingest_result res \<times> session" where
  "ingest_control H fromiso fault now conn source raw cursor_val ext_hash nonce request s =
     (case commit_change fault (\<lambda>d. advance_cursor now (cn_id conn) cursor_val
               (confirm_change H now request nonce
                 (insert_event (control_event H fromiso now source ext_hash nonce raw) d))) s of
        (Inl _, s') \<Rightarrow> (Inl IngestInfrastructureError, s')
      | (Inr _, s') \<Rightarrow> (Inr \<lparr>ir_outcome = Ing_control, ir_event_id = last_event_id (committed s'),
            ir_cursor = cursor_of (cn_id conn) (committed s'), ir_envelope = None\<rparr>, s'))"

definition envelope_of :: "(string \<Rightarrow> string) \<Rightarrow> source \<Rightarrow> normalized_update \<Rightarrow> evidence_envelope" where
  "envelope_of H source nu = from_normalized H (sr_provider source) (sr_tenant_id source)
     (sr_source_ref source) (nu_normalized nu) (nu_redacted_text nu) (nu_content_version nu)
     (nu_redaction_profile nu) (nu_occurred_at nu) (nu_raw_fingerprint nu) None"

definition normalized_event ::
  "(string \<Rightarrow> string) \<Rightarrow> (string \<Rightarrow> time option) \<Rightarrow> time \<Rightarrow> source \<Rightarrow> string \<Rightarrow> normalized_update \<Rightarrow> event" where
  "normalized_event H fromiso now source ext_hash nu = (blank_event now)\<lparr>
     ev_tenant_id := sr_tenant_id source, ev_source_id := sr_id source,
     ev_provider := sr_provider source,
     ev_external_id_hash := (if nu_external_id nu \<noteq> [] then H (nu_external_id nu) else ext_hash),
     ev_processing_state := Normalized,
     ev_normalized_fingerprint := Some (ee_normalized_fingerprint (envelope_of H source nu)),
     ev_raw_fingerprint := Some (nu_raw_fingerprint nu), ev_content_version := nu_content_version nu,
     ev_redaction_profile := nu_redaction_profile nu, ev_redacted_text := Some (nu_redacted_text nu),
     ev_context_json := nu_normalized nu,
     ev_occurred_at := parse_occurred_at fromiso (JStr (nu_occurred_at nu))\<rparr>"

definition ingest_normalized ::
  "(string \<Rightarrow> string) \<Rightarrow> (string \<Rightarrow> time option) \<Rightarrow> flush_fault \<Rightarrow> time \<Rightarrow> connection \<Rightarrow> source
    \<Rightarrow> string option \<Rightarrow> string \<Rightarrow> normalized_update \<Rightarrow> session \<Rightarrow> ingest_result res \<times> session" where
  "ingest_normalized H fromiso fault now conn source cursor_val ext_hash nu s =
     (let ev = normalized_event H fromiso now source ext_hash nu in
      case commit_change fault (advance_cursor now (cn_id conn) cursor_val \<circ> insert_event ev) s of
        (Inl IntegrityError, s') \<Rightarrow>
          (case find_existing_event source (ev_external_id_hash ev) (working s') of
             Some existing \<Rightarrow> (Inr \<lparr>ir_outcome = Ing_deduplicated, ir_event_id = ev_id existing,
                 ir_cursor = cursor_of (cn_id conn) (working s'), ir_envelope = None\<rparr>, s')
           | None \<Rightarrow> (Inl IngestInfrastructureError, s'))
      | (Inl _, s') \<Rightarrow> (Inl IngestInfrastructureError, s')
      | (Inr _, s') \<Rightarrow> (Inr \<lparr>ir_outcome = Ing_normalized, ir_event_id = last_event_id (committed s'),
            ir_cursor = cursor_of (cn_id conn) (committed s'),
            ir_envelope = Some (envelope_of H source nu)\<rparr>, s'))"

section \<open>One update\<close>

text \<open>The normal flow: validate, normalise, then store the event or the rejection.\<close>

definition ingest_normal ::
  "(string \<Rightarrow> string) \<Rightarrow> (string \<Rightarrow> time option) \<Rightarrow> flush_fault \<Rightarrow> time \<Rightarrow> connection \<Rightarrow> source \<Rightarrow> json dict
    \<Rightarrow> (json dict \<Rightarrow> unit res) \<Rightarrow> (json dict \<Rightarrow> normalized_update res) \<Rightarrow> string option \<Rightarrow> string \<Rightarrow> session
    \<Rightarrow> ingest_result res \<times> session" where
  "ingest_normal H fromiso fault now conn source raw validator normalizer cursor_val ext_hash s =
     (case bindr (validator raw) (\<lambda>_. normalizer raw) of
        Inl e \<Rightarrow>
          if validation_error e then record_rejection H fault now conn source cursor_val e s
          else (Inl e, s)
      | Inr nu \<Rightarrow> ingest_normalized H fromiso fault now conn source cursor_val ext_hash nu s)"

definition ingest_update ::
  "(string \<Rightarrow> string) \<Rightarrow> (string \<Rightarrow> time option) \<Rightarrow> flush_fault \<Rightarrow> time \<Rightarrow> source \<Rightarrow> json dict
    \<Rightarrow> (json dict \<Rightarrow> unit res) \<Rightarrow> (json dict \<Rightarrow> normalized_update res) \<Rightarrow> session
    \<Rightarrow> ingest_result res \<times> session" where
  "ingest_update H fromiso fault now source raw validator normalizer s =
     (case resolve_active_pair source (working s) of
        Inl e \<Rightarrow> (Inl e, s)
      | Inr conn \<Rightarrow>
          let cursor_val = extract_cursor raw;
              ext_hash = (case cursor_val of None \<Rightarrow> [] | Some c \<Rightarrow> H c)
          in case find_existing_event source ext_hash (working s) of
            Some existing \<Rightarrow> (Inr \<lparr>ir_outcome = Ing_deduplicated, ir_event_id = ev_id existing,
                ir_cursor = cn_cursor conn, ir_envelope = None\<rparr>, s)
          | None \<Rightarrow>
            (case parse_verify_nonce (extract_text raw) of
               None \<Rightarrow> ingest_normal H fromiso fault now conn source raw validator normalizer cursor_val ext_hash s
             | Some nonce \<Rightarrow>
                 (case find_matching_test_request now (sr_tenant_id source) (cn_id conn)
                         (Some (sr_id source)) (nonce_hash H nonce) (working s) of
                    Inl e \<Rightarrow> (Inl e, s)
                  | Inr (Some request, _) \<Rightarrow>
                      ingest_control H fromiso fault now conn source raw cursor_val ext_hash nonce request s
                  | Inr (None, d1) \<Rightarrow>
                      ingest_normal H fromiso fault now conn source raw validator normalizer cursor_val ext_hash
                        (s\<lparr>working := d1\<rparr>))))"

end
