(* ===== verification/IngestProps.thy ===== *)
theory IngestProps
  imports Ingest
begin

text \<open>
  What one ingested update does to the database: the outcome and the cursor are committed together
  or not at all, a replay is answered with the stored event, a control event is stored only for an
  open handshake, and nothing but the tenant's own rows changes.
\<close>

section \<open>The transaction\<close>

lemma add_race_simps [simp]:
  "db_connections (add_race r d) = db_connections d" "db_sources (add_race r d) = db_sources d"
  "db_tests (add_race r d) = db_tests d" "db_events (add_race r d) = db_events d @ r"
  "db_outbox (add_race r d) = db_outbox d" "db_channels (add_race r d) = db_channels d"
  "db_findings (add_race r d) = db_findings d" "db_cases (add_race r d) = db_cases d"
  by (simp_all add: add_race_def)

lemma add_race_Nil [simp]: "add_race [] d = d"
  by (simp add: add_race_def)

lemma commit_change_Inr:
  "commit_change fault change s = (Inr u, s') \<Longrightarrow>
     \<not> ff_down fault \<and> committed s' = change (add_race (ff_race fault) (working s))
     \<and> working s' = committed s' \<and> indexes_ok (committed s')"
  by (auto simp: commit_change_def Let_def split: if_splits sum.splits)

lemma commit_change_Inl:
  "commit_change fault change s = (Inl e, s') \<Longrightarrow>
     working s' = committed s' \<and> (committed s' = committed s \<or> committed s' = add_race (ff_race fault) (committed s))"
  by (auto simp: commit_change_def Let_def split: if_splits sum.splits)

lemma insert_event_simps [simp]:
  "db_connections (insert_event e d) = db_connections d" "db_tests (insert_event e d) = db_tests d"
  "db_sources (insert_event e d) = db_sources d"
  "db_events (insert_event e d) = db_events d @ [e\<lparr>ev_id := next_id ev_id (db_events d)\<rparr>]"
  by (simp_all add: insert_event_def)

lemma advance_cursor_simps [simp]:
  "db_events (advance_cursor now i c d) = db_events d" "db_tests (advance_cursor now i c d) = db_tests d"
  "db_sources (advance_cursor now i c d) = db_sources d"
  by (simp_all add: advance_cursor_def upd_connection_def)

lemma confirm_change_simps [simp]:
  "db_events (confirm_change H now r n d) = db_events d"
  "db_connections (confirm_change H now r n d) = db_connections d"
  "db_sources (confirm_change H now r n d) = db_sources d"
  by (auto simp: confirm_change_def confirm_test_request_def upd_test_def Let_def split: sum.splits)

lemma cursor_row_simps [simp]:
  "cn_id (cursor_row now c r) = cn_id r" "cn_tenant_id (cursor_row now c r) = cn_tenant_id r"
  "cn_enabled (cursor_row now c r) = cn_enabled r" "cn_status (cursor_row now c r) = cn_status r"
  "cn_deleted_at (cursor_row now c r) = cn_deleted_at r"
  "cn_cursor (cursor_row now c r) = (case c of None \<Rightarrow> cn_cursor r | Some v \<Rightarrow> Some v)"
  by (auto simp: cursor_row_def split: option.splits)

lemma cursor_of_advance:
  "cursor_of i (advance_cursor now i c d) =
     (case find_row cn_id i (db_connections d) of None \<Rightarrow> None
      | Some r \<Rightarrow> (case c of None \<Rightarrow> cn_cursor r | Some v \<Rightarrow> Some v))"
  by (auto simp: cursor_of_def advance_cursor_def upd_connection_def find_row_upd split: option.splits)

lemma cursor_of_connections: "db_connections d = db_connections d' \<Longrightarrow> cursor_of i d = cursor_of i d'"
  by (simp add: cursor_of_def)

section \<open>The shape of an outcome\<close>

text \<open>
  \<open>stored\<close> is the state of a committed outcome: the event is the last one of the committed
  database, the cursor has the update's value there, and the session sees the committed database.
\<close>

definition stored :: "time \<Rightarrow> int \<Rightarrow> string option \<Rightarrow> event \<Rightarrow> session \<Rightarrow> ingest_result \<Rightarrow> session \<Rightarrow> bool" where
  "stored now conn_id cursor_val ev s res s' =
     (working s' = committed s' \<and> indexes_ok (committed s')
      \<and> (\<exists>pre. db_events (committed s') = db_events (working s) @ pre @ [ev\<lparr>ev_id := ir_event_id res\<rparr>])
      \<and> db_connections (committed s') = upd_row cn_id conn_id (cursor_row now cursor_val) (db_connections (working s))
      \<and> ir_cursor res = cursor_of conn_id (committed s')
      \<and> (cursor_val \<noteq> None \<longrightarrow> ir_cursor res = cursor_val)
      \<and> (cursor_val = None \<longrightarrow> ir_cursor res = cursor_of conn_id (working s)))"

lemma stored_commit:
  assumes "commit_change fault (advance_cursor now i c \<circ> mid \<circ> insert_event ev) s = (Inr u, s')"
    and mid: "\<And>d. db_events (mid d) = db_events d \<and> db_connections (mid d) = db_connections d"
    and conn: "find_row cn_id i (db_connections (working s)) \<noteq> None"
    and res: "ir_event_id res = last_event_id (committed s')" "ir_cursor res = cursor_of i (committed s')"
  shows "stored now i c ev s res s'"
proof -
  let ?d0 = "add_race (ff_race fault) (working s)"
  from commit_change_Inr [OF assms(1)]
  have com: "committed s' = advance_cursor now i c (mid (insert_event ev ?d0))"
    and w: "working s' = committed s'" "indexes_ok (committed s')" by auto
  have "db_events (committed s') = db_events (working s) @ ff_race fault
      @ [ev\<lparr>ev_id := next_id ev_id (db_events ?d0)\<rparr>]"
    by (simp add: com mid)
  moreover have "db_connections (committed s') = upd_row cn_id i (cursor_row now c) (db_connections (working s))"
    by (simp add: com advance_cursor_def upd_connection_def mid)
  moreover from calculation(1) have "ir_event_id res = next_id ev_id (db_events ?d0)"
    by (simp add: res last_event_id_def)
  moreover have "cursor_of i (committed s') = (case find_row cn_id i (db_connections (working s)) of None \<Rightarrow> None
      | Some r \<Rightarrow> (case c of None \<Rightarrow> cn_cursor r | Some v \<Rightarrow> Some v))"
    by (simp add: com cursor_of_advance mid)
  ultimately show ?thesis
    using w res conn by (auto simp: stored_def cursor_of_def split: option.splits)
qed

lemma stored_commit_plain:
  assumes "commit_change fault (advance_cursor now i c \<circ> insert_event ev) s = (Inr u, s')"
    and "find_row cn_id i (db_connections (working s)) \<noteq> None"
    and "ir_event_id res = last_event_id (committed s')" "ir_cursor res = cursor_of i (committed s')"
  shows "stored now i c ev s res s'"
  by (rule stored_commit [where mid = "\<lambda>d. d", OF _ _ assms(2-4)])
    (use assms(1) in \<open>simp_all add: comp_def\<close>)

lemma record_rejection_stored:
  assumes "record_rejection H fault now conn source c e s = (Inr res, s')"
    and "find_row cn_id (cn_id conn) (db_connections (working s)) \<noteq> None"
  shows "ir_outcome res = Ing_rejected
    \<and> stored now (cn_id conn) c (rejected_event now source (rejection_of H source c e)) s res s'"
proof -
  from assms(1) obtain u where "commit_change fault (advance_cursor now (cn_id conn) c
      \<circ> insert_event (rejected_event now source (rejection_of H source c e))) s = (Inr u, s')"
    and res: "res = \<lparr>ir_outcome = Ing_rejected, ir_event_id = last_event_id (committed s'),
            ir_cursor = cursor_of (cn_id conn) (committed s'), ir_envelope = None\<rparr>"
    by (auto simp: record_rejection_def split: prod.splits sum.splits)
  from stored_commit_plain [OF this(1) assms(2)] res show ?thesis by simp
qed

lemma ingest_control_stored:
  assumes "ingest_control H fromiso fault now conn source raw c eh nonce rq s = (Inr res, s')"
    and "find_row cn_id (cn_id conn) (db_connections (working s)) \<noteq> None"
  shows "ir_outcome res = Ing_control
    \<and> stored now (cn_id conn) c (control_event H fromiso now source eh nonce raw) s res s'"
proof -
  have eq: "(\<lambda>d. advance_cursor now i c (confirm_change H now rq nonce (insert_event ev d)))
      = advance_cursor now i c \<circ> confirm_change H now rq nonce \<circ> insert_event ev" for i ev
    by (simp add: comp_def)
  from assms(1) obtain u where "commit_change fault (advance_cursor now (cn_id conn) c
      \<circ> confirm_change H now rq nonce \<circ> insert_event (control_event H fromiso now source eh nonce raw)) s = (Inr u, s')"
    and res: "res = \<lparr>ir_outcome = Ing_control, ir_event_id = last_event_id (committed s'),
            ir_cursor = cursor_of (cn_id conn) (committed s'), ir_envelope = None\<rparr>"
    by (auto simp: ingest_control_def eq split: prod.splits sum.splits)
  from stored_commit [OF this(1) _ assms(2)] res show ?thesis by simp
qed

lemma ingest_normalized_stored:
  assumes "ingest_normalized H fromiso fault now conn source c eh nu s = (Inr res, s')"
    and "find_row cn_id (cn_id conn) (db_connections (working s)) \<noteq> None"
    and "ir_outcome res \<noteq> Ing_deduplicated"
  shows "ir_outcome res = Ing_normalized \<and> ir_envelope res = Some (envelope_of H source nu)
    \<and> stored now (cn_id conn) c (normalized_event H fromiso now source eh nu) s res s'"
proof -
  from assms(1,3) obtain u where "commit_change fault (advance_cursor now (cn_id conn) c
      \<circ> insert_event (normalized_event H fromiso now source eh nu)) s = (Inr u, s')"
    and res: "res = \<lparr>ir_outcome = Ing_normalized, ir_event_id = last_event_id (committed s'),
            ir_cursor = cursor_of (cn_id conn) (committed s'), ir_envelope = Some (envelope_of H source nu)\<rparr>"
    by (auto simp: ingest_normalized_def Let_def split: prod.splits sum.splits exn.splits option.splits)
  from stored_commit_plain [OF this(1) assms(2)] res show ?thesis by simp
qed

text \<open>The cases of an update, with the session each ends in.\<close>

lemma resolve_active_pair_Inr:
  "resolve_active_pair source d = Inr conn \<Longrightarrow>
     conn \<in> set (db_connections d) \<and> cn_id conn = sr_connection_id source
     \<and> cn_tenant_id conn = sr_tenant_id source \<and> cn_enabled conn \<and> cn_deleted_at conn = None
     \<and> sr_enabled source \<and> sr_deleted_at source = None \<and> sr_status source \<noteq> Src_revoked"
  by (auto simp: resolve_active_pair_def split: option.splits if_splits dest: find_conjD)

lemma find_row_exists: "x \<in> set rs \<Longrightarrow> find_row rid (rid x) rs \<noteq> None"
  by (auto simp: find_row_def find_None_iff)

lemma find_matching_frame:
  "find_matching_test_request now t c sid h d = Inr (r, d') \<Longrightarrow>
     db_connections d' = db_connections d \<and> db_events d' = db_events d \<and> db_sources d' = db_sources d
     \<and> (r \<noteq> None \<longrightarrow> d' = d)"
  by (auto simp: find_matching_test_request_def upd_test_def split: list.splits option.splits if_splits)

lemma find_matching_Some:
  "find_matching_test_request now t c sid h d = Inr (Some r, d') \<Longrightarrow>
     r \<in> set (db_tests d) \<and> open_request t c h r
     \<and> (tr_source_id r = None \<or> sid = None \<or> tr_source_id r = sid)
     \<and> (\<forall>x. tr_expires_at r = Some x \<longrightarrow> now \<le> x)"
proof -
  assume a: "find_matching_test_request now t c sid h d = Inr (Some r, d')"
  then obtain row where f: "filter (open_request t c h) (db_tests d) = [row]"
    by (auto simp: find_matching_test_request_def split: list.splits)
  then have "row \<in> set (filter (open_request t c h) (db_tests d))" by simp
  then have "row \<in> set (db_tests d)" "open_request t c h row"
    by auto
  with a f show ?thesis
    by (auto simp: find_matching_test_request_def split: option.splits if_splits)
qed

text \<open>The handshake lookup never meets two rows: the nonce hash is unique per tenant.\<close>

lemma find_matching_total:
  assumes "indexes_ok d"
  shows "\<exists>r d'. find_matching_test_request now t c sid h d = Inr (r, d')"
proof -
  have u: "unique_on (\<lambda>_. True) test_nonce_key (db_tests d)"
    using assms by (simp add: indexes_ok_def)
  have "length (filter (open_request t c h) (db_tests d)) \<le> 1"
  proof (rule ccontr)
    assume "\<not> ?thesis"
    then obtain x y ys where f: "filter (open_request t c h) (db_tests d) = x # y # ys"
      by (cases "filter (open_request t c h) (db_tests d)"; cases "tl (filter (open_request t c h) (db_tests d))") auto
    have "distinct (map test_nonce_key (filter (open_request t c h) (db_tests d)))"
      using u by (auto simp: unique_on_def distinct_map_filter)
    moreover have "test_nonce_key x = test_nonce_key y"
    proof -
      have "x \<in> set (filter (open_request t c h) (db_tests d))" "y \<in> set (filter (open_request t c h) (db_tests d))"
        unfolding f by auto
      then have "open_request t c h x" "open_request t c h y" by auto
      then show ?thesis by (simp add: open_request_def test_nonce_key_def)
    qed
    ultimately show False using f by simp
  qed
  then consider "filter (open_request t c h) (db_tests d) = []"
    | row where "filter (open_request t c h) (db_tests d) = [row]"
    by (cases "filter (open_request t c h) (db_tests d)") auto
  then show ?thesis
  proof cases
    case 2
    have "indexes_ok (upd_test i (\<lambda>r. r\<lparr>tr_status := T_expired\<rparr>) d)" for i
    proof -
      have "map test_nonce_key (upd_row tr_id i (\<lambda>r. r\<lparr>tr_status := T_expired\<rparr>) (db_tests d))
          = map test_nonce_key (db_tests d)"
        by (simp add: upd_row_def test_nonce_key_def)
      with assms show ?thesis
        unfolding indexes_ok_def upd_test_def by (simp add: unique_on_def)
    qed
    with 2 show ?thesis
      by (auto simp: find_matching_test_request_def flushed_def flush_def split: option.splits)
  qed (auto simp: find_matching_test_request_def)
qed

section \<open>All or nothing\<close>

fun outcome_state :: "ingest_outcome \<Rightarrow> event_state" where
  "outcome_state Ing_normalized = Normalized"
| "outcome_state Ing_control = Control"
| "outcome_state Ing_rejected = Rejected"
| "outcome_state Ing_deduplicated = Normalized"

definition event_of_outcome :: "ingest_outcome \<Rightarrow> source \<Rightarrow> event \<Rightarrow> bool" where
  "event_of_outcome out source ev =
     (ev_tenant_id ev = sr_tenant_id source \<and> ev_source_id ev = sr_id source
      \<and> ev_processing_state ev = outcome_state out \<and> (ev_is_control ev \<longleftrightarrow> out = Ing_control)
      \<and> (out \<noteq> Ing_normalized \<longrightarrow> ev_redacted_text ev = None \<and> ev_normalized_fingerprint ev = None))"

lemma event_of_outcome_cases:
  "event_of_outcome Ing_rejected source (rejected_event now source rj)"
  "event_of_outcome Ing_control source (control_event H fi now source eh nonce raw)"
  "event_of_outcome Ing_normalized source (normalized_event H fi now source eh nu)"
  by (simp_all add: event_of_outcome_def rejected_event_def control_event_def normalized_event_def
      blank_event_def)

lemma stored_session:
  assumes "stored now i c ev (s\<lparr>working := d\<rparr>) res s'"
    and "db_connections d = db_connections (working s)" "db_events d = db_events (working s)"
  shows "stored now i c ev s res s'"
  using assms by (auto simp: stored_def cursor_of_def)

lemma ingest_normal_stored:
  assumes "ingest_normal H fi fault now conn source raw v n c eh s = (Inr res, s')"
    and "find_row cn_id (cn_id conn) (db_connections (working s)) \<noteq> None"
    and "ir_outcome res \<noteq> Ing_deduplicated"
  shows "\<exists>ev. stored now (cn_id conn) c ev s res s' \<and> event_of_outcome (ir_outcome res) source ev
    \<and> (ir_outcome res = Ing_normalized \<longrightarrow>
         (\<exists>nu. n raw = Inr nu \<and> ev = normalized_event H fi now source eh nu))
    \<and> ir_outcome res \<noteq> Ing_control"
proof (cases "bindr (v raw) (\<lambda>_. n raw)")
  case (Inl e)
  with assms(1) have "record_rejection H fault now conn source c e s = (Inr res, s')"
    by (auto simp: ingest_normal_def split: if_splits)
  from record_rejection_stored [OF this assms(2)] show ?thesis
    by (auto simp: event_of_outcome_cases)
next
  case (Inr nu)
  with assms(1) have "ingest_normalized H fi fault now conn source c eh nu s = (Inr res, s')"
    by (simp add: ingest_normal_def)
  from ingest_normalized_stored [OF this assms(2,3)] Inr show ?thesis
    by (auto simp: event_of_outcome_cases)
qed

definition ext_hash_of :: "(string \<Rightarrow> string) \<Rightarrow> json dict \<Rightarrow> string" where
  "ext_hash_of H raw = (case extract_cursor raw of None \<Rightarrow> [] | Some c \<Rightarrow> H c)"

lemma ingest_update_cases:
  assumes "ingest_update H fi fault now source raw v n s = (r, s')"
  obtains (gate) e where "r = Inl e" "s' = s"
  | (replay) res where "r = Inr res" "ir_outcome res = Ing_deduplicated" "s' = s"
  | (normal) conn d where "resolve_active_pair source (working s) = Inr conn"
      "db_connections d = db_connections (working s)" "db_events d = db_events (working s)"
      "ingest_normal H fi fault now conn source raw v n (extract_cursor raw) (ext_hash_of H raw)
         (s\<lparr>working := d\<rparr>) = (r, s')"
  | (control) conn nonce rq where "resolve_active_pair source (working s) = Inr conn"
      "parse_verify_nonce (extract_text raw) = Some nonce"
      "find_matching_test_request now (sr_tenant_id source) (cn_id conn) (Some (sr_id source))
         (nonce_hash H nonce) (working s) = Inr (Some rq, working s)"
      "ingest_control H fi fault now conn source raw (extract_cursor raw) (ext_hash_of H raw) nonce rq s = (r, s')"
proof -
  note def = ingest_update_def [of H fi fault now source raw v n s, unfolded Let_def, folded ext_hash_of_def]
  show ?thesis
  proof (cases "resolve_active_pair source (working s)")
    case (Inl e)
    with assms gate show ?thesis by (auto simp: def)
  next
    case conn: (Inr conn)
    show ?thesis
    proof (cases "find_existing_event source (ext_hash_of H raw) (working s)")
      case (Some e)
      with assms conn replay show ?thesis by (auto simp: def)
    next
      case fresh: None
      show ?thesis
      proof (cases "parse_verify_nonce (extract_text raw)")
        case None
        with assms conn fresh have "ingest_normal H fi fault now conn source raw v n (extract_cursor raw)
            (ext_hash_of H raw) (s\<lparr>working := working s\<rparr>) = (r, s')" by (simp add: def)
        with conn show ?thesis by (rule normal [OF _ refl refl])
      next
        case nonce: (Some nonce)
        show ?thesis
        proof (cases "find_matching_test_request now (sr_tenant_id source) (cn_id conn) (Some (sr_id source))
            (nonce_hash H nonce) (working s)")
          case (Inl e)
          with assms conn fresh nonce gate show ?thesis by (auto simp: def)
        next
          case (Inr p)
          obtain q d1 where p: "p = (q, d1)" by (cases p)
          note fr = find_matching_frame [OF Inr [unfolded p]]
          show ?thesis
          proof (cases q)
            case None
            with assms conn fresh nonce Inr p have "ingest_normal H fi fault now conn source raw v n
              (extract_cursor raw) (ext_hash_of H raw) (s\<lparr>working := d1\<rparr>) = (r, s')" by (simp add: def)
            with conn fr show ?thesis by (intro normal [of conn d1]) auto
          next
            case (Some rq)
            with assms conn fresh nonce Inr p have "ingest_control H fi fault now conn source raw
              (extract_cursor raw) (ext_hash_of H raw) nonce rq s = (r, s')" by (simp add: def)
            moreover have "d1 = working s" using fr Some by simp
            ultimately show ?thesis using conn nonce Inr p Some by (intro control) auto
          qed
        qed
      qed
    qed
  qed
qed

lemma resolved_row:
  assumes "resolve_active_pair source d = Inr conn"
  shows "cn_id conn = sr_connection_id source" "find_row cn_id (cn_id conn) (db_connections d) \<noteq> None"
  using resolve_active_pair_Inr [OF assms] find_row_exists [of conn "db_connections d" cn_id] by blast+

lemma ingest_committed:
  assumes "ingest_update H fi fault now source raw v n s = (Inr res, s')"
    and "ir_outcome res \<noteq> Ing_deduplicated"
  shows "\<exists>ev. stored now (sr_connection_id source) (extract_cursor raw) ev s res s'
    \<and> event_of_outcome (ir_outcome res) source ev
    \<and> (ir_outcome res = Ing_normalized \<longrightarrow> (\<exists>nu. n raw = Inr nu \<and>
         ev = normalized_event H fi now source (ext_hash_of H raw) nu))
    \<and> (ir_outcome res = Ing_control \<longrightarrow> (\<exists>nonce rq. parse_verify_nonce (extract_text raw) = Some nonce \<and>
         rq \<in> set (db_tests (working s)) \<and>
         open_request (sr_tenant_id source) (sr_connection_id source) (nonce_hash H nonce) rq \<and>
         (tr_source_id rq = None \<or> tr_source_id rq = Some (sr_id source)) \<and>
         (\<forall>x. tr_expires_at rq = Some x \<longrightarrow> now \<le> x) \<and>
         ev = control_event H fi now source (ext_hash_of H raw) nonce raw))"
  using assms(1)
proof (cases rule: ingest_update_cases)
  case (replay res')
  with assms(2) show ?thesis by simp
next
  case (normal conn d)
  have "find_row cn_id (cn_id conn) (db_connections (working (s\<lparr>working := d\<rparr>))) \<noteq> None"
    using resolved_row [OF normal(1)] normal(2) by simp
  from ingest_normal_stored [OF normal(4) this assms(2)] obtain ev where
    ev: "stored now (cn_id conn) (extract_cursor raw) ev (s\<lparr>working := d\<rparr>) res s'"
    "event_of_outcome (ir_outcome res) source ev" "ir_outcome res \<noteq> Ing_control"
    "ir_outcome res = Ing_normalized \<longrightarrow> (\<exists>nu. n raw = Inr nu \<and>
         ev = normalized_event H fi now source (ext_hash_of H raw) nu)" by auto
  from stored_session [OF ev(1) normal(2,3)] ev resolved_row(1) [OF normal(1)] show ?thesis by auto
next
  case (control conn nonce rq)
  from ingest_control_stored [OF control(4)] resolved_row [OF control(1)]
  have "ir_outcome res = Ing_control" "stored now (sr_connection_id source) (extract_cursor raw)
      (control_event H fi now source (ext_hash_of H raw) nonce raw) s res s'" by auto
  with find_matching_Some [OF control(3)] control(2) resolved_row(1) [OF control(1)] show ?thesis
    by (auto simp: event_of_outcome_cases)
qed simp

text \<open>The other way round: without an outcome of its own, an update commits nothing.\<close>

definition unchanged :: "flush_fault \<Rightarrow> session \<Rightarrow> session \<Rightarrow> bool" where
  "unchanged fault s s' =
     (committed s' = committed s \<or> committed s' = add_race (ff_race fault) (committed s))"

lemma ingest_normal_unchanged:
  assumes "ingest_normal H fi fault now conn source raw v n c eh s = (r, s')"
    and "case r of Inl e \<Rightarrow> True | Inr res \<Rightarrow> ir_outcome res = Ing_deduplicated"
  shows "unchanged fault s s'"
proof (cases "bindr (v raw) (\<lambda>_. n raw)")
  case (Inl e)
  with assms show ?thesis
    by (auto simp: ingest_normal_def record_rejection_def unchanged_def
        split: if_splits prod.splits sum.splits dest!: commit_change_Inl)
next
  case (Inr nu)
  obtain cr s1 where c: "commit_change fault (advance_cursor now (cn_id conn) c \<circ>
      insert_event (normalized_event H fi now source eh nu)) s = (cr, s1)"
    by fastforce
  show ?thesis
  proof (cases cr)
    case (Inl e)
    with assms(1) c Inr have "s' = s1"
      by (auto simp: ingest_normal_def ingest_normalized_def Let_def split: exn.splits option.splits)
    with commit_change_Inl [OF c [unfolded Inl]] show ?thesis by (auto simp: unchanged_def)
  next
    case (Inr u)
    with assms c \<open>bindr (v raw) (\<lambda>_. n raw) = Inr nu\<close> show ?thesis
      by (auto simp: ingest_normal_def ingest_normalized_def Let_def)
  qed
qed

lemma ingest_unchanged:
  assumes "ingest_update H fi fault now source raw v n s = (r, s')"
    and "case r of Inl e \<Rightarrow> True | Inr res \<Rightarrow> ir_outcome res = Ing_deduplicated"
  shows "unchanged fault s s'"
proof -
  have c: "ingest_control H fi fault now conn source raw c eh nonce rq s = (r, s') \<Longrightarrow> unchanged fault s s'"
    for conn c eh nonce rq
    using assms(2)
    by (auto simp: ingest_control_def unchanged_def split: prod.splits sum.splits dest!: commit_change_Inl)
  have n: "ingest_normal H fi fault now conn source raw v n c eh (s\<lparr>working := d\<rparr>) = (r, s') \<Longrightarrow> unchanged fault s s'"
    for conn c eh d
    using ingest_normal_unchanged [of H fi fault now conn source raw v n c eh "s\<lparr>working := d\<rparr>" r s'] assms(2)
    by (simp add: unchanged_def)
  show ?thesis
    using assms(1)
  proof (cases rule: ingest_update_cases)
    case (normal conn d)
    from normal(4) show ?thesis by (rule n)
  next
    case (control conn nonce rq)
    from control(4) show ?thesis by (rule c)
  qed (simp_all add: unchanged_def)
qed

section \<open>Replay\<close>

lemma find_unique:
  assumes "unique_on p key xs" "x \<in> set xs" "P x" "\<And>y. P y \<Longrightarrow> p y \<and> key y = key x"
  shows "find P xs = Some x"
proof -
  obtain y where y: "find P xs = Some y"
    using assms(2,3) by (cases "find P xs") (auto simp: find_None_iff)
  then have mem: "y \<in> set xs" "P y" by (auto dest: find_conjD)
  have "p y \<and> key y = key x" "p x \<and> key x = key x" using assms(4) mem(2) assms(3) by blast+
  then have "y = x" using unique_onD [OF assms(1) mem(1) assms(2)] by blast
  with y show ?thesis by simp
qed

lemma find_keyed:
  assumes "keyed rid xs" "x \<in> set xs" "P x" "\<And>y. P y \<Longrightarrow> rid y = rid x"
  shows "find P xs = Some x"
proof (rule find_unique [of "\<lambda>_. True" rid])
  show "unique_on (\<lambda>_. True) rid xs" using assms(1) by (simp add: keyed_def unique_on_def)
  show "P y \<Longrightarrow> True \<and> rid y = rid x" for y using assms(4) by blast
qed (use assms(2,3) in simp_all)

text \<open>After the cursor moved, the same source still resolves to the same connection.\<close>

lemma resolve_after:
  assumes "resolve_active_pair source d = Inr conn" "keyed cn_id (db_connections d)"
    and "db_connections d' = upd_row cn_id (sr_connection_id source) (cursor_row now c) (db_connections d)"
  shows "resolve_active_pair source d' = Inr (cursor_row now c conn)
    \<and> cursor_of (sr_connection_id source) d' = cn_cursor (cursor_row now c conn)"
proof -
  note r = resolve_active_pair_Inr [OF assms(1)]
  have rs: "cn_status conn \<noteq> Conn_revoked"
    using assms(1) r by (auto simp: resolve_active_pair_def split: option.splits if_splits)
  have k: "keyed cn_id (db_connections d')" using assms(2,3) by (simp add: keyed_upd_row)
  have m: "cursor_row now c conn \<in> set (db_connections d')"
    using r assms(3) by (auto simp: set_upd_row)
  have "find (\<lambda>x. cn_id x = sr_connection_id source \<and> cn_tenant_id x = sr_tenant_id source) (db_connections d')
      = Some (cursor_row now c conn)"
    by (rule find_keyed [OF k m]) (use r in auto)
  moreover have "find_row cn_id (sr_connection_id source) (db_connections d') = Some (cursor_row now c conn)"
    unfolding find_row_def by (rule find_keyed [OF k m]) (use r in auto)
  ultimately show ?thesis
    using r rs by (simp add: resolve_active_pair_def cursor_of_def)
qed

lemma replay_found:
  assumes "stored now i c ev s res s'" "ev_external_id_hash ev = h" "h \<noteq> []"
    and "ev_tenant_id ev = sr_tenant_id source" "ev_source_id ev = sr_id source"
    and "ev_processing_state ev \<noteq> Rejected"
  shows "find_existing_event source h (working s') = Some (ev\<lparr>ev_id := ir_event_id res\<rparr>)"
proof -
  from assms(1) obtain pre where ev: "db_events (working s') = db_events (working s) @ pre @ [ev\<lparr>ev_id := ir_event_id res\<rparr>]"
    and u: "unique_on coll_event_indexed coll_event_key (db_events (working s'))"
    by (auto simp: stored_def indexes_ok_def)
  have "find (\<lambda>e. ev_tenant_id e = sr_tenant_id source \<and> ev_source_id e = sr_id source
      \<and> ev_external_id_hash e = h \<and> ev_processing_state e \<noteq> Rejected) (db_events (working s'))
      = Some (ev\<lparr>ev_id := ir_event_id res\<rparr>)"
    by (rule find_unique [OF u]) (use assms ev in \<open>auto simp: coll_event_indexed_def coll_event_key_def\<close>)
  with assms(3) show ?thesis by (simp add: find_existing_event_def)
qed

section \<open>Properties\<close>

text \<open>A concrete source, its connection and an open handshake, for the witnesses.\<close>

definition demo_source :: source where
  "demo_source = (blank_source 0)\<lparr>sr_id := 3, sr_tenant_id := 7, sr_connection_id := 1, sr_provider := ''telegram'',
     sr_source_ref := ''-100'', sr_enabled := True, sr_status := Src_active\<rparr>"

definition demo_request :: test_request where
  "demo_request = (blank_test_request 0)\<lparr>tr_id := 1, tr_tenant_id := 7, tr_connection_id := 1, tr_provider := ''telegram'',
     tr_nonce_hash := ''abcdefgh'', tr_status := T_awaiting, tr_expires_at := Some 900\<rparr>"

definition demo_session :: session where
  "demo_session = (let d = demo_conn_db\<lparr>db_sources := [demo_source], db_tests := [demo_request]\<rparr>
     in \<lparr>committed = d, working = d\<rparr>)"

definition demo_update :: normalized_update where
  "demo_update = \<lparr>nu_provider = ''telegram'', nu_external_id = [], nu_kind = ''message'', nu_occurred_at = [],
     nu_normalized = [(''text'', JStr ''hi'')], nu_redacted_text = ''hi'', nu_raw_fingerprint = [],
     nu_redaction_profile = ''default'', nu_content_version = 1, nu_is_control = False, nu_control_nonce_hash = []\<rparr>"

lemmas demo_defs = demo_source_def demo_request_def demo_session_def demo_update_def demo_conn_db_def demo_conn_def
  empty_db_def blank_connection_def blank_source_def blank_test_request_def

lemma demo_pair: "resolve_active_pair demo_source (working demo_session) = Inr demo_conn"
  by (simp add: resolve_active_pair_def demo_defs Let_def)

lemma demo_no_event: "find_existing_event demo_source h (working demo_session) = None"
  by (simp add: find_existing_event_def demo_defs Let_def)

lemma demo_match: "find_matching_test_request 10 7 1 (Some 3) ''abcdefgh'' (working demo_session) = Inr (Some demo_request, working demo_session)"
  by (simp add: find_matching_test_request_def open_request_def demo_defs Let_def)

lemma demo_commit:
  assumes "indexes_ok (f (working demo_session))"
  shows "\<exists>s'. commit_change no_fault f demo_session = (Inr (), s')"
  using assms by (simp add: commit_change_def no_fault_def flush_def Let_def)

lemma unique_on_upd_row:
  assumes "\<And>r. p (f r) = p r \<and> key (f r) = key r"
  shows "unique_on p key (upd_row rid i f rs) = unique_on p key rs"
proof -
  have "map key (filter p (upd_row rid i f rs)) = map key (filter p rs)"
    using assms by (induction rs) (auto simp: upd_row_def)
  then show ?thesis by (simp add: unique_on_def)
qed

lemma indexes_ok_advance: "indexes_ok (advance_cursor now i c d) = indexes_ok d"
  by (simp add: indexes_ok_def advance_cursor_def upd_connection_def unique_on_upd_row conn_identity_indexed_def
    conn_identity_key_def conn_name_indexed_def conn_name_key_def cursor_row_def split: option.splits)

lemma indexes_ok_confirm: "indexes_ok d \<Longrightarrow> indexes_ok (confirm_change H now r n d)"
  by (auto simp: confirm_change_def confirm_test_request_def Let_def split: sum.splits)

lemma demo_insert: "indexes_ok (insert_event ev (working demo_session))"
  by (simp add: indexes_ok_def unique_on_def insert_event_def demo_defs Let_def)

lemma demo_ingest_normal:
  "\<exists>res s'. ingest_update id (\<lambda>_. None) no_fault 10 demo_source [(''update_id'', JInt 5)] (\<lambda>_. Inr ()) (\<lambda>_. Inr demo_update)
     demo_session = (Inr res, s') \<and> ir_outcome res = Ing_normalized"
proof -
  let ?f = "\<lambda>c ev. advance_cursor 10 (cn_id demo_conn) c \<circ> insert_event ev"
  have t: "extract_text [(''update_id'', JInt 5)] = None" by code_simp
  have "\<exists>s'. commit_change no_fault (?f c ev) demo_session = (Inr (), s')" for c ev
    by (rule demo_commit) (simp add: indexes_ok_advance indexes_ok_confirm demo_insert)
  then show ?thesis
    by (auto simp: ingest_update_def demo_pair demo_no_event t parse_verify_nonce_def ingest_normal_def ingest_normalized_def
      Let_def split: prod.splits sum.splits) (metis Pair_inject Inl_Inr_False)+
qed

lemma demo_ingest_control:
  "\<exists>res s'. ingest_update id (\<lambda>_. None) no_fault 10 demo_source
     [(''update_id'', JInt 5), (''text'', JStr ''TF-VERIFY-abcdefgh'')] (\<lambda>_. Inr ()) (\<lambda>_. Inr demo_update)
     demo_session = (Inr res, s') \<and> ir_outcome res = Ing_control"
proof -
  let ?f = "\<lambda>c ev n. \<lambda>d. advance_cursor 10 (cn_id demo_conn) c (confirm_change id 10 demo_request n (insert_event ev d))"
  have p: "parse_verify_nonce (extract_text [(''update_id'', JInt 5), (''text'', JStr ''TF-VERIFY-abcdefgh'')]) = Some ''abcdefgh''"
    by code_simp
  have c: "\<exists>s'. commit_change no_fault (?f c ev n) demo_session = (Inr (), s')" for c ev n
    by (rule demo_commit) (simp add: indexes_ok_advance indexes_ok_confirm demo_insert)
  have ids: "sr_tenant_id demo_source = 7" "sr_id demo_source = 3" "cn_id demo_conn = 1"
    by (simp_all add: demo_source_def demo_conn_def)
  have "nonce_hash id ''abcdefgh'' = ''abcdefgh''" by (simp add: nonce_hash_def)
  with c show ?thesis
    by (auto simp: ingest_update_def demo_pair demo_no_event p ids demo_match ingest_control_def
      Let_def split: prod.splits sum.splits) (metis Pair_inject Inl_Inr_False)+
qed

text \<open>C13 Atomicity of one update: when \<open>ingest_update\<close> answers normalized, control or rejected, the session
  has committed one new event of exactly that kind, of the source and its tenant, as the last row, and in
  the same transaction the connection's cursor moved to the update's; the reported id and cursor are the
  committed ones and nothing uncommitted is left.\<close>

theorem ingest_atomic:
  assumes "ingest_update H fi fault now source raw v n s = (Inr res, s')" "ir_outcome res \<noteq> Ing_deduplicated"
  shows "\<exists>ev. stored now (sr_connection_id source) (extract_cursor raw) ev s res s'
    \<and> event_of_outcome (ir_outcome res) source ev"
  using ingest_committed [OF assms] by blast

theorem ingest_atomic_witness:
  "\<exists>res s' ev. ingest_update id (\<lambda>_. None) no_fault 10 demo_source [(''update_id'', JInt 5)] (\<lambda>_. Inr ()) (\<lambda>_. Inr demo_update)
     demo_session = (Inr res, s') \<and> stored 10 1 (Some ''5'') ev demo_session res s'"
proof -
  obtain res s' where r: "ingest_update id (\<lambda>_. None) no_fault 10 demo_source [(''update_id'', JInt 5)] (\<lambda>_. Inr ()) (\<lambda>_. Inr demo_update)
     demo_session = (Inr res, s')" "ir_outcome res = Ing_normalized" using demo_ingest_normal by blast
  have "extract_cursor [(''update_id'', JInt 5)] = Some ''5''" by code_simp
  moreover have "sr_connection_id demo_source = 1" by (simp add: demo_source_def)
  ultimately show ?thesis using ingest_atomic [OF r(1)] r by auto
qed

text \<open>C14 No trace of a failure: when \<open>ingest_update\<close> raises, or answers deduplicated, it has committed nothing;
  the committed database differs at most by the events other transactions committed meanwhile, and the
  cursor in particular is where it was.\<close>

theorem ingest_failure_no_trace:
  assumes "ingest_update H fi fault now source raw v n s = (r, s')"
    and "case r of Inl e \<Rightarrow> True | Inr res \<Rightarrow> ir_outcome res = Ing_deduplicated"
  shows "(committed s' = committed s \<or> committed s' = add_race (ff_race fault) (committed s))
    \<and> cursor_of (sr_connection_id source) (committed s') = cursor_of (sr_connection_id source) (committed s)"
  using ingest_unchanged [OF assms] by (auto simp: unchanged_def intro: cursor_of_connections)

theorem ingest_failure_no_trace_witness:
  "committed (snd (ingest_update id (\<lambda>_. None) \<lparr>ff_race = [], ff_down = True\<rparr> 10 (demo_source\<lparr>sr_enabled := False\<rparr>) [] (\<lambda>_. Inr ())
     (\<lambda>_. Inr demo_update) demo_session)) = committed demo_session"
proof -
  have "ingest_update id (\<lambda>_. None) \<lparr>ff_race = [], ff_down = True\<rparr> 10 (demo_source\<lparr>sr_enabled := False\<rparr>) [] (\<lambda>_. Inr ())
     (\<lambda>_. Inr demo_update) demo_session = (Inl (IngestNotAllowed ''source is disabled, revoked or deleted''), demo_session)"
    by (simp add: ingest_update_def resolve_active_pair_def demo_defs Let_def)
  from ingest_failure_no_trace [OF this] this show ?thesis by simp
qed

text \<open>The handshake gate: an update is taken for a control message only when its text carries a nonce and
  the tenant has, for that connection, an open and unexpired test request with the nonce's hash; the
  event then holds the hash and no text.\<close>

theorem control_needs_open_request:
  assumes "ingest_update H fi fault now source raw v n s = (Inr res, s')" "ir_outcome res = Ing_control"
  shows "\<exists>nonce rq. parse_verify_nonce (extract_text raw) = Some nonce \<and> rq \<in> set (db_tests (working s))
    \<and> open_request (sr_tenant_id source) (sr_connection_id source) (nonce_hash H nonce) rq
    \<and> (tr_source_id rq = None \<or> tr_source_id rq = Some (sr_id source))
    \<and> (case tr_expires_at rq of None \<Rightarrow> True | Some x \<Rightarrow> now \<le> x)
    \<and> (\<exists>ev \<in> set (db_events (committed s')). ev_control_nonce_hash ev = Some (nonce_hash H nonce) \<and> ev_redacted_text ev = None)"
proof -
  from ingest_committed [OF assms(1)] assms(2) obtain ev nonce rq where
    st: "stored now (sr_connection_id source) (extract_cursor raw) ev s res s'"
    and x: "parse_verify_nonce (extract_text raw) = Some nonce" "rq \<in> set (db_tests (working s))"
    "open_request (sr_tenant_id source) (sr_connection_id source) (nonce_hash H nonce) rq"
    "tr_source_id rq = None \<or> tr_source_id rq = Some (sr_id source)" "\<forall>x. tr_expires_at rq = Some x \<longrightarrow> now \<le> x"
    "ev = control_event H fi now source (ext_hash_of H raw) nonce raw"
    by auto
  from st have "ev\<lparr>ev_id := ir_event_id res\<rparr> \<in> set (db_events (committed s'))" by (auto simp: stored_def)
  moreover have "ev_control_nonce_hash (ev\<lparr>ev_id := ir_event_id res\<rparr>) = Some (nonce_hash H nonce)"
    "ev_redacted_text (ev\<lparr>ev_id := ir_event_id res\<rparr>) = None" using x(6) by (simp_all add: control_event_def)
  moreover have "case tr_expires_at rq of None \<Rightarrow> True | Some x \<Rightarrow> now \<le> x" using x(5) by (simp split: option.splits)
  ultimately show ?thesis using x(1-4) by blast
qed

theorem control_needs_open_request_witness:
  "\<exists>rq \<in> set (db_tests (working demo_session)). tr_status rq = T_awaiting \<or> tr_status rq = T_pending"
proof -
  obtain res s' where r: "ingest_update id (\<lambda>_. None) no_fault 10 demo_source
     [(''update_id'', JInt 5), (''text'', JStr ''TF-VERIFY-abcdefgh'')] (\<lambda>_. Inr ()) (\<lambda>_. Inr demo_update)
     demo_session = (Inr res, s')" "ir_outcome res = Ing_control" using demo_ingest_control by blast
  from control_needs_open_request [OF r] show ?thesis by (auto simp: open_request_def)
qed

text \<open>Replay: once an update has been stored under the hash of its cursor, delivering it again, at any later
  time, with any faults and whatever the provider now says of it, is answered as deduplicated with the
  stored event's id, and the session is left as it is.\<close>

theorem ingest_replay:
  assumes "ingest_update H fi fault now source raw v n s = (Inr res, s')"
    and "ir_outcome res = Ing_control \<or> (ir_outcome res = Ing_normalized
           \<and> (case n raw of Inl e \<Rightarrow> False | Inr nu \<Rightarrow> nu_external_id nu = []))"
    and "ext_hash_of H raw \<noteq> []" "keyed cn_id (db_connections (working s))"
  shows "\<exists>c. ingest_update H fi fault' now' source raw v' n' s' = (Inr \<lparr>ir_outcome = Ing_deduplicated,
      ir_event_id = ir_event_id res, ir_cursor = c, ir_envelope = None\<rparr>, s')"
proof -
  have nd: "ir_outcome res \<noteq> Ing_deduplicated" using assms(2) by auto
  from ingest_committed [OF assms(1) nd] obtain ev where
    st: "stored now (sr_connection_id source) (extract_cursor raw) ev s res s'"
    and eo: "event_of_outcome (ir_outcome res) source ev"
    and k: "ir_outcome res = Ing_normalized \<longrightarrow> (\<exists>nu. n raw = Inr nu \<and> ev = normalized_event H fi now source (ext_hash_of H raw) nu)"
      "ir_outcome res = Ing_control \<longrightarrow> (\<exists>nonce. ev = control_event H fi now source (ext_hash_of H raw) nonce raw)"
    by blast
  have h: "ev_external_id_hash ev = ext_hash_of H raw"
    using assms(2)
  proof
    assume "ir_outcome res = Ing_control"
    with k(2) show ?thesis by (auto simp: control_event_def)
  next
    assume a: "ir_outcome res = Ing_normalized \<and> (case n raw of Inl e \<Rightarrow> False | Inr nu \<Rightarrow> nu_external_id nu = [])"
    with k(1) show ?thesis by (auto simp: normalized_event_def)
  qed
  have fe: "find_existing_event source (ext_hash_of H raw) (working s') = Some (ev\<lparr>ev_id := ir_event_id res\<rparr>)"
    by (rule replay_found [OF st h assms(3)]) (use eo assms(2) in \<open>auto simp: event_of_outcome_def\<close>)
  obtain conn where "resolve_active_pair source (working s) = Inr conn"
    using assms(1) by (cases rule: ingest_update_cases) (use nd in auto)
  from resolve_after [OF this assms(4)] st obtain conn' where "resolve_active_pair source (working s') = Inr conn'"
    by (auto simp: stored_def)
  with fe show ?thesis by (simp add: ingest_update_def Let_def flip: ext_hash_of_def)
qed

theorem ingest_replay_witness:
  "\<exists>res s' res'. ingest_update id (\<lambda>_. None) no_fault 10 demo_source [(''update_id'', JInt 5)] (\<lambda>_. Inr ()) (\<lambda>_. Inr demo_update)
       demo_session = (Inr res, s')
     \<and> ingest_update id (\<lambda>_. None) no_fault 99 demo_source [(''update_id'', JInt 5)] (\<lambda>_. Inl TypeError) (\<lambda>_. Inl TypeError) s'
       = (Inr res', s') \<and> ir_outcome res' = Ing_deduplicated"
proof -
  obtain res s' where r: "ingest_update id (\<lambda>_. None) no_fault 10 demo_source [(''update_id'', JInt 5)] (\<lambda>_. Inr ()) (\<lambda>_. Inr demo_update)
     demo_session = (Inr res, s')" "ir_outcome res = Ing_normalized" using demo_ingest_normal by blast
  have "ext_hash_of id [(''update_id'', JInt 5)] \<noteq> []" "keyed cn_id (db_connections (working demo_session))"
    by (simp_all add: ext_hash_of_def extract_cursor_def jget_def int_str_def demo_defs keyed_def Let_def)
  from ingest_replay [OF r(1) _ this, of no_fault 99 "\<lambda>_. Inl TypeError" "\<lambda>_. Inl TypeError"] r show ?thesis
    by (fastforce simp: demo_update_def)
qed

end
