(* ===== verification/Worker.thy ===== *)
theory Worker
  imports IngestProps Intelligence
begin

text \<open>
  The collection worker (\<open>app/collection/worker.py\<close>, \<open>runtime.provider_diagnostic\<close>): one bounded
  poll of a connection, its updates dispatched to the tenant's active sources, the health telemetry,
  and the round over all active connections. The provider is a \<open>provider_ops\<close> of the registry.
  \<open>we_fault\<close> says what the database does at the flush of the n-th update of the batch.
\<close>

section \<open>Diagnostics\<close>

definition ALLOWED_ERROR_CODES :: "string list" where
  "ALLOWED_ERROR_CODES = [''credential_unavailable'', ''invalid_credential_format'', ''unauthorized'',
     ''rate_limited'', ''collector_conflict'', ''provider_rejected'', ''provider_unavailable'',
     ''timeout'', ''invalid_provider_response'', ''invalid_cursor'', ''unsafe_api_base'']"

definition ALLOWED_STATES :: "string list" where
  "ALLOWED_STATES = [''healthy'', ''degraded'', ''unauthorized'', ''offline'', ''pending'']"

definition attr_or :: "json option \<Rightarrow> string \<Rightarrow> string" where
  "attr_or a dflt = py_str (case a of None \<Rightarrow> JStr dflt | Some v \<Rightarrow> v)"

text \<open>\<open>isinstance(v, int)\<close> also holds of a Boolean.\<close>

definition as_int :: "json \<Rightarrow> int option" where
  "as_int v = (case v of JInt i \<Rightarrow> Some i | JBool b \<Rightarrow> Some (if b then 1 else 0) | _ \<Rightarrow> None)"

definition provider_diagnostic :: "provider_error \<Rightarrow> provider_diagnostic" where
  "provider_diagnostic e =
     (let raw_code = attr_or (pe_code e) ''provider_error'';
          raw_state = attr_or (pe_state e) ''degraded''
      in \<lparr>pd_code = (if raw_code \<in> set ALLOWED_ERROR_CODES then raw_code else ''provider_error''),
          pd_state = (if raw_state \<in> set ALLOWED_STATES then raw_state else ''degraded''),
          pd_retry_after_seconds = (case as_int (pe_retry_after_seconds e) of
              Some r \<Rightarrow> if r \<ge> 0 then Some r else None | None \<Rightarrow> None),
          pd_http_status = as_int (pe_http_status e)\<rparr>)"

section \<open>Telemetry\<close>

definition raw_cursor :: "json dict \<Rightarrow> string option" where
  "raw_cursor raw = (if jget raw ''update_id'' \<noteq> JNull then Some (py_str (jget raw ''update_id'')) else None)"

definition as_non_negative_int :: "json \<Rightarrow> int" where
  "as_non_negative_int value = (case py_int (jor value (JInt 0)) of Inl _ \<Rightarrow> 0 | Inr i \<Rightarrow> max 0 i)"

record worker_outcome =
  wo_connection_id :: int
  wo_status :: string
  wo_processed :: int
  wo_deduplicated :: int
  wo_rejected :: int
  wo_ignored :: int
  wo_cursor :: "string option"
  wo_error_code :: string

definition opt_json :: "int option \<Rightarrow> json" where
  "opt_json i = (case i of None \<Rightarrow> JNull | Some n \<Rightarrow> JInt n)"

definition health_dict :: "provider_health \<Rightarrow> json dict" where
  "health_dict h =
     [(''state'', JStr (ph_state h)), (''checked_at'', JStr (ph_checked_at h)),
      (''last_success_at'', JStr (ph_last_success_at h)), (''last_event_at'', JStr (ph_last_event_at h)),
      (''lag_seconds'', opt_json (ph_lag_seconds h)), (''error_code'', JStr (ph_error_code h)),
      (''retry_after_seconds'', opt_json (ph_retry_after_seconds h))]"

record event_metrics =
  em_persisted :: int
  em_processed :: int
  em_rejected :: int
  em_last_event_at :: string

definition connection_events :: "int \<Rightarrow> int \<Rightarrow> db \<Rightarrow> event list" where
  "connection_events tenant_id connection_id d =
     (let source_ids = map sr_id (filter (\<lambda>s. sr_tenant_id s = tenant_id \<and> sr_connection_id s = connection_id)
            (db_sources d))
      in filter (\<lambda>e. ev_tenant_id e = tenant_id \<and> ev_source_id e \<in> set source_ids) (db_events d))"

definition latest :: "time option list \<Rightarrow> time option" where
  "latest ts = foldl (\<lambda>m t. case (m, t) of (None, _) \<Rightarrow> t | (Some a, None) \<Rightarrow> Some a
       | (Some a, Some b) \<Rightarrow> Some (max a b)) None ts"

definition event_metrics :: "int \<Rightarrow> int \<Rightarrow> db \<Rightarrow> event_metrics" where
  "event_metrics tenant_id connection_id d =
     (let evs = connection_events tenant_id connection_id d;
          persisted = int (length evs);
          rejected = int (length (filter (\<lambda>e. ev_processing_state e = Rejected) evs))
      in \<lparr>em_persisted = persisted, em_processed = max 0 (persisted - rejected), em_rejected = rejected,
          em_last_event_at = (case latest (map ev_occurred_at evs) of None \<Rightarrow> [] | Some t \<Rightarrow> isoformat t)\<rparr>)"

section \<open>One connection\<close>

record worker_env =
  we_hash :: "string \<Rightarrow> string"
  we_fromiso :: "string \<Rightarrow> time option"
  we_now :: time
  we_fault :: "nat \<Rightarrow> flush_fault"

definition advance_ignored ::
  "time \<Rightarrow> int \<Rightarrow> int \<Rightarrow> string option \<Rightarrow> session \<Rightarrow> unit res \<times> session" where
  "advance_ignored now tenant_id connection_id cur s = (case cur of
       None \<Rightarrow> (Inr (), s)
     | Some c \<Rightarrow> (case get_connection tenant_id connection_id (working s) of
           Inl e \<Rightarrow> (Inl e, s)
         | Inr conn \<Rightarrow> (Inr (), commit (with_working (advance_cursor now (cn_id conn) cur) s))))"

definition record_failure_health ::
  "time \<Rightarrow> int \<Rightarrow> int \<Rightarrow> json dict \<Rightarrow> session \<Rightarrow> unit res \<times> session" where
  "record_failure_health now tenant_id connection_id health s =
     (case set_connection_health now tenant_id connection_id health (working s) of
        Inl e \<Rightarrow> (Inl e, s)
      | Inr (_, d) \<Rightarrow> (Inr (), commit (s\<lparr>working := d\<rparr>)))"

definition active_by_ref :: "source list \<Rightarrow> source dict" where
  "active_by_ref sources = foldl (\<lambda>m s. AList.update (sr_source_ref s) s m) []
     (filter (\<lambda>s. sr_enabled s \<and> sr_status s = Src_active \<and> sr_deleted_at s = None) sources)"

record tally =
  ta_processed :: int
  ta_dedup :: int
  ta_rejected :: int
  ta_ignored :: int

definition zero_tally :: tally where
  "zero_tally = \<lparr>ta_processed = 0, ta_dedup = 0, ta_rejected = 0, ta_ignored = 0\<rparr>"

fun count_outcome :: "ingest_outcome \<Rightarrow> tally \<Rightarrow> tally" where
  "count_outcome Ing_deduplicated t = t\<lparr>ta_dedup := ta_dedup t + 1\<rparr>"
| "count_outcome Ing_rejected t = t\<lparr>ta_rejected := ta_rejected t + 1\<rparr>"
| "count_outcome _ t = t\<lparr>ta_processed := ta_processed t + 1\<rparr>"

text \<open>
  The loop over the batch: every update handled, or stopped by an infrastructure error, or left by
  an exception the worker does not catch. Only an infrastructure error is handled by the caller.
\<close>

fun run_updates ::
  "worker_env \<Rightarrow> provider_ops \<Rightarrow> int \<Rightarrow> int \<Rightarrow> source dict \<Rightarrow> json dict list \<Rightarrow> nat \<Rightarrow> tally \<Rightarrow> session
    \<Rightarrow> (exn option \<times> tally) \<times> session" where
  "run_updates E P tenant_id connection_id active [] n t s = ((None, t), s)"
| "run_updates E P tenant_id connection_id active (raw # raws) n t s =
     (case po_source_ref P raw of
        Inl e \<Rightarrow> ((Some e, t), s)
      | Inr ref \<Rightarrow>
          (case map_of active ref of
             None \<Rightarrow>
               (case advance_ignored (we_now E) tenant_id connection_id (raw_cursor raw) s of
                  (Inl e, s') \<Rightarrow> ((Some e, t\<lparr>ta_ignored := ta_ignored t + 1\<rparr>), s')
                | (Inr _, s') \<Rightarrow> run_updates E P tenant_id connection_id active raws (Suc n)
                                  (t\<lparr>ta_ignored := ta_ignored t + 1\<rparr>) s')
           | Some source \<Rightarrow>
               (case ingest_update (we_hash E) (we_fromiso E) (we_fault E n) (we_now E) source raw
                       (\<lambda>_. Inr ()) (po_normalize P) s of
                  (Inl e, s') \<Rightarrow> ((Some e, t), s')
                | (Inr res, s') \<Rightarrow> run_updates E P tenant_id connection_id active raws (Suc n)
                                    (count_outcome (ir_outcome res) t) s')))"

definition cycle_counts :: "json dict \<Rightarrow> tally \<Rightarrow> json dict" where
  "cycle_counts health t =
     [(''last_cycle_processed'', JInt (ta_processed t)), (''last_cycle_deduplicated'', JInt (ta_dedup t)),
      (''last_cycle_rejected'', JInt (ta_rejected t)), (''last_cycle_ignored'', JInt (ta_ignored t)),
      (''deduplicated_updates'', JInt (as_non_negative_int (jget health ''deduplicated_updates'') + ta_dedup t)),
      (''ignored_updates'', JInt (as_non_negative_int (jget health ''ignored_updates'') + ta_ignored t))]"

definition success_health :: "provider_health \<Rightarrow> event_metrics \<Rightarrow> json dict \<Rightarrow> tally \<Rightarrow> json dict" where
  "success_health h metrics previous t =
     (let h0 = health_dict h;
          h1 = (if em_last_event_at metrics \<noteq> []
                then AList.update ''last_event_at'' (JStr (em_last_event_at metrics)) h0 else h0)
      in dict_merge h1
        ([(''persisted_events'', JInt (em_persisted metrics)),
          (''processed_updates'', JInt (max (as_non_negative_int (jget previous ''processed_updates''))
             (em_processed metrics))),
          (''rejected_updates'', JInt (max (as_non_negative_int (jget previous ''rejected_updates''))
             (em_rejected metrics)))]
         @ cycle_counts previous t
         @ [(''error_code'', JStr []), (''retry_after_seconds'', JNull)]))"

definition worker_result :: "int \<Rightarrow> string \<Rightarrow> tally \<Rightarrow> string option \<Rightarrow> string \<Rightarrow> worker_outcome" where
  "worker_result connection_id status t cur error_code =
     \<lparr>wo_connection_id = connection_id, wo_status = status, wo_processed = ta_processed t,
      wo_deduplicated = ta_dedup t, wo_rejected = ta_rejected t, wo_ignored = ta_ignored t,
      wo_cursor = cur, wo_error_code = error_code\<rparr>"

definition fail_connection ::
  "worker_env \<Rightarrow> int \<Rightarrow> int \<Rightarrow> string option \<Rightarrow> string \<Rightarrow> string \<Rightarrow> json dict \<Rightarrow> session
    \<Rightarrow> worker_outcome res \<times> session" where
  "fail_connection E tenant_id connection_id cur state code extra s =
     (case record_failure_health (we_now E) tenant_id connection_id
             ([(''state'', JStr state), (''checked_at'', JStr (isoformat (we_now E))),
               (''error_code'', JStr code)] @ extra) s of
        (Inl e, s') \<Rightarrow> (Inl e, s')
      | (Inr _, s') \<Rightarrow> (Inr (worker_result connection_id ''failed'' zero_tally cur code), s'))"

definition finish_failed ::
  "worker_env \<Rightarrow> int \<Rightarrow> int \<Rightarrow> tally \<Rightarrow> session \<Rightarrow> worker_outcome res \<times> session" where
  "finish_failed E tenant_id connection_id t s =
     (case get_connection tenant_id connection_id (working s) of
        Inl e \<Rightarrow> (Inl e, s)
      | Inr conn \<Rightarrow>
          (case record_failure_health (we_now E) tenant_id connection_id
                  ([(''state'', JStr ''degraded''), (''checked_at'', JStr (isoformat (we_now E))),
                    (''error_code'', JStr ''ingest_infrastructure_error'')]
                   @ cycle_counts (connection_health conn) t) s of
             (Inl e, s') \<Rightarrow> (Inl e, s')
           | (Inr _, s') \<Rightarrow>
               (case get_connection tenant_id connection_id (working s') of
                  Inl e \<Rightarrow> (Inl e, s')
                | Inr c \<Rightarrow> (Inr (worker_result connection_id ''failed'' t (cn_cursor c)
                             ''ingest_infrastructure_error''), s'))))"

definition finish_ok ::
  "worker_env \<Rightarrow> int \<Rightarrow> int \<Rightarrow> provider_health \<Rightarrow> tally \<Rightarrow> session \<Rightarrow> worker_outcome res \<times> session" where
  "finish_ok E tenant_id connection_id h t s =
     (case get_connection tenant_id connection_id (working s) of
        Inl e \<Rightarrow> (Inl e, s)
      | Inr conn \<Rightarrow>
          (case record_failure_health (we_now E) tenant_id connection_id
                  (success_health h (event_metrics tenant_id connection_id (working s))
                     (connection_health conn) t) s of
             (Inl e, s') \<Rightarrow> (Inl e, s')
           | (Inr _, s') \<Rightarrow>
               (case get_connection tenant_id connection_id (working s') of
                  Inl e \<Rightarrow> (Inl e, s')
                | Inr c \<Rightarrow> (Inr (worker_result connection_id ''ok'' t (cn_cursor c) []), s'))))"

type_synonym worker_registries = "(provider_ops, unit, unit) registries"

definition run_connection_once ::
  "worker_env \<Rightarrow> worker_registries \<Rightarrow> int \<Rightarrow> int \<Rightarrow> session \<Rightarrow> worker_outcome res \<times> session" where
  "run_connection_once E regs tenant_id connection_id s =
     (case get_connection tenant_id connection_id (working s) of
        Inl e \<Rightarrow> (Inl e, s)
      | Inr conn \<Rightarrow>
          if cn_deleted_at conn \<noteq> None \<or> \<not> cn_enabled conn \<or> cn_status conn \<noteq> Conn_active
          then (Inr (worker_result connection_id ''disabled'' zero_tally (cn_cursor conn) []), s)
          else
            (case get (cn_provider conn) (providers regs) of
               None \<Rightarrow> fail_connection E tenant_id connection_id (cn_cursor conn) ''offline''
                         ''provider_unavailable'' [] s
             | Some P \<Rightarrow>
                 (case map_of (cn_secret_refs conn) ''bot_token'' of
                    None \<Rightarrow> fail_connection E tenant_id connection_id (cn_cursor conn)
                              ''unauthorized'' ''credential_unavailable'' [] s
                  | Some secret_ref \<Rightarrow>
                      if secret_ref = []
                      then fail_connection E tenant_id connection_id (cn_cursor conn)
                             ''unauthorized'' ''credential_unavailable'' [] s
                      else
                        (case po_poll P secret_ref (cn_cursor conn) (cn_config_json conn) of
                           Inl err \<Rightarrow>
                             (let g = provider_diagnostic err in
                              fail_connection E tenant_id connection_id (cn_cursor conn) (pd_state g) (pd_code g)
                                [(''retry_after_seconds'', opt_json (pd_retry_after_seconds g))] s)
                         | Inr batch \<Rightarrow>
                             (case run_updates E P tenant_id connection_id
                                     (active_by_ref (list_sources tenant_id (Some connection_id) (working s)))
                                     (cb_updates batch) 0 zero_tally s of
                                ((None, t), s') \<Rightarrow> finish_ok E tenant_id connection_id (cb_health batch) t s'
                              | ((Some e, t), s') \<Rightarrow>
                                  if e = IngestInfrastructureError
                                  then finish_failed E tenant_id connection_id t s'
                                  else (Inl e, s'))))))"

section \<open>All connections\<close>

definition active_connections :: "db \<Rightarrow> connection list" where
  "active_connections d = sort_key cn_id
     (filter (\<lambda>c. cn_enabled c \<and> cn_status c = Conn_active \<and> cn_deleted_at c = None) (db_connections d))"

fun run_connections ::
  "worker_env \<Rightarrow> worker_registries \<Rightarrow> connection list \<Rightarrow> worker_outcome list \<Rightarrow> session
    \<Rightarrow> worker_outcome list res \<times> session" where
  "run_connections E regs [] outs s = (Inr outs, s)"
| "run_connections E regs (c # cs) outs s =
     (case run_connection_once E regs (cn_tenant_id c) (cn_id c) s of
        (Inl e, s') \<Rightarrow> (Inl e, s')
      | (Inr out, s') \<Rightarrow> run_connections E regs cs (outs @ [out]) s')"

definition run_all_once ::
  "worker_env \<Rightarrow> worker_registries \<Rightarrow> session \<Rightarrow> worker_outcome list res \<times> session" where
  "run_all_once E regs s = run_connections E regs (active_connections (working s)) [] s"

section \<open>Properties\<close>

text \<open>Nothing of a provider's exception but a closed vocabulary reaches the stored diagnostics: the code and
  the state come from the allow-lists, or are the fixed fallbacks, and a retry delay is not negative.\<close>

theorem diagnostic_closed:
  "pd_code (provider_diagnostic e) \<in> insert ''provider_error'' (set ALLOWED_ERROR_CODES)
   \<and> pd_state (provider_diagnostic e) \<in> set ALLOWED_STATES
   \<and> (case pd_retry_after_seconds (provider_diagnostic e) of None \<Rightarrow> True | Some r \<Rightarrow> 0 \<le> r)"
  by (auto simp: provider_diagnostic_def Let_def ALLOWED_STATES_def split: option.splits)

definition tally_total :: "tally \<Rightarrow> int" where
  "tally_total t = ta_processed t + ta_dedup t + ta_rejected t + ta_ignored t"

lemma count_outcome_total: "tally_total (count_outcome out t) = tally_total t + 1"
  by (cases out) (simp_all add: tally_total_def)

text \<open>Every update of a polled batch is accounted for: when the loop over the batch ends without an error,
  the four counters together have grown by exactly the number of updates.\<close>

theorem batch_accounted:
  assumes "run_updates E P tenant_id connection_id active raws n t s = ((None, t'), s')"
  shows "tally_total t' = tally_total t + int (length raws)"
  using assms
proof (induction raws arbitrary: n t s)
  case (Cons raw raws)
  have ign: "tally_total (t\<lparr>ta_ignored := ta_ignored t + 1\<rparr>) = tally_total t + 1" by (simp add: tally_total_def)
  from Cons.prems show ?case
    by (auto simp: count_outcome_total ign split: sum.splits option.splits prod.splits dest!: Cons.IH)
qed simp

definition demo_ops :: provider_ops where
  "demo_ops = \<lparr>po_poll = (\<lambda>_ _ _. Inl \<lparr>pe_code = None, pe_state = None, pe_retry_after_seconds = JNull, pe_http_status = JNull\<rparr>),
     po_source_ref = (\<lambda>_. Inr ''unknown''), po_normalize = (\<lambda>_. Inl TypeError)\<rparr>"

theorem batch_accounted_witness:
  "tally_total (snd (fst (run_updates \<lparr>we_hash = id, we_fromiso = (\<lambda>_. None), we_now = 0, we_fault = (\<lambda>_. no_fault)\<rparr> demo_ops 7 1 [] [[], []]
     0 zero_tally demo_session))) = 2"
proof -
  have "\<exists>t' s'. run_updates \<lparr>we_hash = id, we_fromiso = (\<lambda>_. None), we_now = 0, we_fault = (\<lambda>_. no_fault)\<rparr> demo_ops 7 1 [] [[], []]
     0 zero_tally demo_session = ((None, t'), s')"
    by (simp add: demo_ops_def advance_ignored_def raw_cursor_def)
  then obtain t' s' where r: "run_updates \<lparr>we_hash = id, we_fromiso = (\<lambda>_. None), we_now = 0, we_fault = (\<lambda>_. no_fault)\<rparr> demo_ops 7 1 [] [[], []]
     0 zero_tally demo_session = ((None, t'), s')" by blast
  from batch_accounted [OF r] r show ?thesis by (simp add: zero_tally_def tally_total_def)
qed

text \<open>A connection that is not enabled and active is not polled: the outcome is \<open>disabled\<close>, whatever the
  provider would do, and neither the database nor the connection's health changes.\<close>

theorem disabled_not_polled:
  assumes "get_connection t i (working s) = Inr conn" "\<not> (cn_enabled conn \<and> cn_status conn = Conn_active)"
  shows "run_connection_once E regs t i s
    = (Inr \<lparr>wo_connection_id = i, wo_status = ''disabled'', wo_processed = 0, wo_deduplicated = 0, wo_rejected = 0,
         wo_ignored = 0, wo_cursor = cn_cursor conn, wo_error_code = []\<rparr>, s)"
  using assms by (simp add: run_connection_once_def worker_result_def zero_tally_def)

theorem disabled_not_polled_witness:
  "\<exists>out. fst (run_connection_once \<lparr>we_hash = id, we_fromiso = (\<lambda>_. None), we_now = 0, we_fault = (\<lambda>_. no_fault)\<rparr>
     (initial_registries :: worker_registries) 7 1 \<lparr>committed = empty_db, working = empty_db\<lparr>db_connections := [demo_conn\<lparr>cn_enabled := False\<rparr>]\<rparr>\<rparr>)
     = Inr out \<and> wo_status out = ''disabled''"
proof -
  let ?s = "\<lparr>committed = empty_db, working = empty_db\<lparr>db_connections := [demo_conn\<lparr>cn_enabled := False\<rparr>]\<rparr>\<rparr>"
  have "get_connection 7 1 (working ?s) = Inr (demo_conn\<lparr>cn_enabled := False\<rparr>)"
    by (simp add: get_connection_def demo_conn_def blank_connection_def)
  from disabled_not_polled [OF this, of "\<lparr>we_hash = id, we_fromiso = (\<lambda>_. None), we_now = 0, we_fault = (\<lambda>_. no_fault)\<rparr>" initial_registries]
  show ?thesis by simp
qed

text \<open>One malformed update stops the round: when a provider cannot name the source of the first update of a
  batch, the exception leaves \<open>run_all_once\<close> with the cursor and the health as they were, so the next round
  meets the same update, and the connections after it are not polled.\<close>

theorem poison_update_stops_round:
  assumes "active_connections (working s) = conn # conns" "get_connection (cn_tenant_id conn) (cn_id conn) (working s) = Inr conn"
    and "get (cn_provider conn) (providers regs) = Some P" "map_of (cn_secret_refs conn) ''bot_token'' = Some ref" "ref \<noteq> []"
    and "po_poll P ref (cn_cursor conn) (cn_config_json conn) = Inr batch" "cb_updates batch = raw # raws"
    and "po_source_ref P raw = Inl e" "e \<noteq> IngestInfrastructureError"
  shows "run_all_once E regs s = (Inl e, s)"
proof -
  have "conn \<in> set (active_connections (working s))" using assms(1) by simp
  then have "cn_enabled conn" "cn_status conn = Conn_active" "cn_deleted_at conn = None" by (auto simp: active_connections_def)
  with assms(2-) have "run_connection_once E regs (cn_tenant_id conn) (cn_id conn) s = (Inl e, s)"
    by (simp add: run_connection_once_def)
  with assms(1) show ?thesis by (simp add: run_all_once_def)
qed

definition poison_batch :: collection_batch where
  "poison_batch = \<lparr>cb_updates = [[]], cb_next_cursor = None,
       cb_health = \<lparr>ph_state = ''healthy'', ph_checked_at = [], ph_last_success_at = [], ph_last_event_at = [],
         ph_lag_seconds = None, ph_error_code = [], ph_retry_after_seconds = None\<rparr>\<rparr>"

definition poison_ops :: provider_ops where
  "poison_ops = \<lparr>po_poll = (\<lambda>_ _ _. Inr poison_batch),
     po_source_ref = (\<lambda>_. Inl KeyError), po_normalize = (\<lambda>_. Inl TypeError)\<rparr>"

theorem poison_update_stops_round_witness:
  "run_all_once \<lparr>we_hash = id, we_fromiso = (\<lambda>_. None), we_now = 0, we_fault = (\<lambda>_. no_fault)\<rparr>
     \<lparr>providers = \<lparr>rg_kind = [], rg_items = [(''telegram'', poison_ops)]\<rparr>, classifiers = new_registry [],
        correlators = new_registry [], alert_channels = new_registry []\<rparr>
     \<lparr>committed = empty_db, working = empty_db\<lparr>db_connections := [demo_conn\<lparr>cn_secret_refs := [(''bot_token'', ''r'')]\<rparr>]\<rparr>\<rparr>
   = (Inl KeyError, \<lparr>committed = empty_db, working = empty_db\<lparr>db_connections := [demo_conn\<lparr>cn_secret_refs := [(''bot_token'', ''r'')]\<rparr>]\<rparr>\<rparr>)"
proof -
  let ?c = "demo_conn\<lparr>cn_secret_refs := [(''bot_token'', ''r'')]\<rparr>"
  have n: "norm ''telegram'' = ''telegram''" by code_simp
  show ?thesis
    by (rule poison_update_stops_round [where conn = ?c and conns = "[]" and P = poison_ops and ref = "''r''" and raw = "[]" and raws = "[]" and batch = poison_batch])
      (simp_all add: active_connections_def get_connection_def demo_conn_def blank_connection_def poison_ops_def poison_batch_def get_def n)
qed

end
