(* ===== verification/Spec2Isabelle.thy ===== *)
theory Spec2Isabelle
  imports AccountProps AnalysisRun Auth BrandOps CaseProps CorrelationProps IntegrationProps Similarity
    SurfaceProps Worker
begin

text \<open>
  ThreatForge: how messages of authorised sources become evidence events, findings and cases, how files of
  leaked data become exposure findings, how monitored brands are watched for look-alike domains, tenant by
  tenant, and the accounts and gates around it.

  The program. A tenant's connection (\<open>app/collection/service.py\<close>) holds a provider's bot; its sources are
  the chats it may read. The worker (\<open>worker.py\<close>) polls every active connection and hands each update to
  \<open>ingest_update\<close> (\<open>ingest.py\<close>), which stores one event and moves the connection's cursor in one
  transaction; a TF-VERIFY handshake (\<open>verify.py\<close>) becomes a control event instead. The analysis queue
  (\<open>analysis.py\<close>) gives events to one worker at a time; \<open>analyze_event\<close>
  (\<open>intelligence_analysis.py\<close>) sanitises what the Enterprise classifier and correlator answer, binds it to
  a target of the tenant and promotes it to a finding and a case. Notifications go through an outbox
  (\<open>outbox.py\<close>), retention clears old content (\<open>retention.py\<close>), every request passes
  \<open>app/auth.py\<close> and \<open>app/features.py\<close>.

  Exposure monitoring (\<open>app/exposure_ingest.py\<close>, \<open>app/routers/exposure_routes.py\<close>) parses files of leaked
  credentials and identities, redacts and deduplicates each record, scores it (\<open>app/risk.py\<close>), and keeps a
  dossier per address (\<open>app/credential_intel.py\<close>). Brand monitoring (\<open>app/brand\<close>,
  \<open>app/routers/brands.py\<close>) generates look-alike domains, gathers network evidence, scores them and alerts.
  Findings become investigation cases (\<open>app/routers/cases_routes.py\<close>) with notes, reviews and evidence files
  (\<open>app/evidence_store.py\<close>). Users log in, change passwords, are invited to tenants and administered by their
  tenant's administrators (\<open>app/routers/auth_routes.py\<close>, \<open>app/invites.py\<close>); operators of the platform create tenants,
  API keys, invitations and other operators (\<open>app/routers/tenants_routes.py\<close>). The attack surface of a tenant is
  discovered from its brands' domains, triaged and promoted to findings (\<open>app/surface_discovery.py\<close>,
  \<open>app/routers/surface_routes.py\<close>); indicators are validated, enriched by connectors and scored
  (\<open>app/routers/observables.py\<close>, \<open>app/connectors\<close>, \<open>app/scoring.py\<close>); and what shares an identifier is shown as a
  graph, from which a case takes its brand (\<open>app/correlation.py\<close>). Connections to other platforms are configured under
  the feature gate without storing their secrets (\<open>app/integrations\<close>, \<open>app/routers/integrations_routes.py\<close>).

  The theories, in the order of the code.
  \<^item> \<open>Prelude\<close>: Python strings (code points below 256), dynamically typed JSON values without floats,
    dictionaries as association lists in insertion order, tables as row lists, exceptions as a sum type, and
    the shared interfaces: \<open>row_store\<close> (a table), \<open>preserved\<close> (a step relation and its invariant),
    \<open>absorbing\<close> (final states).
  \<^item> \<open>States\<close>, \<open>Store\<close>: the status vocabularies, one record per table of \<open>app/models.py\<close> with its column
    defaults and unique indexes, the database, and a session as committed and working database
    (\<open>autoflush\<close> is off, so queries see flushed rows only).
  \<^item> \<open>Registry\<close> (\<open>registry_spec\<close>), \<open>Secrets\<close> (\<open>opaque_store\<close>, \<open>secret_store\<close>), \<open>Verify\<close>, \<open>Envelope\<close>, \<open>Outbox\<close>,
    \<open>Contracts\<close>: the leaf modules.
  \<^item> \<open>Service\<close>, \<open>Alerts\<close>, \<open>ServiceSteps\<close>: every service operation, and all of them as one machine whose
    invariant holds in every reachable state.
  \<^item> \<open>Ingest\<close>, \<open>IngestProps\<close>: one update with flush faults and concurrent inserts as parameters.
  \<^item> \<open>Analysis\<close>: the queue, an event's life as a step relation, and runs of queue operations.
  \<^item> \<open>Retention\<close>: audit entries and the purge. \<open>Intelligence\<close>, \<open>Promotion\<close>, \<open>AnalysisRun\<close>: the analysis.
  \<^item> \<open>Worker\<close>, \<open>Features\<close>, \<open>Auth\<close>, \<open>Similarity\<close> (\<open>app/brand/similarity.py\<close>).
  \<^item> \<open>PyText\<close>: the text functions of the standard library the parsers use (\<open>splitlines\<close>, the CSV reader).
  \<^item> \<open>Brand\<close> (candidates, scoring), \<open>BrandScan\<close> (the scanner), \<open>BrandOps\<close> (the routes, the dispatch of
    alerts, and all brand requests as one machine).
  \<^item> \<open>ExposureIngest\<close> (redaction, keys, parsers), \<open>Exposure\<close> (tables, risk, dossiers, routes),
    \<open>ExposureSteps\<close> (what each route does to the tables, all of them as one machine),
    \<open>ExposureSightings\<close> (the findings as a counter of sightings), \<open>ExposureProps\<close> (the properties).
  \<^item> \<open>Cases\<close> (tables, routes, evidence store; a request answers and leaves a database even when it fails,
    because the audit trail commits), \<open>CaseSteps\<close> (what each request does to the tables), \<open>CaseProps\<close>.
  \<^item> \<open>Accounts\<close> (users with their sessions and login attempts, invitations, tenants, API keys, operators and
    their grants, on the principals of \<open>Auth\<close>), \<open>AccountSteps\<close> (every request as changes of the tables, the
    requests of members, of operators and of anyone as step relations), \<open>AccountProps\<close>.
  \<^item> \<open>Schemas\<close> (the patterns and the normalisation of indicators and addresses), \<open>Observables\<close> (tables, connectors,
    score, routes, and both writing requests as one machine).
  \<^item> \<open>Surface\<close> (tables, readers of the network's answers, discovery, routes), \<open>SurfaceSteps\<close> (what each request does
    to the table, and the sightings a discovery consists of), \<open>SurfaceProps\<close> (surface and exposure requests as one
    machine).
  \<^item> \<open>Correlation\<close> (identifiers, the graph of a seed, the case of a finding), \<open>CorrelationProps\<close>.
  \<^item> \<open>Integrations\<close> (descriptors, secret markers, the gate and the routes; a refusal is audited, so a request leaves a
    database even when it fails), \<open>IntegrationProps\<close>.

  What the properties show. Isolation: no service operation touches another tenant's rows, a finding never
  names another tenant's asset, the effective tenant is granted, contexts stay in their source. Atomicity:
  an outcome and its cursor are committed together or not at all, an analysis too. Exclusion: one bot in one
  connection, one worker on one event. Custody: case history is
  append-only and a file comes back as it was stored. Accounts: setting a password ends every session, an
  invitation is used once and binds to its tenant, an administrator cannot lock himself out, guesses are
  bounded in every window of time. Round trips: secrets, evidence, validated indicators. Exactness: fingerprints,
  the edit distance, the verdict of a domain, the accounting of an import, which findings a graph links, when a case
  has a brand. Secrets: bodies that differ in secret values only are saved alike, and a saved connection is
  ready. Idempotence: a repeated discovery and a repeated promotion create nothing. Scores: between 0 and 100,
  and kept when every source fails.
  Refinement: an import is a counter of sightings stepped through its records. Liveness and its limits:
  batches end and are bounded, and inputs that stop progress: two poison inputs of the worker and the
  analysis, and a file that repeats an identity. Errors that leave a trace: a refused PATCH of a case.

  Parameters. SHA-256 is a function \<open>H\<close> (a claim that needs it says that it does not collide on its texts);
  the HMAC, base64 and JSON decoding of tokens, the slow hash of API keys, the process environment, secret
  files, \<open>datetime.fromisoformat\<close>, the clock, the Enterprise package's providers, classifiers and
  correlators (functions to a value or an exception) and the licence status are arguments. The record
  \<open>network\<close> holds what DNS, RDAP, crt.sh and URLhaus answer; \<open>intel_env\<close> what EPSS and URLhaus answer about an
  indicator and the rounding of a probability; \<open>exposure_env\<close> holds SHA-256, \<open>json.loads\<close>, the
  rounding of weighted risk points and how the driver takes a dynamically typed value for a column.
  \<open>account_env\<close> holds the slow hash, SHA-256, the mail server and the settings of links and sessions; generated
  secrets are arguments of the operations that generate them, and a claim about a secret names the secrets that
  are not generated again (\<open>T\<close>). A session token is the payload that is signed.

  Bounds. No fuel is used: the only loop without a structural bound, \<open>run_analysis_once\<close>, is a function whose termination
  is proved from the budget every round with progress spends.

  Not modelled. The HTTP routes of the other features, exporters, reports and dashboards (presentation), the
  sending of mail and chat messages, the other connectors (I/O), migrations and the self-test program,
  PBKDF2 and random generation (library calls). Cookies and the removal of a tenant (no route removes one). Characters above 255, floats and time zones other than UTC are outside the data model.
\<close>

end
